(* ===== verification/Prelude.thy ===== *)
theory Prelude
  imports Main "HOL-Library.Word"
begin

section \<open>Shared types, outcomes and lemmas\<close>

text \<open>
  What every component theory shares: names for the machine types of the Go code, the outcome
  type of operations that may return an error or stop with a run-time panic, little-endian
  conversion as package \<open>encoding/binary\<close> does it, checked indexing of slices, and the generic
  list lemmas of the proofs. A function that can only panic returns an \<open>option\<close>
  (\<open>None\<close> is the panic); one that can also return an error returns an \<open>outcome\<close>.
\<close>

unbundle bit_operations_syntax

named_theorems panic_simps \<open>evaluation of checked operations that do not panic\<close>

subsection \<open>Machine types\<close>

type_synonym u8 = "8 word"
type_synonym u16 = "16 word"
type_synonym u32 = "32 word"

text \<open>The signed types have the same words; \<open>sint\<close> reads them.\<close>

type_synonym i8 = "8 word"
type_synonym i16 = "16 word"
type_synonym i32 = "32 word"

subsection \<open>Outcomes\<close>

datatype ('e, 'a) outcome = Ret 'a | Fail 'e | Panic

primrec obind :: "('e, 'a) outcome \<Rightarrow> ('a \<Rightarrow> ('e, 'b) outcome) \<Rightarrow> ('e, 'b) outcome" where
  "obind (Ret x) f = f x"
| "obind (Fail e) f = Fail e"
| "obind Panic f = Panic"

lemma obind_Ret_iff: "obind m f = Ret y \<longleftrightarrow> (\<exists>x. m = Ret x \<and> f x = Ret y)"
  by (cases m) auto

lemma obind_Ret_right [simp]: "obind m Ret = m"
  by (cases m) auto

lemma obind_assoc: "obind (obind m f) g = obind m (\<lambda>x. obind (f x) g)"
  by (cases m) auto

lemma obind_cong [fundef_cong]:
  "m = m' \<Longrightarrow> (\<And>x. m' = Ret x \<Longrightarrow> f x = f' x) \<Longrightarrow> obind m f = obind m' f'"
  by (cases m') auto

text \<open>An optional result as an outcome: \<open>None\<close> is a panic.\<close>

definition of_panic :: "'a option \<Rightarrow> ('e, 'a) outcome" where
  "of_panic m = (case m of None \<Rightarrow> Panic | Some x \<Rightarrow> Ret x)"

lemma of_panic_simps [simp]: "of_panic None = Panic" "of_panic (Some x) = Ret x"
  by (simp_all add: of_panic_def)

text \<open>A loop that calls a step which may panic.\<close>

primrec fold_opt :: "('s \<Rightarrow> 'x \<Rightarrow> 's option) \<Rightarrow> 'x list \<Rightarrow> 's \<Rightarrow> 's option" where
  "fold_opt f [] s = Some s"
| "fold_opt f (x # xs) s = (case f s x of None \<Rightarrow> None | Some s' \<Rightarrow> fold_opt f xs s')"

lemma fold_opt_invariant:
  assumes "\<And>x s s'. x \<in> set xs \<Longrightarrow> f s x = Some s' \<Longrightarrow> P s \<Longrightarrow> P s'"
  shows "fold_opt f xs s = Some s' \<Longrightarrow> P s \<Longrightarrow> P s'"
  using assms
proof (induction xs arbitrary: s)
  case (Cons x xs)
  from Cons.prems(1) obtain s1 where s1: "f s x = Some s1" "fold_opt f xs s1 = Some s'"
    by (auto split: option.splits)
  have "P s1" using Cons.prems(3) [OF _ s1(1) Cons.prems(2)] by simp
  then show ?case using Cons.IH [OF s1(2)] Cons.prems(3) by (meson list.set_intros(2))
qed simp

lemma fold_opt_append: "fold_opt f (xs @ ys) s = (case fold_opt f xs s of None \<Rightarrow> None | Some s' \<Rightarrow> fold_opt f ys s')"
  by (induction xs arbitrary: s) (auto split: option.splits)

subsection \<open>The order of a range over a map\<close>

text \<open>Go ranges over a map in any order, each key once. Maps of a program are finite.\<close>

definition range_order :: "(('k \<rightharpoonup> 'v) \<Rightarrow> 'k list) \<Rightarrow> bool" where
  "range_order order \<longleftrightarrow> (\<forall>m. finite (dom m) \<longrightarrow> distinct (order m) \<and> set (order m) = dom m)"

lemma range_order_sorted: "range_order (\<lambda>m. sorted_list_of_set (dom m))"
  by (simp add: range_order_def)

subsection \<open>Checked slice access\<close>

definition index :: "'a list \<Rightarrow> nat \<Rightarrow> 'a option" where
  "index xs i = (if i < length xs then Some (xs ! i) else None)"

definition store :: "'a list \<Rightarrow> nat \<Rightarrow> 'a \<Rightarrow> 'a list option" where
  "store xs i x = (if i < length xs then Some (xs[i := x]) else None)"

definition subslice :: "'a list \<Rightarrow> nat \<Rightarrow> nat \<Rightarrow> 'a list option" where
  "subslice xs a b = (if a \<le> b \<and> b \<le> length xs then Some (take (b - a) (drop a xs)) else None)"

lemma index_in [panic_simps]: "i < length xs \<Longrightarrow> index xs i = Some (xs ! i)"
  by (simp add: index_def)

lemma index_out: "length xs \<le> i \<Longrightarrow> index xs i = None"
  by (simp add: index_def)

lemma store_in [panic_simps]: "i < length xs \<Longrightarrow> store xs i x = Some (xs[i := x])"
  by (simp add: store_def)

lemma subslice_in [panic_simps]:
  "a \<le> b \<Longrightarrow> b \<le> length xs \<Longrightarrow> subslice xs a b = Some (take (b - a) (drop a xs))"
  by (simp add: subslice_def)

lemma subslice_out: "length xs < b \<Longrightarrow> subslice xs a b = None"
  by (simp add: subslice_def)

lemma take_drop_two: "Suc i < length xs \<Longrightarrow> take 2 (drop i xs) = [xs ! i, xs ! Suc i]"
  by (simp add: Cons_nth_drop_Suc [symmetric] numeral_2_eq_2)

lemma take_drop_four:
  "i + 3 < length xs \<Longrightarrow> take 4 (drop i xs) = [xs ! i, xs ! (i+1), xs ! (i+2), xs ! (i+3)]"
  by (simp add: Cons_nth_drop_Suc [symmetric] eval_nat_numeral)

subsection \<open>Little-endian integers\<close>

definition le_uint16 :: "u8 \<Rightarrow> u8 \<Rightarrow> u16" where
  "le_uint16 b0 b1 = ucast b0 OR push_bit 8 (ucast b1)"

definition le_uint32 :: "u8 \<Rightarrow> u8 \<Rightarrow> u8 \<Rightarrow> u8 \<Rightarrow> u32" where
  "le_uint32 b0 b1 b2 b3 =
     ucast b0 OR push_bit 8 (ucast b1) OR push_bit 16 (ucast b2) OR push_bit 24 (ucast b3)"

definition put_uint16 :: "u16 \<Rightarrow> u8 list" where
  "put_uint16 v = [ucast v, ucast (drop_bit 8 v)]"

definition put_uint32 :: "u32 \<Rightarrow> u8 list" where
  "put_uint32 v = [ucast v, ucast (drop_bit 8 v), ucast (drop_bit 16 v), ucast (drop_bit 24 v)]"

lemma le_uint16_put [simp]: "le_uint16 (ucast v) (ucast (drop_bit 8 v)) = v"
  unfolding le_uint16_def by (rule bit_word_eqI) (auto simp: bit_simps)

lemma le_uint32_put [simp]:
  "le_uint32 (ucast v) (ucast (drop_bit 8 v)) (ucast (drop_bit 16 v)) (ucast (drop_bit 24 v)) = v"
proof (rule bit_word_eqI)
  fix n
  assume "n < LENGTH(32)"
  then show "bit (le_uint32 (ucast v) (ucast (drop_bit 8 v)) (ucast (drop_bit 16 v))
      (ucast (drop_bit 24 v))) n = bit v n"
    unfolding le_uint32_def
    by (cases "24 \<le> n"; cases "16 \<le> n") (auto simp: bit_simps not_less)
qed

lemma le_uint16_zero_high: "le_uint16 b 0 = ucast b"
  by (simp add: le_uint16_def)

lemma le_uint16_eq_0_iff: "le_uint16 a b = 0 \<longleftrightarrow> a = 0 \<and> b = 0"
proof
  assume *: "le_uint16 a b = 0"
  have "\<not> bit a n" for n
  proof
    assume "bit a n"
    then have "bit (le_uint16 a b) n"
      using bit_imp_le_length [of a n] by (simp add: le_uint16_def bit_simps)
    with * show False by simp
  qed
  moreover have "\<not> bit b n" for n
  proof
    assume "bit b n"
    then have "bit (le_uint16 a b) (n + 8)"
      using bit_imp_le_length [of b n] by (simp add: le_uint16_def bit_simps)
    with * show False by simp
  qed
  ultimately show "a = 0 \<and> b = 0" by (auto intro: bit_word_eqI)
qed (simp add: le_uint16_def)

text \<open>Testing one bit with a mask, as the code writes it.\<close>

declare and_exp_eq_0_iff_not_bit [simp]

lemma and_push_bit_1: "(x AND push_bit k 1 = 0) \<longleftrightarrow> \<not> bit x k" for x :: "'a::len word"
  by simp

lemma bit_exp_u8 [simp]: "bit (2 ^ k :: u8) (n mod 8) \<longleftrightarrow> k = n mod 8"
  by (auto simp: bit_exp_iff)

lemma bit_u8_less: "bit (x :: u8) n \<Longrightarrow> n < 8"
  using bit_imp_le_length by fastforce

subsection \<open>Narrow integers\<close>

lemma ucast_ucast_u32: "ucast (ucast v :: u8) = take_bit 8 v" for v :: u32
  by (rule bit_word_eqI) (auto simp: bit_simps)

lemma ucast_ucast_u16: "ucast (ucast v :: u8) = take_bit 8 v" for v :: u16
  by (rule bit_word_eqI) (auto simp: bit_simps)

lemma take_bit_low: "v < 0x100 \<Longrightarrow> take_bit 8 v = v" for v :: u32
  by (simp add: word_unat_eq_iff word_less_nat_alt unsigned_take_bit_eq take_bit_nat_eq_self)

lemma take_bit_low16: "v < 0x100 \<Longrightarrow> take_bit 8 v = v" for v :: u16
  by (simp add: word_unat_eq_iff word_less_nat_alt unsigned_take_bit_eq take_bit_nat_eq_self)

lemma ucast_byte16: "k < 0x100 \<Longrightarrow> ucast (ucast k :: u8) = k" for k :: u16
  by (simp only: ucast_ucast_u16 take_bit_low16)

lemma ucast_u8_u16_inj [simp]: "(ucast v :: u16) = ucast w \<longleftrightarrow> v = w" for v w :: u8
proof
  assume eq: "(ucast v :: u16) = ucast w"
  show "v = w"
  proof (rule bit_word_eqI)
    fix n assume "n < LENGTH(8)"
    then show "bit v n = bit w n"
      using arg_cong [OF eq, of "\<lambda>x. bit x n"] by (simp add: bit_simps)
  qed
qed simp

subsection \<open>Lists\<close>

lemma nth_list_update_if: "i < length xs \<Longrightarrow> xs[i := x] ! j = (if j = i then x else xs ! j)"
  by simp

lemma upt_0_Suc: "[0..<Suc m] = 0 # map Suc [0..<m]"
  by (simp add: map_Suc_upt upt_conv_Cons del: upt_Suc)

lemma butlast_snoc_last: "xs \<noteq> [] \<Longrightarrow> butlast xs @ last xs # ys = xs @ ys"
  by (metis append_Cons append_assoc append_butlast_last_id append_self_conv2)

lemma filter_fold_append: "fold (\<lambda>x acc. if P x then acc @ [f x] else acc) xs a
    = a @ map f (filter P xs)"
  by (induction xs arbitrary: a) auto

end
