(* ===== verification/HidDesc.thy ===== *)
theory HidDesc
  imports Prelude
begin

section \<open>Usages and report descriptors (hidapi/usage.go, hidapi/hiddesc/descriptor.go, tags.go)\<close>

text \<open>
  The data model of the HID packages: usages (a page and an identifier in one 32-bit word), data
  flags, data items, collections and report descriptors, with the operations of
  \<open>descriptor.go\<close>, and the item tags of the descriptor's byte encoding. A struct with two optional
  pointers stays one: \<open>MainItem\<close> carries both as options.
\<close>

subsection \<open>Usages\<close>

type_synonym Usage = u32

definition Usage_Page :: "Usage \<Rightarrow> u16" where
  "Usage_Page u = ucast (drop_bit 16 u)"

definition Usage_ID :: "Usage \<Rightarrow> u16" where
  "Usage_ID u = ucast u"

definition NewUsage :: "u16 \<Rightarrow> u16 \<Rightarrow> Usage" where
  "NewUsage page i = push_bit 16 (ucast page) OR ucast i"

lemma Page_NewUsage [simp]: "Usage_Page (NewUsage p i) = p"
  unfolding Usage_Page_def NewUsage_def
  by (rule bit_word_eqI) (auto simp: bit_simps dest: bit_imp_le_length)

lemma ID_NewUsage [simp]: "Usage_ID (NewUsage p i) = i"
  unfolding Usage_ID_def NewUsage_def by (rule bit_word_eqI) (auto simp: bit_simps)

lemma NewUsage_Page_ID [simp]: "NewUsage (Usage_Page u) (Usage_ID u) = u"
proof (rule bit_word_eqI)
  fix n assume "n < LENGTH(32)"
  then show "bit (NewUsage (Usage_Page u) (Usage_ID u)) n = bit u n"
    by (cases "16 \<le> n") (auto simp: NewUsage_def Usage_Page_def Usage_ID_def bit_simps)
qed

lemma Usage_eq_iff: "u = v \<longleftrightarrow> Usage_Page u = Usage_Page v \<and> Usage_ID u = Usage_ID v"
  by (metis NewUsage_Page_ID)

lemma NewUsage_eq_iff [simp]: "NewUsage p i = NewUsage q j \<longleftrightarrow> p = q \<and> i = j"
  by (metis Page_NewUsage ID_NewUsage)

subsection \<open>Data flags\<close>

type_synonym DataFlags = u32

definition DataFlag :: "nat \<Rightarrow> DataFlags" where
  "DataFlag i = push_bit i 1"

definition IsConstant :: "DataFlags \<Rightarrow> bool" where "IsConstant d = (d AND DataFlag 0 \<noteq> 0)"
definition IsVariable :: "DataFlags \<Rightarrow> bool" where "IsVariable d = (d AND DataFlag 1 \<noteq> 0)"
definition IsRelative :: "DataFlags \<Rightarrow> bool" where "IsRelative d = (d AND DataFlag 2 \<noteq> 0)"
definition IsWrap :: "DataFlags \<Rightarrow> bool" where "IsWrap d = (d AND DataFlag 3 \<noteq> 0)"
definition IsNonLinear :: "DataFlags \<Rightarrow> bool" where "IsNonLinear d = (d AND DataFlag 4 \<noteq> 0)"
definition IsNoPreferred :: "DataFlags \<Rightarrow> bool" where "IsNoPreferred d = (d AND DataFlag 5 \<noteq> 0)"
definition IsNullState :: "DataFlags \<Rightarrow> bool" where "IsNullState d = (d AND DataFlag 6 \<noteq> 0)"
definition IsVolatile :: "DataFlags \<Rightarrow> bool" where "IsVolatile d = (d AND DataFlag 7 \<noteq> 0)"
definition IsBufferedBytes :: "DataFlags \<Rightarrow> bool" where "IsBufferedBytes d = (d AND DataFlag 8 \<noteq> 0)"

subsection \<open>Items, collections, descriptors\<close>

datatype MainItemType =
  MainItemTypeInput | MainItemTypeOutput | MainItemTypeFeature | MainItemTypeCollection

type_synonym CollectionType = u8

record DataItem =
  Flags :: DataFlags
  UsagePage :: u16
  UsageIDs :: "u16 list"
  UsageMinimum :: u16
  UsageMaximum :: u16
  ReportCount :: u32
  ReportSize :: u32
  ReportID :: u8
  DesignatorIndex :: u8
  DesignatorMinimum :: u8
  DesignatorMaximum :: u8
  LogicalMinimum :: i32
  LogicalMaximum :: i32
  PhysicalMinimum :: i32
  PhysicalMaximum :: i32
  UnitExponent :: u32
  Unit :: u32

datatype Collection =
  Collection (CType: CollectionType) (CUsagePage: u16) (CUsageID: u16) (CItems: "MainItem list")
and MainItem =
  MainItem (MType: MainItemType) (MDataItem: "DataItem option") (MCollection: "Collection option")

text \<open>The descriptor is its list of top-level collections.\<close>

record ReportDescriptor =
  Collections :: "Collection list"

fun Collection_MaxReportSize :: "Collection \<Rightarrow> int"
  and items_MaxReportSize :: "MainItem list \<Rightarrow> int" where
  "Collection_MaxReportSize (Collection t p u items) = items_MaxReportSize items"
| "items_MaxReportSize [] = 0"
| "items_MaxReportSize (MainItem t d c # items) =
     (case d of None \<Rightarrow> 0 | Some i \<Rightarrow> uint (ReportSize i))
     + (case c of None \<Rightarrow> 0 | Some k \<Rightarrow> Collection_MaxReportSize k)
     + items_MaxReportSize items"

definition ReportDescriptor_MaxReportSize :: "ReportDescriptor \<Rightarrow> int" where
  "ReportDescriptor_MaxReportSize r = sum_list (map Collection_MaxReportSize (Collections r))"

text \<open>
  \<open>Clone\<close>: the cloned collection is a struct literal with \<open>Type\<close> and \<open>Items\<close> only, so its usage is
  the zero value; an item without data and without a collection becomes the zero item.
\<close>

fun Collection_Clone :: "Collection \<Rightarrow> Collection"
  and items_Clone :: "MainItem list \<Rightarrow> MainItem list" where
  "Collection_Clone (Collection t p u items) = Collection t 0 0 (items_Clone items)"
| "items_Clone [] = []"
| "items_Clone (MainItem t d c # items) =
     (case c of
        Some k \<Rightarrow> MainItem t None (Some (Collection_Clone k))
      | None \<Rightarrow>
          (case d of
             Some i \<Rightarrow> MainItem t (Some i) None
           | None \<Rightarrow> MainItem MainItemTypeInput None None))
     # items_Clone items"

definition ReportDescriptor_Clone :: "ReportDescriptor \<Rightarrow> ReportDescriptor" where
  "ReportDescriptor_Clone r =
     \<lparr>Collections = map (\<lambda>c. Collection (CType c) 0 0 (items_Clone (CItems c))) (Collections r)\<rparr>"

text \<open>
  \<open>Walk\<close>: the callback gets each item and may write through the item's data pointer (as
  \<open>OutputNode.buildDescriptor\<close> does), so it returns the data; its boolean stops the walk of the
  collection at hand only.
\<close>

fun Collection_Walk ::
    "(MainItem \<Rightarrow> 's \<Rightarrow> bool \<times> DataItem option \<times> 's) \<Rightarrow> Collection \<Rightarrow> 's \<Rightarrow> Collection \<times> 's"
  and items_Walk ::
    "(MainItem \<Rightarrow> 's \<Rightarrow> bool \<times> DataItem option \<times> 's) \<Rightarrow> MainItem list \<Rightarrow> 's \<Rightarrow> MainItem list \<times> 's" where
  "Collection_Walk f (Collection t p u items) s =
     (let (items', s') = items_Walk f items s in (Collection t p u items', s'))"
| "items_Walk f [] s = ([], s)"
| "items_Walk f (MainItem t d c # items) s =
     (case f (MainItem t d c) s of (go_on, d', s1) \<Rightarrow>
        if \<not> go_on then (MainItem t d' c # items, s1)
        else
          (case c of
             None \<Rightarrow>
               let (items', s3) = items_Walk f items s1
               in (MainItem t d' None # items', s3)
           | Some k \<Rightarrow>
               let (k', s2) = Collection_Walk f k s1;
                   (items', s3) = items_Walk f items s2
               in (MainItem t d' (Some k') # items', s3)))"

fun ReportDescriptor_Walk ::
  "(MainItem \<Rightarrow> 's \<Rightarrow> bool \<times> DataItem option \<times> 's) \<Rightarrow> Collection list \<Rightarrow> 's \<Rightarrow> Collection list \<times> 's" where
  "ReportDescriptor_Walk f [] s = ([], s)"
| "ReportDescriptor_Walk f (c # cs) s =
     (let (c', s1) = Collection_Walk f c s; (cs', s2) = ReportDescriptor_Walk f cs s1
      in (c' # cs', s2))"

subsection \<open>Tags\<close>

type_synonym Tag = u8

abbreviation (input) TagInput :: Tag where "TagInput \<equiv> 0x80"
abbreviation (input) TagOutput :: Tag where "TagOutput \<equiv> 0x90"
abbreviation (input) TagFeature :: Tag where "TagFeature \<equiv> 0xB0"
abbreviation (input) TagCollection :: Tag where "TagCollection \<equiv> 0xA0"
abbreviation (input) TagEndCollection :: Tag where "TagEndCollection \<equiv> 0xC0"
abbreviation (input) TagUsagePage :: Tag where "TagUsagePage \<equiv> 0x04"
abbreviation (input) TagLogicalMinimum :: Tag where "TagLogicalMinimum \<equiv> 0x14"
abbreviation (input) TagLogicalMaximum :: Tag where "TagLogicalMaximum \<equiv> 0x24"
abbreviation (input) TagPhysicalMinimum :: Tag where "TagPhysicalMinimum \<equiv> 0x34"
abbreviation (input) TagPhysicalMaximum :: Tag where "TagPhysicalMaximum \<equiv> 0x44"
abbreviation (input) TagUnitExponent :: Tag where "TagUnitExponent \<equiv> 0x54"
abbreviation (input) TagUnit :: Tag where "TagUnit \<equiv> 0x64"
abbreviation (input) TagReportSize :: Tag where "TagReportSize \<equiv> 0x74"
abbreviation (input) TagReportID :: Tag where "TagReportID \<equiv> 0x84"
abbreviation (input) TagReportCount :: Tag where "TagReportCount \<equiv> 0x94"
abbreviation (input) TagPush :: Tag where "TagPush \<equiv> 0xA4"
abbreviation (input) TagPop :: Tag where "TagPop \<equiv> 0xB4"
abbreviation (input) TagUsage :: Tag where "TagUsage \<equiv> 0x08"
abbreviation (input) TagUsageMinimum :: Tag where "TagUsageMinimum \<equiv> 0x18"
abbreviation (input) TagUsageMaximum :: Tag where "TagUsageMaximum \<equiv> 0x28"
abbreviation (input) TagDesignatorIndex :: Tag where "TagDesignatorIndex \<equiv> 0x38"
abbreviation (input) TagDesignatorMinimum :: Tag where "TagDesignatorMinimum \<equiv> 0x48"
abbreviation (input) TagDesignatorMaximum :: Tag where "TagDesignatorMaximum \<equiv> 0x58"
abbreviation (input) TagStringIndex :: Tag where "TagStringIndex \<equiv> 0x68"
abbreviation (input) TagStringMinimum :: Tag where "TagStringMinimum \<equiv> 0x78"
abbreviation (input) TagStringMaximum :: Tag where "TagStringMaximum \<equiv> 0x88"
abbreviation (input) TagDelimiter :: Tag where "TagDelimiter \<equiv> 0xA8"

type_synonym TagItemSize = u8

abbreviation (input) TagItemSize0 :: TagItemSize where "TagItemSize0 \<equiv> 0"
abbreviation (input) TagItemSize8 :: TagItemSize where "TagItemSize8 \<equiv> 1"
abbreviation (input) TagItemSize16 :: TagItemSize where "TagItemSize16 \<equiv> 2"
abbreviation (input) TagItemSize32 :: TagItemSize where "TagItemSize32 \<equiv> 3"

definition PayloadSize :: "Tag \<Rightarrow> TagItemSize" where
  "PayloadSize t = t AND 0x03"

definition WithItemSize :: "Tag \<Rightarrow> TagItemSize \<Rightarrow> Tag" where
  "WithItemSize t sz = (t AND 0xFC) OR sz"

type_synonym TagItemType = u8

abbreviation (input) TagItemTypeMain :: TagItemType where "TagItemTypeMain \<equiv> 0"
abbreviation (input) TagItemTypeGlobal :: TagItemType where "TagItemTypeGlobal \<equiv> 1"
abbreviation (input) TagItemTypeLocal :: TagItemType where "TagItemTypeLocal \<equiv> 2"

definition ItemType :: "Tag \<Rightarrow> TagItemType" where
  "ItemType t = t AND 0x0C"

definition TagPrefix :: "Tag \<Rightarrow> Tag" where
  "TagPrefix t = t AND 0xFC"

end
