(* ===== verification/HidEvent.thy ===== *)
theory HidEvent
  imports HidDesc
begin

section \<open>Events (hidapi/event.go)\<close>

text \<open>
  An event is a list of usage events with an index from usages to positions. The mutex of the code
  makes each operation atomic, so it has no part in the state. A slice access outside the list is
  \<open>None\<close>; the invariant rules it out. Under the invariant an event is a finite map from usages to
  usage events: the laws of that map are a locale.
\<close>

record UsageEvent =
  ue_Usage :: Usage
  ue_Activate :: "bool option"
  ue_Value :: "i32 option"
  ue_Delta :: "i32 option"

definition emptyUsageEvent :: UsageEvent where
  "emptyUsageEvent = \<lparr>ue_Usage = 0, ue_Activate = None, ue_Value = None, ue_Delta = None\<rparr>"

record Event =
  ev_ts :: int
  ev_usages :: "UsageEvent list"
  ev_usageMap :: "Usage \<rightharpoonup> nat"

text \<open>\<open>now\<close> is the reading of the clock.\<close>

definition NewEvent :: "int \<Rightarrow> Event" where
  "NewEvent now = \<lparr>ev_ts = now, ev_usages = [], ev_usageMap = Map.empty\<rparr>"

text \<open>The receiver may be nil.\<close>

definition Event_IsEmpty :: "Event option \<Rightarrow> bool" where
  "Event_IsEmpty h = (case h of None \<Rightarrow> True | Some e \<Rightarrow> length (ev_usages e) = 0)"

definition Event_addUsage :: "Event \<Rightarrow> UsageEvent \<Rightarrow> Event option" where
  "Event_addUsage h diff =
     (case ev_usageMap h (ue_Usage diff) of
        Some idx \<Rightarrow> map_option (\<lambda>us. h\<lparr>ev_usages := us\<rparr>) (store (ev_usages h) idx diff)
      | None \<Rightarrow>
          let us = ev_usages h @ [diff]
          in Some (h\<lparr>ev_usages := us,
                     ev_usageMap := (ev_usageMap h)(ue_Usage diff \<mapsto> length us - 1)\<rparr>))"

definition Event_removeUsage :: "Event \<Rightarrow> Usage \<Rightarrow> Event option" where
  "Event_removeUsage h usg =
     (case ev_usageMap h usg of
        None \<Rightarrow> Some h
      | Some idx \<Rightarrow>
          let last_idx = length (ev_usages h) - 1
          in case (if idx \<noteq> last_idx then
                     (case index (ev_usages h) last_idx of
                        None \<Rightarrow> None
                      | Some moved \<Rightarrow>
                          map_option
                            (\<lambda>us. h\<lparr>ev_usages := us,
                                    ev_usageMap := (ev_usageMap h)(ue_Usage moved \<mapsto> idx)\<rparr>)
                            (store (ev_usages h) idx moved))
                   else Some h) of
               None \<Rightarrow> None
             | Some h \<Rightarrow>
                 (case subslice (ev_usages h) 0 last_idx of
                    None \<Rightarrow> None
                  | Some us \<Rightarrow> Some (h\<lparr>ev_usages := us, ev_usageMap := (ev_usageMap h)(usg := None)\<rparr>)))"

definition Event_Suppress :: "Event \<Rightarrow> Usage list \<Rightarrow> Event option" where
  "Event_Suppress h us = fold_opt Event_removeUsage us h"

definition Event_Usage :: "Event \<Rightarrow> Usage \<Rightarrow> (UsageEvent \<times> bool) option" where
  "Event_Usage h usg =
     (case ev_usageMap h usg of
        None \<Rightarrow> Some (emptyUsageEvent, False)
      | Some idx \<Rightarrow> map_option (\<lambda>e. (e, True)) (index (ev_usages h) idx))"

definition Event_AddUsage :: "Event \<Rightarrow> UsageEvent list \<Rightarrow> Event option" where
  "Event_AddUsage h us = fold_opt Event_addUsage us h"

definition Event_Activate :: "Event \<Rightarrow> Usage list \<Rightarrow> Event option" where
  "Event_Activate h us = fold_opt Event_addUsage (map (\<lambda>u. emptyUsageEvent\<lparr>ue_Usage := u, ue_Activate := Some True\<rparr>) us) h"

definition Event_Deactivate :: "Event \<Rightarrow> Usage list \<Rightarrow> Event option" where
  "Event_Deactivate h us = fold_opt Event_addUsage (map (\<lambda>u. emptyUsageEvent\<lparr>ue_Usage := u, ue_Activate := Some False\<rparr>) us) h"

definition Event_SetValue :: "Event \<Rightarrow> Usage \<Rightarrow> i32 \<Rightarrow> Event option" where
  "Event_SetValue h u v = Event_addUsage h (emptyUsageEvent\<lparr>ue_Usage := u, ue_Value := Some v\<rparr>)"

definition Event_SetDelta :: "Event \<Rightarrow> Usage \<Rightarrow> i32 \<Rightarrow> Event option" where
  "Event_SetDelta h u v = Event_addUsage h (emptyUsageEvent\<lparr>ue_Usage := u, ue_Delta := Some v\<rparr>)"

definition Event_Usages :: "Event \<Rightarrow> UsageEvent list" where
  "Event_Usages h = ev_usages h"

definition Event_Clear :: "Event \<Rightarrow> Event" where
  "Event_Clear h = h\<lparr>ev_usages := [], ev_usageMap := Map.empty\<rparr>"

definition Event_Clone :: "Event \<Rightarrow> Event option" where
  "Event_Clone h = fold_opt Event_addUsage (ev_usages h) \<lparr>ev_ts = ev_ts h, ev_usages = [], ev_usageMap = Map.empty\<rparr>"

definition Event_Duration :: "int \<Rightarrow> Event \<Rightarrow> int" where
  "Event_Duration now h = now - ev_ts h"

subsection \<open>The contract: a finite map of usage events\<close>

locale usage_event_map =
  fixes lookup :: "'e \<Rightarrow> Usage \<rightharpoonup> UsageEvent"
    and add :: "'e \<Rightarrow> UsageEvent \<Rightarrow> 'e option"
    and remove :: "'e \<Rightarrow> Usage \<Rightarrow> 'e option"
    and inv :: "'e \<Rightarrow> bool"
  assumes add_law: "inv e \<Longrightarrow> \<exists>e'. add e d = Some e' \<and> inv e' \<and> lookup e' = (lookup e)(ue_Usage d \<mapsto> d)"
    and remove_law: "inv e \<Longrightarrow> \<exists>e'. remove e u = Some e' \<and> inv e' \<and> lookup e' = (lookup e)(u := None)"
begin

lemma adds_law: "inv e \<Longrightarrow>
    \<exists>e'. fold_opt add ds e = Some e' \<and> inv e' \<and> lookup e' = lookup e ++ map_of (rev (map (\<lambda>d. (ue_Usage d, d)) ds))"
proof (induction ds arbitrary: e)
  case (Cons d ds)
  obtain e1 where e1: "add e d = Some e1" "inv e1" "lookup e1 = (lookup e)(ue_Usage d \<mapsto> d)"
    using add_law [OF Cons.prems] by blast
  obtain e2 where e2: "fold_opt add ds e1 = Some e2" "inv e2"
    "lookup e2 = lookup e1 ++ map_of (rev (map (\<lambda>d. (ue_Usage d, d)) ds))"
    using Cons.IH [OF e1(2)] by blast
  have "lookup e2 = lookup e ++ map_of (rev (map (\<lambda>d. (ue_Usage d, d)) (d # ds)))"
    unfolding e2(3) e1(3) by (auto simp: map_add_def fun_eq_iff split: option.splits)
  with e1(1) e2(1,2) show ?case by simp
qed simp

lemma removes_law: "inv e \<Longrightarrow>
    \<exists>e'. fold_opt remove us e = Some e' \<and> inv e' \<and> lookup e' = lookup e |` (- set us)"
proof (induction us arbitrary: e)
  case (Cons u us)
  obtain e1 where e1: "remove e u = Some e1" "inv e1" "lookup e1 = (lookup e)(u := None)"
    using remove_law [OF Cons.prems] by blast
  obtain e2 where e2: "fold_opt remove us e1 = Some e2" "inv e2" "lookup e2 = lookup e1 |` (- set us)"
    using Cons.IH [OF e1(2)] by blast
  have "lookup e2 = lookup e |` (- set (u # us))"
    unfolding e2(3) e1(3) by (auto simp: restrict_map_def)
  with e1(1) e2(1,2) show ?case by simp
qed (simp add: restrict_map_def)

end

subsection \<open>The invariant of the index\<close>

definition event_inv :: "Event \<Rightarrow> bool" where
  "event_inv h \<longleftrightarrow> (\<forall>u i. ev_usageMap h u = Some i \<longleftrightarrow> i < length (ev_usages h) \<and> ue_Usage (ev_usages h ! i) = u)"

definition event_lookup :: "Event \<Rightarrow> Usage \<rightharpoonup> UsageEvent" where
  "event_lookup h u = map_option (\<lambda>i. ev_usages h ! i) (ev_usageMap h u)"

lemma event_inv_index: "event_inv h \<Longrightarrow> ev_usageMap h u = Some i \<Longrightarrow> i < length (ev_usages h) \<and> ue_Usage (ev_usages h ! i) = u"
  by (simp add: event_inv_def)

lemma event_inv_unique: "event_inv h \<Longrightarrow> i < length (ev_usages h) \<Longrightarrow> j < length (ev_usages h) \<Longrightarrow>
    ue_Usage (ev_usages h ! i) = ue_Usage (ev_usages h ! j) \<longleftrightarrow> i = j"
  unfolding event_inv_def by (metis option.inject)

lemma event_inv_None: "event_inv h \<Longrightarrow> ev_usageMap h u = None \<Longrightarrow> i < length (ev_usages h) \<Longrightarrow> ue_Usage (ev_usages h ! i) \<noteq> u"
  unfolding event_inv_def by (metis option.distinct(1))

lemma event_inv_NewEvent: "event_inv (NewEvent now)" "event_lookup (NewEvent now) = Map.empty"
  by (simp_all add: event_inv_def NewEvent_def event_lookup_def fun_eq_iff)

lemma addUsage_law:
  assumes inv: "event_inv h"
  shows "\<exists>h'. Event_addUsage h d = Some h' \<and> event_inv h' \<and> event_lookup h' = (event_lookup h)(ue_Usage d \<mapsto> d)"
proof (cases "ev_usageMap h (ue_Usage d)")
  case None
  define h' where "h' = h\<lparr>ev_usages := ev_usages h @ [d],
    ev_usageMap := (ev_usageMap h)(ue_Usage d \<mapsto> length (ev_usages h))\<rparr>"
  have "event_inv h'"
    unfolding event_inv_def
  proof (intro allI)
    fix u i
    show "ev_usageMap h' u = Some i \<longleftrightarrow> i < length (ev_usages h') \<and> ue_Usage (ev_usages h' ! i) = u"
      using inv event_inv_None [OF inv None]
      by (cases "i = length (ev_usages h)") (auto simp: h'_def event_inv_def nth_append less_Suc_eq)
  qed
  moreover have "event_lookup h' = (event_lookup h)(ue_Usage d \<mapsto> d)"
    using event_inv_index [OF inv]
    by (auto simp: fun_eq_iff event_lookup_def h'_def nth_append split: option.splits intro!: map_option_cong)
  ultimately show ?thesis using None by (simp add: Event_addUsage_def h'_def)
next
  case (Some idx)
  then have idx: "idx < length (ev_usages h)" "ue_Usage (ev_usages h ! idx) = ue_Usage d"
    using event_inv_index [OF inv] by auto
  define h' where "h' = h\<lparr>ev_usages := (ev_usages h)[idx := d]\<rparr>"
  have "ue_Usage ((ev_usages h)[idx := d] ! i) = ue_Usage (ev_usages h ! i)" if "i < length (ev_usages h)" for i
    using idx that by (cases "i = idx") simp_all
  then have "event_inv h'" using inv by (auto simp: event_inv_def h'_def)
  moreover have "event_lookup h' u = ((event_lookup h)(ue_Usage d \<mapsto> d)) u" for u
  proof (cases "u = ue_Usage d")
    case True
    then show ?thesis using Some idx by (simp add: event_lookup_def h'_def)
  next
    case False
    then have "ev_usageMap h u \<noteq> Some idx" using event_inv_index [OF inv] idx(2) by metis
    then show ?thesis
      using False by (cases "ev_usageMap h u") (auto simp: event_lookup_def h'_def)
  qed
  ultimately show ?thesis
    using Some idx by (auto simp: Event_addUsage_def store_def h'_def fun_eq_iff)
qed

text \<open>
  The list and the index after the removal of position \<open>idx\<close>: the last element takes its place.
\<close>

definition swap_out :: "Event \<Rightarrow> Usage \<Rightarrow> nat \<Rightarrow> Event" where
  "swap_out h u idx =
     (let l = length (ev_usages h) - 1; moved = ev_usages h ! l
      in h\<lparr>ev_usages := take l ((ev_usages h)[idx := moved]),
           ev_usageMap :=
             (if idx \<noteq> l then (ev_usageMap h)(ue_Usage moved \<mapsto> idx) else ev_usageMap h)(u := None)\<rparr>)"

lemma removeUsage_swap:
  assumes "ev_usageMap h u = Some idx" "idx < length (ev_usages h)"
  shows "Event_removeUsage h u = Some (swap_out h u idx)"
proof (cases "idx = length (ev_usages h) - 1")
  case True
  then have "(ev_usages h)[idx := ev_usages h ! (length (ev_usages h) - 1)] = ev_usages h" by simp
  with True assms show ?thesis by (simp add: Event_removeUsage_def swap_out_def subslice_def Let_def)
next
  case False
  moreover have "length (ev_usages h) - 1 < length (ev_usages h)" using assms(2) by simp
  ultimately show ?thesis using assms
    by (simp add: Event_removeUsage_def swap_out_def subslice_def index_def store_def Let_def)
qed

text \<open>Where each usage is after the removal.\<close>

lemma swap_out_index:
  assumes inv: "event_inv h" and idx: "ev_usageMap h u = Some idx" and v: "v \<noteq> u"
  defines "l \<equiv> length (ev_usages h) - 1"
  shows "ev_usageMap (swap_out h u idx) v = (if ev_usageMap h v = Some l then Some idx else ev_usageMap h v)"
proof -
  have i: "idx < length (ev_usages h)" "ue_Usage (ev_usages h ! idx) = u"
    using event_inv_index [OF inv idx] by auto
  then have "l < length (ev_usages h)" by (simp add: l_def)
  then have "ev_usageMap h v = Some l \<longleftrightarrow> v = ue_Usage (ev_usages h ! l)"
    using inv unfolding event_inv_def by auto
  moreover have "length (ev_usages h) - Suc 0 = l" by (simp add: l_def)
  ultimately show ?thesis using i v idx by (auto simp: swap_out_def Let_def)
qed

lemma swap_out_nth:
  assumes "i < length (ev_usages h) - 1" "idx < length (ev_usages h)"
  shows "ev_usages (swap_out h u idx) ! i =
    ev_usages h ! (if i = idx then length (ev_usages h) - 1 else i)"
  using assms by (simp add: swap_out_def Let_def)

lemma swap_out_inv:
  assumes inv: "event_inv h" and idx: "ev_usageMap h u = Some idx"
  shows "event_inv (swap_out h u idx)"
  unfolding event_inv_def
proof (intro allI)
  fix v i
  let ?us = "ev_usages h" and ?us' = "ev_usages (swap_out h u idx)"
  let ?l = "length ?us - 1"
  have d: "idx < length ?us" "ue_Usage (?us ! idx) = u" using event_inv_index [OF inv idx] by auto
  have len: "length ?us' = ?l" using d by (simp add: swap_out_def Let_def)
  have m: "ev_usageMap h v = Some j \<longleftrightarrow> j < length ?us \<and> ue_Usage (?us ! j) = v" for j
    using inv by (simp add: event_inv_def)
  have nth: "i < ?l \<Longrightarrow> ue_Usage (?us' ! i) = v \<longleftrightarrow> ev_usageMap h v = Some (if i = idx then ?l else i)"
    using swap_out_nth [of i h idx u] d(1) m [of "if i = idx then ?l else i"]
    by (cases "i = idx") auto
  show "ev_usageMap (swap_out h u idx) v = Some i \<longleftrightarrow> i < length ?us' \<and> ue_Usage (?us' ! i) = v"
  proof (cases "v = u")
    case True
    then have "ev_usageMap h v = Some (if i = idx then ?l else i) \<Longrightarrow> i < ?l \<Longrightarrow> False"
      using idx by (auto split: if_splits)
    then show ?thesis using True len nth by (auto simp: swap_out_def Let_def)
  next
    case False
    have "ev_usageMap (swap_out h u idx) v = Some i \<longleftrightarrow>
        i < ?l \<and> ev_usageMap h v = Some (if i = idx then ?l else i)"
    proof (cases "ev_usageMap h v")
      case None
      then show ?thesis by (simp add: swap_out_index [OF inv idx False])
    next
      case (Some j)
      then have "j \<le> ?l" "j \<noteq> idx" using m [of j] d False by auto
      moreover have "idx \<le> ?l" using d(1) by simp
      ultimately show ?thesis using Some by (auto simp: swap_out_index [OF inv idx False])
    qed
    then show ?thesis using len nth by auto
  qed
qed

lemma swap_out_lookup:
  assumes inv: "event_inv h" and idx: "ev_usageMap h u = Some idx"
  shows "event_lookup (swap_out h u idx) = (event_lookup h)(u := None)"
proof
  fix v
  let ?l = "length (ev_usages h) - 1"
  have d: "idx < length (ev_usages h)" "ue_Usage (ev_usages h ! idx) = u"
    using event_inv_index [OF inv idx] by auto
  show "event_lookup (swap_out h u idx) v = ((event_lookup h)(u := None)) v"
  proof (cases "v = u")
    case True
    then show ?thesis by (simp add: event_lookup_def swap_out_def Let_def)
  next
    case False
    show ?thesis
    proof (cases "ev_usageMap h v")
      case None
      then show ?thesis using False by (simp add: event_lookup_def swap_out_index [OF inv idx False])
    next
      case (Some j)
      then have j: "j < length (ev_usages h)" "j \<noteq> idx"
        using event_inv_index [OF inv Some] d False by auto
      have "idx < ?l" if "j = ?l" using j d that by simp
      then show ?thesis
        using Some False j d swap_out_nth [of idx h idx u] swap_out_nth [of j h idx u]
        by (cases "j = ?l") (simp_all add: event_lookup_def swap_out_index [OF inv idx False])
    qed
  qed
qed

lemma removeUsage_law:
  assumes inv: "event_inv h"
  shows "\<exists>h'. Event_removeUsage h u = Some h' \<and> event_inv h' \<and> event_lookup h' = (event_lookup h)(u := None)"
proof (cases "ev_usageMap h u")
  case None
  then have "event_lookup h u = None" by (simp add: event_lookup_def)
  then show ?thesis using None inv by (simp add: Event_removeUsage_def fun_upd_idem)
next
  case (Some idx)
  then show ?thesis
    using removeUsage_swap event_inv_index [OF inv Some] swap_out_inv [OF inv] swap_out_lookup [OF inv] by auto
qed

interpretation event_map: usage_event_map event_lookup Event_addUsage Event_removeUsage event_inv
  by unfold_locales (auto simp: addUsage_law removeUsage_law)

lemma Event_Usage_lookup:
  assumes "event_inv ac"
  shows "Event_Usage ac u = Some (case event_lookup ac u of None \<Rightarrow> (emptyUsageEvent, False) | Some e \<Rightarrow> (e, True))"
proof (cases "ev_usageMap ac u")
  case (Some i)
  then have "i < length (ev_usages ac)" using assms by (simp add: event_inv_def)
  with Some show ?thesis by (simp add: Event_Usage_def event_lookup_def index_in)
qed (simp add: Event_Usage_def event_lookup_def)

end
