(* ===== verification/FlowApi.thy ===== *)
theory FlowApi
  imports HidEvent
begin

section \<open>The flow API (flowapi/stream.go, flowapi/action.go) and what a receiver sees\<close>

text \<open>
  Events between nodes, the action handlers that turn an activation into an event and its
  finalizer, and the abstraction the node theories share: the set of usages a receiver of events
  takes to be pressed (\<open>hold\<close>).
\<close>

datatype HIDEventType = HIDEventTypeInput | HIDEventTypeOutput | HIDEventTypeFeature

record FlowEvent =
  fe_Type :: HIDEventType
  fe_HID :: Event

text \<open>\<open>flowapi.Event{HID: e}\<close>: the type is the zero value.\<close>

definition hid_event :: "Event \<Rightarrow> FlowEvent" where
  "hid_event e = \<lparr>fe_Type = HIDEventTypeInput, fe_HID = e\<rparr>"

subsection \<open>Action handlers\<close>

text \<open>
  A handler works on the event in its context and returns a finalizer or nil. Handlers are closures:
  they may change variables they captured and send to other nodes. \<open>'w\<close> is that state, \<open>None\<close> a panic.
\<close>

type_synonym 'w ActionFinalizer = "'w \<Rightarrow> Event \<Rightarrow> ('w \<times> Event) option"
type_synonym 'w ActionHandler = "'w \<Rightarrow> Event \<Rightarrow> ('w \<times> Event \<times> 'w ActionFinalizer option) option"

definition NewToggleActionHandler :: "Usage list \<Rightarrow> 'w ActionHandler" where
  "NewToggleActionHandler usages = (\<lambda>w ac.
     map_option (\<lambda>ac. (w, ac, Some (\<lambda>w ac. map_option (Pair w) (Event_Deactivate ac usages))))
       (Event_Activate ac usages))"

definition NewSetValueHandler :: "Usage \<Rightarrow> i32 \<Rightarrow> 'w ActionHandler" where
  "NewSetValueHandler usg v = (\<lambda>w ac. map_option (\<lambda>ac. (w, ac, None)) (Event_SetValue ac usg v))"

definition NewSetDeltaHandler :: "Usage \<Rightarrow> i32 \<Rightarrow> 'w ActionHandler" where
  "NewSetDeltaHandler usg v = (\<lambda>w ac. map_option (\<lambda>ac. (w, ac, None)) (Event_SetDelta ac usg v))"

subsection \<open>Press counters\<close>

text \<open>How a counter follows presses and releases: a release without a press is ignored.\<close>

definition count_step :: "int \<Rightarrow> bool \<Rightarrow> int" where
  "count_step n on = (if on then n + 1 else if n - 1 \<le> 0 then 0 else n - 1)"

lemma count_step_nonneg: "n \<ge> 0 \<Longrightarrow> count_step n on \<ge> 0"
  by (simp add: count_step_def)

subsection \<open>What a receiver holds\<close>

lemma activate_cases:
  obtains "x = None" | "x = Some True" | "x = Some False"
  by (cases x) auto

definition press :: "Usage \<Rightarrow> bool \<Rightarrow> UsageEvent" where
  "press usg on = emptyUsageEvent\<lparr>ue_Usage := usg, ue_Activate := Some on\<rparr>"

lemma press_fields [simp]: "ue_Usage (press u on) = u" "ue_Activate (press u on) = Some on"
  by (simp_all add: press_def)

definition hold_usage :: "UsageEvent \<Rightarrow> Usage set \<Rightarrow> Usage set" where
  "hold_usage e S = (case ue_Activate e of
     None \<Rightarrow> S | Some True \<Rightarrow> insert (ue_Usage e) S | Some False \<Rightarrow> S - {ue_Usage e})"

definition hold :: "Event \<Rightarrow> Usage set \<Rightarrow> Usage set" where
  "hold e S = fold hold_usage (Event_Usages e) S"

lemma fold_hold_usage:
  "distinct (map ue_Usage es) \<Longrightarrow> u \<in> fold hold_usage es S \<longleftrightarrow>
     (case map_of (map (\<lambda>e. (ue_Usage e, e)) es) u of
        None \<Rightarrow> u \<in> S
      | Some e \<Rightarrow> (case ue_Activate e of None \<Rightarrow> u \<in> S | Some on \<Rightarrow> on))"
proof (induction es arbitrary: S)
  case (Cons e es)
  have "map_of (map (\<lambda>e. (ue_Usage e, e)) es) (ue_Usage e) = None"
    using Cons.prems by (auto simp: map_of_eq_None_iff image_image)
  then show ?case
    using Cons by (auto simp: hold_usage_def split: option.splits bool.splits)
qed simp

lemma event_inv_distinct: "event_inv e \<Longrightarrow> distinct (map ue_Usage (ev_usages e))"
  by (auto simp: event_inv_def distinct_conv_nth) (metis option.inject)

lemma event_lookup_map_of:
  assumes "event_inv e"
  shows "event_lookup e = map_of (map (\<lambda>d. (ue_Usage d, d)) (ev_usages e))"
proof
  fix u
  show "event_lookup e u = map_of (map (\<lambda>d. (ue_Usage d, d)) (ev_usages e)) u"
  proof (cases "ev_usageMap e u")
    case None
    then have "u \<notin> ue_Usage ` set (ev_usages e)"
      using assms by (auto simp: event_inv_def in_set_conv_nth) (metis option.distinct(1))
    then have "map_of (map (\<lambda>d. (ue_Usage d, d)) (ev_usages e)) u = None"
      by (simp add: map_of_eq_None_iff image_image)
    then show ?thesis using None by (simp add: event_lookup_def)
  next
    case (Some i)
    then have i: "i < length (ev_usages e)" "ue_Usage (ev_usages e ! i) = u"
      using assms by (auto simp: event_inv_def)
    then have "(u, ev_usages e ! i) \<in> set (map (\<lambda>d. (ue_Usage d, d)) (ev_usages e))" by force
    moreover have "distinct (map fst (map (\<lambda>d. (ue_Usage d, d)) (ev_usages e)))"
      using event_inv_distinct [OF assms] by (simp add: comp_def)
    ultimately show ?thesis using Some i by (simp add: event_lookup_def map_of_is_SomeI)
  qed
qed

lemma hold_iff:
  "event_inv e \<Longrightarrow> u \<in> hold e S \<longleftrightarrow>
     (case event_lookup e u of
        None \<Rightarrow> u \<in> S
      | Some d \<Rightarrow> (case ue_Activate d of None \<Rightarrow> u \<in> S | Some on \<Rightarrow> on))"
  by (simp add: hold_def Event_Usages_def fold_hold_usage event_inv_distinct event_lookup_map_of)

lemma event_lookup_usage: "event_inv e \<Longrightarrow> event_lookup e u = Some d \<Longrightarrow> ue_Usage d = u"
  by (auto simp: event_lookup_map_of dest!: map_of_SomeD)

lemma event_usages_lookup: "event_inv e \<Longrightarrow> d \<in> set (ev_usages e) \<Longrightarrow> event_lookup e (ue_Usage d) = Some d"
  using event_inv_distinct by (force simp: event_lookup_map_of comp_def intro!: map_of_is_SomeI)

lemma NewEvent_inv [simp]: "event_inv (NewEvent now)" "event_lookup (NewEvent now) u = None"
  by (simp_all add: event_inv_def NewEvent_def event_lookup_def)

lemma Event_IsEmpty_lookup: "event_inv e \<Longrightarrow> Event_IsEmpty (Some e) \<Longrightarrow> event_lookup e u = None"
  by (simp add: event_lookup_map_of Event_IsEmpty_def)

subsection \<open>The event operations on the map of an event\<close>

lemma Event_Deactivate_single:
  assumes "event_inv e"
  shows "\<exists>e'. Event_Deactivate e [u] = Some e' \<and> event_inv e' \<and> event_lookup e' = (event_lookup e)(u \<mapsto> press u False)"
  using addUsage_law [OF assms, of "press u False"] by (auto simp: Event_Deactivate_def press_def)

lemma Event_Suppress_lookup:
  assumes "event_inv e"
  shows "\<exists>e'. Event_Suppress e us = Some e' \<and> event_inv e' \<and> event_lookup e' = event_lookup e |` (- set us)"
  unfolding Event_Suppress_def by (rule event_map.removes_law [OF assms])

lemma Event_AddUsage_lookup:
  assumes "event_inv e"
  shows "\<exists>e'. Event_AddUsage e ds = Some e' \<and> event_inv e'
    \<and> event_lookup e' = event_lookup e ++ map_of (rev (map (\<lambda>d. (ue_Usage d, d)) ds))"
  unfolding Event_AddUsage_def by (rule event_map.adds_law [OF assms])

lemma map_of_press: "map_of (rev (map (\<lambda>d. (ue_Usage d, d)) (map (\<lambda>u. press u on) us))) u =
    (if u \<in> set us then Some (press u on) else None)"
  by (induction us) (auto simp: press_def map_add_def split: option.splits)

lemma Event_Activate_lookup:
  assumes "event_inv e"
  shows "\<exists>e'. (if on then Event_Activate e us else Event_Deactivate e us) = Some e' \<and> event_inv e'
    \<and> (\<forall>u. event_lookup e' u = (if u \<in> set us then Some (press u on) else event_lookup e u))"
proof -
  have "(if on then Event_Activate e us else Event_Deactivate e us) = fold_opt Event_addUsage (map (\<lambda>u. press u on) us) e"
    by (simp add: Event_Activate_def Event_Deactivate_def press_def)
  moreover obtain e' where "fold_opt Event_addUsage (map (\<lambda>u. press u on) us) e = Some e'" "event_inv e'"
    "event_lookup e' = event_lookup e ++ map_of (rev (map (\<lambda>d. (ue_Usage d, d)) (map (\<lambda>u. press u on) us)))"
    using event_map.adds_law [OF assms] by blast
  ultimately show ?thesis by (simp add: map_add_def map_of_press del: map_map)
qed

subsection \<open>Messages to downstream nodes\<close>

type_synonym route = string
type_synonym message = "route \<times> FlowEvent"

text \<open>
  A node that routes collects one event per downstream node in a map; an event that is not there yet
  is made with the reading of the clock, \<open>now\<close>.
\<close>

definition event_for :: "(route \<Rightarrow> int) \<Rightarrow> (route \<rightharpoonup> Event) \<Rightarrow> route \<Rightarrow> Event" where
  "event_for now D rt = (case D rt of None \<Rightarrow> NewEvent (now rt) | Some ev \<Rightarrow> ev)"

text \<open>What one route is told about each usage.\<close>

definition routed :: "(route \<rightharpoonup> Event) \<Rightarrow> route \<Rightarrow> Usage \<rightharpoonup> UsageEvent" where
  "routed D rt = (case D rt of None \<Rightarrow> Map.empty | Some e \<Rightarrow> event_lookup e)"

lemma routed_empty [simp]: "routed Map.empty rt = Map.empty"
  by (simp add: routed_def)

lemma event_for_ok:
  assumes "\<forall>rt e. D rt = Some e \<longrightarrow> event_inv e"
  shows "event_inv (event_for now D rt)" "event_lookup (event_for now D rt) = routed D rt"
  using assms by (auto simp: event_for_def routed_def fun_eq_iff split: option.splits)

text \<open>What the receivers hold after the messages of a step.\<close>

definition deliver :: "message \<Rightarrow> (route \<Rightarrow> Usage set) \<Rightarrow> route \<Rightarrow> Usage set" where
  "deliver m H = H(fst m := hold (fe_HID (snd m)) (H (fst m)))"

lemma fold_deliver_distinct:
  "distinct rts \<Longrightarrow> fold deliver (map (\<lambda>rt. (rt, hid_event (f rt))) rts) H rt =
     (if rt \<in> set rts then hold (f rt) (H rt) else H rt)"
  by (induction rts arbitrary: H) (auto simp: deliver_def hid_event_def)

end
