(* ===== verification/KeyNames.thy ===== *)
theory KeyNames
  imports Prelude
begin

section \<open>Key codes and their names (hidapi/hidusage/usagepages/keycodes_gen.go)\<close>

text \<open>
  The constants the actions use, and the table of names. A Go map is an association list here; the
  codes and the names of the table are distinct.
\<close>

definition KeyA :: u8 where "KeyA = 0x4"
definition Key1 :: u8 where "Key1 = 0x1e"
definition Key2 :: u8 where "Key2 = 0x1f"
definition Key3 :: u8 where "Key3 = 0x20"
definition Key4 :: u8 where "Key4 = 0x21"
definition Key5 :: u8 where "Key5 = 0x22"
definition Key6 :: u8 where "Key6 = 0x23"
definition Key7 :: u8 where "Key7 = 0x24"
definition Key8 :: u8 where "Key8 = 0x25"
definition Key9 :: u8 where "Key9 = 0x26"
definition Key0 :: u8 where "Key0 = 0x27"
definition KeyEnter :: u8 where "KeyEnter = 0x28"
definition KeySpacebar :: u8 where "KeySpacebar = 0x2c"
definition KeyMinus :: u8 where "KeyMinus = 0x2d"
definition KeyEqual :: u8 where "KeyEqual = 0x2e"
definition KeyLeftBracket :: u8 where "KeyLeftBracket = 0x2f"
definition KeyRightBracket :: u8 where "KeyRightBracket = 0x30"
definition KeyBackslash :: u8 where "KeyBackslash = 0x31"
definition KeySemicolon :: u8 where "KeySemicolon = 0x33"
definition KeyQuote :: u8 where "KeyQuote = 0x34"
definition KeyGraveAccent :: u8 where "KeyGraveAccent = 0x35"
definition KeyComma :: u8 where "KeyComma = 0x36"
definition KeyPeriod :: u8 where "KeyPeriod = 0x37"
definition KeySlash :: u8 where "KeySlash = 0x38"
definition KeyLeftShift :: u8 where "KeyLeftShift = 0xe1"
definition KeyRightShift :: u8 where "KeyRightShift = 0xe5"

lemmas key_defs = KeyA_def Key1_def Key2_def Key3_def Key4_def Key5_def Key6_def Key7_def Key8_def
  Key9_def Key0_def KeyEnter_def KeySpacebar_def KeyMinus_def KeyEqual_def KeyLeftBracket_def
  KeyRightBracket_def KeyBackslash_def KeySemicolon_def KeyQuote_def KeyGraveAccent_def KeyComma_def
  KeyPeriod_def KeySlash_def KeyLeftShift_def KeyRightShift_def

definition keyNameMap_1 :: "(u8 \<times> string) list" where
  "keyNameMap_1 =
    [(0x1, ''ErrorRollOver''), (0x2, ''Postfail''), (0x3, ''ErrorUndefined''), (0x4, ''A''),
     (0x5, ''B''), (0x6, ''C''), (0x7, ''D''), (0x8, ''E''), (0x9, ''F''), (0xa, ''G''), (0xb, ''H''),
     (0xc, ''I''), (0xd, ''J''), (0xe, ''K''), (0xf, ''L''), (0x10, ''M''), (0x11, ''N''), (0x12, ''O''),
     (0x13, ''P''), (0x14, ''Q''), (0x15, ''R''), (0x16, ''S''), (0x17, ''T''), (0x18, ''U''),
     (0x19, ''V''), (0x1a, ''W''), (0x1b, ''X''), (0x1c, ''Y''), (0x1d, ''Z''), (0x1e, ''1''),
     (0x1f, ''2''), (0x20, ''3''), (0x21, ''4''), (0x22, ''5''), (0x23, ''6''), (0x24, ''7''),
     (0x25, ''8''), (0x26, ''9''), (0x27, ''0''), (0x28, ''Enter''), (0x29, ''Esc''),
     (0x2a, ''Backspace''), (0x2b, ''Tab''), (0x2c, ''Spacebar''), (0x2d, ''Minus''), (0x2e, ''Equal''),
     (0x2f, ''LeftBracket''), (0x30, ''RightBracket''), (0x31, ''Backslash''), (0x32, ''NonUshash''),
     (0x33, ''Semicolon''), (0x34, ''Quote''), (0x35, ''GraveAccent''), (0x36, ''Comma''),
     (0x37, ''Period''), (0x38, ''Slash''), (0x39, ''CapsLock''), (0x3a, ''F1''), (0x3b, ''F2''),
     (0x3c, ''F3''), (0x3d, ''F4''), (0x3e, ''F5''), (0x3f, ''F6''), (0x40, ''F7''), (0x41, ''F8''),
     (0x42, ''F9''), (0x43, ''F10''), (0x44, ''F11''), (0x45, ''F12''), (0x46, ''PrintScreen''),
     (0x47, ''ScrollLock''), (0x48, ''Pause''), (0x49, ''Insert''), (0x4a, ''Home''), (0x4b, ''PageUp''),
     (0x4c, ''DeleteForward''), (0x4d, ''End''), (0x4e, ''PageDown''), (0x4f, ''RightArrow''),
     (0x50, ''LeftArrow''), (0x51, ''DownArrow''), (0x52, ''UpArrow''), (0x53, ''KpNumLockAndClear''),
     (0x54, ''KpSlash''), (0x55, ''KpAsterisk''), (0x56, ''KpMinus''), (0x57, ''KpPlus''),
     (0x58, ''KpEnter''), (0x59, ''Kp1AndEnd''), (0x5a, ''Kp2AndDownArrow''), (0x5b, ''Kp3AndPageDn''),
     (0x5c, ''Kp4AndLeftArrow''), (0x5d, ''Kp5''), (0x5e, ''Kp6AndRightArrow''), (0x5f, ''Kp7AndHome''),
     (0x60, ''Kp8AndUpArrow''), (0x61, ''Kp9AndPageUp''), (0x62, ''Kp0AndInsert''),
     (0x63, ''KpPeriodDelete''), (0x64, ''NonUsbackslash''), (0x65, ''Application''), (0x66, ''Power''),
     (0x67, ''KpEqual''), (0x68, ''F13''), (0x69, ''F14''), (0x6a, ''F15''), (0x6b, ''F16''),
     (0x6c, ''F17''), (0x6d, ''F18''), (0x6e, ''F19'')]"

definition keyNameMap_2 :: "(u8 \<times> string) list" where
  "keyNameMap_2 =
    [(0x6f, ''F20''), (0x70, ''F21''), (0x71, ''F22''), (0x72, ''F23''), (0x73, ''F24''),
     (0x74, ''Execute''), (0x75, ''Help''), (0x76, ''Menu''), (0x77, ''Select''), (0x78, ''Stop''),
     (0x79, ''Again''), (0x7a, ''Undo''), (0x7b, ''Cut''), (0x7c, ''Copy''), (0x7d, ''Paste''),
     (0x7e, ''Find''), (0x7f, ''Mute''), (0x80, ''VolumeUp''), (0x81, ''VolumeDown''),
     (0x82, ''LockingCapsLock''), (0x83, ''LockingNumLock''), (0x84, ''LockingScrollLock''),
     (0x85, ''KpComma''), (0x86, ''KpEqualSign''), (0x87, ''International1''),
     (0x88, ''International2''), (0x89, ''International3''), (0x8a, ''International4''),
     (0x8b, ''International5''), (0x8c, ''International6''), (0x8d, ''International7''),
     (0x8e, ''International8''), (0x8f, ''International9''), (0x90, ''Lang1''), (0x91, ''Lang2''),
     (0x92, ''Lang3''), (0x93, ''Lang4''), (0x94, ''Lang5''), (0x95, ''Lang6''), (0x96, ''Lang7''),
     (0x97, ''Lang8''), (0x98, ''Lang9''), (0x99, ''AlternateErase''), (0x9a, ''SysReqAttention''),
     (0x9b, ''Cancel''), (0x9c, ''Clear''), (0x9d, ''Prior''), (0x9e, ''Return''), (0x9f, ''Separator''),
     (0xa0, ''Out''), (0xa1, ''Oper''), (0xa2, ''ClearAgain''), (0xa3, ''CrSelProps''),
     (0xa4, ''ExSel''), (0xb0, ''Kp00''), (0xb1, ''Kp000''), (0xb2, ''ThousandsSeparator''),
     (0xb3, ''DecimalSeparator''), (0xb4, ''CurrencyUnit''), (0xb5, ''CurrencySubUnit''),
     (0xb6, ''KpLeftParenthesis''), (0xb7, ''KpRightParenthesis''), (0xb8, ''KpLeftBrace''),
     (0xb9, ''KpRightBrace''), (0xba, ''KpTab''), (0xbb, ''KpBackspace''), (0xbc, ''KpA''),
     (0xbd, ''KpB''), (0xbe, ''KpC''), (0xbf, ''KpD''), (0xc0, ''KpE''), (0xc1, ''KpF''),
     (0xc2, ''KpXor''), (0xc3, ''KpCaret''), (0xc4, ''KpPercent''), (0xc5, ''KpLessThan''),
     (0xc6, ''KpGreaterThan''), (0xc7, ''KpAmpersand''), (0xc8, ''KpDoubleAmpersand''),
     (0xc9, ''KpPipe''), (0xca, ''KpDoublePipe''), (0xcb, ''KpColon''), (0xcc, ''KpHash''),
     (0xcd, ''KpSpace''), (0xce, ''KpAt''), (0xcf, ''KpExclamation''), (0xd0, ''KpMemoryStore''),
     (0xd1, ''KpMemoryRecall''), (0xd2, ''KpMemoryClear''), (0xd3, ''KpMemoryAdd''),
     (0xd4, ''KpMemorySubtract''), (0xd5, ''KpMemoryMultiply''), (0xd6, ''KpMemoryDivide''),
     (0xd7, ''KpPlusMinus''), (0xd8, ''KpClear''), (0xd9, ''KpClearEntry''), (0xda, ''KpBinary''),
     (0xdb, ''KpOctal''), (0xdc, ''KpDecimal''), (0xdd, ''KpHexadecimal''), (0xe0, ''LeftControl''),
     (0xe1, ''LeftShift''), (0xe2, ''LeftAlt''), (0xe3, ''LeftGui''), (0xe4, ''RightControl''),
     (0xe5, ''RightShift''), (0xe6, ''RightAlt''), (0xe7, ''RightGui'')]"

definition keyNameMap :: "(u8 \<times> string) list" where
  "keyNameMap = keyNameMap_1 @ keyNameMap_2"

lemmas keyNameMap_defs = keyNameMap_def keyNameMap_1_def keyNameMap_2_def

end
