(* ===== verification/Actions.thy ===== *)
theory Actions
  imports FlowApi KeyNames
begin

section \<open>Actions (components/actions)\<close>

text \<open>
  The actions that do their work in the call: \<open>none\<close>, \<open>signal\<close>, \<open>lock\<close>, and the keys of a
  character (\<open>char\<close>). A character is a rune, here an integer.
\<close>

subsection \<open>none.go, signal.go\<close>

definition NewActionNoneHandler :: "'w ActionHandler" where
  "NewActionNoneHandler = (\<lambda>w ac. Some (w, ac, None))"

text \<open>A signal handler changes the state outside the event.\<close>

definition NewSignalActionHandler :: "('w \<Rightarrow> 'w) option \<Rightarrow> ('w \<Rightarrow> 'w) option \<Rightarrow> 'w ActionHandler" where
  "NewSignalActionHandler onActivate onDeactivate = (\<lambda>w ac.
     let w = (case onActivate of None \<Rightarrow> w | Some f \<Rightarrow> f w)
     in case onDeactivate of
          None \<Rightarrow> Some (w, ac, None)
        | Some f \<Rightarrow> Some (w, ac, Some (\<lambda>w ac. Some (f w, ac))))"

definition signal_CreateHandler :: "('w \<Rightarrow> 'w) option \<Rightarrow> ('w \<Rightarrow> 'w) option \<Rightarrow> 'w ActionHandler" where
  "signal_CreateHandler onActivate onDeactivate =
     (if onActivate = None \<and> onDeactivate = None then NewActionNoneHandler
      else NewSignalActionHandler onActivate onDeactivate)"

subsection \<open>lock.go\<close>

text \<open>
  The handler of \<open>lock\<close> changes a variable it captured, \<open>deactivate\<close>: the finalizer of the action
  while it is locked. The variable is passed along.
\<close>

definition lock_handler ::
  "'w ActionHandler \<Rightarrow> 'w ActionFinalizer option \<Rightarrow> 'w \<Rightarrow> Event \<Rightarrow> ('w ActionFinalizer option \<times> 'w \<times> Event) option" where
  "lock_handler action deactivate w ac =
     (case deactivate of
        Some fin \<Rightarrow> map_option (\<lambda>(w, ac). (None, w, ac)) (fin w ac)
      | None \<Rightarrow> map_option (\<lambda>(w, ac, fin). (fin, w, ac)) (action w ac))"

text \<open>A locked key: pressed on odd activations, released on even ones.\<close>

lemma Event_Activate_hold:
  assumes "event_inv e"
  shows "\<exists>e'. Event_Activate e us = Some e' \<and> event_inv e' \<and> (\<forall>S. hold e' S = hold e S \<union> set us)"
proof -
  obtain e' where e': "Event_Activate e us = Some e'" "event_inv e'"
    "\<forall>u. event_lookup e' u = (if u \<in> set us then Some (press u True) else event_lookup e u)"
    using Event_Activate_lookup [OF assms, of True us] by auto
  then have "u \<in> hold e' S \<longleftrightarrow> u \<in> hold e S \<union> set us" for u S
    by (simp add: hold_iff [OF e'(2)] hold_iff [OF assms])
  then have "hold e' S = hold e S \<union> set us" for S by (rule set_eqI)
  with e' show ?thesis by (intro exI [of _ e']) simp
qed

lemma Event_Deactivate_hold:
  assumes "event_inv e"
  shows "\<exists>e'. Event_Deactivate e us = Some e' \<and> event_inv e' \<and> (\<forall>S. hold e' S = hold e S - set us)"
proof -
  obtain e' where e': "Event_Deactivate e us = Some e'" "event_inv e'"
    "\<forall>u. event_lookup e' u = (if u \<in> set us then Some (press u False) else event_lookup e u)"
    using Event_Activate_lookup [OF assms, of False us] by auto
  then have "u \<in> hold e' S \<longleftrightarrow> u \<in> hold e S - set us" for u S
    by (simp add: hold_iff [OF e'(2)] hold_iff [OF assms])
  then have "hold e' S = hold e S - set us" for S by (rule set_eqI)
  with e' show ?thesis by (intro exI [of _ e']) simp
qed

definition toggle_fin :: "Usage list \<Rightarrow> 'w ActionFinalizer" where
  "toggle_fin vs = (\<lambda>w ac. map_option (Pair w) (Event_Deactivate ac vs))"

lemma lock_press:
  "event_inv ac \<Longrightarrow> \<exists>ac'. lock_handler (NewToggleActionHandler us) None w ac = Some (Some (toggle_fin us), w, ac')
     \<and> event_inv ac' \<and> (\<forall>S. hold ac' S = hold ac S \<union> set us)"
  using Event_Activate_hold [of ac us]
  by (auto simp: lock_handler_def NewToggleActionHandler_def toggle_fin_def)

lemma lock_release:
  "event_inv ac \<Longrightarrow> \<exists>ac'. lock_handler (NewToggleActionHandler us) (Some (toggle_fin us)) w ac = Some (None, w, ac')
     \<and> event_inv ac' \<and> (\<forall>S. hold ac' S = hold ac S - set us)"
  using Event_Deactivate_hold [of ac us] by (auto simp: lock_handler_def toggle_fin_def)

subsection \<open>char.go\<close>

definition asciiCharMap :: "(int \<times> u8) list" where
  "asciiCharMap =
    [(45, KeyMinus), (61, KeyEqual), (91, KeyLeftBracket), (93, KeyRightBracket), (92, KeyBackslash),
     (59, KeySemicolon), (39, KeyQuote), (44, KeyComma), (46, KeyPeriod), (47, KeySlash),
     (96, KeyGraveAccent), (32, KeySpacebar)]"

definition asciiCharMapShifted :: "(int \<times> u8) list" where
  "asciiCharMapShifted =
    [(95, KeyMinus), (43, KeyEqual), (123, KeyLeftBracket), (125, KeyRightBracket), (124, KeyBackslash),
     (58, KeySemicolon), (34, KeyQuote), (60, KeyComma), (62, KeyPeriod), (63, KeySlash),
     (126, KeyGraveAccent),
     (33, Key1), (64, Key2), (35, Key3), (36, Key4), (37, Key5), (94, Key6), (38, Key7), (42, Key8),
     (40, Key9), (41, Key0)]"

text \<open>A missing key reads as zero.\<close>

definition char_key :: "(int \<times> u8) list \<Rightarrow> int \<Rightarrow> u8" where
  "char_key m r = (case map_of m r of None \<Rightarrow> 0 | Some k \<Rightarrow> k)"

text \<open>A key and whether it is shifted.\<close>

definition GetAsciiCharKey :: "int \<Rightarrow> (string, u8 \<times> bool) outcome" where
  "GetAsciiCharKey r =
     (if r < 32 \<or> r > 126 then Fail ''char must be a printable ASCII character''
      else if char_key asciiCharMap r \<noteq> 0 then Ret (char_key asciiCharMap r, False)
      else if char_key asciiCharMapShifted r \<noteq> 0 then Ret (char_key asciiCharMapShifted r, True)
      else if r \<ge> 97 \<and> r \<le> 122 then Ret (KeyA + of_int (r - 97), False)
      else if r \<ge> 65 \<and> r \<le> 90 then Ret (KeyA + of_int (r - 65), True)
      else if r \<ge> 48 \<and> r \<le> 57 then Ret (Key0 + of_int (r - 48), False)
      else Fail ''unsupported character'')"

text \<open>What a US keyboard types for a key, from the comments of the key codes.\<close>

definition us_layout :: "((u8 \<times> bool) \<times> int) list" where
  "us_layout =
     map (\<lambda>i. ((KeyA + of_int i, False), 97 + i)) [0..25] @ map (\<lambda>i. ((KeyA + of_int i, True), 65 + i)) [0..25]
     @ map (\<lambda>(k, s, c). ((k, s), c))
       [(Key1, False, 49), (Key2, False, 50), (Key3, False, 51), (Key4, False, 52), (Key5, False, 53),
        (Key6, False, 54), (Key7, False, 55), (Key8, False, 56), (Key9, False, 57), (Key0, False, 48),
        (Key1, True, 33), (Key2, True, 64), (Key3, True, 35), (Key4, True, 36), (Key5, True, 37),
        (Key6, True, 94), (Key7, True, 38), (Key8, True, 42), (Key9, True, 40), (Key0, True, 41),
        (KeySpacebar, False, 32), (KeyMinus, False, 45), (KeyMinus, True, 95), (KeyEqual, False, 61),
        (KeyEqual, True, 43), (KeyLeftBracket, False, 91), (KeyLeftBracket, True, 123),
        (KeyRightBracket, False, 93), (KeyRightBracket, True, 125), (KeyBackslash, False, 92),
        (KeyBackslash, True, 124), (KeySemicolon, False, 59), (KeySemicolon, True, 58), (KeyQuote, False, 39),
        (KeyQuote, True, 34), (KeyGraveAccent, False, 96), (KeyGraveAccent, True, 126), (KeyComma, False, 44),
        (KeyComma, True, 60), (KeyPeriod, False, 46), (KeyPeriod, True, 62), (KeySlash, False, 47),
        (KeySlash, True, 63)]"

definition key_types :: "int \<Rightarrow> int option option" where
  "key_types r = (case GetAsciiCharKey r of Ret k \<Rightarrow> Some (map_of us_layout k) | _ \<Rightarrow> None)"

text \<open>
  Every printable character has a key, and the key types that character, except for the digits from
  1: they get the keys after 0, of which the first four type no character.
\<close>

definition typed_char :: "int \<Rightarrow> int option" where
  "typed_char r =
     (if 49 \<le> r \<and> r \<le> 52 then None
      else if 53 \<le> r \<and> r \<le> 57 then Some ([32, 45, 61, 91, 93] ! nat (r - 53)) else Some r)"

lemma types_table: "\<forall>r \<in> set [32..126]. key_types r = Some (typed_char r)"
  by code_simp

lemma types_printable: "32 \<le> r \<Longrightarrow> r \<le> 126 \<Longrightarrow> key_types r = Some (typed_char r)"
  using types_table by (simp only: set_upto atLeastAtMost_iff)

lemma char_total: "(\<exists>k. GetAsciiCharKey r = Ret k) \<longleftrightarrow> 32 \<le> r \<and> r \<le> 126"
proof (cases "32 \<le> r \<and> r \<le> 126")
  case True
  then show ?thesis using types_printable [of r] by (auto simp: key_types_def split: outcome.splits)
qed (auto simp: GetAsciiCharKey_def)

end
