(* ===== verification/Bind.thy ===== *)
theory Bind
  imports Actions "HOL-Library.AList"
begin

section \<open>The bind node (components/nodes/bind.go)\<close>

text \<open>
  \<open>Bind\<close> runs an action while all the usages of a trigger are pressed. The counters of a trigger
  are an association list with one entry per key of the Go map, so its length is the map's.
  A handler is the part of an action that runs in the call; what actions do asynchronously is in the
  theory of asynchronous actions.
  \<open>None\<close> is a panic.
\<close>

subsection \<open>Triggers\<close>

record usageActivation =
  ua_usages :: "Usage list"
  ua_counters :: "(Usage \<times> int) list"

definition newUsageActivation :: "Usage list \<Rightarrow> usageActivation" where
  "newUsageActivation usages = \<lparr>ua_usages = usages, ua_counters = []\<rparr>"

text \<open>A missing entry reads as zero.\<close>

definition counter_of :: "(Usage \<times> int) list \<Rightarrow> Usage \<Rightarrow> int" where
  "counter_of cs usg = (case map_of cs usg of None \<Rightarrow> 0 | Some n \<Rightarrow> n)"

definition check_usage :: "Event \<Rightarrow> (Usage \<times> int) list \<Rightarrow> Usage \<Rightarrow> (Usage \<times> int) list option" where
  "check_usage ac cs usg =
     map_option
       (\<lambda>(e, found).
          if \<not> found \<or> ue_Activate e = None then cs
          else if ue_Activate e = Some True then AList.update usg (counter_of cs usg + 1) cs
          else
            (let cs = AList.update usg (counter_of cs usg - 1) cs
             in if counter_of cs usg \<le> 0 then AList.delete usg cs else cs))
       (Event_Usage ac usg)"

definition trigger_Check :: "usageActivation \<Rightarrow> Event \<Rightarrow> (bool \<times> usageActivation \<times> Event) option" where
  "trigger_Check u ac =
     (let wasActive = (length (ua_counters u) = length (ua_usages u))
      in case fold_opt (check_usage ac) (ua_usages u) (ua_counters u) of
           None \<Rightarrow> None
         | Some cs \<Rightarrow>
             let u' = u\<lparr>ua_counters := cs\<rparr>
             in if length cs = length (ua_usages u) then
                  map_option (\<lambda>ac. (True, u', ac)) (Event_Suppress ac (ua_usages u))
                else if wasActive then
                  map_option (\<lambda>ac. (False, u', ac)) (Event_Suppress ac (ua_usages u))
                else Some (False, u', ac))"

subsection \<open>Mappings\<close>

record 'w bindItem =
  bi_trigger :: usageActivation
  bi_handler :: "'w ActionHandler"
  bi_triggered :: bool
  bi_finalizer :: "'w ActionFinalizer option"

definition new_bindItem :: "Usage list \<Rightarrow> 'w ActionHandler \<Rightarrow> 'w bindItem" where
  "new_bindItem usages handler =
     \<lparr>bi_trigger = newUsageActivation usages, bi_handler = handler, bi_triggered = False, bi_finalizer = None\<rparr>"

definition trigger_item :: "'w \<Rightarrow> Event \<Rightarrow> 'w bindItem \<Rightarrow> ('w \<times> Event \<times> 'w bindItem) option" where
  "trigger_item w ac mapping =
     (case trigger_Check (bi_trigger mapping) ac of
        None \<Rightarrow> None
      | Some (isTriggered, trigger, ac) \<Rightarrow>
          let m = mapping\<lparr>bi_trigger := trigger\<rparr>
          in if isTriggered \<and> \<not> bi_triggered mapping then
               map_option (\<lambda>(w, ac, fin). (w, ac, m\<lparr>bi_triggered := True, bi_finalizer := fin\<rparr>))
                 (bi_handler mapping w ac)
             else if \<not> isTriggered \<and> bi_triggered mapping then
               map_option (\<lambda>(w, ac). (w, ac, m\<lparr>bi_triggered := False, bi_finalizer := None\<rparr>))
                 (case bi_finalizer mapping of None \<Rightarrow> Some (w, ac) | Some fin \<Rightarrow> fin w ac)
             else Some (w, ac, m))"

primrec triggerMappings :: "'w bindItem list \<Rightarrow> 'w \<Rightarrow> Event \<Rightarrow> ('w \<times> Event \<times> 'w bindItem list) option" where
  "triggerMappings [] w ac = Some (w, ac, [])"
| "triggerMappings (m # ms) w ac =
     (case trigger_item w ac m of
        None \<Rightarrow> None
      | Some (w, ac, m) \<Rightarrow> map_option (\<lambda>(w, ac, ms). (w, ac, m # ms)) (triggerMappings ms w ac))"

primrec interrupt_loop :: "(u16 \<Rightarrow> u16 \<Rightarrow> bool) \<Rightarrow> UsageEvent list \<Rightarrow> bool" where
  "interrupt_loop interrupt [] = False"
| "interrupt_loop interrupt (e # es) =
     (if ue_Activate e = Some False then interrupt_loop interrupt es
      else if interrupt (Usage_Page (ue_Usage e)) (Usage_ID (ue_Usage e)) then True
      else interrupt_loop interrupt es)"

definition shouldInterrupt :: "(u16 \<Rightarrow> u16 \<Rightarrow> bool) \<Rightarrow> Event \<Rightarrow> bool" where
  "shouldInterrupt interrupt ac =
     (if Event_IsEmpty (Some ac) then False else interrupt_loop interrupt (Event_Usages ac))"

text \<open>
  One event of \<open>Run\<close>: whether the asynchronous actions are interrupted, and what is sent on.
\<close>

definition bind_event ::
  "(u16 \<Rightarrow> u16 \<Rightarrow> bool) \<Rightarrow> 'w bindItem list \<Rightarrow> 'w \<Rightarrow> Event \<Rightarrow> ('w \<times> 'w bindItem list \<times> bool \<times> Event list) option" where
  "bind_event interrupt mappings w event =
     map_option
       (\<lambda>(w, ac, mappings).
          (w, mappings, shouldInterrupt interrupt ac, if \<not> Event_IsEmpty (Some ac) then [ac] else []))
       (triggerMappings mappings w event)"

text \<open>A sequence of events, with everything that is sent on.\<close>

primrec bind_run ::
  "(u16 \<Rightarrow> u16 \<Rightarrow> bool) \<Rightarrow> Event list \<Rightarrow> 'w bindItem list \<Rightarrow> 'w \<Rightarrow> ('w \<times> 'w bindItem list \<times> Event list) option" where
  "bind_run interrupt [] mappings w = Some (w, mappings, [])"
| "bind_run interrupt (e # es) mappings w =
     (case bind_event interrupt mappings w e of
        None \<Rightarrow> None
      | Some (w, mappings, i, sent) \<Rightarrow>
          map_option (\<lambda>(w, mappings, sent'). (w, mappings, sent @ sent')) (bind_run interrupt es mappings w))"

subsection \<open>The counters of a trigger\<close>

definition counters_ok :: "usageActivation \<Rightarrow> bool" where
  "counters_ok u \<longleftrightarrow> distinct (map fst (ua_counters u))
     \<and> (\<forall>(v, n) \<in> set (ua_counters u). v \<in> set (ua_usages u) \<and> n > 0)"

lemma counters_ok_new: "counters_ok (newUsageActivation us)"
  by (simp add: counters_ok_def newUsageActivation_def)

lemma counter_of_update [simp]:
  "counter_of (AList.update u n cs) v = (if v = u then n else counter_of cs v)"
  by (simp add: counter_of_def update_conv')

lemma counter_of_delete [simp]:
  "counter_of (AList.delete u cs) v = (if v = u then 0 else counter_of cs v)"
  by (simp add: counter_of_def delete_conv' restrict_map_def)

definition count_event :: "Event \<Rightarrow> Usage \<Rightarrow> int \<Rightarrow> int" where
  "count_event ac u n = (case event_lookup ac u of
     None \<Rightarrow> n | Some e \<Rightarrow> (case ue_Activate e of None \<Rightarrow> n | Some on \<Rightarrow> count_step n on))"

definition positive_keys :: "Usage set \<Rightarrow> (Usage \<times> int) list \<Rightarrow> bool" where
  "positive_keys S cs \<longleftrightarrow> distinct (map fst cs) \<and> (\<forall>(v, n) \<in> set cs. v \<in> S \<and> n > 0)"

lemma positive_keys_update:
  "positive_keys S cs \<Longrightarrow> u \<in> S \<Longrightarrow> n > 0 \<Longrightarrow> positive_keys S (AList.update u n cs)"
  by (induction cs) (auto simp: positive_keys_def dom_update)

lemma positive_keys_delete: "positive_keys S cs \<Longrightarrow> positive_keys S (AList.delete u cs)"
  using distinct_delete [of cs u] by (auto simp: positive_keys_def AList.delete_eq)

lemma positive_keys_pos: "positive_keys S cs \<Longrightarrow> u \<in> fst ` set cs \<longleftrightarrow> counter_of cs u > 0"
  by (force simp: positive_keys_def counter_of_def map_of_eq_None_iff split: option.splits dest: map_of_SomeD)

lemma check_usage_ok:
  assumes "event_inv ac" "positive_keys S cs" "u \<in> S"
  shows "\<exists>cs'. check_usage ac cs u = Some cs' \<and> positive_keys S cs'
    \<and> (\<forall>v. counter_of cs' v = (if v = u then count_event ac u (counter_of cs u) else counter_of cs v))"
proof -
  have pos: "counter_of cs u \<ge> 0"
    using assms(2) by (force simp: positive_keys_def counter_of_def split: option.splits dest: map_of_SomeD)
  show ?thesis
  proof (cases "event_lookup ac u")
    case None
    then show ?thesis using assms by (simp add: check_usage_def Event_Usage_lookup count_event_def)
  next
    case (Some e)
    then show ?thesis
      using assms pos positive_keys_update [OF assms(2,3)] positive_keys_delete [OF assms(2)]
      by (cases "ue_Activate e" rule: activate_cases)
         (auto simp: check_usage_def Event_Usage_lookup count_event_def count_step_def AList.delete_update_same)
  qed
qed

lemma check_usages_ok:
  assumes "event_inv ac"
  shows "positive_keys S cs \<Longrightarrow> distinct us \<Longrightarrow> set us \<subseteq> S \<Longrightarrow>
    \<exists>cs'. fold_opt (check_usage ac) us cs = Some cs' \<and> positive_keys S cs'
      \<and> (\<forall>v. counter_of cs' v = (if v \<in> set us then count_event ac v (counter_of cs v) else counter_of cs v))"
proof (induction us arbitrary: cs)
  case (Cons u us)
  obtain cs1 where cs1: "check_usage ac cs u = Some cs1" "positive_keys S cs1"
    "\<forall>v. counter_of cs1 v = (if v = u then count_event ac u (counter_of cs u) else counter_of cs v)"
    using check_usage_ok [OF assms Cons.prems(1), of u] Cons.prems(3) by auto
  obtain cs2 where cs2: "fold_opt (check_usage ac) us cs1 = Some cs2" "positive_keys S cs2"
    "\<forall>v. counter_of cs2 v = (if v \<in> set us then count_event ac v (counter_of cs1 v) else counter_of cs1 v)"
    using Cons.IH [OF cs1(2)] Cons.prems by auto
  then show ?case using cs1 Cons.prems(2) by auto
qed simp

text \<open>All counters are positive exactly when the map has as many keys as there are usages.\<close>

lemma positive_keys_full:
  assumes "positive_keys (set us) cs" "distinct us"
  shows "length cs = length us \<longleftrightarrow> (\<forall>u \<in> set us. counter_of cs u > 0)"
proof -
  have sub: "fst ` set cs \<subseteq> set us" using assms(1) by (force simp: positive_keys_def)
  have "length cs = card (fst ` set cs)"
    using assms(1) distinct_card [of "map fst cs"] by (simp add: positive_keys_def)
  moreover have "length us = card (set us)" using assms(2) by (simp add: distinct_card)
  ultimately have "length cs = length us \<longleftrightarrow> fst ` set cs = set us"
    using sub card_subset_eq [of "set us" "fst ` set cs"] by auto
  then show ?thesis using sub positive_keys_pos [OF assms(1)] by blast
qed

text \<open>More entries in the list than distinct usages: the counters never fill up.\<close>

lemma positive_keys_duplicates:
  assumes "positive_keys (set us) cs" "\<not> distinct us"
  shows "length cs \<noteq> length us"
proof -
  have "fst ` set cs \<subseteq> set us" using assms(1) by (force simp: positive_keys_def)
  then have "card (fst ` set cs) \<le> card (set us)" by (simp add: card_mono)
  moreover have "length cs = card (fst ` set cs)"
    using assms(1) distinct_card [of "map fst cs"] by (simp add: positive_keys_def)
  moreover have "card (set us) < length us"
    using assms(2) card_length [of us] card_distinct [of us] by linarith
  ultimately show ?thesis by linarith
qed

lemma counters_ok_keys: "counters_ok u \<longleftrightarrow> positive_keys (set (ua_usages u)) (ua_counters u)"
  by (simp add: counters_ok_def positive_keys_def)

definition all_pressed :: "usageActivation \<Rightarrow> bool" where
  "all_pressed u \<longleftrightarrow> (\<forall>v \<in> set (ua_usages u). counter_of (ua_counters u) v > 0)"

text \<open>One call of \<open>Check\<close>.\<close>

lemma trigger_Check_ok:
  assumes ac: "event_inv ac" and u: "counters_ok u" "distinct (ua_usages u)"
  shows "\<exists>u' ac'. trigger_Check u ac = Some (all_pressed u', u', ac') \<and> counters_ok u' \<and> ua_usages u' = ua_usages u
    \<and> (\<forall>v \<in> set (ua_usages u). counter_of (ua_counters u') v = count_event ac v (counter_of (ua_counters u) v))
    \<and> event_inv ac' \<and> event_lookup ac' =
        (if all_pressed u \<or> all_pressed u' then event_lookup ac |` (- set (ua_usages u)) else event_lookup ac)"
proof -
  let ?us = "ua_usages u"
  have keys: "positive_keys (set ?us) (ua_counters u)" using u(1) by (simp add: counters_ok_keys)
  obtain cs where cs: "fold_opt (check_usage ac) ?us (ua_counters u) = Some cs" "positive_keys (set ?us) cs"
    "\<forall>v. counter_of cs v = (if v \<in> set ?us then count_event ac v (counter_of (ua_counters u) v) else counter_of (ua_counters u) v)"
    using check_usages_ok [OF ac keys u(2)] by blast
  obtain ac' where ac': "Event_Suppress ac ?us = Some ac'" "event_inv ac'" "event_lookup ac' = event_lookup ac |` (- set ?us)"
    using Event_Suppress_lookup [OF ac] by blast
  have was: "length (ua_counters u) = length ?us \<longleftrightarrow> all_pressed u"
    using positive_keys_full [OF keys u(2)] by (simp add: all_pressed_def)
  let ?u' = "u\<lparr>ua_counters := cs\<rparr>"
  have now: "length cs = length ?us \<longleftrightarrow> all_pressed ?u'"
    using positive_keys_full [OF cs(2) u(2)] by (simp add: all_pressed_def)
  have "trigger_Check u ac = Some (all_pressed ?u', ?u', if all_pressed u \<or> all_pressed ?u' then ac' else ac)"
    using cs(1) ac'(1) was now by (auto simp: trigger_Check_def Let_def)
  then show ?thesis using cs ac' ac by (intro exI conjI) (assumption | auto simp: counters_ok_keys)+
qed

text \<open>With a usage named twice the trigger never fires.\<close>

lemma check_usages_keys:
  assumes "event_inv ac"
  shows "positive_keys S cs \<Longrightarrow> set us \<subseteq> S \<Longrightarrow>
    \<exists>cs'. fold_opt (check_usage ac) us cs = Some cs' \<and> positive_keys S cs'"
proof (induction us arbitrary: cs)
  case (Cons u us)
  obtain cs1 where "check_usage ac cs u = Some cs1" "positive_keys S cs1"
    using check_usage_ok [OF assms Cons.prems(1), of u] Cons.prems(2) by auto
  with Cons.IH [of cs1] Cons.prems(2) show ?case by auto
qed simp

lemma trigger_Check_duplicates:
  assumes ac: "event_inv ac" and u: "counters_ok u" "\<not> distinct (ua_usages u)"
  shows "\<exists>u'. trigger_Check u ac = Some (False, u', ac) \<and> counters_ok u' \<and> ua_usages u' = ua_usages u"
proof -
  have keys: "positive_keys (set (ua_usages u)) (ua_counters u)" using u(1) by (simp add: counters_ok_keys)
  obtain cs where cs: "fold_opt (check_usage ac) (ua_usages u) (ua_counters u) = Some cs"
    "positive_keys (set (ua_usages u)) cs"
    using check_usages_keys [OF ac keys] by auto
  show ?thesis
    using cs positive_keys_duplicates [OF keys u(2)] positive_keys_duplicates [OF cs(2) u(2)]
    by (simp add: trigger_Check_def Let_def counters_ok_keys)
qed

subsection \<open>Mappings\<close>

definition fin_ok :: "'w ActionFinalizer option \<Rightarrow> bool" where
  "fin_ok fin \<longleftrightarrow> (\<forall>f w ac w' ac'. fin = Some f \<longrightarrow> event_inv ac \<longrightarrow> f w ac = Some (w', ac') \<longrightarrow> event_inv ac')"

definition handler_ok :: "'w ActionHandler \<Rightarrow> bool" where
  "handler_ok h \<longleftrightarrow> (\<forall>w ac w' ac' fin. event_inv ac \<longrightarrow> h w ac = Some (w', ac', fin) \<longrightarrow> event_inv ac' \<and> fin_ok fin)"

text \<open>A mapping is triggered exactly while all its usages are pressed.\<close>

definition item_ok :: "'w bindItem \<Rightarrow> bool" where
  "item_ok m \<longleftrightarrow> counters_ok (bi_trigger m) \<and> distinct (ua_usages (bi_trigger m))
     \<and> bi_triggered m = all_pressed (bi_trigger m) \<and> handler_ok (bi_handler m) \<and> fin_ok (bi_finalizer m)"

lemma item_ok_new: "us \<noteq> [] \<Longrightarrow> distinct us \<Longrightarrow> handler_ok h \<Longrightarrow> item_ok (new_bindItem us h)"
  using counters_ok_new [of us]
  by (auto simp: item_ok_def new_bindItem_def fin_ok_def all_pressed_def newUsageActivation_def counter_of_def)

lemma trigger_item_ok:
  assumes m: "item_ok m" and ac: "event_inv ac" and s: "trigger_item w ac m = Some (w', ac', m')"
  shows "item_ok m' \<and> event_inv ac' \<and> bi_handler m' = bi_handler m
    \<and> ua_usages (bi_trigger m') = ua_usages (bi_trigger m)
    \<and> (\<forall>v \<in> set (ua_usages (bi_trigger m)). counter_of (ua_counters (bi_trigger m')) v
         = count_event ac v (counter_of (ua_counters (bi_trigger m)) v))"
proof -
  obtain u' ac1 where u': "trigger_Check (bi_trigger m) ac = Some (all_pressed u', u', ac1)" "counters_ok u'"
    "ua_usages u' = ua_usages (bi_trigger m)" "event_inv ac1"
    "\<forall>v \<in> set (ua_usages (bi_trigger m)). counter_of (ua_counters u') v = count_event ac v (counter_of (ua_counters (bi_trigger m)) v)"
    using trigger_Check_ok [OF ac, of "bi_trigger m"] m by (auto simp: item_ok_def)
  have h: "handler_ok (bi_handler m)" "fin_ok (bi_finalizer m)" using m by (auto simp: item_ok_def)
  from s u'(1) consider
      "all_pressed u'" "\<not> bi_triggered m" "\<exists>fin. bi_handler m w ac1 = Some (w', ac', fin)
        \<and> m' = m\<lparr>bi_trigger := u', bi_triggered := True, bi_finalizer := fin\<rparr>"
    | "\<not> all_pressed u'" "bi_triggered m" "m' = m\<lparr>bi_trigger := u', bi_triggered := False, bi_finalizer := None\<rparr>"
      "bi_finalizer m = None \<and> ac' = ac1 \<or> (\<exists>f. bi_finalizer m = Some f \<and> f w ac1 = Some (w', ac'))"
    | "all_pressed u' = bi_triggered m" "m' = m\<lparr>bi_trigger := u'\<rparr>" "ac' = ac1"
    by (auto simp: trigger_item_def Let_def split: if_splits option.splits)
  then show ?thesis
  proof cases
    case 1
    then show ?thesis using u' m h(1) by (auto simp: item_ok_def handler_ok_def)
  next
    case 2
    then show ?thesis using u' m h by (auto simp: item_ok_def fin_ok_def)
  next
    case 3
    then show ?thesis using u' m by (auto simp: item_ok_def)
  qed
qed

lemma triggerMappings_ok:
  "\<forall>m \<in> set ms. item_ok m \<Longrightarrow> event_inv ac \<Longrightarrow> triggerMappings ms w ac = Some (w', ac', ms') \<Longrightarrow>
     (\<forall>m \<in> set ms'. item_ok m) \<and> event_inv ac' \<and> length ms' = length ms"
proof (induction ms arbitrary: w ac w' ac' ms')
  case (Cons m ms)
  from Cons.prems(3) obtain w1 ac1 m1 ms1 where s: "trigger_item w ac m = Some (w1, ac1, m1)"
    and rest: "triggerMappings ms w1 ac1 = Some (w', ac', ms1)" and ms': "ms' = m1 # ms1"
    by (auto split: option.splits)
  have "item_ok m1 \<and> event_inv ac1" using trigger_item_ok [OF _ Cons.prems(2) s] Cons.prems(1) by simp
  with Cons.IH [OF _ _ rest] Cons.prems(1) ms' show ?case by auto
qed simp

lemma activate_inv: "event_inv ac \<Longrightarrow> Event_Activate ac us = Some ac' \<Longrightarrow> event_inv ac'"
  using Event_Activate_lookup [of ac True us] by auto

lemma deactivate_inv: "event_inv ac \<Longrightarrow> Event_Deactivate ac us = Some ac' \<Longrightarrow> event_inv ac'"
  using Event_Activate_lookup [of ac False us] by auto

lemma toggle_handler_ok: "handler_ok (NewToggleActionHandler us)"
  unfolding handler_ok_def fin_ok_def NewToggleActionHandler_def
  by (auto intro: activate_inv deactivate_inv)

subsection \<open>A key bound to other keys\<close>

definition remapped :: "Usage \<Rightarrow> Usage list \<Rightarrow> 'w bindItem \<Rightarrow> bool" where
  "remapped u vs m \<longleftrightarrow> item_ok m \<and> ua_usages (bi_trigger m) = [u] \<and> bi_handler m = NewToggleActionHandler vs
     \<and> bi_finalizer m = (if bi_triggered m then Some (toggle_fin vs) else None)"

text \<open>What the receiver holds: not the key itself, its replacements while the key is pressed.\<close>

definition receives :: "Usage \<Rightarrow> Usage list \<Rightarrow> 'w bindItem \<Rightarrow> Usage set \<Rightarrow> bool" where
  "receives u vs m S \<longleftrightarrow> u \<notin> S \<and> (\<forall>v \<in> set vs. v \<in> S \<longleftrightarrow> bi_triggered m)"

lemma remapped_new: "remapped u vs (new_bindItem [u] (NewToggleActionHandler vs))"
  using item_ok_new [of "[u]" "NewToggleActionHandler vs"] toggle_handler_ok
  by (auto simp: remapped_def new_bindItem_def newUsageActivation_def)

lemma hold_sent: "fold hold (if \<not> Event_IsEmpty (Some ac) then [ac] else []) S = hold ac S"
  by (simp add: Event_IsEmpty_def hold_def Event_Usages_def)

lemma toggle_on:
  assumes "event_inv ac"
  obtains ac' where "NewToggleActionHandler vs w ac = Some (w, ac', Some (toggle_fin vs))" "event_inv ac'"
    "\<forall>u. event_lookup ac' u = (if u \<in> set vs then Some (press u True) else event_lookup ac u)"
  using Event_Activate_lookup [OF assms, of True vs] by (auto simp: NewToggleActionHandler_def toggle_fin_def)

lemma toggle_off:
  assumes "event_inv ac"
  obtains ac' where "toggle_fin vs w ac = Some (w, ac')" "event_inv ac'"
    "\<forall>u. event_lookup ac' u = (if u \<in> set vs then Some (press u False) else event_lookup ac u)"
  using Event_Activate_lookup [OF assms, of False vs] by (auto simp: toggle_fin_def)

lemma remapped_step:
  assumes m: "remapped u vs m" and ac: "event_inv ac" and vs: "u \<notin> set vs" "\<forall>v \<in> set vs. event_lookup ac v = None"
    and S: "receives u vs m S"
  shows "\<exists>ac' m'. trigger_item w ac m = Some (w, ac', m') \<and> remapped u vs m'
    \<and> counter_of (ua_counters (bi_trigger m')) u = count_event ac u (counter_of (ua_counters (bi_trigger m)) u)
    \<and> receives u vs m' (hold ac' S)
    \<and> (\<forall>x. x \<noteq> u \<longrightarrow> x \<notin> set vs \<longrightarrow> (x \<in> hold ac' S \<longleftrightarrow> x \<in> hold ac S))"
proof -
  let ?t = "bi_trigger m"
  have i: "item_ok m" "ua_usages ?t = [u]" using m by (auto simp: remapped_def)
  obtain u' ac1 where u': "trigger_Check ?t ac = Some (all_pressed u', u', ac1)" "counters_ok u'" "ua_usages u' = [u]"
    and inv: "event_inv ac1" and cnt: "counter_of (ua_counters u') u = count_event ac u (counter_of (ua_counters ?t) u)"
    and look: "event_lookup ac1 = (if all_pressed ?t \<or> all_pressed u' then event_lookup ac |` (- {u}) else event_lookup ac)"
    using trigger_Check_ok [OF ac, of ?t] i by (auto simp: item_ok_def)
  have trig: "bi_triggered m \<longleftrightarrow> all_pressed ?t" using i by (simp add: item_ok_def)
  have at_u: "(case event_lookup ac1 u of None \<Rightarrow> False | Some e \<Rightarrow> ue_Activate e = Some True) = False"
  proof (cases "all_pressed ?t \<or> all_pressed u'")
    case False
    have nn: "counter_of (ua_counters ?t) u \<ge> 0"
      using i by (force simp: item_ok_def counters_ok_def counter_of_def split: option.splits dest: map_of_SomeD)
    have np: "\<not> counter_of (ua_counters u') u > 0" using False u'(3) by (simp add: all_pressed_def)
    have "ue_Activate e \<noteq> Some True" if "event_lookup ac u = Some e" for e
    proof
      assume "ue_Activate e = Some True"
      then have "counter_of (ua_counters u') u = counter_of (ua_counters ?t) u + 1"
        using that cnt by (simp add: count_event_def count_step_def)
      with np nn show False by simp
    qed
    then show ?thesis using False look by (auto split: option.splits)
  qed (simp add: look)
  have rest: "event_lookup ac1 x = event_lookup ac x" if "x \<noteq> u" for x using that by (simp add: look)
  have hold1: "u \<notin> hold ac1 S" "x \<noteq> u \<Longrightarrow> x \<in> hold ac1 S \<longleftrightarrow> x \<in> hold ac S" for x
    using at_u rest S by (auto simp: hold_iff [OF inv] hold_iff [OF ac] receives_def split: option.splits)
  have vs1: "v \<in> hold ac1 S \<longleftrightarrow> bi_triggered m" if "v \<in> set vs" for v
  proof -
    have "v \<noteq> u" using vs(1) that by auto
    then have "event_lookup ac1 v = None" using vs(2) that rest by simp
    then show ?thesis using S that by (simp add: hold_iff [OF inv] receives_def)
  qed
  obtain on where on: "NewToggleActionHandler vs w ac1 = Some (w, on, Some (toggle_fin vs))" "event_inv on"
    "\<forall>u. event_lookup on u = (if u \<in> set vs then Some (press u True) else event_lookup ac1 u)"
    by (rule toggle_on [OF inv])
  obtain off where off: "toggle_fin vs w ac1 = Some (w, off)" "event_inv off"
    "\<forall>u. event_lookup off u = (if u \<in> set vs then Some (press u False) else event_lookup ac1 u)"
    by (rule toggle_off [OF inv])
  let ?m = "m\<lparr>bi_trigger := u', bi_triggered := all_pressed u',
    bi_finalizer := (if all_pressed u' then Some (toggle_fin vs) else None)\<rparr>"
  let ?ac = "if all_pressed u' \<and> \<not> bi_triggered m then on else if \<not> all_pressed u' \<and> bi_triggered m then off else ac1"
  have s: "trigger_item w ac m = Some (w, ?ac, ?m)"
    using u'(1) m on(1) off(1) by (auto simp: trigger_item_def remapped_def Let_def)
  have "item_ok ?m" using trigger_item_ok [OF i(1) ac s] by simp
  then have m': "remapped u vs ?m" using m u'(3) by (auto simp: remapped_def)
  have h: "x \<in> hold ?ac S \<longleftrightarrow> (if x \<in> set vs then all_pressed u' else x \<in> hold ac1 S)" for x
    using on off vs1 by (auto simp: hold_iff inv)
  have "receives u vs ?m (hold ?ac S)" using h hold1(1) vs(1) by (simp add: receives_def)
  moreover have "x \<in> hold ?ac S \<longleftrightarrow> x \<in> hold ac S" if "x \<noteq> u" "x \<notin> set vs" for x
    using h [of x] hold1(2) [of x] that by simp
  ultimately show ?thesis using s m' cnt by (intro exI conjI allI impI) (assumption | simp)+
qed

lemma remapped_event:
  assumes m: "remapped u vs m" and ac: "event_inv ac" and vs: "u \<notin> set vs" "\<forall>v \<in> set vs. event_lookup ac v = None"
    and S: "receives u vs m S"
  shows "\<exists>m' i sent. bind_event interrupt [m] w ac = Some (w, [m'], i, sent) \<and> remapped u vs m'
    \<and> counter_of (ua_counters (bi_trigger m')) u = count_event ac u (counter_of (ua_counters (bi_trigger m)) u)
    \<and> receives u vs m' (fold hold sent S)
    \<and> (\<forall>x. x \<noteq> u \<longrightarrow> x \<notin> set vs \<longrightarrow> (x \<in> fold hold sent S \<longleftrightarrow> x \<in> hold ac S))"
proof -
  obtain ac' m' where s: "trigger_item w ac m = Some (w, ac', m')" and r: "remapped u vs m'"
    "counter_of (ua_counters (bi_trigger m')) u = count_event ac u (counter_of (ua_counters (bi_trigger m)) u)"
    "receives u vs m' (hold ac' S)" "\<forall>x. x \<noteq> u \<longrightarrow> x \<notin> set vs \<longrightarrow> (x \<in> hold ac' S \<longleftrightarrow> x \<in> hold ac S)"
    using remapped_step [OF assms] by blast
  have "bind_event interrupt [m] w ac = Some (w, [m'], shouldInterrupt interrupt ac', if \<not> Event_IsEmpty (Some ac') then [ac'] else [])"
    using s by (simp add: bind_event_def)
  then show ?thesis using r unfolding hold_sent [symmetric, of ac' S] by blast
qed

subsection \<open>A combination of two keys\<close>

text \<open>
  Two keys bound together, pressed and released one after the other: the release of the first one
  is suppressed although its press was sent on.
\<close>

definition single_event :: "UsageEvent \<Rightarrow> Event" where
  "single_event e = \<lparr>ev_ts = 0, ev_usages = [e], ev_usageMap = [ue_Usage e \<mapsto> 0]\<rparr>"

definition combo_run :: "Usage \<Rightarrow> Usage \<Rightarrow> (unit \<times> unit bindItem list \<times> Event list) option" where
  "combo_run a b = bind_run (\<lambda>_ _. False)
     [single_event (press a True), single_event (press b True),
      single_event (press a False), single_event (press b False)]
     [new_bindItem [a, b] NewActionNoneHandler] ()"

lemmas bind_eval = combo_run_def bind_event_def trigger_item_def trigger_Check_def check_usage_def
  Event_Usage_def Event_Suppress_def Event_removeUsage_def Event_IsEmpty_def new_bindItem_def newUsageActivation_def
  single_event_def counter_of_def NewActionNoneHandler_def shouldInterrupt_def Event_Usages_def subslice_def index_def

lemma combo_run_sent:
  assumes "a \<noteq> b"
  shows "\<exists>ms sent. combo_run a b = Some ((), ms, sent) \<and> map ev_usages sent = [[press a True], [press b False]]
    \<and> (\<forall>m \<in> set ms. ua_counters (bi_trigger m) = [] \<and> ua_usages (bi_trigger m) = [a, b])"
  using assms by (simp add: bind_eval)

end
