(* ===== verification/PkgBits.thy ===== *)
theory PkgBits
  imports Prelude
begin

section \<open>Bit vectors (pkg/bits/bits.go)\<close>

text \<open>
  Package \<open>bits\<close>: a bit vector is a byte slice and the number of unused bits of its last byte; a
  \<open>Scanner\<close> cuts consecutive vectors out of a byte stream; \<open>ConcatBits\<close> is the inverse. Two
  numberings coexist in the package: \<open>Scanner.Next\<close>, \<open>ConcatBits\<close> and \<open>String\<close> count bits from the
  most significant bit of each byte (\<open>bitlist\<close> below), \<open>IsSet\<close>, \<open>Set\<close>, \<open>Clear\<close> and \<open>Each\<close> from the
  least significant one. Lengths, offsets and indices are natural numbers (the callers never
  pass a negative one, and no slice is longer than Go's \<open>int\<close>); a read or write out of range is
  \<open>None\<close>. A vector's slice has no spare capacity, as every vector that is mutated comes from \<open>make\<close>.
\<close>

subsection \<open>The vector type and its accessors\<close>

record Bits =
  missingBits :: u8
  bytes :: "u8 list"

definition Bits_Len :: "Bits \<Rightarrow> int" where
  "Bits_Len b = int (length (bytes b)) * 8 - uint (missingBits b)"

definition Bits_LenUint8 :: "Bits \<Rightarrow> int" where
  "Bits_LenUint8 b = sgn (Bits_Len b) * (\<bar>Bits_Len b\<bar> div 8)"

definition Bits_LenUint16 :: "Bits \<Rightarrow> int" where
  "Bits_LenUint16 b = sgn (Bits_Len b) * (\<bar>Bits_Len b\<bar> div 16)"

definition Bits_LenUint32 :: "Bits \<Rightarrow> int" where
  "Bits_LenUint32 b = sgn (Bits_Len b) * (\<bar>Bits_Len b\<bar> div 32)"

definition Bits_MissingBits :: "Bits \<Rightarrow> u8" where
  "Bits_MissingBits b = missingBits b"

definition Bits_Bytes :: "Bits \<Rightarrow> u8 list" where
  "Bits_Bytes b = bytes b"

primrec bytes_equal :: "u8 list \<Rightarrow> u8 list \<Rightarrow> nat \<Rightarrow> bool" where
  "bytes_equal [] ys i = True"
| "bytes_equal (x # xs) ys i = (if x \<noteq> ys ! i then False else bytes_equal xs ys (Suc i))"

definition Bits_Equal :: "Bits \<Rightarrow> Bits \<Rightarrow> bool" where
  "Bits_Equal b other =
     (if missingBits b \<noteq> missingBits other then False
      else if length (bytes b) \<noteq> length (bytes other) then False
      else bytes_equal (bytes b) (bytes other) 0)"

definition Bits_Clone :: "Bits \<Rightarrow> Bits" where
  "Bits_Clone b = \<lparr>missingBits = missingBits b, bytes = bytes b\<rparr>"

definition Bits_New :: "u8 list \<Rightarrow> nat \<Rightarrow> Bits" where
  "Bits_New data missing = \<lparr>missingBits = of_nat missing, bytes = data\<rparr>"

definition missing_of_size :: "nat \<Rightarrow> u8" where
  "missing_of_size bitSize =
     (let m = (8 :: u8) - of_nat (bitSize mod 8) in if m = 8 then 0 else m)"

definition byte_size_of :: "nat \<Rightarrow> nat" where
  "byte_size_of bitSize =
     (if missing_of_size bitSize > 0 then bitSize div 8 + 1 else bitSize div 8)"

definition Bits_NewZeros :: "nat \<Rightarrow> Bits" where
  "Bits_NewZeros bitSize =
     \<lparr>missingBits = missing_of_size bitSize, bytes = replicate (byte_size_of bitSize) 0\<rparr>"

subsection \<open>Single bits\<close>

definition Bits_IsSet :: "Bits \<Rightarrow> nat \<Rightarrow> bool" where
  "Bits_IsSet b i =
     (if int i \<ge> Bits_Len b then False
      else (bytes b ! (i div 8)) AND push_bit (i mod 8) 1 \<noteq> 0)"

definition Bits_Set :: "Bits \<Rightarrow> nat \<Rightarrow> bool \<times> Bits" where
  "Bits_Set b i =
     (if int i \<ge> Bits_Len b then (False, b)
      else
        let byteOffset = i div 8; bitOffset = i mod 8;
            changed = ((bytes b ! byteOffset) AND push_bit bitOffset 1 = 0)
        in (changed, b\<lparr>bytes := (bytes b)[byteOffset := bytes b ! byteOffset OR push_bit bitOffset 1]\<rparr>))"

definition Bits_Clear :: "Bits \<Rightarrow> nat \<Rightarrow> bool \<times> Bits" where
  "Bits_Clear b i =
     (if int i \<ge> Bits_Len b then (False, b)
      else
        let byteOffset = i div 8; bitOffset = i mod 8;
            changed = ((bytes b ! byteOffset) AND push_bit bitOffset 1 \<noteq> 0)
        in (changed, b\<lparr>bytes := (bytes b)[byteOffset := bytes b ! byteOffset AND NOT (push_bit bitOffset 1)]\<rparr>))"

primrec clear_loop :: "u8 list \<Rightarrow> nat list \<Rightarrow> bool \<Rightarrow> bool \<times> u8 list" where
  "clear_loop xs [] changed = (changed, xs)"
| "clear_loop xs (i # is) changed = clear_loop (xs[i := 0]) is (if xs ! i \<noteq> 0 then True else changed)"

definition Bits_ClearAll :: "Bits \<Rightarrow> bool \<times> Bits" where
  "Bits_ClearAll b =
     (let (changed, xs) = clear_loop (bytes b) [0..<length (bytes b)] False
      in (changed, b\<lparr>bytes := xs\<rparr>))"

primrec all_zero :: "u8 list \<Rightarrow> bool" where
  "all_zero [] = True"
| "all_zero (x # xs) = (if x \<noteq> 0 then False else all_zero xs)"

definition Bits_IsEmpty :: "Bits \<Rightarrow> bool" where
  "Bits_IsEmpty b = all_zero (bytes b)"

subsection \<open>Iteration\<close>

text \<open>
  \<open>Each\<close>: the two nested loops; the first component of \<open>each_byte\<close> tells whether the loops go on. A
  callback takes the state it closes over and returns it with its answer.
\<close>

primrec each_byte ::
  "(nat \<Rightarrow> bool \<Rightarrow> 's \<Rightarrow> bool \<times> 's) \<Rightarrow> int \<Rightarrow> u8 \<Rightarrow> nat list \<Rightarrow> nat \<Rightarrow> 's \<Rightarrow> bool \<times> nat \<times> 's" where
  "each_byte f sz w [] i s = (True, i, s)"
| "each_byte f sz w (j # js) i s =
     (if int i \<ge> sz then (False, i, s)
      else case f i (w AND push_bit j 1 \<noteq> 0) s of (go_on, s') \<Rightarrow>
        if \<not> go_on then (False, i, s') else each_byte f sz w js (Suc i) s')"

primrec each_bytes ::
  "(nat \<Rightarrow> bool \<Rightarrow> 's \<Rightarrow> bool \<times> 's) \<Rightarrow> int \<Rightarrow> u8 list \<Rightarrow> nat \<Rightarrow> 's \<Rightarrow> 's" where
  "each_bytes f sz [] i s = s"
| "each_bytes f sz (w # ws) i s =
     (case each_byte f sz w [0..<8] i s of (go_on, i', s') \<Rightarrow>
        if go_on then each_bytes f sz ws i' s' else s')"

definition Bits_Each :: "(nat \<Rightarrow> bool \<Rightarrow> 's \<Rightarrow> bool \<times> 's) \<Rightarrow> Bits \<Rightarrow> 's \<Rightarrow> 's" where
  "Bits_Each f b s = each_bytes f (Bits_Len b) (bytes b) 0 s"

text \<open>
  \<open>EachUint8\<close>, \<open>EachUint16\<close>, \<open>EachUint24\<close> and \<open>EachUint32\<close>: their callbacks write to the vector that
  is iterated over, so the loop reads each element from the current state. The index handed to
  the callback is the byte offset.
\<close>

primrec each_loop ::
  "(Bits \<Rightarrow> nat \<Rightarrow> 'v option) \<Rightarrow> (nat \<Rightarrow> 'v \<Rightarrow> Bits \<times> 's \<Rightarrow> (bool \<times> Bits \<times> 's) option) \<Rightarrow>
   nat list \<Rightarrow> Bits \<times> 's \<Rightarrow> (Bits \<times> 's) option" where
  "each_loop rd f [] st = Some st"
| "each_loop rd f (i # is) st =
     (case rd (fst st) i of
        None \<Rightarrow> None
      | Some v \<Rightarrow>
          (case f i v st of
             None \<Rightarrow> None
           | Some (go_on, st') \<Rightarrow> if go_on then each_loop rd f is st' else Some st'))"

definition step_indices :: "nat \<Rightarrow> nat \<Rightarrow> nat list" where
  "step_indices k n = map (\<lambda>j. j * k) [0..<(n + k - 1) div k]"

definition read_u8 :: "Bits \<Rightarrow> nat \<Rightarrow> u8 option" where
  "read_u8 b i = index (bytes b) i"

definition read_u16 :: "Bits \<Rightarrow> nat \<Rightarrow> u16 option" where
  "read_u16 b i = map_option (\<lambda>w. le_uint16 (w ! 0) (w ! 1)) (subslice (bytes b) i (i + 2))"

definition read_u24 :: "Bits \<Rightarrow> nat \<Rightarrow> u16 option" where
  "read_u24 b i = map_option (\<lambda>w. le_uint16 (w ! 0) (w ! 1)) (subslice (bytes b) i (i + 3))"

definition read_u32 :: "Bits \<Rightarrow> nat \<Rightarrow> u32 option" where
  "read_u32 b i =
     map_option (\<lambda>w. le_uint32 (w ! 0) (w ! 1) (w ! 2) (w ! 3)) (subslice (bytes b) i (i + 4))"

definition Bits_EachUint8 ::
  "(nat \<Rightarrow> u8 \<Rightarrow> Bits \<times> 's \<Rightarrow> (bool \<times> Bits \<times> 's) option) \<Rightarrow> Bits \<times> 's \<Rightarrow> (Bits \<times> 's) option" where
  "Bits_EachUint8 f st = each_loop read_u8 f [0..<length (bytes (fst st))] st"

definition Bits_EachUint16 ::
  "(nat \<Rightarrow> u16 \<Rightarrow> Bits \<times> 's \<Rightarrow> (bool \<times> Bits \<times> 's) option) \<Rightarrow> Bits \<times> 's \<Rightarrow> (Bits \<times> 's) option" where
  "Bits_EachUint16 f st = each_loop read_u16 f (step_indices 2 (length (bytes (fst st)))) st"

definition Bits_EachUint24 ::
  "(nat \<Rightarrow> u16 \<Rightarrow> Bits \<times> 's \<Rightarrow> (bool \<times> Bits \<times> 's) option) \<Rightarrow> Bits \<times> 's \<Rightarrow> (Bits \<times> 's) option" where
  "Bits_EachUint24 f st = each_loop read_u24 f (step_indices 3 (length (bytes (fst st)))) st"

definition Bits_EachUint32 ::
  "(nat \<Rightarrow> u32 \<Rightarrow> Bits \<times> 's \<Rightarrow> (bool \<times> Bits \<times> 's) option) \<Rightarrow> Bits \<times> 's \<Rightarrow> (Bits \<times> 's) option" where
  "Bits_EachUint32 f st = each_loop read_u32 f (step_indices 4 (length (bytes (fst st)))) st"

subsection \<open>Integer elements\<close>

definition Bits_SetUint7 :: "Bits \<Rightarrow> nat \<Rightarrow> u8 \<Rightarrow> Bits option" where
  "Bits_SetUint7 b i v = map_option (\<lambda>xs. b\<lparr>bytes := xs\<rparr>) (store (bytes b) i (v AND 0x7F))"

definition Bits_SetUint8 :: "Bits \<Rightarrow> nat \<Rightarrow> u8 \<Rightarrow> Bits option" where
  "Bits_SetUint8 b i v = map_option (\<lambda>xs. b\<lparr>bytes := xs\<rparr>) (store (bytes b) i v)"

text \<open>\<open>binary.LittleEndian.PutUintN\<close> into the subslice from \<open>a\<close> to \<open>e\<close>.\<close>

definition put_at :: "Bits \<Rightarrow> nat \<Rightarrow> nat \<Rightarrow> u8 list \<Rightarrow> Bits option" where
  "put_at b a e data =
     (case subslice (bytes b) a e of
        None \<Rightarrow> None
      | Some w \<Rightarrow> Some (b\<lparr>bytes := take a (bytes b) @ data @ drop (a + length data) (bytes b)\<rparr>))"

definition Bits_SetUint16 :: "Bits \<Rightarrow> nat \<Rightarrow> u16 \<Rightarrow> Bits option" where
  "Bits_SetUint16 b i v = put_at b (i * 2) ((i + 1) * 2) (put_uint16 v)"

definition Bits_SetUint24 :: "Bits \<Rightarrow> nat \<Rightarrow> u16 \<Rightarrow> Bits option" where
  "Bits_SetUint24 b i v = put_at b (i * 3) ((i + 1) * 3) (put_uint16 v)"

definition Bits_SetUint32 :: "Bits \<Rightarrow> nat \<Rightarrow> u32 \<Rightarrow> Bits option" where
  "Bits_SetUint32 b i v = put_at b (i * 4) ((i + 1) * 4) (put_uint32 v)"

definition Bits_Uint7 :: "Bits \<Rightarrow> nat \<Rightarrow> u8 option" where
  "Bits_Uint7 b i = map_option (\<lambda>x. x AND 0x7F) (index (bytes b) i)"

definition Bits_Uint8 :: "Bits \<Rightarrow> nat \<Rightarrow> u8 option" where
  "Bits_Uint8 b i = index (bytes b) i"

definition Bits_Uint16 :: "Bits \<Rightarrow> nat \<Rightarrow> u16 option" where
  "Bits_Uint16 b i =
     map_option (\<lambda>w. le_uint16 (w ! 0) (w ! 1)) (subslice (bytes b) (i * 2) ((i + 1) * 2))"

definition Bits_Uint24 :: "Bits \<Rightarrow> nat \<Rightarrow> u16 option" where
  "Bits_Uint24 b i =
     map_option (\<lambda>w. le_uint16 (w ! 0) (w ! 1)) (subslice (bytes b) (i * 3) ((i + 1) * 3))"

definition Bits_Uint32 :: "Bits \<Rightarrow> nat \<Rightarrow> u32 option" where
  "Bits_Uint32 b i =
     map_option (\<lambda>w. le_uint32 (w ! 0) (w ! 1) (w ! 2) (w ! 3))
       (subslice (bytes b) (i * 4) ((i + 1) * 4))"

subsection \<open>Text form\<close>

definition byte_string :: "u8 \<Rightarrow> string" where
  "byte_string w = map (\<lambda>i. if bit w (7 - i) then CHR ''1'' else CHR ''0'') [0..<8]"

text \<open>The loop of \<open>String\<close>; slicing the eight digits panics when more than eight are asked for.\<close>

fun string_loop :: "u8 \<Rightarrow> u8 list \<Rightarrow> string option" where
  "string_loop m [] = Some []"
| "string_loop m [x] =
     (if m > 0 then
        (if unat (8 - m) \<le> 8 then Some (take (unat (8 - m)) (byte_string x)) else None)
      else Some (byte_string x))"
| "string_loop m (x # y # ys) = map_option (\<lambda>s. byte_string x @ '' '' @ s) (string_loop m (y # ys))"

definition Bits_String :: "Bits \<Rightarrow> string option" where
  "Bits_String b = string_loop (missingBits b) (bytes b)"

datatype bits_error = InvalidByteValue | IncompleteByteInTheMiddle

text \<open>\<open>strings.Fields\<close> on ASCII text.\<close>

definition is_space :: "char \<Rightarrow> bool" where
  "is_space c = (c \<in> {CHR '' '', CHR 0x09, CHR 0x0A, CHR 0x0B, CHR 0x0C, CHR 0x0D})"

fun fields_acc :: "string \<Rightarrow> string \<Rightarrow> string list" where
  "fields_acc acc [] = (if acc = [] then [] else [acc])"
| "fields_acc acc (c # cs) =
     (if is_space c then (if acc = [] then fields_acc [] cs else acc # fields_acc [] cs)
      else fields_acc (acc @ [c]) cs)"

definition strings_Fields :: "string \<Rightarrow> string list" where
  "strings_Fields s = fields_acc [] s"

text \<open>\<open>strconv.ParseUint(s, 2, 8)\<close>: binary digits only, at least one, value below 256.\<close>

primrec parse_bin :: "string \<Rightarrow> nat \<Rightarrow> nat option" where
  "parse_bin [] acc = Some acc"
| "parse_bin (c # cs) acc =
     (if c = CHR ''0'' then parse_bin cs (2 * acc)
      else if c = CHR ''1'' then parse_bin cs (2 * acc + 1) else None)"

definition ParseUint_2_8 :: "string \<Rightarrow> u8 option" where
  "ParseUint_2_8 s =
     (if s = [] then None
      else case parse_bin s 0 of None \<Rightarrow> None | Some n \<Rightarrow> if n < 256 then Some (of_nat n) else None)"

fun from_string_loop :: "nat \<Rightarrow> string list \<Rightarrow> Bits \<Rightarrow> (bits_error, Bits) outcome" where
  "from_string_loop n [] b = Ret b"
| "from_string_loop n (s # ss) b =
     (if length s = 8 then
        (case ParseUint_2_8 s of
           None \<Rightarrow> Fail InvalidByteValue
         | Some v \<Rightarrow> from_string_loop n ss (b\<lparr>bytes := bytes b @ [v]\<rparr>))
      else if length (bytes b) \<noteq> n - 1 then Fail IncompleteByteInTheMiddle
      else if length s > 8 then Panic
      else
        (case ParseUint_2_8 (s @ replicate (8 - length s) (CHR ''0'')) of
           None \<Rightarrow> Fail InvalidByteValue
         | Some v \<Rightarrow>
             from_string_loop n ss
               (b\<lparr>missingBits := 8 - of_nat (length s), bytes := bytes b @ [v]\<rparr>)))"

text \<open>
  The code allocates the byte slice up front and writes element \<open>i\<close> in iteration \<open>i\<close>; the model
  appends, so that the number of bytes so far is the loop index.
\<close>

definition NewBitSetFromString :: "string \<Rightarrow> (bits_error, Bits) outcome" where
  "NewBitSetFromString s =
     (let byteStrs = strings_Fields s
      in from_string_loop (length byteStrs) byteStrs \<lparr>missingBits = 0, bytes = []\<rparr>)"

subsection \<open>Concatenation\<close>

fun concat_loop :: "int \<Rightarrow> u8 \<Rightarrow> u8 list \<Rightarrow> int \<Rightarrow> u8 list \<Rightarrow> u8 list option" where
  "concat_loop sz lm [] i result = Some result"
| "concat_loop sz lm (x # xs) i result =
     (if i < 0 \<or> int (length result) \<le> i then None
      else
        let result = result[nat i := result ! nat i OR drop_bit (unat (8 - lm)) x]
        in if i = sz - 1 then Some result
           else if int (length result) \<le> i + 1 then None
           else concat_loop sz lm xs (i + 1) (result[nat (i + 1) := push_bit (unat lm) x]))"

definition ConcatBits :: "Bits \<Rightarrow> Bits \<Rightarrow> Bits option" where
  "ConcatBits l r =
     (if missingBits l = 0 then
        Some \<lparr>missingBits = missingBits r, bytes = bytes l @ bytes r\<rparr>
      else
        let sz = int (length (bytes l)) + int (length (bytes r))
              - (if missingBits l + missingBits r \<ge> 8 then 1 else 0)
        in if sz < 0 then None
           else
             let result = take (nat sz) (bytes l) @ replicate (nat sz - length (bytes l)) 0
             in map_option
                  (\<lambda>res. \<lparr>missingBits = (missingBits l + missingBits r) mod 8, bytes = res\<rparr>)
                  (concat_loop sz (missingBits l) (bytes r) (int (length (bytes l)) - 1) result))"

subsection \<open>Scanner\<close>

text \<open>
  The scanner's slice is \<open>sdata\<close>; \<open>sspare\<close> is what lies behind it up to the slice's capacity. A
  slice expression may reach into the spare capacity, an index expression may not.
\<close>

record Scanner =
  bitOffset :: nat
  sdata :: "u8 list"
  sspare :: "u8 list"

definition NewScanner :: "u8 list \<Rightarrow> u8 list \<Rightarrow> Scanner" where
  "NewScanner data spare = \<lparr>bitOffset = 0, sdata = data, sspare = spare\<rparr>"

primrec next_loop :: "u8 list \<Rightarrow> nat \<Rightarrow> nat \<Rightarrow> nat list \<Rightarrow> u8 list option" where
  "next_loop d byteStart bitStart [] = Some []"
| "next_loop d byteStart bitStart (i # is) =
     (case index d (byteStart + i) of
        None \<Rightarrow> None
      | Some x \<Rightarrow>
          (case index d (byteStart + i + 1) of
             None \<Rightarrow> None
           | Some y \<Rightarrow>
               map_option (\<lambda>r. (push_bit bitStart x OR drop_bit (8 - bitStart) y) # r)
                 (next_loop d byteStart bitStart is)))"

definition Scanner_Next :: "Scanner \<Rightarrow> nat \<Rightarrow> (Bits \<times> Scanner) option" where
  "Scanner_Next s bitSize =
     (let byteStart = bitOffset s div 8;
          bitStart = bitOffset s mod 8;
          byteSize = byte_size_of bitSize;
          missing = missing_of_size bitSize;
          s' = s\<lparr>bitOffset := bitOffset s + bitSize\<rparr>
      in if bitStart = 0 then
           map_option (\<lambda>d. (\<lparr>missingBits = missing, bytes = d\<rparr>, s'))
             (subslice (sdata s @ sspare s) byteStart (byteStart + byteSize))
         else
           map_option (\<lambda>d. (\<lparr>missingBits = missing, bytes = d\<rparr>, s'))
             (next_loop (sdata s) byteStart bitStart [0..<byteSize]))"

end
