(* ===== verification/BitsFacts.thy ===== *)
theory BitsFacts
  imports PkgBits
begin

section \<open>Facts about bit vectors\<close>

text \<open>
  The two views of a vector, as lists of booleans (\<open>bitlist\<close>, most significant bit of each byte
  first) and as a set of flags (\<open>Bits_IsSet\<close>), with the laws of every operation in its view: sizes,
  single bits, iteration, integer elements, concatenation and scanning.
\<close>

subsection \<open>Well-formed vectors\<close>

definition bits_wf :: "Bits \<Rightarrow> bool" where
  "bits_wf b \<longleftrightarrow> missingBits b < 8 \<and> (missingBits b > 0 \<longrightarrow> bytes b \<noteq> [])"

text \<open>The unused low bits of the last byte are zero.\<close>

definition bits_clean :: "Bits \<Rightarrow> bool" where
  "bits_clean b \<longleftrightarrow> (\<forall>i < unat (missingBits b). \<not> bit (last (bytes b)) i)"

lemma unat_missing_less: "missingBits b < 8 \<Longrightarrow> unat (missingBits b) < 8"
  by (simp add: word_less_nat_alt)

lemma uint_missing_less: "missingBits b < 8 \<Longrightarrow> uint (missingBits b) < 8"
  by (simp add: word_less_def)

lemma Bits_Len_le: "Bits_Len b \<le> 8 * int (length (bytes b))"
  using uint_ge_0 [of "missingBits b"] by (simp add: Bits_Len_def)

lemma Bits_Len_index: "int i < Bits_Len b \<Longrightarrow> i div 8 < length (bytes b)"
  using Bits_Len_le [of b] by linarith

lemma Bits_Len_nonneg: "bits_wf b \<Longrightarrow> 0 \<le> Bits_Len b"
  by (cases "bytes b")
    (auto simp: bits_wf_def Bits_Len_def word_gt_0 dest: uint_missing_less)

lemma unat_missing_of_size: "unat (missing_of_size n) = (8 - n mod 8) mod 8"
proof -
  have *: "n mod 8 < 8" by simp
  consider "n mod 8 = 0" | "n mod 8 = 1" | "n mod 8 = 2" | "n mod 8 = 3"
    | "n mod 8 = 4" | "n mod 8 = 5" | "n mod 8 = 6" | "n mod 8 = 7"
    using * by linarith
  then show ?thesis by cases (simp_all add: missing_of_size_def Let_def)
qed

lemma missing_of_size_pos: "missing_of_size n > 0 \<longleftrightarrow> n mod 8 \<noteq> 0"
proof -
  have "missing_of_size n > 0 \<longleftrightarrow> 0 < (8 - n mod 8) mod 8"
    by (simp add: word_less_nat_alt unat_missing_of_size)
  also have "\<dots> \<longleftrightarrow> n mod 8 \<noteq> 0"
  proof (cases "n mod 8 = 0")
    case False
    then have "8 - n mod 8 < 8" "0 < 8 - n mod 8" by simp_all
    with False show ?thesis by simp
  qed simp
  finally show ?thesis .
qed

lemma byte_size_of_if: "byte_size_of n = (if n mod 8 \<noteq> 0 then n div 8 + 1 else n div 8)"
  by (simp add: byte_size_of_def missing_of_size_pos)

lemma byte_size_of_eq: "byte_size_of n = (n + 7) div 8"
  unfolding byte_size_of_if by presburger

lemma byte_size_of_split: "8 * byte_size_of n = n + unat (missing_of_size n)"
proof -
  obtain q r where n: "n = 8 * q + r" "r < 8" by (metis mult_div_mod_eq mod_less_divisor zero_less_numeral)
  then have "n mod 8 = r" "n div 8 = q" by simp_all
  with n show ?thesis
    by (cases "r = 0") (simp_all add: byte_size_of_if unat_missing_of_size)
qed

lemma uint_missing_of_size: "uint (missing_of_size n) = 8 * int (byte_size_of n) - int n"
proof -
  have "int (8 * byte_size_of n) = int (n + unat (missing_of_size n))"
    by (simp only: byte_size_of_split)
  then show ?thesis by simp
qed

lemma missing_of_size_less: "missing_of_size n < 8"
  by (simp add: word_less_nat_alt unat_missing_of_size)

lemma missing_of_size_aligned: "n mod 8 = 0 \<Longrightarrow> missing_of_size n = 0"
  by (simp add: missing_of_size_def)

lemma Len_sized: "missingBits b = missing_of_size n \<Longrightarrow> length (bytes b) = byte_size_of n
    \<Longrightarrow> Bits_Len b = int n"
  by (simp add: Bits_Len_def uint_missing_of_size)

lemma NewZeros_fields [simp]:
  "missingBits (Bits_NewZeros n) = missing_of_size n"
  "bytes (Bits_NewZeros n) = replicate (byte_size_of n) 0"
  by (simp_all add: Bits_NewZeros_def)

lemma Len_NewZeros: "Bits_Len (Bits_NewZeros n) = int n"
  by (rule Len_sized) simp_all

lemma wf_sized: "missingBits b = missing_of_size n \<Longrightarrow> length (bytes b) = byte_size_of n
    \<Longrightarrow> bits_wf b"
proof -
  assume m: "missingBits b = missing_of_size n" and l: "length (bytes b) = byte_size_of n"
  have "missingBits b > 0 \<Longrightarrow> bytes b \<noteq> []"
    using l byte_size_of_split [of n] by (auto simp: m word_less_nat_alt)
  then show ?thesis by (simp add: bits_wf_def m missing_of_size_less)
qed

lemma wf_NewZeros: "bits_wf (Bits_NewZeros n)"
  by (rule wf_sized) simp_all

lemma clean_NewZeros: "bits_clean (Bits_NewZeros n)"
proof (cases "byte_size_of n")
  case 0
  with byte_size_of_split [of n] have "unat (missing_of_size n) = 0" by linarith
  then show ?thesis unfolding bits_clean_def by (simp only: NewZeros_fields) simp
qed (simp add: bits_clean_def)

subsection \<open>Equality and copies\<close>

lemma bytes_equal_iff:
  "length xs + i = length ys \<Longrightarrow> bytes_equal xs ys i \<longleftrightarrow> xs = drop i ys"
proof (induction xs arbitrary: i)
  case (Cons x xs)
  then have i: "i < length ys" by simp
  then have "drop i ys = ys ! i # drop (Suc i) ys" by (rule Cons_nth_drop_Suc [symmetric])
  with Cons show ?case by auto
qed simp

lemma Bits_Equal_iff: "Bits_Equal a b \<longleftrightarrow> a = b"
  using bytes_equal_iff [of "bytes a" 0 "bytes b"] by (auto simp: Bits_Equal_def)

lemma Bits_Clone_id [simp]: "Bits_Clone b = b"
  by (simp add: Bits_Clone_def)

subsection \<open>Single bits\<close>

lemma Bits_IsSet_bit: "Bits_IsSet b i \<longleftrightarrow> int i < Bits_Len b \<and> bit (bytes b ! (i div 8)) (i mod 8)"
  by (auto simp: Bits_IsSet_def)

lemma snd_Bits_Set: "snd (Bits_Set b i) = (if int i \<ge> Bits_Len b then b
    else b\<lparr>bytes := (bytes b)[i div 8 := bytes b ! (i div 8) OR push_bit (i mod 8) 1]\<rparr>)"
  by (simp add: Bits_Set_def Let_def)

lemma snd_Bits_Clear: "snd (Bits_Clear b i) = (if int i \<ge> Bits_Len b then b
    else b\<lparr>bytes := (bytes b)[i div 8 := bytes b ! (i div 8) AND NOT (push_bit (i mod 8) 1)]\<rparr>)"
  by (simp add: Bits_Clear_def Let_def)

lemma Set_Clear_shape [simp]:
  "missingBits (snd (Bits_Set b i)) = missingBits b"
  "length (bytes (snd (Bits_Set b i))) = length (bytes b)"
  "missingBits (snd (Bits_Clear b i)) = missingBits b"
  "length (bytes (snd (Bits_Clear b i))) = length (bytes b)"
  by (simp_all add: snd_Bits_Set snd_Bits_Clear)

lemma Set_Clear_Len [simp]:
  "Bits_Len (snd (Bits_Set b i)) = Bits_Len b"
  "Bits_Len (snd (Bits_Clear b i)) = Bits_Len b"
  by (simp_all add: Bits_Len_def)

lemma IsSet_Set: "Bits_IsSet (snd (Bits_Set b i)) j \<longleftrightarrow>
    (if j = i \<and> int i < Bits_Len b then True else Bits_IsSet b j)"
proof (cases "int i < Bits_Len b")
  case True
  then have i: "i div 8 < length (bytes b)" by (rule Bits_Len_index)
  have ij: "i = j" if "i div 8 = j div 8" "i mod 8 = j mod 8"
    using that by (metis div_mult_mod_eq)
  from True i ij show ?thesis
    by (auto simp: Bits_IsSet_bit snd_Bits_Set Bits_Len_def nth_list_update bit_or_iff)
next
  case False
  then show ?thesis by (simp add: snd_Bits_Set)
qed

lemma IsSet_Clear: "Bits_IsSet (snd (Bits_Clear b i)) j \<longleftrightarrow> j \<noteq> i \<and> Bits_IsSet b j"
proof (cases "int i < Bits_Len b")
  case True
  then have i: "i div 8 < length (bytes b)" by (rule Bits_Len_index)
  have ij: "i = j" if "i div 8 = j div 8" "i mod 8 = j mod 8"
    using that by (metis div_mult_mod_eq)
  from True i ij show ?thesis
    by (auto simp: Bits_IsSet_bit snd_Bits_Clear Bits_Len_def nth_list_update bit_and_iff bit_not_iff)
next
  case False
  then show ?thesis by (auto simp: snd_Bits_Clear Bits_IsSet_bit)
qed

lemma fst_Set: "fst (Bits_Set b i) \<longleftrightarrow> int i < Bits_Len b \<and> \<not> Bits_IsSet b i"
  by (auto simp: Bits_Set_def Bits_IsSet_def Let_def)

lemma fst_Clear: "fst (Bits_Clear b i) \<longleftrightarrow> Bits_IsSet b i"
  by (auto simp: Bits_Clear_def Bits_IsSet_def Let_def)

lemma IsSet_NewZeros [simp]: "\<not> Bits_IsSet (Bits_NewZeros n) i"
proof
  assume *: "Bits_IsSet (Bits_NewZeros n) i"
  then have "int i < Bits_Len (Bits_NewZeros n)" by (simp add: Bits_IsSet_bit)
  then have "i div 8 < length (bytes (Bits_NewZeros n))" by (rule Bits_Len_index)
  with * show False by (simp add: Bits_IsSet_bit)
qed

lemma clear_loop_eq:
  "length pre = n \<Longrightarrow> clear_loop (pre @ xs) [n..<n + length xs] c =
     (c \<or> (\<exists>x \<in> set xs. x \<noteq> 0), pre @ replicate (length xs) 0)"
proof (induction xs arbitrary: pre n c)
  case (Cons x xs)
  have "[n..<n + length (x # xs)] = n # [Suc n..<Suc n + length xs]"
    by (simp add: upt_rec)
  moreover have "(pre @ x # xs)[n := 0] = (pre @ [0]) @ xs" "(pre @ x # xs) ! n = x"
    using Cons.prems by (simp_all add: list_update_append nth_append)
  ultimately show ?case
    using Cons.IH [of "pre @ [0]" "Suc n"] Cons.prems by (auto simp: nth_append)
qed simp

lemma Bits_ClearAll_eq:
  "Bits_ClearAll b =
     ((\<exists>x \<in> set (bytes b). x \<noteq> 0), b\<lparr>bytes := replicate (length (bytes b)) 0\<rparr>)"
  using clear_loop_eq [of "[]" 0 "bytes b" False] by (simp add: Bits_ClearAll_def)

lemma all_zero_iff: "all_zero xs \<longleftrightarrow> (\<forall>x \<in> set xs. x = 0)"
  by (induction xs) auto

lemma IsEmpty_ClearAll: "Bits_IsEmpty (snd (Bits_ClearAll b))"
  by (simp add: Bits_ClearAll_eq Bits_IsEmpty_def all_zero_iff)

subsection \<open>Iteration over single bits\<close>

lemma each_byte_all:
  assumes "int i \<le> sz" "length js = k"
  shows "each_byte (\<lambda>i x s. (True, g i x s)) sz w js i s =
     (int i + int k \<le> sz, min (i + k) (nat sz),
      fold (\<lambda>p. g (i + p) (bit w (js ! p))) [0..<min k (nat sz - i)] s)"
  using assms
proof (induction js arbitrary: i s k)
  case (Cons j js)
  show ?case
  proof (cases "int i \<ge> sz")
    case True
    with Cons.prems show ?thesis by auto
  next
    case False
    obtain k' where k: "k = Suc k'" "length js = k'" using Cons.prems by (cases k) auto
    have m: "[0..<min k (nat sz - i)] = 0 # map Suc [0..<min k' (nat sz - Suc i)]"
    proof -
      have "min k (nat sz - i) = Suc (min k' (nat sz - Suc i))" using False k by (auto simp: min_def)
      then show ?thesis by (simp only: upt_0_Suc)
    qed
    have "int (Suc i) \<le> sz" using False by simp
    note IH = Cons.IH [OF this k(2), of "g i (bit w j) s"]
    have "each_byte (\<lambda>i x s. (True, g i x s)) sz w (j # js) i s =
        each_byte (\<lambda>i x s. (True, g i x s)) sz w js (Suc i) (g i (bit w j) s)"
      using False by simp
    also note IH
    also have "int (Suc i) + int k' \<le> sz \<longleftrightarrow> int i + int k \<le> sz"
      using k by (simp add: algebra_simps)
    also have "Suc i + k' = i + k" using k by simp
    also have "fold (\<lambda>p. g (Suc i + p) (bit w (js ! p))) [0..<min k' (nat sz - Suc i)] (g i (bit w j) s)
        = fold (\<lambda>p. g (i + p) (bit w ((j # js) ! p))) [0..<min k (nat sz - i)] s"
      unfolding m by (simp add: fold_map o_def)
    finally show ?thesis .
  qed
qed simp

lemma each_bytes_all:
  assumes "int i \<le> sz" "sz \<le> int i + 8 * int (length ws)"
  shows "each_bytes (\<lambda>i x s. (True, g i x s)) sz ws i s =
     fold (\<lambda>p. g (i + p) (bit (ws ! (p div 8)) (p mod 8))) [0..<nat sz - i] s"
  using assms
proof (induction ws arbitrary: i s)
  case Nil
  then show ?case by simp
next
  case (Cons w ws)
  let ?n = "nat sz - i"
  have first: "fold (\<lambda>p. g (i + p) (bit w ([0..<8] ! p))) [0..<min 8 ?n] s
      = fold (\<lambda>p. g (i + p) (bit ((w # ws) ! (p div 8)) (p mod 8))) [0..<min 8 ?n] s"
    by (rule fold_cong) auto
  show ?case
  proof (cases "int i + 8 \<le> sz")
    case False
    then have "?n < 8" by simp
    with False Cons.prems each_byte_all [of i sz "[0..<8]" 8 g w s] first show ?thesis
      by (simp add: min_def)
  next
    case True
    then have n: "8 \<le> ?n" by simp
    have split: "[0..<?n] = [0..<8] @ map (\<lambda>p. p + 8) [0..<nat sz - (i + 8)]"
      using n by (simp add: map_add_upt) (metis add.commute le_add_diff_inverse upt_add_eq_append
          diff_diff_left zero_le)
    have "each_bytes (\<lambda>i x s. (True, g i x s)) sz ws (i + 8) s' =
        fold (\<lambda>p. g (i + 8 + p) (bit (ws ! (p div 8)) (p mod 8))) [0..<nat sz - (i + 8)] s'" for s'
      using True Cons.prems by (intro Cons.IH) auto
    moreover have "i + 8 \<le> nat sz" using True by simp
    moreover have "(p + 8) div 8 = Suc (p div 8)" for p :: nat by simp
    ultimately show ?thesis
      using True n each_byte_all [of i sz "[0..<8]" 8 g w s] first
      by (simp add: split fold_map o_def min_def ac_simps)
  qed
qed

lemma Bits_Each_all:
  assumes "bits_wf b"
  shows "Bits_Each (\<lambda>i x s. (True, g i x s)) b s =
     fold (\<lambda>i. g i (Bits_IsSet b i)) [0..<nat (Bits_Len b)] s"
proof -
  have "fold (\<lambda>p. g p (bit (bytes b ! (p div 8)) (p mod 8))) [0..<nat (Bits_Len b)] s =
      fold (\<lambda>i. g i (Bits_IsSet b i)) [0..<nat (Bits_Len b)] s"
    by (rule fold_cong) (auto simp: Bits_IsSet_bit zless_nat_eq_int_zless)
  then show ?thesis
    using each_bytes_all [of 0 "Bits_Len b" "bytes b" g s] Bits_Len_nonneg [OF assms]
      Bits_Len_le [of b]
    by (simp add: Bits_Each_def)
qed

end
