(* ===== verification/BitsStream.thy ===== *)
theory BitsStream
  imports BitsFacts
begin

section \<open>Bit streams: ConcatBits, Scanner and the text form\<close>

text \<open>
  The stream view of package \<open>bits\<close>: \<open>bitlist\<close> reads a vector from the most significant bit of
  each byte. \<open>ConcatBits\<close> appends the lists of its arguments, \<open>Scanner.Next\<close> cuts the next bits
  out of the stream, and \<open>NewBitSetFromString\<close> reads back what \<open>String\<close> prints.
\<close>

subsection \<open>The stream of a byte slice\<close>

definition msb_bits :: "u8 \<Rightarrow> bool list" where
  "msb_bits w = map (\<lambda>i. bit w (7 - i)) [0..<8]"

definition stream :: "u8 list \<Rightarrow> bool list" where
  "stream xs = concat (map msb_bits xs)"

definition bitlist :: "Bits \<Rightarrow> bool list" where
  "bitlist b = take (nat (Bits_Len b)) (stream (bytes b))"

lemma length_msb_bits [simp]: "length (msb_bits w) = 8"
  by (simp add: msb_bits_def)

lemma nth_msb_bits: "i < 8 \<Longrightarrow> msb_bits w ! i = bit w (7 - i)"
  by (simp add: msb_bits_def)

lemma stream_simps [simp]:
  "stream [] = []" "stream (x # xs) = msb_bits x @ stream xs"
  "stream (xs @ ys) = stream xs @ stream ys"
  by (simp_all add: stream_def)

lemma length_stream [simp]: "length (stream xs) = 8 * length xs"
  by (induction xs) simp_all

lemma length_bitlist: "bits_wf b \<Longrightarrow> length (bitlist b) = nat (Bits_Len b)"
  using Bits_Len_le [of b] by (simp add: bitlist_def)

lemma msb_bits_inj: "msb_bits x = msb_bits y \<longleftrightarrow> x = y"
proof
  assume eq: "msb_bits x = msb_bits y"
  show "x = y"
  proof (rule bit_word_eqI)
    fix n assume "n < LENGTH(8)"
    then show "bit x n = bit y n"
      using arg_cong [OF eq, of "\<lambda>l. l ! (7 - n)"] by (simp add: nth_msb_bits)
  qed
qed simp

lemma stream_inj: "length xs = length ys \<Longrightarrow> stream xs = stream ys \<longleftrightarrow> xs = ys"
  by (induction xs ys rule: list_induct2) (auto simp: msb_bits_inj)

lemma drop_stream: "drop (8 * k) (stream xs) = stream (drop k xs)"
proof (induction k arbitrary: xs)
  case (Suc k)
  then show ?case by (cases xs) simp_all
qed simp

lemma take_stream: "take (8 * k) (stream xs) = stream (take k xs)"
proof (induction k arbitrary: xs)
  case (Suc k)
  then show ?case by (cases xs) simp_all
qed simp

lemma msb_bits_or_drop:
  assumes "k \<le> 8" "\<forall>i < 8 - k. \<not> bit c i"
  shows "msb_bits (c OR drop_bit k x) = take k (msb_bits c) @ take (8 - k) (msb_bits x)"
proof (rule nth_equalityI)
  fix i assume "i < length (msb_bits (c OR drop_bit k x))"
  then have i: "i < 8" by simp
  show "msb_bits (c OR drop_bit k x) ! i = (take k (msb_bits c) @ take (8 - k) (msb_bits x)) ! i"
  proof (cases "i < k")
    case True
    then have "\<not> bit x (k + (7 - i))" using i by (auto dest: bit_u8_less)
    with True i assms show ?thesis
      by (simp add: nth_msb_bits nth_append bit_or_iff bit_drop_bit_eq)
  next
    case False
    then have "\<not> bit c (7 - i)" "k + (7 - i) = 7 - (i - k)" using assms i by auto
    with False i assms show ?thesis
      by (simp add: nth_msb_bits nth_append bit_or_iff bit_drop_bit_eq)
  qed
qed (use assms in simp)

lemma msb_bits_push:
  assumes "k \<le> 8"
  shows "msb_bits (push_bit (8 - k) x) = drop (8 - k) (msb_bits x) @ replicate (8 - k) False"
proof (rule nth_equalityI)
  fix i assume "i < length (msb_bits (push_bit (8 - k) x))"
  then have i: "i < 8" by simp
  show "msb_bits (push_bit (8 - k) x) ! i =
      (drop (8 - k) (msb_bits x) @ replicate (8 - k) False) ! i"
  proof (cases "i < k")
    case True
    then have "7 - i - (8 - k) = 7 - (8 - k + i)" "8 - k \<le> 7 - i" "7 - i < 8" using i assms by linarith+
    with True i assms show ?thesis
      by (simp add: nth_msb_bits nth_append bit_push_bit_iff)
  next
    case False
    then have "\<not> 8 - k \<le> 7 - i" using i assms by linarith
    with False i assms show ?thesis
      by (simp add: nth_msb_bits nth_append bit_push_bit_iff)
  qed
qed (use assms in simp)

subsection \<open>ConcatBits appends\<close>

text \<open>What the loop writes, without the break: \<open>k\<close> bits of \<open>cur\<close> are taken.\<close>

primrec shift_in :: "nat \<Rightarrow> u8 \<Rightarrow> u8 list \<Rightarrow> u8 list" where
  "shift_in k cur [] = [cur]"
| "shift_in k cur (x # xs) = (cur OR drop_bit k x) # shift_in k (push_bit (8 - k) x) xs"

lemma length_shift_in [simp]: "length (shift_in k cur xs) = Suc (length xs)"
  by (induction xs arbitrary: cur) simp_all

lemma stream_shift_in:
  assumes "k \<le> 8"
  shows "\<forall>i < 8 - k. \<not> bit cur i \<Longrightarrow>
    stream (shift_in k cur xs) = take k (msb_bits cur) @ stream xs @ replicate (8 - k) False"
proof (induction xs arbitrary: cur)
  case Nil
  have "drop k (msb_bits cur) = replicate (8 - k) False"
    by (rule nth_equalityI) (use Nil assms in \<open>auto simp: nth_msb_bits\<close>)
  then show ?case
    by (metis append_Nil append_Nil2 append_take_drop_id shift_in.simps(1) stream_simps(1,2))
next
  case (Cons x xs)
  have "\<forall>i < 8 - k. \<not> bit (push_bit (8 - k) x) i" by (auto simp: bit_push_bit_iff)
  note IH = Cons.IH [OF this]
  have "take (8 - k) (msb_bits x) @ drop (8 - k) (msb_bits x) = msb_bits x" by simp
  with IH Cons.prems assms show ?case
    by (simp add: msb_bits_or_drop msb_bits_push)
qed

lemma last_shift_in_clean:
  "xs \<noteq> [] \<Longrightarrow> i < 8 - k \<Longrightarrow> \<not> bit (last (shift_in k cur xs)) i"
proof (induction xs arbitrary: cur)
  case (Cons x xs)
  show ?case
  proof (cases xs)
    case Nil
    with Cons.prems show ?thesis by (simp add: bit_push_bit_iff)
  next
    case (Cons y ys)
    then have "shift_in k (push_bit (8 - k) x) xs \<noteq> []" by simp
    with Cons Cons.IH Cons.prems show ?thesis by simp
  qed
qed simp

lemma concat_loop_shift_in:
  assumes "unat (8 - lm) = k" "unat lm = 8 - k"
  shows "\<lbrakk>sz = int (length pre) + 1 + int (length zs); length zs \<le> length xs\<rbrakk> \<Longrightarrow>
    concat_loop sz lm xs (int (length pre)) (pre @ cur # zs)
      = Some (pre @ take (Suc (length zs)) (shift_in k cur xs))"
proof (induction xs arbitrary: pre cur zs)
  case Nil
  then show ?case by simp
next
  case (Cons x xs)
  let ?cur = "cur OR drop_bit k x"
  have upd: "(pre @ cur # zs)[length pre := ?cur] = pre @ ?cur # zs" by simp
  show ?case
  proof (cases zs)
    case Nil
    with Cons.prems assms show ?thesis by (simp add: Let_def)
  next
    case (Cons z zs')
    let ?pre = "pre @ [?cur]"
    have eq: "(pre @ ?cur # z # zs')[length ?pre := push_bit (unat lm) x]
        = ?pre @ push_bit (8 - k) x # zs'"
      using assms by (simp add: list_update_append)
    have "concat_loop sz lm xs (int (length ?pre)) (?pre @ push_bit (8 - k) x # zs')
        = Some (?pre @ take (Suc (length zs')) (shift_in k (push_bit (8 - k) x) xs))"
      using Cons.prems \<open>zs = z # zs'\<close> by (intro Cons.IH) auto
    moreover have "nat (int (length pre) + 1) = length ?pre" "int (length pre) + 1 = int (length ?pre)"
      by simp_all
    ultimately show ?thesis
      using Cons.prems \<open>zs = z # zs'\<close> assms(1) eq
      by (simp add: Let_def ac_simps)
  qed
qed

text \<open>A clean vector is its bit list, padded with zeros.\<close>

lemma nat_Bits_Len: "bits_wf b \<Longrightarrow> nat (Bits_Len b) = 8 * length (bytes b) - unat (missingBits b)"
proof -
  have "Bits_Len b = int (8 * length (bytes b)) - int (unat (missingBits b))"
    by (simp add: Bits_Len_def)
  then show ?thesis by arith
qed

lemma unat_missing_le: "bits_wf b \<Longrightarrow> unat (missingBits b) \<le> 8 * length (bytes b)"
  by (cases "bytes b") (auto simp: bits_wf_def word_gt_0 dest: unat_missing_less)

lemma bits_clean_iff:
  assumes wf: "bits_wf b"
  shows "bits_clean b \<longleftrightarrow> stream (bytes b) = bitlist b @ replicate (unat (missingBits b)) False"
proof (cases "missingBits b = 0")
  case True
  then show ?thesis using wf by (simp add: bits_clean_def bitlist_def nat_Bits_Len)
next
  case False
  define m where "m = unat (missingBits b)"
  have m: "0 < m" "m < 8"
    using False wf by (auto simp: m_def bits_wf_def word_less_nat_alt unat_gt_0)
  obtain pre cur where b: "bytes b = pre @ [cur]"
    using False wf by (metis append_butlast_last_id bits_wf_def word_gt_0)
  have "nat (Bits_Len b) = 8 * length pre + (8 - m)"
    using m by (simp add: nat_Bits_Len [OF wf] b m_def [symmetric])
  then have l: "bitlist b = stream pre @ take (8 - m) (msb_bits cur)"
    by (simp add: bitlist_def b)
  have "stream (bytes b) = bitlist b @ drop (8 - m) (msb_bits cur)"
    by (simp add: l b)
  moreover have "drop (8 - m) (msb_bits cur) = replicate m False \<longleftrightarrow> (\<forall>i < m. \<not> bit cur i)"
  proof -
    have "drop (8 - m) (msb_bits cur) ! i \<longleftrightarrow> bit cur (m - 1 - i)" if "i < m" for i
    proof -
      have "7 - (8 - m + i) = m - 1 - i" using that m by linarith
      then show ?thesis using that m by (simp add: nth_msb_bits)
    qed
    moreover have "(\<forall>i < m. \<not> bit cur (m - 1 - i)) \<longleftrightarrow> (\<forall>i < m. \<not> bit cur i)"
    proof -
      have "m - 1 - (m - 1 - i) = i" "m - 1 - i < m" if "i < m" for i using that by linarith+
      then show ?thesis by metis
    qed
    ultimately show ?thesis using m by (auto simp: list_eq_iff_nth_eq)
  qed
  ultimately show ?thesis by (simp add: bits_clean_def b m_def [symmetric])
qed

lemma unat_add_missing:
  "missingBits l < 8 \<Longrightarrow> missingBits r < 8 \<Longrightarrow>
    unat (missingBits l + missingBits r) = unat (missingBits l) + unat (missingBits r)"
  using unat_missing_less [of l] unat_missing_less [of r]
  by (simp add: unat_word_ariths)

lemma ConcatBits_bytes:
  assumes wf: "bits_wf l" "bits_wf r" and m0: "missingBits l \<noteq> 0"
    and lbs: "bytes l = pre @ [cur]"
  defines "m \<equiv> unat (missingBits l)" and "p \<equiv> unat (missingBits r)"
  defines "d \<equiv> (if m + p \<ge> 8 then 1 else 0 :: nat)"
  shows "ConcatBits l r = Some
    \<lparr>missingBits = (missingBits l + missingBits r) mod 8,
     bytes = pre @ take (Suc (length (bytes r)) - d) (shift_in (8 - m) cur (bytes r))\<rparr>"
proof -
  have m: "0 < m" "m < 8" "p < 8" "unat (missingBits l + missingBits r) = m + p"
    using m0 wf unat_add_missing [of l r]
    by (auto simp: m_def p_def bits_wf_def word_less_nat_alt unat_gt_0)
  have ge: "missingBits l + missingBits r \<ge> 8 \<longleftrightarrow> m + p \<ge> 8"
    by (simp add: word_le_nat_alt m(4))
  have ks: "unat (8 - missingBits l) = 8 - m" "unat (missingBits l) = 8 - (8 - m)"
    using m by (simp_all add: unat_sub word_le_nat_alt m_def [symmetric])
  show ?thesis
  proof (cases "bytes r")
    case Nil
    then have "p = 0" using wf by (auto simp: p_def bits_wf_def word_gt_0)
    then show ?thesis using m m0 Nil ge lbs by (simp add: ConcatBits_def d_def Let_def)
  next
    case (Cons y ys)
    let ?zs = "replicate (length (bytes r) - d) (0 :: u8)"
    have d1: "d \<le> 1" by (simp add: d_def)
    have sz: "int (length (bytes l)) + int (length (bytes r))
        - (if missingBits l + missingBits r \<ge> 8 then 1 else 0)
        = int (length pre) + 1 + int (length ?zs)" (is "?sz = _")
      using Cons ge lbs by (simp add: d_def)
    have "nat ?sz = length pre + 1 + length ?zs" unfolding sz by simp
    then have res: "take (nat ?sz) (bytes l) @ replicate (nat ?sz - length (bytes l)) 0
        = pre @ cur # ?zs"
      by (simp add: lbs)
    have "concat_loop ?sz (missingBits l) (bytes r) (int (length (bytes l)) - 1) (pre @ cur # ?zs)
        = Some (pre @ take (Suc (length ?zs)) (shift_in (8 - m) cur (bytes r)))"
      using concat_loop_shift_in [OF ks, of ?sz pre ?zs "bytes r" cur] sz lbs by simp
    moreover have "Suc (length ?zs) = Suc (length (bytes r)) - d" using d1 Cons by simp
    moreover have "\<not> ?sz < 0" unfolding sz by simp
    ultimately show ?thesis
      using m0 unfolding ConcatBits_def Let_def res by (simp only: if_False option.map)
  qed
qed

lemma ConcatBits_total:
  assumes "bits_wf l" "bits_wf r"
  shows "\<exists>c. ConcatBits l r = Some c \<and> bits_wf c"
proof (cases "missingBits l = 0")
  case True
  then show ?thesis using assms by (auto simp: ConcatBits_def bits_wf_def)
next
  case False
  then have "bytes l \<noteq> []" using assms(1) by (auto simp: bits_wf_def word_gt_0)
  then obtain pre cur where lbs: "bytes l = pre @ [cur]" by (metis append_butlast_last_id)
  note run = ConcatBits_bytes [OF assms False lbs]
  have "(missingBits l + missingBits r) mod 8 < 8"
    by (simp add: word_less_nat_alt unat_mod)
  moreover have "Suc (length (bytes r)) - (if unat (missingBits l) + unat (missingBits r) \<ge> 8 then 1 else 0) > 0"
    using assms(2) unat_missing_less [of l] assms(1)
    by (cases "bytes r") (auto simp: bits_wf_def word_gt_0)
  ultimately show ?thesis unfolding run
    by (cases "bytes r") (auto simp: bits_wf_def)
qed

lemma ConcatBits_append:
  assumes l: "bits_wf l" "bits_clean l" and r: "bits_wf r"
  shows "\<exists>c. ConcatBits l r = Some c \<and> bits_wf c \<and> bitlist c = bitlist l @ bitlist r
      \<and> (bits_clean r \<longrightarrow> bits_clean c)"
proof (cases "missingBits l = 0")
  case True
  let ?c = "\<lparr>missingBits = missingBits r, bytes = bytes l @ bytes r\<rparr>"
  have wf: "bits_wf ?c" using r by (auto simp: bits_wf_def)
  have "nat (Bits_Len ?c) = 8 * length (bytes l) + nat (Bits_Len r)"
    using unat_missing_le [OF r] by (simp add: nat_Bits_Len wf r)
  then have bl: "bitlist ?c = bitlist l @ bitlist r"
    using True l by (simp add: bitlist_def nat_Bits_Len)
  moreover have "bits_clean r \<Longrightarrow> bits_clean ?c"
    using True l r wf bl by (simp add: bits_clean_iff bitlist_def nat_Bits_Len)
  ultimately show ?thesis using True wf by (simp add: ConcatBits_def)
next
  case False
  define m where "m = unat (missingBits l)"
  define p where "p = unat (missingBits r)"
  define d where "d = (if m + p \<ge> 8 then 1 else 0 :: nat)"
  define n where "n = length (bytes r)"
  obtain pre cur where lbs: "bytes l = pre @ [cur]"
    using False l by (metis append_butlast_last_id bits_wf_def word_gt_0)
  define c where "c = \<lparr>missingBits = (missingBits l + missingBits r) mod 8,
     bytes = pre @ take (Suc n - d) (shift_in (8 - m) cur (bytes r))\<rparr>"
  have m: "0 < m" "m < 8" "p < 8" "unat (missingBits l + missingBits r) = m + p"
    using False l r unat_add_missing [of l r]
    by (auto simp: m_def p_def bits_wf_def word_less_nat_alt unat_gt_0)
  have dn: "d \<le> n" "p \<le> 8 * n"
  proof -
    have "n \<noteq> 0" if "p > 0"
      using that r by (auto simp: n_def p_def bits_wf_def unat_gt_0 word_gt_0)
    then show "d \<le> n" "p \<le> 8 * n" using m by (cases n; auto simp: d_def)+
  qed
  have mc: "unat (missingBits c) = m + p - 8 * d"
    using m by (simp add: c_def unat_mod d_def mod_if)
  have lc: "length (bytes c) = length pre + Suc n - d" using dn by (simp add: c_def n_def)
  have wf: "bits_wf c"
    using mc m lc dn by (auto simp: bits_wf_def word_less_nat_alt d_def split: if_splits)
  define L where "L = bitlist l"
  have "nat (Bits_Len l) = 8 * length pre + (8 - m)"
    using m by (simp add: nat_Bits_Len l lbs m_def [symmetric])
  then have L: "L = stream pre @ take (8 - m) (msb_bits cur)"
    by (simp add: L_def bitlist_def lbs)
  have lenL: "length L = 8 * length pre + (8 - m)" using m by (simp add: L)
  have "\<forall>i < 8 - (8 - m). \<not> bit cur i" using l m by (simp add: bits_clean_def lbs m_def)
  then have sh: "stream (shift_in (8 - m) cur (bytes r))
      = take (8 - m) (msb_bits cur) @ stream (bytes r) @ replicate m False"
    using stream_shift_in [of "8 - m" cur "bytes r"] m by simp
  have sc: "stream (bytes c) = take (8 * length (bytes c)) (L @ stream (bytes r) @ replicate m False)"
  proof -
    have e: "8 * length (bytes c) = length (stream pre) + 8 * (Suc n - d)" using dn lc by simp
    have "stream (bytes c) = stream pre @ take (8 * (Suc n - d)) (stream (shift_in (8 - m) cur (bytes r)))"
      by (simp only: c_def Bits.select_convs stream_simps take_stream)
    also have "\<dots> = take (length (stream pre) + 8 * (Suc n - d))
        (stream pre @ stream (shift_in (8 - m) cur (bytes r)))"
      by (simp only: take_append) simp
    finally show ?thesis unfolding e sh L by (simp only: append_assoc)
  qed
  have eqs: "length (bytes c) + d = length pre + Suc n" "unat (missingBits c) + 8 * d = m + p"
      "length L + m = 8 * length pre + 8"
    using dn m mc by (simp_all add: lc lenL d_def)
  obtain e where e: "8 * n = p + e" using dn le_Suc_ex by blast
  have "8 * length (bytes c) = length L + e + unat (missingBits c)"
    using eqs e by linarith
  moreover have "8 * n - p = e" using e by simp
  ultimately have fits: "length L + (8 * n - p) + unat (missingBits c) = 8 * length (bytes c)"
    and len: "nat (Bits_Len c) = length L + (8 * n - p)"
    by (simp_all add: nat_Bits_Len [OF wf])
  have "length (stream (bytes r)) = 8 * n" by (simp add: n_def)
  then have bl: "bitlist c = L @ bitlist r"
    using fits by (simp add: bitlist_def [of c] len sc)
      (simp add: bitlist_def nat_Bits_Len r n_def [symmetric] p_def [symmetric])
  moreover have "bits_clean c" if "bits_clean r"
  proof -
    have "stream (bytes r) = bitlist r @ replicate p False"
      using that r by (simp add: bits_clean_iff p_def)
    moreover have "length (bitlist r) = 8 * n - p"
      by (simp add: length_bitlist r nat_Bits_Len n_def p_def)
    moreover have "min (8 * length (bytes c) - (length L + (8 * n - p))) (p + m)
        = unat (missingBits c)"
      using fits eqs by simp
    ultimately have "stream (bytes c) = bitlist c @ replicate (unat (missingBits c)) False"
      using fits unfolding sc bl by (simp flip: replicate_add)
    then show ?thesis by (simp add: bits_clean_iff wf)
  qed
  moreover have "ConcatBits l r = Some c"
    using ConcatBits_bytes [OF l(1) r False lbs]
    by (simp add: c_def d_def m_def p_def n_def)
  ultimately show ?thesis using wf by (auto simp: L_def)
qed

subsection \<open>Scanner.Next cuts\<close>

lemma stream_chunk:
  assumes "Suc s < length d" "0 < k" "k < 8"
  shows "msb_bits (push_bit k (d ! s) OR drop_bit (8 - k) (d ! Suc s))
      = take 8 (drop (8 * s + k) (stream d))"
proof -
  have "drop s d = d ! s # d ! Suc s # drop (Suc (Suc s)) d"
    using assms by (simp add: Cons_nth_drop_Suc)
  then have "drop (8 * s + k) (stream d)
      = drop k (msb_bits (d ! s) @ msb_bits (d ! Suc s) @ stream (drop (Suc (Suc s)) d))"
    by (simp add: drop_stream add.commute flip: drop_drop)
  moreover have "msb_bits (push_bit k (d ! s)) = drop k (msb_bits (d ! s)) @ replicate k False"
    using msb_bits_push [of "8 - k" "d ! s"] assms by simp
  moreover have "msb_bits (push_bit k (d ! s) OR drop_bit (8 - k) (d ! Suc s))
      = take (8 - k) (msb_bits (push_bit k (d ! s))) @ take k (msb_bits (d ! Suc s))"
    using msb_bits_or_drop [of "8 - k" "push_bit k (d ! s)"] assms
    by (simp add: bit_push_bit_iff)
  ultimately show ?thesis using assms by simp
qed

lemma next_loop_eq:
  "next_loop d s k is =
     (if \<forall>i \<in> set is. Suc (s + i) < length d
      then Some (map (\<lambda>i. push_bit k (d ! (s + i)) OR drop_bit (8 - k) (d ! Suc (s + i))) is)
      else None)"
proof (induction "is")
  case (Cons i "is")
  then show ?case by (cases "Suc (s + i) < length d") (auto simp: index_def)
qed simp

lemma stream_chunks:
  assumes "0 < k" "k < 8"
  shows "s + m < length d \<or> m = 0 \<Longrightarrow>
    stream (map (\<lambda>i. push_bit k (d ! (s + i)) OR drop_bit (8 - k) (d ! Suc (s + i))) [0..<m])
      = take (8 * m) (drop (8 * s + k) (stream d))"
proof (induction m)
  case (Suc m)
  then have "Suc (s + m) < length d" by simp
  from stream_chunk [OF this assms]
  have "msb_bits (push_bit k (d ! (s + m)) OR drop_bit (8 - k) (d ! Suc (s + m)))
      = take 8 (drop (8 * m) (drop (8 * s + k) (stream d)))"
    by (simp add: algebra_simps)
  with Suc show ?case
    by (simp add: take_add [of "8 * m" 8, simplified] flip: add.commute [of _ 8])
qed simp

definition next_ok :: "Scanner \<Rightarrow> nat \<Rightarrow> bool" where
  "next_ok s n =
     (if bitOffset s mod 8 = 0
      then bitOffset s div 8 + byte_size_of n \<le> length (sdata s) + length (sspare s)
      else byte_size_of n = 0 \<or> bitOffset s div 8 + byte_size_of n < length (sdata s))"

lemma Scanner_Next_None: "Scanner_Next s n = None \<longleftrightarrow> \<not> next_ok s n"
proof (cases "bitOffset s mod 8 = 0")
  case True
  then show ?thesis by (auto simp: Scanner_Next_def next_ok_def Let_def subslice_def)
next
  case False
  have "(\<forall>i \<in> {0..<n}. Suc (a + i) < l) \<longleftrightarrow> n = 0 \<or> a + n < l" for a n l :: nat
    by (cases n) auto
  with False show ?thesis
    by (auto simp: Scanner_Next_def next_ok_def Let_def next_loop_eq)
qed

lemma Scanner_Next_stream:
  assumes "next_ok s n"
  shows "\<exists>b. Scanner_Next s n = Some (b, s\<lparr>bitOffset := bitOffset s + n\<rparr>)
    \<and> missingBits b = missing_of_size n \<and> length (bytes b) = byte_size_of n
    \<and> bitlist b = take n (drop (bitOffset s) (stream (sdata s @ sspare s)))"
proof -
  let ?o = "bitOffset s" and ?m = "byte_size_of n" and ?d = "sdata s @ sspare s"
  have o: "8 * (?o div 8) + ?o mod 8 = ?o" by simp
  have n: "n \<le> 8 * ?m" using byte_size_of_split [of n] by simp
  show ?thesis
  proof (cases "?o mod 8 = 0")
    case True
    define b where "b = \<lparr>missingBits = missing_of_size n, bytes = take ?m (drop (?o div 8) ?d)\<rparr>"
    have len: "length (bytes b) = ?m" using assms True by (simp add: b_def next_ok_def)
    have "stream (bytes b) = take (8 * ?m) (drop ?o (stream ?d))"
      using o True by (simp add: b_def del: take_append drop_append stream_simps
          flip: take_stream drop_stream)
    then have "bitlist b = take n (drop ?o (stream ?d))"
      using n Len_sized [of b n] len
      by (simp add: bitlist_def b_def min_def del: take_append drop_append stream_simps)
    moreover have "Scanner_Next s n = Some (b, s\<lparr>bitOffset := ?o + n\<rparr>)"
      using assms True by (simp add: Scanner_Next_def Let_def subslice_def next_ok_def b_def)
    ultimately show ?thesis using len by (auto simp: b_def)
  next
    case False
    then have k: "0 < ?o mod 8" "?o mod 8 < 8" by simp_all
    let ?f = "\<lambda>i. push_bit (?o mod 8) (sdata s ! (?o div 8 + i))
        OR drop_bit (8 - ?o mod 8) (sdata s ! Suc (?o div 8 + i))"
    define b where "b = \<lparr>missingBits = missing_of_size n, bytes = map ?f [0..<?m]\<rparr>"
    have ok: "?o div 8 + ?m < length (sdata s) \<or> ?m = 0"
      using assms False by (auto simp: next_ok_def)
    have "stream (bytes b) = take (8 * ?m) (drop ?o (stream (sdata s)))"
      using stream_chunks [OF k ok] o by (simp add: b_def)
    moreover have "take n (drop ?o (stream (sdata s))) = take n (drop ?o (stream ?d))"
    proof -
      have "n = 0 \<or> n \<le> length (drop ?o (stream (sdata s)))"
        using ok n k o by (auto simp: next_ok_def)
      then show ?thesis by auto
    qed
    ultimately have "bitlist b = take n (drop ?o (stream ?d))"
      using n Len_sized [of b n] by (simp add: bitlist_def b_def min_def)
    moreover have "Scanner_Next s n = Some (b, s\<lparr>bitOffset := ?o + n\<rparr>)"
      using ok False by (auto simp: Scanner_Next_def Let_def next_loop_eq b_def)
    ultimately show ?thesis by (auto simp: b_def)
  qed
qed

subsection \<open>The text form reads back\<close>

lemma byte_string_msb: "byte_string w = map (\<lambda>x. if x then CHR ''1'' else CHR ''0'') (msb_bits w)"
  by (simp add: byte_string_def msb_bits_def)

lemma length_byte_string [simp]: "length (byte_string w) = 8"
  by (simp add: byte_string_def)

lemma byte_string_nonempty [simp]: "byte_string w \<noteq> []"
  by (metis length_byte_string list.size(3) zero_neq_numeral)

lemma parse_bin_bits:
  "parse_bin (map (\<lambda>x. if x then CHR ''1'' else CHR ''0'') xs) acc =
     Some (acc * 2 ^ length xs + horner_sum of_bool 2 (rev xs))"
  by (induction xs arbitrary: acc) (auto simp: horner_sum_append algebra_simps)

lemma ParseUint_byte_string [simp]: "ParseUint_2_8 (byte_string w) = Some w"
proof -
  have "[0..<8] = [0, 1, 2, 3, 4, 5, 6, 7 :: nat]" by (simp add: upt_rec)
  then have "rev (msb_bits w) = map (bit (unat w)) [0..<8]"
    by (simp add: msb_bits_def bit_unsigned_iff)
  then have "horner_sum of_bool 2 (rev (msb_bits w)) = take_bit 8 (unat w)"
    by (simp add: horner_sum_bit_eq_take_bit)
  also have "\<dots> = unat w"
    using unsigned_less [of w, where ?'a = nat] by (simp add: take_bit_nat_eq_self)
  finally have "parse_bin (byte_string w) 0 = Some (unat w)"
    by (simp add: byte_string_msb parse_bin_bits)
  moreover have "unat w < 256" using unsigned_less [of w, where ?'a = nat] by simp
  ultimately show ?thesis by (simp add: ParseUint_2_8_def)
qed

fun words_of :: "nat \<Rightarrow> u8 list \<Rightarrow> string list" where
  "words_of m [] = []"
| "words_of m [x] = [take (8 - m) (byte_string x)]"
| "words_of m (x # y # ys) = byte_string x # words_of m (y # ys)"

fun join_space :: "string list \<Rightarrow> string" where
  "join_space [] = []"
| "join_space [w] = w"
| "join_space (w # v # vs) = w @ '' '' @ join_space (v # vs)"

lemma length_words_of [simp]: "length (words_of m xs) = length xs"
  by (induction m xs rule: words_of.induct) auto

lemma string_loop_words:
  "m < 8 \<Longrightarrow> string_loop m xs = Some (join_space (words_of (unat m) xs))"
proof (induction m xs rule: string_loop.induct)
  case (2 m x)
  then have "unat m < 8" by (simp add: word_less_nat_alt)
  moreover from 2 have "unat (8 - m) = 8 - unat m" by (simp add: unat_sub word_le_nat_alt word_less_nat_alt)
  ultimately show ?case by (auto simp: word_gt_0 unat_gt_0)
next
  case (3 m x y ys)
  then show ?case by (cases ys) simp_all
qed simp

lemma fields_word:
  "\<forall>c \<in> set w. \<not> is_space c \<Longrightarrow> fields_acc acc (w @ '' '' @ rest) =
     (if acc @ w = [] then fields_acc [] rest else (acc @ w) # fields_acc [] rest)"
  by (induction w arbitrary: acc) (auto simp: is_space_def)

lemma fields_last:
  "\<forall>c \<in> set w. \<not> is_space c \<Longrightarrow> fields_acc acc w = (if acc @ w = [] then [] else [acc @ w])"
  by (induction w arbitrary: acc) auto

lemma strings_Fields_join:
  "\<forall>w \<in> set ws. w \<noteq> [] \<and> (\<forall>c \<in> set w. \<not> is_space c) \<Longrightarrow> strings_Fields (join_space ws) = ws"
  unfolding strings_Fields_def
  by (induction ws rule: join_space.induct) (auto simp: fields_word [simplified] fields_last)

lemma byte_string_no_space: "c \<in> set (byte_string w) \<Longrightarrow> \<not> is_space c"
  by (auto simp: byte_string_def is_space_def split: if_splits)

lemma words_of_ok:
  "m < 8 \<Longrightarrow> w \<in> set (words_of m xs) \<Longrightarrow> w \<noteq> [] \<and> (\<forall>c \<in> set w. \<not> is_space c)"
proof (induction m xs rule: words_of.induct)
  case (2 m x)
  then have "0 < length w" by simp
  with 2 show ?case by (auto dest: in_set_takeD byte_string_no_space)
next
  case (3 m x y ys)
  then show ?case by (auto dest: byte_string_no_space)
qed simp

lemma pad_byte_string:
  assumes "m \<le> 8" "\<forall>i < m. \<not> bit x i"
  shows "take (8 - m) (byte_string x) @ replicate m (CHR ''0'') = byte_string x"
proof (rule nth_equalityI)
  fix i assume "i < length (take (8 - m) (byte_string x) @ replicate m (CHR ''0''))"
  then have i: "i < 8" using assms by simp
  have "\<not> bit x (7 - i)" if "\<not> i < 8 - m"
  proof -
    have "7 - i < m" using that i assms(1) by linarith
    then show ?thesis using assms(2) by simp
  qed
  then show "(take (8 - m) (byte_string x) @ replicate m (CHR ''0'')) ! i = byte_string x ! i"
    using i assms(1) by (auto simp: nth_append byte_string_def)
qed (use assms in simp)

lemma from_string_words:
  "\<lbrakk>m < 8; xs \<noteq> []; \<forall>i < m. \<not> bit (last xs) i; n = length pre + length xs\<rbrakk> \<Longrightarrow>
   from_string_loop n (words_of m xs) \<lparr>missingBits = 0, bytes = pre\<rparr>
     = Ret \<lparr>missingBits = of_nat m, bytes = pre @ xs\<rparr>"
proof (induction m xs arbitrary: pre rule: words_of.induct)
  case (2 m x)
  show ?case
  proof (cases "m = 0")
    case False
    have "(of_nat (8 - m) :: u8) = 8 - of_nat m" using 2 by (simp add: of_nat_diff)
    moreover have "\<not> 8 \<le> 8 - m" "8 - m \<noteq> 8" using False by simp_all
    ultimately show ?thesis using 2 False pad_byte_string [of m x] by (simp add: min_def)
  qed (use 2 in simp)
qed simp_all

lemma String_round_trip:
  assumes "bits_wf b" "bits_clean b"
  shows "\<exists>s. Bits_String b = Some s \<and> NewBitSetFromString s = Ret b"
proof -
  define m where "m = unat (missingBits b)"
  have m: "m < 8" using assms by (simp add: m_def bits_wf_def unat_missing_less)
  let ?ws = "words_of m (bytes b)"
  have "Bits_String b = Some (join_space ?ws)"
    using assms by (simp add: Bits_String_def bits_wf_def string_loop_words m_def)
  moreover have "strings_Fields (join_space ?ws) = ?ws"
    using words_of_ok [OF m] by (intro strings_Fields_join) blast
  moreover have "from_string_loop (length ?ws) ?ws \<lparr>missingBits = 0, bytes = []\<rparr> = Ret b"
  proof (cases "bytes b")
    case Nil
    with assms have "missingBits b = 0" by (auto simp: bits_wf_def word_gt_0)
    with Nil show ?thesis by simp
  next
    case Cons
    then have "bytes b \<noteq> []" by simp
    from from_string_words [OF m this, of "length (bytes b)" "[]"] assms(2)
    show ?thesis by (simp add: bits_clean_def m_def)
  qed
  ultimately show ?thesis by (simp add: NewBitSetFromString_def Let_def)
qed

end
