(* ===== verification/UsageSets.thy ===== *)
theory UsageSets
  imports HidDesc BitsFacts
begin

section \<open>Usage sets (hidapi/usage_set.go)\<close>

text \<open>
  The three ways a report field holds a set of active usages: one flag per listed usage
  (\<open>UsagFlagMap\<close>), one flag per usage of a range (\<open>UsageRangeFlags\<close>), or an array of selected usages
  (\<open>UsageSelector\<close>). The Go interface \<open>UsageSet\<close> is the datatype of the three; its methods dispatch
  on it. A vector is passed by value in Go but shares its bytes, so a writing method returns the
  vector with its answer. \<open>None\<close> is an index out of range. Then the contract of the interface as a
  locale, with the lemmas that clients use, and its interpretations.
\<close>

subsection \<open>Flag map\<close>

record UsagFlagMap =
  flag_usagePage :: u16
  flag_usageIDs :: "u16 list"
  flag_usageIDMap :: "u16 \<rightharpoonup> nat"

primrec index_ids :: "'a list \<Rightarrow> nat \<Rightarrow> ('a \<rightharpoonup> nat) \<Rightarrow> 'a \<rightharpoonup> nat" where
  "index_ids [] i m = m"
| "index_ids (x # xs) i m = index_ids xs (Suc i) (m(x \<mapsto> i))"

definition NewUsageFlagMap :: "u16 \<Rightarrow> u16 list \<Rightarrow> UsagFlagMap" where
  "NewUsageFlagMap page ids =
     \<lparr>flag_usagePage = page, flag_usageIDs = ids, flag_usageIDMap = index_ids ids 0 Map.empty\<rparr>"

primrec flag_usages_loop :: "u16 \<Rightarrow> Bits \<Rightarrow> u16 list \<Rightarrow> nat \<Rightarrow> Usage list" where
  "flag_usages_loop page b [] i = []"
| "flag_usages_loop page b (x # xs) i =
     (if Bits_IsSet b i then [NewUsage page x] else []) @ flag_usages_loop page b xs (Suc i)"

definition UsagFlagMap_Usages :: "UsagFlagMap \<Rightarrow> Bits \<Rightarrow> Usage list" where
  "UsagFlagMap_Usages u b = flag_usages_loop (flag_usagePage u) b (flag_usageIDs u) 0"

definition UsagFlagMap_Contains :: "UsagFlagMap \<Rightarrow> Usage \<Rightarrow> bool" where
  "UsagFlagMap_Contains u usg \<longleftrightarrow>
     (if flag_usagePage u \<noteq> Usage_Page usg then False
      else flag_usageIDMap u (Usage_ID usg) \<noteq> None)"

text \<open>A lookup of an absent key gives the zero value.\<close>

definition go_lookup0 :: "('k \<rightharpoonup> nat) \<Rightarrow> 'k \<Rightarrow> nat" where
  "go_lookup0 m k = (case m k of None \<Rightarrow> 0 | Some i \<Rightarrow> i)"

definition UsagFlagMap_HasUsage :: "UsagFlagMap \<Rightarrow> Bits \<Rightarrow> Usage \<Rightarrow> bool" where
  "UsagFlagMap_HasUsage u b usg \<longleftrightarrow>
     (if \<not> UsagFlagMap_Contains u usg then False
      else Bits_IsSet b (go_lookup0 (flag_usageIDMap u) (Usage_ID usg)))"

definition UsagFlagMap_SetUsage :: "UsagFlagMap \<Rightarrow> Bits \<Rightarrow> Usage \<Rightarrow> bool \<times> Bits" where
  "UsagFlagMap_SetUsage u b usg =
     (if \<not> UsagFlagMap_Contains u usg then (False, b)
      else Bits_Set b (go_lookup0 (flag_usageIDMap u) (Usage_ID usg)))"

definition UsagFlagMap_ClearUsage :: "UsagFlagMap \<Rightarrow> Bits \<Rightarrow> Usage \<Rightarrow> bool \<times> Bits" where
  "UsagFlagMap_ClearUsage u b usg =
     (if \<not> UsagFlagMap_Contains u usg then (False, b)
      else Bits_Clear b (go_lookup0 (flag_usageIDMap u) (Usage_ID usg)))"

subsection \<open>Flags of a range\<close>

record UsageRangeFlags =
  range_usagePage :: u16
  range_minimum :: u16
  range_maximum :: u16

definition NewUsageRangeFlags :: "u16 \<Rightarrow> u16 \<Rightarrow> u16 \<Rightarrow> UsageRangeFlags" where
  "NewUsageRangeFlags page mn mx =
     \<lparr>range_usagePage = page, range_minimum = mn, range_maximum = mx\<rparr>"

definition UsageRangeFlags_Usages :: "UsageRangeFlags \<Rightarrow> Bits \<Rightarrow> Usage list" where
  "UsageRangeFlags_Usages u b =
     Bits_Each (\<lambda>i x usages.
       (True, if x then usages @ [NewUsage (range_usagePage u) (of_nat i + range_minimum u)]
              else usages)) b []"

definition UsageRangeFlags_Contains :: "UsageRangeFlags \<Rightarrow> Usage \<Rightarrow> bool" where
  "UsageRangeFlags_Contains u usg \<longleftrightarrow>
     (if range_usagePage u \<noteq> Usage_Page usg then False
      else Usage_ID usg \<ge> range_minimum u \<and> Usage_ID usg \<le> range_maximum u)"

definition UsageRangeFlags_HasUsage :: "UsageRangeFlags \<Rightarrow> Bits \<Rightarrow> Usage \<Rightarrow> bool" where
  "UsageRangeFlags_HasUsage u b usg \<longleftrightarrow>
     (if \<not> UsageRangeFlags_Contains u usg then False
      else Bits_IsSet b (unat (Usage_ID usg - range_minimum u)))"

definition UsageRangeFlags_ReplaceUsage ::
  "UsageRangeFlags \<Rightarrow> Bits \<Rightarrow> Usage \<Rightarrow> Usage \<Rightarrow> bool \<times> Bits" where
  "UsageRangeFlags_ReplaceUsage u b fr t =
     (if \<not> UsageRangeFlags_Contains u fr \<or> \<not> UsageRangeFlags_Contains u t then (False, b)
      else
        let (wasSet, b) = Bits_Clear b (unat (Usage_ID fr - range_minimum u))
        in (wasSet,
            if wasSet then snd (Bits_Set b (unat (Usage_ID t - range_minimum u))) else b))"

definition UsageRangeFlags_SetUsage :: "UsageRangeFlags \<Rightarrow> Bits \<Rightarrow> Usage \<Rightarrow> bool \<times> Bits" where
  "UsageRangeFlags_SetUsage u b usg =
     (if \<not> UsageRangeFlags_Contains u usg then (False, b)
      else Bits_Set b (unat (Usage_ID usg - range_minimum u)))"

definition UsageRangeFlags_ClearUsage :: "UsageRangeFlags \<Rightarrow> Bits \<Rightarrow> Usage \<Rightarrow> bool \<times> Bits" where
  "UsageRangeFlags_ClearUsage u b usg =
     (if \<not> UsageRangeFlags_Contains u usg then (False, b)
      else Bits_Clear b (unat (Usage_ID usg - range_minimum u)))"

subsection \<open>Selector\<close>

record UsageSelector =
  sel_size :: nat
  sel_usagePage :: u16
  sel_minimum :: u16
  sel_maximum :: u16

definition NewUsageSelector :: "nat \<Rightarrow> u16 \<Rightarrow> u16 \<Rightarrow> u16 \<Rightarrow> UsageSelector" where
  "NewUsageSelector sz page mn mx =
     \<lparr>sel_size = sz, sel_usagePage = page, sel_minimum = mn, sel_maximum = mx\<rparr>"

definition UsageSelector_Contains :: "UsageSelector \<Rightarrow> Usage \<Rightarrow> bool" where
  "UsageSelector_Contains u usg \<longleftrightarrow>
     (if sel_usagePage u \<noteq> Usage_Page usg then False
      else Usage_ID usg \<ge> sel_minimum u \<and> Usage_ID usg \<le> sel_maximum u)"

text \<open>The callbacks handed to \<open>EachUint8\<close> and \<open>EachUint16\<close>, one definition for the two widths.\<close>

definition sel_usages_cb :: "u16 \<Rightarrow> ('v::len word \<Rightarrow> u16) \<Rightarrow>
    nat \<Rightarrow> 'v word \<Rightarrow> Bits \<times> Usage list \<Rightarrow> (bool \<times> Bits \<times> Usage list) option" where
  "sel_usages_cb page widen i val st =
     (if val = 0 then Some (True, st)
      else Some (True, fst st, snd st @ [NewUsage page (widen val)]))"

definition UsageSelector_Usages :: "UsageSelector \<Rightarrow> Bits \<Rightarrow> Usage list option" where
  "UsageSelector_Usages u b =
     (if sel_size u = 8 then
        map_option snd (Bits_EachUint8 (sel_usages_cb (sel_usagePage u) ucast) (b, []))
      else if sel_size u = 16 then
        map_option snd (Bits_EachUint16 (sel_usages_cb (sel_usagePage u) id) (b, []))
      else Some [])"

definition sel_has_cb :: "u16 \<Rightarrow> ('v::len word \<Rightarrow> u16) \<Rightarrow>
    nat \<Rightarrow> 'v word \<Rightarrow> Bits \<times> bool \<Rightarrow> (bool \<times> Bits \<times> bool) option" where
  "sel_has_cb usageID widen i val st =
     (if widen val = usageID then Some (False, fst st, True) else Some (True, st))"

definition UsageSelector_HasUsage :: "UsageSelector \<Rightarrow> Bits \<Rightarrow> Usage \<Rightarrow> bool option" where
  "UsageSelector_HasUsage u b usg =
     (if \<not> UsageSelector_Contains u usg then Some False
      else if sel_size u = 8 then
        map_option snd (Bits_EachUint8 (sel_has_cb (Usage_ID usg) ucast) (b, False))
      else if sel_size u = 16 then
        map_option snd (Bits_EachUint16 (sel_has_cb (Usage_ID usg) id) (b, False))
      else Some False)"

text \<open>\<open>put\<close> is \<open>SetUint8\<close> or \<open>SetUint16\<close>, applied to the index that the loop hands out.\<close>

definition sel_replace_cb :: "(Bits \<Rightarrow> nat \<Rightarrow> u16 \<Rightarrow> Bits option) \<Rightarrow> u16 \<Rightarrow> u16 \<Rightarrow> ('v::len word \<Rightarrow> u16) \<Rightarrow>
    nat \<Rightarrow> 'v word \<Rightarrow> Bits \<times> bool \<Rightarrow> (bool \<times> Bits \<times> bool) option" where
  "sel_replace_cb put fr t widen i val st =
     (if widen val = fr then
        (case put (fst st) i t of None \<Rightarrow> None | Some b \<Rightarrow> Some (False, b, True))
      else Some (True, st))"

abbreviation (input) put8 :: "Bits \<Rightarrow> nat \<Rightarrow> u16 \<Rightarrow> Bits option" where
  "put8 b i v \<equiv> Bits_SetUint8 b i (ucast v)"

definition UsageSelector_ReplaceUsage ::
  "UsageSelector \<Rightarrow> Bits \<Rightarrow> Usage \<Rightarrow> Usage \<Rightarrow> (bool \<times> Bits) option" where
  "UsageSelector_ReplaceUsage u b fr t =
     (if \<not> UsageSelector_Contains u fr \<or> \<not> UsageSelector_Contains u t then Some (False, b)
      else if sel_size u = 8 then
        map_option prod.swap
          (Bits_EachUint8 (sel_replace_cb (\<lambda>b i v. put8 b i v) (Usage_ID fr) (Usage_ID t) ucast) (b, False))
      else if sel_size u = 16 then
        map_option prod.swap
          (Bits_EachUint16 (sel_replace_cb Bits_SetUint16 (Usage_ID fr) (Usage_ID t) id) (b, False))
      else Some (False, b))"

definition sel_set_cb :: "(Bits \<Rightarrow> nat \<Rightarrow> 'v::len word \<Rightarrow> Bits option) \<Rightarrow> 'v word \<Rightarrow>
    nat \<Rightarrow> 'v word \<Rightarrow> Bits \<times> unit \<Rightarrow> (bool \<times> Bits \<times> unit) option" where
  "sel_set_cb put usageID i val st =
     (if val = usageID then Some (False, st)
      else if val = 0 then
        (case put (fst st) i usageID of None \<Rightarrow> None | Some b \<Rightarrow> Some (False, b, ()))
      else Some (True, st))"

definition UsageSelector_SetUsage :: "UsageSelector \<Rightarrow> Bits \<Rightarrow> Usage \<Rightarrow> (bool \<times> Bits) option" where
  "UsageSelector_SetUsage u b usg =
     (if \<not> UsageSelector_Contains u usg then Some (False, b)
      else if sel_size u = 8 then
        map_option (\<lambda>st. (True, fst st))
          (Bits_EachUint8 (sel_set_cb Bits_SetUint8 (ucast (Usage_ID usg))) (b, ()))
      else if sel_size u = 16 then
        map_option (\<lambda>st. (True, fst st))
          (Bits_EachUint16 (sel_set_cb Bits_SetUint16 (Usage_ID usg)) (b, ()))
      else Some (True, b))"

definition sel_clear_cb :: "(Bits \<Rightarrow> nat \<Rightarrow> 'v::len word \<Rightarrow> Bits option) \<Rightarrow> u16 \<Rightarrow> ('v word \<Rightarrow> u16) \<Rightarrow>
    nat \<Rightarrow> 'v word \<Rightarrow> Bits \<times> bool \<Rightarrow> (bool \<times> Bits \<times> bool) option" where
  "sel_clear_cb put usageID widen i val st =
     (if val = 0 then Some (False, st)
      else if snd st then
        (case put (fst st) (i - 1) val of
           None \<Rightarrow> None
         | Some b \<Rightarrow> (case put b i 0 of None \<Rightarrow> None | Some b \<Rightarrow> Some (True, b, True)))
      else if widen val = usageID then
        (case put (fst st) i 0 of None \<Rightarrow> None | Some b \<Rightarrow> Some (True, b, True))
      else Some (True, st))"

definition UsageSelector_ClearUsage :: "UsageSelector \<Rightarrow> Bits \<Rightarrow> Usage \<Rightarrow> (bool \<times> Bits) option" where
  "UsageSelector_ClearUsage u b usg =
     (if \<not> UsageSelector_Contains u usg then Some (False, b)
      else if sel_size u = 8 then
        map_option (\<lambda>st. (True, fst st))
          (Bits_EachUint8 (sel_clear_cb Bits_SetUint8 (Usage_ID usg) ucast) (b, False))
      else if sel_size u = 16 then
        map_option (\<lambda>st. (True, fst st))
          (Bits_EachUint16 (sel_clear_cb Bits_SetUint16 (Usage_ID usg) id) (b, False))
      else Some (True, b))"

subsection \<open>The interface\<close>

datatype UsageSet =
  FlagMap UsagFlagMap | RangeFlags UsageRangeFlags | Selector UsageSelector

primrec UsageSet_Contains :: "UsageSet \<Rightarrow> Usage \<Rightarrow> bool" where
  "UsageSet_Contains (FlagMap u) usg = UsagFlagMap_Contains u usg"
| "UsageSet_Contains (RangeFlags u) usg = UsageRangeFlags_Contains u usg"
| "UsageSet_Contains (Selector u) usg = UsageSelector_Contains u usg"

primrec UsageSet_UsagePage :: "UsageSet \<Rightarrow> u16" where
  "UsageSet_UsagePage (FlagMap u) = flag_usagePage u"
| "UsageSet_UsagePage (RangeFlags u) = range_usagePage u"
| "UsageSet_UsagePage (Selector u) = sel_usagePage u"

primrec UsageSet_HasUsage :: "UsageSet \<Rightarrow> Bits \<Rightarrow> Usage \<Rightarrow> bool option" where
  "UsageSet_HasUsage (FlagMap u) b usg = Some (UsagFlagMap_HasUsage u b usg)"
| "UsageSet_HasUsage (RangeFlags u) b usg = Some (UsageRangeFlags_HasUsage u b usg)"
| "UsageSet_HasUsage (Selector u) b usg = UsageSelector_HasUsage u b usg"

primrec UsageSet_SetUsage :: "UsageSet \<Rightarrow> Bits \<Rightarrow> Usage \<Rightarrow> (bool \<times> Bits) option" where
  "UsageSet_SetUsage (FlagMap u) b usg = Some (UsagFlagMap_SetUsage u b usg)"
| "UsageSet_SetUsage (RangeFlags u) b usg = Some (UsageRangeFlags_SetUsage u b usg)"
| "UsageSet_SetUsage (Selector u) b usg = UsageSelector_SetUsage u b usg"

primrec UsageSet_ClearUsage :: "UsageSet \<Rightarrow> Bits \<Rightarrow> Usage \<Rightarrow> (bool \<times> Bits) option" where
  "UsageSet_ClearUsage (FlagMap u) b usg = Some (UsagFlagMap_ClearUsage u b usg)"
| "UsageSet_ClearUsage (RangeFlags u) b usg = Some (UsageRangeFlags_ClearUsage u b usg)"
| "UsageSet_ClearUsage (Selector u) b usg = UsageSelector_ClearUsage u b usg"

primrec UsageSet_Usages :: "UsageSet \<Rightarrow> Bits \<Rightarrow> Usage list option" where
  "UsageSet_Usages (FlagMap u) b = Some (UsagFlagMap_Usages u b)"
| "UsageSet_Usages (RangeFlags u) b = Some (UsageRangeFlags_Usages u b)"
| "UsageSet_Usages (Selector u) b = UsageSelector_Usages u b"

text \<open>The arm of the switch in \<open>NewUsageSets\<close> that a data item takes.\<close>

definition usage_set_of :: "DataItem \<Rightarrow> UsageSet option" where
  "usage_set_of item =
     (if UsageMaximum item \<noteq> 0 \<and> \<not> IsVariable (Flags item)
          \<and> (ReportSize item = 8 \<or> ReportSize item = 16) then
        Some (Selector (NewUsageSelector (unat (ReportSize item)) (UsagePage item)
          (UsageMinimum item) (UsageMaximum item)))
      else if UsageMaximum item \<noteq> 0 \<and> IsVariable (Flags item) \<and> ReportSize item = 1 then
        Some (RangeFlags (NewUsageRangeFlags (UsagePage item) (UsageMinimum item) (UsageMaximum item)))
      else if length (UsageIDs item) > 0 \<and> IsVariable (Flags item) \<and> ReportSize item = 1 then
        Some (FlagMap (NewUsageFlagMap (UsagePage item) (UsageIDs item)))
      else None)"

primrec usage_sets_loop :: "DataItem list \<Rightarrow> nat \<Rightarrow> (nat \<rightharpoonup> UsageSet) \<Rightarrow> nat \<rightharpoonup> UsageSet" where
  "usage_sets_loop [] i sets = sets"
| "usage_sets_loop (item # items) i sets =
     usage_sets_loop items (Suc i)
       (case usage_set_of item of None \<Rightarrow> sets | Some u \<Rightarrow> sets(i \<mapsto> u))"

definition NewUsageSets :: "DataItem list \<Rightarrow> nat \<rightharpoonup> UsageSet" where
  "NewUsageSets dataItems = usage_sets_loop dataItems 0 Map.empty"

lemma usage_sets_loop_eq:
  "usage_sets_loop items i m j =
     (if i \<le> j \<and> j < i + length items \<and> usage_set_of (items ! (j - i)) \<noteq> None
      then usage_set_of (items ! (j - i)) else m j)"
  by (induction items arbitrary: i m) (auto split: option.splits simp: nth_Cons' Suc_le_eq)

lemma NewUsageSets_eq:
  "NewUsageSets items j = (if j < length items then usage_set_of (items ! j) else None)"
  by (simp add: NewUsageSets_def usage_sets_loop_eq)

subsection \<open>Difference of two vectors\<close>

text \<open>The loop of \<open>UsageSetDiff\<close>: the usages of \<open>usages\<close> that are not in \<open>t\<close>.\<close>

primrec not_in_loop :: "(Usage \<Rightarrow> bool option) \<Rightarrow> Usage list \<Rightarrow> Usage list option" where
  "not_in_loop has [] = Some []"
| "not_in_loop has (u # us) =
     (case has u of
        None \<Rightarrow> None
      | Some h \<Rightarrow> map_option (\<lambda>rest. if \<not> h then u # rest else rest) (not_in_loop has us))"

definition usage_diff ::
  "('b \<Rightarrow> Usage list option) \<Rightarrow> ('b \<Rightarrow> Usage \<Rightarrow> bool option) \<Rightarrow> 'b \<Rightarrow> 'b \<Rightarrow> (Usage list \<times> Usage list) option" where
  "usage_diff usages has t0 t1 =
     (case usages t0 of
        None \<Rightarrow> None
      | Some usagesT0 \<Rightarrow>
          (case usages t1 of
             None \<Rightarrow> None
           | Some usagesT1 \<Rightarrow>
               (case not_in_loop (has t1) usagesT0 of
                  None \<Rightarrow> None
                | Some deactivated \<Rightarrow>
                    map_option (\<lambda>activated. (activated, deactivated)) (not_in_loop (has t0) usagesT1))))"

definition UsageSetDiff :: "UsageSet \<Rightarrow> Bits \<Rightarrow> Bits \<Rightarrow> (Usage list \<times> Usage list) option" where
  "UsageSetDiff u = usage_diff (UsageSet_Usages u) (UsageSet_HasUsage u)"

end
