(* ===== verification/UsageSetLaws.thy ===== *)
theory UsageSetLaws
  imports UsageSets
begin

section \<open>The contract of a usage set\<close>

text \<open>
  What the clients of the interface \<open>UsageSet\<close> rely on: a vector in the representation's invariant
  stands for a set of active usages, the writing methods insert into and remove from it as long as
  the representation has room, and \<open>UsageSetDiff\<close> is the difference of two such sets. Interpreted on
  the flag map, the flags of a range and the 8-bit selector.
\<close>

subsection \<open>The locale\<close>

definition active_of :: "('b \<Rightarrow> Usage \<Rightarrow> bool option) \<Rightarrow> 'b \<Rightarrow> Usage set" where
  "active_of has b = {u. has b u = Some True}"

text \<open>A list of activations and deactivations, run on a vector and on the set it stands for.\<close>

primrec apply_usages ::
  "('b \<Rightarrow> Usage \<Rightarrow> (bool \<times> 'b) option) \<Rightarrow> ('b \<Rightarrow> Usage \<Rightarrow> (bool \<times> 'b) option) \<Rightarrow>
   (Usage \<times> bool) list \<Rightarrow> 'b \<Rightarrow> 'b option" where
  "apply_usages set_usage clear_usage [] b = Some b"
| "apply_usages set_usage clear_usage (x # xs) b =
     (case (if snd x then set_usage b (fst x) else clear_usage b (fst x)) of
        None \<Rightarrow> None
      | Some (_, b') \<Rightarrow> apply_usages set_usage clear_usage xs b')"

primrec usage_steps :: "(Usage \<times> bool) list \<Rightarrow> Usage set \<Rightarrow> Usage set" where
  "usage_steps [] A = A"
| "usage_steps (x # xs) A = usage_steps xs (if snd x then insert (fst x) A else A - {fst x})"

primrec fits :: "nat \<Rightarrow> (Usage \<times> bool) list \<Rightarrow> Usage set \<Rightarrow> bool" where
  "fits cap [] A \<longleftrightarrow> True"
| "fits cap (x # xs) A \<longleftrightarrow>
     (let A' = (if snd x then insert (fst x) A else A - {fst x})
      in card A' \<le> cap \<and> fits cap xs A')"

locale usage_set =
  fixes contains :: "Usage \<Rightarrow> bool"
    and has :: "'b \<Rightarrow> Usage \<Rightarrow> bool option"
    and set_usage :: "'b \<Rightarrow> Usage \<Rightarrow> (bool \<times> 'b) option"
    and clear_usage :: "'b \<Rightarrow> Usage \<Rightarrow> (bool \<times> 'b) option"
    and usages :: "'b \<Rightarrow> Usage list option"
    and inv :: "'b \<Rightarrow> bool"
    and cap :: nat
  assumes has_total: "inv b \<Longrightarrow> \<exists>x. has b u = Some x"
    and has_contains: "inv b \<Longrightarrow> has b u = Some True \<Longrightarrow> contains u"
    and usages_active: "inv b \<Longrightarrow> \<exists>us. usages b = Some us \<and> set us = active_of has b"
    and within: "inv b \<Longrightarrow> card (active_of has b) \<le> cap"
    and set_active: "inv b \<Longrightarrow> contains u \<Longrightarrow> card (insert u (active_of has b)) \<le> cap \<Longrightarrow>
      \<exists>r b'. set_usage b u = Some (r, b') \<and> inv b' \<and> active_of has b' = insert u (active_of has b)"
    and clear_active: "inv b \<Longrightarrow> contains u \<Longrightarrow>
      \<exists>r b'. clear_usage b u = Some (r, b') \<and> inv b' \<and> active_of has b' = active_of has b - {u}"
begin

lemma finite_active: "inv b \<Longrightarrow> finite (active_of has b)"
  using usages_active by (metis List.finite_set)

lemma not_in_loop_eq:
  "inv b \<Longrightarrow> \<exists>vs. not_in_loop (has b) us = Some vs \<and> set vs = set us - active_of has b"
proof (induction us)
  case (Cons u us)
  obtain vs where vs: "not_in_loop (has b) us = Some vs" "set vs = set us - active_of has b"
    using Cons.IH [OF Cons.prems] by auto
  obtain x where x: "has b u = Some x" using has_total [OF Cons.prems] by auto
  then have "u \<in> active_of has b \<longleftrightarrow> x" by (simp add: active_of_def)
  with vs x show ?case by auto
qed simp

lemma diff_active:
  assumes "inv t0" "inv t1"
  shows "\<exists>a d. usage_diff usages has t0 t1 = Some (a, d)
    \<and> set a = active_of has t1 - active_of has t0 \<and> set d = active_of has t0 - active_of has t1"
proof -
  obtain us0 us1 where us: "usages t0 = Some us0" "set us0 = active_of has t0"
    "usages t1 = Some us1" "set us1 = active_of has t1"
    using usages_active [OF assms(1)] usages_active [OF assms(2)] by auto
  obtain d where "not_in_loop (has t1) us0 = Some d" "set d = set us0 - active_of has t1"
    using not_in_loop_eq [OF assms(2), of us0] by auto
  moreover obtain a where "not_in_loop (has t0) us1 = Some a" "set a = set us1 - active_of has t0"
    using not_in_loop_eq [OF assms(1), of us1] by auto
  ultimately show ?thesis using us by (simp add: usage_diff_def)
qed

lemma apply_active:
  assumes "inv b" "\<forall>x \<in> set xs. contains (fst x)" "fits cap xs (active_of has b)"
  shows "\<exists>b'. apply_usages set_usage clear_usage xs b = Some b' \<and> inv b'
    \<and> active_of has b' = usage_steps xs (active_of has b)"
  using assms
proof (induction xs arbitrary: b)
  case (Cons x xs)
  let ?A = "if snd x then insert (fst x) (active_of has b) else active_of has b - {fst x}"
  have "\<exists>r b'. (if snd x then set_usage b (fst x) else clear_usage b (fst x)) = Some (r, b')
      \<and> inv b' \<and> active_of has b' = ?A"
    using Cons.prems set_active [of b "fst x"] clear_active [of b "fst x"] by (auto simp: Let_def)
  then obtain r b' where b': "(if snd x then set_usage b (fst x) else clear_usage b (fst x)) = Some (r, b')"
    "inv b'" "active_of has b' = ?A" by blast
  with Cons.IH [of b'] Cons.prems show ?case by (simp add: Let_def)
qed simp

lemma steps_set: "usage_steps (map (\<lambda>u. (u, True)) us @ xs) A = usage_steps xs (A \<union> set us)"
  by (induction us arbitrary: A) (simp_all add: Un_commute)

lemma steps_clear: "usage_steps (map (\<lambda>u. (u, False)) us @ xs) A = usage_steps xs (A - set us)"
proof (induction us arbitrary: A)
  case (Cons u us)
  have "A - {u} - set us = A - insert u (set us)" by blast
  with Cons show ?case by simp
qed simp

lemma fits_set: "finite A \<Longrightarrow> card (A \<union> set us) \<le> cap \<Longrightarrow> fits cap xs (A \<union> set us) \<Longrightarrow>
    fits cap (map (\<lambda>u. (u, True)) us @ xs) A"
proof (induction us arbitrary: A)
  case (Cons u us)
  have "card (insert u A) \<le> card (A \<union> set (u # us))"
    using Cons.prems(1) by (intro card_mono) auto
  with Cons show ?case by (auto simp: Let_def)
qed simp

lemma fits_clear: "finite A \<Longrightarrow> card A \<le> cap \<Longrightarrow> fits cap xs (A - set us) \<Longrightarrow>
    fits cap (map (\<lambda>u. (u, False)) us @ xs) A"
proof (induction us arbitrary: A)
  case (Cons u us)
  have "card (A - {u}) \<le> cap" using Cons.prems by (meson card_Diff1_le le_trans)
  moreover have "A - {u} - set us = A - set (u # us)" by auto
  ultimately show ?case using Cons by (simp add: Let_def)
qed simp

text \<open>Deactivations first: the difference always takes the old vector to the new set.\<close>

lemma replay_clear_first:
  assumes "inv t0" "inv t1" "usage_diff usages has t0 t1 = Some (a, d)"
  shows "\<exists>t. apply_usages set_usage clear_usage (map (\<lambda>u. (u, False)) d @ map (\<lambda>u. (u, True)) a) t0 = Some t
    \<and> inv t \<and> active_of has t = active_of has t1"
proof -
  let ?A = "active_of has t0" and ?B = "active_of has t1"
  have ad: "set a = ?B - ?A" "set d = ?A - ?B"
    using diff_active [OF assms(1,2)] assms(3) by auto
  have fin: "finite ?A" "finite ?B" using assms finite_active by auto
  have BA: "(?A - set d) \<union> set a = ?B" unfolding ad by blast
  have c: "\<forall>x \<in> set (map (\<lambda>u. (u, False)) d @ map (\<lambda>u. (u, True)) a). contains (fst x)"
    using ad assms has_contains by (auto simp: active_of_def)
  have "fits cap (map (\<lambda>u. (u, True)) a @ []) (?A - set d)"
    using fin within [OF assms(2)] BA by (intro fits_set) auto
  then have "fits cap (map (\<lambda>u. (u, False)) d @ map (\<lambda>u. (u, True)) a) ?A"
    using fin within [OF assms(1)] by (intro fits_clear) auto
  from apply_active [OF assms(1) c this] steps_set [of a "[]"]
  show ?thesis by (simp add: steps_clear BA)
qed

text \<open>Activations first, the order of \<open>ApplyReport\<close>: only when both sets fit together.\<close>

lemma replay_set_first:
  assumes "inv t0" "inv t1" "usage_diff usages has t0 t1 = Some (a, d)"
    "card (active_of has t0 \<union> active_of has t1) \<le> cap"
  shows "\<exists>t. apply_usages set_usage clear_usage (map (\<lambda>u. (u, True)) a @ map (\<lambda>u. (u, False)) d) t0 = Some t
    \<and> inv t \<and> active_of has t = active_of has t1"
proof -
  let ?A = "active_of has t0" and ?B = "active_of has t1"
  have ad: "set a = ?B - ?A" "set d = ?A - ?B"
    using diff_active [OF assms(1,2)] assms(3) by auto
  have fin: "finite ?A" "finite ?B" using assms finite_active by auto
  have BA: "(?A \<union> set a) - set d = ?B" "?A \<union> set a = ?A \<union> ?B" unfolding ad by blast+
  have c: "\<forall>x \<in> set (map (\<lambda>u. (u, True)) a @ map (\<lambda>u. (u, False)) d). contains (fst x)"
    using ad assms has_contains by (auto simp: active_of_def)
  have "fits cap (map (\<lambda>u. (u, False)) d @ []) (?A \<union> set a)"
    using fin assms(4) BA(2) by (intro fits_clear) auto
  then have "fits cap (map (\<lambda>u. (u, True)) a @ map (\<lambda>u. (u, False)) d) ?A"
    using fin assms(4) BA(2) by (intro fits_set) auto
  note run = apply_active [OF assms(1) c this]
  have "usage_steps (map (\<lambda>u. (u, True)) a @ map (\<lambda>u. (u, False)) d) ?A = ?B"
    using steps_clear [of d "[]"] BA(1) by (simp only: steps_set usage_steps.simps append_Nil2)
  with run show ?thesis by simp
qed

end

text \<open>
  One flag per usage: every contained usage has its own place, so there is always room and the order
  of activations and deactivations does not matter.
\<close>

locale unbounded_usage_set = usage_set +
  assumes places: "finite {u. contains u}" "card {u. contains u} \<le> cap"
begin

lemma room: "inv b \<Longrightarrow> A \<subseteq> {u. contains u} \<Longrightarrow> card (A \<union> active_of has b) \<le> cap"
proof -
  assume "inv b" "A \<subseteq> {u. contains u}"
  then have "A \<union> active_of has b \<subseteq> {u. contains u}"
    using has_contains by (auto simp: active_of_def)
  then show ?thesis using places card_mono le_trans by blast
qed

lemma set_always: "inv b \<Longrightarrow> contains u \<Longrightarrow>
    \<exists>r b'. set_usage b u = Some (r, b') \<and> inv b' \<and> active_of has b' = insert u (active_of has b)"
  using set_active [of b u] room [of b "{u}"] by simp

lemma replay_set_first_always:
  assumes "inv t0" "inv t1" "usage_diff usages has t0 t1 = Some (a, d)"
  shows "\<exists>t. apply_usages set_usage clear_usage (map (\<lambda>u. (u, True)) a @ map (\<lambda>u. (u, False)) d) t0 = Some t
    \<and> inv t \<and> active_of has t = active_of has t1"
proof (rule replay_set_first [OF assms])
  have "active_of has t0 \<subseteq> {u. contains u}" using has_contains assms(1) by (auto simp: active_of_def)
  then show "card (active_of has t0 \<union> active_of has t1) \<le> cap" by (rule room [OF assms(2)])
qed

end

subsection \<open>Flag map\<close>

lemma index_ids_distinct:
  "distinct xs \<Longrightarrow> index_ids xs i m k = Some j \<longleftrightarrow>
     (if k \<in> set xs then i \<le> j \<and> j < i + length xs \<and> xs ! (j - i) = k else m k = Some j)"
proof (induction xs arbitrary: i m)
  case (Cons x xs)
  have ih: "index_ids xs (Suc i) (m(x \<mapsto> i)) k = Some j \<longleftrightarrow>
     (if k \<in> set xs then Suc i \<le> j \<and> j < Suc i + length xs \<and> xs ! (j - Suc i) = k
      else (m(x \<mapsto> i)) k = Some j)"
    using Cons by simp
  show ?case
  proof (cases "k = x")
    case True
    then have "k \<notin> set xs" using Cons.prems by simp
    moreover have "(x # xs) ! (j - i) = k \<Longrightarrow> i \<le> j \<Longrightarrow> j < i + length (x # xs) \<Longrightarrow> j = i"
      using \<open>k \<notin> set xs\<close> True by (cases "j - i") auto
    ultimately show ?thesis using ih True by auto
  next
    case False
    have "j - Suc i = n" if "j - i = Suc n" for n using that by simp
    with False ih show ?thesis by (cases "j - i") (auto simp: nth_Cons')
  qed
qed simp

lemma index_ids_dom: "index_ids xs i m k = None \<longleftrightarrow> k \<notin> set xs \<and> m k = None"
  by (induction xs arbitrary: i m) auto

definition flag_inv :: "u16 list \<Rightarrow> Bits \<Rightarrow> bool" where
  "flag_inv ids b \<longleftrightarrow> distinct ids \<and> bits_wf b \<and> int (length ids) \<le> Bits_Len b"

lemma flag_index:
  assumes "distinct ids" "k \<in> set ids"
  shows "\<exists>j < length ids. ids ! j = k \<and> index_ids ids 0 Map.empty k = Some j"
proof -
  obtain j where "index_ids ids 0 Map.empty k = Some j"
    using assms(2) index_ids_dom [of ids 0 Map.empty k] by auto
  with index_ids_distinct [OF assms(1), of 0 Map.empty k j] assms(2) show ?thesis by auto
qed

lemma flag_Contains:
  "UsagFlagMap_Contains (NewUsageFlagMap p ids) u \<longleftrightarrow> Usage_Page u = p \<and> Usage_ID u \<in> set ids"
  using index_ids_dom [of ids 0 Map.empty "Usage_ID u"]
  by (auto simp: UsagFlagMap_Contains_def NewUsageFlagMap_def)

text \<open>The ordinal of a contained usage.\<close>

lemma flag_ordinal:
  assumes "distinct ids" "UsagFlagMap_Contains (NewUsageFlagMap p ids) u"
  obtains j where "j < length ids" "u = NewUsage p (ids ! j)"
    "\<And>b. UsagFlagMap_HasUsage (NewUsageFlagMap p ids) b u = Bits_IsSet b j"
    "\<And>b. UsagFlagMap_SetUsage (NewUsageFlagMap p ids) b u = Bits_Set b j"
    "\<And>b. UsagFlagMap_ClearUsage (NewUsageFlagMap p ids) b u = Bits_Clear b j"
proof -
  have c: "Usage_Page u = p" "Usage_ID u \<in> set ids" using assms(2) by (simp_all add: flag_Contains)
  obtain j where j: "j < length ids" "ids ! j = Usage_ID u" "index_ids ids 0 Map.empty (Usage_ID u) = Some j"
    using flag_index [OF assms(1) c(2)] by blast
  have look: "go_lookup0 (flag_usageIDMap (NewUsageFlagMap p ids)) (Usage_ID u) = j"
    using j(3) by (simp add: go_lookup0_def NewUsageFlagMap_def)
  have "u = NewUsage p (ids ! j)" using c(1) j(2) by (simp add: Usage_eq_iff)
  with j(1) show ?thesis
    by (rule that)
      (simp_all add: UsagFlagMap_HasUsage_def UsagFlagMap_SetUsage_def UsagFlagMap_ClearUsage_def assms(2) look)
qed

lemma flag_loop_set:
  "set (flag_usages_loop p b xs i) = {NewUsage p (xs ! n) | n. n < length xs \<and> Bits_IsSet b (i + n)}"
proof (induction xs arbitrary: i)
  case (Cons x xs)
  have "{NewUsage p ((x # xs) ! n) | n. n < length (x # xs) \<and> Bits_IsSet b (i + n)} =
      (if Bits_IsSet b i then {NewUsage p x} else {})
      \<union> {NewUsage p (xs ! n) | n. n < length xs \<and> Bits_IsSet b (Suc i + n)}" (is "?l = ?r")
  proof (rule set_eqI)
    fix u
    have "u \<in> ?l \<longleftrightarrow> (\<exists>n < Suc (length xs). u = NewUsage p ((x # xs) ! n) \<and> Bits_IsSet b (i + n))"
      by auto
    also have "\<dots> \<longleftrightarrow> u \<in> ?r" by (auto simp: Ex_less_Suc2)
    finally show "u \<in> ?l \<longleftrightarrow> u \<in> ?r" .
  qed
  with Cons show ?case by simp
qed simp

lemma flag_usages: "UsagFlagMap_Usages (NewUsageFlagMap p ids) b = flag_usages_loop p b ids 0"
  by (simp add: UsagFlagMap_Usages_def NewUsageFlagMap_def)

abbreviation (input) flag_has :: "u16 \<Rightarrow> u16 list \<Rightarrow> Bits \<Rightarrow> Usage \<Rightarrow> bool option" where
  "flag_has p ids \<equiv> UsageSet_HasUsage (FlagMap (NewUsageFlagMap p ids))"

lemma flag_active:
  "distinct ids \<Longrightarrow> active_of (flag_has p ids) b = {NewUsage p (ids ! n) | n. n < length ids \<and> Bits_IsSet b n}"
proof (intro set_eqI iffI)
  fix u assume d: "distinct ids" and u: "u \<in> active_of (flag_has p ids) b"
  then have "UsagFlagMap_Contains (NewUsageFlagMap p ids) u"
    by (auto simp: active_of_def UsagFlagMap_HasUsage_def split: if_splits)
  from d this obtain j where "j < length ids" "u = NewUsage p (ids ! j)"
    "\<And>b. UsagFlagMap_HasUsage (NewUsageFlagMap p ids) b u = Bits_IsSet b j"
    by (metis flag_ordinal)
  with u show "u \<in> {NewUsage p (ids ! n) | n. n < length ids \<and> Bits_IsSet b n}"
    by (auto simp: active_of_def)
next
  fix u assume d: "distinct ids" and "u \<in> {NewUsage p (ids ! n) | n. n < length ids \<and> Bits_IsSet b n}"
  then obtain n where n: "u = NewUsage p (ids ! n)" "n < length ids" "Bits_IsSet b n" by blast
  then have "UsagFlagMap_Contains (NewUsageFlagMap p ids) u" by (simp add: flag_Contains)
  from d this obtain j where j: "j < length ids" "u = NewUsage p (ids ! j)"
    "\<And>b. UsagFlagMap_HasUsage (NewUsageFlagMap p ids) b u = Bits_IsSet b j"
    by (metis flag_ordinal)
  with n d have "j = n" by (simp add: nth_eq_iff_index_eq)
  with n j show "u \<in> active_of (flag_has p ids) b" by (simp add: active_of_def)
qed

lemma flag_write:
  assumes "flag_inv ids b" "UsagFlagMap_Contains (NewUsageFlagMap p ids) u"
  shows "\<exists>r b'. UsageSet_SetUsage (FlagMap (NewUsageFlagMap p ids)) b u = Some (r, b') \<and> flag_inv ids b'
      \<and> active_of (flag_has p ids) b' = insert u (active_of (flag_has p ids) b)" (is ?set)
    and "\<exists>r b'. UsageSet_ClearUsage (FlagMap (NewUsageFlagMap p ids)) b u = Some (r, b') \<and> flag_inv ids b'
      \<and> active_of (flag_has p ids) b' = active_of (flag_has p ids) b - {u}" (is ?clear)
proof -
  have d: "distinct ids" and wf: "bits_wf b" and len: "int (length ids) \<le> Bits_Len b"
    using assms(1) by (simp_all add: flag_inv_def)
  from d assms(2) obtain j where j: "j < length ids" "u = NewUsage p (ids ! j)"
    "\<And>b. UsagFlagMap_SetUsage (NewUsageFlagMap p ids) b u = Bits_Set b j"
    "\<And>b. UsagFlagMap_ClearUsage (NewUsageFlagMap p ids) b u = Bits_Clear b j"
    using flag_ordinal [OF d assms(2)] by metis
  have same: "NewUsage p (ids ! n) = u \<longleftrightarrow> n = j" if "n < length ids" for n
    using that j d by (simp add: nth_eq_iff_index_eq)
  have inv: "flag_inv ids (snd (Bits_Set b j))" "flag_inv ids (snd (Bits_Clear b j))"
    using d wf len by (auto simp: flag_inv_def bits_wf_def simp flip: length_greater_0_conv)
  have "active_of (flag_has p ids) (snd (Bits_Set b j)) = insert u (active_of (flag_has p ids) b)"
    using j(1) len same by (auto simp: flag_active [OF d] IsSet_Set)
  with inv(1) j(3) show ?set by (metis UsageSet_SetUsage.simps(1) prod.collapse)
  have "active_of (flag_has p ids) (snd (Bits_Clear b j)) = active_of (flag_has p ids) b - {u}"
    using same by (auto simp: flag_active [OF d] IsSet_Clear)
  with inv(2) j(4) show ?clear by (metis UsageSet_ClearUsage.simps(1) prod.collapse)
qed

interpretation flag_map: usage_set "UsageSet_Contains (FlagMap (NewUsageFlagMap p ids))"
  "UsageSet_HasUsage (FlagMap (NewUsageFlagMap p ids))"
  "UsageSet_SetUsage (FlagMap (NewUsageFlagMap p ids))"
  "UsageSet_ClearUsage (FlagMap (NewUsageFlagMap p ids))"
  "UsageSet_Usages (FlagMap (NewUsageFlagMap p ids))" "flag_inv ids" "length ids"
proof unfold_locales
  fix b assume i: "flag_inv ids b"
  then have d: "distinct ids" by (simp add: flag_inv_def)
  show "card (active_of (flag_has p ids) b) \<le> length ids"
  proof -
    have "active_of (flag_has p ids) b \<subseteq> (\<lambda>n. NewUsage p (ids ! n)) ` {..<length ids}"
      using flag_active [OF d] by auto
    then have "card (active_of (flag_has p ids) b) \<le> card {..<length ids}"
      by (meson card_image_le card_mono finite_imageI finite_lessThan le_trans)
    then show ?thesis by simp
  qed
  show "\<exists>us. UsageSet_Usages (FlagMap (NewUsageFlagMap p ids)) b = Some us \<and> set us = active_of (flag_has p ids) b"
    by (simp add: flag_usages flag_loop_set flag_active [OF d])
qed (auto simp: UsagFlagMap_HasUsage_def flag_write [simplified] split: if_splits)

interpretation flag_map_all: unbounded_usage_set "UsageSet_Contains (FlagMap (NewUsageFlagMap p ids))"
  "UsageSet_HasUsage (FlagMap (NewUsageFlagMap p ids))"
  "UsageSet_SetUsage (FlagMap (NewUsageFlagMap p ids))"
  "UsageSet_ClearUsage (FlagMap (NewUsageFlagMap p ids))"
  "UsageSet_Usages (FlagMap (NewUsageFlagMap p ids))" "flag_inv ids" "length ids"
proof unfold_locales
  have "{u. UsageSet_Contains (FlagMap (NewUsageFlagMap p ids)) u} = NewUsage p ` set ids"
    by (auto simp: flag_Contains Usage_eq_iff image_iff)
  then show "finite {u. UsageSet_Contains (FlagMap (NewUsageFlagMap p ids)) u}"
    and "card {u. UsageSet_Contains (FlagMap (NewUsageFlagMap p ids)) u} \<le> length ids"
    using card_image_le [of "set ids" "NewUsage p"] card_length [of ids] by (simp_all del: UsageSet_Contains.simps)
qed

subsection \<open>Flags of a range\<close>

definition range_inv :: "u16 \<Rightarrow> u16 \<Rightarrow> Bits \<Rightarrow> bool" where
  "range_inv mn mx b \<longleftrightarrow> mn \<le> mx \<and> bits_wf b \<and> Bits_Len b = uint mx - uint mn + 1"

abbreviation (input) range_cap :: "u16 \<Rightarrow> u16 \<Rightarrow> nat" where
  "range_cap mn mx \<equiv> nat (uint mx - uint mn + 1)"

lemma range_Contains:
  "UsageRangeFlags_Contains (NewUsageRangeFlags p mn mx) u \<longleftrightarrow>
     Usage_Page u = p \<and> mn \<le> Usage_ID u \<and> Usage_ID u \<le> mx"
  by (auto simp: UsageRangeFlags_Contains_def NewUsageRangeFlags_def)

lemma uint_range_offset:
  "int n \<le> uint mx - uint mn \<Longrightarrow> uint (of_nat n + mn) = int n + uint mn" for mn mx :: u16
proof -
  assume n: "int n \<le> uint mx - uint mn"
  moreover have "uint mx < 65536" "0 \<le> uint mn" using uint_bounded [of mx] by simp_all
  ultimately have "int n < 65536" "int n + uint mn < 65536" by linarith+
  moreover from this have "n mod 65536 = n" by simp
  ultimately show ?thesis by (simp add: uint_word_ariths unsigned_of_nat take_bit_eq_mod)
qed

lemma range_offset:
  fixes k mn :: u16
  assumes "mn \<le> k"
  shows "int (unat (k - mn)) = uint k - uint mn" "of_nat (unat (k - mn)) + mn = k"
proof -
  have "uint (k - mn) = uint k - uint mn"
    using assms by (simp add: uint_sub_if' word_le_def)
  then show "int (unat (k - mn)) = uint k - uint mn" by simp
  show "of_nat (unat (k - mn)) + mn = k" by simp
qed

abbreviation (input) range_has :: "u16 \<Rightarrow> u16 \<Rightarrow> u16 \<Rightarrow> Bits \<Rightarrow> Usage \<Rightarrow> bool option" where
  "range_has p mn mx \<equiv> UsageSet_HasUsage (RangeFlags (NewUsageRangeFlags p mn mx))"

lemma range_has_iff:
  "u \<in> active_of (range_has p mn mx) b \<longleftrightarrow>
     UsageRangeFlags_Contains (NewUsageRangeFlags p mn mx) u \<and> Bits_IsSet b (unat (Usage_ID u - mn))"
  by (auto simp: active_of_def UsageRangeFlags_HasUsage_def NewUsageRangeFlags_def)

lemma range_active:
  assumes "range_inv mn mx b"
  shows "active_of (range_has p mn mx) b =
    {NewUsage p (of_nat n + mn) | n. n < range_cap mn mx \<and> Bits_IsSet b n}" (is "?l = ?r")
proof (intro set_eqI iffI)
  fix u assume "u \<in> ?l"
  then have u: "Usage_Page u = p" "mn \<le> Usage_ID u" "Usage_ID u \<le> mx" "Bits_IsSet b (unat (Usage_ID u - mn))"
    by (auto simp: range_has_iff range_Contains)
  have "int (unat (Usage_ID u - mn)) < uint mx - uint mn + 1"
    using u(3) range_offset(1) [OF u(2)] by (simp add: word_le_def)
  then have "unat (Usage_ID u - mn) < range_cap mn mx" by linarith
  moreover have "u = NewUsage p (of_nat (unat (Usage_ID u - mn)) + mn)"
    unfolding range_offset(2) [OF u(2)] using u(1) by (simp add: Usage_eq_iff)
  ultimately show "u \<in> ?r" using u(4) by blast
next
  fix u assume "u \<in> ?r"
  then obtain n where n: "u = NewUsage p (of_nat n + mn)" "n < range_cap mn mx" "Bits_IsSet b n" by blast
  then have le: "int n \<le> uint mx - uint mn" by linarith
  from uint_range_offset [OF this]
  have w: "mn \<le> of_nat n + mn" "of_nat n + mn \<le> mx" using le by (simp_all add: word_le_def)
  have "int (unat (of_nat n + mn - mn)) = int n"
    using range_offset(1) [OF w(1)] uint_range_offset [OF le] by simp
  then have "unat (of_nat n + mn - mn) = n" by linarith
  with n w show "u \<in> ?l" by (simp add: range_has_iff range_Contains)
qed

lemma range_write:
  assumes "range_inv mn mx b" "UsageRangeFlags_Contains (NewUsageRangeFlags p mn mx) u"
  shows "\<exists>r b'. UsageSet_SetUsage (RangeFlags (NewUsageRangeFlags p mn mx)) b u = Some (r, b')
      \<and> range_inv mn mx b'
      \<and> active_of (range_has p mn mx) b' = insert u (active_of (range_has p mn mx) b)" (is ?set)
    and "\<exists>r b'. UsageSet_ClearUsage (RangeFlags (NewUsageRangeFlags p mn mx)) b u = Some (r, b')
      \<and> range_inv mn mx b'
      \<and> active_of (range_has p mn mx) b' = active_of (range_has p mn mx) b - {u}" (is ?clear)
proof -
  let ?j = "unat (Usage_ID u - mn)"
  have u: "Usage_Page u = p" "mn \<le> Usage_ID u" "Usage_ID u \<le> mx"
    using assms(2) by (simp_all add: range_Contains)
  have len: "Bits_Len b = uint mx - uint mn + 1" and wf: "bits_wf b"
    using assms(1) by (simp_all add: range_inv_def)
  have j: "int ?j < Bits_Len b"
    using u(3) range_offset(1) [OF u(2)] len by (simp add: word_le_def)
  have inj: "unat (Usage_ID v - mn) = ?j \<longleftrightarrow> v = u"
    if "UsageRangeFlags_Contains (NewUsageRangeFlags p mn mx) v" for v
  proof
    assume "unat (Usage_ID v - mn) = ?j"
    then have "Usage_ID v = Usage_ID u"
      using that u range_offset(2) by (metis range_Contains)
    then show "v = u" using that u(1) by (simp add: Usage_eq_iff range_Contains)
  qed simp
  have ops: "UsageSet_SetUsage (RangeFlags (NewUsageRangeFlags p mn mx)) b u = Some (Bits_Set b ?j)"
    "UsageSet_ClearUsage (RangeFlags (NewUsageRangeFlags p mn mx)) b u = Some (Bits_Clear b ?j)"
    using assms(2) by (simp_all add: UsageRangeFlags_SetUsage_def UsageRangeFlags_ClearUsage_def NewUsageRangeFlags_def)
  have inv: "range_inv mn mx (snd (Bits_Set b ?j))" "range_inv mn mx (snd (Bits_Clear b ?j))"
    using assms(1) by (auto simp: range_inv_def bits_wf_def simp flip: length_greater_0_conv)
  have "active_of (range_has p mn mx) (snd (Bits_Set b ?j)) = insert u (active_of (range_has p mn mx) b)"
    using j inj assms(2) by (auto simp: range_has_iff IsSet_Set split: if_splits)
  with inv(1) ops(1) show ?set by (metis prod.collapse)
  have "active_of (range_has p mn mx) (snd (Bits_Clear b ?j)) = active_of (range_has p mn mx) b - {u}"
    using inj by (auto simp: range_has_iff IsSet_Clear)
  with inv(2) ops(2) show ?clear by (metis prod.collapse)
qed

lemma range_usages:
  assumes "range_inv mn mx b"
  shows "UsageRangeFlags_Usages (NewUsageRangeFlags p mn mx) b =
    map (\<lambda>n. NewUsage p (of_nat n + mn)) (filter (Bits_IsSet b) [0..<range_cap mn mx])"
proof -
  have "UsageRangeFlags_Usages (NewUsageRangeFlags p mn mx) b =
      fold (\<lambda>i acc. if Bits_IsSet b i then acc @ [NewUsage p (of_nat i + mn)] else acc)
        [0..<nat (Bits_Len b)] []"
    using assms unfolding UsageRangeFlags_Usages_def
    by (subst Bits_Each_all) (simp_all add: range_inv_def NewUsageRangeFlags_def cong: if_cong)
  with assms show ?thesis by (simp only: filter_fold_append range_inv_def append_Nil)
qed

interpretation range_flags: usage_set "UsageSet_Contains (RangeFlags (NewUsageRangeFlags p mn mx))"
  "UsageSet_HasUsage (RangeFlags (NewUsageRangeFlags p mn mx))"
  "UsageSet_SetUsage (RangeFlags (NewUsageRangeFlags p mn mx))"
  "UsageSet_ClearUsage (RangeFlags (NewUsageRangeFlags p mn mx))"
  "UsageSet_Usages (RangeFlags (NewUsageRangeFlags p mn mx))" "range_inv mn mx" "range_cap mn mx"
proof unfold_locales
  fix b assume i: "range_inv mn mx b"
  show "card (active_of (range_has p mn mx) b) \<le> range_cap mn mx"
  proof -
    have "active_of (range_has p mn mx) b \<subseteq> (\<lambda>n. NewUsage p (of_nat n + mn)) ` {..<range_cap mn mx}"
      using range_active [OF i] by auto
    then have "card (active_of (range_has p mn mx) b) \<le> card {..<range_cap mn mx}"
      by (meson card_image_le card_mono finite_imageI finite_lessThan le_trans)
    then show ?thesis by simp
  qed
  show "\<exists>us. UsageSet_Usages (RangeFlags (NewUsageRangeFlags p mn mx)) b = Some us
      \<and> set us = active_of (range_has p mn mx) b"
    using i by (auto simp: range_usages range_active)
qed (auto simp: UsageRangeFlags_HasUsage_def range_write [simplified] split: if_splits)

interpretation range_flags_all: unbounded_usage_set "UsageSet_Contains (RangeFlags (NewUsageRangeFlags p mn mx))"
  "UsageSet_HasUsage (RangeFlags (NewUsageRangeFlags p mn mx))"
  "UsageSet_SetUsage (RangeFlags (NewUsageRangeFlags p mn mx))"
  "UsageSet_ClearUsage (RangeFlags (NewUsageRangeFlags p mn mx))"
  "UsageSet_Usages (RangeFlags (NewUsageRangeFlags p mn mx))" "range_inv mn mx" "range_cap mn mx"
proof unfold_locales
  have sub: "{u. UsageSet_Contains (RangeFlags (NewUsageRangeFlags p mn mx)) u} \<subseteq>
      (\<lambda>n. NewUsage p (of_nat n + mn)) ` {..<range_cap mn mx}"
  proof
    fix u assume "u \<in> {u. UsageSet_Contains (RangeFlags (NewUsageRangeFlags p mn mx)) u}"
    then have u: "Usage_Page u = p" "mn \<le> Usage_ID u" "Usage_ID u \<le> mx" by (simp_all add: range_Contains)
    have "int (unat (Usage_ID u - mn)) < uint mx - uint mn + 1"
      using u(3) range_offset(1) [OF u(2)] by (simp add: word_le_def)
    then have "unat (Usage_ID u - mn) < range_cap mn mx" by linarith
    moreover have "u = NewUsage p (of_nat (unat (Usage_ID u - mn)) + mn)"
      unfolding range_offset(2) [OF u(2)] using u(1) by (simp add: Usage_eq_iff)
    ultimately show "u \<in> (\<lambda>n. NewUsage p (of_nat n + mn)) ` {..<range_cap mn mx}" by blast
  qed
  show "finite {u. UsageSet_Contains (RangeFlags (NewUsageRangeFlags p mn mx)) u}"
    by (rule finite_subset [OF sub]) simp
  have "card {u. UsageSet_Contains (RangeFlags (NewUsageRangeFlags p mn mx)) u} \<le> card {..<range_cap mn mx}"
    by (rule surj_card_le [OF _ sub]) simp
  then show "card {u. UsageSet_Contains (RangeFlags (NewUsageRangeFlags p mn mx)) u} \<le> range_cap mn mx"
    by simp
qed

subsection \<open>Selector of 8-bit usages\<close>

text \<open>The loops of the selector, from the element after \<open>pre\<close> on.\<close>

lemma read_u8_app [simp]: "bytes b = pre @ w # ws \<Longrightarrow> read_u8 b (length pre) = Some w"
  by (simp add: read_u8_def index_def)

lemma SetUint8_app [simp]:
  "bytes b = pre @ w # ws \<Longrightarrow> Bits_SetUint8 b (length pre) v = Some (b\<lparr>bytes := pre @ v # ws\<rparr>)"
  by (simp add: Bits_SetUint8_def store_def)

definition each_n where
  "each_n rd f i n st = each_loop rd f [i..<i + n] st"

lemma each_n_0: "each_n rd f i 0 st = Some st"
  by (simp add: each_n_def)

lemma each_n_Suc: "each_n rd f i (Suc n) st =
     (case rd (fst st) i of
        None \<Rightarrow> None
      | Some v \<Rightarrow>
          (case f i v st of
             None \<Rightarrow> None
           | Some (go_on, st') \<Rightarrow> if go_on then each_n rd f (Suc i) n st' else Some st'))"
proof -
  have "[i..<i + Suc n] = i # [Suc i..<Suc i + n]" by (simp add: upt_conv_Cons del: upt_Suc)
  then show ?thesis unfolding each_n_def by (simp only: each_loop.simps)
qed

lemma EachUint8_n: "Bits_EachUint8 f st = each_n read_u8 f 0 (length (bytes (fst st))) st"
  by (simp add: Bits_EachUint8_def each_n_def)

lemma sel8_has_loop:
  "bytes b = pre @ ws \<Longrightarrow>
     each_n read_u8 (sel_has_cb k ucast) (length pre) (length ws) (b, False) =
       Some (b, \<exists>w \<in> set ws. ucast w = k)"
proof (induction ws arbitrary: pre)
  case (Cons w ws)
  then show ?case
    using Cons.IH [of "pre @ [w]"] by (auto simp: each_n_Suc sel_has_cb_def)
qed (simp add: each_n_0)

lemma sel8_usages_loop:
  "bytes b = pre @ ws \<Longrightarrow>
     each_n read_u8 (sel_usages_cb p ucast) (length pre) (length ws) (b, us) =
       Some (b, us @ map (\<lambda>w. NewUsage p (ucast w)) (filter (\<lambda>w. w \<noteq> 0) ws))"
proof (induction ws arbitrary: pre us)
  case (Cons w ws)
  then show ?case
    using Cons.IH [of "pre @ [w]"] by (auto simp: each_n_Suc sel_usages_cb_def)
qed (simp add: each_n_0)

lemma sel8_set_loop:
  "bytes b = pre @ vs @ replicate k 0 \<Longrightarrow> 0 \<notin> set vs \<Longrightarrow>
     each_n read_u8 (sel_set_cb Bits_SetUint8 w) (length pre) (length vs + k) (b, ()) =
       Some (if w \<in> set vs \<or> k = 0 then b
             else if w = 0 then b else b\<lparr>bytes := pre @ vs @ w # replicate (k - 1) 0\<rparr>, ())"
proof (induction vs arbitrary: pre)
  case Nil
  then show ?case
    by (cases k) (auto simp: each_n_0 each_n_Suc sel_set_cb_def)
next
  case (Cons v vs)
  then show ?case
    using Cons.IH [of "pre @ [v]"] by (auto simp: each_n_Suc sel_set_cb_def)
qed

lemma sel8_shift_loop:
  "bytes b = pre @ 0 # vs @ replicate k 0 \<Longrightarrow> 0 \<notin> set vs \<Longrightarrow>
     each_n read_u8 (sel_clear_cb Bits_SetUint8 u ucast) (Suc (length pre)) (length vs + k) (b, True) =
       Some (b\<lparr>bytes := pre @ vs @ 0 # replicate k 0\<rparr>, True)"
proof (induction vs arbitrary: pre b)
  case Nil
  have "b\<lparr>bytes := bytes b\<rparr> = b" by simp
  then show ?case
    using Nil read_u8_app [of b "pre @ [0]" 0 "replicate (k - 1) 0"]
    by (cases k) (auto simp: each_n_0 each_n_Suc sel_clear_cb_def)
next
  case (Cons v vs)
  let ?b1 = "b\<lparr>bytes := pre @ v # v # vs @ replicate k 0\<rparr>"
  let ?b2 = "b\<lparr>bytes := pre @ v # 0 # vs @ replicate k 0\<rparr>"
  have "read_u8 b (Suc (length pre)) = Some v"
    using Cons.prems(1) read_u8_app [of b "pre @ [0]" v] by simp
  moreover have "Bits_SetUint8 b (length pre) v = Some ?b1"
    using Cons.prems(1) by simp
  moreover have "Bits_SetUint8 ?b1 (Suc (length pre)) 0 = Some ?b2"
    using SetUint8_app [of ?b1 "pre @ [v]" v "vs @ replicate k 0" 0] by simp
  moreover note Cons.IH [of ?b2 "pre @ [v]"]
  ultimately show ?case
    using Cons.prems(2) by (simp add: each_n_Suc sel_clear_cb_def)
qed

lemma sel8_clear_loop:
  "bytes b = pre @ vs @ replicate k 0 \<Longrightarrow> 0 \<notin> set vs \<Longrightarrow>
     \<exists>c. each_n read_u8 (sel_clear_cb Bits_SetUint8 (ucast w) ucast) (length pre) (length vs + k) (b, False) =
       Some (if w \<in> set vs then b\<lparr>bytes := pre @ remove1 w vs @ 0 # replicate k 0\<rparr> else b, c)"
proof (induction vs arbitrary: pre)
  case Nil
  then show ?case
    using read_u8_app [of b pre 0 "replicate (k - 1) 0"]
    by (cases k) (auto simp: each_n_0 each_n_Suc sel_clear_cb_def)
next
  case (Cons v vs)
  show ?case
  proof (cases "v = w")
    case True
    let ?b = "b\<lparr>bytes := pre @ 0 # vs @ replicate k 0\<rparr>"
    have "sel_clear_cb Bits_SetUint8 (ucast w) ucast (length pre) w (b, False) = Some (True, ?b, True)"
      using Cons.prems True by (simp add: sel_clear_cb_def)
    with sel8_shift_loop [of ?b pre vs k "ucast w"] Cons.prems True show ?thesis
      by (auto simp: each_n_Suc)
  next
    case False
    have ne: "ucast v \<noteq> (ucast w :: u16)"
      using False by simp
    have "bytes b = (pre @ [v]) @ vs @ replicate k 0" using Cons.prems by simp
    note ih = Cons.IH [OF this]
    have "sel_clear_cb Bits_SetUint8 (ucast w) ucast (length pre) v (b, False) = Some (True, b, False)"
      using Cons.prems ne by (simp add: sel_clear_cb_def)
    with ih Cons.prems False show ?thesis by (cases "w \<in> set vs") (simp_all add: each_n_Suc)
  qed
qed

text \<open>
  The invariant of the selector: usage 0 is not in the range and every usage fits in a byte; the
  selected usages come first, without repetition and in the range, and zeros fill the rest.
\<close>

definition sel8_keys :: "Bits \<Rightarrow> u8 list" where
  "sel8_keys b = takeWhile (\<lambda>w. w \<noteq> 0) (bytes b)"

definition sel8_inv :: "u16 \<Rightarrow> u16 \<Rightarrow> nat \<Rightarrow> Bits \<Rightarrow> bool" where
  "sel8_inv mn mx n b \<longleftrightarrow> 0 < mn \<and> mx < 0x100 \<and> length (bytes b) = n
     \<and> distinct (sel8_keys b) \<and> (\<forall>w \<in> set (sel8_keys b). mn \<le> ucast w \<and> ucast w \<le> mx)
     \<and> (\<forall>w \<in> set (dropWhile (\<lambda>w. w \<noteq> 0) (bytes b)). w = 0)"

lemma sel8_keys_app: "0 \<notin> set vs \<Longrightarrow> bytes b = vs @ replicate k 0 \<Longrightarrow> sel8_keys b = vs"
  unfolding sel8_keys_def by (cases k) (auto simp: takeWhile_append takeWhile_eq_all_conv)

lemma sel8_shape:
  assumes "sel8_inv mn mx n b"
  obtains k where "bytes b = sel8_keys b @ replicate k 0" "n = length (sel8_keys b) + k"
    "0 \<notin> set (sel8_keys b)"
proof -
  define r where "r = dropWhile (\<lambda>w. w \<noteq> 0) (bytes b)"
  have r: "r = replicate (length r) 0"
  proof (rule replicate_eqI)
    fix y assume "y \<in> set r"
    then show "y = 0" using assms unfolding sel8_inv_def r_def by blast
  qed simp
  have split: "bytes b = sel8_keys b @ r" by (simp add: sel8_keys_def r_def)
  have len: "n = length (sel8_keys b) + length r"
    using assms arg_cong [OF split, of length] by (simp add: sel8_inv_def)
  have "0 \<notin> set (sel8_keys b)" unfolding sel8_keys_def using set_takeWhileD by fastforce
  then show ?thesis
    by (rule that [of "length r", OF _ len, rotated]) (subst r [symmetric], rule split)
qed

lemma sel8_invI:
  assumes "bytes b = vs @ replicate k 0" "0 \<notin> set vs" "distinct vs" "0 < mn" "mx < 0x100"
    "\<forall>w \<in> set vs. mn \<le> ucast w \<and> ucast w \<le> mx"
  shows "sel8_inv mn mx (length vs + k) b"
proof -
  have keys: "sel8_keys b = vs" using assms by (simp add: sel8_keys_app)
  have "dropWhile (\<lambda>w. w \<noteq> 0) (bytes b) = replicate k 0"
    using assms(1,2) by (cases k) (auto simp: dropWhile_append dropWhile_eq_Nil_conv)
  with keys assms show ?thesis by (simp add: sel8_inv_def)
qed

abbreviation (input) sel8 :: "u16 \<Rightarrow> u16 \<Rightarrow> u16 \<Rightarrow> UsageSet" where
  "sel8 p mn mx \<equiv> Selector (NewUsageSelector 8 p mn mx)"

lemma sel_Contains:
  "UsageSelector_Contains (NewUsageSelector sz p mn mx) u \<longleftrightarrow>
     Usage_Page u = p \<and> mn \<le> Usage_ID u \<and> Usage_ID u \<le> mx"
  by (auto simp: UsageSelector_Contains_def NewUsageSelector_def)

lemma sel_fields [simp]: "sel_size (NewUsageSelector sz p mn mx) = sz"
  "sel_usagePage (NewUsageSelector sz p mn mx) = p"
  by (simp_all add: NewUsageSelector_def)

lemma sel8_has:
  assumes "UsageSelector_Contains (NewUsageSelector 8 p mn mx) u"
  shows "UsageSet_HasUsage (sel8 p mn mx) b u = Some (\<exists>w \<in> set (bytes b). ucast w = Usage_ID u)"
  using assms sel8_has_loop [of b "[]" "bytes b" "Usage_ID u"]
  by (simp add: UsageSelector_HasUsage_def EachUint8_n)

lemma sel8_has_not: "\<not> UsageSelector_Contains (NewUsageSelector 8 p mn mx) u \<Longrightarrow>
    UsageSet_HasUsage (sel8 p mn mx) b u = Some False"
  by (simp add: UsageSelector_HasUsage_def)

lemma sel8_usages:
  "UsageSet_Usages (sel8 p mn mx) b =
     Some (map (\<lambda>w. NewUsage p (ucast w)) (filter (\<lambda>w. w \<noteq> 0) (bytes b)))"
  using sel8_usages_loop [of b "[]" "bytes b" p "[]"]
  by (simp add: UsageSelector_Usages_def EachUint8_n)

lemma set_bytes_keys:
  assumes "sel8_inv mn mx n b"
  shows "{w \<in> set (bytes b). w \<noteq> 0} = set (sel8_keys b)"
proof -
  obtain k where "bytes b = sel8_keys b @ replicate k 0" "0 \<notin> set (sel8_keys b)"
    using sel8_shape [OF assms] by metis
  then have "set (bytes b) = set (sel8_keys b) \<union> set (replicate k 0)" by (metis set_append)
  with \<open>0 \<notin> set (sel8_keys b)\<close> show ?thesis by auto
qed

lemma sel8_active:
  assumes "sel8_inv mn mx n b"
  shows "active_of (UsageSet_HasUsage (sel8 p mn mx)) b = (\<lambda>w. NewUsage p (ucast w)) ` set (sel8_keys b)"
    (is "?l = ?r")
proof (intro set_eqI iffI)
  have mn: "0 < mn" using assms by (simp add: sel8_inv_def)
  fix u assume "u \<in> ?l"
  then have c: "UsageSelector_Contains (NewUsageSelector 8 p mn mx) u"
    and "\<exists>w \<in> set (bytes b). ucast w = Usage_ID u"
    using sel8_has [of p mn mx u b] sel8_has_not [of p mn mx u b]
    by (cases "UsageSelector_Contains (NewUsageSelector 8 p mn mx) u"; simp add: active_of_def)+
  then obtain w where w: "w \<in> set (bytes b)" "ucast w = Usage_ID u" by blast
  with c mn have "w \<noteq> 0" by (auto simp: sel_Contains)
  then have "w \<in> set (sel8_keys b)" using w set_bytes_keys [OF assms] by blast
  moreover have "u = NewUsage p (ucast w)" using w c by (simp add: Usage_eq_iff sel_Contains)
  ultimately show "u \<in> ?r" by blast
next
  fix u assume "u \<in> ?r"
  then obtain w where w: "u = NewUsage p (ucast w)" "w \<in> set (sel8_keys b)" by blast
  then have "w \<in> set (bytes b)" using set_bytes_keys [OF assms] by blast
  moreover have "UsageSelector_Contains (NewUsageSelector 8 p mn mx) u"
    using assms w by (simp add: sel_Contains sel8_inv_def)
  ultimately show "u \<in> ?l" using w
    by (auto simp: active_of_def sel8_has simp del: UsageSet_HasUsage.simps)
qed

lemma inj_usage_byte: "inj (\<lambda>w :: u8. NewUsage p (ucast w))"
  by (rule injI) simp

lemma sel8_card:
  assumes "sel8_inv mn mx n b"
  shows "card (active_of (UsageSet_HasUsage (sel8 p mn mx)) b) = length (sel8_keys b)"
proof -
  have "distinct (sel8_keys b)" using assms by (simp add: sel8_inv_def)
  then show ?thesis
    unfolding sel8_active [OF assms]
    by (subst card_image [OF inj_on_subset [OF inj_usage_byte subset_UNIV]]) (rule distinct_card)
qed

lemma sel8_set:
  assumes i: "sel8_inv mn mx n b" and c: "UsageSelector_Contains (NewUsageSelector 8 p mn mx) u"
    and room: "card (insert u (active_of (UsageSet_HasUsage (sel8 p mn mx)) b)) \<le> n"
  shows "\<exists>r b'. UsageSet_SetUsage (sel8 p mn mx) b u = Some (r, b') \<and> sel8_inv mn mx n b'
    \<and> active_of (UsageSet_HasUsage (sel8 p mn mx)) b' =
        insert u (active_of (UsageSet_HasUsage (sel8 p mn mx)) b)"
proof -
  obtain k where k: "bytes b = sel8_keys b @ replicate k 0" "n = length (sel8_keys b) + k"
    "0 \<notin> set (sel8_keys b)" using i by (rule sel8_shape)
  define vs where "vs = sel8_keys b"
  define w :: u8 where "w = ucast (Usage_ID u)"
  have bounds: "0 < mn" "mx < 0x100" "distinct vs" "\<forall>w \<in> set vs. mn \<le> ucast w \<and> ucast w \<le> mx"
    using i by (simp_all add: sel8_inv_def vs_def)
  have u: "Usage_Page u = p" "mn \<le> Usage_ID u" "Usage_ID u \<le> mx" using c by (simp_all add: sel_Contains)
  have wid: "ucast w = Usage_ID u" unfolding w_def using u(3) bounds(2) by (intro ucast_byte16) simp
  then have uw: "NewUsage p (ucast w) = u" using u(1) by (simp add: Usage_eq_iff)
  have w0: "w \<noteq> 0" using wid u(2) bounds(1) by auto
  let ?new = "if w \<in> set vs \<or> k = 0 then b else if w = 0 then b
    else b\<lparr>bytes := [] @ vs @ w # replicate (k - 1) 0\<rparr>"
  have "length (bytes b) = length vs + k" using k(1) vs_def by (metis length_append length_replicate)
  then have run: "UsageSet_SetUsage (sel8 p mn mx) b u = Some (True, ?new)"
    using sel8_set_loop [of b "[]" vs k w] k c
    by (simp add: UsageSelector_SetUsage_def EachUint8_n flip: w_def vs_def)
  show ?thesis
  proof (cases "w \<in> set vs")
    case True
    then have "u \<in> active_of (UsageSet_HasUsage (sel8 p mn mx)) b"
      using uw by (auto simp: sel8_active [OF i] vs_def)
    with run i True show ?thesis by (auto simp: insert_absorb)
  next
    case False
    then have "u \<notin> active_of (UsageSet_HasUsage (sel8 p mn mx)) b"
      using uw by (auto simp: sel8_active [OF i] vs_def)
    moreover have "finite (active_of (UsageSet_HasUsage (sel8 p mn mx)) b)"
      by (simp add: sel8_active [OF i])
    ultimately have "k \<noteq> 0" using room k(2) by (simp add: sel8_card [OF i])
    define b' where "b' = b\<lparr>bytes := [] @ vs @ w # replicate (k - 1) 0\<rparr>"
    have b': "bytes b' = (vs @ [w]) @ replicate (k - 1) 0" "0 \<notin> set (vs @ [w])"
      using k(3) w0 by (simp_all add: b'_def vs_def)
    have n: "n = length (vs @ [w]) + (k - 1)" using k(2) \<open>k \<noteq> 0\<close> by (simp add: vs_def)
    have inv: "sel8_inv mn mx n b'"
      unfolding n using b' False bounds u wid by (intro sel8_invI) auto
    have "sel8_keys b' = vs @ [w]" using b' by (simp add: sel8_keys_app)
    then have "active_of (UsageSet_HasUsage (sel8 p mn mx)) b' =
        insert u (active_of (UsageSet_HasUsage (sel8 p mn mx)) b)"
      using uw by (simp add: sel8_active [OF inv] sel8_active [OF i] vs_def)
    with run inv False \<open>k \<noteq> 0\<close> w0 show ?thesis by (auto simp: b'_def)
  qed
qed

lemma sel8_clear:
  assumes i: "sel8_inv mn mx n b" and c: "UsageSelector_Contains (NewUsageSelector 8 p mn mx) u"
  shows "\<exists>r b'. UsageSet_ClearUsage (sel8 p mn mx) b u = Some (r, b') \<and> sel8_inv mn mx n b'
    \<and> active_of (UsageSet_HasUsage (sel8 p mn mx)) b' =
        active_of (UsageSet_HasUsage (sel8 p mn mx)) b - {u}"
proof -
  obtain k where k: "bytes b = sel8_keys b @ replicate k 0" "n = length (sel8_keys b) + k"
    "0 \<notin> set (sel8_keys b)" using i by (rule sel8_shape)
  define vs where "vs = sel8_keys b"
  define w :: u8 where "w = ucast (Usage_ID u)"
  have bounds: "0 < mn" "mx < 0x100" "distinct vs" "\<forall>w \<in> set vs. mn \<le> ucast w \<and> ucast w \<le> mx"
    using i by (simp_all add: sel8_inv_def vs_def)
  have u: "Usage_Page u = p" "mn \<le> Usage_ID u" "Usage_ID u \<le> mx" using c by (simp_all add: sel_Contains)
  have wid: "ucast w = Usage_ID u" unfolding w_def using u(3) bounds(2) by (intro ucast_byte16) simp
  then have uw: "NewUsage p (ucast w) = u" using u(1) by (simp add: Usage_eq_iff)
  define b' where "b' = b\<lparr>bytes := [] @ remove1 w vs @ 0 # replicate k 0\<rparr>"
  have "length (bytes b) = length vs + k" using k(1) vs_def by (metis length_append length_replicate)
  then have run: "\<exists>r. UsageSet_ClearUsage (sel8 p mn mx) b u = Some (r, if w \<in> set vs then b' else b)"
    using sel8_clear_loop [of b "[]" vs k w] k c
    unfolding UsageSet_ClearUsage.simps UsageSelector_ClearUsage_def EachUint8_n b'_def
    by (auto simp: vs_def wid)
  show ?thesis
  proof (cases "w \<in> set vs")
    case False
    then have "u \<notin> active_of (UsageSet_HasUsage (sel8 p mn mx)) b"
      using uw by (auto simp: sel8_active [OF i] vs_def)
    with run i False show ?thesis by auto
  next
    case True
    have b': "bytes b' = remove1 w vs @ replicate (Suc k) 0" "0 \<notin> set (remove1 w vs)"
      using k(3) by (auto simp: b'_def vs_def dest: set_remove1_subset [THEN subsetD])
    have "n = length (remove1 w vs) + Suc k"
      using k(2) True length_pos_if_in_set [OF True] by (simp add: length_remove1 vs_def)
    then have inv: "sel8_inv mn mx n b'"
      using b' bounds by (metis distinct_remove1 notin_set_remove1 sel8_invI)
    have "sel8_keys b' = remove1 w vs" using b' by (rule sel8_keys_app [rotated])
    then have "active_of (UsageSet_HasUsage (sel8 p mn mx)) b' =
        active_of (UsageSet_HasUsage (sel8 p mn mx)) b - {u}"
      using uw bounds(3) by (auto simp: sel8_active [OF inv] sel8_active [OF i] vs_def)
    with run inv True show ?thesis by auto
  qed
qed

interpretation selector8: usage_set "UsageSet_Contains (Selector (NewUsageSelector 8 p mn mx))"
  "UsageSet_HasUsage (Selector (NewUsageSelector 8 p mn mx))"
  "UsageSet_SetUsage (Selector (NewUsageSelector 8 p mn mx))"
  "UsageSet_ClearUsage (Selector (NewUsageSelector 8 p mn mx))"
  "UsageSet_Usages (Selector (NewUsageSelector 8 p mn mx))" "sel8_inv mn mx n" n
proof unfold_locales
  fix b u assume i: "sel8_inv mn mx n b"
  show "\<exists>x. UsageSet_HasUsage (sel8 p mn mx) b u = Some x"
    using sel8_has sel8_has_not by blast
  show "UsageSet_HasUsage (sel8 p mn mx) b u = Some True \<Longrightarrow> UsageSet_Contains (sel8 p mn mx) u"
    using sel8_has_not [of p mn mx u b] by (cases "UsageSelector_Contains (NewUsageSelector 8 p mn mx) u") simp_all
  show "\<exists>us. UsageSet_Usages (sel8 p mn mx) b = Some us
      \<and> set us = active_of (UsageSet_HasUsage (sel8 p mn mx)) b"
    unfolding sel8_usages sel8_active [OF i] set_bytes_keys [OF i, symmetric] by auto
  show "card (active_of (UsageSet_HasUsage (sel8 p mn mx)) b) \<le> n"
    using sel8_card [OF i] sel8_shape [OF i] by (metis le_add1)
qed (simp_all add: sel8_set sel8_clear del: UsageSet_HasUsage.simps UsageSet_SetUsage.simps UsageSet_ClearUsage.simps)

end
