(* ===== verification/Signed.thy ===== *)
theory Signed
  imports Prelude
begin

section \<open>Signed integers in fewer bits\<close>

text \<open>
  When a 32-bit value fits in fewer bits: a characterisation by its upper bits (\<open>sign_from\<close>) and by
  its range, and the conversions to 8 and 16 bits and back. Used by the descriptor codec and by the
  usage values.
\<close>

text \<open>All bits from \<open>m\<close> on are the sign: the value fits in \<open>m + 1\<close> bits.\<close>

definition sign_from :: "nat \<Rightarrow> i32 \<Rightarrow> bool" where
  "sign_from m v \<longleftrightarrow> (\<forall>n. m \<le> n \<and> n < 32 \<longrightarrow> bit v n = bit v 31)"

lemma bit_sint_i32: "bit (sint v) n \<longleftrightarrow> bit v (min n 31)" for v :: i32
  unfolding bit_sint_iff by (auto simp: min_def dest: bit_imp_le_length)

lemma bit_signed_take_i32:
  fixes v :: i32
  assumes "m \<le> 31"
  shows "bit (signed_take_bit m (sint v)) n \<longleftrightarrow> bit v (min m n)"
proof -
  have "min (min m n) 31 = min m n" using assms by linarith
  then show ?thesis by (simp only: bit_signed_take_bit_iff bit_sint_i32 possible_bit_def) simp
qed

lemma sign_from_range:
  assumes "m \<le> 31"
  shows "sign_from m v \<longleftrightarrow> - (2 ^ m) \<le> sint v \<and> sint v < 2 ^ m"
proof -
  have "sign_from m v \<longleftrightarrow> (\<forall>n. bit v (min m n) = bit v (min n 31))"
  proof
    assume s: "sign_from m v"
    show "\<forall>n. bit v (min m n) = bit v (min n 31)"
    proof
      fix n
      show "bit v (min m n) = bit v (min n 31)"
      proof (cases "m \<le> n")
        case True
        then have "m \<le> min n 31 \<and> min n 31 < 32" "m \<le> m \<and> m < 32" using assms by auto
        then have "bit v m = bit v 31" "bit v (min n 31) = bit v 31"
          using s unfolding sign_from_def by blast+
        moreover have "min m n = m" using True by simp
        ultimately show ?thesis by metis
      next
        case False
        then show ?thesis using assms by (simp add: min_def)
      qed
    qed
  next
    assume s: "\<forall>n. bit v (min m n) = bit v (min n 31)"
    show "sign_from m v"
      unfolding sign_from_def
    proof (intro allI impI)
      fix n :: nat assume n: "m \<le> n \<and> n < 32"
      then have mins: "min m n = m" "min n 31 = n" "min m 31 = m" "min 31 31 = (31 :: nat)"
        using assms by auto
      have "bit v m = bit v n" "bit v m = bit v 31"
        using s [rule_format, of n] s [rule_format, of 31] unfolding mins by blast+
      then show "bit v n = bit v 31" by simp
    qed
  qed
  also have "\<dots> \<longleftrightarrow> signed_take_bit m (sint v) = sint v"
    using assms by (auto simp: bit_eq_iff bit_signed_take_i32 bit_sint_i32)
  finally have "sign_from m v \<longleftrightarrow> signed_take_bit m (sint v) = sint v" .
  then show ?thesis by (simp add: signed_take_bit_int_eq_self_iff)
qed

lemma min_bits_iff:
  fixes v :: i32
  assumes "m \<le> 31"
  shows "(\<forall>n < 32. bit v (min n m) = bit v n) \<longleftrightarrow>
    (\<forall>n. m \<le> n \<and> n < 32 \<longrightarrow> bit v n = bit v 31)"
proof
  assume l: "\<forall>n < 32. bit v (min n m) = bit v n"
  show "\<forall>n. m \<le> n \<and> n < 32 \<longrightarrow> bit v n = bit v 31"
  proof (intro allI impI)
    fix n :: nat assume n: "m \<le> n \<and> n < 32"
    have "min n m = m" "min 31 m = m" using n assms by auto
    then show "bit v n = bit v 31" using l [rule_format, of n] l [rule_format, of 31] n by simp
  qed
next
  assume r: "\<forall>n. m \<le> n \<and> n < 32 \<longrightarrow> bit v n = bit v 31"
  show "\<forall>n < 32. bit v (min n m) = bit v n"
  proof (intro allI impI)
    fix n :: nat assume n: "n < 32"
    show "bit v (min n m) = bit v n"
    proof (cases "n \<le> m")
      case True
      then show ?thesis by (simp add: min_def)
    next
      case False
      then have "min n m = m" by simp
      then show ?thesis using r [rule_format, of n] r [rule_format, of m] n False assms by simp
    qed
  qed
qed

lemma scast_ucast_u8: "scast (ucast v :: u8) = v \<longleftrightarrow> sign_from 7 v" for v :: i32
proof -
  have "bit (scast (ucast v :: u8) :: i32) n \<longleftrightarrow> bit v (min n 7)" if "n < 32" for n
    using that by (auto simp: bit_simps min_def)
  then have "scast (ucast v :: u8) = v \<longleftrightarrow> (\<forall>n < 32. bit v (min n 7) = bit v n)"
    by (auto simp: bit_eq_iff)
  also have "\<dots> \<longleftrightarrow> sign_from 7 v"
    unfolding sign_from_def by (rule min_bits_iff) simp
  finally show ?thesis .
qed

lemma scast_ucast_u16: "scast (ucast v :: u16) = v \<longleftrightarrow> sign_from 15 v" for v :: i32
proof -
  have "bit (scast (ucast v :: u16) :: i32) n \<longleftrightarrow> bit v (min n 15)" if "n < 32" for n
    using that by (auto simp: bit_simps min_def)
  then have "scast (ucast v :: u16) = v \<longleftrightarrow> (\<forall>n < 32. bit v (min n 15) = bit v n)"
    by (auto simp: bit_eq_iff)
  also have "\<dots> \<longleftrightarrow> sign_from 15 v"
    unfolding sign_from_def by (rule min_bits_iff) simp
  finally show ?thesis .
qed

end
