(* ===== verification/UsageValueItems.thy ===== *)
theory UsageValueItems
  imports UsageSetLaws Signed
begin

section \<open>Usage values (hidapi/usage_values.go)\<close>

text \<open>
  A data item whose usages carry integers: one element of the report field per usage, at the index
  of the usage. \<open>GetValue\<close> and \<open>SetValue\<close> support fields of 7, 8, 16, 24 and 32 bits. \<open>None\<close> is an
  index out of range. The laws of reading and writing are a locale, interpreted for the three sizes
  that \<open>SetUint\<close> and \<open>Uint\<close> treat exactly.
\<close>

record UsageValues =
  val_usages :: "Usage list"
  val_usageIndex :: "Usage \<rightharpoonup> nat"
  val_size :: u32
  val_minimum :: i32
  val_maximum :: i32

definition NewUsageValues :: "Usage list \<Rightarrow> u32 \<Rightarrow> i32 \<Rightarrow> i32 \<Rightarrow> UsageValues" where
  "NewUsageValues us sz mn mx =
     \<lparr>val_usages = us, val_usageIndex = index_ids us 0 Map.empty, val_size = sz,
      val_minimum = mn, val_maximum = mx\<rparr>"

definition UsageValues_Contains :: "UsageValues \<Rightarrow> Usage \<Rightarrow> bool" where
  "UsageValues_Contains u usg \<longleftrightarrow> val_usageIndex u usg \<noteq> None"

definition UsageValues_GetValue :: "UsageValues \<Rightarrow> Bits \<Rightarrow> Usage \<Rightarrow> i32 option" where
  "UsageValues_GetValue u b usg =
     (case val_usageIndex u usg of
        None \<Rightarrow> Some 0
      | Some i \<Rightarrow>
          if val_size u = 7 then map_option scast (Bits_Uint7 b i)
          else if val_size u = 8 then map_option scast (Bits_Uint8 b i)
          else if val_size u = 16 then map_option scast (Bits_Uint16 b i)
          else if val_size u = 24 then map_option scast (Bits_Uint24 b i)
          else if val_size u = 32 then Bits_Uint32 b i
          else Some 0)"

definition UsageValues_SetValue :: "UsageValues \<Rightarrow> Bits \<Rightarrow> Usage \<Rightarrow> i32 \<Rightarrow> Bits option" where
  "UsageValues_SetValue u b usg v =
     (case val_usageIndex u usg of
        None \<Rightarrow> Some b
      | Some i \<Rightarrow>
          if val_size u = 7 then Bits_SetUint7 b i (ucast v)
          else if val_size u = 8 then Bits_SetUint8 b i (ucast v)
          else if val_size u = 16 then Bits_SetUint16 b i (ucast v)
          else if val_size u = 24 then Bits_SetUint24 b i (ucast v)
          else if val_size u = 32 then Bits_SetUint32 b i v
          else Some b)"

text \<open>The data items that \<open>NewUsageValuesItems\<close> keeps.\<close>

definition usage_values_of :: "DataItem \<Rightarrow> UsageValues option" where
  "usage_values_of item =
     (if length (UsageIDs item) = 0 \<or> \<not> IsVariable (Flags item) then None
      else if ReportSize item \<in> {7, 8, 16, 24, 32} then
        Some (NewUsageValues (map (NewUsage (UsagePage item)) (UsageIDs item)) (ReportSize item)
          (LogicalMinimum item) (LogicalMaximum item))
      else None)"

primrec usage_values_loop :: "DataItem list \<Rightarrow> nat \<Rightarrow> (nat \<rightharpoonup> UsageValues) \<Rightarrow> nat \<rightharpoonup> UsageValues" where
  "usage_values_loop [] i values = values"
| "usage_values_loop (item # items) i values =
     usage_values_loop items (Suc i)
       (case usage_values_of item of None \<Rightarrow> values | Some u \<Rightarrow> values(i \<mapsto> u))"

definition NewUsageValuesItems :: "DataItem list \<Rightarrow> nat \<rightharpoonup> UsageValues" where
  "NewUsageValuesItems dataItems = usage_values_loop dataItems 0 Map.empty"

lemma usage_values_loop_eq:
  "usage_values_loop items i m j =
     (if i \<le> j \<and> j < i + length items \<and> usage_values_of (items ! (j - i)) \<noteq> None
      then usage_values_of (items ! (j - i)) else m j)"
  by (induction items arbitrary: i m) (auto split: option.splits simp: nth_Cons' Suc_le_eq)

lemma NewUsageValuesItems_eq:
  "NewUsageValuesItems items j = (if j < length items then usage_values_of (items ! j) else None)"
  by (simp add: NewUsageValuesItems_def usage_values_loop_eq)

subsection \<open>Elements of a field\<close>

text \<open>Elements of \<open>k\<close> bytes, as \<open>Uint8\<close>, \<open>Uint16\<close> and \<open>Uint32\<close> address them.\<close>

lemma put_at_in:
  assumes "a + length data \<le> length (bytes b)" "e = a + length data"
  shows "put_at b a e data = Some (b\<lparr>bytes := take a (bytes b) @ data @ drop (a + length data) (bytes b)\<rparr>)"
  using assms by (simp add: put_at_def subslice_def)

lemma window_put:
  assumes "a + length data \<le> length xs"
  shows "take (length data) (drop a (take a xs @ data @ drop (a + length data) xs)) = data"
  using assms by simp

lemma window_put_other:
  assumes "a + length data \<le> length xs" "c + m \<le> a \<or> a + length data \<le> c" "c + m \<le> length xs"
  shows "take m (drop c (take a xs @ data @ drop (a + length data) xs)) = take m (drop c xs)"
proof (rule nth_equalityI)
  show "length (take m (drop c (take a xs @ data @ drop (a + length data) xs))) = length (take m (drop c xs))"
    using assms(2) by (elim disjE) (use assms(1,3) in simp_all)
  fix i assume "i < length (take m (drop c (take a xs @ data @ drop (a + length data) xs)))"
  then have "i < m" "c + i < a \<or> a + length data \<le> c + i" "c + i < length xs"
    using assms by auto
  then show "take m (drop c (take a xs @ data @ drop (a + length data) xs)) ! i = take m (drop c xs) ! i"
    using assms by (auto simp: nth_append)
qed

lemma Uint16_window: "(i + 1) * 2 \<le> length (bytes b) \<Longrightarrow>
    Bits_Uint16 b i = Some (let w = take 2 (drop (i * 2) (bytes b)) in le_uint16 (w ! 0) (w ! 1))"
  by (simp add: Bits_Uint16_def subslice_def Let_def)

lemma Uint32_window: "(i + 1) * 4 \<le> length (bytes b) \<Longrightarrow>
    Bits_Uint32 b i = Some (let w = take 4 (drop (i * 4) (bytes b))
      in le_uint32 (w ! 0) (w ! 1) (w ! 2) (w ! 3))"
  by (simp add: Bits_Uint32_def subslice_def Let_def)

lemma Uint16_out: "length (bytes b) < (i + 1) * 2 \<Longrightarrow> Bits_Uint16 b i = None"
  by (simp add: Bits_Uint16_def subslice_def)

lemma Uint32_out: "length (bytes b) < (i + 1) * 4 \<Longrightarrow> Bits_Uint32 b i = None"
  by (simp add: Bits_Uint32_def subslice_def)

lemma put_uint_length [simp]: "length (put_uint16 v) = 2" "length (put_uint32 w) = 4"
  by (simp_all add: put_uint16_def put_uint32_def)

lemma SetUint8_laws:
  assumes "i < length (bytes b)"
  shows "\<exists>b'. Bits_SetUint8 b i v = Some b' \<and> missingBits b' = missingBits b
    \<and> length (bytes b') = length (bytes b)
    \<and> (\<forall>j. Bits_Uint8 b' j = (if j = i then Some v else Bits_Uint8 b j))"
  using assms by (auto simp: Bits_SetUint8_def store_def Bits_Uint8_def index_def)

lemma SetUint16_laws:
  assumes i: "(i + 1) * 2 \<le> length (bytes b)"
  shows "\<exists>b'. Bits_SetUint16 b i v = Some b' \<and> missingBits b' = missingBits b
    \<and> length (bytes b') = length (bytes b)
    \<and> (\<forall>j. Bits_Uint16 b' j = (if j = i then Some v else Bits_Uint16 b j))"
proof -
  let ?d = "put_uint16 v"
  let ?b = "b\<lparr>bytes := take (i * 2) (bytes b) @ ?d @ drop (i * 2 + length ?d) (bytes b)\<rparr>"
  have room: "i * 2 + length ?d \<le> length (bytes b)" using i by simp
  then have run: "Bits_SetUint16 b i v = Some ?b"
    unfolding Bits_SetUint16_def by (intro put_at_in) simp_all
  have len: "length (bytes ?b) = length (bytes b)" using i by simp
  have "Bits_Uint16 ?b j = (if j = i then Some v else Bits_Uint16 b j)" for j
  proof (cases "(j + 1) * 2 \<le> length (bytes b)")
    case True
    show ?thesis
    proof (cases "j = i")
      case True
      then show ?thesis
        using i len window_put [OF room] by (simp add: Uint16_window put_uint16_def)
    next
      case False
      then have "j * 2 + 2 \<le> i * 2 \<or> i * 2 + length ?d \<le> j * 2" by auto
      from window_put_other [OF room this] True False show ?thesis
        using len by (simp add: Uint16_window)
    qed
  next
    case False
    then show ?thesis using i len by (auto simp: Uint16_out not_le)
  qed
  with run len show ?thesis by auto
qed

lemma SetUint32_laws:
  assumes i: "(i + 1) * 4 \<le> length (bytes b)"
  shows "\<exists>b'. Bits_SetUint32 b i v = Some b' \<and> missingBits b' = missingBits b
    \<and> length (bytes b') = length (bytes b)
    \<and> (\<forall>j. Bits_Uint32 b' j = (if j = i then Some v else Bits_Uint32 b j))"
proof -
  let ?d = "put_uint32 v"
  let ?b = "b\<lparr>bytes := take (i * 4) (bytes b) @ ?d @ drop (i * 4 + length ?d) (bytes b)\<rparr>"
  have room: "i * 4 + length ?d \<le> length (bytes b)" using i by simp
  then have run: "Bits_SetUint32 b i v = Some ?b"
    unfolding Bits_SetUint32_def by (intro put_at_in) simp_all
  have len: "length (bytes ?b) = length (bytes b)" using i by simp
  have same: "le_uint32 (?d ! 0) (?d ! 1) (?d ! 2) (?d ! 3) = v"
    using le_uint32_put [of v] by (simp add: put_uint32_def numeral_2_eq_2 numeral_3_eq_3)
  have "Bits_Uint32 ?b j = (if j = i then Some v else Bits_Uint32 b j)" for j
  proof (cases "(j + 1) * 4 \<le> length (bytes b)")
    case True
    show ?thesis
    proof (cases "j = i")
      case True
      then show ?thesis
        using i len window_put [OF room] same by (simp add: Uint32_window)
    next
      case False
      then have "j * 4 + 4 \<le> i * 4 \<or> i * 4 + length ?d \<le> j * 4" by auto
      from window_put_other [OF room this] True False show ?thesis
        using len by (simp add: Uint32_window)
    qed
  next
    case False
    then show ?thesis using i len by (auto simp: Uint32_out not_le)
  qed
  with run len show ?thesis by auto
qed

subsection \<open>The contract of a value field\<close>

primrec put_values :: "('b \<Rightarrow> Usage \<Rightarrow> i32 \<Rightarrow> 'b option) \<Rightarrow> (Usage \<times> i32) list \<Rightarrow> 'b \<Rightarrow> 'b option" where
  "put_values put [] b = Some b"
| "put_values put (x # xs) b =
     (case put b (fst x) (snd x) of None \<Rightarrow> None | Some b' \<Rightarrow> put_values put xs b')"

locale value_field =
  fixes get :: "'b \<Rightarrow> Usage \<Rightarrow> i32 option"
    and put :: "'b \<Rightarrow> Usage \<Rightarrow> i32 \<Rightarrow> 'b option"
    and usages :: "Usage set"
    and inv :: "'b \<Rightarrow> bool"
    and narrow :: "i32 \<Rightarrow> i32"
  assumes get_total: "inv b \<Longrightarrow> u \<in> usages \<Longrightarrow> \<exists>v. get b u = Some v"
    and put_get: "inv b \<Longrightarrow> u \<in> usages \<Longrightarrow> \<exists>b'. put b u v = Some b' \<and> inv b'
      \<and> (\<forall>w. get b' w = (if w = u then Some (narrow v) else get b w))"
begin

text \<open>After a list of writes every usage holds its last value.\<close>

lemma put_values_last:
  assumes "inv b" "fst ` set xs \<subseteq> usages"
  shows "\<exists>b'. put_values put xs b = Some b' \<and> inv b'
    \<and> (\<forall>w. get b' w = (case map_of (rev xs) w of Some v \<Rightarrow> Some (narrow v) | None \<Rightarrow> get b w))"
  using assms
proof (induction xs arbitrary: b)
  case (Cons x xs)
  obtain b1 where b1: "put b (fst x) (snd x) = Some b1" "inv b1"
    "\<forall>w. get b1 w = (if w = fst x then Some (narrow (snd x)) else get b w)"
    using put_get [of b "fst x" "snd x"] Cons.prems by auto
  obtain b' where "put_values put xs b1 = Some b'" "inv b'"
    "\<forall>w. get b' w = (case map_of (rev xs) w of Some v \<Rightarrow> Some (narrow v) | None \<Rightarrow> get b1 w)"
    using Cons.IH [OF b1(2)] Cons.prems by auto
  with b1 show ?case
    by (cases x) (auto simp: map_add_def split: option.splits)
qed simp

end

subsection \<open>Fields of 8, 16 and 32 bits\<close>

definition values_inv :: "Usage list \<Rightarrow> u32 \<Rightarrow> Bits \<Rightarrow> bool" where
  "values_inv us sz b \<longleftrightarrow> distinct us \<and> sz \<in> {8, 16, 32}
     \<and> length us * (unat sz div 8) \<le> length (bytes b)"

definition narrow_value :: "u32 \<Rightarrow> i32 \<Rightarrow> i32" where
  "narrow_value sz v = (if sz = 8 then scast (ucast v :: u8) else if sz = 16 then scast (ucast v :: u16) else v)"

lemma narrow_value_id:
  assumes "sz \<in> {8, 16, 32}" "- (2 ^ (unat sz - 1)) \<le> sint v" "sint v < 2 ^ (unat sz - 1)"
  shows "narrow_value sz v = v"
  using assms by (auto simp: narrow_value_def scast_ucast_u8 scast_ucast_u16 sign_from_range)

lemma element_in: "i < n \<Longrightarrow> n * k \<le> l \<Longrightarrow> (i + 1) * k \<le> l" for i n k l :: nat
  by (metis Suc_eq_plus1 Suc_leI le_trans mult_le_mono1)

lemma values_element:
  assumes "values_inv us sz b" "i < length us"
  shows "sz = 8 \<Longrightarrow> i < length (bytes b)" "sz = 16 \<Longrightarrow> (i + 1) * 2 \<le> length (bytes b)"
    "sz = 32 \<Longrightarrow> (i + 1) * 4 \<le> length (bytes b)"
  using assms element_in [of i "length us" "unat sz div 8" "length (bytes b)"]
  by (auto simp: values_inv_def)

interpretation usage_values: value_field
  "UsageValues_GetValue (NewUsageValues us sz mn mx)" "UsageValues_SetValue (NewUsageValues us sz mn mx)"
  "set us" "values_inv us sz" "narrow_value sz"
proof unfold_locales
  let ?u = "NewUsageValues us sz mn mx"
  fix b u assume inv: "values_inv us sz b" and u: "u \<in> set us"
  then have d: "distinct us" and sz: "sz = 8 \<or> sz = 16 \<or> sz = 32" by (auto simp: values_inv_def)
  obtain i where i: "i < length us" "us ! i = u" "val_usageIndex ?u u = Some i"
    using flag_index [OF d u] by (auto simp: NewUsageValues_def)
  have size: "val_size ?u = sz" by (simp add: NewUsageValues_def)
  note el = values_element [OF inv i(1)]
  show "\<exists>v. UsageValues_GetValue ?u b u = Some v"
    using sz i(3) size el
    by (auto simp: UsageValues_GetValue_def Bits_Uint8_def index_def Uint16_window Uint32_window)
  fix v
  have other: "val_usageIndex ?u w \<noteq> Some i" if "w \<noteq> u" for w
    using that i(1,2) index_ids_distinct [OF d, of 0 Map.empty w i]
    by (auto simp: NewUsageValues_def split: if_splits)
  have "\<exists>b'. UsageValues_SetValue ?u b u v = Some b' \<and> length (bytes b') = length (bytes b)
      \<and> (\<forall>w. UsageValues_GetValue ?u b' w =
          (if w = u then Some (narrow_value sz v) else UsageValues_GetValue ?u b w))"
    using sz
  proof (elim disjE)
    assume s: "sz = 8"
    from SetUint8_laws [OF el(1) [OF s], of "ucast v"] show ?thesis
      using i(3) size s other
      by (fastforce simp: UsageValues_SetValue_def UsageValues_GetValue_def narrow_value_def split: option.splits)
  next
    assume s: "sz = 16"
    from SetUint16_laws [OF el(2) [OF s], of "ucast v"] show ?thesis
      using i(3) size s other
      by (fastforce simp: UsageValues_SetValue_def UsageValues_GetValue_def narrow_value_def split: option.splits)
  next
    assume s: "sz = 32"
    from SetUint32_laws [OF el(3) [OF s], of v] show ?thesis
      using i(3) size s other
      by (fastforce simp: UsageValues_SetValue_def UsageValues_GetValue_def narrow_value_def split: option.splits)
  qed
  then show "\<exists>b'. UsageValues_SetValue ?u b u v = Some b' \<and> values_inv us sz b'
      \<and> (\<forall>w. UsageValues_GetValue ?u b' w =
          (if w = u then Some (narrow_value sz v) else UsageValues_GetValue ?u b w))"
    using inv by (auto simp: values_inv_def)
qed

end
