(* ===== verification/ReportStates.thy ===== *)
theory ReportStates
  imports Reports UsageValueItems HidEvent
begin

section \<open>Report state (hidapi/state.go)\<close>

text \<open>
  \<open>ReportState\<close>: the last report of each report ID and the index from usages to fields. \<open>ApplyReport\<close>
  turns a received report into an event, \<open>ApplyEvent\<close> turns an event into reports. \<open>None\<close> is a
  panic. What the code takes from its surroundings is in \<open>Env\<close>: the order in which Go ranges over a
  map, \<open>slices.SortFunc\<close> (which does not fix the order of equal elements) and the clock, whose next
  reading is \<open>tick\<close> of the current time; the time is part of the state. The lock makes single steps
  atomic and logging has no effect on the state, so neither is modelled. One message does more: the
  usages of a flag map are formatted for it, which panics on a page that has a name but no usages
  (theory UsagePageFacts); the model is of devices whose flag maps are on other pages.
\<close>

subsection \<open>State\<close>

type_synonym itemAddress = "u8 \<times> nat"

record usageRange =
  rng_start :: u16
  rng_end :: u16
  rng_addr :: itemAddress
  rng_dataItem :: DataItem

definition usageRange_Contains :: "usageRange \<Rightarrow> u16 \<Rightarrow> bool" where
  "usageRange_Contains u usageID \<longleftrightarrow> usageID \<ge> rng_start u \<and> usageID \<le> rng_end u"

record ReportState =
  rs_dataItems :: DataItemSet
  rs_usageSets :: "u8 \<rightharpoonup> (nat \<rightharpoonup> UsageSet)"
  rs_usageValues :: "u8 \<rightharpoonup> (nat \<rightharpoonup> UsageValues)"
  rs_usageSetRanges :: "u16 \<rightharpoonup> usageRange list"
  rs_usageSetMap :: "u16 \<rightharpoonup> (u16 \<rightharpoonup> itemAddress)"
  rs_usageValuesIndex :: "Usage \<rightharpoonup> itemAddress"
  rs_reports :: "u8 \<rightharpoonup> Report"
  rs_usageActivations :: "u8 \<rightharpoonup> (Usage \<rightharpoonup> int)"
  rs_lastActivation :: int
  rs_activationMinInterval :: int
  rs_now :: int

record Env =
  env_set_order :: "u8 \<Rightarrow> nat list"
  env_value_order :: "u8 \<Rightarrow> nat list"
  env_sort :: "usageRange list \<Rightarrow> usageRange list"
  env_tick :: "int \<Rightarrow> int"

text \<open>Reading a nested Go map: the zero value where a key is absent.\<close>

definition nested :: "('k \<rightharpoonup> ('l \<rightharpoonup> 'v)) \<Rightarrow> 'k \<Rightarrow> 'l \<rightharpoonup> 'v" where
  "nested m k = (case m k of None \<Rightarrow> Map.empty | Some m' \<Rightarrow> m')"

definition sets_at :: "ReportState \<Rightarrow> u8 \<Rightarrow> nat \<rightharpoonup> UsageSet" where
  "sets_at r = nested (rs_usageSets r)"

definition values_at :: "ReportState \<Rightarrow> u8 \<Rightarrow> nat \<rightharpoonup> UsageValues" where
  "values_at r = nested (rs_usageValues r)"

definition emptyReport :: Report where
  "emptyReport = \<lparr>report_ID = 0, report_Fields = []\<rparr>"

definition report_at :: "ReportState \<Rightarrow> u8 \<Rightarrow> Report" where
  "report_at r i = (case rs_reports r i of None \<Rightarrow> emptyReport | Some rep \<Rightarrow> rep)"

subsection \<open>Initial state\<close>

text \<open>\<open>500 * time.Microsecond\<close>, in nanoseconds.\<close>

definition defaultMinInterval :: int where
  "defaultMinInterval = 500 * 1000"

text \<open>The size is the product of two \<open>uint32\<close> before the conversion.\<close>

definition initial_report :: "DataItemSetReport \<Rightarrow> Report" where
  "initial_report rd =
     \<lparr>report_ID = set_report_ID rd,
      report_Fields = map (\<lambda>item. Bits_NewZeros (unat (ReportCount item * ReportSize item)))
        (set_report_DataItems rd)\<rparr>"

definition init_set :: "DataItemSetReport \<Rightarrow> nat \<Rightarrow> ReportState \<Rightarrow> ReportState option" where
  "init_set rd idx r =
     (case sets_at r (set_report_ID rd) idx of
        None \<Rightarrow> Some r
      | Some (FlagMap u) \<Rightarrow>
          let page = flag_usagePage u;
              m = fold (\<lambda>usageID m. m(usageID \<mapsto> (set_report_ID rd, idx))) (flag_usageIDs u)
                    (nested (rs_usageSetMap r) page)
          in Some (r\<lparr>rs_usageSetMap := (rs_usageSetMap r)(page \<mapsto> m)\<rparr>)
      | Some us \<Rightarrow>
          (case index (set_report_DataItems rd) idx of
             None \<Rightarrow> None
           | Some item \<Rightarrow>
               let page = UsageSet_UsagePage us;
                   (mn, mx) = (case us of
                       RangeFlags u \<Rightarrow> (range_minimum u, range_maximum u)
                     | Selector u \<Rightarrow> (sel_minimum u, sel_maximum u)
                     | FlagMap u \<Rightarrow> (0, 0));
                   rang = \<lparr>rng_start = mn, rng_end = mx, rng_addr = (set_report_ID rd, idx),
                           rng_dataItem = item\<rparr>;
                   ranges = (case rs_usageSetRanges r page of None \<Rightarrow> [] | Some l \<Rightarrow> l)
               in Some (r\<lparr>rs_usageSetRanges := (rs_usageSetRanges r)(page \<mapsto> ranges @ [rang])\<rparr>)))"

definition init_value :: "u8 \<Rightarrow> nat \<Rightarrow> ReportState \<Rightarrow> ReportState" where
  "init_value i idx r =
     (case values_at r i idx of
        None \<Rightarrow> r
      | Some u \<Rightarrow>
          r\<lparr>rs_usageValuesIndex :=
              fold (\<lambda>usg m. m(usg \<mapsto> (i, idx))) (val_usages u) (rs_usageValuesIndex r)\<rparr>)"

definition init_report :: "Env \<Rightarrow> ReportState \<Rightarrow> DataItemSetReport \<Rightarrow> ReportState option" where
  "init_report env r rd =
     (let i = set_report_ID rd;
          r = r\<lparr>rs_reports := (rs_reports r)(i \<mapsto> initial_report rd)\<rparr>;
          r = r\<lparr>rs_usageSets := (rs_usageSets r)(i \<mapsto> NewUsageSets (set_report_DataItems rd))\<rparr>;
          r = r\<lparr>rs_usageValues := (rs_usageValues r)(i \<mapsto> NewUsageValuesItems (set_report_DataItems rd))\<rparr>
      in case fold_opt (\<lambda>r idx. init_set rd idx r) (env_set_order env i) r of
           None \<Rightarrow> None
         | Some r \<Rightarrow>
             let r = fold (init_value i) (env_value_order env i) r
             in Some (r\<lparr>rs_usageActivations := (rs_usageActivations r)(i \<mapsto> Map.empty)\<rparr>))"

definition initializeStates :: "Env \<Rightarrow> ReportState \<Rightarrow> ReportState option" where
  "initializeStates env r =
     (case fold_opt (init_report env) (DataItemSet_Reports (rs_dataItems r)) r of
        None \<Rightarrow> None
      | Some r \<Rightarrow>
          Some (r\<lparr>rs_usageSetRanges := (\<lambda>page. map_option (env_sort env) (rs_usageSetRanges r page))\<rparr>))"

definition NewReportState :: "Env \<Rightarrow> int \<Rightarrow> DataItemSet \<Rightarrow> ReportState option" where
  "NewReportState env now items =
     initializeStates env
       \<lparr>rs_dataItems = items, rs_usageSets = Map.empty, rs_usageValues = Map.empty,
        rs_usageSetRanges = Map.empty, rs_usageSetMap = Map.empty, rs_usageValuesIndex = Map.empty,
        rs_reports = Map.empty, rs_usageActivations = Map.empty, rs_lastActivation = 0,
        rs_activationMinInterval = defaultMinInterval, rs_now = now\<rparr>"

text \<open>The comparison handed to \<open>slices.SortFunc\<close>: by report size, then by start.\<close>

definition range_compare :: "usageRange \<Rightarrow> usageRange \<Rightarrow> int" where
  "range_compare a b =
     (if ReportSize (rng_dataItem a) < ReportSize (rng_dataItem b) then -1
      else if ReportSize (rng_dataItem a) > ReportSize (rng_dataItem b) then 1
      else if rng_start a < rng_start b then -1
      else if rng_start a > rng_start b then 1
      else 0)"

subsection \<open>Relative items\<close>

primrec strip_loop :: "DataItem list \<Rightarrow> nat \<Rightarrow> Bits list \<Rightarrow> Bits list option" where
  "strip_loop [] i flds = Some flds"
| "strip_loop (item # items) i flds =
     (if IsRelative (Flags item) then
        (case index flds i of
           None \<Rightarrow> None
         | Some b \<Rightarrow> strip_loop items (Suc i) (flds[i := snd (Bits_ClearAll b)]))
      else strip_loop items (Suc i) flds)"

definition stripRelativeValues :: "ReportState \<Rightarrow> Report \<Rightarrow> Report option" where
  "stripRelativeValues r report =
     map_option (\<lambda>flds. report\<lparr>report_Fields := flds\<rparr>)
       (strip_loop (DataItemSet_Report (rs_dataItems r) (report_ID report)) 0 (report_Fields report))"

subsection \<open>From a report to an event\<close>

text \<open>One usage of a value item.\<close>

definition value_event :: "bool \<Rightarrow> UsageValues \<Rightarrow> Bits \<Rightarrow> Bits \<Rightarrow> Event \<Rightarrow> Usage \<Rightarrow> Event option" where
  "value_event relative vals t0 t1 e usg =
     (if relative then
        if Bits_Equal t1 t0 then Some e
        else
          (case UsageValues_GetValue vals t0 usg of
             None \<Rightarrow> None
           | Some v0 \<Rightarrow>
               (case UsageValues_GetValue vals t1 usg of
                  None \<Rightarrow> None
                | Some v1 \<Rightarrow> if v0 = v1 then Some e else Event_SetDelta e usg (v1 - v0)))
      else
        (case UsageValues_GetValue vals t1 usg of
           None \<Rightarrow> None
         | Some v1 \<Rightarrow> Event_SetValue e usg v1))"

text \<open>One item of the loop in \<open>ApplyReport\<close>.\<close>

definition item_event :: "ReportState \<Rightarrow> u8 \<Rightarrow> nat \<Rightarrow> DataItem \<Rightarrow> Bits \<Rightarrow> Bits \<Rightarrow> Event \<Rightarrow> Event option" where
  "item_event r i idx item t0 t1 e =
     (case sets_at r i idx of
        Some us \<Rightarrow>
          if Bits_Equal t1 t0 then Some e
          else
            (case UsageSetDiff us t0 t1 of
               None \<Rightarrow> None
             | Some (activated, deactivated) \<Rightarrow>
                 (case Event_Activate e activated of
                    None \<Rightarrow> None
                  | Some e \<Rightarrow> Event_Deactivate e deactivated))
      | None \<Rightarrow>
          (case values_at r i idx of
             Some vals \<Rightarrow> fold_opt (value_event (IsRelative (Flags item)) vals t0 t1) (val_usages vals) e
           | None \<Rightarrow> Some e))"

primrec items_event ::
  "ReportState \<Rightarrow> u8 \<Rightarrow> DataItem list \<Rightarrow> nat \<Rightarrow> Bits list \<Rightarrow> Bits list \<Rightarrow> Event \<Rightarrow> Event option" where
  "items_event r i [] idx old new e = Some e"
| "items_event r i (item # items) idx old new e =
     (case index new idx of
        None \<Rightarrow> None
      | Some t1 \<Rightarrow>
          (case index old idx of
             None \<Rightarrow> None
           | Some t0 \<Rightarrow>
               (case item_event r i idx item t0 t1 e of
                  None \<Rightarrow> None
                | Some e \<Rightarrow> items_event r i items (Suc idx) old new e)))"

text \<open>The event is nil when the report cannot be decoded.\<close>

definition ApplyReport :: "Env \<Rightarrow> ReportState \<Rightarrow> u8 list \<Rightarrow> u8 list \<Rightarrow> (Event option \<times> ReportState) option" where
  "ApplyReport env r reportData spare =
     (case ReportDecoder_Decode (rs_dataItems r) reportData spare of
        None \<Rightarrow> None
      | Some None \<Rightarrow> Some (None, r)
      | Some (Some report) \<Rightarrow>
          let i = report_ID report;
              items = DataItemSet_Report (rs_dataItems r) i;
              now = env_tick env (rs_now r);
              r = r\<lparr>rs_now := now\<rparr>
          in if length (report_Fields report) \<noteq> length items then Some (Some (NewEvent now), r)
             else
               (case items_event r i items 0 (report_Fields (report_at r i)) (report_Fields report)
                       (NewEvent now) of
                  None \<Rightarrow> None
                | Some event \<Rightarrow>
                    map_option
                      (\<lambda>stripped. (Some event, r\<lparr>rs_reports := (rs_reports r)(i \<mapsto> stripped)\<rparr>))
                      (stripRelativeValues r report)))"

text \<open>\<open>reportGetter\<close> is the backend's: the bytes of a report, or an error.\<close>

primrec init_reports_loop ::
  "Env \<Rightarrow> (u8 \<Rightarrow> (u8 list \<times> u8 list) option) \<Rightarrow> DataItemSetReport list \<Rightarrow> Event list \<Rightarrow> ReportState \<Rightarrow>
   (Event list \<times> ReportState) option" where
  "init_reports_loop env get [] events r = Some (events, r)"
| "init_reports_loop env get (rd # rds) events r =
     (if length (set_report_DataItems rd) = 0 then init_reports_loop env get rds events r
      else
        (case get (set_report_ID rd) of
           None \<Rightarrow> init_reports_loop env get rds events r
         | Some (data, spare) \<Rightarrow>
             (case ApplyReport env r data spare of
                None \<Rightarrow> None
              | Some (event, r) \<Rightarrow>
                  init_reports_loop env get rds
                    (case event of
                       None \<Rightarrow> events
                     | Some e \<Rightarrow> if Event_IsEmpty (Some e) then events else events @ [e]) r)))"

definition InitReports ::
  "Env \<Rightarrow> (u8 \<Rightarrow> (u8 list \<times> u8 list) option) \<Rightarrow> ReportState \<Rightarrow> (Event list \<times> ReportState) option" where
  "InitReports env get r = init_reports_loop env get (DataItemSet_Reports (rs_dataItems r)) [] r"

definition GetReport :: "ReportState \<Rightarrow> u8 \<Rightarrow> (string, u8 list) outcome" where
  "GetReport r i =
     (case rs_reports r i of
        None \<Rightarrow> Fail ''report ID not found''
      | Some report \<Rightarrow> obind (of_panic (EncodeReport report)) (\<lambda>b. Ret (Bits_Bytes b)))"

subsection \<open>From an event to reports\<close>

definition getUsageSet :: "ReportState \<Rightarrow> Usage \<Rightarrow> usageRange option" where
  "getUsageSet r usg =
     find (\<lambda>rang. usageRange_Contains rang (Usage_ID usg))
       (case rs_usageSetRanges r (Usage_Page usg) of None \<Rightarrow> [] | Some l \<Rightarrow> l)"

text \<open>The first switch of the loop: \<open>None\<close> is \<open>continue\<close>.\<close>

definition usage_addr :: "ReportState \<Rightarrow> Usage \<Rightarrow> itemAddress option" where
  "usage_addr r usg =
     (case nested (rs_usageSetMap r) (Usage_Page usg) (Usage_ID usg) of
        Some a \<Rightarrow> Some a
      | None \<Rightarrow> map_option rng_addr (getUsageSet r usg))"

definition event_addr :: "ReportState \<Rightarrow> UsageEvent \<Rightarrow> itemAddress option" where
  "event_addr r e =
     (let usg = ue_Usage e in
      if ue_Activate e \<noteq> None then usage_addr r usg
      else if ue_Delta e \<noteq> None \<or> ue_Value e \<noteq> None then rs_usageValuesIndex r usg
      else None)"

text \<open>
  The reports being changed. In the code a copied report shares its fields with the stored one; the
  stored one is not read again before it is overwritten, so the copies stand for both.
\<close>

record Applying =
  ap_reports :: "Report list"
  ap_reportMap :: "u8 \<rightharpoonup> nat"

definition ap_getReport :: "ReportState \<Rightarrow> Applying \<Rightarrow> u8 \<Rightarrow> (nat \<times> Applying)" where
  "ap_getReport r ap i =
     (case ap_reportMap ap i of
        Some k \<Rightarrow> (k, ap)
      | None \<Rightarrow>
          let reports = ap_reports ap @ [report_at r i]
          in (length reports - 1,
              ap\<lparr>ap_reports := reports, ap_reportMap := (ap_reportMap ap)(i \<mapsto> length reports - 1)\<rparr>))"

text \<open>A write to one field of one of the reports.\<close>

definition on_field :: "nat \<Rightarrow> nat \<Rightarrow> (Bits \<Rightarrow> Bits option) \<Rightarrow> Applying \<Rightarrow> Applying option" where
  "on_field k idx f ap =
     (case index (ap_reports ap) k of
        None \<Rightarrow> None
      | Some rep \<Rightarrow>
          (case index (report_Fields rep) idx of
             None \<Rightarrow> None
           | Some b \<Rightarrow>
               map_option
                 (\<lambda>b'. ap\<lparr>ap_reports := (ap_reports ap)
                          [k := rep\<lparr>report_Fields := (report_Fields rep)[idx := b']\<rparr>]\<rparr>)
                 (f b)))"

definition set_field_usage :: "ReportState \<Rightarrow> itemAddress \<Rightarrow> bool \<Rightarrow> Usage \<Rightarrow> Bits \<Rightarrow> Bits option" where
  "set_field_usage r addr on usg b =
     (case sets_at r (fst addr) (snd addr) of
        None \<Rightarrow> None
      | Some us \<Rightarrow> map_option snd (if on then UsageSet_SetUsage us b usg else UsageSet_ClearUsage us b usg))"

definition add_field_value :: "ReportState \<Rightarrow> itemAddress \<Rightarrow> Usage \<Rightarrow> i32 \<Rightarrow> Bits \<Rightarrow> Bits option" where
  "add_field_value r addr usg delta b =
     (case values_at r (fst addr) (snd addr) of
        None \<Rightarrow> None
      | Some vals \<Rightarrow>
          (case UsageValues_GetValue vals b usg of
             None \<Rightarrow> None
           | Some current \<Rightarrow> UsageValues_SetValue vals b usg (current + delta)))"

definition set_field_value :: "ReportState \<Rightarrow> itemAddress \<Rightarrow> Usage \<Rightarrow> i32 \<Rightarrow> Bits \<Rightarrow> Bits option" where
  "set_field_value r addr usg v b =
     (case values_at r (fst addr) (snd addr) of
        None \<Rightarrow> None
      | Some vals \<Rightarrow> UsageValues_SetValue vals b usg v)"

text \<open>The rate limit: three readings of the clock, and a sleep where the last change is too recent.\<close>

definition rate_limit :: "Env \<Rightarrow> ReportState \<Rightarrow> ReportState" where
  "rate_limit env r =
     (let now = env_tick env (rs_now r);
          sinceLast = now - rs_lastActivation r;
          now = (if sinceLast < rs_activationMinInterval r
                 then now + (rs_activationMinInterval r - sinceLast) else now);
          now = env_tick env now
      in r\<lparr>rs_now := now, rs_lastActivation := now\<rparr>)"

definition count_at :: "ReportState \<Rightarrow> u8 \<Rightarrow> Usage \<Rightarrow> int" where
  "count_at r i usg = (case nested (rs_usageActivations r) i usg of None \<Rightarrow> 0 | Some n \<Rightarrow> n)"

text \<open>A write to the inner map panics when the report has none.\<close>

definition set_count :: "ReportState \<Rightarrow> u8 \<Rightarrow> Usage \<Rightarrow> int option \<Rightarrow> ReportState option" where
  "set_count r i usg n =
     (case rs_usageActivations r i of
        None \<Rightarrow> None
      | Some m \<Rightarrow> Some (r\<lparr>rs_usageActivations := (rs_usageActivations r)(i \<mapsto> m(usg := n))\<rparr>))"

definition activate_absolute ::
  "Env \<Rightarrow> itemAddress \<Rightarrow> nat \<Rightarrow> Usage \<Rightarrow> ReportState \<times> Applying \<Rightarrow> (ReportState \<times> Applying) option" where
  "activate_absolute env addr k usg st =
     (case st of (r, ap) \<Rightarrow>
        case set_count r (fst addr) usg (Some (count_at r (fst addr) usg + 1)) of
          None \<Rightarrow> None
        | Some r \<Rightarrow>
            if count_at r (fst addr) usg = 1 then
              map_option (\<lambda>ap. (rate_limit env r, ap)) (on_field k (snd addr) (set_field_usage r addr True usg) ap)
            else Some (r, ap))"

definition deactivate_absolute ::
  "Env \<Rightarrow> itemAddress \<Rightarrow> nat \<Rightarrow> Usage \<Rightarrow> ReportState \<times> Applying \<Rightarrow> (ReportState \<times> Applying) option" where
  "deactivate_absolute env addr k usg st =
     (case st of (r, ap) \<Rightarrow>
        case set_count r (fst addr) usg (Some (count_at r (fst addr) usg - 1)) of
          None \<Rightarrow> None
        | Some r \<Rightarrow>
            if count_at r (fst addr) usg \<le> 0 then
              (case on_field k (snd addr) (set_field_usage r addr False usg) ap of
                 None \<Rightarrow> None
               | Some ap \<Rightarrow> map_option (\<lambda>r. (rate_limit env r, ap)) (set_count r (fst addr) usg None))
            else Some (r, ap))"

definition apply_usage_event ::
  "Env \<Rightarrow> ReportState \<times> Applying \<Rightarrow> UsageEvent \<Rightarrow> (ReportState \<times> Applying) option" where
  "apply_usage_event env st e =
     (case st of (r, ap) \<Rightarrow>
        case event_addr r e of
          None \<Rightarrow> Some (r, ap)
        | Some addr \<Rightarrow>
            (case ap_getReport r ap (fst addr) of (k, ap) \<Rightarrow>
               case index (DataItemSet_Report (rs_dataItems r) (fst addr)) (snd addr) of
                 None \<Rightarrow> None
               | Some item \<Rightarrow>
                   let usg = ue_Usage e in
                   (case ue_Activate e of
                      Some on \<Rightarrow>
                        if IsRelative (Flags item) then
                          map_option (\<lambda>ap. (r, ap)) (on_field k (snd addr) (set_field_usage r addr on usg) ap)
                        else if on then activate_absolute env addr k usg (r, ap)
                        else deactivate_absolute env addr k usg (r, ap)
                    | None \<Rightarrow>
                        (case ue_Delta e of
                           Some d \<Rightarrow>
                             map_option (\<lambda>ap. (r, ap)) (on_field k (snd addr) (add_field_value r addr usg d) ap)
                         | None \<Rightarrow>
                             (case ue_Value e of
                                Some v \<Rightarrow>
                                  map_option (\<lambda>ap. (r, ap)) (on_field k (snd addr) (set_field_value r addr usg v) ap)
                              | None \<Rightarrow> Some (r, ap))))))"

text \<open>The last loop: store the report without its relative values, send it with them.\<close>

definition store_report :: "ReportState \<times> u8 list list \<Rightarrow> Report \<Rightarrow> (ReportState \<times> u8 list list) option" where
  "store_report st report =
     (case st of (r, encoded) \<Rightarrow>
        case stripRelativeValues r (Report_Clone report) of
          None \<Rightarrow> None
        | Some stripped \<Rightarrow>
            map_option
              (\<lambda>b. (r\<lparr>rs_reports := (rs_reports r)(report_ID report \<mapsto> stripped)\<rparr>, encoded @ [Bits_Bytes b]))
              (EncodeReport report))"

definition ApplyEvent :: "Env \<Rightarrow> ReportState \<Rightarrow> Event \<Rightarrow> (u8 list list \<times> ReportState) option" where
  "ApplyEvent env r e =
     (case fold_opt (apply_usage_event env) (Event_Usages e) (r, \<lparr>ap_reports = [], ap_reportMap = Map.empty\<rparr>) of
        None \<Rightarrow> None
      | Some (r, ap) \<Rightarrow> map_option prod.swap (fold_opt store_report (ap_reports ap) (r, [])))"

end
