(* ===== verification/ReportFacts.thy ===== *)
theory ReportFacts
  imports Reports
begin

section \<open>What a data item set holds and what the report codec preserves\<close>

text \<open>
  A data item set refines a list of typed data items (\<open>represents\<close>): every operation is described on
  that list. Then the decoder on the bytes of the encoder: bit by bit for all fields when one more
  byte follows, exactly for fields of whole bytes, and the panic on a last field that does not start
  at a byte.
\<close>

subsection \<open>Data item sets as lists of typed items\<close>

type_synonym typed_items = "(MainItemType \<times> DataItem) list"

definition of_report :: "u8 \<Rightarrow> typed_items \<Rightarrow> typed_items" where
  "of_report i xs = filter (\<lambda>x. ReportID (snd x) = i) xs"

text \<open>Report IDs in the order of their first item.\<close>

definition first_ids :: "typed_items \<Rightarrow> u8 list" where
  "first_ids xs = rev (remdups (rev (map (\<lambda>x. ReportID (snd x)) xs)))"

definition represents :: "DataItemSet \<Rightarrow> typed_items \<Rightarrow> bool" where
  "represents s xs \<longleftrightarrow>
     reportIDs s = first_ids xs
     \<and> (\<forall>i. dataItems s i = (if of_report i xs = [] then None else Some (map snd (of_report i xs))))
     \<and> (\<forall>i idx. types_of s i idx =
          (if idx < length (of_report i xs) then Some (fst (of_report i xs ! idx)) else None))"

lemma of_report_simps [simp]:
  "of_report i [] = []"
  "of_report i (xs @ ys) = of_report i xs @ of_report i ys"
  "of_report i [x] = (if ReportID (snd x) = i then [x] else [])"
  by (simp_all add: of_report_def)

lemma of_report_empty_iff: "of_report i xs = [] \<longleftrightarrow> i \<notin> set (first_ids xs)"
  by (auto simp: of_report_def first_ids_def filter_empty_conv)

lemma first_ids_snoc: "first_ids (xs @ [x]) =
    (if ReportID (snd x) \<in> set (first_ids xs) then first_ids xs else first_ids xs @ [ReportID (snd x)])"
  by (auto simp: first_ids_def)

lemma represents_empty: "represents emptyDataItemSet []"
  by (simp add: represents_def emptyDataItemSet_def first_ids_def types_of_def)

lemma represents_Report: "represents s xs \<Longrightarrow> DataItemSet_Report s i = map snd (of_report i xs)"
  by (auto simp: represents_def DataItemSet_Report_def)

lemma represents_Type: "represents s xs \<Longrightarrow> idx < length (of_report i xs) \<Longrightarrow>
    DataItemSet_Type s i idx = fst (of_report i xs ! idx)"
  by (simp add: represents_def DataItemSet_Type_def)

lemma represents_Add:
  assumes "represents s xs"
  shows "represents (DataItemSet_Add s t d) (xs @ [(t, d)])"
proof -
  let ?i = "ReportID d"
  have ids: "dataItems s ?i = None \<longleftrightarrow> ?i \<notin> set (first_ids xs)"
    using assms by (simp add: represents_def of_report_empty_iff)
  have rep: "DataItemSet_Report s i = map snd (of_report i xs)" for i
    using assms by (rule represents_Report)
  show ?thesis
  proof (cases "dataItems s ?i = None")
    case True
    then have none: "of_report ?i xs = []" using ids of_report_empty_iff by blast
    have ty: "types_of s i idx =
        (if idx < length (of_report i xs) then Some (fst (of_report i xs ! idx)) else None)" for i idx
      using assms by (simp add: represents_def)
    from True show ?thesis
      using assms ids none
      by (auto simp: represents_def DataItemSet_Add_def Let_def first_ids_snoc DataItemSet_Report_def
          types_of_def)
  next
    case False
    then obtain items where items: "dataItems s ?i = Some items" by blast
    have ty: "types_of s i idx =
        (if idx < length (of_report i xs) then Some (fst (of_report i xs ! idx)) else None)" for i idx
      using assms by (simp add: represents_def)
    have new: "types_of (DataItemSet_Add s t d) i =
        (if i = ?i then (types_of s i)(length (of_report i xs) \<mapsto> t) else types_of s i)" for i
      using items rep by (simp add: DataItemSet_Add_def Let_def types_of_def)
    have "types_of (DataItemSet_Add s t d) i idx =
        (if idx < length (of_report i (xs @ [(t, d)])) then Some (fst (of_report i (xs @ [(t, d)]) ! idx))
         else None)" for i idx
      using ty by (auto simp: new nth_append less_Suc_eq)
    moreover have "reportIDs (DataItemSet_Add s t d) = first_ids (xs @ [(t, d)])"
      using assms False ids by (simp add: DataItemSet_Add_def Let_def represents_def first_ids_snoc)
    moreover have "dataItems (DataItemSet_Add s t d) i =
        (if of_report i (xs @ [(t, d)]) = [] then None else Some (map snd (of_report i (xs @ [(t, d)]))))" for i
      using assms False rep by (auto simp: DataItemSet_Add_def Let_def represents_def)
    ultimately show ?thesis by (simp add: represents_def)
  qed
qed

text \<open>The typed items of a descriptor, in the order of the tree.\<close>

fun flat_collection :: "Collection \<Rightarrow> typed_items" and flat_items :: "MainItem list \<Rightarrow> typed_items" where
  "flat_collection (Collection t p u items) = flat_items items"
| "flat_items [] = []"
| "flat_items (MainItem t d c # items) =
     (case c of
        Some k \<Rightarrow> flat_collection k
      | None \<Rightarrow> (case d of Some i \<Rightarrow> [(t, i)] | None \<Rightarrow> [])) @ flat_items items"

definition flat :: "ReportDescriptor \<Rightarrow> typed_items" where
  "flat desc = concat (map flat_collection (Collections desc))"

text \<open>Every item holds data or a collection.\<close>

fun full_collection :: "Collection \<Rightarrow> bool" and full_items :: "MainItem list \<Rightarrow> bool" where
  "full_collection (Collection t p u items) \<longleftrightarrow> full_items items"
| "full_items [] \<longleftrightarrow> True"
| "full_items (MainItem t d c # items) \<longleftrightarrow>
     (case c of Some k \<Rightarrow> full_collection k | None \<Rightarrow> d \<noteq> None) \<and> full_items items"

lemma drill_represents:
  "full_collection k \<Longrightarrow> represents s xs \<Longrightarrow>
     \<exists>s'. drill k s = Some s' \<and> represents s' (xs @ flat_collection k)"
  "full_items items \<Longrightarrow> represents s xs \<Longrightarrow>
     \<exists>s'. drill_items items s = Some s' \<and> represents s' (xs @ flat_items items)"
proof (induction k and items arbitrary: s xs and s xs rule: full_collection_full_items.induct)
  case (3 t d c items)
  show ?case
  proof (cases c)
    case None
    with 3 obtain i where i: "d = Some i" "full_items items" by auto
    from 3(2) [OF i(2) represents_Add [OF 3(4)], of t i] None i(1) show ?thesis by simp
  next
    case (Some k)
    then have full: "full_collection k" "full_items items" using 3(3) by simp_all
    obtain s1 where s1: "drill k s = Some s1" "represents s1 (xs @ flat_collection k)"
      using 3(1) [OF Some full(1) 3(4)] by blast
    from 3(2) [OF full(2) s1(2)] s1(1) Some show ?thesis by simp
  qed
qed simp_all

lemma NewDataItemSet_represents:
  assumes "\<forall>k \<in> set (Collections desc). full_collection k"
  shows "\<exists>s. NewDataItemSet desc = Some s \<and> represents s (flat desc)"
proof -
  have "\<forall>k \<in> set ks. full_collection k \<Longrightarrow> represents s xs \<Longrightarrow>
      \<exists>s'. drill_collections ks s = Some s' \<and> represents s' (xs @ concat (map flat_collection ks))" for ks s xs
  proof (induction ks arbitrary: s xs)
    case (Cons k ks)
    then obtain s1 where s1: "drill k s = Some s1" "represents s1 (xs @ flat_collection k)"
      using drill_represents(1) [of k s xs] by auto
    from Cons.IH [OF _ s1(2)] Cons.prems(1) s1(1) show ?case by simp
  qed simp
  from this [OF assms represents_empty] show ?thesis by (simp add: NewDataItemSet_def flat_def)
qed

subsection \<open>WithType\<close>

lemma with_type_items_represents:
  assumes s: "represents s xs"
  shows "represents new ys \<Longrightarrow> idx \<le> length (of_report i xs) \<Longrightarrow>
    represents (with_type_items s typ i idx (map snd (drop idx (of_report i xs))) new)
      (ys @ filter (\<lambda>x. fst x = typ) (drop idx (of_report i xs)))"
proof (induction "length (of_report i xs) - idx" arbitrary: idx new ys)
  case 0
  then show ?case by simp
next
  case (Suc n)
  let ?r = "of_report i xs"
  have idx: "idx < length ?r" using Suc.hyps(2) by simp
  then have split: "drop idx ?r = ?r ! idx # drop (Suc idx) ?r" by (simp add: Cons_nth_drop_Suc)
  have ty: "DataItemSet_Type s i idx = fst (?r ! idx)" using s idx by (rule represents_Type)
  let ?add = "fst (?r ! idx) = typ"
  let ?new = "if ?add then DataItemSet_Add new typ (snd (?r ! idx)) else new"
  let ?ys = "ys @ (if ?add then [?r ! idx] else [])"
  have "represents ?new ?ys"
    using represents_Add [OF Suc.prems(1), of "typ" "snd (?r ! idx)"] Suc.prems(1)
    by (cases "?r ! idx") auto
  moreover have "n = length ?r - Suc idx" "Suc idx \<le> length ?r" using Suc.hyps(2) idx by simp_all
  ultimately have "represents (with_type_items s typ i (Suc idx) (map snd (drop (Suc idx) ?r)) ?new)
      (?ys @ filter (\<lambda>x. fst x = typ) (drop (Suc idx) ?r))"
    using Suc.hyps(1) by blast
  then show ?case by (cases ?add) (simp_all add: split ty)
qed

definition typed_of :: "MainItemType \<Rightarrow> typed_items \<Rightarrow> typed_items" where
  "typed_of typ xs = concat (map (\<lambda>i. filter (\<lambda>x. fst x = typ) (of_report i xs)) (first_ids xs))"

lemma fold_with_type:
  assumes s: "represents s xs"
  shows "represents new ys \<Longrightarrow>
    represents (fold (\<lambda>r new. with_type_items s typ (set_report_ID r) 0 (set_report_DataItems r) new)
        (map (\<lambda>i. \<lparr>set_report_ID = i, set_report_DataItems = DataItemSet_Report s i\<rparr>) is) new)
      (ys @ concat (map (\<lambda>i. filter (\<lambda>x. fst x = typ) (of_report i xs)) is))"
proof (induction "is" arbitrary: new ys)
  case (Cons i "is")
  have "represents (with_type_items s typ i 0 (DataItemSet_Report s i) new)
      (ys @ filter (\<lambda>x. fst x = typ) (of_report i xs))"
    using with_type_items_represents [OF s Cons.prems, of 0 i "typ"] represents_Report [OF s, of i] by simp
  from Cons.IH [OF this] show ?case by simp
qed simp

lemma WithType_represents:
  "represents s xs \<Longrightarrow> represents (DataItemSet_WithType s typ) (typed_of typ xs)"
  using fold_with_type [OF _ represents_empty, of s xs "typ" "first_ids xs"]
  by (simp add: DataItemSet_WithType_def DataItemSet_Reports_def typed_of_def represents_def)

lemma filter_concat: "filter P (concat xss) = concat (map (filter P) xss)"
  by (induction xss) simp_all

lemma concat_single:
  "distinct is \<Longrightarrow> concat (map (\<lambda>j. if j = i then f j else []) is) = (if i \<in> set is then f i else [])"
  by (induction "is") auto

lemma of_report_typed: "of_report i (typed_of typ xs) = filter (\<lambda>x. fst x = typ) (of_report i xs)"
proof -
  have "of_report i (filter (\<lambda>x. fst x = typ) (of_report j xs)) =
      (if j = i then filter (\<lambda>x. fst x = typ) (of_report j xs) else [])" for j
    by (auto simp: of_report_def filter_empty_conv intro: filter_cong)
  then have "of_report i (typed_of typ xs) =
      concat (map (\<lambda>j. if j = i then filter (\<lambda>x. fst x = typ) (of_report j xs) else []) (first_ids xs))"
    by (simp add: typed_of_def of_report_def filter_concat comp_def)
  also have "\<dots> = (if i \<in> set (first_ids xs) then filter (\<lambda>x. fst x = typ) (of_report i xs) else [])"
    by (rule concat_single) (simp add: first_ids_def)
  also have "\<dots> = filter (\<lambda>x. fst x = typ) (of_report i xs)"
    using of_report_empty_iff [of i xs] by auto
  finally show ?thesis .
qed

lemma WithType_Report:
  "represents s xs \<Longrightarrow> DataItemSet_Report (DataItemSet_WithType s typ) i =
     map snd (filter (\<lambda>x. fst x = typ) (of_report i xs))"
  using represents_Report [OF WithType_represents] by (simp add: of_report_typed)

subsection \<open>The fields of an encoded report\<close>

definition report_bits :: "Report \<Rightarrow> bool list" where
  "report_bits r = (if report_ID r \<noteq> 0 then msb_bits (report_ID r) else [])
     @ concat (map bitlist (report_Fields r))"

lemma concat_fields_bits:
  assumes "bits_wf b" "bits_clean b" "\<forall>f \<in> set fs. bits_wf f \<and> bits_clean f"
  shows "\<exists>c. concat_fields fs b = Some c \<and> bits_wf c \<and> bits_clean c
    \<and> bitlist c = bitlist b @ concat (map bitlist fs)"
  using assms
proof (induction fs arbitrary: b)
  case (Cons f fs)
  obtain c where c: "ConcatBits b f = Some c" "bits_wf c" "bitlist c = bitlist b @ bitlist f" "bits_clean c"
    using ConcatBits_append [of b f] Cons.prems by auto
  from Cons.IH [OF c(2) c(4)] Cons.prems(3) c(1,3) show ?case by auto
qed simp

lemma EncodeReport_bits:
  assumes "\<forall>f \<in> set (report_Fields r). bits_wf f \<and> bits_clean f"
  shows "\<exists>c. EncodeReport r = Some c \<and> bits_wf c \<and> bits_clean c \<and> bitlist c = report_bits r"
proof -
  let ?b = "if report_ID r \<noteq> 0 then Bits_New [report_ID r] 0 else \<lparr>missingBits = 0, bytes = []\<rparr>"
  have "bits_wf ?b" "bits_clean ?b" by (simp_all add: bits_wf_def bits_clean_def Bits_New_def)
  moreover have "bitlist ?b = (if report_ID r \<noteq> 0 then msb_bits (report_ID r) else [])"
    by (simp add: bitlist_def Bits_New_def Bits_Len_def)
  ultimately show ?thesis
    using concat_fields_bits [of ?b "report_Fields r"] assms
    by (simp add: EncodeReport_def report_bits_def)
qed

lemma concat_fields_total:
  "bits_wf b \<Longrightarrow> \<forall>f \<in> set fs. bits_wf f \<Longrightarrow> \<exists>c. concat_fields fs b = Some c"
proof (induction fs arbitrary: b)
  case (Cons f fs)
  obtain c where "ConcatBits b f = Some c" "bits_wf c"
    using ConcatBits_total [of b f] Cons.prems by auto
  with Cons.IH [of c] Cons.prems show ?case by simp
qed simp

lemma EncodeReport_total: "\<forall>f \<in> set (report_Fields r). bits_wf f \<Longrightarrow> \<exists>c. EncodeReport r = Some c"
  unfolding EncodeReport_def
  by (rule concat_fields_total) (simp_all add: bits_wf_def Bits_New_def)

text \<open>Scanning the fields: the lengths of the fields cut the stream.\<close>

lemma decode_fields_stream:
  assumes "\<forall>d \<in> set ds. field_bits d > 0"
    "\<forall>k < length ds. next_ok (s\<lparr>bitOffset := bitOffset s + sum_list (take k (map field_bits ds))\<rparr>) (field_bits (ds ! k))"
  shows "\<exists>bs. decode_fields ds s = Some (Some bs) \<and> length bs = length ds
    \<and> (\<forall>k < length ds. missingBits (bs ! k) = missing_of_size (field_bits (ds ! k))
        \<and> length (bytes (bs ! k)) = byte_size_of (field_bits (ds ! k))
        \<and> bitlist (bs ! k) = take (field_bits (ds ! k))
            (drop (bitOffset s + sum_list (take k (map field_bits ds))) (stream (sdata s @ sspare s))))"
  using assms
proof (induction ds arbitrary: s)
  case (Cons d ds)
  let ?s = "s\<lparr>bitOffset := bitOffset s + field_bits d\<rparr>"
  have "next_ok s (field_bits d)" using Cons.prems(2) by (auto dest: spec [of _ 0])
  then obtain b where b: "Scanner_Next s (field_bits d) = Some (b, ?s)"
    "missingBits b = missing_of_size (field_bits d)" "length (bytes b) = byte_size_of (field_bits d)"
    "bitlist b = take (field_bits d) (drop (bitOffset s) (stream (sdata s @ sspare s)))"
    using Scanner_Next_stream by blast
  have len: "Bits_Len b = int (field_bits d)" using b(2,3) by (rule Len_sized)
  have "\<forall>k < length ds. next_ok (?s\<lparr>bitOffset := bitOffset ?s + sum_list (take k (map field_bits ds))\<rparr>) (field_bits (ds ! k))"
  proof (intro allI impI)
    fix k assume "k < length ds"
    then show "next_ok (?s\<lparr>bitOffset := bitOffset ?s + sum_list (take k (map field_bits ds))\<rparr>) (field_bits (ds ! k))"
      using Cons.prems(2) [rule_format, of "Suc k"] by (simp add: ac_simps)
  qed
  from Cons.IH [OF _ this] Cons.prems(1) obtain bs where bs: "decode_fields ds ?s = Some (Some bs)"
    "length bs = length ds"
    "\<forall>k < length ds. missingBits (bs ! k) = missing_of_size (field_bits (ds ! k))
        \<and> length (bytes (bs ! k)) = byte_size_of (field_bits (ds ! k))
        \<and> bitlist (bs ! k) = take (field_bits (ds ! k))
            (drop (bitOffset ?s + sum_list (take k (map field_bits ds))) (stream (sdata ?s @ sspare ?s)))"
    by auto
  have "decode_fields (d # ds) s = Some (Some (b # bs))"
    using b(1) bs(1) len Cons.prems(1) by simp
  moreover have "k < length (d # ds) \<Longrightarrow> missingBits ((b # bs) ! k) = missing_of_size (field_bits ((d # ds) ! k))
        \<and> length (bytes ((b # bs) ! k)) = byte_size_of (field_bits ((d # ds) ! k))
        \<and> bitlist ((b # bs) ! k) = take (field_bits ((d # ds) ! k))
            (drop (bitOffset s + sum_list (take k (map field_bits (d # ds)))) (stream (sdata s @ sspare s)))" for k
    using b bs(3) by (cases k) (auto simp: ac_simps)
  ultimately show ?case using bs(2) by (metis length_Cons)
qed simp

subsection \<open>Decoding the encoder's bytes\<close>

lemma concat_slice:
  "k < length xss \<Longrightarrow> take (length (xss ! k)) (drop (sum_list (take k (map length xss))) (concat xss)) = xss ! k"
proof (induction xss arbitrary: k)
  case (Cons xs xss)
  then show ?case by (cases k) simp_all
qed simp

lemma slice_within: "k < length ns \<Longrightarrow> sum_list (take k ns) + ns ! k \<le> sum_list ns" for ns :: "nat list"
proof (induction ns arbitrary: k)
  case (Cons n ns)
  then show ?case by (cases k) (auto simp: add.assoc)
qed simp

definition report_fits :: "DataItemSet \<Rightarrow> Report \<Rightarrow> bool" where
  "report_fits dis r \<longleftrightarrow>
     (DataItemSet_HasReportID dis \<longleftrightarrow> report_ID r \<noteq> 0)
     \<and> list_all2 (\<lambda>d f. field_bits d > 0 \<and> bits_wf f \<and> bits_clean f \<and> Bits_Len f = int (field_bits d))
         (DataItemSet_Report dis (report_ID r)) (report_Fields r)"

text \<open>The length of a vector fixes its bytes and missing bits.\<close>

lemma sized_shape:
  assumes "bits_wf f" "Bits_Len f = int n"
  shows "length (bytes f) = byte_size_of n \<and> missingBits f = missing_of_size n"
proof -
  let ?m = "unat (missingBits f)"
  have m: "?m < 8" using assms(1) by (simp add: bits_wf_def unat_missing_less)
  have le: "?m \<le> 8 * length (bytes f)" using assms(1) by (rule unat_missing_le)
  have n: "n = 8 * length (bytes f) - ?m"
    using nat_Bits_Len [OF assms(1)] assms(2) by simp
  then have split: "8 * length (bytes f) = n + ?m" using le by simp
  then have "(n + 7) div 8 = length (bytes f)" using m by linarith
  then have bs: "length (bytes f) = byte_size_of n" by (simp add: byte_size_of_eq)
  moreover have "n + ?m = n + unat (missing_of_size n)"
    using split bs byte_size_of_split [of n] by simp
  then have "missingBits f = missing_of_size n" by (simp add: word_unat_eq_iff)
  ultimately show ?thesis by simp
qed

lemma report_fits_fields:
  assumes "report_fits dis r"
  defines "ds \<equiv> DataItemSet_Report dis (report_ID r)"
  shows "\<forall>f \<in> set (report_Fields r). bits_wf f \<and> bits_clean f" "\<forall>d \<in> set ds. field_bits d > 0"
    "length (report_Fields r) = length ds"
    "map length (map bitlist (report_Fields r)) = map field_bits ds"
proof -
  have l: "length ds = length (report_Fields r)"
    and e: "k < length ds \<Longrightarrow> field_bits (ds ! k) > 0 \<and> bits_wf (report_Fields r ! k)
      \<and> bits_clean (report_Fields r ! k) \<and> Bits_Len (report_Fields r ! k) = int (field_bits (ds ! k))" for k
    using assms(1) by (simp_all add: report_fits_def ds_def list_all2_conv_all_nth)
  show "length (report_Fields r) = length ds" using l by simp
  show "\<forall>f \<in> set (report_Fields r). bits_wf f \<and> bits_clean f"
    using e l by (metis in_set_conv_nth)
  show "\<forall>d \<in> set ds. field_bits d > 0" using e by (metis in_set_conv_nth)
  show "map length (map bitlist (report_Fields r)) = map field_bits ds"
    using e l by (intro nth_equalityI) (simp_all add: length_bitlist)
qed

text \<open>The bytes behind the report ID and their stream.\<close>

lemma EncodeReport_payload:
  assumes "\<forall>f \<in> set (report_Fields r). bits_wf f \<and> bits_clean f" "EncodeReport r = Some c"
  defines "F \<equiv> concat (map bitlist (report_Fields r))"
  obtains data where "bytes c = (if report_ID r \<noteq> 0 then [report_ID r] else []) @ data"
    "take (length F) (stream data) = F" "length F \<le> 8 * length data" "8 * length data < length F + 8"
proof -
  obtain c' where "EncodeReport r = Some c'" "bits_wf c'" "bitlist c' = report_bits r"
    using EncodeReport_bits [OF assms(1)] by blast
  with assms(2) have c: "bits_wf c" "bitlist c = report_bits r" by simp_all
  have len: "length (report_bits r) = nat (Bits_Len c)" using length_bitlist [OF c(1)] c(2) by simp
  have size: "nat (Bits_Len c) \<le> 8 * length (bytes c)" "8 * length (bytes c) < nat (Bits_Len c) + 8"
    using nat_Bits_Len [OF c(1)] unat_missing_le [OF c(1)] unat_missing_less [of c] c(1)
    unfolding bits_wf_def by linarith+
  have st: "take (length (report_bits r)) (stream (bytes c)) = report_bits r"
    using c(2) len by (simp add: bitlist_def)
  show ?thesis
  proof (cases "report_ID r = 0")
    case True
    then show ?thesis using that [of "bytes c"] st size len by (simp add: report_bits_def F_def)
  next
    case False
    then have rb: "report_bits r = msb_bits (report_ID r) @ F" by (simp add: report_bits_def F_def)
    then have "bytes c \<noteq> []" using size(1) len by auto
    then obtain x data where xd: "bytes c = x # data" by (cases "bytes c") auto
    have "msb_bits x @ take (length F) (stream data) = msb_bits (report_ID r) @ F"
      using st rb xd by simp
    then have "msb_bits x = msb_bits (report_ID r)" "take (length F) (stream data) = F"
      by (simp_all add: append_eq_append_conv)
    then have "x = report_ID r" "take (length F) (stream data) = F" by (simp_all add: msb_bits_inj)
    then show ?thesis using that [of data] xd False size len rb by simp
  qed
qed

lemma byte_size_sum: "o' div 8 + byte_size_of n \<le> (o' + n + 7) div 8" for o' n :: nat
proof -
  have "byte_size_of n = (n + 7) div 8" by (rule byte_size_of_eq)
  moreover have "o' div 8 + (n + 7) div 8 = (8 * (o' div 8) + (n + 7)) div 8" by simp
  moreover have "8 * (o' div 8) + (n + 7) \<le> o' + n + 7" by simp
  ultimately show ?thesis by (metis add.assoc div_le_mono)
qed

lemma next_ok_within:
  assumes "bitOffset s + n \<le> 8 * length data" "sdata s = data @ ws" "bitOffset s mod 8 = 0 \<or> ws \<noteq> []"
  shows "next_ok s n"
proof -
  have "bitOffset s div 8 + byte_size_of n \<le> (8 * length data + 7) div 8"
    using byte_size_sum [of "bitOffset s" n] assms(1) by (meson add_le_mono1 div_le_mono le_trans)
  then have "bitOffset s div 8 + byte_size_of n \<le> length data" by simp
  then show ?thesis using assms(2,3) by (cases ws) (auto simp: next_ok_def)
qed

lemma fields_of_stream:
  assumes ok: "report_fits dis r"
    and F: "take (length F) (stream data) = F" "F = concat (map bitlist (report_Fields r))"
      "length F \<le> 8 * length data"
    and pad: "ws \<noteq> [] \<or> (\<forall>d \<in> set (DataItemSet_Report dis (report_ID r)). field_bits d mod 8 = 0)"
  shows "\<exists>bs. decode_fields (DataItemSet_Report dis (report_ID r)) (NewScanner (data @ ws) spare) = Some (Some bs)
    \<and> map bitlist bs = map bitlist (report_Fields r)
    \<and> (\<forall>k < length bs. length (bytes (bs ! k)) = length (bytes (report_Fields r ! k))
        \<and> missingBits (bs ! k) = missingBits (report_Fields r ! k))"
proof -
  let ?ds = "DataItemSet_Report dis (report_ID r)" and ?s = "NewScanner (data @ ws) spare"
  let ?ns = "map field_bits ?ds"
  note fields = report_fits_fields [OF ok]
  have lenF: "length F = sum_list ?ns"
    unfolding F(2) length_concat using fields(4) by simp
  have within: "sum_list (take k ?ns) + field_bits (?ds ! k) \<le> length F" if "k < length ?ds" for k
    using slice_within [of k ?ns] that lenF by simp
  have "next_ok (?s\<lparr>bitOffset := bitOffset ?s + sum_list (take k ?ns)\<rparr>) (field_bits (?ds ! k))"
    if "k < length ?ds" for k
  proof (rule next_ok_within [where data = data and ws = ws])
    have "\<forall>n \<in> set ns. n mod 8 = 0 \<Longrightarrow> sum_list ns mod 8 = 0" for ns :: "nat list"
      by (induction ns) (auto simp: mod_add_eq [symmetric])
    moreover have "ws = [] \<Longrightarrow> \<forall>n \<in> set (take k ?ns). n mod 8 = 0"
      using pad set_take_subset [of k ?ns] by fastforce
    ultimately show "bitOffset (?s\<lparr>bitOffset := bitOffset ?s + sum_list (take k ?ns)\<rparr>) mod 8 = 0 \<or> ws \<noteq> []"
      by (auto simp: NewScanner_def)
  qed (use within [OF that] F(3) in \<open>simp_all add: NewScanner_def\<close>)
  then obtain bs where bs: "decode_fields ?ds ?s = Some (Some bs)" "length bs = length ?ds"
    "\<And>k. k < length ?ds \<Longrightarrow> missingBits (bs ! k) = missing_of_size (field_bits (?ds ! k))
        \<and> length (bytes (bs ! k)) = byte_size_of (field_bits (?ds ! k))
        \<and> bitlist (bs ! k) = take (field_bits (?ds ! k))
            (drop (bitOffset ?s + sum_list (take k ?ns)) (stream (sdata ?s @ sspare ?s)))"
    using decode_fields_stream [of ?ds ?s] fields(2) by metis
  have bits: "bitlist (bs ! k) = bitlist (report_Fields r ! k)" if k: "k < length ?ds" for k
  proof -
    let ?o = "sum_list (take k ?ns)" and ?n = "field_bits (?ds ! k)"
    have "bitlist (bs ! k) = take ?n (drop ?o (stream data @ stream (ws @ spare)))"
      using bs(3) [OF k] by (simp add: NewScanner_def)
    also have "\<dots> = take ?n (drop ?o (stream data))"
      using within [OF k] F(3) by simp
    also have "\<dots> = take ?n (drop ?o (take (length F) (stream data)))"
      using within [OF k] by (simp add: drop_take min_def)
    also have "\<dots> = take ?n (drop ?o (concat (map bitlist (report_Fields r))))" using F by simp
    also have "\<dots> = bitlist (report_Fields r ! k)"
    proof -
      have "length (bitlist (report_Fields r ! k)) = ?n"
        using arg_cong [OF fields(4), of "\<lambda>l. l ! k"] k fields(3) by simp
      then show ?thesis
        using concat_slice [of k "map bitlist (report_Fields r)"] fields(3) k
        by (simp only: fields(4) length_map nth_map)
    qed
    finally show ?thesis .
  qed
  have shape: "length (bytes (bs ! k)) = length (bytes (report_Fields r ! k))
      \<and> missingBits (bs ! k) = missingBits (report_Fields r ! k)" if k: "k < length ?ds" for k
    using bs(3) [OF k] ok k sized_shape by (simp add: report_fits_def list_all2_conv_all_nth)
  have "map bitlist bs = map bitlist (report_Fields r)"
    using bs(2) bits fields(3) by (intro nth_equalityI) simp_all
  then show ?thesis using bs(1,2) shape by (intro exI [of _ bs]) simp
qed

text \<open>A padded report: every field comes back bit by bit, whatever its size.\<close>

lemma Decode_padded:
  assumes ok: "report_fits dis r" and c: "EncodeReport r = Some c"
  shows "\<exists>r'. ReportDecoder_Decode dis (bytes c @ [x]) spare = Some (Some r')
    \<and> report_ID r' = report_ID r \<and> map bitlist (report_Fields r') = map bitlist (report_Fields r)"
proof -
  let ?F = "concat (map bitlist (report_Fields r))"
  obtain data where d: "bytes c = (if report_ID r \<noteq> 0 then [report_ID r] else []) @ data"
    "take (length ?F) (stream data) = ?F" "length ?F \<le> 8 * length data"
    using EncodeReport_payload [OF report_fits_fields(1) [OF ok] c] by blast
  obtain bs where bs: "decode_fields (DataItemSet_Report dis (report_ID r)) (NewScanner (data @ [x]) spare) = Some (Some bs)"
    "map bitlist bs = map bitlist (report_Fields r)"
    using fields_of_stream [OF ok d(2) refl d(3), of "[x]" spare] by auto
  have "DataItemSet_HasReportID dis \<longleftrightarrow> report_ID r \<noteq> 0" using ok by (simp add: report_fits_def)
  with bs d(1) show ?thesis by (cases "report_ID r = 0") (simp_all add: ReportDecoder_Decode_def index_def)
qed

text \<open>Fields of whole bytes: the report comes back as it was.\<close>

lemma bits_eqI:
  assumes "bits_wf f" "missingBits f = 0" "missingBits g = 0" "length (bytes g) = length (bytes f)"
    "bitlist g = bitlist f"
  shows "g = f"
proof -
  have "Bits_Len f = 8 * int (length (bytes f))" "Bits_Len g = 8 * int (length (bytes f))"
    using assms by (simp_all add: Bits_Len_def)
  then have "stream (bytes g) = stream (bytes f)"
    using assms(4,5) by (simp add: bitlist_def nat_mult_distrib)
  then have "bytes g = bytes f" using stream_inj [OF assms(4)] by simp
  then show ?thesis using assms(2,3) by (cases f; cases g) simp
qed

lemma Decode_aligned:
  assumes ok: "report_fits dis r" and c: "EncodeReport r = Some c"
    and al: "\<forall>d \<in> set (DataItemSet_Report dis (report_ID r)). field_bits d mod 8 = 0"
  shows "ReportDecoder_Decode dis (bytes c) spare = Some (Some r)"
proof -
  let ?F = "concat (map bitlist (report_Fields r))" and ?ds = "DataItemSet_Report dis (report_ID r)"
  note fields = report_fits_fields [OF ok]
  obtain data where d: "bytes c = (if report_ID r \<noteq> 0 then [report_ID r] else []) @ data"
    "take (length ?F) (stream data) = ?F" "length ?F \<le> 8 * length data"
    using EncodeReport_payload [OF fields(1) c] by blast
  obtain bs where bs: "decode_fields ?ds (NewScanner data spare) = Some (Some bs)"
    "map bitlist bs = map bitlist (report_Fields r)"
    "\<forall>k < length bs. length (bytes (bs ! k)) = length (bytes (report_Fields r ! k))
        \<and> missingBits (bs ! k) = missingBits (report_Fields r ! k)"
    using fields_of_stream [OF ok d(2) refl d(3), of "[]" spare] al by auto
  have len: "length bs = length (report_Fields r)" using bs(2) by (metis length_map)
  have "bs = report_Fields r"
  proof (rule nth_equalityI)
    fix k assume k: "k < length bs"
    then have kd: "k < length ?ds" using len fields(3) by simp
    have "bits_wf (report_Fields r ! k)" "Bits_Len (report_Fields r ! k) = int (field_bits (?ds ! k))"
      using ok kd by (simp_all add: report_fits_def list_all2_conv_all_nth)
    moreover from this have "missingBits (report_Fields r ! k) = 0"
      using sized_shape al kd by (simp add: missing_of_size_aligned)
    moreover have "bitlist (bs ! k) = bitlist (report_Fields r ! k)"
      using arg_cong [OF bs(2), of "\<lambda>l. l ! k"] k len by simp
    ultimately show "bs ! k = report_Fields r ! k"
      using bs(3) k by (intro bits_eqI) simp_all
  qed (rule len)
  moreover have "DataItemSet_HasReportID dis \<longleftrightarrow> report_ID r \<noteq> 0" using ok by (simp add: report_fits_def)
  ultimately show ?thesis
    using bs(1) d(1) by (cases "report_ID r = 0") (simp_all add: ReportDecoder_Decode_def index_def)
qed

text \<open>
  A last field that starts inside a byte and ends with the report: \<open>Scanner.Next\<close> reads one byte too
  far.
\<close>

lemma Scanner_Next_last:
  assumes "bitOffset s mod 8 \<noteq> 0" "bitOffset s + n = 8 * length (sdata s)" "n > 0"
  shows "Scanner_Next s n = None"
proof -
  have "8 * (bitOffset s div 8) + bitOffset s mod 8 = bitOffset s" by simp
  then have "bitOffset s div 8 + (n + 7) div 8 \<ge> length (sdata s)"
    using assms(2) by linarith
  moreover have "byte_size_of n > 0" using assms(3) by (simp add: byte_size_of_eq)
  ultimately show ?thesis
    using assms(1) by (simp add: Scanner_Next_None next_ok_def byte_size_of_eq)
qed

lemma decode_fields_last:
  assumes "bitOffset s + sum_list (map field_bits ds) + field_bits d = 8 * length (sdata s)"
    "(bitOffset s + sum_list (map field_bits ds)) mod 8 \<noteq> 0" "\<forall>e \<in> set (ds @ [d]). field_bits e > 0"
  shows "decode_fields (ds @ [d]) s = None"
  using assms
proof (induction ds arbitrary: s)
  case Nil
  then show ?case using Scanner_Next_last [of s "field_bits d"] by simp
next
  case (Cons e ds)
  let ?s = "s\<lparr>bitOffset := bitOffset s + field_bits e\<rparr>"
  show ?case
  proof (cases "Scanner_Next s (field_bits e)")
    case None
    then show ?thesis by simp
  next
    case (Some r)
    then have "next_ok s (field_bits e)" using Scanner_Next_None [of s "field_bits e"] by simp
    then obtain b where b: "Scanner_Next s (field_bits e) = Some (b, ?s)"
      "missingBits b = missing_of_size (field_bits e)" "length (bytes b) = byte_size_of (field_bits e)"
      using Scanner_Next_stream by blast
    have "Bits_Len b = int (field_bits e)" using b(2,3) by (rule Len_sized)
    moreover have "decode_fields (ds @ [d]) ?s = None"
      using Cons.prems by (intro Cons.IH) (simp_all add: ac_simps)
    ultimately show ?thesis using b(1) Cons.prems(3) by simp
  qed
qed

lemma Decode_unaligned_last:
  assumes items: "DataItemSet_Report dis (report_ID r) = ds @ [d]"
    and ok: "report_fits dis r" and c: "EncodeReport r = Some c"
    and total: "sum_list (map field_bits (ds @ [d])) mod 8 = 0"
    and inside: "sum_list (map field_bits ds) mod 8 \<noteq> 0"
  shows "ReportDecoder_Decode dis (bytes c) spare = None"
proof -
  let ?F = "concat (map bitlist (report_Fields r))"
  note fields = report_fits_fields [OF ok]
  obtain data where data: "bytes c = (if report_ID r \<noteq> 0 then [report_ID r] else []) @ data"
    "length ?F \<le> 8 * length data" "8 * length data < length ?F + 8"
    using EncodeReport_payload [OF fields(1) c] by blast
  have "length ?F = sum_list (map field_bits (ds @ [d]))"
    unfolding length_concat using fields(4) items by simp
  then have "sum_list (map field_bits ds) + field_bits d = 8 * length data"
    using total data(2,3) by auto
  then have "decode_fields (ds @ [d]) (NewScanner data spare) = None"
    using inside fields(2) items by (intro decode_fields_last) (simp_all add: NewScanner_def)
  moreover have "DataItemSet_HasReportID dis \<longleftrightarrow> report_ID r \<noteq> 0" using ok by (simp add: report_fits_def)
  ultimately show ?thesis
    using data(1) items by (cases "report_ID r = 0") (simp_all add: ReportDecoder_Decode_def index_def)
qed

end
