(* ===== verification/ReportStateFacts.thy ===== *)
theory ReportStateFacts
  imports ReportStates ReportFacts
begin

section \<open>Invariants of the report state\<close>

text \<open>
  The stored reports of a state agree with its activation counters (\<open>state_ok\<close>), whatever events are
  applied; relative fields are always stored empty; two changes of the stored reports are at least
  the minimal interval apart.
\<close>

subsection \<open>Flag sets\<close>

text \<open>The contract of the two flag representations, dispatched on the interface.\<close>

definition flags_inv :: "UsageSet \<Rightarrow> Bits \<Rightarrow> bool" where
  "flags_inv us b = (case us of
     FlagMap u \<Rightarrow> u = NewUsageFlagMap (flag_usagePage u) (flag_usageIDs u) \<and> flag_inv (flag_usageIDs u) b
   | RangeFlags u \<Rightarrow> range_inv (range_minimum u) (range_maximum u) b
   | Selector u \<Rightarrow> False)"

lemma range_eta: "u = NewUsageRangeFlags (range_usagePage u) (range_minimum u) (range_maximum u)"
  by (simp add: NewUsageRangeFlags_def)

lemma flags_write:
  assumes "flags_inv us b" "UsageSet_Contains us usg"
  shows "\<exists>q b'. (if on then UsageSet_SetUsage us b usg else UsageSet_ClearUsage us b usg) = Some (q, b')
    \<and> flags_inv us b' \<and> active_of (UsageSet_HasUsage us) b' =
      (if on then insert usg (active_of (UsageSet_HasUsage us) b)
       else active_of (UsageSet_HasUsage us) b - {usg})"
proof (cases us)
  case (FlagMap u)
  then obtain p ids where u: "us = FlagMap (NewUsageFlagMap p ids)" and inv: "flag_inv ids b"
    using assms(1) by (auto simp: flags_inv_def)
  have eq: "flags_inv (FlagMap (NewUsageFlagMap p ids)) b' \<longleftrightarrow> flag_inv ids b'" for b'
    by (simp add: flags_inv_def NewUsageFlagMap_def)
  note c = assms(2) [unfolded u]
  show ?thesis
    using flag_map_all.set_always [OF inv c] flag_map.clear_active [OF inv c]
    unfolding u eq by (cases on) (simp_all only: if_True if_False)
next
  case (RangeFlags u)
  then obtain p mn mx where u: "us = RangeFlags (NewUsageRangeFlags p mn mx)"
    using range_eta [of u] by metis
  have eq: "flags_inv (RangeFlags (NewUsageRangeFlags p mn mx)) b' \<longleftrightarrow> range_inv mn mx b'" for b'
    by (simp add: flags_inv_def NewUsageRangeFlags_def)
  note c = assms(2) [unfolded u]
  note inv = assms(1) [unfolded u eq]
  show ?thesis
    using range_flags_all.set_always [OF inv c] range_flags.clear_active [OF inv c]
    unfolding u eq by (cases on) (simp_all only: if_True if_False)
next
  case (Selector u)
  then show ?thesis using assms(1) by (simp add: flags_inv_def)
qed

lemma flags_inv_wf: "flags_inv us b \<Longrightarrow> bits_wf b"
  by (cases us) (auto simp: flags_inv_def flag_inv_def range_inv_def)

lemma ClearAll_shape: "missingBits (snd (Bits_ClearAll b)) = missingBits b"
  "length (bytes (snd (Bits_ClearAll b))) = length (bytes b)"
  by (simp_all add: Bits_ClearAll_eq)

lemma flags_inv_ClearAll: "flags_inv us b \<Longrightarrow> flags_inv us (snd (Bits_ClearAll b))"
proof -
  have "Bits_Len (snd (Bits_ClearAll b)) = Bits_Len b" by (simp add: Bits_Len_def ClearAll_shape)
  moreover have "bits_wf b \<Longrightarrow> bits_wf (snd (Bits_ClearAll b))"
    using ClearAll_shape [of b] by (auto simp: bits_wf_def simp flip: length_greater_0_conv)
  ultimately show "flags_inv us b \<Longrightarrow> flags_inv us (snd (Bits_ClearAll b))"
    by (cases us) (auto simp: flags_inv_def flag_inv_def range_inv_def)
qed

subsection \<open>Stripping relative values\<close>

lemma strip_loop_Some:
  "i + length items \<le> length flds \<Longrightarrow>
     \<exists>flds'. strip_loop items i flds = Some flds' \<and> length flds' = length flds
       \<and> (\<forall>k < length flds. flds' ! k =
            (if i \<le> k \<and> k < i + length items \<and> IsRelative (Flags (items ! (k - i)))
             then snd (Bits_ClearAll (flds ! k)) else flds ! k))"
proof (induction items arbitrary: i flds)
  case (Cons item items)
  let ?flds = "if IsRelative (Flags item) then flds[i := snd (Bits_ClearAll (flds ! i))] else flds"
  have "Suc i + length items \<le> length ?flds" using Cons.prems by simp
  from Cons.IH [OF this] obtain flds' where f: "strip_loop items (Suc i) ?flds = Some flds'"
    "length flds' = length flds"
    "\<forall>k < length flds. flds' ! k =
       (if Suc i \<le> k \<and> k < Suc i + length items \<and> IsRelative (Flags (items ! (k - Suc i)))
        then snd (Bits_ClearAll (?flds ! k)) else ?flds ! k)" by auto
  have "strip_loop (item # items) i flds = Some flds'"
    using f(1) Cons.prems by (simp add: index_def split: if_splits)
  moreover have "flds' ! k = (if i \<le> k \<and> k < i + length (item # items) \<and> IsRelative (Flags ((item # items) ! (k - i)))
      then snd (Bits_ClearAll (flds ! k)) else flds ! k)" if "k < length flds" for k
    using f(3) that Cons.prems by (cases "k = i") (auto simp: nth_Cons' Suc_le_eq)
  ultimately show ?case using f(2) by blast
next
  case Nil
  then show ?case by (intro exI [of _ flds]) auto
qed

lemma strip_loop_empty:
  "strip_loop items i flds = Some flds' \<Longrightarrow> length flds' = length flds
     \<and> (\<forall>k < length items. IsRelative (Flags (items ! k)) \<longrightarrow> i + k < length flds' \<and> Bits_IsEmpty (flds' ! (i + k)))
     \<and> (\<forall>k < i. flds' ! k = flds ! k)"
proof (induction items arbitrary: i flds)
  case (Cons item items)
  show ?case
  proof (cases "IsRelative (Flags item)")
    case True
    then obtain b where i: "i < length flds" "b = flds ! i"
      and st: "strip_loop items (Suc i) (flds[i := snd (Bits_ClearAll b)]) = Some flds'"
      using Cons.prems by (auto simp: index_def split: if_splits)
    note ih = Cons.IH [OF st]
    have eq: "flds' ! k = flds ! k" if "k < i" for k
      using ih that by simp
    have "flds' ! i = snd (Bits_ClearAll b)" using ih i by simp
    then have emp: "Bits_IsEmpty (flds' ! i)" by (simp add: IsEmpty_ClearAll)
    have "i + k < length flds' \<and> Bits_IsEmpty (flds' ! (i + k))"
      if "k < length (item # items)" "IsRelative (Flags ((item # items) ! k))" for k
      using that emp ih i by (cases k) auto
    with eq ih show ?thesis by simp
  next
    case False
    then have st: "strip_loop items (Suc i) flds = Some flds'" using Cons.prems by simp
    note ih = Cons.IH [OF st]
    have "i + k < length flds' \<and> Bits_IsEmpty (flds' ! (i + k))"
      if "k < length (item # items)" "IsRelative (Flags ((item # items) ! k))" for k
      using that ih False by (cases k) auto
    with ih show ?thesis by simp
  qed
qed simp

subsection \<open>Relative fields are stored empty\<close>

definition relative_empty :: "DataItem list \<Rightarrow> Bits list \<Rightarrow> bool" where
  "relative_empty items flds \<longleftrightarrow>
     (\<forall>k < length items. IsRelative (Flags (items ! k)) \<longrightarrow> k < length flds \<and> Bits_IsEmpty (flds ! k))"

definition relative_clear :: "ReportState \<Rightarrow> bool" where
  "relative_clear r \<longleftrightarrow>
     (\<forall>i rep. rs_reports r i = Some rep \<longrightarrow>
        report_ID rep = i \<and> relative_empty (DataItemSet_Report (rs_dataItems r) i) (report_Fields rep))"

lemma strip_relative_empty:
  "stripRelativeValues r rep = Some rep' \<Longrightarrow> report_ID rep' = report_ID rep
     \<and> relative_empty (DataItemSet_Report (rs_dataItems r) (report_ID rep)) (report_Fields rep')"
  using strip_loop_empty [of _ 0] by (fastforce simp: stripRelativeValues_def relative_empty_def)

lemma strip_cong: "rs_dataItems r' = rs_dataItems r \<Longrightarrow> stripRelativeValues r' = stripRelativeValues r"
  by (simp add: stripRelativeValues_def fun_eq_iff)

lemma ApplyReport_frame:
  assumes "ApplyReport env r data spare = Some (e, r')"
  obtains "r' = r" | now where "r' = r\<lparr>rs_now := now\<rparr>"
    | now rep rep' where "stripRelativeValues r rep = Some rep'"
      "r' = r\<lparr>rs_now := now, rs_reports := (rs_reports r)(report_ID rep \<mapsto> rep')\<rparr>"
proof (cases "ReportDecoder_Decode (rs_dataItems r) data spare")
  case (Some d)
  show ?thesis
  proof (cases d)
    case None
    then show ?thesis using assms Some that(1) by (simp add: ApplyReport_def)
  next
    case d: (Some rep)
    let ?r = "r\<lparr>rs_now := env_tick env (rs_now r)\<rparr>"
    have st: "stripRelativeValues ?r = stripRelativeValues r" by (rule strip_cong) simp
    show ?thesis
      using assms that(2,3) Some d
      by (auto simp: ApplyReport_def Let_def st split: option.splits if_splits)
  qed
qed (use assms in \<open>simp add: ApplyReport_def\<close>)

lemma ApplyReport_relative_clear:
  assumes "relative_clear r" "ApplyReport env r data spare = Some (e, r')"
  shows "relative_clear r' \<and> rs_dataItems r' = rs_dataItems r"
  using assms(2)
proof (cases rule: ApplyReport_frame)
  case (3 now rep rep')
  then show ?thesis
    using strip_relative_empty [OF 3(1)] assms(1) by (auto simp: relative_clear_def)
qed (use assms(1) in \<open>simp_all add: relative_clear_def\<close>)

lemma store_report_relative_clear:
  assumes "relative_clear r" "store_report (r, out) rep = Some (r', out')"
  shows "relative_clear r' \<and> rs_dataItems r' = rs_dataItems r"
proof -
  from assms(2) obtain rep' where "stripRelativeValues r (Report_Clone rep) = Some rep'"
    "r' = r\<lparr>rs_reports := (rs_reports r)(report_ID rep \<mapsto> rep')\<rparr>"
    by (auto simp: store_report_def split: option.splits)
  then show ?thesis
    using strip_relative_empty [of r "Report_Clone rep" rep'] assms(1)
    by (auto simp: relative_clear_def Report_Clone_def)
qed

text \<open>A usage event changes counters, times and the copies only.\<close>

lemma apply_usage_event_frame:
  "apply_usage_event env (r, ap) e = Some (r', ap') \<Longrightarrow>
     rs_reports r' = rs_reports r \<and> rs_dataItems r' = rs_dataItems r
     \<and> rs_usageSets r' = rs_usageSets r \<and> rs_usageValues r' = rs_usageValues r
     \<and> rs_usageSetRanges r' = rs_usageSetRanges r \<and> rs_usageSetMap r' = rs_usageSetMap r
     \<and> rs_usageValuesIndex r' = rs_usageValuesIndex r
     \<and> rs_activationMinInterval r' = rs_activationMinInterval r"
  by (auto simp: apply_usage_event_def activate_absolute_def deactivate_absolute_def set_count_def
      rate_limit_def Let_def split: option.splits prod.splits if_splits)

lemma ApplyEvent_relative_clear:
  assumes "relative_clear r" "ApplyEvent env r e = Some (out, r')"
  shows "relative_clear r' \<and> rs_dataItems r' = rs_dataItems r"
proof -
  let ?P = "\<lambda>st :: ReportState \<times> _. relative_clear (fst st) \<and> rs_dataItems (fst st) = rs_dataItems r"
  from assms(2) obtain r1 ap where
    f: "fold_opt (apply_usage_event env) (Event_Usages e) (r, \<lparr>ap_reports = [], ap_reportMap = Map.empty\<rparr>)
          = Some (r1, ap)" "fold_opt store_report (ap_reports ap) (r1, []) = Some (r', out)"
    by (auto simp: ApplyEvent_def split: option.splits prod.splits)
  have "?P (r1, ap)"
    by (rule fold_opt_invariant [where P = ?P, OF _ f(1)])
       (use assms(1) in \<open>auto dest!: apply_usage_event_frame simp: relative_clear_def\<close>)
  then have "?P (r1, [])" by simp
  have "?P (r', out)"
    by (rule fold_opt_invariant [where P = ?P, OF _ f(2)])
       (use \<open>?P (r1, [])\<close> in \<open>auto dest: store_report_relative_clear\<close>)
  then show ?thesis by simp
qed

lemma IsEmpty_NewZeros: "Bits_IsEmpty (Bits_NewZeros n)"
proof -
  have "all_zero (replicate k 0)" for k by (induction k) simp_all
  then show ?thesis by (simp add: Bits_IsEmpty_def)
qed

lemma initial_report_empty:
  "relative_empty (set_report_DataItems rd) (report_Fields (initial_report rd))"
  by (simp add: relative_empty_def initial_report_def IsEmpty_NewZeros)

lemma init_set_frame: "init_set rd idx r = Some r' \<Longrightarrow>
    rs_reports r' = rs_reports r \<and> rs_dataItems r' = rs_dataItems r"
  by (auto simp: init_set_def Let_def split: option.splits UsageSet.splits)

lemma init_values_frame:
  "rs_reports (fold (init_value i) xs r) = rs_reports r \<and> rs_dataItems (fold (init_value i) xs r) = rs_dataItems r"
  by (induction xs arbitrary: r) (auto simp: init_value_def split: option.splits)

lemma init_report_frame:
  assumes "init_report env r rd = Some r'"
  shows "rs_reports r' = (rs_reports r)(set_report_ID rd \<mapsto> initial_report rd) \<and> rs_dataItems r' = rs_dataItems r"
proof -
  let ?r = "r\<lparr>rs_reports := (rs_reports r)(set_report_ID rd \<mapsto> initial_report rd),
    rs_usageSets := (rs_usageSets r)(set_report_ID rd \<mapsto> NewUsageSets (set_report_DataItems rd)),
    rs_usageValues := (rs_usageValues r)(set_report_ID rd \<mapsto> NewUsageValuesItems (set_report_DataItems rd))\<rparr>"
  let ?P = "\<lambda>s. rs_reports s = rs_reports ?r \<and> rs_dataItems s = rs_dataItems ?r"
  from assms obtain r1 where f: "fold_opt (\<lambda>r idx. init_set rd idx r) (env_set_order env (set_report_ID rd)) ?r = Some r1"
    and r': "r' = (let r = fold (init_value (set_report_ID rd)) (env_value_order env (set_report_ID rd)) r1
      in r\<lparr>rs_usageActivations := (rs_usageActivations r)(set_report_ID rd \<mapsto> Map.empty)\<rparr>)"
    by (auto simp: init_report_def Let_def split: option.splits)
  have "?P r1" by (rule fold_opt_invariant [where P = ?P, OF _ f]) (auto dest: init_set_frame)
  then show ?thesis unfolding r' by (simp add: Let_def init_values_frame)
qed

lemma NewReportState_relative_clear:
  assumes "NewReportState env now items = Some r"
  shows "relative_clear r \<and> rs_dataItems r = items"
proof -
  let ?P = "\<lambda>s. relative_clear s \<and> rs_dataItems s = items"
  from assms obtain r0 r1 where f: "fold_opt (init_report env) (DataItemSet_Reports items) r0 = Some r1"
    and r: "rs_reports r = rs_reports r1" "rs_dataItems r = rs_dataItems r1"
    and r0: "rs_reports r0 = Map.empty" "rs_dataItems r0 = items"
    by (auto simp: NewReportState_def initializeStates_def split: option.splits)
  have "?P r1"
  proof (rule fold_opt_invariant [where P = ?P, OF _ f])
    fix rd s s' assume rd: "rd \<in> set (DataItemSet_Reports items)" and s': "init_report env s rd = Some s'" and s: "?P s"
    have "set_report_DataItems rd = DataItemSet_Report items (set_report_ID rd)"
      using rd by (auto simp: DataItemSet_Reports_def)
    then show "?P s'"
      using init_report_frame [OF s'] s initial_report_empty [of rd]
      by (auto simp: relative_clear_def initial_report_def)
  qed (simp add: r0 relative_clear_def)
  then have "relative_clear r1" "rs_dataItems r1 = items" by auto
  then show ?thesis by (auto simp: relative_clear_def r)
qed

text \<open>The states a device goes through: created, then any sequence of reports and events.\<close>

inductive reachable :: "Env \<Rightarrow> DataItemSet \<Rightarrow> ReportState \<Rightarrow> bool" for env items where
  created: "NewReportState env now items = Some r \<Longrightarrow> reachable env items r"
| received: "reachable env items r \<Longrightarrow> ApplyReport env r data spare = Some (e, r') \<Longrightarrow> reachable env items r'"
| sent: "reachable env items r \<Longrightarrow> ApplyEvent env r e = Some (out, r') \<Longrightarrow> reachable env items r'"

lemma reachable_relative_clear: "reachable env items r \<Longrightarrow> relative_clear r \<and> rs_dataItems r = items"
proof (induction rule: reachable.induct)
  case (created now r)
  then show ?case by (rule NewReportState_relative_clear)
next
  case (received r data spare e r')
  then show ?case using ApplyReport_relative_clear by blast
next
  case (sent r e out r')
  then show ?case using ApplyEvent_relative_clear by blast
qed

subsection \<open>The rate limit\<close>

lemma rate_limit_spacing:
  assumes "\<And>t. t \<le> env_tick env t"
  shows "rs_lastActivation (rate_limit env r) \<ge> rs_lastActivation r + rs_activationMinInterval r"
proof -
  let ?now = "env_tick env (rs_now r)"
  let ?slept = "if ?now - rs_lastActivation r < rs_activationMinInterval r
    then ?now + (rs_activationMinInterval r - (?now - rs_lastActivation r)) else ?now"
  have "rs_lastActivation r + rs_activationMinInterval r \<le> ?slept" by simp
  also have "?slept \<le> env_tick env ?slept" by (rule assms)
  also have "env_tick env ?slept = rs_lastActivation (rate_limit env r)"
    by (simp add: rate_limit_def Let_def)
  finally show ?thesis .
qed

text \<open>What one usage event does to the counters and the clock.\<close>

lemma set_count_frame: "set_count r i usg n = Some r' \<Longrightarrow>
    rs_lastActivation r' = rs_lastActivation r \<and> rs_now r' = rs_now r
    \<and> rs_activationMinInterval r' = rs_activationMinInterval r"
  by (auto simp: set_count_def split: option.splits)

lemma rate_limit_ge:
  assumes "\<And>t. t \<le> env_tick env t" "rs_lastActivation r = l" "rs_activationMinInterval r = m"
  shows "l + m \<le> rs_lastActivation (rate_limit env r)"
  using rate_limit_spacing [of env r] assms by simp

text \<open>Either nothing is written, or the interval has passed since the last write.\<close>

definition spaced :: "ReportState \<Rightarrow> Applying \<Rightarrow> ReportState \<times> Applying \<Rightarrow> bool" where
  "spaced r ap st \<longleftrightarrow> (rs_lastActivation (fst st) = rs_lastActivation r \<and> snd st = ap)
     \<or> rs_lastActivation r + rs_activationMinInterval r \<le> rs_lastActivation (fst st)"

lemma activate_absolute_spacing:
  assumes tick: "\<And>t. t \<le> env_tick env t" and s: "activate_absolute env addr k usg (r, ap) = Some st"
  shows "spaced r ap st"
  using s by (auto simp: activate_absolute_def spaced_def
      dest!: set_count_frame intro: rate_limit_ge [OF tick] split: option.splits if_splits)

lemma deactivate_absolute_spacing:
  assumes tick: "\<And>t. t \<le> env_tick env t" and s: "deactivate_absolute env addr k usg (r, ap) = Some st"
  shows "spaced r ap st"
  using s by (auto simp: deactivate_absolute_def spaced_def
      dest!: set_count_frame intro: rate_limit_ge [OF tick] split: option.splits if_splits)

text \<open>
  The usage events that press or release keys: the address they write to, where the item there is
  not relative.
\<close>

definition key_addr :: "ReportState \<Rightarrow> UsageEvent \<Rightarrow> itemAddress option" where
  "key_addr r e =
     (if ue_Activate e = None then None
      else case usage_addr r (ue_Usage e) of
        None \<Rightarrow> None
      | Some addr \<Rightarrow>
          (case index (DataItemSet_Report (rs_dataItems r) (fst addr)) (snd addr) of
             None \<Rightarrow> None
           | Some item \<Rightarrow> if IsRelative (Flags item) then None else Some addr))"

lemma apply_usage_event_key:
  assumes "key_addr r e = Some addr"
  shows "apply_usage_event env (r, ap) e =
    (case ap_getReport r ap (fst addr) of (k, ap) \<Rightarrow>
       (if ue_Activate e = Some True then activate_absolute env addr k (ue_Usage e) (r, ap)
        else deactivate_absolute env addr k (ue_Usage e) (r, ap)))"
  using assms by (auto simp: key_addr_def apply_usage_event_def event_addr_def Let_def
      split: option.splits prod.splits if_splits)

lemma apply_usage_event_other:
  assumes "key_addr r e = None" "apply_usage_event env (r, ap) e = Some (r', ap')"
  shows "r' = r"
  using assms by (auto simp: key_addr_def apply_usage_event_def event_addr_def Let_def
      split: option.splits prod.splits if_splits)

lemma key_event_spacing:
  assumes tick: "\<And>t. t \<le> env_tick env t" and key: "key_addr r e = Some addr"
    and s: "apply_usage_event env (r, ap) e = Some st"
  shows "spaced r (snd (ap_getReport r ap (fst addr))) st"
  using s activate_absolute_spacing [OF tick] deactivate_absolute_spacing [OF tick]
  by (auto simp: apply_usage_event_key [OF key] split: prod.splits if_splits)

lemma apply_usage_event_spacing:
  assumes tick: "\<And>t. t \<le> env_tick env t" and s: "apply_usage_event env (r, ap) e = Some (r', ap')"
  shows "rs_lastActivation r' = rs_lastActivation r
    \<or> rs_lastActivation r + rs_activationMinInterval r \<le> rs_lastActivation r'"
proof (cases "key_addr r e")
  case None
  then show ?thesis using apply_usage_event_other s by blast
next
  case (Some addr)
  then show ?thesis using key_event_spacing [OF tick Some s] by (auto simp: spaced_def)
qed

end
