(* ===== verification/KeyState.thy ===== *)
theory KeyState
  imports ReportStateFacts FlowApi
begin

section \<open>Keys and activation counters\<close>

text \<open>
  An item with one bit per key shows exactly the keys whose counter is positive: \<open>ApplyEvent\<close> keeps
  that invariant, whatever the event, and the counter of a key follows the presses and releases of
  the event in their order.
\<close>

subsection \<open>The reports being changed\<close>

definition state_wf :: "ReportState \<Rightarrow> bool" where
  "state_wf r \<longleftrightarrow> (\<forall>j rep. rs_reports r j = Some rep \<longrightarrow> report_ID rep = j)
     \<and> (\<forall>j. rs_usageActivations r j \<noteq> None \<longrightarrow> rs_reports r j \<noteq> None)"

definition copies_ok :: "Applying \<Rightarrow> bool" where
  "copies_ok ap \<longleftrightarrow> (\<forall>j k. ap_reportMap ap j = Some k \<longleftrightarrow>
     k < length (ap_reports ap) \<and> report_ID (ap_reports ap ! k) = j)"

text \<open>The fields of a report as the loop sees them.\<close>

definition view :: "ReportState \<Rightarrow> Applying \<Rightarrow> u8 \<Rightarrow> Bits list" where
  "view r ap j = report_Fields (case ap_reportMap ap j of None \<Rightarrow> report_at r j | Some k \<Rightarrow> ap_reports ap ! k)"

lemma getReport_view:
  assumes ok: "copies_ok ap" and j: "rs_reports r j \<noteq> None" "state_wf r" and g: "ap_getReport r ap j = (k, ap')"
  shows "copies_ok ap' \<and> ap_reportMap ap' j = Some k \<and> view r ap' = view r ap"
proof (cases "ap_reportMap ap j")
  case (Some k')
  then show ?thesis using g ok by (simp add: ap_getReport_def)
next
  case None
  then have ap': "ap' = ap\<lparr>ap_reports := ap_reports ap @ [report_at r j],
      ap_reportMap := (ap_reportMap ap)(j \<mapsto> length (ap_reports ap))\<rparr>" and k: "k = length (ap_reports ap)"
    using g by (auto simp: ap_getReport_def Let_def)
  have id: "report_ID (report_at r j) = j" using j by (auto simp: report_at_def state_wf_def)
  have "copies_ok ap'"
    unfolding copies_ok_def ap'
  proof (intro allI)
    fix j' n
    have "ap_reportMap ap j' = Some n \<longleftrightarrow> n < length (ap_reports ap) \<and> report_ID (ap_reports ap ! n) = j'"
      "ap_reportMap ap j = Some n \<longleftrightarrow> n < length (ap_reports ap) \<and> report_ID (ap_reports ap ! n) = j"
      using ok by (simp_all add: copies_ok_def)
    then show "ap_reportMap (ap\<lparr>ap_reports := ap_reports ap @ [report_at r j],
        ap_reportMap := (ap_reportMap ap)(j \<mapsto> length (ap_reports ap))\<rparr>) j' = Some n \<longleftrightarrow>
      n < length (ap_reports (ap\<lparr>ap_reports := ap_reports ap @ [report_at r j],
        ap_reportMap := (ap_reportMap ap)(j \<mapsto> length (ap_reports ap))\<rparr>)) \<and>
      report_ID (ap_reports (ap\<lparr>ap_reports := ap_reports ap @ [report_at r j],
        ap_reportMap := (ap_reportMap ap)(j \<mapsto> length (ap_reports ap))\<rparr>) ! n) = j'"
      using None id by (cases "n < length (ap_reports ap)") (auto simp: nth_append)
  qed
  moreover have "view r ap' j' = view r ap j'" for j'
  proof (cases "j' = j")
    case True
    then show ?thesis using None by (simp add: ap' view_def)
  next
    case False
    have "n < length (ap_reports ap)" if "ap_reportMap ap j' = Some n" for n
      using ok that by (simp add: copies_ok_def)
    then show ?thesis using False
      by (cases "ap_reportMap ap j'") (simp_all add: ap' view_def nth_append)
  qed
  ultimately show ?thesis by (auto simp: ap' k)
qed

lemma on_field_view:
  assumes ok: "copies_ok ap" and k: "ap_reportMap ap j = Some k" and f: "on_field k x f ap = Some ap'"
  obtains b' where "x < length (view r ap j)" "f (view r ap j ! x) = Some b'"
    "copies_ok ap'" "view r ap' = (view r ap)(j := (view r ap j)[x := b'])"
proof -
  have kj: "k < length (ap_reports ap)" "report_ID (ap_reports ap ! k) = j"
    using ok k by (auto simp: copies_ok_def)
  let ?rep = "ap_reports ap ! k"
  have v: "view r ap j = report_Fields ?rep" by (simp add: view_def k)
  obtain b' where x: "x < length (report_Fields ?rep)" "f (report_Fields ?rep ! x) = Some b'"
    and ap': "ap' = ap\<lparr>ap_reports := (ap_reports ap)[k := ?rep\<lparr>report_Fields := (report_Fields ?rep)[x := b']\<rparr>]\<rparr>"
    using f kj(1) by (auto simp: on_field_def index_def split: if_splits)
  have id: "report_ID ((ap_reports ap)[k := ?rep\<lparr>report_Fields := fs\<rparr>] ! n) = report_ID (ap_reports ap ! n)"
    if "n < length (ap_reports ap)" for n fs
    using that kj by (cases "n = k") simp_all
  have "copies_ok ap'" using ok id by (auto simp: copies_ok_def ap')
  moreover have "view r ap' j' = ((view r ap)(j := (view r ap j)[x := b'])) j'" for j'
  proof (cases "j' = j")
    case True
    then show ?thesis using k kj by (simp add: ap' view_def)
  next
    case False
    have "ap_reportMap ap j' \<noteq> Some k" using ok kj(2) False by (auto simp: copies_ok_def)
    with False show ?thesis by (auto simp: ap' view_def split: option.splits)
  qed
  ultimately show ?thesis using x v by (intro that [of b']) (auto intro: ext)
qed

subsection \<open>The invariant of one item\<close>

definition key_item :: "ReportState \<Rightarrow> itemAddress \<Rightarrow> UsageSet \<Rightarrow> bool" where
  "key_item r addr us \<longleftrightarrow>
     sets_at r (fst addr) (snd addr) = Some us
     \<and> values_at r (fst addr) (snd addr) = None
     \<and> (\<exists>item. index (DataItemSet_Report (rs_dataItems r) (fst addr)) (snd addr) = Some item
          \<and> \<not> IsRelative (Flags item))
     \<and> (\<forall>usg. usage_addr r usg = Some addr \<longrightarrow> UsageSet_Contains us usg)"

definition keys_counted :: "ReportState \<Rightarrow> itemAddress \<Rightarrow> UsageSet \<Rightarrow> Bits list \<Rightarrow> bool" where
  "keys_counted r addr us flds \<longleftrightarrow>
     snd addr < length flds \<and> flags_inv us (flds ! snd addr)
     \<and> (\<forall>usg. count_at r (fst addr) usg \<ge> 0)
     \<and> active_of (UsageSet_HasUsage us) (flds ! snd addr)
         = {usg. usage_addr r usg = Some addr \<and> count_at r (fst addr) usg > 0}"

lemma count_at_set_count: "set_count r i usg n = Some r' \<Longrightarrow>
    count_at r' j u = (if j = i \<and> u = usg then (case n of None \<Rightarrow> 0 | Some c \<Rightarrow> c) else count_at r j u)"
  by (cases "rs_usageActivations r i"; cases "j = i")
     (auto simp: set_count_def count_at_def nested_def)

lemma count_at_rate_limit [simp]: "count_at (rate_limit env r) = count_at r"
  by (rule ext)+ (simp add: rate_limit_def count_at_def Let_def)

lemma usage_addr_cong:
  "rs_usageSetMap r' = rs_usageSetMap r \<Longrightarrow> rs_usageSetRanges r' = rs_usageSetRanges r \<Longrightarrow>
     usage_addr r' = usage_addr r"
  by (rule ext) (simp add: usage_addr_def getUsageSet_def cong: option.case_cong)

text \<open>One press or release at an address: the counter, and the write to the copies if there is one.\<close>

lemma absolute_step:
  assumes "(if on then activate_absolute env addr k usg (r, ap) else deactivate_absolute env addr k usg (r, ap)) = Some (r', ap')"
  defines "c \<equiv> count_at r (fst addr) usg"
  shows "rs_usageActivations r (fst addr) \<noteq> None
    \<and> count_at r' j u = (if j = fst addr \<and> u = usg then count_step c on else count_at r j u)
    \<and> (if (if on then c = 0 else c \<le> 1)
       then on_field k (snd addr) (set_field_usage r addr on usg) ap = Some ap' else ap' = ap)"
proof -
  have sets: "set_field_usage r1 addr on usg = set_field_usage r addr on usg"
    if "set_count r (fst addr) usg n = Some r1" for r1 n on
    using that by (auto simp: set_field_usage_def sets_at_def set_count_def fun_eq_iff split: option.splits)
  show ?thesis
  proof (cases on)
    case True
    then obtain r1 where r1: "set_count r (fst addr) usg (Some (c + 1)) = Some r1"
      and s: "(if c + 1 = 1 then map_option (\<lambda>ap. (rate_limit env r1, ap)) (on_field k (snd addr) (set_field_usage r1 addr True usg) ap)
               else Some (r1, ap)) = Some (r', ap')"
      using assms by (auto simp: activate_absolute_def count_at_set_count split: option.splits)
    have "rs_usageActivations r (fst addr) \<noteq> None" using r1 by (auto simp: set_count_def split: option.splits)
    then show ?thesis
      using s True sets [OF r1] count_at_set_count [OF r1]
      by (auto simp: count_step_def c_def split: if_splits)
  next
    case False
    then obtain r1 where r1: "set_count r (fst addr) usg (Some (c - 1)) = Some r1"
      and s: "(if c - 1 \<le> 0 then (case on_field k (snd addr) (set_field_usage r1 addr False usg) ap of
                 None \<Rightarrow> None | Some ap \<Rightarrow> map_option (\<lambda>r. (rate_limit env r, ap)) (set_count r1 (fst addr) usg None))
               else Some (r1, ap)) = Some (r', ap')"
      using assms by (auto simp: deactivate_absolute_def count_at_set_count split: option.splits)
    have "rs_usageActivations r (fst addr) \<noteq> None" using r1 by (auto simp: set_count_def split: option.splits)
    then show ?thesis
      using s False sets [OF r1] count_at_set_count [OF r1]
      by (auto simp: count_step_def c_def count_at_set_count split: if_splits option.splits)
  qed
qed

text \<open>The presses and releases of one usage, in the order of the event.\<close>

definition presses :: "Usage \<Rightarrow> UsageEvent list \<Rightarrow> bool list" where
  "presses usg es = map (\<lambda>e. ue_Activate e = Some True)
     (filter (\<lambda>e. ue_Usage e = usg \<and> ue_Activate e \<noteq> None) es)"

definition loop_ok :: "ReportState \<Rightarrow> Applying \<Rightarrow> itemAddress \<Rightarrow> UsageSet \<Rightarrow> bool" where
  "loop_ok r ap addr us \<longleftrightarrow> state_wf r \<and> copies_ok ap \<and> key_item r addr us
     \<and> keys_counted r addr us (view r ap (fst addr))"

lemma frame_key_item:
  assumes "rs_dataItems r' = rs_dataItems r" "rs_usageSets r' = rs_usageSets r"
    "rs_usageValues r' = rs_usageValues r" "usage_addr r' = usage_addr r"
  shows "key_item r' addr us = key_item r addr us"
  using assms by (simp add: key_item_def sets_at_def values_at_def)

lemma view_cong: "rs_reports r' = rs_reports r \<Longrightarrow> view r' = view r"
  by (rule ext)+ (simp only: view_def report_at_def)

text \<open>A write elsewhere, or none.\<close>

lemma keys_counted_elsewhere:
  assumes "keys_counted r addr us flds" "usage_addr r' = usage_addr r"
    "\<And>usg. usage_addr r usg = Some addr \<Longrightarrow> count_at r' (fst addr) usg = count_at r (fst addr) usg"
    "\<And>usg. count_at r' (fst addr) usg \<ge> 0"
    "length flds' = length flds" "flds' ! snd addr = flds ! snd addr"
  shows "keys_counted r' addr us flds'"
  using assms by (auto simp: keys_counted_def)

text \<open>A write to the item: the key it names is set or cleared.\<close>

lemma keys_counted_write:
  assumes inv: "keys_counted r addr us flds" and key: "key_item r addr us" "usage_addr r usg = Some addr"
    and w: "set_field_usage r addr on usg (flds ! snd addr) = Some b'"
    and r': "usage_addr r' = usage_addr r"
      "\<And>u. count_at r' (fst addr) u = (if u = usg then n else count_at r (fst addr) u)"
    and n: "n \<ge> 0" "n > 0 \<longleftrightarrow> on"
  shows "keys_counted r' addr us (flds[snd addr := b'])"
proof -
  have i: "snd addr < length flds" "flags_inv us (flds ! snd addr)" "UsageSet_Contains us usg"
    using inv key by (auto simp: keys_counted_def key_item_def)
  from flags_write [OF i(2,3), of on] w key(1) obtain q where
    b': "flags_inv us b'" "active_of (UsageSet_HasUsage us) b' =
      (if on then insert usg (active_of (UsageSet_HasUsage us) (flds ! snd addr))
       else active_of (UsageSet_HasUsage us) (flds ! snd addr) - {usg})"
    by (auto simp: set_field_usage_def key_item_def split: if_splits)
  show ?thesis
    using inv b' i(1) r' n key(2) by (auto simp: keys_counted_def split: if_splits)
qed

text \<open>A write through a copy, whichever report it is.\<close>

lemma write_view:
  assumes ok: "copies_ok ap" "state_wf r" and g: "ap_getReport r ap j = (k, ap1)"
    and f: "on_field k x f ap1 = Some ap'"
  obtains b' where "x < length (view r ap j)" "f (view r ap j ! x) = Some b'"
    "copies_ok ap'" "view r ap' = (view r ap)(j := (view r ap j)[x := b'])"
proof -
  have "rs_reports r j \<noteq> None"  if "ap_reportMap ap j = None"
    using f g that
    by (auto simp: ap_getReport_def Let_def on_field_def index_def report_at_def emptyReport_def
        split: option.splits if_splits)
  then have "copies_ok ap1 \<and> ap_reportMap ap1 j = Some k \<and> view r ap1 = view r ap"
    using getReport_view [OF ok(1) _ ok(2) g] g ok(1)
    by (cases "ap_reportMap ap j") (auto simp: ap_getReport_def)
  then show ?thesis using on_field_view [OF _ _ f, of j r] that by metis
qed

lemma state_wf_frame:
  assumes "state_wf r" "rs_reports r' = rs_reports r"
    "\<And>j. rs_usageActivations r' j \<noteq> None \<Longrightarrow> rs_usageActivations r j \<noteq> None"
  shows "state_wf r'"
  using assms by (auto simp: state_wf_def)

lemma apply_usage_event_activations:
  "apply_usage_event env (r, ap) e = Some (r', ap') \<Longrightarrow>
     rs_usageActivations r' j \<noteq> None \<Longrightarrow> rs_usageActivations r j \<noteq> None"
  by (auto simp: apply_usage_event_def activate_absolute_def deactivate_absolute_def set_count_def
      rate_limit_def Let_def split: option.splits prod.splits if_splits)

text \<open>A press or release: which copy changes, and which counter.\<close>

lemma key_press:
  assumes ok: "copies_ok ap" "state_wf r" and key: "key_addr r e = Some addr"
    and s: "apply_usage_event env (r, ap) e = Some (r', ap')"
  defines "on \<equiv> ue_Activate e = Some True" and "c \<equiv> count_at r (fst addr) (ue_Usage e)"
  shows "copies_ok ap'"
    "count_at r' j u = (if j = fst addr \<and> u = ue_Usage e then count_step c on else count_at r j u)"
    "if (if on then c = 0 else c \<le> 1)
     then \<exists>b'. snd addr < length (view r ap (fst addr))
       \<and> set_field_usage r addr on (ue_Usage e) (view r ap (fst addr) ! snd addr) = Some b'
       \<and> view r ap' = (view r ap)(fst addr := (view r ap (fst addr))[snd addr := b'])
     else view r ap' = view r ap"
proof -
  obtain k ap1 where g: "ap_getReport r ap (fst addr) = (k, ap1)" by fastforce
  from s have s': "(if on then activate_absolute env addr k (ue_Usage e) (r, ap1)
      else deactivate_absolute env addr k (ue_Usage e) (r, ap1)) = Some (r', ap')"
    by (simp add: apply_usage_event_key [OF key] g on_def)
  note st = absolute_step [OF s', folded c_def]
  have rep: "rs_reports r (fst addr) \<noteq> None" using st ok(2) by (simp add: state_wf_def)
  note g' = getReport_view [OF ok(1) rep ok(2) g]
  show "count_at r' j u = (if j = fst addr \<and> u = ue_Usage e then count_step c on else count_at r j u)"
    using st by blast
  show "copies_ok ap'"
  proof (cases "if on then c = 0 else c \<le> 1")
    case True
    then have "on_field k (snd addr) (set_field_usage r addr on (ue_Usage e)) ap1 = Some ap'" using st by simp
    then show ?thesis by (rule write_view [OF ok g])
  next
    case False
    then show ?thesis using st g' by simp
  qed
  show "if (if on then c = 0 else c \<le> 1)
     then \<exists>b'. snd addr < length (view r ap (fst addr))
       \<and> set_field_usage r addr on (ue_Usage e) (view r ap (fst addr) ! snd addr) = Some b'
       \<and> view r ap' = (view r ap)(fst addr := (view r ap (fst addr))[snd addr := b'])
     else view r ap' = view r ap"
  proof (cases "if on then c = 0 else c \<le> 1")
    case True
    then have "on_field k (snd addr) (set_field_usage r addr on (ue_Usage e)) ap1 = Some ap'" using st by simp
    then show ?thesis using True by (auto elim!: write_view [OF ok g])
  next
    case False
    then show ?thesis using st g' by simp
  qed
qed

text \<open>Every other usage event leaves the counters alone and writes to one field at most.\<close>

lemma other_event:
  assumes ok: "copies_ok ap" "state_wf r" and key: "key_addr r e = None"
    and s: "apply_usage_event env (r, ap) e = Some (r', ap')"
  shows "r' = r" "copies_ok ap' \<and> (view r ap' = view r ap \<or>
    (\<exists>addr b'. event_addr r e = Some addr \<and> view r ap' = (view r ap)(fst addr := (view r ap (fst addr))[snd addr := b'])))"
proof -
  show r': "r' = r" by (rule apply_usage_event_other [OF key s])
  show "copies_ok ap' \<and> (view r ap' = view r ap \<or>
    (\<exists>addr b'. event_addr r e = Some addr \<and> view r ap' = (view r ap)(fst addr := (view r ap (fst addr))[snd addr := b'])))"
  proof (cases "event_addr r e")
    case None
    then show ?thesis using s ok by (simp add: apply_usage_event_def)
  next
    case (Some addr)
    obtain k ap1 where g: "ap_getReport r ap (fst addr) = (k, ap1)" by fastforce
    have "\<exists>f. on_field k (snd addr) f ap1 = Some ap'"
      using s Some key g
      by (auto simp: apply_usage_event_def key_addr_def event_addr_def Let_def
          split: option.splits if_splits)
    then obtain f where "on_field k (snd addr) f ap1 = Some ap'" by blast
    then show ?thesis using Some by (auto elim!: write_view [OF ok g])
  qed
qed

lemma key_addr_item: "key_item r addr us \<Longrightarrow> event_addr r e = Some addr \<Longrightarrow> ue_Activate e \<noteq> None \<Longrightarrow> key_addr r e = Some addr"
  by (auto simp: key_item_def key_addr_def event_addr_def)

lemma key_addr_event: "key_addr r e = Some addr \<Longrightarrow> event_addr r e = Some addr \<and> usage_addr r (ue_Usage e) = Some addr"
  by (auto simp: key_addr_def event_addr_def split: option.splits if_splits)

lemma value_event_elsewhere:
  assumes "key_item r addr us" "apply_usage_event env (r, ap) e = Some st" "ue_Activate e = None"
  shows "event_addr r e \<noteq> Some addr"
proof
  assume a: "event_addr r e = Some addr"
  have "on_field k (snd addr) (add_field_value r addr usg d) ap1 = None"
    "on_field k (snd addr) (set_field_value r addr usg d) ap1 = None" for k usg d ap1
    using assms(1) by (auto simp: on_field_def add_field_value_def set_field_value_def key_item_def split: option.splits)
  moreover have "ue_Delta e \<noteq> None \<or> ue_Value e \<noteq> None"
    using a assms(3) by (auto simp: event_addr_def Let_def split: if_splits)
  ultimately show False
    using assms a by (auto simp: apply_usage_event_def Let_def split: option.splits prod.splits)
qed

lemma presses_simps [simp]:
  "presses usg [] = []"
  "presses usg (e # es) = (if ue_Usage e = usg \<and> ue_Activate e \<noteq> None
     then (ue_Activate e = Some True) # presses usg es else presses usg es)"
  by (simp_all add: presses_def)

lemma key_step:
  assumes ok: "loop_ok r ap addr us" and s: "apply_usage_event env (r, ap) e = Some (r', ap')"
  shows "loop_ok r' ap' addr us" "usage_addr r' = usage_addr r"
    "usage_addr r usg = Some addr \<Longrightarrow>
       count_at r' (fst addr) usg = fold (\<lambda>on n. count_step n on) (presses usg [e]) (count_at r (fst addr) usg)"
proof -
  note fr = apply_usage_event_frame [OF s]
  have wf: "copies_ok ap" "state_wf r" and item: "key_item r addr us"
    and keys: "keys_counted r addr us (view r ap (fst addr))"
    using ok by (auto simp: loop_ok_def)
  show ua: "usage_addr r' = usage_addr r" using fr by (intro usage_addr_cong) auto
  have item': "key_item r' addr us" using item fr ua frame_key_item [of r' r] by blast
  have wf': "state_wf r'"
    using state_wf_frame [OF wf(2)] fr apply_usage_event_activations [OF s] by blast
  have view': "view r' ap' = view r ap'" using fr view_cong [of r' r] by simp
  have nonneg: "count_at r (fst addr) u \<ge> 0" for u using keys by (simp add: keys_counted_def)
  have main: "copies_ok ap' \<and> keys_counted r' addr us (view r ap' (fst addr)) \<and>
    (usage_addr r usg = Some addr \<longrightarrow>
       count_at r' (fst addr) usg = fold (\<lambda>on n. count_step n on) (presses usg [e]) (count_at r (fst addr) usg))"
  proof (cases "key_addr r e")
    case None
    note o = other_event [OF wf None s]
    have ne: "event_addr r e \<noteq> Some addr"
      using key_addr_item [OF item] value_event_elsewhere [OF item s] None by force
    have flds: "length (view r ap' (fst addr)) = length (view r ap (fst addr))"
      "view r ap' (fst addr) ! snd addr = view r ap (fst addr) ! snd addr"
      using o(2) ne by (auto simp: prod_eq_iff nth_list_update)
    have "ue_Usage e = usg \<and> usage_addr r usg = Some addr \<Longrightarrow> ue_Activate e = None"
      using ne by (cases "ue_Activate e") (auto simp: event_addr_def)
    then show ?thesis
      using o keys_counted_elsewhere [OF keys ua _ _ flds] nonneg by auto
  next
    case (Some addr')
    note k = key_press [OF wf Some s] and a = key_addr_event [OF Some]
    have act: "ue_Activate e \<noteq> None" using Some by (cases "ue_Activate e") (simp_all add: key_addr_def)
    show ?thesis
    proof (cases "addr' = addr")
      case False
      have flds: "length (view r ap' (fst addr)) = length (view r ap (fst addr))"
        "view r ap' (fst addr) ! snd addr = view r ap (fst addr) ! snd addr"
        using k(3) False by (auto simp: prod_eq_iff nth_list_update split: if_splits)
      have cnt: "count_at r' (fst addr) u \<ge> 0" for u
        using k(2) [of "fst addr" u] nonneg [of u] by (auto intro: count_step_nonneg)
      have same: "count_at r' (fst addr) u = count_at r (fst addr) u" if "usage_addr r u = Some addr" for u
        using k(2) [of "fst addr" u] a False that by auto
      have "ue_Usage e \<noteq> usg" if "usage_addr r usg = Some addr" using that a False by auto
      then show ?thesis
        using k(1) keys_counted_elsewhere [OF keys ua same cnt flds] same by auto
    next
      case True
      let ?on = "ue_Activate e = Some True" and ?c = "count_at r (fst addr) (ue_Usage e)"
      note k = k [unfolded True] and a = a [unfolded True]
      have cnt: "count_at r' (fst addr) u = (if u = ue_Usage e then count_step ?c ?on else count_at r (fst addr) u)" for u
        using k(2) by simp
      have "keys_counted r' addr us (view r ap' (fst addr))"
      proof (cases "if ?on then ?c = 0 else ?c \<le> 1")
        case True
        from k(3) [unfolded if_P [OF True]] obtain b' where b': "set_field_usage r addr ?on (ue_Usage e) (view r ap (fst addr) ! snd addr) = Some b'"
          "view r ap' = (view r ap)(fst addr := (view r ap (fst addr))[snd addr := b'])"
          by blast
        have "count_step ?c ?on > 0 \<longleftrightarrow> ?on" using True nonneg by (auto simp: count_step_def split: if_splits)
        with keys_counted_write [OF keys item _ b'(1) ua cnt count_step_nonneg [OF nonneg]] a b'(2)
        show ?thesis by simp
      next
        case False
        note v = k(3) [unfolded if_not_P [OF False]]
        have "count_step ?c ?on > 0 \<longleftrightarrow> ?c > 0" using False nonneg [of "ue_Usage e"] by (auto simp: count_step_def split: if_splits)
        moreover have "count_at r' (fst addr) u \<ge> 0" for u
          using cnt [of u] nonneg [of u] by (auto intro: count_step_nonneg)
        ultimately show ?thesis
          using keys cnt unfolding v keys_counted_def ua by auto
      qed
      then show ?thesis using k(1) cnt act by auto
    qed
  qed
  show "loop_ok r' ap' addr us" using main wf' item' by (simp add: loop_ok_def view')
  show "usage_addr r usg = Some addr \<Longrightarrow>
       count_at r' (fst addr) usg = fold (\<lambda>on n. count_step n on) (presses usg [e]) (count_at r (fst addr) usg)"
    using main by blast
qed

subsection \<open>A whole event\<close>

lemma key_loop:
  "loop_ok r ap addr us \<Longrightarrow> fold_opt (apply_usage_event env) es (r, ap) = Some (r', ap') \<Longrightarrow>
     loop_ok r' ap' addr us \<and> usage_addr r' = usage_addr r \<and>
     (\<forall>usg. usage_addr r usg = Some addr \<longrightarrow>
        count_at r' (fst addr) usg = fold (\<lambda>on n. count_step n on) (presses usg es) (count_at r (fst addr) usg))"
proof (induction es arbitrary: r ap)
  case (Cons e es)
  obtain r1 ap1 where s: "apply_usage_event env (r, ap) e = Some (r1, ap1)"
    and rest: "fold_opt (apply_usage_event env) es (r1, ap1) = Some (r', ap')"
    using Cons.prems(2) by (auto split: option.splits)
  note k = key_step [OF Cons.prems(1) s]
  note ih = Cons.IH [OF k(1) rest]
  have "presses usg (e # es) = presses usg [e] @ presses usg es" for usg by simp
  then show ?case using ih k(2,3) by (metis fold_append o_apply)
qed simp

text \<open>The stored reports after the last loop.\<close>

lemma store_reports:
  assumes "distinct (map report_ID reps)" "fold_opt store_report reps (r, out) = Some (r', out')"
  shows "rs_usageActivations r' = rs_usageActivations r \<and> rs_dataItems r' = rs_dataItems r
    \<and> rs_usageSets r' = rs_usageSets r \<and> rs_usageValues r' = rs_usageValues r
    \<and> rs_usageSetRanges r' = rs_usageSetRanges r \<and> rs_usageSetMap r' = rs_usageSetMap r
    \<and> (\<forall>j. j \<notin> report_ID ` set reps \<longrightarrow> rs_reports r' j = rs_reports r j)
    \<and> (\<forall>rep \<in> set reps. \<exists>rep'. stripRelativeValues r (Report_Clone rep) = Some rep'
          \<and> rs_reports r' (report_ID rep) = Some rep')"
  using assms
proof (induction reps arbitrary: r out)
  case (Cons rep reps)
  from Cons.prems(2) obtain st1 where "store_report (r, out) rep = Some st1"
    and rest1: "fold_opt store_report reps st1 = Some (r', out')" by (auto split: option.splits)
  then obtain rep' out1 where st: "stripRelativeValues r (Report_Clone rep) = Some rep'"
    and "st1 = (r\<lparr>rs_reports := (rs_reports r)(report_ID rep \<mapsto> rep')\<rparr>, out1)"
    by (auto simp: store_report_def split: option.splits)
  with rest1 have rest: "fold_opt store_report reps (r\<lparr>rs_reports := (rs_reports r)(report_ID rep \<mapsto> rep')\<rparr>, out1) = Some (r', out')"
    by simp
  have "stripRelativeValues (r\<lparr>rs_reports := m\<rparr>) = stripRelativeValues r" for m
    by (rule strip_cong) simp
  with Cons.IH [OF _ rest] Cons.prems(1) st show ?case by auto
qed simp

lemma strip_keeps:
  assumes "stripRelativeValues r rep = Some rep'"
    "index (DataItemSet_Report (rs_dataItems r) (report_ID rep)) x = Some item" "\<not> IsRelative (Flags item)"
  shows "length (report_Fields rep') = length (report_Fields rep)"
    "x < length (report_Fields rep) \<Longrightarrow> report_Fields rep' ! x = report_Fields rep ! x"
proof -
  have *: "strip_loop items i flds = Some flds' \<Longrightarrow> index items (x - i) = Some item \<Longrightarrow> i \<le> x \<Longrightarrow>
    x < length flds \<Longrightarrow> flds' ! x = flds ! x" for items i flds flds'
  proof (induction items arbitrary: i flds)
    case (Cons d items)
    show ?case
    proof (cases "i = x")
      case True
      then have "strip_loop items (Suc i) flds = Some flds'" using Cons.prems assms(3) by (simp add: index_def)
      then show ?thesis using strip_loop_empty True by blast
    next
      case False
      then have "index items (x - Suc i) = Some item" "Suc i \<le> x"
        using Cons.prems by (auto simp: index_def nth_Cons' split: if_splits)
      then show ?thesis using Cons.IH Cons.prems False by (auto split: if_splits option.splits)
    qed
  qed (simp add: index_def)
  show "length (report_Fields rep') = length (report_Fields rep)"
    using assms(1) strip_loop_empty by (fastforce simp: stripRelativeValues_def)
  show "x < length (report_Fields rep) \<Longrightarrow> report_Fields rep' ! x = report_Fields rep ! x"
    using assms * [of _ 0] by (auto simp: stripRelativeValues_def)
qed

definition keys_ok :: "ReportState \<Rightarrow> itemAddress \<Rightarrow> UsageSet \<Rightarrow> bool" where
  "keys_ok r addr us \<longleftrightarrow> state_wf r \<and> key_item r addr us
     \<and> keys_counted r addr us (report_Fields (report_at r (fst addr)))"

lemma ApplyEvent_keys_ok:
  assumes ok: "keys_ok r addr us" and s: "ApplyEvent env r e = Some (out, r')"
  shows "keys_ok r' addr us" "usage_addr r' = usage_addr r"
    "usage_addr r usg = Some addr \<Longrightarrow>
       count_at r' (fst addr) usg = fold (\<lambda>on n. count_step n on) (presses usg (Event_Usages e)) (count_at r (fst addr) usg)"
proof -
  let ?ap0 = "\<lparr>ap_reports = [], ap_reportMap = Map.empty\<rparr>"
  from s obtain r1 ap where loop: "fold_opt (apply_usage_event env) (Event_Usages e) (r, ?ap0) = Some (r1, ap)"
    and st: "fold_opt store_report (ap_reports ap) (r1, []) = Some (r', out)"
    by (auto simp: ApplyEvent_def split: option.splits prod.splits)
  have "loop_ok r ?ap0 addr us" using ok by (simp add: loop_ok_def keys_ok_def copies_ok_def view_def)
  note lp = key_loop [OF this loop]
  then have wf: "state_wf r1" "copies_ok ap" and item: "key_item r1 addr us"
    and keys: "keys_counted r1 addr us (view r1 ap (fst addr))" by (auto simp: loop_ok_def)
  have "distinct (map report_ID (ap_reports ap))"
    using wf(2) by (auto simp: copies_ok_def distinct_conv_nth) (metis option.inject)
  note sr = store_reports [OF this st]
  show ua: "usage_addr r' = usage_addr r"
    using sr lp usage_addr_cong [of r' r1] by simp
  have cnt: "count_at r' = count_at r1" using sr by (intro ext) (simp add: count_at_def)
  show "usage_addr r usg = Some addr \<Longrightarrow>
       count_at r' (fst addr) usg = fold (\<lambda>on n. count_step n on) (presses usg (Event_Usages e)) (count_at r (fst addr) usg)"
    using lp cnt by simp
  have item': "key_item r' addr us"
    using item sr frame_key_item [of r' r1] ua lp by auto
  have ids: "report_ID rep' = report_ID rep" if "stripRelativeValues r1 (Report_Clone rep) = Some rep'" for rep rep'
    using strip_relative_empty [OF that] by (simp add: Report_Clone_def)
  have wf': "state_wf r'"
    unfolding state_wf_def
  proof (intro conjI allI impI)
    fix j rep assume j: "rs_reports r' j = Some rep"
    show "report_ID rep = j"
      using sr j ids wf(1) unfolding state_wf_def by (cases "j \<in> report_ID ` set (ap_reports ap)") fastforce+
  next
    fix j assume "rs_usageActivations r' j \<noteq> None"
    then show "rs_reports r' j \<noteq> None"
      using sr wf(1) unfolding state_wf_def by (cases "j \<in> report_ID ` set (ap_reports ap)") fastforce+
  qed
  let ?f = "view r1 ap (fst addr)" and ?f' = "report_Fields (report_at r' (fst addr))"
  have x: "snd addr < length ?f" using keys by (simp add: keys_counted_def)
  have "length ?f' = length ?f \<and> ?f' ! snd addr = ?f ! snd addr"
  proof (cases "ap_reportMap ap (fst addr)")
    case None
    then have "fst addr \<notin> report_ID ` set (ap_reports ap)"
      using wf(2) by (auto simp: copies_ok_def in_set_conv_nth) (metis option.distinct(1))
    then show ?thesis using sr None by (simp add: view_def report_at_def)
  next
    case (Some k)
    then have k: "k < length (ap_reports ap)" "report_ID (ap_reports ap ! k) = fst addr"
      using wf(2) by (auto simp: copies_ok_def)
    then obtain rep' where rep': "stripRelativeValues r1 (Report_Clone (ap_reports ap ! k)) = Some rep'"
      "rs_reports r' (fst addr) = Some rep'" using sr by fastforce
    from item obtain it where it: "index (DataItemSet_Report (rs_dataItems r1) (report_ID (Report_Clone (ap_reports ap ! k)))) (snd addr) = Some it"
      "\<not> IsRelative (Flags it)" using k(2) by (auto simp: key_item_def Report_Clone_def)
    have clone: "map Bits_Clone fs = fs" for fs by (induction fs) (simp_all add: Bits_Clone_def)
    show ?thesis
      using strip_keeps [OF rep'(1) it] rep'(2) x Some by (simp add: view_def report_at_def Report_Clone_def clone)
  qed
  moreover have "keys_counted r' addr us ?f"
    using keys cnt ua lp by (simp add: keys_counted_def)
  ultimately have "keys_counted r' addr us ?f'" by (auto simp: keys_counted_def)
  with wf' item' show "keys_ok r' addr us" by (simp add: keys_ok_def)
qed

end
