(* ===== verification/KeyTotal.thy ===== *)
theory KeyTotal
  imports KeyState
begin

section \<open>Key events do not panic (hidapi/state.go)\<close>

text \<open>
  \<open>ApplyEvent\<close> on presses and releases of keys of one item returns reports: the counters of the
  report exist, its fields are complete and well-formed, and both stay so.
\<close>

definition fields_complete :: "ReportState \<Rightarrow> u8 \<Rightarrow> Bits list \<Rightarrow> bool" where
  "fields_complete r j flds \<longleftrightarrow>
     length flds = length (DataItemSet_Report (rs_dataItems r) j) \<and> (\<forall>f \<in> set flds. bits_wf f)"

definition keys_total :: "ReportState \<Rightarrow> itemAddress \<Rightarrow> bool" where
  "keys_total r addr \<longleftrightarrow> rs_usageActivations r (fst addr) \<noteq> None
     \<and> fields_complete r (fst addr) (report_Fields (report_at r (fst addr)))"

text \<open>The same in the middle of an event.\<close>

definition loop_total :: "ReportState \<Rightarrow> Applying \<Rightarrow> itemAddress \<Rightarrow> bool" where
  "loop_total r ap addr \<longleftrightarrow> rs_usageActivations r (fst addr) \<noteq> None
     \<and> (\<forall>j k. ap_reportMap ap j = Some k \<longrightarrow> j = fst addr) \<and> fields_complete r (fst addr) (view r ap (fst addr))"

definition key_only :: "ReportState \<Rightarrow> itemAddress \<Rightarrow> UsageEvent \<Rightarrow> bool" where
  "key_only r addr e \<longleftrightarrow> ue_Activate e \<noteq> None \<and> (usage_addr r (ue_Usage e) = None \<or> usage_addr r (ue_Usage e) = Some addr)"

lemma set_count_total: "rs_usageActivations r i \<noteq> None \<Longrightarrow> \<exists>r'. set_count r i usg n = Some r'
    \<and> rs_usageActivations r' i \<noteq> None \<and> sets_at r' = sets_at r"
  by (auto simp: set_count_def sets_at_def)

lemma on_field_total:
  assumes "copies_ok ap" "ap_reportMap ap j = Some k" "x < length (view r ap j)" "f (view r ap j ! x) \<noteq> None"
  shows "\<exists>ap'. on_field k x f ap = Some ap' \<and> ap_reportMap ap' = ap_reportMap ap"
proof -
  have k: "k < length (ap_reports ap)" "report_ID (ap_reports ap ! k) = j" using assms(1,2) by (auto simp: copies_ok_def)
  have v: "view r ap j = report_Fields (ap_reports ap ! k)" using assms(2) by (simp add: view_def)
  obtain z where "f (view r ap j ! x) = Some z" using assms(4) by blast
  then show ?thesis using k(1) assms(3) by (simp add: on_field_def index_def v)
qed

lemma absolute_total:
  assumes "copies_ok ap" "ap_reportMap ap (fst addr) = Some k" "snd addr < length (view r ap (fst addr))"
    "\<And>on. set_field_usage r addr on usg (view r ap (fst addr) ! snd addr) \<noteq> None"
    "rs_usageActivations r (fst addr) \<noteq> None"
  shows "\<exists>r' ap'. (if on then activate_absolute env addr k usg (r, ap) else deactivate_absolute env addr k usg (r, ap)) = Some (r', ap')
    \<and> rs_usageActivations r' (fst addr) \<noteq> None \<and> ap_reportMap ap' = ap_reportMap ap"
proof -
  have fld: "\<exists>ap'. on_field k (snd addr) (set_field_usage r' addr b usg) ap = Some ap' \<and> ap_reportMap ap' = ap_reportMap ap"
    if "sets_at r' = sets_at r" for r' b
  proof -
    have "set_field_usage r' addr b usg = set_field_usage r addr b usg" by (intro ext) (simp add: set_field_usage_def that)
    then show ?thesis using on_field_total [OF assms(1-3), of "set_field_usage r addr b usg"] assms(4) [of b] by simp
  qed
  obtain m where m: "rs_usageActivations r (fst addr) = Some m" using assms(5) by blast
  have sets: "sets_at (r\<lparr>rs_usageActivations := A\<rparr>) = sets_at r" for A by (simp add: sets_at_def)
  obtain X where "\<forall>A b. on_field k (snd addr) (set_field_usage (r\<lparr>rs_usageActivations := A\<rparr>) addr b usg) ap = Some (X A b)
      \<and> ap_reportMap (X A b) = ap_reportMap ap"
    using fld [OF sets] by metis
  then show ?thesis
    by (auto simp: activate_absolute_def deactivate_absolute_def set_count_def m rate_limit_def Let_def)
qed

lemma key_step_total:
  assumes ok: "loop_ok r ap addr us" and total: "loop_total r ap addr" and e: "key_only r addr e"
  shows "\<exists>r' ap'. apply_usage_event env (r, ap) e = Some (r', ap') \<and> loop_total r' ap' addr"
proof (cases "usage_addr r (ue_Usage e)")
  case None
  then show ?thesis using e total by (simp add: apply_usage_event_def event_addr_def key_only_def)
next
  case (Some a)
  then have a: "usage_addr r (ue_Usage e) = Some addr" and act: "ue_Activate e \<noteq> None" using e by (auto simp: key_only_def)
  have wf: "copies_ok ap" "state_wf r" and item: "key_item r addr us" and keys: "keys_counted r addr us (view r ap (fst addr))"
    using ok by (auto simp: loop_ok_def)
  have key: "key_addr r e = Some addr" using key_addr_item [OF item] a act by (simp add: event_addr_def)
  obtain k ap1 where g: "ap_getReport r ap (fst addr) = (k, ap1)" by fastforce
  have "rs_reports r (fst addr) \<noteq> None" using total wf(2) by (simp add: loop_total_def state_wf_def)
  note g' = getReport_view [OF wf(1) this wf(2) g]
  have fl: "snd addr < length (view r ap (fst addr))" "flags_inv us (view r ap (fst addr) ! snd addr)" "UsageSet_Contains us (ue_Usage e)"
    using keys item a by (auto simp: keys_counted_def key_item_def)
  have sets: "set_field_usage r addr on (ue_Usage e) (view r ap (fst addr) ! snd addr) \<noteq> None" for on
    using flags_write [OF fl(2,3), of on] item by (auto simp: set_field_usage_def key_item_def split: if_splits)
  have act': "rs_usageActivations r (fst addr) \<noteq> None" using total by (simp add: loop_total_def)
  obtain r' ap' where s: "apply_usage_event env (r, ap) e = Some (r', ap')"
    and ra: "rs_usageActivations r' (fst addr) \<noteq> None" and rm: "ap_reportMap ap' = ap_reportMap ap1"
    using absolute_total [of ap1 addr k r "ue_Usage e" "ue_Activate e = Some True" env] g' fl(1) sets act'
    by (auto simp: apply_usage_event_key [OF key] g)
  have "\<forall>j k. ap_reportMap ap j = Some k \<longrightarrow> j = fst addr" using total by (simp add: loop_total_def)
  moreover have "ap_reportMap ap1 = ap_reportMap ap \<or> (\<exists>j. ap_reportMap ap1 = (ap_reportMap ap)(fst addr \<mapsto> j))"
    using g by (auto simp: ap_getReport_def Let_def split: option.splits)
  ultimately have "\<forall>j k. ap_reportMap ap1 j = Some k \<longrightarrow> j = fst addr" by (auto split: if_splits)
  moreover have "fields_complete r (fst addr) (view r ap' (fst addr))"
  proof -
    have f: "fields_complete r (fst addr) (view r ap (fst addr))" using total by (simp add: loop_total_def)
    have wfb: "bits_wf b'" if "set_field_usage r addr on (ue_Usage e) (view r ap (fst addr) ! snd addr) = Some b'" for on b'
      using flags_write [OF fl(2,3), of on] item that flags_inv_wf
      by (auto simp: set_field_usage_def key_item_def split: if_splits)
    show ?thesis
    proof (cases "view r ap' = view r ap")
      case False
      then obtain b' on where "set_field_usage r addr on (ue_Usage e) (view r ap (fst addr) ! snd addr) = Some b'"
        "view r ap' (fst addr) = (view r ap (fst addr))[snd addr := b']"
        using key_press(3) [OF wf key s] by (metis fun_upd_same)
      then show ?thesis
        using f wfb set_update_subset_insert [of "view r ap (fst addr)" "snd addr" b'] by (auto simp: fields_complete_def)
    qed (use f in simp)
  qed
  moreover have "rs_dataItems r' = rs_dataItems r" "view r' ap' = view r ap'"
    using apply_usage_event_frame [OF s] view_cong [of r' r] by simp_all
  ultimately show ?thesis using s ra rm by (auto simp: loop_total_def fields_complete_def)
qed

lemma key_loop_total:
  "loop_ok r ap addr us \<Longrightarrow> loop_total r ap addr \<Longrightarrow> \<forall>e \<in> set es. key_only r addr e \<Longrightarrow>
     \<exists>r' ap'. fold_opt (apply_usage_event env) es (r, ap) = Some (r', ap') \<and> loop_total r' ap' addr"
proof (induction es arbitrary: r ap)
  case (Cons e es)
  obtain r1 ap1 where s: "apply_usage_event env (r, ap) e = Some (r1, ap1)" "loop_total r1 ap1 addr"
    using key_step_total [OF Cons.prems(1,2), of e env] Cons.prems(3) by auto
  note k = key_step(1,2) [OF Cons.prems(1) s(1)]
  have "\<forall>e \<in> set es. key_only r1 addr e" using Cons.prems(3) k(2) by (simp add: key_only_def)
  from Cons.IH [OF k(1) s(2) this] s(1) show ?case by auto
qed simp

lemma strip_total:
  assumes "fields_complete r (report_ID rep) (report_Fields rep)"
  shows "\<exists>rep'. stripRelativeValues r (Report_Clone rep) = Some rep' \<and> report_ID rep' = report_ID rep
    \<and> fields_complete r (report_ID rep) (report_Fields rep')"
proof -
  have clone: "map Bits_Clone fs = fs" for fs by (induction fs) (simp_all add: Bits_Clone_def)
  have len: "0 + length (DataItemSet_Report (rs_dataItems r) (report_ID rep)) \<le> length (report_Fields rep)"
    and wf: "\<forall>f \<in> set (report_Fields rep). bits_wf f"
    using assms by (simp_all add: fields_complete_def)
  obtain flds' where f: "strip_loop (DataItemSet_Report (rs_dataItems r) (report_ID rep)) 0 (report_Fields rep) = Some flds'"
    "length flds' = length (report_Fields rep)"
    "\<forall>k < length (report_Fields rep). flds' ! k = snd (Bits_ClearAll (report_Fields rep ! k)) \<or> flds' ! k = report_Fields rep ! k"
    using strip_loop_Some [OF len] by (metis (no_types, lifting))
  have "bits_wf (snd (Bits_ClearAll b))" if "bits_wf b" for b
    using that ClearAll_shape [of b] by (auto simp: bits_wf_def simp flip: length_greater_0_conv)
  then have "\<forall>f \<in> set flds'. bits_wf f"
    using f(2,3) wf by (metis in_set_conv_nth)
  then show ?thesis
    using f(1,2) assms by (auto simp: stripRelativeValues_def Report_Clone_def clone fields_complete_def)
qed

lemma ApplyEvent_total:
  assumes ok: "keys_ok r addr us" and total: "keys_total r addr" and e: "\<forall>e \<in> set (Event_Usages ev). key_only r addr e"
  shows "\<exists>sent r'. ApplyEvent env r ev = Some (sent, r') \<and> keys_total r' addr"
proof -
  let ?ap0 = "\<lparr>ap_reports = [], ap_reportMap = Map.empty\<rparr>"
  have ok0: "loop_ok r ?ap0 addr us" using ok by (simp add: loop_ok_def keys_ok_def copies_ok_def view_def)
  have t0: "loop_total r ?ap0 addr" using total by (simp add: loop_total_def keys_total_def view_def)
  obtain r1 ap where loop: "fold_opt (apply_usage_event env) (Event_Usages ev) (r, ?ap0) = Some (r1, ap)" and t1: "loop_total r1 ap addr"
    using key_loop_total [OF ok0 t0 e] by blast
  have ok1: "loop_ok r1 ap addr us" using key_loop [OF ok0 loop] by simp
  then have cp: "copies_ok ap" by (simp add: loop_ok_def)
  have one: "report_ID rep = fst addr \<and> report_Fields rep = view r1 ap (fst addr)" if "rep \<in> set (ap_reports ap)" for rep
  proof -
    obtain k where "k < length (ap_reports ap)" "ap_reports ap ! k = rep" using \<open>rep \<in> set (ap_reports ap)\<close> by (auto simp: in_set_conv_nth)
    then have "ap_reportMap ap (report_ID rep) = Some k" using cp by (simp add: copies_ok_def)
    moreover from this have "report_ID rep = fst addr" using t1 by (auto simp: loop_total_def)
    ultimately show ?thesis using \<open>ap_reports ap ! k = rep\<close> by (simp add: view_def)
  qed
  have store: "\<exists>r' sent'. fold_opt store_report reps (r2, sent) = Some (r', sent') \<and> keys_total r' addr"
    if "set reps \<subseteq> set (ap_reports ap)" "rs_dataItems r2 = rs_dataItems r1" "keys_total r2 addr" for reps r2 sent
    using that
  proof (induction reps arbitrary: r2 sent)
    case (Cons rep reps)
    have fc: "fields_complete r2 (report_ID rep) (report_Fields rep)"
      using one [of rep] Cons.prems t1 by (simp add: loop_total_def fields_complete_def)
    obtain rep' where rep': "stripRelativeValues r2 (Report_Clone rep) = Some rep'" "report_ID rep' = report_ID rep"
      "fields_complete r2 (report_ID rep) (report_Fields rep')" using strip_total [OF fc] by blast
    obtain c where c: "EncodeReport rep = Some c" using EncodeReport_total fc by (auto simp: fields_complete_def)
    let ?r2 = "r2\<lparr>rs_reports := (rs_reports r2)(report_ID rep \<mapsto> rep')\<rparr>"
    have "keys_total ?r2 addr"
      using Cons.prems(3) rep'(3) one [of rep] Cons.prems(1) by (simp add: keys_total_def report_at_def fields_complete_def)
    then show ?case
      using Cons.IH [of ?r2 "sent @ [Bits_Bytes c]"] Cons.prems rep'(1) c by (auto simp: store_report_def)
  qed simp
  have "rs_reports r1 = rs_reports r \<and> rs_dataItems r1 = rs_dataItems r"
    using fold_opt_invariant [OF _ loop, where P = "\<lambda>st. rs_reports (fst st) = rs_reports r \<and> rs_dataItems (fst st) = rs_dataItems r"]
      apply_usage_event_frame by (metis fst_conv prod.collapse)
  then have "keys_total r1 addr"
    using t1 total by (simp add: loop_total_def keys_total_def report_at_def fields_complete_def)
  then show ?thesis using store [of "ap_reports ap" r1 "[]"] loop by (auto simp: ApplyEvent_def)
qed

end
