(* ===== verification/ReportEvents.thy ===== *)
theory ReportEvents
  imports KeyState
begin

section \<open>From reports to events\<close>

text \<open>
  What \<open>ApplyReport\<close> puts into its event: for an item of keys, the presses and releases that lead
  from the last report to the new one. \<open>ApplyEvent\<close> does not panic on events that press and release
  keys.
\<close>

lemma flags_diff:
  assumes "flags_inv us t0" "flags_inv us t1"
  shows "\<exists>a d. UsageSetDiff us t0 t1 = Some (a, d)
    \<and> set a = active_of (UsageSet_HasUsage us) t1 - active_of (UsageSet_HasUsage us) t0
    \<and> set d = active_of (UsageSet_HasUsage us) t0 - active_of (UsageSet_HasUsage us) t1"
proof (cases us)
  case (FlagMap u)
  then obtain p ids where "us = FlagMap (NewUsageFlagMap p ids)" "flag_inv ids t0" "flag_inv ids t1"
    using assms by (auto simp: flags_inv_def)
  then show ?thesis using flag_map.diff_active [of ids t0 t1 p] by (simp add: UsageSetDiff_def)
next
  case (RangeFlags u)
  then obtain p mn mx where u: "us = RangeFlags (NewUsageRangeFlags p mn mx)"
    using range_eta [of u] by metis
  then have "range_inv mn mx t0" "range_inv mn mx t1"
    using assms by (simp_all add: flags_inv_def NewUsageRangeFlags_def)
  then show ?thesis using range_flags.diff_active [of mn mx t0 t1 p] by (simp add: u UsageSetDiff_def)
next
  case (Selector u)
  then show ?thesis using assms(1) by (simp add: flags_inv_def)
qed

text \<open>The event of a key item holds exactly the difference of the two reports.\<close>

lemma item_event_keys:
  assumes s: "sets_at r i idx = Some us" and inv: "flags_inv us t0" "flags_inv us t1" "event_inv e"
  shows "\<exists>e'. item_event r i idx item t0 t1 e = Some e' \<and> event_inv e' \<and>
    (\<forall>u. event_lookup e' u =
       (if u \<in> active_of (UsageSet_HasUsage us) t1 - active_of (UsageSet_HasUsage us) t0 then Some (press u True)
        else if u \<in> active_of (UsageSet_HasUsage us) t0 - active_of (UsageSet_HasUsage us) t1 then Some (press u False)
        else event_lookup e u))"
proof (cases "t1 = t0")
  case True
  then show ?thesis using s inv by (simp add: item_event_def Bits_Equal_iff)
next
  case False
  obtain a d where ad: "UsageSetDiff us t0 t1 = Some (a, d)"
    "set a = active_of (UsageSet_HasUsage us) t1 - active_of (UsageSet_HasUsage us) t0"
    "set d = active_of (UsageSet_HasUsage us) t0 - active_of (UsageSet_HasUsage us) t1"
    using flags_diff [OF inv(1,2)] by blast
  obtain e1 where e1: "Event_Activate e a = Some e1" "event_inv e1"
    "\<forall>u. event_lookup e1 u = (if u \<in> set a then Some (press u True) else event_lookup e u)"
    using Event_Activate_lookup [OF inv(3), of True a] by auto
  obtain e2 where e2: "Event_Deactivate e1 d = Some e2" "event_inv e2"
    "\<forall>u. event_lookup e2 u = (if u \<in> set d then Some (press u False) else event_lookup e1 u)"
    using Event_Activate_lookup [OF e1(2), of False d] by auto
  have "item_event r i idx item t0 t1 e = Some e2"
    using s False ad(1) e1(1) e2(1) by (simp add: item_event_def Bits_Equal_iff)
  then show ?thesis using e1 e2 ad by auto
qed

end
