(* ===== verification/Pipeline.thy ===== *)
theory Pipeline
  imports Bind KeyTotal ReportEvents
begin

section \<open>From an input device through a bind to an output device\<close>

text \<open>
  The composition of the three parts a key press passes: the report state of the input node turns a
  changed field into an event, the bind node replaces a key by others, and the report state of the
  output node turns what the bind sends into reports. The lemmas show that after any sequence of
  reports the keys of the output are those of the input with the replacement applied.
\<close>

subsection \<open>What an event does to a counter\<close>

lemma presses_map_of:
  "distinct (map ue_Usage es) \<Longrightarrow> presses u es =
     (case map_of (map (\<lambda>e. (ue_Usage e, e)) es) u of
        None \<Rightarrow> []
      | Some e \<Rightarrow> (case ue_Activate e of None \<Rightarrow> [] | Some on \<Rightarrow> [on]))"
proof (induction es)
  case (Cons e es)
  have "map_of (map (\<lambda>e. (ue_Usage e, e)) es) (ue_Usage e) = None"
    using Cons.prems by (auto simp: map_of_eq_None_iff image_image)
  then show ?case using Cons by (auto simp: presses_def split: option.splits)
qed (simp add: presses_def)

lemma presses_lookup:
  "event_inv e \<Longrightarrow> presses u (Event_Usages e) =
     (case event_lookup e u of
        None \<Rightarrow> []
      | Some d \<Rightarrow> (case ue_Activate d of None \<Rightarrow> [] | Some on \<Rightarrow> [on]))"
  by (simp add: Event_Usages_def presses_map_of event_inv_distinct event_lookup_map_of)

lemma flags_active_Contains:
  "flags_inv us b \<Longrightarrow> x \<in> active_of (UsageSet_HasUsage us) b \<Longrightarrow> UsageSet_Contains us x"
  by (cases us) (auto simp: flags_inv_def active_of_def UsagFlagMap_HasUsage_def UsageRangeFlags_HasUsage_def
      UsagFlagMap_Contains_def UsageRangeFlags_Contains_def split: option.splits if_splits)

subsection \<open>A bind with one replacement\<close>

definition replaced :: "Usage \<Rightarrow> Usage list \<Rightarrow> (Usage \<rightharpoonup> UsageEvent) \<Rightarrow> (Usage \<rightharpoonup> UsageEvent)" where
  "replaced u vs L = (\<lambda>x. if x = u then None
     else if x \<in> set vs then (case L u of None \<Rightarrow> L x | Some e \<Rightarrow> Some (press x (ue_Activate e = Some True)))
     else L x)"

text \<open>The trigger is held exactly while the key is down; \<open>on\<close> is the key after the event.\<close>

definition follows :: "Usage \<Rightarrow> Usage list \<Rightarrow> bool \<Rightarrow> 'w bindItem \<Rightarrow> bool" where
  "follows u vs on m \<longleftrightarrow> remapped u vs m \<and> bi_triggered m = on
     \<and> counter_of (ua_counters (bi_trigger m)) u = of_bool on"

lemma follows_new: "follows u vs False (new_bindItem [u] (NewToggleActionHandler vs))"
  using remapped_new [of u vs] by (simp add: follows_def new_bindItem_def newUsageActivation_def counter_of_def)

lemma bind_replaces:
  assumes m: "follows u vs was m" and ac: "event_inv ac" and vs: "u \<notin> set vs"
    and key: "event_lookup ac u = (if on = was then None else Some (press u on))"
  shows "\<exists>ac' m'. trigger_item w ac m = Some (w, ac', m') \<and> follows u vs on m' \<and> event_inv ac'
    \<and> event_lookup ac' = replaced u vs (event_lookup ac)"
proof -
  let ?t = "bi_trigger m"
  have r: "item_ok m" "ua_usages ?t = [u]" "bi_handler m = NewToggleActionHandler vs"
    "bi_finalizer m = (if was then Some (toggle_fin vs) else None)" "bi_triggered m = was"
    and c0: "counter_of (ua_counters ?t) u = of_bool was"
    using m by (auto simp: follows_def remapped_def)
  obtain u' ac1 where u': "trigger_Check ?t ac = Some (all_pressed u', u', ac1)" "counters_ok u'" "ua_usages u' = [u]"
    and inv: "event_inv ac1" and cnt: "counter_of (ua_counters u') u = count_event ac u (counter_of (ua_counters ?t) u)"
    and look: "event_lookup ac1 = (if all_pressed ?t \<or> all_pressed u' then event_lookup ac |` (- {u}) else event_lookup ac)"
    using trigger_Check_ok [OF ac, of ?t] r by (auto simp: item_ok_def)
  have c1: "counter_of (ua_counters u') u = of_bool on"
    using cnt c0 key by (auto simp: count_event_def count_step_def split: if_splits)
  have pressed: "all_pressed ?t = was" "all_pressed u' = on"
    using c0 c1 u'(3) r(2) by (simp_all add: all_pressed_def)
  have look1: "event_lookup ac1 x = (if x = u then None else event_lookup ac x)" for x
    using key by (auto simp: look pressed)
  obtain e1 where e1: "NewToggleActionHandler vs w ac1 = Some (w, e1, Some (toggle_fin vs))" "event_inv e1"
    "\<forall>x. event_lookup e1 x = (if x \<in> set vs then Some (press x True) else event_lookup ac1 x)"
    by (rule toggle_on [OF inv])
  obtain e0 where e0: "toggle_fin vs w ac1 = Some (w, e0)" "event_inv e0"
    "\<forall>x. event_lookup e0 x = (if x \<in> set vs then Some (press x False) else event_lookup ac1 x)"
    by (rule toggle_off [OF inv])
  let ?m = "m\<lparr>bi_trigger := u', bi_triggered := on, bi_finalizer := (if on then Some (toggle_fin vs) else None)\<rparr>"
  let ?ac = "if on \<and> \<not> was then e1 else if \<not> on \<and> was then e0 else ac1"
  have s: "trigger_item w ac m = Some (w, ?ac, ?m)"
    using u'(1) r e1(1) e0(1) by (auto simp: trigger_item_def pressed Let_def)
  have "item_ok ?m" using trigger_item_ok [OF r(1) ac s] by simp
  then have "follows u vs on ?m" using r u'(3) c1 by (simp add: follows_def remapped_def)
  moreover have "event_lookup ?ac = replaced u vs (event_lookup ac)"
  proof
    fix x
    show "event_lookup ?ac x = replaced u vs (event_lookup ac) x"
      using e1(3) e0(3) look1 key vs by (auto simp: replaced_def)
  qed
  moreover have "event_inv ?ac" using inv e1(2) e0(2) by simp
  ultimately show ?thesis using s by blast
qed

subsection \<open>One report\<close>

record Remap =
  rm_field :: Bits
  rm_bind :: "unit bindItem"
  rm_output :: ReportState

text \<open>
  A report of the input device with the field \<open>t\<close>: the input node broadcasts the event unless it is
  empty, the bind node sends on what is left of it, and the output node applies that.
\<close>

definition remap_step ::
  "Env \<Rightarrow> ReportState \<Rightarrow> itemAddress \<Rightarrow> DataItem \<Rightarrow> (u16 \<Rightarrow> u16 \<Rightarrow> bool) \<Rightarrow> Remap \<Rightarrow> Bits \<Rightarrow> Remap option" where
  "remap_step env rin a item interrupt p t =
     (case item_event rin (fst a) (snd a) item (rm_field p) t (NewEvent (rs_now rin)) of
        None \<Rightarrow> None
      | Some ev \<Rightarrow>
          if Event_IsEmpty (Some ev) then Some (p\<lparr>rm_field := t\<rparr>)
          else (case bind_event interrupt [rm_bind p] () ev of
                  None \<Rightarrow> None
                | Some (_, ms, _, sent) \<Rightarrow>
                    map_option (\<lambda>r. \<lparr>rm_field = t, rm_bind = hd ms, rm_output = r\<rparr>)
                      (fold_opt (\<lambda>r e. map_option snd (ApplyEvent env r e)) sent (rm_output p))))"

text \<open>How often each key of the output is held: once for itself and once for the replaced key.\<close>

definition held_count :: "Usage \<Rightarrow> Usage list \<Rightarrow> Usage set \<Rightarrow> Usage \<Rightarrow> int" where
  "held_count u vs A x = of_bool (x \<in> A \<and> x \<noteq> u) + of_bool (x \<in> set vs \<and> u \<in> A)"

definition remap_ok :: "UsageSet \<Rightarrow> Usage \<Rightarrow> Usage list \<Rightarrow> itemAddress \<Rightarrow> UsageSet \<Rightarrow> Remap \<Rightarrow> bool" where
  "remap_ok us u vs addr ous p \<longleftrightarrow>
     (let A = active_of (UsageSet_HasUsage us) (rm_field p); r = rm_output p
      in flags_inv us (rm_field p) \<and> follows u vs (u \<in> A) (rm_bind p)
       \<and> keys_ok r addr ous \<and> keys_total r addr
       \<and> (\<forall>x. usage_addr r x = Some addr \<longrightarrow> count_at r (fst addr) x = held_count u vs A x)
       \<and> (\<forall>x. UsageSet_Contains us x \<or> x \<in> set vs \<longrightarrow> usage_addr r x \<in> {None, Some addr}))"

text \<open>The key and its replacements do not change in the same report.\<close>

definition separate :: "UsageSet \<Rightarrow> Usage \<Rightarrow> Usage list \<Rightarrow> Bits \<Rightarrow> Bits \<Rightarrow> bool" where
  "separate us u vs t t' \<longleftrightarrow>
     (let A = active_of (UsageSet_HasUsage us) t; A' = active_of (UsageSet_HasUsage us) t'
      in (u \<in> A) = (u \<in> A') \<or> (\<forall>v \<in> set vs. (v \<in> A) = (v \<in> A')))"

definition changes :: "Usage set \<Rightarrow> Usage set \<Rightarrow> (Usage \<rightharpoonup> UsageEvent)" where
  "changes A A' = (\<lambda>x. if x \<in> A' - A then Some (press x True) else if x \<in> A - A' then Some (press x False) else None)"

lemma held_count_step:
  assumes "u \<notin> set vs" "(u \<in> A) = (u \<in> A') \<or> (\<forall>v \<in> set vs. (v \<in> A) = (v \<in> A'))"
  shows "held_count u vs A' x =
    (case replaced u vs (changes A A') x of
       None \<Rightarrow> held_count u vs A x
     | Some d \<Rightarrow> count_step (held_count u vs A x) (ue_Activate d = Some True))"
  using assms by (auto simp: held_count_def replaced_def changes_def count_step_def)

lemma replaced_presses:
  assumes "replaced u vs (changes A A') x = Some d"
  obtains on where "d = press x on"
  using assms by (auto simp: replaced_def changes_def split: if_splits)

lemma remap_step_ok:
  assumes set: "sets_at rin (fst a) (snd a) = Some us" and u: "u \<notin> set vs"
    and p: "remap_ok us u vs addr ous p" and t: "flags_inv us t" "separate us u vs (rm_field p) t"
  shows "\<exists>p'. remap_step env rin a item interrupt p t = Some p' \<and> remap_ok us u vs addr ous p' \<and> rm_field p' = t
    \<and> usage_addr (rm_output p') = usage_addr (rm_output p)"
proof -
  define A where "A = active_of (UsageSet_HasUsage us) (rm_field p)"
  define A' where "A' = active_of (UsageSet_HasUsage us) t"
  let ?r = "rm_output p"
  have p: "flags_inv us (rm_field p)" "follows u vs (u \<in> A) (rm_bind p)" "keys_ok ?r addr ous" "keys_total ?r addr"
    and cnt: "\<And>x. usage_addr ?r x = Some addr \<Longrightarrow> count_at ?r (fst addr) x = held_count u vs A x"
    and dom: "\<And>x. UsageSet_Contains us x \<or> x \<in> set vs \<Longrightarrow> usage_addr ?r x \<in> {None, Some addr}"
    using p by (auto simp: remap_ok_def Let_def A_def)
  have sep: "(u \<in> A) = (u \<in> A') \<or> (\<forall>v \<in> set vs. (v \<in> A) = (v \<in> A'))"
    using t(2) by (simp add: separate_def Let_def A_def A'_def)
  obtain ev where ev: "item_event rin (fst a) (snd a) item (rm_field p) t (NewEvent (rs_now rin)) = Some ev" "event_inv ev"
    "event_lookup ev = changes A A'"
    using item_event_keys [OF set p(1) t(1) NewEvent_inv(1) [of "rs_now rin"], of item]
    by (auto simp: changes_def A_def A'_def fun_eq_iff)
  obtain ac m' where s: "trigger_item () ev (rm_bind p) = Some ((), ac, m')" and m': "follows u vs (u \<in> A') m'"
    and ac: "event_inv ac" "event_lookup ac = replaced u vs (changes A A')"
  proof -
    have "event_lookup ev u = (if (u \<in> A') = (u \<in> A) then None else Some (press u (u \<in> A')))"
      by (auto simp: ev(3) changes_def)
    from bind_replaces [OF p(2) ev(2) u this, of "()"] show ?thesis using that unfolding ev(3) by blast
  qed
  have count: "held_count u vs A' x =
      fold (\<lambda>on n. count_step n on) (presses x (Event_Usages ac)) (held_count u vs A x)" for x
    unfolding held_count_step [OF u sep] presses_lookup [OF ac(1)] ac(2)
    by (auto elim: replaced_presses split: option.splits)
  show ?thesis
  proof (cases "Event_IsEmpty (Some ev)")
    case True
    then have "changes A A' = Map.empty" using ev(3) Event_IsEmpty_lookup [OF ev(2)] by auto
    then have "A' = A" by (auto simp: changes_def fun_eq_iff split: if_splits)
    then show ?thesis
      using ev(1) True p cnt dom t(1) by (simp add: remap_step_def remap_ok_def Let_def A_def A'_def)
  next
    case False
    let ?sent = "if \<not> Event_IsEmpty (Some ac) then [ac] else []"
    have b: "bind_event interrupt [rm_bind p] () ev = Some ((), [m'], shouldInterrupt interrupt ac, ?sent)"
      using s by (simp add: bind_event_def)
    have only: "\<forall>e \<in> set (Event_Usages ac). key_only ?r addr e"
    proof
      fix e assume "e \<in> set (Event_Usages ac)"
      then have e: "replaced u vs (changes A A') (ue_Usage e) = Some e"
        using event_usages_lookup [OF ac(1), of e] by (simp add: Event_Usages_def ac(2))
      then obtain on where "e = press (ue_Usage e) on" by (rule replaced_presses)
      then have "ue_Activate e \<noteq> None" by (metis press_fields(2) option.distinct(1))
      moreover have "ue_Usage e \<in> set vs \<or> ue_Usage e \<in> A \<union> A'"
        using e by (auto simp: replaced_def changes_def split: if_splits)
      then have "UsageSet_Contains us (ue_Usage e) \<or> ue_Usage e \<in> set vs"
        using flags_active_Contains [OF p(1)] flags_active_Contains [OF t(1)] by (auto simp: A_def A'_def)
      ultimately show "key_only ?r addr e" using dom by (auto simp: key_only_def)
    qed
    obtain r' where r': "fold_opt (\<lambda>r e. map_option snd (ApplyEvent env r e)) ?sent ?r = Some r'"
      "keys_ok r' addr ous" "keys_total r' addr" "usage_addr r' = usage_addr ?r"
      "\<And>x. usage_addr ?r x = Some addr \<Longrightarrow> count_at r' (fst addr) x = held_count u vs A' x"
    proof (cases "Event_IsEmpty (Some ac)")
      case True
      then have "held_count u vs A' x = held_count u vs A x" for x
        using count [of x] Event_IsEmpty_lookup [OF ac(1) True] by (simp add: presses_lookup [OF ac(1)])
      then show ?thesis using that [of ?r] True p(3,4) cnt by simp
    next
      case False
      obtain sent r' where ap: "ApplyEvent env ?r ac = Some (sent, r')" "keys_total r' addr"
        using ApplyEvent_total [OF p(3,4) only] by blast
      then show ?thesis
        using that [of r'] False ApplyEvent_keys_ok [OF p(3) ap(1)] cnt count by simp
    qed
    let ?p = "\<lparr>rm_field = t, rm_bind = m', rm_output = r'\<rparr>"
    have "remap_step env rin a item interrupt p t = Some ?p"
      using ev(1) False b r'(1) by (simp add: remap_step_def)
    moreover have "remap_ok us u vs addr ous ?p"
      using t(1) m' r'(2-) dom by (simp add: remap_ok_def Let_def A'_def)
    ultimately show ?thesis using r'(4) by auto
  qed
qed

lemma remap_run_ok:
  assumes set: "sets_at rin (fst a) (snd a) = Some us" and u: "u \<notin> set vs"
  shows "remap_ok us u vs addr ous p \<Longrightarrow> \<forall>t \<in> set ts. flags_inv us t \<Longrightarrow> successively (separate us u vs) (rm_field p # ts) \<Longrightarrow>
    \<exists>p'. fold_opt (remap_step env rin a item interrupt) ts p = Some p' \<and> remap_ok us u vs addr ous p'
      \<and> rm_field p' = last (rm_field p # ts) \<and> usage_addr (rm_output p') = usage_addr (rm_output p)"
proof (induction ts arbitrary: p)
  case (Cons t ts)
  obtain p1 where p1: "remap_step env rin a item interrupt p t = Some p1" "remap_ok us u vs addr ous p1" "rm_field p1 = t"
    "usage_addr (rm_output p1) = usage_addr (rm_output p)"
    using remap_step_ok [OF set u Cons.prems(1), of t env item interrupt] Cons.prems(2,3) by auto
  with Cons.IH [OF p1(2)] Cons.prems(2,3) show ?case by (auto simp: p1(3))
qed simp

lemma remap_ok_keys:
  assumes "remap_ok us u vs addr ous p"
  shows "active_of (UsageSet_HasUsage ous) (report_Fields (report_at (rm_output p) (fst addr)) ! snd addr) =
    {x. usage_addr (rm_output p) x = Some addr
      \<and> (let A = active_of (UsageSet_HasUsage us) (rm_field p) in x \<in> A \<and> x \<noteq> u \<or> x \<in> set vs \<and> u \<in> A)}"
  using assms by (auto simp: remap_ok_def keys_ok_def keys_counted_def held_count_def Let_def)

end
