(* ===== verification/Mux.thy ===== *)
theory Mux
  imports FlowApi
begin

section \<open>The mux node (components/nodes/mux.go)\<close>

text \<open>
  \<open>Mux\<close> sends events to one of its downstream nodes and remembers where each usage was pressed.
  \<open>Run\<close> is a step on its local variables: \<open>mux_signal\<close> is the branch of a signal, \<open>mux_event\<close> the
  branch of an event, and the inputs of a run are the order in which \<open>select\<close> takes them. The
  messages of a step are in the order of publication; \<open>order\<close> is the order in which Go ranges over
  the map of the deactivations, and \<open>now\<close> the clock reading of the event made for a route. The lemmas
  show that a route holds exactly the usages that were pressed while it was the current one.
\<close>

record Mux =
  mux_defaultRoute :: route
  mux_activatedUsages :: "Usage \<rightharpoonup> route"
  mux_nodeIDs :: "route list"

datatype MuxSignal = muxReset | muxSet route | muxUnset route

text \<open>A node without downstreams is an index error.\<close>

definition mux_CreateNode :: "route list \<Rightarrow> Mux option" where
  "mux_CreateNode downstreams =
     (if downstreams = [] then None
      else Some \<lparr>mux_defaultRoute = downstreams ! (length downstreams - 1),
                 mux_activatedUsages = Map.empty, mux_nodeIDs = downstreams\<rparr>)"

primrec validate_loop :: "route list \<Rightarrow> route \<Rightarrow> bool" where
  "validate_loop [] nodeID = False"
| "validate_loop (i # ids) nodeID = (if i = nodeID then True else validate_loop ids nodeID)"

definition mux_validateNode :: "Mux \<Rightarrow> route \<Rightarrow> (string, unit) outcome" where
  "mux_validateNode m nodeID =
     (if validate_loop (mux_nodeIDs m) nodeID then Ret () else Fail ''not a downstream node'')"

text \<open>\<open>unmarshal\<close> is the YAML library's, on a configuration with the given fallback.\<close>

definition mux_Configure :: "(route \<Rightarrow> (string, route) outcome) \<Rightarrow> Mux \<Rightarrow> (string, Mux) outcome" where
  "mux_Configure unmarshal m =
     obind (unmarshal (mux_defaultRoute m)) (\<lambda>fallback.
     obind (mux_validateNode m fallback) (\<lambda>_. Ret (m\<lparr>mux_defaultRoute := fallback\<rparr>)))"

definition mux_signalReset :: "Mux \<Rightarrow> (string, MuxSignal) outcome" where
  "mux_signalReset m = Ret muxReset"

definition mux_signalSet :: "Mux \<Rightarrow> route \<Rightarrow> (string, MuxSignal) outcome" where
  "mux_signalSet m nodeID = obind (mux_validateNode m nodeID) (\<lambda>_. Ret (muxSet nodeID))"

definition mux_signalUnset :: "Mux \<Rightarrow> route \<Rightarrow> (string, MuxSignal) outcome" where
  "mux_signalUnset m nodeID = obind (mux_validateNode m nodeID) (\<lambda>_. Ret (muxUnset nodeID))"

text \<open>The signals sent on activation and on deactivation.\<close>

definition mux_actionSwitch :: "Mux \<Rightarrow> route \<Rightarrow> (string, MuxSignal \<times> MuxSignal) outcome" where
  "mux_actionSwitch m nodeID =
     obind (mux_signalSet m nodeID) (\<lambda>set. obind (mux_signalUnset m nodeID) (\<lambda>unset. Ret (set, unset)))"

subsection \<open>Run\<close>

record MuxRun =
  run_mux :: Mux
  run_routeList :: "route list"
  run_currentRoute :: route

definition mux_start :: "Mux \<Rightarrow> MuxRun" where
  "mux_start m = \<lparr>run_mux = m, run_routeList = [], run_currentRoute = mux_defaultRoute m\<rparr>"

text \<open>The loop of \<open>muxUnset\<close>: the first entry of the route is cut out of the list.\<close>

primrec unset_loop :: "route \<Rightarrow> route list \<Rightarrow> route list option" where
  "unset_loop r [] = None"
| "unset_loop r (x # xs) = (if x = r then Some xs else map_option (\<lambda>ys. x # ys) (unset_loop r xs))"

definition mux_signal :: "MuxRun \<Rightarrow> MuxSignal \<Rightarrow> MuxRun" where
  "mux_signal s sig =
     (case sig of
        muxReset \<Rightarrow> s\<lparr>run_currentRoute := mux_defaultRoute (run_mux s), run_routeList := []\<rparr>
      | muxSet r \<Rightarrow>
          if r \<noteq> run_currentRoute s
          then s\<lparr>run_routeList := run_routeList s @ [r], run_currentRoute := r\<rparr> else s
      | muxUnset r \<Rightarrow>
          (case unset_loop r (run_routeList s) of
             None \<Rightarrow> s
           | Some l \<Rightarrow>
               let s = s\<lparr>run_routeList := l\<rparr>
               in if run_currentRoute s = r
                  then s\<lparr>run_currentRoute := (if length l = 0 then mux_defaultRoute (run_mux s) else l ! (length l - 1))\<rparr>
                  else s))"

text \<open>The loop over the usages: deactivations for other routes, the event, the activated usages.\<close>

type_synonym mux_loop = "(route \<rightharpoonup> Event) \<times> Event \<times> (Usage \<rightharpoonup> route)"

definition mux_deactivate :: "(route \<Rightarrow> int) \<Rightarrow> route \<Rightarrow> Usage \<Rightarrow> (route \<rightharpoonup> Event) \<Rightarrow> (route \<rightharpoonup> Event) option" where
  "mux_deactivate now prev usg deacts =
     map_option (\<lambda>ev. deacts(prev \<mapsto> ev)) (Event_Deactivate (event_for now deacts prev) [usg])"

definition mux_usage :: "(route \<Rightarrow> int) \<Rightarrow> route \<Rightarrow> mux_loop \<Rightarrow> UsageEvent \<Rightarrow> mux_loop option" where
  "mux_usage now currentRoute st e =
     (case st of (deacts, hid, activated) \<Rightarrow>
        let usg = ue_Usage e;
            elsewhere = (case activated usg of Some prev \<Rightarrow> if prev \<noteq> currentRoute then Some prev else None | None \<Rightarrow> None)
        in case ue_Activate e of
             None \<Rightarrow> Some st
           | Some True \<Rightarrow>
               map_option (\<lambda>deacts. (deacts, hid, activated(usg \<mapsto> currentRoute)))
                 (case elsewhere of None \<Rightarrow> Some deacts | Some prev \<Rightarrow> mux_deactivate now prev usg deacts)
           | Some False \<Rightarrow>
               (case elsewhere of
                  None \<Rightarrow> Some (deacts, hid, activated(usg := None))
                | Some prev \<Rightarrow>
                    (case mux_deactivate now prev usg deacts of
                       None \<Rightarrow> None
                     | Some deacts \<Rightarrow>
                         map_option (\<lambda>hid. (deacts, hid, activated(usg := None))) (Event_Suppress hid [usg]))))"

definition mux_event ::
  "((route \<rightharpoonup> Event) \<Rightarrow> route list) \<Rightarrow> (route \<Rightarrow> int) \<Rightarrow> MuxRun \<Rightarrow> FlowEvent \<Rightarrow> (message list \<times> MuxRun) option" where
  "mux_event order now s event =
     (let m = run_mux s; hid = fe_HID event; cur = run_currentRoute s
      in map_option
           (\<lambda>(deacts, hid, activated).
              (map (\<lambda>route. (route, hid_event (the (deacts route)))) (order deacts)
                 @ (if \<not> Event_IsEmpty (Some hid) then [(cur, hid_event hid)] else []),
               s\<lparr>run_mux := m\<lparr>mux_activatedUsages := activated\<rparr>\<rparr>))
           (fold_opt (mux_usage now cur) (Event_Usages hid) (Map.empty, hid, mux_activatedUsages m)))"

subsection \<open>The current route\<close>

text \<open>The current route is the last one set and not unset, or the default.\<close>

definition route_ok :: "MuxRun \<Rightarrow> bool" where
  "route_ok s \<longleftrightarrow>
     run_currentRoute s =
       (if run_routeList s = [] then mux_defaultRoute (run_mux s) else last (run_routeList s))"

lemma unset_loop_eq: "unset_loop r l = (if r \<in> set l then Some (remove1 r l) else None)"
  by (induction l) auto

lemma last_remove1: "xs \<noteq> [] \<Longrightarrow> last xs \<noteq> r \<Longrightarrow> remove1 r xs \<noteq> [] \<and> last (remove1 r xs) = last xs"
  by (induction xs) (auto split: if_splits)

lemma route_ok_start: "route_ok (mux_start m)"
  by (simp add: route_ok_def mux_start_def)

lemma nth_last: "l \<noteq> [] \<Longrightarrow> l ! (length l - Suc 0) = last l"
  by (simp add: last_conv_nth)

lemma route_ok_signal: "route_ok s \<Longrightarrow> route_ok (mux_signal s sig)"
  using last_remove1 [of "run_routeList s"]
  by (auto simp: route_ok_def mux_signal_def unset_loop_eq nth_last Let_def split: MuxSignal.splits)

lemma mux_event_route: "mux_event order now s ev = Some (out, s') \<Longrightarrow>
    run_routeList s' = run_routeList s \<and> run_currentRoute s' = run_currentRoute s
    \<and> mux_defaultRoute (run_mux s') = mux_defaultRoute (run_mux s) \<and> mux_nodeIDs (run_mux s') = mux_nodeIDs (run_mux s)"
  by (auto simp: mux_event_def Let_def split: prod.splits)

text \<open>Signals of the node name downstream nodes only, so the current route is one.\<close>

lemma validate_loop_iff: "validate_loop ids i \<longleftrightarrow> i \<in> set ids"
  by (induction ids) auto

lemma mux_validateNode_Ret: "mux_validateNode m i = Ret u \<longleftrightarrow> i \<in> set (mux_nodeIDs m)"
  by (simp add: mux_validateNode_def validate_loop_iff)

primrec signal_valid :: "route list \<Rightarrow> MuxSignal \<Rightarrow> bool" where
  "signal_valid ids muxReset = True"
| "signal_valid ids (muxSet r) \<longleftrightarrow> r \<in> set ids"
| "signal_valid ids (muxUnset r) \<longleftrightarrow> r \<in> set ids"

lemma signals_valid:
  "mux_signalSet m i = Ret sig \<Longrightarrow> signal_valid (mux_nodeIDs m) sig"
  "mux_signalUnset m i = Ret sig \<Longrightarrow> signal_valid (mux_nodeIDs m) sig"
  by (auto simp: mux_signalSet_def mux_signalUnset_def obind_Ret_iff mux_validateNode_Ret)

definition routes_known :: "MuxRun \<Rightarrow> bool" where
  "routes_known s \<longleftrightarrow> mux_defaultRoute (run_mux s) \<in> set (mux_nodeIDs (run_mux s))
     \<and> set (run_routeList s) \<subseteq> set (mux_nodeIDs (run_mux s))
     \<and> run_currentRoute s \<in> set (mux_nodeIDs (run_mux s))"

lemma routes_known_signal:
  assumes "routes_known s" "signal_valid (mux_nodeIDs (run_mux s)) sig"
  shows "routes_known (mux_signal s sig)"
proof -
  have "last (remove1 r l) \<in> set l" if "remove1 r l \<noteq> []" for r :: route and l
    using that set_remove1_subset [of r l] last_in_set by blast
  then show ?thesis
    using assms set_remove1_subset
    by (fastforce simp: routes_known_def mux_signal_def unset_loop_eq nth_last Let_def split: MuxSignal.splits)
qed

lemma mux_signal_frame [simp]: "run_mux (mux_signal s sig) = run_mux s"
  by (auto simp: mux_signal_def Let_def split: MuxSignal.splits option.splits)

subsection \<open>Where usages are held\<close>

definition mux_loop_ok :: "route \<Rightarrow> mux_loop \<Rightarrow> bool" where
  "mux_loop_ok cur st \<longleftrightarrow> (case st of (D, h, A) \<Rightarrow>
     event_inv h \<and> D cur = None \<and> (\<forall>rt e. D rt = Some e \<longrightarrow> event_inv e) \<and> finite (dom D))"

lemma mux_deactivate_ok:
  assumes "\<forall>rt e. D rt = Some e \<longrightarrow> event_inv e"
  shows "\<exists>D'. mux_deactivate now prev u D = Some D' \<and> (\<forall>rt e. D' rt = Some e \<longrightarrow> event_inv e)
    \<and> (\<forall>rt. rt \<noteq> prev \<longrightarrow> D' rt = D rt) \<and> dom D' = insert prev (dom D)
    \<and> routed D' = (routed D)(prev := (routed D prev)(u \<mapsto> press u False))"
proof -
  note ev0 = event_for_ok [OF assms, of now prev]
  obtain ev where ev: "Event_Deactivate (event_for now D prev) [u] = Some ev" "event_inv ev"
    "event_lookup ev = (routed D prev)(u \<mapsto> press u False)"
    using Event_Deactivate_single [OF ev0(1)] ev0(2) by auto
  let ?D = "D(prev \<mapsto> ev)"
  have "mux_deactivate now prev u D = Some ?D" using ev(1) by (simp add: mux_deactivate_def)
  moreover have "\<forall>rt e. ?D rt = Some e \<longrightarrow> event_inv e" using assms ev(2) by simp
  moreover have "routed ?D rt = ((routed D)(prev := (routed D prev)(u \<mapsto> press u False))) rt" for rt
    using ev(3) by (simp add: routed_def)
  ultimately show ?thesis by (intro exI [of _ ?D]) auto
qed

text \<open>One usage event: which maps change, at the usage itself and nowhere else.\<close>

definition mux_effect :: "route \<Rightarrow> UsageEvent \<Rightarrow> mux_loop \<Rightarrow> mux_loop \<Rightarrow> bool" where
  "mux_effect cur e st st' \<longleftrightarrow> (case (st, st') of ((D, h, A), (D', h', A')) \<Rightarrow>
     let u = ue_Usage e in
     A' u = (case ue_Activate e of None \<Rightarrow> A u | Some True \<Rightarrow> Some cur | Some False \<Rightarrow> None)
     \<and> event_lookup h' u = (if ue_Activate e = Some False \<and> A u \<noteq> None \<and> A u \<noteq> Some cur then None else event_lookup h u)
     \<and> (\<forall>rt. routed D' rt u =
          (if ue_Activate e \<noteq> None \<and> A u = Some rt \<and> rt \<noteq> cur then Some (press u False) else routed D rt u)))"

definition same_at :: "Usage \<Rightarrow> mux_loop \<Rightarrow> mux_loop \<Rightarrow> bool" where
  "same_at u st st' \<longleftrightarrow> (case (st, st') of ((D, h, A), (D', h', A')) \<Rightarrow>
     A' u = A u \<and> event_lookup h' u = event_lookup h u \<and> (\<forall>rt. routed D' rt u = routed D rt u))"

lemma mux_usage_step:
  assumes ok: "mux_loop_ok cur st"
  shows "\<exists>st'. mux_usage now cur st e = Some st' \<and> mux_loop_ok cur st' \<and> mux_effect cur e st st'
    \<and> (\<forall>u. u \<noteq> ue_Usage e \<longrightarrow> same_at u st st')"
proof -
  obtain D h A where st: "st = (D, h, A)" by (cases st)
  let ?u = "ue_Usage e"
  let ?else = "case A ?u of Some prev \<Rightarrow> if prev \<noteq> cur then Some prev else None | None \<Rightarrow> None"
  have inv: "event_inv h" "D cur = None" "\<forall>rt e. D rt = Some e \<longrightarrow> event_inv e"
    using ok by (auto simp: st mux_loop_ok_def)
  obtain h' where h': "Event_Suppress h [?u] = Some h'" "event_inv h'" "event_lookup h' = (event_lookup h)(?u := None)"
    using Event_Suppress_lookup [OF inv(1), of "[?u]"] by (auto simp: restrict_map_def fun_eq_iff)
  show ?thesis
  proof (cases "?else")
    case None
    then have A: "A ?u = None \<or> A ?u = Some cur" by (auto split: option.splits if_splits)
    show ?thesis
      using ok A
      by (cases "ue_Activate e" rule: activate_cases) (auto simp: st mux_usage_def mux_effect_def same_at_def mux_loop_ok_def)
  next
    case (Some prev)
    then have prev: "A ?u = Some prev" "prev \<noteq> cur" by (auto split: option.splits if_splits)
    obtain D' where D': "mux_deactivate now prev ?u D = Some D'" "\<forall>rt e. D' rt = Some e \<longrightarrow> event_inv e"
      "\<forall>rt. rt \<noteq> prev \<longrightarrow> D' rt = D rt"
      "routed D' = (routed D)(prev := (routed D prev)(?u \<mapsto> press ?u False))" "dom D' = insert prev (dom D)"
      using mux_deactivate_ok [OF inv(3)] by blast
    show ?thesis
      using ok prev D' h' inv
      by (cases "ue_Activate e" rule: activate_cases) (auto simp: st mux_usage_def mux_effect_def same_at_def mux_loop_ok_def)
  qed
qed

lemma same_at_trans: "same_at u s1 s2 \<Longrightarrow> same_at u s2 s3 \<Longrightarrow> same_at u s1 s3"
  by (auto simp: same_at_def)

lemma mux_effect_after:
  assumes "mux_effect cur e s2 s3" "same_at (ue_Usage e) s1 s2"
  shows "mux_effect cur e s1 s3"
proof -
  obtain D1 h1 A1 D2 h2 A2 D3 h3 A3 where "s1 = (D1, h1, A1)" "s2 = (D2, h2, A2)" "s3 = (D3, h3, A3)"
    by (metis prod_cases3)
  then show ?thesis
    using assms by (cases "ue_Activate e" rule: activate_cases) (auto simp: mux_effect_def same_at_def Let_def)
qed

lemma mux_effect_before:
  assumes "mux_effect cur e s1 s2" "same_at (ue_Usage e) s2 s3"
  shows "mux_effect cur e s1 s3"
proof -
  obtain D1 h1 A1 D2 h2 A2 D3 h3 A3 where "s1 = (D1, h1, A1)" "s2 = (D2, h2, A2)" "s3 = (D3, h3, A3)"
    by (metis prod_cases3)
  then show ?thesis
    using assms by (cases "ue_Activate e" rule: activate_cases) (auto simp: mux_effect_def same_at_def Let_def)
qed

lemma mux_loop_effect:
  assumes "mux_loop_ok cur st" "distinct (map ue_Usage es)"
  shows "\<exists>st'. fold_opt (mux_usage now cur) es st = Some st' \<and> mux_loop_ok cur st'
    \<and> (\<forall>e \<in> set es. mux_effect cur e st st') \<and> (\<forall>u. u \<notin> ue_Usage ` set es \<longrightarrow> same_at u st st')"
  using assms
proof (induction es arbitrary: st)
  case (Cons e es)
  obtain s1 where s1: "mux_usage now cur st e = Some s1" "mux_loop_ok cur s1" "mux_effect cur e st s1"
    "\<And>u. u \<noteq> ue_Usage e \<Longrightarrow> same_at u st s1"
    using mux_usage_step [OF Cons.prems(1)] by blast
  obtain s2 where s2: "fold_opt (mux_usage now cur) es s1 = Some s2" "mux_loop_ok cur s2"
    "\<And>e. e \<in> set es \<Longrightarrow> mux_effect cur e s1 s2" "\<And>u. u \<notin> ue_Usage ` set es \<Longrightarrow> same_at u s1 s2"
    using Cons.IH [OF s1(2)] Cons.prems(2) by auto
  have "ue_Usage e \<notin> ue_Usage ` set es" using Cons.prems(2) by simp
  then have "mux_effect cur e st s2" using mux_effect_before [OF s1(3)] s2(4) by blast
  moreover have "mux_effect cur d st s2" if "d \<in> set es" for d
  proof -
    have "ue_Usage d \<noteq> ue_Usage e" using that Cons.prems(2) by (metis distinct.simps(2) image_eqI list.simps(9) set_map)
    then show ?thesis using mux_effect_after [OF s2(3) [OF that]] s1(4) by blast
  qed
  moreover have "same_at u st s2" if "u \<noteq> ue_Usage e" "u \<notin> ue_Usage ` set es" for u
    using same_at_trans [OF s1(4) [OF that(1)] s2(4) [OF that(2)]] .
  ultimately show ?case using s1(1) s2(1,2) by (intro exI [of _ s2]) auto
qed (auto simp: same_at_def split: prod.splits)

text \<open>Every usage is held by the route where it was last pressed, and by no other.\<close>

definition held_ok :: "MuxRun \<Rightarrow> (route \<Rightarrow> Usage set) \<Rightarrow> bool" where
  "held_ok s H \<longleftrightarrow> (\<forall>rt. H rt = {u. mux_activatedUsages (run_mux s) u = Some rt})"

definition mux_activated :: "MuxRun \<Rightarrow> Event \<Rightarrow> Usage \<rightharpoonup> route" where
  "mux_activated s e u = (case event_lookup e u of
     None \<Rightarrow> mux_activatedUsages (run_mux s) u
   | Some d \<Rightarrow> (case ue_Activate d of
        None \<Rightarrow> mux_activatedUsages (run_mux s) u
      | Some True \<Rightarrow> Some (run_currentRoute s)
      | Some False \<Rightarrow> None))"

lemma mux_event_held:
  assumes inv: "event_inv (fe_HID ev)" and held: "held_ok s H"
    and order: "range_order order"
  shows "\<exists>out s'. mux_event order now s ev = Some (out, s')
    \<and> mux_activatedUsages (run_mux s') = mux_activated s (fe_HID ev)
    \<and> held_ok s' (fold deliver out H)"
proof -
  let ?h = "fe_HID ev" and ?cur = "run_currentRoute s" and ?A = "mux_activatedUsages (run_mux s)"
  have "mux_loop_ok ?cur (Map.empty, ?h, ?A)" using inv by (simp add: mux_loop_ok_def)
  from mux_loop_effect [OF this event_inv_distinct [OF inv], of now]
  obtain D h' A' where loop: "fold_opt (mux_usage now ?cur) (ev_usages ?h) (Map.empty, ?h, ?A) = Some (D, h', A')"
    and ok: "mux_loop_ok ?cur (D, h', A')"
    and eff: "\<And>e. e \<in> set (ev_usages ?h) \<Longrightarrow> mux_effect ?cur e (Map.empty, ?h, ?A) (D, h', A')"
    and same: "\<And>u. u \<notin> ue_Usage ` set (ev_usages ?h) \<Longrightarrow> same_at u (Map.empty, ?h, ?A) (D, h', A')"
    by auto
  let ?out = "map (\<lambda>route. (route, hid_event (the (D route)))) (order D)
    @ (if \<not> Event_IsEmpty (Some h') then [(?cur, hid_event h')] else [])"
  let ?s = "s\<lparr>run_mux := (run_mux s)\<lparr>mux_activatedUsages := A'\<rparr>\<rparr>"
  have run: "mux_event order now s ev = Some (?out, ?s)"
    by (simp add: mux_event_def Event_Usages_def loop Let_def)
  have inv': "event_inv h'" "D ?cur = None" "\<And>rt e. D rt = Some e \<Longrightarrow> event_inv e"
    and ord: "distinct (order D)" "set (order D) = dom D"
    using ok order by (auto simp: mux_loop_ok_def range_order_def)
  have look: "event_lookup ?h u = None \<longleftrightarrow> u \<notin> ue_Usage ` set (ev_usages ?h)" for u
    by (simp add: event_lookup_map_of [OF inv] map_of_eq_None_iff image_image)
  have none: "A' u = ?A u \<and> event_lookup h' u = None \<and> (\<forall>rt. routed D rt u = None)"
    if "event_lookup ?h u = None" for u
    using same [of u] that look by (auto simp: same_at_def routed_def)
  have some: "A' u = (case ue_Activate d of None \<Rightarrow> ?A u | Some True \<Rightarrow> Some ?cur | Some False \<Rightarrow> None)
     \<and> event_lookup h' u = (if ue_Activate d = Some False \<and> ?A u \<noteq> None \<and> ?A u \<noteq> Some ?cur then None else Some d)
     \<and> (\<forall>rt. routed D rt u =
          (if ue_Activate d \<noteq> None \<and> ?A u = Some rt \<and> rt \<noteq> ?cur then Some (press u False) else None))"
    if "event_lookup ?h u = Some d" for u d
  proof -
    have "d \<in> set (ev_usages ?h)" "ue_Usage d = u"
      using that by (auto simp: event_lookup_map_of [OF inv] dest!: map_of_SomeD)
    then show ?thesis using eff [of d] that by (simp add: mux_effect_def routed_def)
  qed
  have A': "A' u = mux_activated s ?h u" for u
    using none some by (cases "event_lookup ?h u") (auto simp: mux_activated_def)
  have out: "fold deliver ?out H rt =
      (if rt = ?cur then hold h' (H rt) else case D rt of None \<Rightarrow> H rt | Some e \<Rightarrow> hold e (H rt))" for rt
  proof -
    have "hold h' S = S" if "Event_IsEmpty (Some h')"  for S
      using that by (simp add: Event_IsEmpty_def hold_def Event_Usages_def)
    then show ?thesis
      using fold_deliver_distinct [OF ord(1), of "\<lambda>rt. the (D rt)" H] ord(2) inv'(2)
      by (auto simp: deliver_def hid_event_def domIff split: option.splits)
  qed
  have "u \<in> fold deliver ?out H rt \<longleftrightarrow> A' u = Some rt" for rt u
  proof (cases "rt = ?cur")
    case True
    then show ?thesis
      using none [of u] some [of u] held unfolding out
      by (cases "event_lookup ?h u") (auto simp: hold_iff [OF inv'(1)] held_ok_def split: option.splits bool.splits)
  next
    case False
    have "u \<in> (case D rt of None \<Rightarrow> H rt | Some e \<Rightarrow> hold e (H rt)) \<longleftrightarrow>
        (case routed D rt u of None \<Rightarrow> u \<in> H rt | Some d \<Rightarrow> (case ue_Activate d of None \<Rightarrow> u \<in> H rt | Some on \<Rightarrow> on))"
      using inv'(3) [of rt] by (cases "D rt") (simp_all add: hold_iff routed_def)
    then show ?thesis
      using none [of u] some [of u] held False unfolding out
      by (cases "event_lookup ?h u") (auto simp: held_ok_def split: option.splits bool.splits)
  qed
  then have "held_ok ?s (fold deliver ?out H)" by (auto simp: held_ok_def)
  with run A' show ?thesis by (auto simp: fun_eq_iff)
qed

subsection \<open>Runs\<close>

text \<open>
  The reachable states of a node, with what each route holds: the run starts with the configured node,
  and takes the signals that its actions send and the events that arrive, in any order.
\<close>

definition configured :: "Mux \<Rightarrow> bool" where
  "configured m \<longleftrightarrow> mux_defaultRoute m \<in> set (mux_nodeIDs m) \<and> mux_activatedUsages m = Map.empty"

lemma configured_CreateNode: "mux_CreateNode downstreams = Some m \<Longrightarrow> configured m"
  by (auto simp: mux_CreateNode_def configured_def split: if_splits)

lemma configured_Configure: "configured m \<Longrightarrow> mux_Configure unmarshal m = Ret m' \<Longrightarrow> configured m'"
  by (auto simp: mux_Configure_def configured_def obind_Ret_iff mux_validateNode_Ret)

inductive mux_run :: "((route \<rightharpoonup> Event) \<Rightarrow> route list) \<Rightarrow> Mux \<Rightarrow> MuxRun \<Rightarrow> (route \<Rightarrow> Usage set) \<Rightarrow> bool"
  for order m where
  start: "mux_run order m (mux_start m) (\<lambda>rt. {})"
| signal: "mux_run order m s H \<Longrightarrow> signal_valid (mux_nodeIDs m) sig \<Longrightarrow> mux_run order m (mux_signal s sig) H"
| event: "mux_run order m s H \<Longrightarrow> event_inv (fe_HID ev) \<Longrightarrow> mux_event order now s ev = Some (out, s') \<Longrightarrow>
    mux_run order m s' (fold deliver out H)"

inductive_cases mux_runE: "mux_run order m s H"

lemma mux_run_invariant:
  assumes "mux_run order m s H" "configured m"
    and order: "range_order order"
  shows "mux_nodeIDs (run_mux s) = mux_nodeIDs m \<and> route_ok s \<and> routes_known s \<and> held_ok s H"
  using assms(1)
proof induction
  case start
  then show ?case using assms(2) route_ok_start [of m]
    by (simp add: routes_known_def held_ok_def mux_start_def configured_def)
next
  case (signal s H sig)
  then show ?case by (simp add: route_ok_signal routes_known_signal held_ok_def)
next
  case (event s H ev now out s')
  note r = mux_event_route [OF event(3)]
  obtain out2 s2 where e: "mux_event order now s ev = Some (out2, s2)" "held_ok s2 (fold deliver out2 H)"
    using mux_event_held [OF event(2) _ order, of s H now] event.IH by blast
  have "held_ok s' (fold deliver out H)" using e event(3) by simp
  moreover have "route_ok s'" using event.IH r by (simp add: route_ok_def)
  moreover have "routes_known s'" using event.IH r by (auto simp: routes_known_def)
  ultimately show ?case using event.IH r by simp
qed

text \<open>
  The action \<open>switch\<close> sets a route and unsets it. A route that is not among the set ones goes back
  to where it was. One that is already set is unset by the release of the second press, although the
  first is still held.
\<close>

lemma switch_restores:
  assumes "r \<notin> set (run_routeList s)" "r \<noteq> run_currentRoute s" "route_ok s"
  shows "mux_signal (mux_signal s (muxSet r)) (muxUnset r) = s"
  using assms by (simp add: mux_signal_def unset_loop_eq remove1_append Let_def nth_last route_ok_def)

lemma switch_twice:
  assumes "r \<noteq> run_currentRoute s" "r \<notin> set (run_routeList s)" "route_ok s"
  shows "mux_signal (mux_signal (mux_signal s (muxSet r)) (muxSet r)) (muxUnset r) = s"
  using switch_restores [OF assms(2,1,3)] by (simp add: mux_signal_def)

end
