(* ===== verification/Split.thy ===== *)
theory Split
  imports FlowApi
begin

section \<open>The split node (components/nodes/split.go)\<close>

text \<open>
  \<open>Split\<close> sends each usage to the first node whose patterns match it. The map of events is cleared
  after each event, so it is local to a step; matchers are functions of page and ID, as
  \<open>NewMatcher\<close> makes them. \<open>order\<close> is the order in which Go ranges over the map.
\<close>

record matchItem =
  mi_matcher :: "u16 \<Rightarrow> u16 \<Rightarrow> bool"
  mi_nodeID :: route

text \<open>
  The configuration is a YAML map that was decoded in order: node IDs and patterns, where a value
  of another type is an error. \<open>newMatcher\<close> is \<open>hidusage.NewMatcher\<close>.
\<close>

datatype 'o yaml_value = YString string | YList "'o yaml_value list" | YOther 'o

primrec yaml_patterns :: "'o yaml_value list \<Rightarrow> (string, string list) outcome" where
  "yaml_patterns [] = Ret []"
| "yaml_patterns (p # ps) =
     (case p of
        YString s \<Rightarrow> obind (yaml_patterns ps) (\<lambda>ss. Ret (s # ss))
      | _ \<Rightarrow> Fail ''invalid pattern'')"

definition split_item ::
  "(string list \<Rightarrow> (string, u16 \<Rightarrow> u16 \<Rightarrow> bool) outcome) \<Rightarrow> 'o yaml_value \<times> 'o yaml_value \<Rightarrow> (string, matchItem) outcome" where
  "split_item newMatcher item =
     (case fst item of
        YString nodeID \<Rightarrow>
          (case snd item of
             YList items \<Rightarrow>
               obind (yaml_patterns items) (\<lambda>patterns.
               obind (newMatcher patterns) (\<lambda>matcher.
               Ret \<lparr>mi_matcher = matcher, mi_nodeID = nodeID\<rparr>))
           | _ \<Rightarrow> Fail ''invalid patterns'')
      | _ \<Rightarrow> Fail ''invalid node ID'')"

primrec split_Configure ::
  "(string list \<Rightarrow> (string, u16 \<Rightarrow> u16 \<Rightarrow> bool) outcome) \<Rightarrow> ('o yaml_value \<times> 'o yaml_value) list \<Rightarrow> matchItem list \<Rightarrow>
   (string, matchItem list) outcome" where
  "split_Configure newMatcher [] items = Ret items"
| "split_Configure newMatcher (c # cs) items =
     obind (split_item newMatcher c) (\<lambda>item. split_Configure newMatcher cs (items @ [item]))"

text \<open>One usage. A match for the node ID \<open>''''\<close> is also reported as no match.\<close>

primrec match_loop :: "matchItem list \<Rightarrow> Usage \<Rightarrow> route option" where
  "match_loop [] usg = None"
| "match_loop (i # is') usg =
     (if mi_matcher i (Usage_Page usg) (Usage_ID usg) then Some (mi_nodeID i) else match_loop is' usg)"

definition split_add :: "(route \<Rightarrow> int) \<Rightarrow> route \<Rightarrow> UsageEvent \<Rightarrow> (route \<rightharpoonup> Event) \<Rightarrow> (route \<rightharpoonup> Event) option" where
  "split_add now nodeID e events =
     map_option (\<lambda>ev. events(nodeID \<mapsto> ev)) (Event_AddUsage (event_for now events nodeID) [e])"

definition split_usage ::
  "matchItem list \<Rightarrow> (route \<Rightarrow> int) \<Rightarrow> (route \<rightharpoonup> Event) \<Rightarrow> UsageEvent \<Rightarrow> (route \<rightharpoonup> Event) option" where
  "split_usage items now events e =
     (case match_loop items (ue_Usage e) of
        None \<Rightarrow> Some events
      | Some nodeID \<Rightarrow>
          (case split_add now nodeID e events of
             None \<Rightarrow> None
           | Some events \<Rightarrow> if nodeID = '''' then Some events else split_add now nodeID e events))"

definition split_event ::
  "((route \<rightharpoonup> Event) \<Rightarrow> route list) \<Rightarrow> (route \<Rightarrow> int) \<Rightarrow> matchItem list \<Rightarrow> FlowEvent \<Rightarrow> message list option" where
  "split_event order now items ev =
     map_option (\<lambda>events. map (\<lambda>nodeID. (nodeID, hid_event (the (events nodeID)))) (order events))
       (fold_opt (split_usage items now) (Event_Usages (fe_HID ev)) Map.empty)"

subsection \<open>Where a usage goes\<close>

lemma split_add_ok:
  assumes "\<forall>rt e. D rt = Some e \<longrightarrow> event_inv e"
  shows "\<exists>D'. split_add now nodeID e D = Some D' \<and> (\<forall>rt e. D' rt = Some e \<longrightarrow> event_inv e)
    \<and> routed D' = (routed D)(nodeID := (routed D nodeID)(ue_Usage e \<mapsto> e)) \<and> dom D' = insert nodeID (dom D)"
proof -
  obtain ev where ev: "Event_AddUsage (event_for now D nodeID) [e] = Some ev" "event_inv ev"
    "event_lookup ev = (routed D nodeID)(ue_Usage e \<mapsto> e)"
    using Event_AddUsage_lookup [OF event_for_ok(1) [OF assms], of now nodeID "[e]"] event_for_ok(2) [OF assms]
    by auto
  have "routed (D(nodeID \<mapsto> ev)) rt = ((routed D)(nodeID := (routed D nodeID)(ue_Usage e \<mapsto> e))) rt" for rt
    using ev(3) by (simp add: routed_def)
  then show ?thesis using assms ev(1,2) by (intro exI [of _ "D(nodeID \<mapsto> ev)"]) (auto simp: split_add_def)
qed

lemma split_usage_ok:
  assumes D: "\<forall>rt e. D rt = Some e \<longrightarrow> event_inv e"
  shows "\<exists>D'. split_usage items now D e = Some D' \<and> (\<forall>rt e. D' rt = Some e \<longrightarrow> event_inv e)
    \<and> (\<forall>rt u. routed D' rt u =
         (if u = ue_Usage e \<and> match_loop items u = Some rt then Some e else routed D rt u))
    \<and> dom D' = set_option (match_loop items (ue_Usage e)) \<union> dom D"
proof (cases "match_loop items (ue_Usage e)")
  case None
  then show ?thesis using D by (auto simp: split_usage_def)
next
  case (Some rt)
  obtain D1 where D1: "split_add now rt e D = Some D1" "\<forall>rt e. D1 rt = Some e \<longrightarrow> event_inv e"
    "routed D1 = (routed D)(rt := (routed D rt)(ue_Usage e \<mapsto> e))" "dom D1 = insert rt (dom D)"
    using split_add_ok [OF D] by blast
  obtain D2 where D2: "split_add now rt e D1 = Some D2" "\<forall>rt e. D2 rt = Some e \<longrightarrow> event_inv e"
    "routed D2 = (routed D1)(rt := (routed D1 rt)(ue_Usage e \<mapsto> e))" "dom D2 = insert rt (dom D1)"
    using split_add_ok [OF D1(2)] by blast
  show ?thesis
  proof (cases "rt = ''''")
    case True
    then show ?thesis using Some D1 by (auto simp: split_usage_def)
  next
    case False
    then have "split_usage items now D e = Some D2" using Some D1(1) D2(1) by (simp add: split_usage_def)
    moreover have "routed D2 r u = (if u = ue_Usage e \<and> match_loop items u = Some r then Some e else routed D r u)" for r u
      using Some by (auto simp: D2(3) D1(3))
    moreover have "dom D2 = set_option (match_loop items (ue_Usage e)) \<union> dom D"
      using Some D1(4) D2(4) by auto
    ultimately show ?thesis using D2(2) by blast
  qed
qed

lemma split_loop_ok:
  "\<forall>rt e. D rt = Some e \<longrightarrow> event_inv e \<Longrightarrow> distinct (map ue_Usage es) \<Longrightarrow>
     \<exists>D'. fold_opt (split_usage items now) es D = Some D' \<and> (\<forall>rt e. D' rt = Some e \<longrightarrow> event_inv e)
       \<and> (\<forall>rt u. routed D' rt u =
            (case map_of (map (\<lambda>e. (ue_Usage e, e)) es) u of
               Some e \<Rightarrow> if match_loop items u = Some rt then Some e else routed D rt u
             | None \<Rightarrow> routed D rt u))
       \<and> dom D' = {rt. \<exists>e \<in> set es. match_loop items (ue_Usage e) = Some rt} \<union> dom D"
proof (induction es arbitrary: D)
  case (Cons e es)
  obtain D1 where D1: "split_usage items now D e = Some D1" "\<forall>rt e. D1 rt = Some e \<longrightarrow> event_inv e"
    "\<forall>rt u. routed D1 rt u = (if u = ue_Usage e \<and> match_loop items u = Some rt then Some e else routed D rt u)"
    "dom D1 = set_option (match_loop items (ue_Usage e)) \<union> dom D"
    using split_usage_ok [OF Cons.prems(1)] by blast
  obtain D2 where D2: "fold_opt (split_usage items now) es D1 = Some D2" "\<forall>rt e. D2 rt = Some e \<longrightarrow> event_inv e"
    "\<forall>rt u. routed D2 rt u =
       (case map_of (map (\<lambda>e. (ue_Usage e, e)) es) u of
          Some e \<Rightarrow> if match_loop items u = Some rt then Some e else routed D1 rt u | None \<Rightarrow> routed D1 rt u)"
    "dom D2 = {rt. \<exists>e \<in> set es. match_loop items (ue_Usage e) = Some rt} \<union> dom D1"
    using Cons.IH [OF D1(2)] Cons.prems(2) by auto
  have e: "map_of (map (\<lambda>e. (ue_Usage e, e)) es) (ue_Usage e) = None"
    using Cons.prems(2) by (auto simp: map_of_eq_None_iff image_image)
  have "routed D2 rt u =
      (case map_of (map (\<lambda>e. (ue_Usage e, e)) (e # es)) u of
         Some e \<Rightarrow> if match_loop items u = Some rt then Some e else routed D rt u | None \<Rightarrow> routed D rt u)" for rt u
    using D1(3) D2(3) e by (cases "u = ue_Usage e") (auto split: option.splits)
  moreover have "dom D2 = {rt. \<exists>e \<in> set (e # es). match_loop items (ue_Usage e) = Some rt} \<union> dom D"
    using D1(4) D2(4) by auto
  ultimately show ?case using D1(1) D2(1,2) by auto
qed simp

text \<open>What each node is told: the usages it matches first, as they are in the event.\<close>

definition delivered :: "message list \<Rightarrow> route \<Rightarrow> Usage \<rightharpoonup> UsageEvent" where
  "delivered msgs rt u = (case map_of msgs rt of None \<Rightarrow> None | Some ev \<Rightarrow> event_lookup (fe_HID ev) u)"

lemma split_event_routes:
  assumes inv: "event_inv (fe_HID ev)" and order: "range_order order"
  shows "\<exists>msgs. split_event order now items ev = Some msgs \<and> distinct (map fst msgs)
    \<and> (\<forall>rt u. delivered msgs rt u =
         (if match_loop items u = Some rt then event_lookup (fe_HID ev) u else None))"
proof -
  let ?es = "ev_usages (fe_HID ev)"
  obtain D where D: "fold_opt (split_usage items now) ?es Map.empty = Some D"
    "\<forall>rt u. routed D rt u =
       (case map_of (map (\<lambda>e. (ue_Usage e, e)) ?es) u of
          Some e \<Rightarrow> if match_loop items u = Some rt then Some e else None | None \<Rightarrow> None)"
    "dom D = {rt. \<exists>e \<in> set ?es. match_loop items (ue_Usage e) = Some rt} \<union> dom (Map.empty :: route \<rightharpoonup> Event)"
    using split_loop_ok [of Map.empty ?es items now, unfolded routed_empty] event_inv_distinct [OF inv] by auto
  have "dom D = {rt. \<exists>e \<in> set ?es. match_loop items (ue_Usage e) = Some rt}" using D(3) by simp
  also have "\<dots> \<subseteq> (\<lambda>e. the (match_loop items (ue_Usage e))) ` set ?es" by force
  finally have "finite (dom D)" by (rule finite_subset) simp
  then have ord: "distinct (order D)" "set (order D) = dom D" using order by (auto simp: range_order_def)
  let ?msgs = "map (\<lambda>nodeID. (nodeID, hid_event (the (D nodeID)))) (order D)"
  have "split_event order now items ev = Some ?msgs"
    using D(1) by (simp add: split_event_def Event_Usages_def)
  moreover have "distinct (map fst ?msgs)" using ord(1) by (simp add: comp_def)
  moreover have "delivered ?msgs rt u = (if match_loop items u = Some rt then event_lookup (fe_HID ev) u else None)" for rt u
  proof -
    have "map_of ?msgs rt = map_option hid_event (D rt)"
      using ord(2) by (auto simp: map_of_map_restrict restrict_map_def domIff)
    then have "delivered ?msgs rt u = routed D rt u"
      by (simp add: delivered_def routed_def hid_event_def split: option.splits)
    then show ?thesis using D(2) by (simp add: event_lookup_map_of [OF inv] split: option.splits)
  qed
  ultimately show ?thesis by blast
qed

end
