(* ===== verification/HidUsage.thy ===== *)
theory HidUsage
  imports KeyNames HidDesc
begin

section \<open>Names of usages (hidapi/hidusage, hidapi/usage.go)\<close>

text \<open>
  Formatting and parsing of usage names, the key names of the keyboard page and the patterns of
  nodes. The table of pages and the map of their aliases are generated from documents: they are the
  parameters \<open>pages\<close> and \<open>aliases\<close>. What the code uses of \<open>strconv\<close>, \<open>fmt\<close> and \<open>strings\<close> is
  written out; a nil \<open>Usages\<close> that is called is a panic.
\<close>

subsection \<open>Numbers as text\<close>

definition hex_digit :: "nat \<Rightarrow> char" where
  "hex_digit n = ''0123456789abcdef'' ! n"

fun digits_of :: "nat \<Rightarrow> nat \<Rightarrow> string" where
  "digits_of b n = (if n < b \<or> b < 2 then [hex_digit n] else digits_of b (n div b) @ [hex_digit (n mod b)])"

declare digits_of.simps [simp del]

text \<open>The verbs \<open>%02x\<close> and \<open>%d\<close>.\<close>

definition format_hex :: "nat \<Rightarrow> string" where
  "format_hex n = (if n < 16 then CHR ''0'' # digits_of 16 n else digits_of 16 n)"

definition format_decimal :: "nat \<Rightarrow> string" where
  "format_decimal n = digits_of 10 n"

definition digit_value :: "char \<Rightarrow> nat option" where
  "digit_value c =
     (let n = of_char c :: nat
      in if 48 \<le> n \<and> n \<le> 57 then Some (n - 48)
         else if 97 \<le> n \<and> n \<le> 102 then Some (n - 87)
         else if 65 \<le> n \<and> n \<le> 70 then Some (n - 55) else None)"

primrec parse_digits :: "nat \<Rightarrow> string \<Rightarrow> nat \<Rightarrow> nat option" where
  "parse_digits b [] acc = Some acc"
| "parse_digits b (c # cs) acc =
     (case digit_value c of
        None \<Rightarrow> None
      | Some d \<Rightarrow> if d < b then parse_digits b cs (b * acc + d) else None)"

text \<open>\<open>strconv.ParseUint\<close> of at least one digit, in range.\<close>

definition ParseUint :: "nat \<Rightarrow> nat \<Rightarrow> string \<Rightarrow> nat option" where
  "ParseUint b bits s =
     (if s = [] then None
      else case parse_digits b s 0 of None \<Rightarrow> None | Some n \<Rightarrow> if n < 2 ^ bits then Some n else None)"

text \<open>\<open>strconv.ParseInt\<close>: an optional sign, then as above with one bit less.\<close>

definition ParseInt :: "nat \<Rightarrow> nat \<Rightarrow> string \<Rightarrow> int option" where
  "ParseInt b bits s =
     (case s of
        [] \<Rightarrow> None
      | c # cs \<Rightarrow>
          let neg = (c = CHR ''-''); t = (if c = CHR ''-'' \<or> c = CHR ''+'' then cs else s)
          in if t = [] then None
             else (case parse_digits b t 0 of
                     None \<Rightarrow> None
                   | Some n \<Rightarrow>
                       if neg then (if n \<le> 2 ^ (bits - 1) then Some (- int n) else None)
                       else if n < 2 ^ (bits - 1) then Some (int n) else None))"

definition has_prefix :: "string \<Rightarrow> string \<Rightarrow> bool" where
  "has_prefix p s \<longleftrightarrow> take (length p) s = p"

text \<open>\<open>strings.Split\<close> at a character: at least one part.\<close>

primrec split_at :: "char \<Rightarrow> string \<Rightarrow> string list" where
  "split_at c [] = [[]]"
| "split_at c (x # xs) =
     (if x = c then [] # split_at c xs
      else (case split_at c xs of [] \<Rightarrow> [[x]] | p # ps \<Rightarrow> (x # p) # ps))"

lemma split_at_append: "c \<notin> set s \<Longrightarrow> split_at c (s @ c # t) = s # split_at c t"
  by (induction s) auto

lemma length_split_at: "length (split_at c s) = Suc (length (filter ((=) c) s))"
  by (induction s) (auto split: list.splits)

subsection \<open>Key names (hidusage/usagepages/keycodes.go)\<close>

definition KeyName :: "u8 \<Rightarrow> string" where
  "KeyName code = (case map_of keyNameMap code of None \<Rightarrow> ''Code'' @ format_hex (unat code) | Some name \<Rightarrow> name)"

text \<open>The map from names is filled by ranging over the table.\<close>

definition keyCodeMap :: "string \<rightharpoonup> u8" where
  "keyCodeMap = map_of (map prod.swap keyNameMap)"

definition KeyCode :: "string \<Rightarrow> (string, u8) outcome" where
  "KeyCode name =
     (if has_prefix ''Code'' name then
        (case ParseUint 16 8 (drop 4 name) of
           None \<Rightarrow> Fail ''invalid key code''
         | Some code \<Rightarrow> Ret (of_nat code))
      else (case keyCodeMap name of None \<Rightarrow> Fail ''invalid key name'' | Some code \<Rightarrow> Ret code))"

subsection \<open>Pages (hidusage/usagepages/pages.go)\<close>

record UsageInfo =
  ui_ID :: u16
  ui_Name :: string
  ui_Alias :: string
  ui_Types :: "string list"

definition emptyUsageInfo :: UsageInfo where
  "emptyUsageInfo = \<lparr>ui_ID = 0, ui_Name = '''', ui_Alias = '''', ui_Types = []\<rparr>"

datatype UsageCollection =
    OrdinalUsages string "string list"
  | UsageTable "u16 \<rightharpoonup> UsageInfo" "string \<rightharpoonup> UsageInfo"

record PageInfo =
  pg_Code :: u16
  pg_Name :: string
  pg_Alias :: string
  pg_Usages :: "UsageCollection option"

definition emptyPageInfo :: PageInfo where
  "emptyPageInfo = \<lparr>pg_Code = 0, pg_Name = '''', pg_Alias = '''', pg_Usages = None\<rparr>"

definition newUsageTable :: UsageCollection where
  "newUsageTable = UsageTable Map.empty Map.empty"

text \<open>\<open>camel\<close> is \<open>strcase.ToCamel\<close>.\<close>

definition table_usage :: "(string \<Rightarrow> string) \<Rightarrow> UsageCollection \<Rightarrow> u16 \<Rightarrow> string \<Rightarrow> string list \<Rightarrow> UsageCollection" where
  "table_usage camel u i name tys =
     (case u of
        UsageTable usages aliasMap \<Rightarrow>
          let info = \<lparr>ui_ID = i, ui_Name = name, ui_Alias = camel name, ui_Types = tys\<rparr>
          in UsageTable (usages(i \<mapsto> info)) (aliasMap(camel name \<mapsto> info))
      | OrdinalUsages p t \<Rightarrow> OrdinalUsages p t)"

definition usages_Get :: "UsageCollection \<Rightarrow> u16 \<Rightarrow> UsageInfo option" where
  "usages_Get u i =
     (case u of
        OrdinalUsages prefix tys \<Rightarrow>
          Some \<lparr>ui_ID = i, ui_Name = prefix @ '' '' @ format_decimal (unat i), ui_Alias = format_decimal (unat i),
                ui_Types = tys\<rparr>
      | UsageTable usages aliasMap \<Rightarrow> usages i)"

definition format_int :: "int \<Rightarrow> string" where
  "format_int n = (if n < 0 then CHR ''-'' # format_decimal (nat (- n)) else format_decimal (nat n))"

definition usages_ByAlias :: "UsageCollection \<Rightarrow> string \<Rightarrow> UsageInfo option" where
  "usages_ByAlias u a =
     (case u of
        OrdinalUsages prefix tys \<Rightarrow>
          (case ParseInt 10 16 a of
             None \<Rightarrow> None
           | Some code \<Rightarrow>
               Some \<lparr>ui_ID = of_int code, ui_Name = prefix @ '' '' @ format_int code, ui_Alias = a, ui_Types = tys\<rparr>)
      | UsageTable usages aliasMap \<Rightarrow> aliasMap a)"

definition GetPageInfoByCode :: "(u16 \<rightharpoonup> PageInfo) \<Rightarrow> u16 \<Rightarrow> PageInfo option" where
  "GetPageInfoByCode pages code = pages code"

text \<open>An alias of a page that is missing gives the zero page.\<close>

definition GetPageInfoByAlias :: "(u16 \<rightharpoonup> PageInfo) \<Rightarrow> (string \<rightharpoonup> u16) \<Rightarrow> string \<Rightarrow> PageInfo option" where
  "GetPageInfoByAlias pages aliases a =
     (case aliases a of
        None \<Rightarrow> None
      | Some code \<Rightarrow> Some (case pages code of None \<Rightarrow> emptyPageInfo | Some p \<Rightarrow> p))"

subsection \<open>Formatting and parsing (hidusage/format.go)\<close>

definition KeyboardKeypad :: u16 where "KeyboardKeypad = 0x07"

definition FormatKeyboardKeypad :: "u16 \<Rightarrow> string" where
  "FormatKeyboardKeypad i = KeyName (ucast i)"

definition ParseKeyboardKeypad :: "string \<Rightarrow> (string, u16) outcome" where
  "ParseKeyboardKeypad s = obind (KeyCode s) (\<lambda>code. Ret (ucast code))"

definition format_usage :: "(u16 \<rightharpoonup> PageInfo) \<Rightarrow> u16 \<Rightarrow> u16 \<Rightarrow> string option" where
  "format_usage pages page i =
     (case GetPageInfoByCode pages page of
        None \<Rightarrow> Some (''0x'' @ format_hex (unat page) @ ''.0x'' @ format_hex (unat i))
      | Some pageInfo \<Rightarrow>
          if page = KeyboardKeypad then Some (FormatKeyboardKeypad i)
          else (case pg_Usages pageInfo of
                  None \<Rightarrow> None
                | Some usages \<Rightarrow>
                    (case usages_Get usages i of
                       None \<Rightarrow> Some (pg_Alias pageInfo @ ''.0x'' @ format_hex (unat i))
                     | Some usageInfo \<Rightarrow> Some (pg_Alias pageInfo @ ''.'' @ ui_Alias usageInfo))))"

definition ParsePage :: "(u16 \<rightharpoonup> PageInfo) \<Rightarrow> (string \<rightharpoonup> u16) \<Rightarrow> string \<Rightarrow> (string, PageInfo) outcome" where
  "ParsePage pages aliases s =
     (if has_prefix ''0x'' s then
        (case ParseUint 16 16 (drop 2 s) of
           None \<Rightarrow> Fail ''invalid usage page''
         | Some code \<Rightarrow>
             Ret (case GetPageInfoByCode pages (of_nat code) of
                    Some p \<Rightarrow> p
                  | None \<Rightarrow> emptyPageInfo\<lparr>pg_Code := of_nat code\<rparr>))
      else
        (case GetPageInfoByAlias pages aliases s of
           None \<Rightarrow> Fail ''unknown usage page''
         | Some p \<Rightarrow> Ret p))"

definition parse_usage ::
  "(u16 \<rightharpoonup> PageInfo) \<Rightarrow> (string \<rightharpoonup> u16) \<Rightarrow> string \<Rightarrow> (string, PageInfo \<times> UsageInfo) outcome" where
  "parse_usage pages aliases s =
     (let parts = split_at CHR ''.'' s;
          parts = (if length parts = 1 then [''kb'', parts ! 0] else parts)
      in if length parts \<noteq> 2 then Fail ''invalid usage string''
         else obind (ParsePage pages aliases (parts ! 0)) (\<lambda>pageInfo.
           if pg_Code pageInfo = KeyboardKeypad then
             obind (ParseKeyboardKeypad (parts ! 1)) (\<lambda>i. Ret (pageInfo, emptyUsageInfo\<lparr>ui_ID := i\<rparr>))
           else (case pg_Usages pageInfo of
                   None \<Rightarrow> Panic
                 | Some usages \<Rightarrow>
                     (case usages_ByAlias usages (parts ! 1) of
                        None \<Rightarrow> Fail ''unknown usage''
                      | Some usageInfo \<Rightarrow> Ret (pageInfo, usageInfo)))))"

subsection \<open>Usages (hidapi/usage.go)\<close>

definition Usage_String :: "(u16 \<rightharpoonup> PageInfo) \<Rightarrow> Usage \<Rightarrow> string option" where
  "Usage_String pages u = format_usage pages (Usage_Page u) (Usage_ID u)"

definition ParseUsage :: "(u16 \<rightharpoonup> PageInfo) \<Rightarrow> (string \<rightharpoonup> u16) \<Rightarrow> string \<Rightarrow> (string, Usage) outcome" where
  "ParseUsage pages aliases s =
     obind (parse_usage pages aliases s) (\<lambda>(pageInfo, usageInfo). Ret (NewUsage (pg_Code pageInfo) (ui_ID usageInfo)))"

primrec ParseUsages :: "(u16 \<rightharpoonup> PageInfo) \<Rightarrow> (string \<rightharpoonup> u16) \<Rightarrow> string list \<Rightarrow> (string, Usage list) outcome" where
  "ParseUsages pages aliases [] = Ret []"
| "ParseUsages pages aliases (s # ss) =
     obind (ParseUsage pages aliases s) (\<lambda>u. obind (ParseUsages pages aliases ss) (\<lambda>us. Ret (u # us)))"

subsection \<open>Patterns (hidusage/matcher.go)\<close>

type_synonym Matcher = "u16 \<Rightarrow> u16 \<Rightarrow> bool"

definition new_matcher :: "(u16 \<rightharpoonup> PageInfo) \<Rightarrow> (string \<rightharpoonup> u16) \<Rightarrow> string \<Rightarrow> (string, Matcher) outcome" where
  "new_matcher pages aliases pattern =
     (let parts = split_at CHR ''.'' pattern;
          parts = (if length parts = 1 then [parts ! 0, ''*''] else parts)
      in if parts ! 0 = ''*'' then Ret (\<lambda>page i. True)
         else if parts ! 1 = ''*'' then
           obind (ParsePage pages aliases (parts ! 0)) (\<lambda>pageInfo. Ret (\<lambda>page i. pg_Code pageInfo = page))
         else
           obind (parse_usage pages aliases pattern) (\<lambda>(pageInfo, usageInfo).
             Ret (\<lambda>page i. pg_Code pageInfo = page \<and> ui_ID usageInfo = i)))"

primrec matchers_loop :: "(u16 \<rightharpoonup> PageInfo) \<Rightarrow> (string \<rightharpoonup> u16) \<Rightarrow> string list \<Rightarrow> (string, Matcher list) outcome" where
  "matchers_loop pages aliases [] = Ret []"
| "matchers_loop pages aliases (p # ps) =
     obind (new_matcher pages aliases p) (\<lambda>f. obind (matchers_loop pages aliases ps) (\<lambda>fs. Ret (f # fs)))"

primrec any_matcher :: "Matcher list \<Rightarrow> Matcher" where
  "any_matcher [] page i = False"
| "any_matcher (f # fs) page i = (if f page i then True else any_matcher fs page i)"

definition NewMatcher :: "(u16 \<rightharpoonup> PageInfo) \<Rightarrow> (string \<rightharpoonup> u16) \<Rightarrow> string list \<Rightarrow> (string, Matcher) outcome" where
  "NewMatcher pages aliases patterns =
     (if length patterns = 0 then Ret (\<lambda>page i. True)
      else obind (matchers_loop pages aliases patterns) (\<lambda>funcs. Ret (any_matcher funcs)))"

end
