(* ===== verification/FlowDsl.thy ===== *)
theory FlowDsl
  imports HidUsage FlowApi
begin

section \<open>Statements, declarations and arguments (flowapi/flowdsl, flowapi/arguments.go)\<close>

text \<open>
  The data that the expression parser returns, the check of declarations after parsing, and the
  binding of arguments to parameters. The parser is generated by a library from struct tags; what it
  returns for a text is a parameter. A pointer field is an option, and reading through nil is
  \<open>Panic\<close>. A duration is in nanoseconds.
\<close>

subsection \<open>Data (parser.go)\<close>

record Value =
  v_String :: "string option"
  v_Number :: "string option"
  v_Boolean :: "bool option"

definition Value_IsNull :: "Value \<Rightarrow> bool" where
  "Value_IsNull v \<longleftrightarrow> v_String v = None \<and> v_Number v = None \<and> v_Boolean v = None"

definition nullValue :: Value where
  "nullValue = \<lparr>v_String = None, v_Number = None, v_Boolean = None\<rparr>"

record UsageStatement =
  us_Usage :: string
  us_Value :: i32
  us_Usages :: "string list"

datatype ExpressionStatement = ExpressionStatement (es_Identifier: string) (es_Arguments: "Argument list")
  and Argument = Argument (a_Usage: "UsageStatement option") (a_Expr: "ExpressionStatement option")
    (a_Duration: "int option") (a_Value: "Value option")

record Statement =
  st_Usage :: "UsageStatement option"
  st_Expr :: "ExpressionStatement option"

record ParameterValue =
  pv_Duration :: "int option"
  pv_Value :: "Value option"

record Parameter =
  p_Name :: string
  p_Type :: string
  p_Default :: "ParameterValue option"

record Declaration =
  d_Identifier :: string
  d_Parameters :: "Parameter list"

subsection \<open>Declarations (dsl.go)\<close>

text \<open>The default value of a parameter, by type.\<close>

definition default_ok :: "string \<Rightarrow> ParameterValue \<Rightarrow> (string, unit) outcome" where
  "default_ok t d =
     (if t = ''string'' then
        (case pv_Value d of Some v \<Rightarrow> if v_String v = None then Fail ''should be a string'' else Ret ()
         | None \<Rightarrow> Fail ''should be a string'')
      else if t = ''number'' then
        (case pv_Value d of Some v \<Rightarrow> if v_Number v = None then Fail ''should be a number'' else Ret ()
         | None \<Rightarrow> Fail ''should be a number'')
      else if t = ''boolean'' then
        (case pv_Value d of Some v \<Rightarrow> if v_Boolean v = None then Fail ''should be a boolean'' else Ret ()
         | None \<Rightarrow> Fail ''should be a boolean'')
      else if t = ''Duration'' then
        (if pv_Duration d = None then Fail ''should be a duration'' else Ret ())
      else if t \<in> {''Action'', ''Signal'', ''Usage''} then
        (case pv_Value d of Some v \<Rightarrow> if \<not> Value_IsNull v then Fail ''can only be null'' else Ret ()
         | None \<Rightarrow> Fail ''can only be null'')
      else if t = ''any'' then Ret ()
      else Fail ''unsupported type'')"

primrec check_parameters :: "Parameter list \<Rightarrow> bool \<Rightarrow> (string, unit) outcome" where
  "check_parameters [] shouldHaveDefault = Ret ()"
| "check_parameters (p # ps) shouldHaveDefault =
     (case p_Default p of
        None \<Rightarrow> if shouldHaveDefault then Fail ''should have a default value'' else check_parameters ps shouldHaveDefault
      | Some d \<Rightarrow> obind (default_ok (p_Type p) d) (\<lambda>_. check_parameters ps True))"

definition ParseDeclaration :: "(string \<Rightarrow> (string, Declaration) outcome) \<Rightarrow> string \<Rightarrow> (string, Declaration) outcome" where
  "ParseDeclaration parser decl =
     obind (parser decl) (\<lambda>result. obind (check_parameters (d_Parameters result) False) (\<lambda>_. Ret result))"

subsection \<open>Arguments (arguments.go)\<close>

record Arguments =
  ar_parameters :: "Parameter list"
  ar_arguments :: "Argument list"
  ar_nameMap :: "string \<rightharpoonup> nat"

primrec name_map_loop :: "Parameter list \<Rightarrow> nat \<Rightarrow> (string \<rightharpoonup> nat) \<Rightarrow> string \<rightharpoonup> nat" where
  "name_map_loop [] i m = m"
| "name_map_loop (p # ps) i m = name_map_loop ps (Suc i) (m(p_Name p \<mapsto> i))"

text \<open>One argument against the type of its parameter. Values are read without a nil check.\<close>

definition argument_ok :: "string \<Rightarrow> Argument \<Rightarrow> (string, unit) outcome" where
  "argument_ok t arg =
     (let isNull = (case a_Value arg of None \<Rightarrow> False | Some v \<Rightarrow> Value_IsNull v)
      in if t = ''string'' then
           (case a_Value arg of None \<Rightarrow> Panic
            | Some v \<Rightarrow> if v_String v = None then Fail ''should be a string'' else Ret ())
         else if t = ''number'' then
           (case a_Value arg of None \<Rightarrow> Panic
            | Some v \<Rightarrow> if v_Number v = None then Fail ''should be a number'' else Ret ())
         else if t = ''boolean'' then
           (case a_Value arg of None \<Rightarrow> Panic
            | Some v \<Rightarrow> if v_Boolean v = None then Fail ''should be a boolean'' else Ret ())
         else if t = ''Duration'' then
           (if a_Duration arg = None then Fail ''should be a duration'' else Ret ())
         else if t = ''Action'' then
           (if a_Expr arg = None \<and> a_Usage arg = None \<and> \<not> isNull then Fail ''should be an action'' else Ret ())
         else if t = ''Signal'' then
           (if a_Expr arg = None \<and> \<not> isNull then Fail ''should be a signal'' else Ret ())
         else if t = ''Usage'' then
           (if a_Usage arg = None then Fail ''should be a usage'' else Ret ())
         else if t = ''any'' then Ret ()
         else Fail ''unsupported type'')"

primrec check_arguments :: "Parameter list \<Rightarrow> nat \<Rightarrow> Argument list \<Rightarrow> (string, unit) outcome" where
  "check_arguments [] i args = Ret ()"
| "check_arguments (p # ps) i args =
     (if length args \<le> i then
        (if p_Default p = None then Fail ''missing argument'' else check_arguments ps (Suc i) args)
      else obind (argument_ok (p_Type p) (args ! i)) (\<lambda>_. check_arguments ps (Suc i) args))"

definition NewArguments :: "Parameter list \<Rightarrow> Argument list \<Rightarrow> (string, Arguments) outcome" where
  "NewArguments parameters arguments =
     (let nameMap = name_map_loop parameters 0 Map.empty;
          requiredParams = length (filter (\<lambda>p. p_Default p = None) parameters)
      in if length arguments < requiredParams then Fail ''not enough arguments provided''
         else if length arguments > length parameters then Fail ''too many arguments provided''
         else obind (check_arguments parameters 0 arguments) (\<lambda>_.
           Ret \<lparr>ar_parameters = parameters, ar_arguments = arguments, ar_nameMap = nameMap\<rparr>))"

text \<open>The index comes from the map of names: outside the parameters it is an index error.\<close>

definition ArgumentOrNil :: "Arguments \<Rightarrow> string \<Rightarrow> Argument option option" where
  "ArgumentOrNil a name =
     (case ar_nameMap a name of
        None \<Rightarrow> Some None
      | Some idx \<Rightarrow>
          if length (ar_arguments a) \<le> idx then
            map_option
              (\<lambda>p. map_option (\<lambda>d. Argument None None (pv_Duration d) (pv_Value d)) (p_Default p))
              (index (ar_parameters a) idx)
          else Some (Some (ar_arguments a ! idx)))"

definition get_argument :: "Arguments \<Rightarrow> string \<Rightarrow> Argument option" where
  "get_argument a name =
     map_option (\<lambda>arg. case arg of None \<Rightarrow> Argument None None None (Some nullValue) | Some arg \<Rightarrow> arg)
       (ArgumentOrNil a name)"

definition Arguments_String :: "Arguments \<Rightarrow> string \<Rightarrow> string option" where
  "Arguments_String a name = map_option
     (\<lambda>arg. case a_Value arg of None \<Rightarrow> '''' | Some v \<Rightarrow> (case v_String v of None \<Rightarrow> '''' | Some s \<Rightarrow> s))
     (get_argument a name)"

definition Arguments_Number :: "Arguments \<Rightarrow> string \<Rightarrow> string option" where
  "Arguments_Number a name = map_option
     (\<lambda>arg. case a_Value arg of None \<Rightarrow> ''0'' | Some v \<Rightarrow> (case v_Number v of None \<Rightarrow> ''0'' | Some s \<Rightarrow> s))
     (get_argument a name)"

definition Arguments_Boolean :: "Arguments \<Rightarrow> string \<Rightarrow> bool option" where
  "Arguments_Boolean a name = map_option
     (\<lambda>arg. case a_Value arg of None \<Rightarrow> False | Some v \<Rightarrow> (case v_Boolean v of None \<Rightarrow> False | Some b \<Rightarrow> b))
     (get_argument a name)"

definition Arguments_Duration :: "Arguments \<Rightarrow> string \<Rightarrow> int option" where
  "Arguments_Duration a name = map_option
     (\<lambda>arg. case a_Duration arg of None \<Rightarrow> 0 | Some d \<Rightarrow> d) (get_argument a name)"

definition Arguments_Usages ::
  "(u16 \<rightharpoonup> PageInfo) \<Rightarrow> (string \<rightharpoonup> u16) \<Rightarrow> Arguments \<Rightarrow> string \<Rightarrow> (string, Usage list) outcome" where
  "Arguments_Usages pages aliases a name =
     obind (of_panic (get_argument a name)) (\<lambda>arg.
       case a_Usage arg of None \<Rightarrow> Ret [] | Some u \<Rightarrow> ParseUsages pages aliases (us_Usages u))"

definition Arguments_Statement :: "Arguments \<Rightarrow> string \<Rightarrow> Statement option" where
  "Arguments_Statement a name =
     map_option (\<lambda>arg. \<lparr>st_Usage = a_Usage arg, st_Expr = a_Expr arg\<rparr>) (get_argument a name)"

definition Arguments_StatementOrNil :: "Arguments \<Rightarrow> string \<Rightarrow> Statement option option" where
  "Arguments_StatementOrNil a name =
     map_option
       (\<lambda>arg. case arg of
          None \<Rightarrow> None
        | Some arg \<Rightarrow>
            if a_Expr arg = None \<and> a_Usage arg = None then None
            else Some \<lparr>st_Usage = a_Usage arg, st_Expr = a_Expr arg\<rparr>)
       (ArgumentOrNil a name)"

subsection \<open>Well-typed arguments\<close>

text \<open>What an argument of a type holds.\<close>

definition argument_has :: "string \<Rightarrow> Argument \<Rightarrow> bool" where
  "argument_has t arg \<longleftrightarrow>
     (t = ''string'' \<longrightarrow> (\<exists>v. a_Value arg = Some v \<and> v_String v \<noteq> None))
     \<and> (t = ''number'' \<longrightarrow> (\<exists>v. a_Value arg = Some v \<and> v_Number v \<noteq> None))
     \<and> (t = ''boolean'' \<longrightarrow> (\<exists>v. a_Value arg = Some v \<and> v_Boolean v \<noteq> None))
     \<and> (t = ''Duration'' \<longrightarrow> a_Duration arg \<noteq> None)"

lemma argument_ok_has: "argument_ok t arg = Ret () \<Longrightarrow> argument_has t arg"
  by (auto simp: argument_ok_def argument_has_def Let_def split: if_splits option.splits)

lemma default_ok_has:
  "default_ok t d = Ret () \<Longrightarrow> argument_has t (Argument None None (pv_Duration d) (pv_Value d))"
  by (auto simp: default_ok_def argument_has_def split: if_splits option.splits)

lemma check_parameters_default:
  "check_parameters ps b = Ret () \<Longrightarrow> p \<in> set ps \<Longrightarrow> p_Default p = Some d \<Longrightarrow> default_ok (p_Type p) d = Ret ()"
  by (induction ps arbitrary: b) (auto simp: obind_Ret_iff split: option.splits if_splits)

lemma check_arguments_nth:
  "check_arguments ps k args = Ret () \<Longrightarrow> i < length ps \<Longrightarrow>
     (if k + i < length args then argument_ok (p_Type (ps ! i)) (args ! (k + i)) = Ret ()
      else p_Default (ps ! i) \<noteq> None)"
proof (induction ps arbitrary: k i)
  case (Cons p ps)
  then show ?case by (cases i) (force simp: obind_Ret_iff split: if_splits)+
qed simp

lemma name_map_loop_nth:
  "distinct (map p_Name ps) \<Longrightarrow> i < length ps \<Longrightarrow> name_map_loop ps k m (p_Name (ps ! i)) = Some (k + i)"
proof (induction ps arbitrary: k m i)
  case (Cons p ps)
  have other: "name_map_loop ps k m n = m n" if "n \<notin> p_Name ` set ps" for ps k m n
    using that by (induction ps arbitrary: k m) auto
  show ?case
    using Cons other [of "p_Name p" ps] by (cases i) auto
qed simp

text \<open>The argument of a declared parameter: the one that was given, or the default.\<close>

lemma get_argument_typed:
  assumes decl: "check_parameters ps b = Ret ()" "distinct (map p_Name ps)"
    and args: "NewArguments ps args = Ret a" and i: "i < length ps"
  shows "\<exists>arg. get_argument a (p_Name (ps ! i)) = Some arg \<and> argument_has (p_Type (ps ! i)) arg
    \<and> (i < length args \<longrightarrow> arg = args ! i)"
proof -
  have check: "check_arguments ps 0 args = Ret ()"
    and a: "a = \<lparr>ar_parameters = ps, ar_arguments = args, ar_nameMap = name_map_loop ps 0 Map.empty\<rparr>"
    using args by (auto simp: NewArguments_def Let_def obind_Ret_iff split: if_splits)
  have m: "ar_nameMap a (p_Name (ps ! i)) = Some i"
    using name_map_loop_nth [OF decl(2) i, of 0] by (simp add: a)
  show ?thesis
  proof (cases "i < length args")
    case True
    then have "argument_ok (p_Type (ps ! i)) (args ! i) = Ret ()" using check_arguments_nth [OF check i] by simp
    then show ?thesis using True m argument_ok_has by (simp add: get_argument_def ArgumentOrNil_def a)
  next
    case False
    then obtain d where d: "p_Default (ps ! i) = Some d" using check_arguments_nth [OF check i] by auto
    then have "default_ok (p_Type (ps ! i)) d = Ret ()" using check_parameters_default [OF decl(1)] i by simp
    then show ?thesis using False m d i default_ok_has
      by (simp add: get_argument_def ArgumentOrNil_def a index_in)
  qed
qed

text \<open>The only panic: a text, number or boolean parameter that is given something without a value.\<close>

lemma argument_ok_Panic: "argument_ok t arg = Panic \<longleftrightarrow> t \<in> {''string'', ''number'', ''boolean''} \<and> a_Value arg = None"
  by (auto simp: argument_ok_def Let_def split: option.splits)

lemma check_arguments_Panic:
  "check_arguments ps k args = Panic \<Longrightarrow>
     \<exists>i < length ps. k + i < length args \<and> argument_ok (p_Type (ps ! i)) (args ! (k + i)) = Panic"
proof (induction ps arbitrary: k)
  case (Cons p ps)
  show ?case
  proof (cases "check_arguments ps (Suc k) args = Panic")
    case True
    from Cons.IH [OF True] obtain i where "i < length ps" "Suc k + i < length args"
      "argument_ok (p_Type (ps ! i)) (args ! (Suc k + i)) = Panic" by blast
    then show ?thesis by (intro exI [of _ "Suc i"]) simp
  next
    case False
    then have "k < length args \<and> argument_ok (p_Type p) (args ! k) = Panic"
      using Cons.prems by (cases "argument_ok (p_Type p) (args ! k)") (auto split: if_splits)
    then show ?thesis by (intro exI [of _ 0]) simp
  qed
qed simp

lemma NewArguments_Panic:
  assumes "NewArguments ps args = Panic"
  shows "\<exists>i < length ps. i < length args \<and> p_Type (ps ! i) \<in> {''string'', ''number'', ''boolean''} \<and> a_Value (args ! i) = None"
proof -
  have "check_arguments ps 0 args = Panic"
    using assms by (cases "check_arguments ps 0 args") (auto simp: NewArguments_def Let_def split: if_splits)
  from check_arguments_Panic [OF this] show ?thesis by (auto simp: argument_ok_Panic)
qed

end
