(* ===== verification/FlowRegistry.thy ===== *)
theory FlowRegistry
  imports FlowDsl
begin

section \<open>Registries (pkg/registry, internal/flowsvc/registry.go, graph.go)\<close>

text \<open>
  The node types and actions a program knows, and the actions and signals that the nodes of a graph
  register. A node type is what the code calls of its interface: the descriptor, and \<open>CreateNode\<close>
  with the node it returns and the registrations it makes on the way, in their order. Handlers are
  abstract (\<open>'h\<close> for actions, \<open>'s\<close> for signals, \<open>'n\<close> for nodes); a nil handler is \<open>None\<close>.
\<close>

subsection \<open>pkg/registry\<close>

type_synonym 'c registry = "string \<rightharpoonup> 'c"

definition NewRegistry :: "'c registry" where
  "NewRegistry = Map.empty"

definition registry_Register :: "'c registry \<Rightarrow> string \<Rightarrow> 'c \<Rightarrow> (string, 'c registry) outcome" where
  "registry_Register r i c = (if r i \<noteq> None then Fail ''component already registered'' else Ret (r(i \<mapsto> c)))"

definition registry_Has :: "'c registry \<Rightarrow> string \<Rightarrow> bool" where
  "registry_Has r i \<longleftrightarrow> r i \<noteq> None"

definition registry_Get :: "'c registry \<Rightarrow> string \<Rightarrow> (string, 'c) outcome" where
  "registry_Get r i = (case r i of None \<Rightarrow> Fail ''component not found'' | Some c \<Rightarrow> Ret c)"

subsection \<open>Node types and actions (flowapi/node.go, flowsvc/registry.go)\<close>

datatype NodeLinkType = NodeLinkTypeNone | NodeLinkTypeOne | NodeLinkTypeMany

text \<open>Of an action or signal descriptor the code reads the signature.\<close>

record NodeTypeDescriptor =
  nd_UpstreamType :: NodeLinkType
  nd_DownstreamType :: NodeLinkType
  nd_Actions :: "string list"
  nd_Signals :: "string list"

record NodeGraphInfo =
  gi_ID :: string
  gi_Descriptor :: NodeTypeDescriptor
  gi_Upstreams :: "string list"
  gi_Downstreams :: "string list"

record ('h, 's) ActionProvider =
  ap_Args :: Arguments
  ap_ActionArg :: "string \<Rightarrow> (string, 'h option) outcome"
  ap_SignalArg :: "string \<Rightarrow> (string, 's option) outcome"

type_synonym ('h, 's) ActionCreator = "('h, 's) ActionProvider \<Rightarrow> (string, 'h option) outcome"
type_synonym ('h, 's) SignalCreator = "('h, 's) ActionProvider \<Rightarrow> (string, 's option) outcome"

datatype ('h, 's) Registration =
    RegAction string "('h, 's) ActionCreator"
  | RegSignal string "('h, 's) SignalCreator"

record ('h, 's, 'n) NodeType =
  nt_Descriptor :: NodeTypeDescriptor
  nt_CreateNode :: "NodeGraphInfo \<Rightarrow> (string, 'n) outcome \<times> ('h, 's) Registration list"

record ('h, 's, 'n) nodeRegistration =
  nr_node :: "('h, 's, 'n) NodeType"
  nr_actions :: "string \<rightharpoonup> Declaration"
  nr_signals :: "string \<rightharpoonup> Declaration"
  nr_declarations :: "string \<rightharpoonup> Declaration"

record ('h, 's) actionRegistration =
  xr_action :: "('h, 's) ActionCreator"
  xr_declaration :: Declaration

record ('h, 's, 'n) Registry =
  rg_nodes :: "('h, 's, 'n) nodeRegistration registry"
  rg_actions :: "('h, 's) actionRegistration registry"

definition emptyRegistry :: "('h, 's, 'n) Registry" where
  "emptyRegistry = \<lparr>rg_nodes = NewRegistry, rg_actions = NewRegistry\<rparr>"

definition RegisterAction_type ::
  "(string \<Rightarrow> (string, Declaration) outcome) \<Rightarrow> ('h, 's, 'n) Registry \<Rightarrow> string \<Rightarrow> ('h, 's) ActionCreator \<Rightarrow>
   (string, ('h, 's, 'n) Registry) outcome" where
  "RegisterAction_type parser a signature action =
     obind (ParseDeclaration parser signature) (\<lambda>decl.
     obind (registry_Register (rg_actions a) (d_Identifier decl) \<lparr>xr_action = action, xr_declaration = decl\<rparr>)
       (\<lambda>acts. Ret (a\<lparr>rg_actions := acts\<rparr>)))"

primrec register_actions ::
  "(string \<Rightarrow> (string, Declaration) outcome) \<Rightarrow> string list \<Rightarrow> ('h, 's, 'n) nodeRegistration \<Rightarrow>
   (string, ('h, 's, 'n) nodeRegistration) outcome" where
  "register_actions parser [] r = Ret r"
| "register_actions parser (sig # sigs) r =
     obind (ParseDeclaration parser sig) (\<lambda>decl.
       let i = d_Identifier decl
       in if nr_declarations r i \<noteq> None then Fail ''identifier already registered''
          else register_actions parser sigs
            (r\<lparr>nr_actions := (nr_actions r)(i \<mapsto> decl), nr_declarations := (nr_declarations r)(i \<mapsto> decl)\<rparr>))"

primrec register_signals ::
  "(string \<Rightarrow> (string, Declaration) outcome) \<Rightarrow> string list \<Rightarrow> ('h, 's, 'n) nodeRegistration \<Rightarrow>
   (string, ('h, 's, 'n) nodeRegistration) outcome" where
  "register_signals parser [] r = Ret r"
| "register_signals parser (sig # sigs) r =
     obind (ParseDeclaration parser sig) (\<lambda>decl.
       let i = d_Identifier decl
       in if nr_declarations r i \<noteq> None then Fail ''identifier already registered''
          else register_signals parser sigs
            (r\<lparr>nr_signals := (nr_signals r)(i \<mapsto> decl), nr_declarations := (nr_declarations r)(i \<mapsto> decl)\<rparr>))"

definition RegisterNodeType ::
  "(string \<Rightarrow> (string, Declaration) outcome) \<Rightarrow> ('h, 's, 'n) Registry \<Rightarrow> string \<Rightarrow> ('h, 's, 'n) NodeType \<Rightarrow>
   (string, ('h, 's, 'n) Registry) outcome" where
  "RegisterNodeType parser a t node =
     (if registry_Has (rg_nodes a) t then Fail ''node already registered''
      else
        obind (register_actions parser (nd_Actions (nt_Descriptor node))
          \<lparr>nr_node = node, nr_actions = Map.empty, nr_signals = Map.empty, nr_declarations = Map.empty\<rparr>) (\<lambda>r.
        obind (register_signals parser (nd_Signals (nt_Descriptor node)) r) (\<lambda>r.
        obind (registry_Register (rg_nodes a) t r) (\<lambda>nodes. Ret (a\<lparr>rg_nodes := nodes\<rparr>)))))"

definition getNodeRegistration :: "('h, 's, 'n) Registry \<Rightarrow> string \<Rightarrow> (string, ('h, 's, 'n) nodeRegistration) outcome" where
  "getNodeRegistration a t = registry_Get (rg_nodes a) t"

definition GetNode :: "('h, 's, 'n) Registry \<Rightarrow> string \<Rightarrow> (string, ('h, 's, 'n) NodeType) outcome" where
  "GetNode a t = obind (registry_Get (rg_nodes a) t) (\<lambda>reg. Ret (nr_node reg))"

definition getActionRegistration :: "('h, 's, 'n) Registry \<Rightarrow> string \<Rightarrow> (string, ('h, 's) actionRegistration) outcome" where
  "getActionRegistration a name = registry_Get (rg_actions a) name"

subsection \<open>The registry of a graph (graph.go)\<close>

record ('h, 's, 'n) GraphRegistry =
  gr_registry :: "('h, 's, 'n) Registry"
  gr_nodeTypes :: "string \<rightharpoonup> string"
  gr_declarations :: "string \<rightharpoonup> (string \<rightharpoonup> Declaration)"
  gr_actions :: "string \<rightharpoonup> (string \<rightharpoonup> ('h, 's) ActionCreator)"
  gr_signals :: "string \<rightharpoonup> (string \<rightharpoonup> ('h, 's) SignalCreator)"

text \<open>A nil inner map reads as empty.\<close>

definition inner :: "('k \<rightharpoonup> ('l \<rightharpoonup> 'v)) \<Rightarrow> 'k \<Rightarrow> 'l \<rightharpoonup> 'v" where
  "inner m k = (case m k of None \<Rightarrow> Map.empty | Some m' \<Rightarrow> m')"

text \<open>A missing node has the type \<open>''''\<close>.\<close>

definition NewNode :: "('h, 's, 'n) GraphRegistry \<Rightarrow> string \<Rightarrow> (string, ('h, 's, 'n) NodeType) outcome" where
  "NewNode r i = GetNode (gr_registry r) (case gr_nodeTypes r i of None \<Rightarrow> '''' | Some t \<Rightarrow> t)"

definition RegisterAction ::
  "('h, 's, 'n) GraphRegistry \<Rightarrow> string \<Rightarrow> string \<Rightarrow> ('h, 's) ActionCreator \<Rightarrow> (string, ('h, 's, 'n) GraphRegistry) outcome" where
  "RegisterAction r nodeID name creator =
     (case gr_nodeTypes r nodeID of
        None \<Rightarrow> Fail ''node not found''
      | Some t \<Rightarrow>
          obind (getNodeRegistration (gr_registry r) t) (\<lambda>reg.
            case nr_actions reg name of
              None \<Rightarrow> Fail ''action is not declared in node type''
            | Some decl \<Rightarrow>
                if inner (gr_declarations r) nodeID name \<noteq> None then Fail ''identifier is already registered''
                else Ret (r\<lparr>gr_actions := (gr_actions r)(nodeID \<mapsto> (inner (gr_actions r) nodeID)(name \<mapsto> creator)),
                            gr_declarations := (gr_declarations r)(nodeID \<mapsto> (inner (gr_declarations r) nodeID)(name \<mapsto> decl))\<rparr>)))"

definition RegisterSignal ::
  "('h, 's, 'n) GraphRegistry \<Rightarrow> string \<Rightarrow> string \<Rightarrow> ('h, 's) SignalCreator \<Rightarrow> (string, ('h, 's, 'n) GraphRegistry) outcome" where
  "RegisterSignal r nodeID name creator =
     (case gr_nodeTypes r nodeID of
        None \<Rightarrow> Fail ''node not found''
      | Some t \<Rightarrow>
          obind (getNodeRegistration (gr_registry r) t) (\<lambda>reg.
            case nr_signals reg name of
              None \<Rightarrow> Fail ''signal is not declared in node type''
            | Some decl \<Rightarrow>
                if inner (gr_declarations r) nodeID name \<noteq> None then Fail ''identifier is already registered''
                else Ret (r\<lparr>gr_signals := (gr_signals r)(nodeID \<mapsto> (inner (gr_signals r) nodeID)(name \<mapsto> creator)),
                            gr_declarations := (gr_declarations r)(nodeID \<mapsto> (inner (gr_declarations r) nodeID)(name \<mapsto> decl))\<rparr>)))"

text \<open>
  The registrations of a node while it is created. The provider collects their errors, which nothing
  reads: a registration that fails leaves the registry as it is.
\<close>

definition provider_register :: "string \<Rightarrow> ('h, 's) Registration \<Rightarrow> ('h, 's, 'n) GraphRegistry \<Rightarrow> ('h, 's, 'n) GraphRegistry" where
  "provider_register nodeID c r =
     (case (case c of RegAction name f \<Rightarrow> RegisterAction r nodeID name f | RegSignal name f \<Rightarrow> RegisterSignal r nodeID name f) of
        Ret r' \<Rightarrow> r'
      | _ \<Rightarrow> r)"

subsection \<open>Handlers of statements\<close>

record componentIdentifier =
  ci_Name :: string
  ci_NodeID :: "string option"

definition parseIdentifier :: "string \<Rightarrow> (string, componentIdentifier) outcome" where
  "parseIdentifier ident =
     (let parts = split_at CHR ''.'' ident
      in if has_prefix ''$'' ident then
           (if length parts \<noteq> 2 then Fail ''invalid identifier''
            else Ret \<lparr>ci_Name = parts ! 1, ci_NodeID = Some (drop 1 (parts ! 0))\<rparr>)
         else if length parts \<noteq> 1 then Fail ''invalid identifier''
         else Ret \<lparr>ci_Name = ident, ci_NodeID = None\<rparr>)"

text \<open>\<open>toggle\<close> and \<open>delta\<close> make the handlers of flowapi for usages.\<close>

record 'h UsageHandlers =
  uh_toggle :: "Usage list \<Rightarrow> 'h"
  uh_delta :: "Usage \<Rightarrow> i32 \<Rightarrow> 'h"

definition NewUsageActionHandler ::
  "(u16 \<rightharpoonup> PageInfo) \<Rightarrow> (string \<rightharpoonup> u16) \<Rightarrow> 'h UsageHandlers \<Rightarrow> UsageStatement \<Rightarrow> (string, 'h option) outcome" where
  "NewUsageActionHandler pages aliases uh stmt =
     (if us_Usage stmt \<noteq> '''' then
        obind (ParseUsage pages aliases (us_Usage stmt)) (\<lambda>u. Ret (Some (uh_delta uh u (us_Value stmt))))
      else obind (ParseUsages pages aliases (us_Usages stmt)) (\<lambda>us. Ret (Some (uh_toggle uh us))))"

text \<open>What an identifier refers to: the creator and its declaration.\<close>

definition action_creator ::
  "('h, 's, 'n) GraphRegistry \<Rightarrow> componentIdentifier \<Rightarrow> (string, ('h, 's) ActionCreator \<times> Declaration) outcome" where
  "action_creator g ident =
     (case ci_NodeID ident of
        None \<Rightarrow>
          obind (getActionRegistration (gr_registry g) (ci_Name ident)) (\<lambda>reg. Ret (xr_action reg, xr_declaration reg))
      | Some nodeID \<Rightarrow>
          (case inner (gr_actions g) nodeID (ci_Name ident) of
             None \<Rightarrow> Fail ''action not found in node''
           | Some c \<Rightarrow>
               Ret (c, case inner (gr_declarations g) nodeID (ci_Name ident) of
                         None \<Rightarrow> \<lparr>d_Identifier = '''', d_Parameters = []\<rparr> | Some d \<Rightarrow> d)))"

definition signal_creator ::
  "('h, 's, 'n) GraphRegistry \<Rightarrow> componentIdentifier \<Rightarrow> (string, ('h, 's) SignalCreator \<times> Declaration) outcome" where
  "signal_creator g ident =
     (case ci_NodeID ident of
        None \<Rightarrow> Fail ''invalid signal identifier''
      | Some nodeID \<Rightarrow>
          (case inner (gr_signals g) nodeID (ci_Name ident) of
             None \<Rightarrow> Fail ''signal not found in node''
           | Some c \<Rightarrow>
               Ret (c, case inner (gr_declarations g) nodeID (ci_Name ident) of
                         None \<Rightarrow> \<lparr>d_Identifier = '''', d_Parameters = []\<rparr> | Some d \<Rightarrow> d)))"

text \<open>A statement among the arguments of an expression is smaller than the expression.\<close>

definition stmt_size :: "Statement \<Rightarrow> nat" where
  "stmt_size st = (case st_Expr st of None \<Rightarrow> 0 | Some e \<Rightarrow> Suc (size e))"

lemma StatementOrNil_size:
  assumes "NewArguments ps (es_Arguments e) = Ret args" "Arguments_StatementOrNil args name = Some (Some st)"
  shows "stmt_size st < Suc (size e)"
proof -
  have a: "ar_arguments args = es_Arguments e"
    using assms(1) by (auto simp: NewArguments_def Let_def obind_Ret_iff split: if_splits)
  from assms(2) obtain arg where arg: "ArgumentOrNil args name = Some (Some arg)" "a_Expr arg \<noteq> None \<or> a_Usage arg \<noteq> None"
    "st = \<lparr>st_Usage = a_Usage arg, st_Expr = a_Expr arg\<rparr>"
    by (auto simp: Arguments_StatementOrNil_def split: option.splits if_splits)
  then have "arg \<in> set (es_Arguments e)"
    by (auto simp: ArgumentOrNil_def a split: option.splits if_splits)
  then have "size arg < size e"
    using size_list_estimation' [of arg "es_Arguments e" "size arg" size] by (cases e) auto
  moreover have "stmt_size st \<le> size arg"
    by (cases arg) (simp add: arg(3) stmt_size_def split: option.splits)
  ultimately show ?thesis by simp
qed

lemma stmt_size_decreases:
  "st_Expr stmt = Some e \<Longrightarrow> NewArguments ps (es_Arguments e) = Ret args \<Longrightarrow>
     Arguments_StatementOrNil args name = Some (Some st) \<Longrightarrow> stmt_size st < stmt_size stmt"
  using StatementOrNil_size by (fastforce simp: stmt_size_def [of stmt])

text \<open>
  The provider handed to a creator resolves the statements among its arguments by the same functions.
\<close>

function (sequential) action_handler ::
    "(u16 \<rightharpoonup> PageInfo) \<Rightarrow> (string \<rightharpoonup> u16) \<Rightarrow> 'h UsageHandlers \<Rightarrow> ('h, 's, 'n) GraphRegistry \<Rightarrow> Statement \<Rightarrow>
     (string, 'h option) outcome"
  and signal_handler ::
    "(u16 \<rightharpoonup> PageInfo) \<Rightarrow> (string \<rightharpoonup> u16) \<Rightarrow> 'h UsageHandlers \<Rightarrow> ('h, 's, 'n) GraphRegistry \<Rightarrow> Statement \<Rightarrow>
     (string, 's option) outcome" where
  "action_handler pages aliases uh g stmt =
     (case st_Usage stmt of
        Some u \<Rightarrow> NewUsageActionHandler pages aliases uh u
      | None \<Rightarrow>
          (case st_Expr stmt of
             None \<Rightarrow> Fail ''invalid action statement''
           | Some e \<Rightarrow>
               obind (parseIdentifier (es_Identifier e)) (\<lambda>ident.
               obind (action_creator g ident) (\<lambda>(creator, decl).
               obind (NewArguments (d_Parameters decl) (es_Arguments e)) (\<lambda>args.
               creator \<lparr>ap_Args = args,
                 ap_ActionArg = (\<lambda>name. case Arguments_StatementOrNil args name of
                    None \<Rightarrow> Panic | Some None \<Rightarrow> Ret None | Some (Some st) \<Rightarrow> action_handler pages aliases uh g st),
                 ap_SignalArg = (\<lambda>name. case Arguments_StatementOrNil args name of
                    None \<Rightarrow> Panic | Some None \<Rightarrow> Ret None | Some (Some st) \<Rightarrow> signal_handler pages aliases uh g st)\<rparr>)))))"
| "signal_handler pages aliases uh g stmt =
     (case st_Expr stmt of
        None \<Rightarrow> Fail ''invalid signal statement''
      | Some e \<Rightarrow>
          obind (parseIdentifier (es_Identifier e)) (\<lambda>ident.
          obind (signal_creator g ident) (\<lambda>(creator, decl).
          obind (NewArguments (d_Parameters decl) (es_Arguments e)) (\<lambda>args.
          creator \<lparr>ap_Args = args,
            ap_ActionArg = (\<lambda>name. case Arguments_StatementOrNil args name of
               None \<Rightarrow> Panic | Some None \<Rightarrow> Ret None | Some (Some st) \<Rightarrow> action_handler pages aliases uh g st),
            ap_SignalArg = (\<lambda>name. case Arguments_StatementOrNil args name of
               None \<Rightarrow> Panic | Some None \<Rightarrow> Ret None | Some (Some st) \<Rightarrow> signal_handler pages aliases uh g st)\<rparr>))))"
  by pat_completeness auto
termination
  by (relation "measure (\<lambda>x. case x of Inl (p, a, uh, g, st) \<Rightarrow> stmt_size st | Inr (p, a, uh, g, st) \<Rightarrow> stmt_size st)")
     (auto intro: stmt_size_decreases)

declare action_handler.simps [simp del] signal_handler.simps [simp del]

subsection \<open>The first registration stays\<close>

text \<open>A registration that is refused, whatever its creator.\<close>

primrec rejected :: "string \<Rightarrow> ('h, 's) Registration \<Rightarrow> ('h, 's, 'n) GraphRegistry \<Rightarrow> bool" where
  "rejected i (RegAction name f) r \<longleftrightarrow> (\<forall>r'. RegisterAction r i name f \<noteq> Ret r')"
| "rejected i (RegSignal name f) r \<longleftrightarrow> (\<forall>r'. RegisterSignal r i name f \<noteq> Ret r')"

primrec reg_key :: "('h, 's) Registration \<Rightarrow> bool \<times> string" where
  "reg_key (RegAction name f) = (True, name)"
| "reg_key (RegSignal name f) = (False, name)"

lemma rejected_key: "reg_key c = reg_key c' \<Longrightarrow> rejected i c r \<longleftrightarrow> rejected i c' r"
  by (cases c; cases c') (auto simp: RegisterAction_def RegisterSignal_def obind_Ret_iff split: option.splits)

lemma provider_register_rejected: "rejected i c r \<Longrightarrow> provider_register i c r = r"
  by (cases c) (auto simp: provider_register_def split: outcome.splits)

lemma RegisterAction_RetD:
  "RegisterAction r i name f = Ret r' \<Longrightarrow> \<exists>decl.
     r' = r\<lparr>gr_actions := (gr_actions r)(i \<mapsto> (inner (gr_actions r) i)(name \<mapsto> f)),
            gr_declarations := (gr_declarations r)(i \<mapsto> (inner (gr_declarations r) i)(name \<mapsto> decl))\<rparr>"
  by (auto simp: RegisterAction_def obind_Ret_iff split: option.splits if_splits)

lemma RegisterAction_Ret:
  assumes "RegisterAction r i name f = Ret r'"
  shows "gr_registry r' = gr_registry r \<and> gr_nodeTypes r' = gr_nodeTypes r
    \<and> (\<forall>n. inner (gr_declarations r) i n \<noteq> None \<longrightarrow> inner (gr_declarations r') i n \<noteq> None)
    \<and> inner (gr_declarations r') i name \<noteq> None"
  using RegisterAction_RetD [OF assms] by (auto simp: inner_def)

lemma RegisterSignal_RetD:
  "RegisterSignal r i name f = Ret r' \<Longrightarrow> \<exists>decl.
     r' = r\<lparr>gr_signals := (gr_signals r)(i \<mapsto> (inner (gr_signals r) i)(name \<mapsto> f)),
            gr_declarations := (gr_declarations r)(i \<mapsto> (inner (gr_declarations r) i)(name \<mapsto> decl))\<rparr>"
  by (auto simp: RegisterSignal_def obind_Ret_iff split: option.splits if_splits)

lemma RegisterSignal_Ret:
  assumes "RegisterSignal r i name f = Ret r'"
  shows "gr_registry r' = gr_registry r \<and> gr_nodeTypes r' = gr_nodeTypes r
    \<and> (\<forall>n. inner (gr_declarations r) i n \<noteq> None \<longrightarrow> inner (gr_declarations r') i n \<noteq> None)
    \<and> inner (gr_declarations r') i name \<noteq> None"
  using RegisterSignal_RetD [OF assms] by (auto simp: inner_def)

lemma rejected_declared: "inner (gr_declarations r) i (snd (reg_key c)) \<noteq> None \<Longrightarrow> rejected i c r"
  by (cases c) (auto simp: RegisterAction_def RegisterSignal_def obind_Ret_iff split: option.splits)

lemma provider_register_Ret:
  assumes "provider_register i d r \<noteq> r"
  shows "gr_registry (provider_register i d r) = gr_registry r \<and> gr_nodeTypes (provider_register i d r) = gr_nodeTypes r
    \<and> (\<forall>n. inner (gr_declarations r) i n \<noteq> None \<longrightarrow> inner (gr_declarations (provider_register i d r)) i n \<noteq> None)
    \<and> inner (gr_declarations (provider_register i d r)) i (snd (reg_key d)) \<noteq> None"
proof (cases d)
  case (RegAction name f)
  then obtain r' where "RegisterAction r i name f = Ret r'" using assms
    by (auto simp: provider_register_def split: outcome.splits)
  then show ?thesis using RegAction RegisterAction_Ret [of r i name f r'] by (simp add: provider_register_def)
next
  case (RegSignal name f)
  then obtain r' where "RegisterSignal r i name f = Ret r'" using assms
    by (auto simp: provider_register_def split: outcome.splits)
  then show ?thesis using RegSignal RegisterSignal_Ret [of r i name f r'] by (simp add: provider_register_def)
qed

lemma rejected_stays:
  assumes "rejected i c r"
  shows "rejected i c (provider_register i d r)"
proof (cases "provider_register i d r = r")
  case False
  note r' = provider_register_Ret [OF False]
  show ?thesis
  proof (cases "inner (gr_declarations r) i (snd (reg_key c)) = None")
    case True
    show ?thesis
      using assms r' True
      by (cases c) (auto simp: RegisterAction_def RegisterSignal_def obind_Ret_iff split: option.splits)
  next
    case False
    then show ?thesis using r' rejected_declared by blast
  qed
qed (use assms in simp)

lemma registered_rejected: "rejected i c (provider_register i c r)"
proof (cases "rejected i c r")
  case True
  then show ?thesis by (simp add: provider_register_rejected)
next
  case False
  then have "provider_register i c r \<noteq> r \<or> rejected i c (provider_register i c r)"
    using RegisterAction_Ret RegisterSignal_Ret rejected_declared [of "provider_register i c r" i c]
    by (cases c) (fastforce simp: provider_register_def)+
  then show ?thesis using provider_register_Ret rejected_declared by blast
qed

lemma fold_rejected:
  "(\<forall>c \<in> set cs. rejected i c r) \<Longrightarrow> fold (provider_register i) cs r = r"
  by (induction cs) (auto simp: provider_register_rejected)

lemma fold_registered:
  "c \<in> set cs \<or> rejected i c r \<Longrightarrow> rejected i c (fold (provider_register i) cs r)"
  by (induction cs arbitrary: r) (auto simp: registered_rejected rejected_stays)

text \<open>A node that is created again registers under the same names in vain.\<close>

lemma reregister_ignored:
  assumes "reg_key ` set cs' \<subseteq> reg_key ` set cs"
  shows "fold (provider_register i) cs' (fold (provider_register i) cs r) = fold (provider_register i) cs r"
proof (rule fold_rejected, rule ballI)
  fix c' assume "c' \<in> set cs'"
  then obtain c where "c \<in> set cs" "reg_key c = reg_key c'" using assms by (metis image_iff subsetD imageI)
  then show "rejected i c' (fold (provider_register i) cs r)"
    using fold_registered [of c cs i r] rejected_key [of c c'] by blast
qed

end
