(* ===== verification/NodeTypes.thy ===== *)
theory NodeTypes
  imports Mux Bind Split FlowRegistry
begin

section \<open>The node types of the program (components/nodes, internal/hidsvc)\<close>

text \<open>
  The descriptors, the creation and the configuration of the built-in node types, and their
  registration. The state that signal handlers change is \<open>'w\<close>, and \<open>send\<close> puts a signal on the
  channel of a mux. The lemmas show what the registry holds after the registration, and that the
  action \<open>switch\<close> of a mux sets its route and unsets it again.
\<close>

subsection \<open>Descriptors\<close>

definition MuxType_Descriptor :: NodeTypeDescriptor where
  "MuxType_Descriptor = \<lparr>nd_UpstreamType = NodeLinkTypeMany, nd_DownstreamType = NodeLinkTypeMany,
     nd_Actions = [''switch(route: string)''],
     nd_Signals = [''reset()'', ''set(route: string)'', ''unset(route: string)'']\<rparr>"

definition BindType_Descriptor :: NodeTypeDescriptor where
  "BindType_Descriptor = \<lparr>nd_UpstreamType = NodeLinkTypeMany, nd_DownstreamType = NodeLinkTypeOne,
     nd_Actions = [], nd_Signals = []\<rparr>"

definition SplitType_Descriptor :: NodeTypeDescriptor where
  "SplitType_Descriptor = \<lparr>nd_UpstreamType = NodeLinkTypeMany, nd_DownstreamType = NodeLinkTypeMany,
     nd_Actions = [], nd_Signals = []\<rparr>"

definition InputNodeType_Descriptor :: NodeTypeDescriptor where
  "InputNodeType_Descriptor = \<lparr>nd_UpstreamType = NodeLinkTypeNone, nd_DownstreamType = NodeLinkTypeMany,
     nd_Actions = [], nd_Signals = []\<rparr>"

definition OutputNodeType_Descriptor :: NodeTypeDescriptor where
  "OutputNodeType_Descriptor = \<lparr>nd_UpstreamType = NodeLinkTypeMany, nd_DownstreamType = NodeLinkTypeNone,
     nd_Actions = [], nd_Signals = []\<rparr>"

subsection \<open>Nodes\<close>

record 'w Bind =
  bind_mappings :: "'w bindItem list"
  bind_interrupt :: Matcher

text \<open>The node of an input or output is the identifier it was created with.\<close>

datatype 'w Node = MuxNode Mux | BindNode "'w Bind option" | SplitNode "matchItem list" | InputNode string | OutputNode string

type_synonym 'w GoHandler = "'w ActionHandler"
type_synonym 'w SignalHandler = "'w \<Rightarrow> 'w"

definition route_arg :: "('h, 's) ActionProvider \<Rightarrow> (string, route) outcome" where
  "route_arg p = of_panic (Arguments_String (ap_Args p) ''route'')"

definition MuxType_CreateNode ::
  "(string \<Rightarrow> MuxSignal \<Rightarrow> 'w SignalHandler) \<Rightarrow> NodeGraphInfo \<Rightarrow>
   (string, 'w Node) outcome \<times> ('w GoHandler, 'w SignalHandler) Registration list" where
  "MuxType_CreateNode send info =
     (case mux_CreateNode (gi_Downstreams info) of
        None \<Rightarrow> (Panic, [])
      | Some m \<Rightarrow>
          (Ret (MuxNode m),
           [RegSignal ''reset'' (\<lambda>p. obind (mux_signalReset m) (\<lambda>s. Ret (Some (send (gi_ID info) s)))),
            RegSignal ''set'' (\<lambda>p. obind (route_arg p) (\<lambda>r.
              obind (mux_signalSet m r) (\<lambda>s. Ret (Some (send (gi_ID info) s))))),
            RegSignal ''unset'' (\<lambda>p. obind (route_arg p) (\<lambda>r.
              obind (mux_signalUnset m r) (\<lambda>s. Ret (Some (send (gi_ID info) s))))),
            RegAction ''switch'' (\<lambda>p. obind (route_arg p) (\<lambda>r.
              obind (mux_actionSwitch m r) (\<lambda>(set, unset).
              Ret (Some (NewSignalActionHandler (Some (send (gi_ID info) set)) (Some (send (gi_ID info) unset)))))))]))"

text \<open>A new bind has no mappings, and its matcher is nil until it is configured.\<close>

definition BindType_CreateNode ::
  "NodeGraphInfo \<Rightarrow> (string, 'w Node) outcome \<times> ('w GoHandler, 'w SignalHandler) Registration list" where
  "BindType_CreateNode info = (Ret (BindNode None), [])"

definition SplitType_CreateNode ::
  "NodeGraphInfo \<Rightarrow> (string, 'w Node) outcome \<times> ('w GoHandler, 'w SignalHandler) Registration list" where
  "SplitType_CreateNode info = (Ret (SplitNode []), [])"

definition InputNodeType_CreateNode ::
  "NodeGraphInfo \<Rightarrow> (string, 'w Node) outcome \<times> ('w GoHandler, 'w SignalHandler) Registration list" where
  "InputNodeType_CreateNode info = (Ret (InputNode (gi_ID info)), [])"

definition OutputNodeType_CreateNode ::
  "NodeGraphInfo \<Rightarrow> (string, 'w Node) outcome \<times> ('w GoHandler, 'w SignalHandler) Registration list" where
  "OutputNodeType_CreateNode info = (Ret (OutputNode (gi_ID info)), [])"

subsection \<open>Configuration of a bind (bind.go)\<close>

text \<open>An entry of the map: the usages of the trigger and the statement. The code ranges over them in order.\<close>

record bindConfig =
  bc_Map :: "(UsageStatement \<times> Statement) list"
  bc_Interrupt :: "string list"

definition default_interrupt :: "string list" where
  "default_interrupt = [''kb.*'', ''con.*'', ''btn.*'', ''dsk.Wheel'']"

text \<open>A nil handler panics when it is called.\<close>

definition call_handler :: "'w ActionHandler option \<Rightarrow> 'w ActionHandler" where
  "call_handler h = (case h of None \<Rightarrow> (\<lambda>w ac. None) | Some h \<Rightarrow> h)"

primrec bind_items ::
  "(u16 \<rightharpoonup> PageInfo) \<Rightarrow> (string \<rightharpoonup> u16) \<Rightarrow> (Statement \<Rightarrow> (string, 'w ActionHandler option) outcome) \<Rightarrow>
   (UsageStatement \<times> Statement) list \<Rightarrow> 'w bindItem list \<Rightarrow> (string, 'w bindItem list) outcome" where
  "bind_items pages aliases handler [] acc = Ret acc"
| "bind_items pages aliases handler (item # items) acc =
     obind (ParseUsages pages aliases (us_Usages (fst item))) (\<lambda>usages.
     obind (handler (snd item)) (\<lambda>h.
     bind_items pages aliases handler items (acc @ [new_bindItem usages (call_handler h)])))"

text \<open>\<open>unmarshal\<close> is the YAML library's, on a configuration with the default interrupts.\<close>

definition bind_Configure ::
  "(u16 \<rightharpoonup> PageInfo) \<Rightarrow> (string \<rightharpoonup> u16) \<Rightarrow> (bindConfig \<Rightarrow> (string, bindConfig) outcome) \<Rightarrow>
   (Statement \<Rightarrow> (string, 'w ActionHandler option) outcome) \<Rightarrow> 'w bindItem list \<Rightarrow> (string, 'w Bind) outcome" where
  "bind_Configure pages aliases unmarshal handler mappings =
     obind (unmarshal \<lparr>bc_Map = [], bc_Interrupt = default_interrupt\<rparr>) (\<lambda>config.
     obind (NewMatcher pages aliases (bc_Interrupt config)) (\<lambda>interrupt.
     obind (bind_items pages aliases handler (bc_Map config) mappings) (\<lambda>mappings.
     Ret \<lparr>bind_mappings = mappings, bind_interrupt = interrupt\<rparr>)))"

subsection \<open>Registration (nodes/register.go, Service.RegisterNodes)\<close>

definition MustRegisterNodeType ::
  "(string \<Rightarrow> (string, Declaration) outcome) \<Rightarrow> string \<Rightarrow> ('h, 's, 'n) NodeType \<Rightarrow> ('h, 's, 'n) Registry \<Rightarrow>
   ('h, 's, 'n) Registry option" where
  "MustRegisterNodeType parser t node reg =
     (case RegisterNodeType parser reg t node of Ret reg \<Rightarrow> Some reg | _ \<Rightarrow> None)"

definition nodes_Register ::
  "(string \<Rightarrow> (string, Declaration) outcome) \<Rightarrow> (string \<Rightarrow> MuxSignal \<Rightarrow> 'w SignalHandler) \<Rightarrow>
   ('w GoHandler, 'w SignalHandler, 'w Node) Registry \<Rightarrow> ('w GoHandler, 'w SignalHandler, 'w Node) Registry option" where
  "nodes_Register parser send reg =
     (case MustRegisterNodeType parser ''bind'' \<lparr>nt_Descriptor = BindType_Descriptor, nt_CreateNode = BindType_CreateNode\<rparr> reg of
        None \<Rightarrow> None
      | Some reg \<Rightarrow>
          (case MustRegisterNodeType parser ''mux''
              \<lparr>nt_Descriptor = MuxType_Descriptor, nt_CreateNode = MuxType_CreateNode send\<rparr> reg of
             None \<Rightarrow> None
           | Some reg \<Rightarrow>
               MustRegisterNodeType parser ''split''
                 \<lparr>nt_Descriptor = SplitType_Descriptor, nt_CreateNode = SplitType_CreateNode\<rparr> reg))"

definition hid_RegisterNodes ::
  "(string \<Rightarrow> (string, Declaration) outcome) \<Rightarrow>
   ('w GoHandler, 'w SignalHandler, 'w Node) Registry \<Rightarrow> ('w GoHandler, 'w SignalHandler, 'w Node) Registry option" where
  "hid_RegisterNodes parser reg =
     (case MustRegisterNodeType parser ''input''
         \<lparr>nt_Descriptor = InputNodeType_Descriptor, nt_CreateNode = InputNodeType_CreateNode\<rparr> reg of
        None \<Rightarrow> None
      | Some reg \<Rightarrow>
          MustRegisterNodeType parser ''output''
            \<lparr>nt_Descriptor = OutputNodeType_Descriptor, nt_CreateNode = OutputNodeType_CreateNode\<rparr> reg)"

text \<open>The agent registers the nodes of both packages.\<close>

definition builtin_registry ::
  "(string \<Rightarrow> (string, Declaration) outcome) \<Rightarrow> (string \<Rightarrow> MuxSignal \<Rightarrow> 'w SignalHandler) \<Rightarrow>
   ('w GoHandler, 'w SignalHandler, 'w Node) Registry option" where
  "builtin_registry parser send =
     (case nodes_Register parser send emptyRegistry of None \<Rightarrow> None | Some reg \<Rightarrow> hid_RegisterNodes parser reg)"

text \<open>The registration of a node type whose signatures declare nothing.\<close>

definition plain_registration :: "('h, 's, 'n) NodeType \<Rightarrow> ('h, 's, 'n) nodeRegistration" where
  "plain_registration node =
     \<lparr>nr_node = node, nr_actions = Map.empty, nr_signals = Map.empty, nr_declarations = Map.empty\<rparr>"

lemma RegisterNodeType_plain:
  assumes "rg_nodes a t = None" "nd_Actions (nt_Descriptor node) = []" "nd_Signals (nt_Descriptor node) = []"
  shows "MustRegisterNodeType parser t node a = Some (a\<lparr>rg_nodes := (rg_nodes a)(t \<mapsto> plain_registration node)\<rparr>)"
  using assms
  by (simp add: MustRegisterNodeType_def RegisterNodeType_def registry_Has_def registry_Register_def plain_registration_def)

text \<open>What the expression parser returns for the signatures of a mux.\<close>

definition route_declaration :: "string \<Rightarrow> Declaration" where
  "route_declaration i =
     \<lparr>d_Identifier = i, d_Parameters = [\<lparr>p_Name = ''route'', p_Type = ''string'', p_Default = None\<rparr>]\<rparr>"

definition reset_declaration :: Declaration where
  "reset_declaration = \<lparr>d_Identifier = ''reset'', d_Parameters = []\<rparr>"

definition parses_mux :: "(string \<Rightarrow> (string, Declaration) outcome) \<Rightarrow> bool" where
  "parses_mux parser \<longleftrightarrow> parser ''switch(route: string)'' = Ret (route_declaration ''switch'')
     \<and> parser ''reset()'' = Ret reset_declaration
     \<and> parser ''set(route: string)'' = Ret (route_declaration ''set'')
     \<and> parser ''unset(route: string)'' = Ret (route_declaration ''unset'')"

definition mux_registration ::
  "(string \<Rightarrow> MuxSignal \<Rightarrow> 'w SignalHandler) \<Rightarrow> ('w GoHandler, 'w SignalHandler, 'w Node) nodeRegistration" where
  "mux_registration send =
     \<lparr>nr_node = \<lparr>nt_Descriptor = MuxType_Descriptor, nt_CreateNode = MuxType_CreateNode send\<rparr>,
      nr_actions = [''switch'' \<mapsto> route_declaration ''switch''],
      nr_signals = [''reset'' \<mapsto> reset_declaration, ''set'' \<mapsto> route_declaration ''set'', ''unset'' \<mapsto> route_declaration ''unset''],
      nr_declarations = [''switch'' \<mapsto> route_declaration ''switch'', ''reset'' \<mapsto> reset_declaration,
        ''set'' \<mapsto> route_declaration ''set'', ''unset'' \<mapsto> route_declaration ''unset'']\<rparr>"

lemma RegisterNodeType_mux:
  assumes "parses_mux parser" "rg_nodes a ''mux'' = None"
  shows "MustRegisterNodeType parser ''mux'' \<lparr>nt_Descriptor = MuxType_Descriptor, nt_CreateNode = MuxType_CreateNode send\<rparr> a
    = Some (a\<lparr>rg_nodes := (rg_nodes a)(''mux'' \<mapsto> mux_registration send)\<rparr>)"
  using assms
  by (simp add: MustRegisterNodeType_def RegisterNodeType_def registry_Has_def registry_Register_def
      MuxType_Descriptor_def parses_mux_def ParseDeclaration_def route_declaration_def reset_declaration_def
      mux_registration_def Let_def)

definition builtin_nodes ::
  "(string \<Rightarrow> MuxSignal \<Rightarrow> 'w SignalHandler) \<Rightarrow> string \<rightharpoonup> ('w GoHandler, 'w SignalHandler, 'w Node) nodeRegistration" where
  "builtin_nodes send =
     [''bind'' \<mapsto> plain_registration \<lparr>nt_Descriptor = BindType_Descriptor, nt_CreateNode = BindType_CreateNode\<rparr>,
      ''mux'' \<mapsto> mux_registration send,
      ''split'' \<mapsto> plain_registration \<lparr>nt_Descriptor = SplitType_Descriptor, nt_CreateNode = SplitType_CreateNode\<rparr>,
      ''input'' \<mapsto> plain_registration \<lparr>nt_Descriptor = InputNodeType_Descriptor, nt_CreateNode = InputNodeType_CreateNode\<rparr>,
      ''output'' \<mapsto> plain_registration \<lparr>nt_Descriptor = OutputNodeType_Descriptor, nt_CreateNode = OutputNodeType_CreateNode\<rparr>]"

text \<open>The registration of the built-in nodes does not panic.\<close>

lemma builtin_registered:
  assumes "parses_mux parser"
  shows "builtin_registry parser send = Some \<lparr>rg_nodes = builtin_nodes send, rg_actions = Map.empty\<rparr>"
  using assms
  by (simp add: builtin_registry_def nodes_Register_def hid_RegisterNodes_def emptyRegistry_def NewRegistry_def
      RegisterNodeType_plain RegisterNodeType_mux builtin_nodes_def
      BindType_Descriptor_def SplitType_Descriptor_def InputNodeType_Descriptor_def OutputNodeType_Descriptor_def)

subsection \<open>The action of a mux\<close>

text \<open>The statement \<open>$i.switch("d")\<close>.\<close>

definition switch_statement :: "string \<Rightarrow> route \<Rightarrow> Statement" where
  "switch_statement i d = \<lparr>st_Usage = None, st_Expr = Some (ExpressionStatement (''$'' @ i @ ''.switch'')
     [Argument None None None (Some \<lparr>v_String = Some d, v_Number = None, v_Boolean = None\<rparr>)])\<rparr>"

lemma switch_identifier:
  "CHR ''.'' \<notin> set i \<Longrightarrow> parseIdentifier (CHR ''$'' # i @ ''.switch'') = Ret \<lparr>ci_Name = ''switch'', ci_NodeID = Some i\<rparr>"
  using split_at_append [of "CHR ''.''" "CHR ''$'' # i" "''switch''"]
  by (simp add: parseIdentifier_def has_prefix_def)

lemma inner_update [simp]: "inner (m(k \<mapsto> m')) j = (if j = k then m' else inner m j)"
  by (simp add: inner_def)

lemma provider_register_new:
  assumes "gr_nodeTypes r i = Some t" "getNodeRegistration (gr_registry r) t = Ret reg"
    "inner (gr_declarations r) i n = None"
  shows "nr_signals reg n = Some d \<Longrightarrow> provider_register i (RegSignal n f) r =
      r\<lparr>gr_signals := (gr_signals r)(i \<mapsto> (inner (gr_signals r) i)(n \<mapsto> f)),
        gr_declarations := (gr_declarations r)(i \<mapsto> (inner (gr_declarations r) i)(n \<mapsto> d))\<rparr>"
    "nr_actions reg n = Some d \<Longrightarrow> provider_register i (RegAction n g) r =
      r\<lparr>gr_actions := (gr_actions r)(i \<mapsto> (inner (gr_actions r) i)(n \<mapsto> g)),
        gr_declarations := (gr_declarations r)(i \<mapsto> (inner (gr_declarations r) i)(n \<mapsto> d))\<rparr>"
  using assms by (simp_all add: provider_register_def RegisterSignal_def RegisterAction_def)

lemma mux_registration_names:
  "nr_signals (mux_registration send) ''reset'' = Some reset_declaration"
  "nr_signals (mux_registration send) ''set'' = Some (route_declaration ''set'')"
  "nr_signals (mux_registration send) ''unset'' = Some (route_declaration ''unset'')"
  "nr_actions (mux_registration send) ''switch'' = Some (route_declaration ''switch'')"
  by (simp_all add: mux_registration_def)

text \<open>A mux that is created registers its action, and the statement finds it.\<close>

lemma switch_handler:
  fixes r :: "('w GoHandler, 'w SignalHandler, 'w Node) GraphRegistry"
  assumes reg: "rg_nodes (gr_registry r) ''mux'' = Some (mux_registration send)"
    and i: "gr_nodeTypes r i = Some ''mux''" "CHR ''.'' \<notin> set i"
    and fresh: "inner (gr_declarations r) i = Map.empty"
    and create: "MuxType_CreateNode send \<lparr>gi_ID = i, gi_Descriptor = MuxType_Descriptor, gi_Upstreams = ups, gi_Downstreams = downs\<rparr>
      = (Ret node, regs)"
  shows "action_handler pages aliases uh (fold (provider_register i) regs r) (switch_statement i d) =
    (if d \<in> set downs then Ret (Some (NewSignalActionHandler (Some (send i (muxSet d))) (Some (send i (muxUnset d)))))
     else Fail ''not a downstream node'')"
proof -
  obtain m where m: "mux_CreateNode downs = Some m" "mux_nodeIDs m = downs"
    using create by (auto simp: MuxType_CreateNode_def mux_CreateNode_def split: if_splits)
  define creator :: "('w GoHandler, 'w SignalHandler) ActionCreator" where "creator = (\<lambda>p. obind (route_arg p) (\<lambda>r. obind (mux_actionSwitch m r) (\<lambda>(set, unset).
    Ret (Some (NewSignalActionHandler (Some (send i set)) (Some (send i unset)))))))"
  have regs: "regs = [RegSignal ''reset'' (\<lambda>p. obind (mux_signalReset m) (\<lambda>s. Ret (Some (send i s)))),
      RegSignal ''set'' (\<lambda>p. obind (route_arg p) (\<lambda>r. obind (mux_signalSet m r) (\<lambda>s. Ret (Some (send i s))))),
      RegSignal ''unset'' (\<lambda>p. obind (route_arg p) (\<lambda>r. obind (mux_signalUnset m r) (\<lambda>s. Ret (Some (send i s))))),
      RegAction ''switch'' creator]"
    using create by (simp add: MuxType_CreateNode_def m creator_def)
  have reg': "getNodeRegistration (gr_registry r) ''mux'' = Ret (mux_registration send)"
    using reg by (simp add: getNodeRegistration_def registry_Get_def)
  have "inner (gr_actions (fold (provider_register i) regs r)) i ''switch'' = Some creator
      \<and> inner (gr_declarations (fold (provider_register i) regs r)) i ''switch'' = Some (route_declaration ''switch'')"
    by (simp add: regs provider_register_new(1) [where t = "''mux''", OF _ _ _ mux_registration_names(1)]
        provider_register_new(1) [where t = "''mux''", OF _ _ _ mux_registration_names(2)] provider_register_new(1) [where t = "''mux''", OF _ _ _ mux_registration_names(3)]
        provider_register_new(2) [where t = "''mux''", OF _ _ _ mux_registration_names(4)] i reg' fresh)
  then have found: "action_creator (fold (provider_register i) regs r) \<lparr>ci_Name = ''switch'', ci_NodeID = Some i\<rparr>
      = Ret (creator, route_declaration ''switch'')"
    by (simp add: action_creator_def)
  show ?thesis
    by (subst action_handler.simps)
       (simp add: switch_statement_def switch_identifier i found route_declaration_def
        NewArguments_def argument_ok_def creator_def route_arg_def Arguments_String_def get_argument_def ArgumentOrNil_def
        mux_actionSwitch_def mux_signalSet_def mux_signalUnset_def mux_validateNode_def validate_loop_iff m Let_def)
qed

end
