(* ===== verification/DescDecoder.thy ===== *)
theory DescDecoder
  imports HidDesc
begin

section \<open>Report descriptor decoder (hidapi/hiddesc/decoder.go, commands.go)\<close>

text \<open>
  \<open>DescriptorDecoder\<close>: a byte-driven state machine. Each byte either starts a command (its tag
  selects a function of \<open>commandMap\<close> and the size of the payload) or extends the payload of the open
  command; a complete command is executed on the descriptor state. A command returns an error
  (\<open>Fail\<close>) or, where the code indexes an empty slice, panics (\<open>Panic\<close>). The command function that
  the code keeps in the state is the one of the command's tag, so the model looks it up in
  \<open>commandMap\<close> where the code calls it.
\<close>

subsection \<open>State\<close>

record globalState =
  usagePage :: u16
  logicalMinimum :: i32
  logicalMaximum :: i32
  physicalMinimum :: i32
  physicalMaximum :: i32
  unitExponent :: u32
  unit :: u32
  reportID :: u8
  reportCount :: u32
  reportSize :: u32

record localState =
  usage :: "u16 list"
  usageMinimum :: u16
  usageMaximum :: u16
  designatorIndex :: u8
  designatorMinimum :: u8
  designatorMaximum :: u8
  stringIndex :: u8
  stringMinimum :: u8
  stringMaximum :: u8

definition globalState0 :: globalState where
  "globalState0 = \<lparr>usagePage = 0, logicalMinimum = 0, logicalMaximum = 0, physicalMinimum = 0,
     physicalMaximum = 0, unitExponent = 0, unit = 0, reportID = 0, reportCount = 0, reportSize = 0\<rparr>"

definition localState0 :: localState where
  "localState0 = \<lparr>usage = [], usageMinimum = 0, usageMaximum = 0, designatorIndex = 0,
     designatorMinimum = 0, designatorMaximum = 0, stringIndex = 0, stringMinimum = 0,
     stringMaximum = 0\<rparr>"

record reportDescriptorState =
  global :: globalState
  local :: localState
  globalStack :: "globalState list"
  collection :: "Collection option"
  collections :: "Collection list"
  collectionStack :: "Collection list"
  command :: Tag
  commandPayloadLen :: u8
  commandPayload :: "u8 list"

definition initState :: reportDescriptorState where
  "initState = \<lparr>global = globalState0, local = localState0, globalStack = [], collection = None,
     collections = [], collectionStack = [], command = 0, commandPayloadLen = 0,
     commandPayload = []\<rparr>"

datatype desc_error = Msg string | Wrapped string desc_error | UnknownCommand u8

type_synonym 'a desc_outcome = "(desc_error, 'a) outcome"
type_synonym command_fn = "reportDescriptorState \<Rightarrow> u8 list \<Rightarrow> reportDescriptorState desc_outcome"

text \<open>\<open>fmt.Errorf("...: %w", err)\<close> around a conversion.\<close>

primrec wrap_error :: "string \<Rightarrow> 'a desc_outcome \<Rightarrow> 'a desc_outcome" where
  "wrap_error m (Ret x) = Ret x"
| "wrap_error m (Fail e) = Fail (Wrapped m e)"
| "wrap_error m Panic = Panic"

lemma wrap_error_Ret_iff [simp]: "wrap_error m r = Ret x \<longleftrightarrow> r = Ret x"
  by (cases r) auto

subsection \<open>Payload conversions\<close>

definition toUint16 :: "u8 list \<Rightarrow> u16 desc_outcome" where
  "toUint16 payload =
     (if length payload > 2 then Fail (Msg ''uint16 payload too long'')
      else if length payload = 0 then Fail (Msg ''uint16 payload is missing'')
      else
        let p = (if length payload = 1 then payload @ [0] else payload)
        in Ret (le_uint16 (p ! 0) (p ! 1)))"

definition toUint32 :: "u8 list \<Rightarrow> u32 desc_outcome" where
  "toUint32 payload =
     (if length payload > 4 then Fail (Msg ''uint32 payload too long'')
      else if length payload = 0 then Fail (Msg ''uint32 payload is missing'')
      else
        let p = (if length payload < 4 then payload @ replicate (4 - length payload) 0 else payload)
        in Ret (le_uint32 (p ! 0) (p ! 1) (p ! 2) (p ! 3)))"

definition toInt32 :: "u8 list \<Rightarrow> i32 desc_outcome" where
  "toInt32 payload =
     (if length payload = 1 then Ret (scast (payload ! 0))
      else if length payload = 2 then
        obind (wrap_error ''int32'' (toUint16 payload)) (\<lambda>val. Ret (scast val))
      else if length payload = 4 then wrap_error ''int32'' (toUint32 payload)
      else Fail (Msg ''int32: payload length is not 1, 2 or 4''))"

subsection \<open>Main items\<close>

definition newDataItem :: "reportDescriptorState \<Rightarrow> DataFlags \<Rightarrow> DataItem" where
  "newDataItem state flags =
     \<lparr>Flags = flags,
      UsagePage = usagePage (global state),
      UsageIDs = usage (local state),
      UsageMinimum = usageMinimum (local state),
      UsageMaximum = usageMaximum (local state),
      ReportCount = reportCount (global state),
      ReportSize = reportSize (global state),
      ReportID = reportID (global state),
      DesignatorIndex = designatorIndex (local state),
      DesignatorMinimum = designatorMinimum (local state),
      DesignatorMaximum = designatorMaximum (local state),
      LogicalMinimum = logicalMinimum (global state),
      LogicalMaximum = logicalMaximum (global state),
      PhysicalMinimum = physicalMinimum (global state),
      PhysicalMaximum = physicalMaximum (global state),
      UnitExponent = unitExponent (global state),
      Unit = unit (global state)\<rparr>"

definition append_item :: "Collection \<Rightarrow> MainItem \<Rightarrow> Collection" where
  "append_item c item = Collection (CType c) (CUsagePage c) (CUsageID c) (CItems c @ [item])"


definition cmdInput :: command_fn where
  "cmdInput state payload =
     (case collection state of
        None \<Rightarrow> Fail (Msg ''input: no open collection'')
      | Some c \<Rightarrow>
          if length payload \<noteq> 1 then Fail (Msg ''input: payload length is not 1'')
          else Ret (state\<lparr>
            collection := Some (append_item c
              (MainItem MainItemTypeInput (Some (newDataItem state (ucast (payload ! 0)))) None)),
            local := localState0\<rparr>))"

definition cmdOutput :: command_fn where
  "cmdOutput state payload =
     (case collection state of
        None \<Rightarrow> Fail (Msg ''output: no open collection'')
      | Some c \<Rightarrow>
          if length payload \<noteq> 1 then Fail (Msg ''output: payload length is not 1'')
          else Ret (state\<lparr>
            collection := Some (append_item c
              (MainItem MainItemTypeOutput (Some (newDataItem state (ucast (payload ! 0)))) None)),
            local := localState0\<rparr>))"

definition cmdFeature :: command_fn where
  "cmdFeature state payload =
     (case collection state of
        None \<Rightarrow> Fail (Msg ''feature: no open collection'')
      | Some c \<Rightarrow>
          if length payload \<noteq> 1 then Fail (Msg ''feature: payload length is not 1'')
          else Ret (state\<lparr>
            collection := Some (append_item c
              (MainItem MainItemTypeFeature (Some (newDataItem state (ucast (payload ! 0)))) None)),
            local := localState0\<rparr>))"

text \<open>\<open>state.local.usage[0]\<close> panics when no usage was given.\<close>

definition cmdCollection :: command_fn where
  "cmdCollection state payload =
     (if length payload \<noteq> 1 then Fail (Msg ''collection: payload length is not 1'')
      else
        case index (usage (local state)) 0 of
          None \<Rightarrow> Panic
        | Some usageID \<Rightarrow>
            let c = Collection (payload ! 0) (usagePage (global state)) usageID [];
                stack = (case collection state of
                           None \<Rightarrow> collectionStack state
                         | Some open_c \<Rightarrow> collectionStack state @ [open_c])
            in Ret (state\<lparr>collectionStack := stack, collection := Some c, local := localState0\<rparr>))"

definition cmdEndCollection :: command_fn where
  "cmdEndCollection state payload =
     (if length payload \<noteq> 0 then Fail (Msg ''end collection: payload length is not 0'')
      else
        case collection state of
          None \<Rightarrow> Fail (Msg ''end collection: no open collection'')
        | Some c \<Rightarrow>
            if length (collectionStack state) = 0 then
              Ret (state\<lparr>collections := collections state @ [c], collection := None,
                         local := localState0\<rparr>)
            else
              let parent = append_item (last (collectionStack state))
                             (MainItem MainItemTypeCollection None (Some c))
              in Ret (state\<lparr>collectionStack := butlast (collectionStack state),
                            collection := Some parent, local := localState0\<rparr>))"

subsection \<open>Global items\<close>


definition cmdUsagePage :: command_fn where
  "cmdUsagePage state payload =
     obind (wrap_error ''usage page'' (toUint16 payload))
       (\<lambda>val. Ret (state\<lparr>global := (global state)\<lparr>usagePage := val\<rparr>\<rparr>))"

definition cmdLogicalMinimum :: command_fn where
  "cmdLogicalMinimum state payload =
     obind (wrap_error ''logical minimum'' (toInt32 payload))
       (\<lambda>val. Ret (state\<lparr>global := (global state)\<lparr>logicalMinimum := val\<rparr>\<rparr>))"

definition cmdLogicalMaximum :: command_fn where
  "cmdLogicalMaximum state payload =
     obind (wrap_error ''logical maximum'' (toInt32 payload))
       (\<lambda>val. Ret (state\<lparr>global := (global state)\<lparr>logicalMaximum := val\<rparr>\<rparr>))"

definition cmdPhysicalMinimum :: command_fn where
  "cmdPhysicalMinimum state payload =
     obind (wrap_error ''physical minimum'' (toInt32 payload))
       (\<lambda>val. Ret (state\<lparr>global := (global state)\<lparr>physicalMinimum := val\<rparr>\<rparr>))"

definition cmdPhysicalMaximum :: command_fn where
  "cmdPhysicalMaximum state payload =
     obind (wrap_error ''physical maximum'' (toInt32 payload))
       (\<lambda>val. Ret (state\<lparr>global := (global state)\<lparr>physicalMaximum := val\<rparr>\<rparr>))"

definition cmdUnitExponent :: command_fn where
  "cmdUnitExponent state payload =
     (if length payload = 0 then Fail (Msg ''unit exponent: payload is missing'')
      else obind (wrap_error ''unit exponent'' (toUint32 payload))
       (\<lambda>val. Ret (state\<lparr>global := (global state)\<lparr>unitExponent := val\<rparr>\<rparr>)))"

definition cmdUnit :: command_fn where
  "cmdUnit state payload =
     (if length payload = 0 then Fail (Msg ''unit: payload is missing'')
      else obind (wrap_error ''unit'' (toUint32 payload))
       (\<lambda>val. Ret (state\<lparr>global := (global state)\<lparr>unit := val\<rparr>\<rparr>)))"

definition cmdReportSize :: command_fn where
  "cmdReportSize state payload =
     (if length payload = 0 then Fail (Msg ''report size: payload is missing'')
      else obind (wrap_error ''report size'' (toUint32 payload))
       (\<lambda>val. Ret (state\<lparr>global := (global state)\<lparr>reportSize := val\<rparr>\<rparr>)))"

definition cmdReportID :: command_fn where
  "cmdReportID state payload =
     (if length payload = 0 then Fail (Msg ''report id: payload is missing'')
      else obind (wrap_error ''report id'' (toUint32 payload))
       (\<lambda>val. Ret (state\<lparr>global := (global state)\<lparr>reportID := ucast val\<rparr>\<rparr>)))"

definition cmdReportCount :: command_fn where
  "cmdReportCount state payload =
     (if length payload = 0 then Fail (Msg ''report count: payload is missing'')
      else obind (wrap_error ''report count'' (toUint32 payload))
       (\<lambda>val. Ret (state\<lparr>global := (global state)\<lparr>reportCount := val\<rparr>\<rparr>)))"

definition cmdPush :: command_fn where
  "cmdPush state payload = Ret (state\<lparr>globalStack := globalStack state @ [global state]\<rparr>)"

definition cmdPop :: command_fn where
  "cmdPop state payload =
     (if length (globalStack state) = 0 then Fail (Msg ''pop: stack is empty'')
      else Ret (state\<lparr>global := last (globalStack state),
                      globalStack := butlast (globalStack state)\<rparr>))"

subsection \<open>Local items\<close>

definition cmdUsage :: command_fn where
  "cmdUsage state payload =
     obind (wrap_error ''usage'' (toUint16 payload))
       (\<lambda>val. Ret (state\<lparr>local := (local state)\<lparr>usage := usage (local state) @ [val]\<rparr>\<rparr>))"

definition cmdDelimiter :: command_fn where
  "cmdDelimiter state payload = Fail (Msg ''not implemented'')"


definition cmdUsageMinimum :: command_fn where
  "cmdUsageMinimum state payload =
     obind (wrap_error ''usage minimum'' (toUint16 payload))
       (\<lambda>val. Ret (state\<lparr>local := (local state)\<lparr>usageMinimum := val\<rparr>\<rparr>))"

definition cmdUsageMaximum :: command_fn where
  "cmdUsageMaximum state payload =
     obind (wrap_error ''usage maximum'' (toUint16 payload))
       (\<lambda>val. Ret (state\<lparr>local := (local state)\<lparr>usageMaximum := val\<rparr>\<rparr>))"

definition cmdDesignatorIndex :: command_fn where
  "cmdDesignatorIndex state payload =
     (if length payload \<noteq> 1 then Fail (Msg ''designator index: payload length is not 1'')
      else Ret (state\<lparr>local := (local state)\<lparr>designatorIndex := payload ! 0\<rparr>\<rparr>))"

definition cmdDesignatorMinimum :: command_fn where
  "cmdDesignatorMinimum state payload =
     (if length payload \<noteq> 1 then Fail (Msg ''designator minimum: payload length is not 1'')
      else Ret (state\<lparr>local := (local state)\<lparr>designatorMinimum := payload ! 0\<rparr>\<rparr>))"

definition cmdDesignatorMaximum :: command_fn where
  "cmdDesignatorMaximum state payload =
     (if length payload \<noteq> 1 then Fail (Msg ''designator maximum: payload length is not 1'')
      else Ret (state\<lparr>local := (local state)\<lparr>designatorMaximum := payload ! 0\<rparr>\<rparr>))"

definition cmdStringIndex :: command_fn where
  "cmdStringIndex state payload =
     (if length payload \<noteq> 1 then Fail (Msg ''string index: payload length is not 1'')
      else Ret (state\<lparr>local := (local state)\<lparr>stringIndex := payload ! 0\<rparr>\<rparr>))"

definition cmdStringMinimum :: command_fn where
  "cmdStringMinimum state payload =
     (if length payload \<noteq> 1 then Fail (Msg ''string minimum: payload length is not 1'')
      else Ret (state\<lparr>local := (local state)\<lparr>stringMinimum := payload ! 0\<rparr>\<rparr>))"

definition cmdStringMaximum :: command_fn where
  "cmdStringMaximum state payload =
     (if length payload \<noteq> 1 then Fail (Msg ''string maximum: payload length is not 1'')
      else Ret (state\<lparr>local := (local state)\<lparr>stringMaximum := payload ! 0\<rparr>\<rparr>))"

subsection \<open>Dispatch\<close>

definition commandMap :: "Tag \<Rightarrow> command_fn option" where
  "commandMap = map_of [
     (TagInput, cmdInput),
     (TagOutput, cmdOutput),
     (TagFeature, cmdFeature),
     (TagCollection, cmdCollection),
     (TagEndCollection, cmdEndCollection),
     (TagUsagePage, cmdUsagePage),
     (TagLogicalMinimum, cmdLogicalMinimum),
     (TagLogicalMaximum, cmdLogicalMaximum),
     (TagPhysicalMinimum, cmdPhysicalMinimum),
     (TagPhysicalMaximum, cmdPhysicalMaximum),
     (TagUnitExponent, cmdUnitExponent),
     (TagUnit, cmdUnit),
     (TagReportSize, cmdReportSize),
     (TagReportID, cmdReportID),
     (TagReportCount, cmdReportCount),
     (TagPush, cmdPush),
     (TagPop, cmdPop),
     (TagUsage, cmdUsage),
     (TagUsageMinimum, cmdUsageMinimum),
     (TagUsageMaximum, cmdUsageMaximum),
     (TagDesignatorIndex, cmdDesignatorIndex),
     (TagDesignatorMinimum, cmdDesignatorMinimum),
     (TagDesignatorMaximum, cmdDesignatorMaximum),
     (TagStringIndex, cmdStringIndex),
     (TagStringMinimum, cmdStringMinimum),
     (TagStringMaximum, cmdStringMaximum),
     (TagDelimiter, cmdDelimiter)]"

text \<open>One round of the loop in \<open>parseBytes\<close>.\<close>

definition payload_len :: "TagItemSize \<Rightarrow> u8" where
  "payload_len sz =
     (if sz = TagItemSize0 then 0 else if sz = TagItemSize8 then 1
      else if sz = TagItemSize16 then 2 else 4)"

definition parse_byte :: "reportDescriptorState \<Rightarrow> u8 \<Rightarrow> reportDescriptorState desc_outcome" where
  "parse_byte state b =
     obind
       (if command state = 0 then
          case commandMap (TagPrefix b) of
            None \<Rightarrow> Fail (UnknownCommand b)
          | Some _ \<Rightarrow> Ret (state\<lparr>command := TagPrefix b,
              commandPayloadLen := payload_len (PayloadSize b), commandPayload := []\<rparr>)
        else Ret (state\<lparr>commandPayload := commandPayload state @ [b]\<rparr>))
       (\<lambda>state.
          if length (commandPayload state) = unat (commandPayloadLen state) then
            case commandMap (command state) of
              None \<Rightarrow> Panic
            | Some commandFn \<Rightarrow>
                obind (wrap_error ''failed to execute command'' (commandFn state (commandPayload state)))
                  (\<lambda>state. Ret (state\<lparr>command := 0, commandPayloadLen := 0, commandPayload := []\<rparr>))
          else Ret state)"

primrec parseBytes :: "reportDescriptorState \<Rightarrow> u8 list \<Rightarrow> reportDescriptorState desc_outcome" where
  "parseBytes state [] = Ret state"
| "parseBytes state (b # bs) = obind (parse_byte state b) (\<lambda>state'. parseBytes state' bs)"

definition descriptor :: "reportDescriptorState \<Rightarrow> ReportDescriptor" where
  "descriptor state = \<lparr>Collections = collections state\<rparr>"

subsection \<open>Reading\<close>

text \<open>
  What \<open>reader.Read\<close> returns, call by call: some bytes, possibly together with an error. The end of
  the list is \<open>(0, io.EOF)\<close>. The error of a failed read is kept in \<open>d.err\<close>.
\<close>

datatype read_result = ReadOk "u8 list" | ReadErr "u8 list" desc_error

fun decode_reads :: "reportDescriptorState \<Rightarrow> read_result list \<Rightarrow> ReportDescriptor desc_outcome" where
  "decode_reads state [] = Ret (descriptor state)"
| "decode_reads state (ReadOk bs # rs) =
     obind (parseBytes state bs) (\<lambda>state'. decode_reads state' rs)"
| "decode_reads state (ReadErr bs e # rs) =
     obind (parseBytes state bs) (\<lambda>_. Fail (Wrapped ''failed to read descriptor'' e))"

definition DescriptorDecoder_Decode :: "desc_error option \<Rightarrow> read_result list \<Rightarrow> ReportDescriptor desc_outcome" where
  "DescriptorDecoder_Decode err reads =
     (case err of Some e \<Rightarrow> Fail e | None \<Rightarrow> decode_reads initState reads)"

text \<open>\<open>Decode(data)\<close>: a \<open>bytes.Reader\<close> read through the buffer of 1024 bytes.\<close>

function chunks :: "nat \<Rightarrow> u8 list \<Rightarrow> read_result list" where
  "chunks n bs =
     (if n = 0 \<or> bs = [] then [] else ReadOk (take n bs) # chunks n (drop n bs))"
  by pat_completeness auto
termination by (relation "measure (\<lambda>(n, bs). length bs)") auto

declare chunks.simps [simp del]

definition Decode :: "u8 list \<Rightarrow> ReportDescriptor desc_outcome" where
  "Decode data = DescriptorDecoder_Decode None (chunks 1024 data)"

end
