(* ===== verification/DescEncoder.thy ===== *)
theory DescEncoder
  imports DescDecoder
begin

section \<open>Report descriptor encoder (hidapi/hiddesc/encoder.go)\<close>

text \<open>
  \<open>Encoder\<close>: writes the items of a descriptor and leaves out every global or local item whose value
  the decoder would still hold. The writer is the buffer of \<open>Encode\<close> (its \<open>Write\<close> never fails, so the
  error returns of the code have no branch here); the encoder's state is passed along.
\<close>

record Encoder =
  out :: "u8 list"
  eglobal :: globalState
  elocal :: localState

definition NewDescriptorEncoder :: Encoder where
  "NewDescriptorEncoder = \<lparr>out = [], eglobal = globalState0, elocal = localState0\<rparr>"

definition emit :: "u8 list \<Rightarrow> Encoder \<Rightarrow> Encoder" where
  "emit bs e = e\<lparr>out := out e @ bs\<rparr>"

subsection \<open>Tags with values\<close>

definition encodeTag :: "Tag \<Rightarrow> Encoder \<Rightarrow> Encoder" where
  "encodeTag tag e = emit [WithItemSize tag TagItemSize0] e"

definition encodeTag8 :: "Tag \<Rightarrow> u8 \<Rightarrow> Encoder \<Rightarrow> Encoder" where
  "encodeTag8 tag val e = emit [WithItemSize tag TagItemSize8, val] e"

definition encodeTag16 :: "Tag \<Rightarrow> u16 \<Rightarrow> Encoder \<Rightarrow> Encoder" where
  "encodeTag16 tag val e =
     (if val < 0x100 then encodeTag8 tag (ucast val) e
      else emit [WithItemSize tag TagItemSize16, ucast val, ucast (drop_bit 8 val)] e)"

definition encodeTagi32 :: "Tag \<Rightarrow> i32 \<Rightarrow> Encoder \<Rightarrow> Encoder" where
  "encodeTagi32 tag val e =
     (let data = put_uint32 val;
          pad = (if val <s 0 then 0xff else 0);
          (sz, data) =
            (if data ! 1 = pad \<and> data ! 2 = pad \<and> data ! 3 = pad then (TagItemSize8, take 1 data)
             else if data ! 2 = pad \<and> data ! 3 = pad then (TagItemSize16, take 2 data)
             else (TagItemSize32, data))
      in emit (WithItemSize tag sz # data) e)"

definition encodeTag32 :: "Tag \<Rightarrow> u32 \<Rightarrow> Encoder \<Rightarrow> Encoder" where
  "encodeTag32 tag val e =
     (if val < 0x100 then encodeTag8 tag (ucast val) e
      else if val < 0x10000 then encodeTag16 tag (ucast val) e
      else emit [WithItemSize tag TagItemSize32, ucast val, ucast (drop_bit 8 val),
                  ucast (drop_bit 16 val), ucast (drop_bit 24 val)] e)"

subsection \<open>Usages\<close>

definition encodeUsagePage :: "u16 \<Rightarrow> Encoder \<Rightarrow> Encoder" where
  "encodeUsagePage up e =
     (if up = usagePage (eglobal e) then e
      else let e = encodeTag16 TagUsagePage up e
           in e\<lparr>eglobal := (eglobal e)\<lparr>usagePage := up\<rparr>\<rparr>)"

definition encodeUsageID :: "u16 \<Rightarrow> Encoder \<Rightarrow> Encoder" where
  "encodeUsageID usageID e =
     (if usageID = 0 then e
      else if usage (elocal e) \<noteq> [] \<and> last (usage (elocal e)) = usageID then e
      else let e = encodeTag16 TagUsage usageID e
           in e\<lparr>elocal := (elocal e)\<lparr>usage := [usageID]\<rparr>\<rparr>)"

primrec encodeUsages :: "u16 list \<Rightarrow> Encoder \<Rightarrow> Encoder" where
  "encodeUsages [] e = e"
| "encodeUsages (u # us) e = encodeUsages us (encodeUsageID u e)"

subsection \<open>Items and collections\<close>

text \<open>The guarded blocks of \<open>encodeMainItem\<close>, in their order.\<close>

definition encodeUsageRange :: "DataItem \<Rightarrow> Encoder \<Rightarrow> Encoder" where
  "encodeUsageRange d e =
     (if UsageMinimum d \<noteq> usageMinimum (elocal e) \<or> UsageMaximum d \<noteq> usageMaximum (elocal e) then
        let e = encodeTag16 TagUsageMinimum (UsageMinimum d) e;
            e = encodeTag16 TagUsageMaximum (UsageMaximum d) e
        in e\<lparr>elocal := (elocal e)\<lparr>usageMinimum := UsageMinimum d, usageMaximum := UsageMaximum d\<rparr>\<rparr>
      else e)"

definition encodeDesignatorIndex :: "DataItem \<Rightarrow> Encoder \<Rightarrow> Encoder" where
  "encodeDesignatorIndex d e =
     (if DesignatorIndex d \<noteq> designatorIndex (elocal e) then
        let e = encodeTag8 TagDesignatorIndex (DesignatorIndex d) e
        in e\<lparr>elocal := (elocal e)\<lparr>designatorIndex := DesignatorIndex d\<rparr>\<rparr>
      else e)"

definition encodeDesignatorRange :: "DataItem \<Rightarrow> Encoder \<Rightarrow> Encoder" where
  "encodeDesignatorRange d e =
     (if DesignatorMinimum d \<noteq> designatorMinimum (elocal e)
          \<or> DesignatorMaximum d \<noteq> designatorMaximum (elocal e) then
        let e = encodeTag8 TagDesignatorMinimum (DesignatorMinimum d) e;
            e = encodeTag8 TagDesignatorMaximum (DesignatorMaximum d) e
        in e\<lparr>elocal := (elocal e)\<lparr>designatorMinimum := DesignatorMinimum d,
                                  designatorMaximum := DesignatorMaximum d\<rparr>\<rparr>
      else e)"

definition encodeLogicalRange :: "DataItem \<Rightarrow> Encoder \<Rightarrow> Encoder" where
  "encodeLogicalRange d e =
     (if LogicalMinimum d \<noteq> logicalMinimum (eglobal e)
          \<or> LogicalMaximum d \<noteq> logicalMaximum (eglobal e) then
        let e = encodeTagi32 TagLogicalMinimum (LogicalMinimum d) e;
            e = encodeTagi32 TagLogicalMaximum (LogicalMaximum d) e
        in e\<lparr>eglobal := (eglobal e)\<lparr>logicalMinimum := LogicalMinimum d,
                                    logicalMaximum := LogicalMaximum d\<rparr>\<rparr>
      else e)"

definition encodePhysicalRange :: "DataItem \<Rightarrow> Encoder \<Rightarrow> Encoder" where
  "encodePhysicalRange d e =
     (if PhysicalMinimum d \<noteq> physicalMinimum (eglobal e)
          \<or> PhysicalMaximum d \<noteq> physicalMaximum (eglobal e) then
        let e = encodeTagi32 TagPhysicalMinimum (PhysicalMinimum d) e;
            e = encodeTagi32 TagPhysicalMaximum (PhysicalMaximum d) e
        in e\<lparr>eglobal := (eglobal e)\<lparr>physicalMinimum := PhysicalMinimum d,
                                    physicalMaximum := PhysicalMaximum d\<rparr>\<rparr>
      else e)"

definition encodeUnitExponent :: "DataItem \<Rightarrow> Encoder \<Rightarrow> Encoder" where
  "encodeUnitExponent d e =
     (if UnitExponent d \<noteq> unitExponent (eglobal e) then
        let e = encodeTag32 TagUnitExponent (UnitExponent d) e
        in e\<lparr>eglobal := (eglobal e)\<lparr>unitExponent := UnitExponent d\<rparr>\<rparr>
      else e)"

definition encodeUnit :: "DataItem \<Rightarrow> Encoder \<Rightarrow> Encoder" where
  "encodeUnit d e =
     (if Unit d \<noteq> unit (eglobal e) then
        let e = encodeTag32 TagUnit (Unit d) e
        in e\<lparr>eglobal := (eglobal e)\<lparr>unit := Unit d\<rparr>\<rparr>
      else e)"

definition encodeReportID :: "DataItem \<Rightarrow> Encoder \<Rightarrow> Encoder" where
  "encodeReportID d e =
     (if ReportID d \<noteq> reportID (eglobal e) then
        let e = encodeTag8 TagReportID (ReportID d) e
        in e\<lparr>eglobal := (eglobal e)\<lparr>reportID := ReportID d\<rparr>\<rparr>
      else e)"

definition encodeReportCount :: "DataItem \<Rightarrow> Encoder \<Rightarrow> Encoder" where
  "encodeReportCount d e =
     (if ReportCount d \<noteq> reportCount (eglobal e) then
        let e = encodeTag32 TagReportCount (ReportCount d) e
        in e\<lparr>eglobal := (eglobal e)\<lparr>reportCount := ReportCount d\<rparr>\<rparr>
      else e)"

definition encodeReportSize :: "DataItem \<Rightarrow> Encoder \<Rightarrow> Encoder" where
  "encodeReportSize d e =
     (if ReportSize d \<noteq> reportSize (eglobal e) then
        let e = encodeTag32 TagReportSize (ReportSize d) e
        in e\<lparr>eglobal := (eglobal e)\<lparr>reportSize := ReportSize d\<rparr>\<rparr>
      else e)"

definition encodeMainTag :: "MainItemType \<Rightarrow> DataItem \<Rightarrow> Encoder \<Rightarrow> Encoder" where
  "encodeMainTag t d e =
     (case t of
        MainItemTypeInput \<Rightarrow> encodeTag32 TagInput (Flags d) e
      | MainItemTypeOutput \<Rightarrow> encodeTag32 TagOutput (Flags d) e
      | MainItemTypeFeature \<Rightarrow> encodeTag32 TagFeature (Flags d) e
      | MainItemTypeCollection \<Rightarrow> e)"

definition encodeDataItem :: "MainItemType \<Rightarrow> DataItem \<Rightarrow> Encoder \<Rightarrow> Encoder" where
  "encodeDataItem t d e =
     (let e = encodeUsagePage (UsagePage d) e;
          e = encodeUsages (UsageIDs d) e;
          e = encodeUsageRange d e;
          e = encodeDesignatorIndex d e;
          e = encodeDesignatorRange d e;
          e = encodeLogicalRange d e;
          e = encodePhysicalRange d e;
          e = encodeUnitExponent d e;
          e = encodeUnit d e;
          e = encodeReportID d e;
          e = encodeReportCount d e;
          e = encodeReportSize d e;
          e = encodeMainTag t d e
      in e\<lparr>elocal := localState0\<rparr>)"

fun encodeCollection :: "Collection \<Rightarrow> Encoder \<Rightarrow> Encoder"
  and encodeMainItems :: "MainItem list \<Rightarrow> Encoder \<Rightarrow> Encoder" where
  "encodeCollection (Collection t p u items) e =
     (let e = encodeUsagePage p e;
          e = encodeUsageID u e;
          e = encodeTag8 TagCollection t e;
          e = e\<lparr>elocal := localState0\<rparr>;
          e = encodeMainItems items e;
          e = encodeTag TagEndCollection e
      in e\<lparr>elocal := localState0\<rparr>)"
| "encodeMainItems [] e = e"
| "encodeMainItems (MainItem t d c # items) e =
     encodeMainItems items
       (case c of
          Some k \<Rightarrow> encodeCollection k e
        | None \<Rightarrow> (case d of Some i \<Rightarrow> encodeDataItem t i e | None \<Rightarrow> e))"

primrec encodeCollections :: "Collection list \<Rightarrow> Encoder \<Rightarrow> Encoder" where
  "encodeCollections [] e = e"
| "encodeCollections (c # cs) e = encodeCollections cs (encodeCollection c e)"

definition Encode :: "ReportDescriptor \<Rightarrow> u8 list" where
  "Encode desc = out (encodeCollections (Collections desc) NewDescriptorEncoder)"

end
