(* ===== verification/DescCodec.thy ===== *)
theory DescCodec
  imports DescEncoder
begin

section \<open>Facts about the descriptor codec\<close>

text \<open>
  The encoder's payloads against the decoder's conversions (which values survive), and the decoder
  run on the bytes the encoder has written so far: one lemma per block of \<open>encodeMainItem\<close>, then the
  induction over the tree of collections.
\<close>

subsection \<open>Running the decoder\<close>

lemma parseBytes_append:
  "parseBytes st (xs @ ys) = obind (parseBytes st xs) (\<lambda>st'. parseBytes st' ys)"
  by (induction xs arbitrary: st) (simp_all add: obind_assoc)

lemma decode_chunks:
  "n > 0 \<Longrightarrow> decode_reads st (chunks n bs) = obind (parseBytes st bs) (\<lambda>st'. Ret (descriptor st'))"
proof (induction n bs arbitrary: st rule: chunks.induct)
  case (1 n bs)
  show ?case
  proof (cases "bs = []")
    case True
    then show ?thesis by (simp add: chunks.simps)
  next
    case False
    have "parseBytes st bs = obind (parseBytes st (take n bs)) (\<lambda>st'. parseBytes st' (drop n bs))"
      by (simp flip: parseBytes_append)
    with False 1 show ?thesis
      by (subst chunks.simps) (simp add: obind_assoc)
  qed
qed

lemma Decode_eq: "Decode bs = obind (parseBytes initState bs) (\<lambda>st. Ret (descriptor st))"
  by (simp add: Decode_def DescriptorDecoder_Decode_def decode_chunks)

definition idle :: "reportDescriptorState \<Rightarrow> bool" where
  "idle st \<longleftrightarrow> command st = 0 \<and> commandPayloadLen st = 0 \<and> commandPayload st = []"

abbreviation (input) set_cmd :: "Tag \<Rightarrow> u8 \<Rightarrow> u8 list \<Rightarrow> reportDescriptorState \<Rightarrow> reportDescriptorState" where
  "set_cmd c l p st \<equiv> st\<lparr>command := c, commandPayloadLen := l, commandPayload := p\<rparr>"

text \<open>No command looks at or changes the command fields.\<close>

definition framed :: "command_fn \<Rightarrow> bool" where
  "framed f \<longleftrightarrow> (\<forall>c l p st payload.
     f (set_cmd c l p st) payload = obind (f st payload) (\<lambda>st'. Ret (set_cmd c l p st')))"

lemmas cmd_main_defs = cmdInput_def cmdOutput_def cmdFeature_def cmdCollection_def
  cmdEndCollection_def cmdPush_def cmdPop_def cmdDelimiter_def
lemmas cmd_global_defs = cmdUsagePage_def cmdLogicalMinimum_def cmdLogicalMaximum_def
  cmdPhysicalMinimum_def cmdPhysicalMaximum_def cmdUnitExponent_def cmdUnit_def cmdReportSize_def
  cmdReportID_def cmdReportCount_def
lemmas cmd_local_defs = cmdUsage_def cmdUsageMinimum_def cmdUsageMaximum_def cmdDesignatorIndex_def
  cmdDesignatorMinimum_def cmdDesignatorMaximum_def cmdStringIndex_def cmdStringMinimum_def
  cmdStringMaximum_def

lemma newDataItem_frame [simp]: "newDataItem (set_cmd c l p st) fl = newDataItem st fl"
  by (simp add: newDataItem_def)

lemma framed_main:
  "framed cmdInput" "framed cmdOutput" "framed cmdFeature" "framed cmdCollection"
  "framed cmdEndCollection" "framed cmdPush" "framed cmdPop" "framed cmdDelimiter"
  by (auto simp: framed_def cmd_main_defs Let_def split: option.splits)

lemma framed_global:
  "framed cmdUsagePage" "framed cmdLogicalMinimum" "framed cmdLogicalMaximum"
  "framed cmdPhysicalMinimum" "framed cmdPhysicalMaximum" "framed cmdUnitExponent" "framed cmdUnit"
  "framed cmdReportSize" "framed cmdReportID" "framed cmdReportCount"
  by (auto simp: framed_def cmd_global_defs obind_assoc intro!: obind_cong)

lemma framed_local:
  "framed cmdUsage" "framed cmdUsageMinimum" "framed cmdUsageMaximum" "framed cmdDesignatorIndex"
  "framed cmdDesignatorMinimum" "framed cmdDesignatorMaximum" "framed cmdStringIndex"
  "framed cmdStringMinimum" "framed cmdStringMaximum"
  by (auto simp: framed_def cmd_local_defs obind_assoc intro!: obind_cong)

lemma framed_commandMap: "commandMap t = Some f \<Longrightarrow> framed f"
  unfolding commandMap_def
  by (drule map_of_SomeD) (auto simp: framed_main framed_global framed_local)

lemma idle_set_cmd: "idle st \<Longrightarrow> set_cmd 0 0 [] st = st"
  by (cases st) (simp add: idle_def)

lemma framed_idle:
  assumes "framed f" "idle st" "f st payload = Ret st'"
  shows "idle st'"
proof -
  have "f (set_cmd 0 0 [] st) payload = obind (f st payload) (\<lambda>s. Ret (set_cmd 0 0 [] s))"
    using assms(1) unfolding framed_def by blast
  with assms have eq: "st' = set_cmd 0 0 [] st'"
    by (simp only: idle_set_cmd obind.simps outcome.inject)
  show ?thesis by (subst eq) (simp add: idle_def)
qed

lemma parse_payload:
  assumes "command st \<noteq> 0" "commandMap (command st) = Some f"
  shows "\<lbrakk>length (commandPayload st) + length bs = unat (commandPayloadLen st); bs \<noteq> []\<rbrakk> \<Longrightarrow>
    parseBytes st bs =
      obind (wrap_error ''failed to execute command''
              (f (st\<lparr>commandPayload := commandPayload st @ bs\<rparr>) (commandPayload st @ bs)))
        (\<lambda>st'. Ret (set_cmd 0 0 [] st'))"
  using assms
proof (induction bs arbitrary: st)
  case (Cons b bs)
  let ?st = "st\<lparr>commandPayload := commandPayload st @ [b]\<rparr>"
  show ?case
  proof (cases "bs = []")
    case True
    with Cons.prems show ?thesis
      by (simp add: parse_byte_def)
  next
    case False
    then have "length (commandPayload ?st) \<noteq> unat (commandPayloadLen st)"
      using Cons.prems(1) by (cases bs) auto
    with Cons.prems have "parse_byte st b = Ret ?st" by (simp add: parse_byte_def)
    with Cons.IH [of ?st] Cons.prems False show ?thesis by simp
  qed
qed simp

lemma parse_command:
  assumes idle: "idle st" and map: "commandMap t = Some f" and t: "TagPrefix t = t" "t \<noteq> 0"
    and sz: "sz < 4" "length payload = unat (payload_len sz)"
    and run: "f st payload = Ret st'"
  shows "parseBytes st (WithItemSize t sz # payload) = Ret st' \<and> idle st'"
proof -
  let ?l = "payload_len sz"
  have fr: "framed f" using map by (rule framed_commandMap)
  have st': "idle st'" using fr idle run by (rule framed_idle)
  have pre: "TagPrefix (WithItemSize t sz) = t" "PayloadSize (WithItemSize t sz) = sz"
  proof -
    have "sz = 0 \<or> sz = 1 \<or> sz = 2 \<or> sz = 3"
    proof -
      have "unat sz < 4" using sz(1) by (simp add: word_less_nat_alt)
      then have "unat sz = 0 \<or> unat sz = 1 \<or> unat sz = 2 \<or> unat sz = 3" by linarith
      then show ?thesis by (simp add: word_unat_eq_iff)
    qed
    then have "sz AND 0xFC = 0" "sz AND 3 = sz" by auto
    moreover have "t AND 0xFC = t" using t by (simp add: TagPrefix_def)
    moreover have "t AND 3 = 0"
    proof -
      have "t AND 3 = (t AND 0xFC) AND 3" using t by (simp add: TagPrefix_def)
      also have "\<dots> = 0" by (simp add: and.assoc)
      finally show ?thesis .
    qed
    ultimately show "TagPrefix (WithItemSize t sz) = t" "PayloadSize (WithItemSize t sz) = sz"
      by (simp_all add: TagPrefix_def WithItemSize_def PayloadSize_def bit.conj_disj_distrib2 and.assoc)
  qed
  have frame: "f (set_cmd t ?l p st) payload = Ret (set_cmd t ?l p st')" for p
    using fr run unfolding framed_def by simp
  have reset: "set_cmd 0 0 [] (set_cmd t ?l p st') = st'" for p
    using idle_set_cmd [OF st'] by simp
  show ?thesis
  proof (cases "payload = []")
    case True
    then show ?thesis
      using idle map t(2) sz(2) frame [of "[]"] reset [of "[]"] st'
      by (simp add: parse_byte_def idle_def pre)
  next
    case False
    let ?st = "set_cmd t ?l [] st"
    have ne: "unat ?l \<noteq> 0" using False sz(2) by (metis length_0_conv)
    then have "parse_byte st (WithItemSize t sz) = Ret ?st"
      using idle map by (simp add: parse_byte_def idle_def pre)
    moreover have "parseBytes ?st payload = Ret st'"
      using parse_payload [of ?st f payload] map t(2) sz(2) False frame [of payload] reset [of payload]
      by simp
    ultimately show ?thesis using st' by simp
  qed
qed

end
