(* ===== verification/DescRoundTrip.thy ===== *)
theory DescRoundTrip
  imports DescCodec Signed
begin

section \<open>The decoder reads back what the encoder writes\<close>

text \<open>
  Which integers survive the encoder's shortest form, the descriptors the encoder can represent
  (\<open>wf_descriptor\<close>), one simulation lemma per block of the encoder, and the induction over the
  tree of collections that gives the round trip.
\<close>

subsection \<open>Payloads\<close>

definition size16 :: "u16 \<Rightarrow> TagItemSize" where
  "size16 v = (if v < 0x100 then TagItemSize8 else TagItemSize16)"

definition payload16 :: "u16 \<Rightarrow> u8 list" where
  "payload16 v = (if v < 0x100 then [ucast v] else [ucast v, ucast (drop_bit 8 v)])"

definition size32 :: "u32 \<Rightarrow> TagItemSize" where
  "size32 v = (if v < 0x100 then TagItemSize8 else if v < 0x10000 then TagItemSize16
     else TagItemSize32)"

definition payload32 :: "u32 \<Rightarrow> u8 list" where
  "payload32 v = (if v < 0x100 then [ucast v]
     else if v < 0x10000 then payload16 (ucast v) else put_uint32 v)"

definition sizei32 :: "i32 \<Rightarrow> TagItemSize" where
  "sizei32 v = (if sign_from 8 v then TagItemSize8 else if sign_from 16 v then TagItemSize16
     else TagItemSize32)"

definition payloadi32 :: "i32 \<Rightarrow> u8 list" where
  "payloadi32 v = take (if sign_from 8 v then 1 else if sign_from 16 v then 2 else 4) (put_uint32 v)"

lemma byte_eq_pad:
  "(ucast (drop_bit k v) = (if v <s 0 then 0xff else 0 :: u8)) \<longleftrightarrow>
     (\<forall>n. k \<le> n \<and> n < k + 8 \<longrightarrow> bit v n = bit v 31)" if "k \<le> 24" for v :: i32
proof -
  have neg: "v <s 0 \<longleftrightarrow> bit v 31"
    using bit_last_iff [of v] by (simp add: word_sless_alt)
  have "bit (if bit v 31 then 0xff else 0 :: u8) n \<longleftrightarrow> bit v 31" if "n < 8" for n
  proof -
    have "(0xff :: u8) = - 1" by simp
    then have "bit (0xff :: u8) n" using that by (simp only: bit_minus_1_iff) simp
    then show ?thesis by simp
  qed
  then have "(ucast (drop_bit k v) = (if v <s 0 then 0xff else 0 :: u8)) \<longleftrightarrow>
      (\<forall>n < 8. bit v (k + n) = bit v 31)"
    using that by (auto simp: neg bit_eq_iff bit_simps)
  also have "\<dots> \<longleftrightarrow> (\<forall>n. k \<le> n \<and> n < k + 8 \<longrightarrow> bit v n = bit v 31)"
    by (metis add_less_cancel_left le_add1 le_Suc_ex)
  finally show ?thesis .
qed

lemma split_range: "a \<le> b \<Longrightarrow> b \<le> c \<Longrightarrow>
    (\<forall>n. a \<le> n \<and> n < c \<longrightarrow> P n) \<longleftrightarrow>
      (\<forall>n. a \<le> n \<and> n < b \<longrightarrow> P n) \<and> (\<forall>n. b \<le> n \<and> n < c \<longrightarrow> P n)" for a b c :: nat
  by (meson leI le_trans less_le_trans)

lemma sign_from_bytes:
  fixes v :: i32
  defines "pad \<equiv> (if v <s 0 then 0xff else 0 :: u8)"
  shows "ucast (drop_bit 16 v) = pad \<and> ucast (drop_bit 24 v) = pad \<longleftrightarrow> sign_from 16 v" (is ?a)
    and "ucast (drop_bit 8 v) = pad \<and> ucast (drop_bit 16 v) = pad \<and> ucast (drop_bit 24 v) = pad
      \<longleftrightarrow> sign_from 8 v" (is ?b)
proof -
  show ?a
    unfolding pad_def sign_from_def
    by (simp add: byte_eq_pad split_range [of 16 24 32])
  show ?b
    unfolding pad_def sign_from_def
    by (simp add: byte_eq_pad split_range [of 8 16 32] split_range [of 16 24 32])
qed

lemma encodeTag16_emit: "encodeTag16 t v e = emit (WithItemSize t (size16 v) # payload16 v) e"
  by (simp add: encodeTag16_def encodeTag8_def size16_def payload16_def)

lemma ucast_u16_less: "v < 0x10000 \<Longrightarrow> (ucast v :: u16) < 0x100 \<longleftrightarrow> v < 0x100" for v :: u32
proof -
  assume "v < 0x10000"
  then have "uint v < 0x10000" by (simp add: word_less_def)
  then have "uint (ucast v :: u16) = uint v"
    by (simp add: unsigned_ucast_eq take_bit_int_eq_self)
  then show ?thesis by (simp add: word_less_def)
qed

lemma encodeTag32_emit: "encodeTag32 t v e = emit (WithItemSize t (size32 v) # payload32 v) e"
  by (auto simp: encodeTag32_def encodeTag16_emit encodeTag8_def size32_def payload32_def
      size16_def payload16_def put_uint32_def ucast_u16_less)

lemma encodeTagi32_emit: "encodeTagi32 t v e = emit (WithItemSize t (sizei32 v) # payloadi32 v) e"
  unfolding encodeTagi32_def sizei32_def payloadi32_def
  using sign_from_bytes [of v]
  by (simp add: put_uint32_def Let_def)

lemma ucast_ucast_low: "v < 0x100 \<Longrightarrow> ucast (ucast v :: u8) = v" for v :: u32
  by (simp only: ucast_ucast_u32 take_bit_low)

text \<open>The conversions of the decoder on these payloads.\<close>

lemma toUint16_payload: "toUint16 (payload16 v) = Ret v"
proof (cases "v < 0x100")
  case True
  then have "ucast (ucast v :: u8) = v"
    by (simp only: ucast_ucast_u16 take_bit_low16)
  with True show ?thesis by (simp add: toUint16_def payload16_def le_uint16_zero_high)
qed (simp add: toUint16_def payload16_def)

lemma high_bytes_zero: "unat v < 2 ^ j \<Longrightarrow> drop_bit j v = 0" for v :: u32
proof -
  assume v: "unat v < 2 ^ j"
  have "unat (drop_bit j v) = unat v div 2 ^ j"
    by (simp only: unat_drop_bit_eq drop_bit_eq_div [where 'a = nat])
  then show ?thesis using v by (simp only: word_unat_eq_iff div_less unsigned_0)
qed

lemma low_bytes_u16:
  "ucast (ucast v :: u16) = (ucast v :: u8)"
  "ucast (drop_bit 8 (ucast v :: u16)) = (ucast (drop_bit 8 v) :: u8)" for v :: u32
  by (rule bit_word_eqI; auto simp: bit_simps)+

lemma toUint32_payload: "toUint32 (payload32 v) = Ret v"
proof -
  have val: "le_uint32 (ucast v) (ucast (drop_bit 8 v)) (ucast (drop_bit 16 v)) (ucast (drop_bit 24 v)) = v"
    by (rule le_uint32_put)
  consider "v < 0x100" | "\<not> v < 0x100" "v < 0x10000" | "\<not> v < 0x100" "\<not> v < 0x10000" by blast
  then show ?thesis
  proof cases
    case 1
    then have "unat v < 0x100" by (simp add: word_less_nat_alt)
    then have "drop_bit 8 v = 0" "drop_bit 16 v = 0" "drop_bit 24 v = 0"
      by (auto intro!: high_bytes_zero)
    with 1 val show ?thesis
      by (simp add: toUint32_def payload32_def numeral_2_eq_2 numeral_3_eq_3)
  next
    case 2
    then have "unat v < 0x10000" by (simp add: word_less_nat_alt)
    then have "drop_bit 16 v = 0" "drop_bit 24 v = 0"
      by (auto intro!: high_bytes_zero)
    with 2 val show ?thesis
      by (simp add: toUint32_def payload32_def payload16_def ucast_u16_less low_bytes_u16
          numeral_2_eq_2 numeral_3_eq_3)
  next
    case 3
    then show ?thesis
      using val by (simp add: toUint32_def payload32_def put_uint32_def numeral_2_eq_2 numeral_3_eq_3)
  qed
qed

text \<open>The values whose shortest form under \<open>encodeTagi32\<close> has the right sign for the decoder.\<close>

definition i32_survives :: "i32 \<Rightarrow> bool" where
  "i32_survives v \<longleftrightarrow>
     \<not> (-256 \<le> sint v \<and> sint v < -128) \<and> \<not> (128 \<le> sint v \<and> sint v < 256)
     \<and> \<not> (-65536 \<le> sint v \<and> sint v < -32768) \<and> \<not> (32768 \<le> sint v \<and> sint v < 65536)"

lemma i32_survives_iff: "i32_survives v \<longleftrightarrow> (if sign_from 8 v then sign_from 7 v
     else if sign_from 16 v then sign_from 15 v else True)"
  by (auto simp: i32_survives_def sign_from_range)

lemma le_uint16_low: "le_uint16 (ucast v) (ucast (drop_bit 8 v)) = ucast v" for v :: i32
  using le_uint16_put [of "ucast v"] by (simp only: low_bytes_u16)

lemma toInt32_payload: "toInt32 (payloadi32 v) = Ret v \<longleftrightarrow> i32_survives v"
proof -
  have val: "le_uint32 (ucast v) (ucast (drop_bit 8 v)) (ucast (drop_bit 16 v)) (ucast (drop_bit 24 v)) = v"
    by (rule le_uint32_put)
  have two: "take 2 [a, b, c, d] = [a, b]" for a b c d :: u8 by (simp add: numeral_2_eq_2)
  have four: "take 4 [a, b, c, d] = [a, b, c, d]" for a b c d :: u8 by simp
  have at: "[a, b, c, d] ! 2 = c" "[a, b, c, d] ! 3 = d" for a b c d :: u8
    by (simp_all add: numeral_2_eq_2 numeral_3_eq_3)
  show ?thesis
    using val
    by (simp add: toInt32_def payloadi32_def put_uint32_def i32_survives_iff scast_ucast_u8
        toUint16_def le_uint16_low scast_ucast_u16 toUint32_def two four at)
qed

end
