(* ===== verification/DescSync.thy ===== *)
theory DescSync
  imports DescRoundTrip
begin

section \<open>The decoder run in step with the encoder\<close>

text \<open>
  The descriptors that the encoder can represent (\<open>wf_descriptor\<close>), the decoder's state after the
  bytes written so far, one lemma per block of \<open>encodeDataItem\<close> and the induction over the tree of
  collections: decoding what was encoded gives the descriptor back.
\<close>

subsection \<open>Representable descriptors\<close>

definition wf_data_item :: "DataItem \<Rightarrow> bool" where
  "wf_data_item d \<longleftrightarrow>
     Flags d < 0x100 \<and> 0 \<notin> set (UsageIDs d) \<and> distinct_adj (UsageIDs d)
     \<and> i32_survives (LogicalMinimum d) \<and> i32_survives (LogicalMaximum d)
     \<and> i32_survives (PhysicalMinimum d) \<and> i32_survives (PhysicalMaximum d)"

fun wf_collection :: "Collection \<Rightarrow> bool" and wf_items :: "MainItem list \<Rightarrow> bool" where
  "wf_collection (Collection t p u items) \<longleftrightarrow> u \<noteq> 0 \<and> wf_items items"
| "wf_items [] \<longleftrightarrow> True"
| "wf_items (MainItem t d c # items) \<longleftrightarrow>
     (case c of
        Some k \<Rightarrow> t = MainItemTypeCollection \<and> d = None \<and> wf_collection k
      | None \<Rightarrow>
          (case d of Some i \<Rightarrow> t \<noteq> MainItemTypeCollection \<and> wf_data_item i | None \<Rightarrow> False))
     \<and> wf_items items"

definition wf_descriptor :: "ReportDescriptor \<Rightarrow> bool" where
  "wf_descriptor r \<longleftrightarrow> (\<forall>c \<in> set (Collections r). wf_collection c)"

subsection \<open>One command\<close>

definition runs :: "Encoder \<Rightarrow> reportDescriptorState \<Rightarrow> bool" where
  "runs e st \<longleftrightarrow> parseBytes initState (out e) = Ret st \<and> idle st"

lemma emit_simps [simp]:
  "out (emit bs e) = out e @ bs" "eglobal (emit bs e) = eglobal e" "elocal (emit bs e) = elocal e"
  by (simp_all add: emit_def)

lemma runs_update [simp]:
  "runs (e\<lparr>eglobal := g\<rparr>) st = runs e st" "runs (e\<lparr>elocal := l\<rparr>) st = runs e st"
  by (simp_all add: runs_def)

lemma runs_emit:
  assumes "runs e st" "commandMap t = Some f" "TagPrefix t = t" "t \<noteq> 0"
    "sz < 4" "length payload = unat (payload_len sz)" "f st payload = Ret st'"
  shows "runs (emit (WithItemSize t sz # payload) e) st'"
  using parse_command [of st t f sz payload st'] assms
  by (simp add: runs_def parseBytes_append)

lemma payload_sizes:
  "size16 v < 4" "length (payload16 v) = unat (payload_len (size16 v))"
  "size32 w < 4" "length (payload32 w) = unat (payload_len (size32 w))"
  "sizei32 i < 4" "length (payloadi32 i) = unat (payload_len (sizei32 i))"
  by (auto simp: size16_def payload16_def payload_len_def size32_def payload32_def put_uint32_def
      ucast_u16_less sizei32_def payloadi32_def)

named_theorems tag_simps

definition real_tag :: "Tag \<Rightarrow> command_fn \<Rightarrow> bool" where
  "real_tag t f \<longleftrightarrow> commandMap t = Some f \<and> TagPrefix t = t \<and> t \<noteq> 0"

lemma real_tag_main [tag_simps]:
  "real_tag TagInput cmdInput" "real_tag TagOutput cmdOutput" "real_tag TagFeature cmdFeature"
  "real_tag TagCollection cmdCollection" "real_tag TagEndCollection cmdEndCollection"
  by (simp_all add: real_tag_def commandMap_def TagPrefix_def)

lemma real_tag_global [tag_simps]:
  "real_tag TagUsagePage cmdUsagePage" "real_tag TagLogicalMinimum cmdLogicalMinimum"
  "real_tag TagLogicalMaximum cmdLogicalMaximum" "real_tag TagPhysicalMinimum cmdPhysicalMinimum"
  "real_tag TagPhysicalMaximum cmdPhysicalMaximum" "real_tag TagUnitExponent cmdUnitExponent"
  "real_tag TagUnit cmdUnit" "real_tag TagReportSize cmdReportSize"
  "real_tag TagReportID cmdReportID" "real_tag TagReportCount cmdReportCount"
  by (simp_all add: real_tag_def commandMap_def TagPrefix_def)

lemma real_tag_local [tag_simps]:
  "real_tag TagUsage cmdUsage" "real_tag TagUsageMinimum cmdUsageMinimum"
  "real_tag TagUsageMaximum cmdUsageMaximum" "real_tag TagDesignatorIndex cmdDesignatorIndex"
  "real_tag TagDesignatorMinimum cmdDesignatorMinimum"
  "real_tag TagDesignatorMaximum cmdDesignatorMaximum"
  by (simp_all add: real_tag_def commandMap_def TagPrefix_def)

lemma runs_tag16:
  assumes "runs e st" "real_tag t f" "f st (payload16 v) = Ret st'"
  shows "runs (encodeTag16 t v e) st'"
  unfolding encodeTag16_emit
  using assms by (intro runs_emit [where st = st and f = f]) (simp_all add: real_tag_def payload_sizes)

lemma runs_tag32:
  assumes "runs e st" "real_tag t f" "f st (payload32 v) = Ret st'"
  shows "runs (encodeTag32 t v e) st'"
  unfolding encodeTag32_emit
  using assms by (intro runs_emit [where st = st and f = f]) (simp_all add: real_tag_def payload_sizes)

lemma runs_tagi32:
  assumes "runs e st" "real_tag t f" "f st (payloadi32 v) = Ret st'"
  shows "runs (encodeTagi32 t v e) st'"
  unfolding encodeTagi32_emit
  using assms by (intro runs_emit [where st = st and f = f]) (simp_all add: real_tag_def payload_sizes)

lemma runs_tag8:
  assumes "runs e st" "real_tag t f" "f st [v] = Ret st'"
  shows "runs (encodeTag8 t v e) st'"
  unfolding encodeTag8_def
  using assms by (intro runs_emit [where st = st and f = f]) (simp_all add: real_tag_def payload_len_def)

lemma runs_tag:
  assumes "runs e st" "real_tag t f" "f st [] = Ret st'"
  shows "runs (encodeTag t e) st'"
  unfolding encodeTag_def
  using assms by (intro runs_emit [where st = st and f = f]) (simp_all add: real_tag_def payload_len_def)

lemma encodeTag_fields [simp]:
  "eglobal (encodeTag t e) = eglobal e" "elocal (encodeTag t e) = elocal e"
  "eglobal (encodeTag8 t b e) = eglobal e" "elocal (encodeTag8 t b e) = elocal e"
  "eglobal (encodeTag16 t v e) = eglobal e" "elocal (encodeTag16 t v e) = elocal e"
  "eglobal (encodeTag32 t w e) = eglobal e" "elocal (encodeTag32 t w e) = elocal e"
  "eglobal (encodeTagi32 t i e) = eglobal e" "elocal (encodeTagi32 t i e) = elocal e"
  by (simp_all add: encodeTag_def encodeTag8_def encodeTag16_emit encodeTag32_emit encodeTagi32_emit)

lemma payload_ne [simp]: "payload16 v \<noteq> []" "payload32 w \<noteq> []"
  by (simp_all add: payload16_def payload32_def put_uint32_def)

subsection \<open>The decoder's state in step\<close>

definition dstate :: "globalState \<Rightarrow> localState \<Rightarrow> Collection option \<Rightarrow> Collection list
    \<Rightarrow> Collection list \<Rightarrow> reportDescriptorState" where
  "dstate g l c cs stk = \<lparr>global = g, local = l, globalStack = [], collection = c,
     collections = cs, collectionStack = stk, command = 0, commandPayloadLen = 0,
     commandPayload = []\<rparr>"

lemma dstate_simps [simp]:
  "global (dstate g l c cs stk) = g" "local (dstate g l c cs stk) = l"
  "collection (dstate g l c cs stk) = c" "collections (dstate g l c cs stk) = cs"
  "collectionStack (dstate g l c cs stk) = stk"
  "(dstate g l c cs stk)\<lparr>global := g'\<rparr> = dstate g' l c cs stk"
  "(dstate g l c cs stk)\<lparr>local := l'\<rparr> = dstate g l' c cs stk"
  "(dstate g l c cs stk)\<lparr>collection := c'\<rparr> = dstate g l c' cs stk"
  "(dstate g l c cs stk)\<lparr>collections := cs'\<rparr> = dstate g l c cs' stk"
  "(dstate g l c cs stk)\<lparr>collectionStack := stk'\<rparr> = dstate g l c cs stk'"
  by (simp_all add: dstate_def)

text \<open>The decoder has the encoder's globals and locals, apart from the list \<open>us\<close> of usages.\<close>

definition synced :: "Encoder \<Rightarrow> u16 list \<Rightarrow> Collection option \<Rightarrow> Collection list
    \<Rightarrow> Collection list \<Rightarrow> bool" where
  "synced e us c cs stk \<longleftrightarrow> runs e (dstate (eglobal e) ((elocal e)\<lparr>usage := us\<rparr>) c cs stk)"

lemma synced_initial: "synced NewDescriptorEncoder [] None [] []"
  by (simp add: synced_def NewDescriptorEncoder_def runs_def initState_def dstate_def idle_def
      localState0_def)

lemma same_global [simp]:
  "(g :: globalState)\<lparr>usagePage := usagePage g\<rparr> = g" "g\<lparr>unitExponent := unitExponent g\<rparr> = g"
  "g\<lparr>unit := unit g\<rparr> = g" "g\<lparr>reportID := reportID g\<rparr> = g"
  "g\<lparr>reportCount := reportCount g\<rparr> = g" "g\<lparr>reportSize := reportSize g\<rparr> = g"
  "g\<lparr>logicalMinimum := logicalMinimum g, logicalMaximum := logicalMaximum g\<rparr> = g"
  "g\<lparr>physicalMinimum := physicalMinimum g, physicalMaximum := physicalMaximum g\<rparr> = g"
  by (cases g; simp)+

lemma same_local [simp]:
  "(l :: localState)\<lparr>usageMinimum := usageMinimum l, usageMaximum := usageMaximum l\<rparr> = l"
  "l\<lparr>designatorIndex := designatorIndex l\<rparr> = l"
  "l\<lparr>designatorMinimum := designatorMinimum l, designatorMaximum := designatorMaximum l\<rparr> = l"
  by (cases l; simp)+

text \<open>The encoder's own fields after each block.\<close>

lemma block_global [simp]:
  "eglobal (encodeUsagePage p e) = (eglobal e)\<lparr>usagePage := p\<rparr>"
  "eglobal (encodeUnitExponent d e) = (eglobal e)\<lparr>unitExponent := UnitExponent d\<rparr>"
  "eglobal (encodeUnit d e) = (eglobal e)\<lparr>unit := Unit d\<rparr>"
  "eglobal (encodeReportID d e) = (eglobal e)\<lparr>reportID := ReportID d\<rparr>"
  "eglobal (encodeReportCount d e) = (eglobal e)\<lparr>reportCount := ReportCount d\<rparr>"
  "eglobal (encodeReportSize d e) = (eglobal e)\<lparr>reportSize := ReportSize d\<rparr>"
  "eglobal (encodeLogicalRange d e) = (eglobal e)\<lparr>logicalMinimum := LogicalMinimum d,
     logicalMaximum := LogicalMaximum d\<rparr>"
  "eglobal (encodePhysicalRange d e) = (eglobal e)\<lparr>physicalMinimum := PhysicalMinimum d,
     physicalMaximum := PhysicalMaximum d\<rparr>"
  "eglobal (encodeUsageID u e) = eglobal e" "eglobal (encodeUsageRange d e) = eglobal e"
  "eglobal (encodeDesignatorIndex d e) = eglobal e" "eglobal (encodeDesignatorRange d e) = eglobal e"
  "eglobal (encodeMainTag t d e) = eglobal e"
  by (auto simp: encodeUsagePage_def encodeUnitExponent_def encodeUnit_def encodeReportID_def
      encodeReportCount_def encodeReportSize_def encodeLogicalRange_def encodePhysicalRange_def
      encodeUsageID_def encodeUsageRange_def encodeDesignatorIndex_def encodeDesignatorRange_def
      encodeMainTag_def Let_def split: MainItemType.splits)

lemma block_local [simp]:
  "elocal (encodeUsagePage p e) = elocal e" "elocal (encodeUnitExponent d e) = elocal e"
  "elocal (encodeUnit d e) = elocal e" "elocal (encodeReportID d e) = elocal e"
  "elocal (encodeReportCount d e) = elocal e" "elocal (encodeReportSize d e) = elocal e"
  "elocal (encodeLogicalRange d e) = elocal e" "elocal (encodePhysicalRange d e) = elocal e"
  "elocal (encodeMainTag t d e) = elocal e"
  "elocal (encodeUsageRange d e) = (elocal e)\<lparr>usageMinimum := UsageMinimum d,
     usageMaximum := UsageMaximum d\<rparr>"
  "elocal (encodeDesignatorIndex d e) = (elocal e)\<lparr>designatorIndex := DesignatorIndex d\<rparr>"
  "elocal (encodeDesignatorRange d e) = (elocal e)\<lparr>designatorMinimum := DesignatorMinimum d,
     designatorMaximum := DesignatorMaximum d\<rparr>"
  by (auto simp: encodeUsagePage_def encodeUnitExponent_def encodeUnit_def encodeReportID_def
      encodeReportCount_def encodeReportSize_def encodeLogicalRange_def encodePhysicalRange_def
      encodeUsageRange_def encodeDesignatorIndex_def encodeDesignatorRange_def
      encodeMainTag_def Let_def split: MainItemType.splits)

subsection \<open>The blocks of \<open>encodeDataItem\<close>\<close>

lemma synced_usage_page: "synced e us c cs stk \<Longrightarrow> synced (encodeUsagePage p e) us c cs stk"
  unfolding synced_def encodeUsagePage_def
  by (auto simp: Let_def cmdUsagePage_def toUint16_payload tag_simps
      intro!: runs_tag16 [where f = cmdUsagePage])

lemma synced_unit_exponent: "synced e us c cs stk \<Longrightarrow> synced (encodeUnitExponent d e) us c cs stk"
  unfolding synced_def encodeUnitExponent_def
  by (auto simp: Let_def cmdUnitExponent_def toUint32_payload tag_simps
      intro!: runs_tag32 [where f = cmdUnitExponent])

lemma synced_unit: "synced e us c cs stk \<Longrightarrow> synced (encodeUnit d e) us c cs stk"
  unfolding synced_def encodeUnit_def
  by (auto simp: Let_def cmdUnit_def toUint32_payload tag_simps
      intro!: runs_tag32 [where f = cmdUnit])

lemma synced_report_count: "synced e us c cs stk \<Longrightarrow> synced (encodeReportCount d e) us c cs stk"
  unfolding synced_def encodeReportCount_def
  by (auto simp: Let_def cmdReportCount_def toUint32_payload tag_simps
      intro!: runs_tag32 [where f = cmdReportCount])

lemma synced_report_size: "synced e us c cs stk \<Longrightarrow> synced (encodeReportSize d e) us c cs stk"
  unfolding synced_def encodeReportSize_def
  by (auto simp: Let_def cmdReportSize_def toUint32_payload tag_simps
      intro!: runs_tag32 [where f = cmdReportSize])

lemma toUint32_byte: "\<exists>v. toUint32 [b] = Ret v \<and> ucast v = b"
proof -
  have "ucast (le_uint32 b 0 0 0) = b"
    by (rule bit_word_eqI) (auto simp: le_uint32_def bit_simps)
  then show ?thesis by (simp add: toUint32_def numeral_2_eq_2 numeral_3_eq_3)
qed

lemma synced_report_id: "synced e us c cs stk \<Longrightarrow> synced (encodeReportID d e) us c cs stk"
  using toUint32_byte [of "ReportID d"] unfolding synced_def encodeReportID_def
  by (auto simp: Let_def cmdReportID_def tag_simps intro!: runs_tag8 [where f = cmdReportID])

text \<open>The list of usages is updated last in the model's states.\<close>

lemma usage_first:
  "(l :: localState)\<lparr>usageMinimum := a, usageMaximum := b, usage := us\<rparr>
     = l\<lparr>usage := us, usageMinimum := a, usageMaximum := b\<rparr>"
  "l\<lparr>designatorIndex := i, usage := us\<rparr> = l\<lparr>usage := us, designatorIndex := i\<rparr>"
  "l\<lparr>designatorMinimum := i, designatorMaximum := j, usage := us\<rparr>
     = l\<lparr>usage := us, designatorMinimum := i, designatorMaximum := j\<rparr>"
  by simp_all

lemma synced_logical_range:
  assumes "i32_survives (LogicalMinimum d)" "i32_survives (LogicalMaximum d)"
  shows "synced e us c cs stk \<Longrightarrow> synced (encodeLogicalRange d e) us c cs stk"
  using assms unfolding synced_def encodeLogicalRange_def
  by (auto simp: Let_def cmdLogicalMinimum_def cmdLogicalMaximum_def toInt32_payload [THEN iffD2]
      tag_simps intro!: 
        runs_tagi32 [where t = TagLogicalMaximum and f = cmdLogicalMaximum]
        runs_tagi32 [where t = TagLogicalMinimum and f = cmdLogicalMinimum])

lemma synced_physical_range:
  assumes "i32_survives (PhysicalMinimum d)" "i32_survives (PhysicalMaximum d)"
  shows "synced e us c cs stk \<Longrightarrow> synced (encodePhysicalRange d e) us c cs stk"
  using assms unfolding synced_def encodePhysicalRange_def
  by (auto simp: Let_def cmdPhysicalMinimum_def cmdPhysicalMaximum_def toInt32_payload [THEN iffD2]
      tag_simps intro!: 
        runs_tagi32 [where t = TagPhysicalMaximum and f = cmdPhysicalMaximum]
        runs_tagi32 [where t = TagPhysicalMinimum and f = cmdPhysicalMinimum])

lemma synced_usage_range: "synced e us c cs stk \<Longrightarrow> synced (encodeUsageRange d e) us c cs stk"
  unfolding synced_def encodeUsageRange_def
  by (auto simp: Let_def cmdUsageMinimum_def cmdUsageMaximum_def toUint16_payload usage_first
      tag_simps intro!: 
        runs_tag16 [where t = TagUsageMaximum and f = cmdUsageMaximum]
        runs_tag16 [where t = TagUsageMinimum and f = cmdUsageMinimum])

lemma synced_designator_range:
  "synced e us c cs stk \<Longrightarrow> synced (encodeDesignatorRange d e) us c cs stk"
  unfolding synced_def encodeDesignatorRange_def
  by (auto simp: Let_def cmdDesignatorMinimum_def cmdDesignatorMaximum_def usage_first
      tag_simps intro!: 
        runs_tag8 [where t = TagDesignatorMaximum and f = cmdDesignatorMaximum]
        runs_tag8 [where t = TagDesignatorMinimum and f = cmdDesignatorMinimum])

lemma synced_designator_index:
  "synced e us c cs stk \<Longrightarrow> synced (encodeDesignatorIndex d e) us c cs stk"
  unfolding synced_def encodeDesignatorIndex_def
  by (auto simp: Let_def cmdDesignatorIndex_def usage_first tag_simps
      intro!: runs_tag8 [where f = cmdDesignatorIndex])

lemma synced_usage_id:
  assumes "synced e us c cs stk" "usage (elocal e) = (if us = [] then [] else [last us])"
    "u \<noteq> 0" "us \<noteq> [] \<longrightarrow> last us \<noteq> u"
  shows "synced (encodeUsageID u e) (us @ [u]) c cs stk"
    and "usage (elocal (encodeUsageID u e)) = [u]"
    and "(elocal (encodeUsageID u e))\<lparr>usage := vs\<rparr> = (elocal e)\<lparr>usage := vs\<rparr>"
  using assms unfolding synced_def encodeUsageID_def
  by (auto simp: Let_def cmdUsage_def toUint16_payload tag_simps
      intro!: runs_tag16 [where f = cmdUsage])

lemma synced_usages:
  assumes "synced e vs c cs stk" "usage (elocal e) = (if vs = [] then [] else [last vs])"
    "0 \<notin> set us" "distinct_adj (vs @ us)"
  shows "synced (encodeUsages us e) (vs @ us) c cs stk
    \<and> eglobal (encodeUsages us e) = eglobal e
    \<and> (elocal (encodeUsages us e))\<lparr>usage := ws\<rparr> = (elocal e)\<lparr>usage := ws\<rparr>"
  using assms
proof (induction us arbitrary: e vs)
  case (Cons u us)
  have new: "u \<noteq> 0" "vs \<noteq> [] \<longrightarrow> last vs \<noteq> u"
    using Cons.prems(3,4) by (auto simp: distinct_adj_append_iff)
  note step = synced_usage_id [OF Cons.prems(1,2) new]
  have "distinct_adj ((vs @ [u]) @ us)" using Cons.prems(4) by simp
  from Cons.IH [OF step(1) _ _ this] step(2) step(3) [of ws] Cons.prems(3)
  show ?case by simp
qed simp

lemma usages_locals:
  assumes "(elocal e')\<lparr>usage := []\<rparr> = localState0"
  shows "usageMinimum (elocal e') = 0" "usageMaximum (elocal e') = 0"
    "designatorIndex (elocal e') = 0" "designatorMinimum (elocal e') = 0"
    "designatorMaximum (elocal e') = 0"
  using assms by (cases "elocal e'"; simp add: localState0_def)+

definition between :: "Encoder \<Rightarrow> Collection option \<Rightarrow> Collection list \<Rightarrow> Collection list \<Rightarrow> bool" where
  "between e c cs stk \<longleftrightarrow> synced e [] c cs stk \<and> elocal e = localState0"

lemma usage_localState0: "localState0\<lparr>usage := []\<rparr> = localState0" "usage localState0 = []"
  by (simp_all add: localState0_def)

lemma between_runs: "between e c cs stk \<longleftrightarrow>
    runs e (dstate (eglobal e) localState0 c cs stk) \<and> elocal e = localState0"
  by (auto simp: between_def synced_def usage_localState0)

lemma ucast_payload32: "w < 0x100 \<Longrightarrow> payload32 w = [ucast w]"
  by (simp add: payload32_def)

text \<open>A whole data item: the decoder rebuilds it in the open collection.\<close>

lemma between_data_item:
  assumes "between e (Some k) cs stk" "wf_data_item d" "t \<noteq> MainItemTypeCollection"
  shows "between (encodeDataItem t d e) (Some (append_item k (MainItem t (Some d) None))) cs stk"
proof -
  note wf = assms(2) [unfolded wf_data_item_def]
  have start: "synced (encodeUsagePage (UsagePage d) e) [] (Some k) cs stk"
    "elocal (encodeUsagePage (UsagePage d) e) = localState0"
    using assms(1) by (simp_all add: between_def synced_usage_page)
  define e1 where "e1 = encodeUsages (UsageIDs d) (encodeUsagePage (UsagePage d) e)"
  have e1: "synced e1 (UsageIDs d) (Some k) cs stk"
    "eglobal e1 = (eglobal e)\<lparr>usagePage := UsagePage d\<rparr>" "(elocal e1)\<lparr>usage := us\<rparr> = localState0\<lparr>usage := us\<rparr>" for us
    using synced_usages [OF start(1), of "UsageIDs d" us] start(2) wf
    by (simp_all add: e1_def usage_localState0)
  define e2 where "e2 = encodeReportSize d (encodeReportCount d (encodeReportID d (encodeUnit d
    (encodeUnitExponent d (encodePhysicalRange d (encodeLogicalRange d (encodeDesignatorRange d
    (encodeDesignatorIndex d (encodeUsageRange d e1)))))))))"
  have "synced e2 (UsageIDs d) (Some k) cs stk"
    unfolding e2_def using e1(1) wf
    by (intro synced_report_size synced_report_count synced_report_id synced_unit
        synced_unit_exponent synced_physical_range synced_logical_range synced_designator_range
        synced_designator_index synced_usage_range) auto
  then have runs: "runs e2 (dstate (eglobal e2) ((elocal e2)\<lparr>usage := UsageIDs d\<rparr>) (Some k) cs stk)"
    by (simp only: synced_def)
  have flags: "ucast (ucast (Flags d) :: u8) = Flags d" using wf by (simp add: ucast_ucast_low)
  have item: "newDataItem (dstate (eglobal e2) ((elocal e2)\<lparr>usage := UsageIDs d\<rparr>) (Some k) cs stk)
      (Flags d) = d"
    using e1(2) by (cases d) (simp add: newDataItem_def e2_def)
  let ?k = "Some (append_item k (MainItem t (Some d) None))"
  have "runs (encodeMainTag t d e2) (dstate (eglobal e2) localState0 ?k cs stk)"
    using assms(3) wf
    by (cases t)
      (auto simp: encodeMainTag_def cmdInput_def cmdOutput_def cmdFeature_def tag_simps item flags
        ucast_payload32 intro!: runs_tag32 [OF runs, where t = TagInput and f = cmdInput]
        runs_tag32 [OF runs, where t = TagOutput and f = cmdOutput] runs_tag32 [OF runs, where t = TagFeature and f = cmdFeature])
  moreover have "encodeDataItem t d e = (encodeMainTag t d e2)\<lparr>elocal := localState0\<rparr>"
    by (simp add: encodeDataItem_def Let_def e2_def e1_def)
  ultimately show ?thesis by (simp add: between_runs)
qed

subsection \<open>Collections\<close>

abbreviation (input) open_collection :: "CollectionType \<Rightarrow> u16 \<Rightarrow> u16 \<Rightarrow> Encoder \<Rightarrow> Encoder" where
  "open_collection t p u e \<equiv>
     (encodeTag8 TagCollection t (encodeUsageID u (encodeUsagePage p e)))\<lparr>elocal := localState0\<rparr>"

lemma between_open:
  assumes "between e c cs stk" "u \<noteq> 0"
  shows "between (open_collection t p u e) (Some (Collection t p u [])) cs
    (case c of None \<Rightarrow> stk | Some k \<Rightarrow> stk @ [k])"
proof -
  let ?e = "encodeUsagePage p e"
  have "synced ?e [] c cs stk" "usage (elocal ?e) = []"
    using assms(1) by (simp_all add: between_def synced_usage_page usage_localState0)
  then have "synced (encodeUsageID u ?e) [u] c cs stk"
    using synced_usage_id(1) [of ?e "[]" c cs stk u] assms(2) by simp
  then show ?thesis
    by (cases c) (auto simp: between_runs synced_def cmdCollection_def Let_def index_def tag_simps
        intro!: runs_tag8 [where f = cmdCollection])
qed

abbreviation (input) close_collection :: "Encoder \<Rightarrow> Encoder" where
  "close_collection e \<equiv> (encodeTag TagEndCollection e)\<lparr>elocal := localState0\<rparr>"

lemma between_close_top:
  "between e (Some k) cs [] \<Longrightarrow> between (close_collection e) None (cs @ [k]) []"
  by (auto simp: between_runs cmdEndCollection_def tag_simps
      intro!: runs_tag [where f = cmdEndCollection])

lemma between_close_nested:
  "between e (Some k) cs (stk @ [p]) \<Longrightarrow>
     between (close_collection e) (Some (append_item p (MainItem MainItemTypeCollection None (Some k)))) cs stk"
  by (auto simp: between_runs cmdEndCollection_def tag_simps
      intro!: runs_tag [where f = cmdEndCollection])

lemma encodeCollection_eq:
  "encodeCollection (Collection t p u items) e =
     close_collection (encodeMainItems items (open_collection t p u e))"
  by (simp add: Let_def)

definition append_items :: "Collection \<Rightarrow> MainItem list \<Rightarrow> Collection" where
  "append_items k items = Collection (CType k) (CUsagePage k) (CUsageID k) (CItems k @ items)"

lemma append_items_simps [simp]:
  "append_items k [] = k" "append_items (append_item k i) items = append_items k (i # items)"
  "append_items (Collection t p u []) items = Collection t p u items"
  by (simp_all add: append_items_def append_item_def)

lemma between_items:
  shows "wf_collection k \<Longrightarrow>
      (between e None cs [] \<longrightarrow> between (encodeCollection k e) None (cs @ [k]) [])
      \<and> (between e (Some p) cs stk \<longrightarrow>
         between (encodeCollection k e)
           (Some (append_item p (MainItem MainItemTypeCollection None (Some k)))) cs stk)"
    and "wf_items items \<Longrightarrow> between e' (Some p') cs stk' \<Longrightarrow>
      between (encodeMainItems items e') (Some (append_items p' items)) cs stk'"
proof (induction k e and items e' arbitrary: cs p stk and cs p' stk'
    rule: encodeCollection_encodeMainItems.induct)
  case (1 t pg u items e)
  from 1(2) have wf: "u \<noteq> 0" "wf_items items" by simp_all
  have inner: "between (open_collection t pg u e) (Some (Collection t pg u [])) cs s \<Longrightarrow>
      between (encodeMainItems items (open_collection t pg u e)) (Some (Collection t pg u items)) cs s"
    for cs s
    using 1(1) [OF refl refl refl refl wf(2), of "Collection t pg u []" cs s] by simp
  show ?case
    unfolding encodeCollection_eq
    using between_open [OF _ wf(1), where c = None] between_open [OF _ wf(1), where c = "Some p"]
      inner between_close_top between_close_nested
    by fastforce
next
  case (2 e)
  then show ?case by simp
next
  case (3 t d c items e)
  show ?case
  proof (cases c)
    case None
    with 3(3) obtain i where i: "d = Some i" "t \<noteq> MainItemTypeCollection" "wf_data_item i"
      "wf_items items" by (cases d) auto
    from between_data_item [OF 3(4) i(3,2)] i None
      3(2) [of "append_item p' (MainItem t (Some i) None)" cs stk']
    have "between (encodeMainItems items (encodeDataItem t i e))
      (Some (append_items (append_item p' (MainItem t (Some i) None)) items)) cs stk'"
      by simp
    then show ?thesis using i None by simp
  next
    case (Some k)
    let ?p = "append_item p' (MainItem MainItemTypeCollection None (Some k))"
    from 3(3) Some have k: "wf_collection k" "t = MainItemTypeCollection" "d = None" "wf_items items"
      by auto
    have "between (encodeCollection k e) (Some ?p) cs stk'"
      using 3(1) [OF Some k(1), of cs p' stk'] 3(4) by blast
    with 3(2) [of ?p cs stk'] Some k
    have "between (encodeMainItems items (encodeCollection k e)) (Some (append_items ?p items)) cs stk'"
      by simp
    then show ?thesis using Some k by simp
  qed
qed

lemma between_collections:
  "\<forall>c \<in> set ks. wf_collection c \<Longrightarrow> between e None cs [] \<Longrightarrow>
     between (encodeCollections ks e) None (cs @ ks) []"
proof (induction ks arbitrary: e cs)
  case (Cons k ks)
  then have "between (encodeCollection k e) None (cs @ [k]) []"
    using between_items(1) [of k e cs] by simp
  from Cons.IH [OF _ this] Cons.prems show ?case by simp
qed simp

lemma Decode_Encode_wf: "wf_descriptor desc \<Longrightarrow> Decode (Encode desc) = Ret desc"
proof -
  assume wf: "wf_descriptor desc"
  have "between NewDescriptorEncoder None [] []"
    by (simp add: between_def synced_initial) (simp add: NewDescriptorEncoder_def)
  from between_collections [OF _ this, of "Collections desc"] wf
  have "runs (encodeCollections (Collections desc) NewDescriptorEncoder)
      (dstate (eglobal (encodeCollections (Collections desc) NewDescriptorEncoder)) localState0 None
        (Collections desc) [])"
    by (simp add: wf_descriptor_def between_runs)
  then show ?thesis
    by (simp add: Decode_eq Encode_def runs_def descriptor_def)
qed

end
