(* ===== verification/CodecProperties.thy ===== *)
theory CodecProperties
  imports DescSync ReportFacts ReportStateFacts
begin

section \<open>Properties of the codecs (pkg/bits, hidapi/hiddesc, hidapi)\<close>

text \<open>
  What the bit vectors, the descriptor codec, the usage sets, the usage values and the report codec
  promise, stated on their operations.
\<close>

subsection \<open>Report descriptors\<close>

text \<open>
  C3. Decoding what \<open>Encode\<close> wrote gives the descriptor back, for every descriptor that the encoding
  can represent.
\<close>

theorem Decode_Encode: "wf_descriptor desc \<Longrightarrow> Decode (Encode desc) = Ret desc"
  by (rule Decode_Encode_wf)

definition mouse_buttons :: DataItem where
  "mouse_buttons = \<lparr>Flags = 2, UsagePage = 9, UsageIDs = [], UsageMinimum = 1, UsageMaximum = 8,
     ReportCount = 8, ReportSize = 1, ReportID = 1, DesignatorIndex = 0, DesignatorMinimum = 0,
     DesignatorMaximum = 0, LogicalMinimum = 0, LogicalMaximum = 1, PhysicalMinimum = 0,
     PhysicalMaximum = 0, UnitExponent = 0, Unit = 0\<rparr>"

definition mouse_axes :: DataItem where
  "mouse_axes = \<lparr>Flags = 6, UsagePage = 1, UsageIDs = [0x30, 0x31], UsageMinimum = 0, UsageMaximum = 0,
     ReportCount = 2, ReportSize = 8, ReportID = 1, DesignatorIndex = 0, DesignatorMinimum = 0,
     DesignatorMaximum = 0, LogicalMinimum = -127, LogicalMaximum = 127, PhysicalMinimum = 0,
     PhysicalMaximum = 0, UnitExponent = 0, Unit = 0\<rparr>"

definition mouse_descriptor :: ReportDescriptor where
  "mouse_descriptor = \<lparr>Collections = [Collection 1 1 2 [
     MainItem MainItemTypeCollection None (Some (Collection 0 1 1 [
       MainItem MainItemTypeInput (Some mouse_buttons) None,
       MainItem MainItemTypeInput (Some mouse_axes) None]))]]\<rparr>"

lemma Decode_Encode_witness:
  "wf_descriptor mouse_descriptor \<and> Decode (Encode mouse_descriptor) = Ret mouse_descriptor"
proof -
  have "wf_descriptor mouse_descriptor"
    by (simp add: wf_descriptor_def mouse_descriptor_def mouse_buttons_def mouse_axes_def
        wf_data_item_def i32_survives_def)
  with Decode_Encode [of mouse_descriptor] show ?thesis by simp
qed

text \<open>
  C34. The result of decoding does not depend on how the reader cuts the data into pieces: a command
  that is split between two reads is put together again.
\<close>

theorem Decode_reads: "n > 0 \<Longrightarrow> decode_reads initState (chunks n data) = Decode data"
  by (simp add: Decode_eq decode_chunks)

lemma Decode_reads_witness:
  "decode_reads initState (chunks 3 (Encode mouse_descriptor)) = Decode (Encode mouse_descriptor)"
  by (rule Decode_reads) simp

text \<open>
  A signed value is written in one, two or four bytes and read back with its sign extended, and
  it comes back unchanged exactly when it does not lie in the upper half of the short forms: the
  encoder picks the width by the unsigned size of the value.
\<close>

lemma signed_survives:
  "\<exists>payload. encodeTagi32 t v e = emit (WithItemSize t (sizei32 v) # payload) e
     \<and> (toInt32 payload = Ret v \<longleftrightarrow> i32_survives v)"
  using encodeTagi32_emit toInt32_payload by blast

subsection \<open>Bit vectors\<close>

text \<open>
  \<open>ConcatBits\<close> appends the bits of its second argument to those of the first, at any alignment,
  and keeps the unused bits clear. It does not panic.
\<close>

lemma ConcatBits_appends:
  assumes "bits_wf l" "bits_clean l" "bits_wf r"
  shows "\<exists>c. ConcatBits l r = Some c \<and> bits_wf c \<and> bitlist c = bitlist l @ bitlist r \<and> (bits_clean r \<longrightarrow> bits_clean c)"
  by (rule ConcatBits_append [OF assms])

lemma ConcatBits_appends_witness:
  "\<exists>c. ConcatBits \<lparr>missingBits = 5, bytes = [0xA0]\<rparr> \<lparr>missingBits = 0, bytes = [0xFF]\<rparr> = Some c
     \<and> bits_wf c \<and> bitlist c = [True, False, True] @ replicate 8 True"
proof -
  let ?l = "\<lparr>missingBits = 5, bytes = [0xA0]\<rparr>" and ?r = "\<lparr>missingBits = 0, bytes = [0xFF]\<rparr>"
  have "bits_wf ?l" "bits_clean ?l" "bits_wf ?r" by code_simp+
  moreover have "bitlist ?l = [True, False, True]" "bitlist ?r = replicate 8 True" by code_simp+
  ultimately show ?thesis using ConcatBits_appends [of ?l ?r] by auto
qed

text \<open>
  The scanner cuts consecutive pieces out of the bits of its data: after reading \<open>n\<close> bits it
  returned the next \<open>n\<close> of them, packed from the most significant bit on, and stands behind them. It
  panics exactly when the bytes it touches are not there.
\<close>

lemma Scanner_cuts:
  "(Scanner_Next s n = None \<longleftrightarrow> \<not> next_ok s n)
     \<and> (next_ok s n \<longrightarrow> (\<exists>b. Scanner_Next s n = Some (b, s\<lparr>bitOffset := bitOffset s + n\<rparr>)
          \<and> bitlist b = take n (drop (bitOffset s) (stream (sdata s @ sspare s)))))"
  using Scanner_Next_None Scanner_Next_stream by blast

lemma Scanner_cuts_witness:
  "\<exists>b. Scanner_Next \<lparr>bitOffset = 4, sdata = [0x12, 0x34, 0x56], sspare = []\<rparr> 8 = Some (b, \<lparr>bitOffset = 12, sdata = [0x12, 0x34, 0x56], sspare = []\<rparr>)
     \<and> bitlist b = take 8 (drop 4 (stream [0x12, 0x34, 0x56]))"
  using Scanner_cuts [of "\<lparr>bitOffset = 4, sdata = [0x12, 0x34, 0x56], sspare = []\<rparr>" 8]
  by (simp add: next_ok_def byte_size_of_eq)

text \<open>A bit vector that was printed by \<open>String\<close> is read back by \<open>NewBitSetFromString\<close>.\<close>

lemma Bits_String_parse:
  assumes "bits_wf b" "bits_clean b"
  shows "\<exists>s. Bits_String b = Some s \<and> NewBitSetFromString s = Ret b"
  by (rule String_round_trip [OF assms])

lemma Bits_String_parse_witness:
  "\<exists>s. Bits_String \<lparr>missingBits = 3, bytes = [0x5A, 0xC0]\<rparr> = Some s
     \<and> NewBitSetFromString s = Ret \<lparr>missingBits = 3, bytes = [0x5A, 0xC0]\<rparr>"
proof -
  have "bits_wf \<lparr>missingBits = 3, bytes = [0x5A, 0xC0]\<rparr>" "bits_clean \<lparr>missingBits = 3, bytes = [0x5A, 0xC0]\<rparr>"
    by code_simp+
  then show ?thesis by (rule Bits_String_parse)
qed

subsection \<open>Usage sets\<close>

abbreviation active :: "UsageSet \<Rightarrow> Bits \<Rightarrow> Usage set" where
  "active us \<equiv> active_of (UsageSet_HasUsage us)"

abbreviation replay :: "UsageSet \<Rightarrow> (Usage \<times> bool) list \<Rightarrow> Bits \<Rightarrow> Bits option" where
  "replay us \<equiv> apply_usages (UsageSet_SetUsage us) (UsageSet_ClearUsage us)"

abbreviation sets_then_clears :: "Usage list \<times> Usage list \<Rightarrow> (Usage \<times> bool) list" where
  "sets_then_clears x \<equiv> map (\<lambda>u. (u, True)) (fst x) @ map (\<lambda>u. (u, False)) (snd x)"

abbreviation clears_then_sets :: "Usage list \<times> Usage list \<Rightarrow> (Usage \<times> bool) list" where
  "clears_then_sets x \<equiv> map (\<lambda>u. (u, False)) (snd x) @ map (\<lambda>u. (u, True)) (fst x)"

text \<open>
  C21. The difference that \<open>UsageSetDiff\<close> finds between two vectors of one-bit flags, replayed on the
  first, leads to the usages of the second: with the activations first, as the event carries them, or
  the deactivations first.
\<close>

theorem flags_replay:
  assumes "flags_inv us t0" "flags_inv us t1"
  shows "\<exists>x. UsageSetDiff us t0 t1 = Some x
    \<and> (\<exists>t. replay us (sets_then_clears x) t0 = Some t \<and> flags_inv us t \<and> active us t = active us t1)
    \<and> (\<exists>t. replay us (clears_then_sets x) t0 = Some t \<and> flags_inv us t \<and> active us t = active us t1)"
proof (cases us)
  case (FlagMap m)
  define p ids where "p = flag_usagePage m" and "ids = flag_usageIDs m"
  have us: "us = FlagMap (NewUsageFlagMap p ids)" and i: "flag_inv ids t0" "flag_inv ids t1"
    using assms FlagMap by (auto simp: flags_inv_def p_def ids_def)
  have inv: "flags_inv us t \<longleftrightarrow> flag_inv ids t" for t
    by (simp add: us flags_inv_def NewUsageFlagMap_def)
  obtain a d where x: "UsageSetDiff us t0 t1 = Some (a, d)"
    using flag_map.diff_active [OF i] unfolding UsageSetDiff_def us by blast
  show ?thesis
    using x flag_map.replay_clear_first [OF i, of p a d] flag_map_all.replay_set_first_always [OF i, of p a d]
    unfolding UsageSetDiff_def us inv [unfolded us] by auto
next
  case (RangeFlags m)
  define p mn mx where "p = range_usagePage m" and "mn = range_minimum m" and "mx = range_maximum m"
  have us: "us = RangeFlags (NewUsageRangeFlags p mn mx)" and i: "range_inv mn mx t0" "range_inv mn mx t1"
    using assms RangeFlags range_eta [of m] by (auto simp: flags_inv_def p_def mn_def mx_def)
  have inv: "flags_inv us t \<longleftrightarrow> range_inv mn mx t" for t
    by (simp add: us flags_inv_def NewUsageRangeFlags_def)
  obtain a d where x: "UsageSetDiff us t0 t1 = Some (a, d)"
    using range_flags.diff_active [OF i] unfolding UsageSetDiff_def us by blast
  show ?thesis
    using x range_flags.replay_clear_first [OF i, of p a d] range_flags_all.replay_set_first_always [OF i, of p a d]
    unfolding UsageSetDiff_def us inv [unfolded us] by auto
qed (use assms in \<open>simp add: flags_inv_def\<close>)

lemma flags_replay_witness:
  "\<exists>x. UsageSetDiff (FlagMap (NewUsageFlagMap 7 [4, 5])) \<lparr>missingBits = 6, bytes = [1]\<rparr> \<lparr>missingBits = 6, bytes = [2]\<rparr> = Some x
     \<and> (\<exists>t. replay (FlagMap (NewUsageFlagMap 7 [4, 5])) (sets_then_clears x) \<lparr>missingBits = 6, bytes = [1]\<rparr> = Some t
          \<and> active (FlagMap (NewUsageFlagMap 7 [4, 5])) t = active (FlagMap (NewUsageFlagMap 7 [4, 5])) \<lparr>missingBits = 6, bytes = [2]\<rparr>)"
proof -
  let ?us = "FlagMap (NewUsageFlagMap 7 [4, 5])"
  have "flags_inv ?us \<lparr>missingBits = 6, bytes = [b]\<rparr>" for b
    by (simp add: flags_inv_def NewUsageFlagMap_def flag_inv_def bits_wf_def Bits_Len_def)
  from flags_replay [OF this this, of 1 2] show ?thesis by blast
qed



text \<open>
  With the activations first it does not: an array with all its elements in use ignores a new
  usage, and reports that it was set.
\<close>

lemma selector_full:
  assumes "sel8_inv mn mx n b" "0 \<notin> set (bytes b)" "UsageSelector_Contains (NewUsageSelector 8 p mn mx) u"
  shows "UsageSet_SetUsage (Selector (NewUsageSelector 8 p mn mx)) b u = Some (True, b)"
  using assms sel8_set_loop [of b "[]" "bytes b" 0 "ucast (Usage_ID u)"]
  by (simp add: UsageSelector_SetUsage_def EachUint8_n)

lemma selector_full_witness:
  "UsageSet_SetUsage (Selector (NewUsageSelector 8 7 1 100)) \<lparr>missingBits = 0, bytes = [4]\<rparr> (NewUsage 7 5)
     = Some (True, \<lparr>missingBits = 0, bytes = [4]\<rparr>)"
  using sel8_invI [of "\<lparr>missingBits = 0, bytes = [4]\<rparr>" "[4]" 0 1 100]
  by (intro selector_full [where n = 1]) (simp_all add: sel_Contains)

text \<open>
  A field of 8, 16 or 32-bit values is a map from its usages to numbers: after any writes every
  usage holds the last value written to it, cut to the width of the field and sign-extended, and the
  others keep theirs. A value in the range of the width is not changed.
\<close>

lemma values_hold_last:
  assumes "values_inv us sz b" "fst ` set xs \<subseteq> set us"
  shows "\<exists>b'. put_values (UsageValues_SetValue (NewUsageValues us sz mn mx)) xs b = Some b' \<and> values_inv us sz b'
    \<and> (\<forall>w. UsageValues_GetValue (NewUsageValues us sz mn mx) b' w =
         (case map_of (rev xs) w of
            Some v \<Rightarrow> Some (narrow_value sz v)
          | None \<Rightarrow> UsageValues_GetValue (NewUsageValues us sz mn mx) b w))
    \<and> (\<forall>v. - (2 ^ (unat sz - 1)) \<le> sint v \<and> sint v < 2 ^ (unat sz - 1) \<longrightarrow> narrow_value sz v = v)"
  using usage_values.put_values_last [OF assms] narrow_value_id [of sz] assms(1)
  by (auto simp: values_inv_def)

lemma values_hold_last_witness:
  "\<exists>b'. put_values (UsageValues_SetValue (NewUsageValues [NewUsage 1 0x30, NewUsage 1 0x31] 16 0 0))
       [(NewUsage 1 0x31, -300), (NewUsage 1 0x31, 70000)] \<lparr>missingBits = 0, bytes = [0, 0, 0, 0]\<rparr> = Some b'
     \<and> UsageValues_GetValue (NewUsageValues [NewUsage 1 0x30, NewUsage 1 0x31] 16 0 0) b' (NewUsage 1 0x31)
         = Some (narrow_value 16 70000)"
proof -
  let ?us = "[NewUsage 1 0x30, NewUsage 1 0x31]"
  have "values_inv ?us 16 \<lparr>missingBits = 0, bytes = [0, 0, 0, 0]\<rparr>" by (simp add: values_inv_def)
  from values_hold_last [OF this, of "[(NewUsage 1 0x31, -300), (NewUsage 1 0x31, 70000)]" 0 0] show ?thesis by auto
qed

subsection \<open>Reports\<close>

text \<open>
  \<open>NewDataItemSet\<close> groups the data items of a descriptor by report ID in the order of the
  descriptor, and \<open>WithType\<close> keeps those of one type, in the same order.
\<close>

lemma items_grouped:
  assumes "\<forall>k \<in> set (Collections desc). full_collection k"
  shows "\<exists>s. NewDataItemSet desc = Some s
    \<and> reportIDs s = first_ids (flat desc)
    \<and> (\<forall>i. DataItemSet_Report s i = map snd (of_report i (flat desc)))
    \<and> (\<forall>i typ. DataItemSet_Report (DataItemSet_WithType s typ) i =
         map snd (filter (\<lambda>x. fst x = typ) (of_report i (flat desc))))"
  using NewDataItemSet_represents [OF assms] represents_Report WithType_Report
  by (fastforce simp: represents_def)

lemma items_grouped_witness:
  "\<exists>s. NewDataItemSet mouse_descriptor = Some s
     \<and> DataItemSet_Report (DataItemSet_WithType s MainItemTypeInput) 1 = [mouse_buttons, mouse_axes]"
proof -
  have f: "\<forall>k \<in> set (Collections mouse_descriptor). full_collection k" by (simp add: mouse_descriptor_def)
  have l: "map snd (filter (\<lambda>x. fst x = MainItemTypeInput) (of_report 1 (flat mouse_descriptor))) = [mouse_buttons, mouse_axes]"
    by (simp add: mouse_descriptor_def flat_def of_report_def mouse_buttons_def mouse_axes_def)
  from items_grouped [OF f] l show ?thesis by auto
qed

text \<open>
  C9. A report whose fields have whole bytes is decoded from the bytes that \<open>EncodeReport\<close> wrote.
\<close>

theorem report_roundtrip:
  assumes "report_fits dis r" "EncodeReport r = Some c"
    "\<forall>d \<in> set (DataItemSet_Report dis (report_ID r)). field_bits d mod 8 = 0"
  shows "ReportDecoder_Decode dis (bytes c) spare = Some (Some r)"
  by (rule Decode_aligned [OF assms])

definition axes_set :: DataItemSet where
  "axes_set = DataItemSet_Add emptyDataItemSet MainItemTypeInput mouse_axes"

definition axes_report :: Report where
  "axes_report = \<lparr>report_ID = 1, report_Fields = [\<lparr>missingBits = 0, bytes = [5, 0xFF]\<rparr>]\<rparr>"

lemma axes_set_simps:
  "DataItemSet_Report axes_set 1 = [mouse_axes]" "DataItemSet_HasReportID axes_set" "field_bits mouse_axes = 16"
  by (simp_all add: axes_set_def DataItemSet_Add_def DataItemSet_Report_def emptyDataItemSet_def
      DataItemSet_HasReportID_def field_bits_def mouse_axes_def Let_def)

lemma report_roundtrip_witness:
  "\<exists>c. EncodeReport axes_report = Some c \<and> ReportDecoder_Decode axes_set (bytes c) [] = Some (Some axes_report)"
proof -
  have f: "report_fits axes_set axes_report"
    using axes_set_simps by (simp add: report_fits_def axes_report_def bits_wf_def bits_clean_def Bits_Len_def)
  obtain c where c: "EncodeReport axes_report = Some c"
    using EncodeReport_total [of axes_report] by (auto simp: axes_report_def bits_wf_def)
  have "\<forall>d \<in> set (DataItemSet_Report axes_set (report_ID axes_report)). field_bits d mod 8 = 0"
    using axes_set_simps by (simp add: axes_report_def)
  from report_roundtrip [OF f c this, of "[]"] c show ?thesis by blast
qed

text \<open>
  C10. Any report is decoded from those bytes when one more byte follows, bit for bit.
\<close>

theorem report_padded:
  assumes "report_fits dis r" "EncodeReport r = Some c"
  shows "\<exists>r'. ReportDecoder_Decode dis (bytes c @ [x]) spare = Some (Some r')
    \<and> report_ID r' = report_ID r \<and> map bitlist (report_Fields r') = map bitlist (report_Fields r)"
  by (rule Decode_padded [OF assms])

lemma report_padded_witness:
  "\<exists>c r'. EncodeReport axes_report = Some c \<and> ReportDecoder_Decode axes_set (bytes c @ [0]) [] = Some (Some r')
     \<and> map bitlist (report_Fields r') = map bitlist (report_Fields axes_report)"
proof -
  have f: "report_fits axes_set axes_report"
    using axes_set_simps by (simp add: report_fits_def axes_report_def bits_wf_def bits_clean_def Bits_Len_def)
  obtain c where c: "EncodeReport axes_report = Some c"
    using EncodeReport_total [of axes_report] by (auto simp: axes_report_def bits_wf_def)
  from report_padded [OF f c, of 0 "[]"] c show ?thesis by blast
qed

text \<open>
  A report that ends on a byte but whose last field starts inside one is not decoded: the scanner
  reads one byte past the end and panics.
\<close>

lemma report_panics:
  assumes "DataItemSet_Report dis (report_ID r) = ds @ [d]" "report_fits dis r" "EncodeReport r = Some c"
    "sum_list (map field_bits (ds @ [d])) mod 8 = 0" "sum_list (map field_bits ds) mod 8 \<noteq> 0"
  shows "ReportDecoder_Decode dis (bytes c) spare = None"
  by (rule Decode_unaligned_last [OF assms])

definition buttons3 :: DataItem where
  "buttons3 = mouse_buttons\<lparr>ReportCount := 3\<rparr>"

definition padding5 :: DataItem where
  "padding5 = mouse_buttons\<lparr>ReportCount := 5, UsageMaximum := 0\<rparr>"

definition buttons_set :: DataItemSet where
  "buttons_set = DataItemSet_Add (DataItemSet_Add emptyDataItemSet MainItemTypeInput buttons3) MainItemTypeInput padding5"

definition buttons_report :: Report where
  "buttons_report = \<lparr>report_ID = 1, report_Fields = [\<lparr>missingBits = 5, bytes = [0x20]\<rparr>, \<lparr>missingBits = 3, bytes = [0]\<rparr>]\<rparr>"

lemma report_panics_witness:
  "\<exists>c. EncodeReport buttons_report = Some c \<and> ReportDecoder_Decode buttons_set (bytes c) [] = None"
proof -
  have s: "DataItemSet_Report buttons_set 1 = [buttons3] @ [padding5]" "DataItemSet_HasReportID buttons_set"
    "field_bits buttons3 = 3" "field_bits padding5 = 5"
    by (simp_all add: buttons_set_def DataItemSet_Add_def DataItemSet_Report_def emptyDataItemSet_def types_of_def
        DataItemSet_HasReportID_def field_bits_def buttons3_def padding5_def mouse_buttons_def Let_def)
  have "bits_wf \<lparr>missingBits = 5, bytes = [0x20]\<rparr>" "bits_clean \<lparr>missingBits = 5, bytes = [0x20]\<rparr>"
    by code_simp+
  moreover have "bits_wf \<lparr>missingBits = 3, bytes = [0]\<rparr>" "bits_clean \<lparr>missingBits = 3, bytes = [0]\<rparr>"
    by (simp_all add: bits_wf_def bits_clean_def)
  moreover note clean = calculation
  have f: "report_fits buttons_set buttons_report"
    using s clean by (simp add: report_fits_def buttons_report_def Bits_Len_def)
  obtain c where c: "EncodeReport buttons_report = Some c"
    using EncodeReport_total [of buttons_report] by (auto simp: buttons_report_def bits_wf_def)
  have i: "DataItemSet_Report buttons_set (report_ID buttons_report) = [buttons3] @ [padding5]"
    using s by (simp add: buttons_report_def)
  from report_panics [OF i f c, of "[]"] s c show ?thesis by auto
qed

end
