(* ===== verification/HidUsageFacts.thy ===== *)
theory HidUsageFacts
  imports HidUsage
begin

section \<open>Reading back the names of usages\<close>

text \<open>
  Numbers are read back in the base they were written in. Every key name parses to its code; a usage
  of the keyboard page whose ID fits a byte is read back, an ordinal usage below 0x8000 too.
\<close>

subsection \<open>Numbers\<close>

lemma digit_value_hex: "d < 16 \<Longrightarrow> digit_value (hex_digit d) = Some d"
proof -
  assume "d < 16"
  then have "d \<in> set [0..<16]" by simp
  moreover have "\<forall>d \<in> set [0..<16]. digit_value (hex_digit d) = Some d"
    by (simp add: hex_digit_def digit_value_def upt_rec)
  ultimately show ?thesis by blast
qed

lemma parse_digits_append:
  "parse_digits b (xs @ ys) acc = (case parse_digits b xs acc of None \<Rightarrow> None | Some n \<Rightarrow> parse_digits b ys n)"
  by (induction xs arbitrary: acc) (auto split: option.splits)

lemma parse_digits_of: "2 \<le> b \<Longrightarrow> b \<le> 16 \<Longrightarrow> parse_digits b (digits_of b n) 0 = Some n"
proof (induction b n rule: digits_of.induct)
  case (1 b n)
  show ?case
  proof (cases "n < b")
    case True
    then show ?thesis using 1 by (simp add: digits_of.simps [of b n] digit_value_hex)
  next
    case False
    have "n mod b < b" "n mod b < 16" using 1 by (auto intro: order_less_le_trans [of _ b])
    then show ?thesis using False 1
      by (simp add: digits_of.simps [of b n] parse_digits_append digit_value_hex)
  qed
qed

lemma digits_of_nonempty [simp]: "digits_of b n \<noteq> []"
  by (simp add: digits_of.simps [of b n])

lemma parse_format_hex: "parse_digits 16 (format_hex n) 0 = Some n" "format_hex n \<noteq> []"
  using parse_digits_of [of 16 n] by (simp_all add: format_hex_def digit_value_def)

lemma ParseUint_format_hex: "n < 2 ^ bits \<Longrightarrow> ParseUint 16 bits (format_hex n) = Some n"
  by (simp add: ParseUint_def parse_format_hex)

subsection \<open>Key names\<close>

text \<open>The names are compared as numbers, which the simplifier evaluates fast.\<close>

primrec string_code :: "string \<Rightarrow> nat" where
  "string_code [] = 0"
| "string_code (c # cs) = of_char c + 256 * string_code cs"

lemma key_names_distinct: "distinct (map snd keyNameMap)"
proof -
  have "distinct (map string_code (map snd keyNameMap))"
    by (simp add: keyNameMap_defs)
  then show ?thesis unfolding distinct_map by blast
qed

lemma key_names_prefix: "\<forall>n \<in> set (map snd keyNameMap). \<not> has_prefix ''Code'' n"
  by (simp add: keyNameMap_defs has_prefix_def)

lemma KeyCode_KeyName: "KeyCode (KeyName c) = Ret c"
proof (cases "map_of keyNameMap c")
  case None
  have "unat c < 2 ^ 8" using unsigned_less [of c] by simp
  then have "ParseUint 16 8 (format_hex (unat c)) = Some (unat c)" by (rule ParseUint_format_hex)
  then show ?thesis using None by (simp add: KeyName_def KeyCode_def has_prefix_def)
next
  case (Some n)
  then have n: "(c, n) \<in> set keyNameMap" by (rule map_of_SomeD)
  have "distinct (map fst (map prod.swap keyNameMap))"
    using key_names_distinct by (simp add: comp_def)
  moreover have "(n, c) \<in> set (map prod.swap keyNameMap)" using n by force
  ultimately have "keyCodeMap n = Some c" unfolding keyCodeMap_def by (rule map_of_is_SomeI)
  moreover have "\<not> has_prefix ''Code'' n" using key_names_prefix n by force
  ultimately show ?thesis using Some by (simp add: KeyName_def KeyCode_def)
qed

text \<open>No name has a dot, so the name alone is a usage of the keyboard page.\<close>

lemma key_names_dot: "\<forall>n \<in> set (map snd keyNameMap). CHR ''.'' \<notin> set n"
  by (simp add: keyNameMap_defs)

lemma set_digits_of: "2 \<le> b \<Longrightarrow> b \<le> 16 \<Longrightarrow> set (digits_of b n) \<subseteq> hex_digit ` {..<16}"
proof (induction b n rule: digits_of.induct)
  case (1 b n)
  have "n mod b < 16" using 1 by (auto intro: order_less_le_trans [of _ b])
  then show ?case using 1 by (auto simp: digits_of.simps [of b n])
qed

lemma dot_not_digit: "CHR ''.'' \<notin> hex_digit ` {..<16}"
proof
  assume "CHR ''.'' \<in> hex_digit ` {..<16}"
  then obtain d where "d < 16" "CHR ''.'' = hex_digit d" by auto
  then have "digit_value CHR ''.'' = Some d" using digit_value_hex by metis
  then show False by (simp add: digit_value_def)
qed

lemma KeyName_dot: "CHR ''.'' \<notin> set (KeyName c)"
proof (cases "map_of keyNameMap c")
  case None
  have "CHR ''.'' \<notin> set (digits_of 16 (unat c))" using set_digits_of [of 16 "unat c"] dot_not_digit by auto
  then show ?thesis using None by (simp add: KeyName_def format_hex_def)
next
  case (Some n)
  then show ?thesis using key_names_dot by (force simp: KeyName_def dest: map_of_SomeD)
qed

lemma split_at_absent: "c \<notin> set s \<Longrightarrow> split_at c s = [s]"
  by (induction s) auto

lemma keyboard_roundtrip:
  assumes kb: "aliases ''kb'' = Some KeyboardKeypad" "pages KeyboardKeypad = Some info" "pg_Code info = KeyboardKeypad"
    and i: "unat i < 256"
  shows "\<exists>s. Usage_String pages (NewUsage KeyboardKeypad i) = Some s
    \<and> ParseUsage pages aliases s = Ret (NewUsage KeyboardKeypad i)"
proof -
  let ?s = "KeyName (ucast i)"
  have s: "Usage_String pages (NewUsage KeyboardKeypad i) = Some ?s"
    using kb by (simp add: Usage_String_def format_usage_def GetPageInfoByCode_def FormatKeyboardKeypad_def)
  have byte: "(ucast (ucast i :: u8) :: u16) = i"
  proof -
    have "unat (ucast (ucast i :: u8) :: u16) = unat i"
      using i by (simp only: unsigned_ucast_eq unsigned_take_bit_eq) (simp add: take_bit_eq_mod)
    then show ?thesis by (simp only: word_unat_eq_iff)
  qed
  have "ParsePage pages aliases ''kb'' = Ret info"
    using kb by (simp add: ParsePage_def has_prefix_def GetPageInfoByAlias_def)
  then have "parse_usage pages aliases ?s = Ret (info, emptyUsageInfo\<lparr>ui_ID := i\<rparr>)"
    using kb byte by (simp add: parse_usage_def split_at_absent [OF KeyName_dot] ParseKeyboardKeypad_def KeyCode_KeyName)
  then show ?thesis using s kb by (simp add: ParseUsage_def)
qed

subsection \<open>Ordinal pages\<close>

lemma ParseInt_decimal:
  "ParseInt 10 16 (format_decimal n) = (if n < 2 ^ 15 then Some (int n) else None)"
proof -
  obtain c cs where s: "format_decimal n = c # cs"
    by (metis digits_of_nonempty format_decimal_def list.exhaust)
  have "c \<in> hex_digit ` {..<16}"
    using set_digits_of [of 10 n] s by (simp add: format_decimal_def)
  then obtain d where "digit_value c = Some d" using digit_value_hex by auto
  then have "c \<noteq> CHR ''-'' \<and> c \<noteq> CHR ''+''" by (auto simp: digit_value_def)
  then show ?thesis
    using parse_digits_of [of 10 n] s by (simp add: ParseInt_def format_decimal_def [symmetric])
qed

text \<open>An ordinal is read back exactly when it fits the signed range of the parser.\<close>

lemma ordinal_alias:
  assumes "usages_Get (OrdinalUsages prefix tys) i = Some info"
  shows "usages_ByAlias (OrdinalUsages prefix tys) (ui_Alias info) = (if unat i < 2 ^ 15 then Some info else None)"
  using assms by (auto simp: usages_Get_def usages_ByAlias_def ParseInt_decimal format_int_def)

subsection \<open>Patterns\<close>

lemma any_matcher_iff: "any_matcher fs p i \<longleftrightarrow> (\<exists>f \<in> set fs. f p i)"
  by (induction fs) auto

lemma matchers_loop_iff:
  "matchers_loop pages aliases ps = Ret fs \<longleftrightarrow> list_all2 (\<lambda>p f. new_matcher pages aliases p = Ret f) ps fs"
  by (induction ps arbitrary: fs) (auto simp: obind_Ret_iff list_all2_Cons1)

lemma matchers_any:
  "list_all2 (\<lambda>p f. new_matcher pages aliases p = Ret f) ps fs \<Longrightarrow>
     (\<exists>f \<in> set fs. f page i) \<longleftrightarrow> (\<exists>p \<in> set ps. \<exists>f. new_matcher pages aliases p = Ret f \<and> f page i)"
  by (induction rule: list_all2_induct) auto

lemma NewMatcher_iff:
  assumes "NewMatcher pages aliases ps = Ret m"
  shows "m page i \<longleftrightarrow> ps = [] \<or> (\<exists>p \<in> set ps. \<exists>f. new_matcher pages aliases p = Ret f \<and> f page i)"
proof (cases "ps = []")
  case False
  then obtain fs where "list_all2 (\<lambda>p f. new_matcher pages aliases p = Ret f) ps fs" "m = any_matcher fs"
    using assms by (auto simp: NewMatcher_def obind_Ret_iff matchers_loop_iff)
  then show ?thesis using False by (simp add: any_matcher_iff matchers_any)
qed (use assms in \<open>auto simp: NewMatcher_def\<close>)

text \<open>A usage of a page that is not in the table cannot be parsed: its list of usages is nil.\<close>

lemma parse_unknown_page:
  assumes "ParsePage pages aliases p = Ret info" "pg_Usages info = None" "pg_Code info \<noteq> KeyboardKeypad"
    "CHR ''.'' \<notin> set p" "CHR ''.'' \<notin> set u"
  shows "parse_usage pages aliases (p @ ''.'' @ u) = Panic"
proof -
  have "split_at CHR ''.'' (p @ CHR ''.'' # u) = [p, u]"
    using assms(4) by (induction p) (auto simp: split_at_absent [OF assms(5)])
  then show ?thesis using assms(1-3) by (simp add: parse_usage_def)
qed

end
