(* ===== verification/StateProperties.thy ===== *)
theory StateProperties
  imports CodecProperties ReportEvents HidUsageFacts KeyTotal
begin

section \<open>Properties of events, report states and usage names (hidapi)\<close>

text \<open>
  What the event map, the two directions of \<open>ReportState\<close> and the names of usages promise. The
  witnesses use a keyboard with one report of eight modifier keys.
\<close>

definition modifiers :: DataItem where
  "modifiers = mouse_buttons\<lparr>UsagePage := 7, UsageMinimum := 0xE0, UsageMaximum := 0xE7, ReportID := 0\<rparr>"

definition keyboard_set :: DataItemSet where
  "keyboard_set = DataItemSet_Add emptyDataItemSet MainItemTypeInput modifiers"

definition sample_env :: Env where
  "sample_env = \<lparr>env_set_order = (\<lambda>i. [0]), env_value_order = (\<lambda>i. []), env_sort = id, env_tick = (\<lambda>t. t + 1)\<rparr>"

definition modifier_flags :: UsageSet where
  "modifier_flags = RangeFlags (NewUsageRangeFlags 7 0xE0 0xE7)"

definition keyboard :: ReportState where
  "keyboard = \<lparr>rs_dataItems = keyboard_set, rs_usageSets = [0 \<mapsto> [0 \<mapsto> modifier_flags]],
     rs_usageValues = [0 \<mapsto> Map.empty],
     rs_usageSetRanges = [7 \<mapsto> [\<lparr>rng_start = 0xE0, rng_end = 0xE7, rng_addr = (0, 0), rng_dataItem = modifiers\<rparr>]],
     rs_usageSetMap = Map.empty, rs_usageValuesIndex = Map.empty,
     rs_reports = [0 \<mapsto> \<lparr>report_ID = 0, report_Fields = [\<lparr>missingBits = 0, bytes = [0]\<rparr>]\<rparr>],
     rs_usageActivations = [0 \<mapsto> Map.empty], rs_lastActivation = 0, rs_activationMinInterval = 500000, rs_now = 0\<rparr>"

lemma keyboard_items:
  "DataItemSet_Report keyboard_set i = (if i = 0 then [modifiers] else [])"
  "DataItemSet_Reports keyboard_set = [\<lparr>set_report_ID = 0, set_report_DataItems = [modifiers]\<rparr>]"
  by (auto simp: keyboard_set_def DataItemSet_Add_def DataItemSet_Report_def DataItemSet_Reports_def
      emptyDataItemSet_def modifiers_def mouse_buttons_def Let_def)

lemma modifier_sets: "usage_set_of modifiers = Some modifier_flags" "usage_values_of modifiers = None"
  by (simp_all add: usage_set_of_def usage_values_of_def modifiers_def mouse_buttons_def modifier_flags_def
      IsVariable_def DataFlag_def)

lemma keyboard_sets: "NewUsageSets [modifiers] = [0 \<mapsto> modifier_flags]" "NewUsageValuesItems [modifiers] = Map.empty"
  by (auto simp: NewUsageSets_def NewUsageValuesItems_def modifier_sets)

lemma modifier_fields: "modifier_flags = RangeFlags \<lparr>range_usagePage = 7, range_minimum = 0xE0, range_maximum = 0xE7\<rparr>"
  "unat (ReportCount modifiers * ReportSize modifiers) = 8"
  "Bits_NewZeros 8 = \<lparr>missingBits = 0, bytes = [0]\<rparr>" "\<not> IsRelative (Flags modifiers)"
  by (simp_all add: modifier_flags_def NewUsageRangeFlags_def modifiers_def mouse_buttons_def Bits_NewZeros_def
      missing_of_size_def byte_size_of_def IsRelative_def DataFlag_def)

lemma new_keyboard: "NewReportState sample_env 0 keyboard_set = Some keyboard"
  by (simp add: NewReportState_def initializeStates_def keyboard_items init_report_def sample_env_def init_set_def
      sets_at_def nested_def initial_report_def keyboard_sets modifier_fields keyboard_def Let_def index_def
      defaultMinInterval_def fun_eq_iff)




lemma keyboard_flags_inv: "flags_inv modifier_flags \<lparr>missingBits = 0, bytes = [b]\<rparr>"
  by (simp add: flags_inv_def modifier_fields range_inv_def bits_wf_def Bits_Len_def)


subsection \<open>Events\<close>

text \<open>
  C25. An event is a map from usages to what happened to them: adding replaces, suppressing removes, and
  looking up finds it. The positions of the usages, which change as the last one fills a gap, do not
  show.
\<close>

theorem event_is_map:
  assumes "event_inv e"
  shows "(\<exists>e'. Event_AddUsage e ds = Some e' \<and> event_inv e'
      \<and> event_lookup e' = event_lookup e ++ map_of (rev (map (\<lambda>d. (ue_Usage d, d)) ds)))
    \<and> (\<exists>e'. Event_Suppress e us = Some e' \<and> event_inv e' \<and> event_lookup e' = event_lookup e |` (- set us))
    \<and> Event_Usage e u = Some (case event_lookup e u of None \<Rightarrow> (emptyUsageEvent, False) | Some d \<Rightarrow> (d, True))"
  using event_map.adds_law [OF assms] event_map.removes_law [OF assms] Event_Usage_lookup [OF assms]
  by (simp_all add: Event_AddUsage_def Event_Suppress_def)

lemma event_is_map_witness:
  "\<exists>e'. Event_Suppress (NewEvent 0) [NewUsage 7 4] = Some e' \<and> event_inv e'
     \<and> event_lookup e' = event_lookup (NewEvent 0) |` (- set [NewUsage 7 4])"
  using event_is_map [OF event_inv_NewEvent(1)] by blast

subsection \<open>From reports to events\<close>

text \<open>
  C8. For a field of keys the event of a report says exactly what changed: the keys that are in the new
  field and not in the old one are pressed, those only in the old one are released, and the event
  says nothing new about any other usage.
\<close>

theorem report_event_exact:
  assumes "sets_at r i idx = Some us" "flags_inv us t0" "flags_inv us t1" "event_inv e"
  shows "\<exists>e'. item_event r i idx item t0 t1 e = Some e' \<and> event_inv e' \<and>
    (\<forall>u. event_lookup e' u =
       (if u \<in> active us t1 - active us t0 then Some (press u True)
        else if u \<in> active us t0 - active us t1 then Some (press u False)
        else event_lookup e u))"
  by (rule item_event_keys [OF assms])

lemma keyboard_set_at: "sets_at keyboard 0 0 = Some modifier_flags"
  by (simp add: sets_at_def nested_def keyboard_def)

lemma report_event_exact_witness:
  "\<exists>e'. item_event keyboard 0 0 modifiers \<lparr>missingBits = 0, bytes = [1]\<rparr> \<lparr>missingBits = 0, bytes = [2]\<rparr> (NewEvent 5) = Some e'
     \<and> event_inv e' \<and> (\<forall>u. u \<in> active modifier_flags \<lparr>missingBits = 0, bytes = [2]\<rparr> - active modifier_flags \<lparr>missingBits = 0, bytes = [1]\<rparr>
          \<longrightarrow> event_lookup e' u = Some (press u True))"
  using report_event_exact [OF keyboard_set_at keyboard_flags_inv keyboard_flags_inv event_inv_NewEvent(1), of modifiers 1 2 5]
  by auto

subsection \<open>From events to reports\<close>





subsection \<open>Relative values and the rate of reports\<close>

text \<open>
  C23. In every state a device reaches, through any reports and any events, the relative fields of its
  reports are zero: a movement is reported once and never repeated with a later report.
\<close>

theorem relative_fields_zero:
  assumes "reachable env items r" "rs_reports r i = Some rep" "k < length (DataItemSet_Report items i)"
    "IsRelative (Flags (DataItemSet_Report items i ! k))"
  shows "k < length (report_Fields rep) \<and> Bits_IsEmpty (report_Fields rep ! k)"
  using reachable_relative_clear [OF assms(1)] assms(2-) by (auto simp: relative_clear_def relative_empty_def)

definition axis :: DataItem where
  "axis = mouse_axes\<lparr>ReportID := 0, UsageIDs := [], UsageMinimum := 0x30, UsageMaximum := 0x31\<rparr>"

definition axis_set :: DataItemSet where
  "axis_set = DataItemSet_Add emptyDataItemSet MainItemTypeInput axis"

lemma axis_items: "DataItemSet_Report axis_set 0 = [axis]" "DataItemSet_Reports axis_set = [\<lparr>set_report_ID = 0, set_report_DataItems = [axis]\<rparr>]"
  by (simp_all add: axis_set_def DataItemSet_Add_def DataItemSet_Report_def DataItemSet_Reports_def
      emptyDataItemSet_def axis_def mouse_axes_def Let_def)

lemma relative_fields_zero_witness:
  "\<exists>r rep. NewReportState sample_env 0 axis_set = Some r \<and> rs_reports r 0 = Some rep \<and> Bits_IsEmpty (report_Fields rep ! 0)"
proof -
  have s: "usage_set_of axis = None" by (simp add: usage_set_of_def axis_def mouse_axes_def IsVariable_def DataFlag_def)
  have "\<exists>r rep. NewReportState sample_env 0 axis_set = Some r \<and> rs_reports r 0 = Some rep"
    by (auto simp: NewReportState_def initializeStates_def axis_items init_report_def sample_env_def init_set_def
        sets_at_def nested_def NewUsageSets_def s Let_def index_def)
  then obtain r rep where r: "NewReportState sample_env 0 axis_set = Some r" "rs_reports r 0 = Some rep" by blast
  have "IsRelative (Flags (DataItemSet_Report axis_set 0 ! 0))" by (simp add: axis_items axis_def mouse_axes_def IsRelative_def DataFlag_def)
  from relative_fields_zero [OF reachable.created [OF r(1)] r(2) _ this] r show ?thesis by (auto simp: axis_items)
qed



subsection \<open>Names of usages\<close>

text \<open>
  A key of the keyboard page, known or not, is written by a name that parses to the same usage.
\<close>

lemma key_names_parse:
  assumes "aliases ''kb'' = Some KeyboardKeypad" "pages KeyboardKeypad = Some info" "pg_Code info = KeyboardKeypad" "unat i < 256"
  shows "\<exists>s. Usage_String pages (NewUsage KeyboardKeypad i) = Some s
    \<and> ParseUsage pages aliases s = Ret (NewUsage KeyboardKeypad i)"
  using assms by (rule keyboard_roundtrip)

definition kb_page :: PageInfo where
  "kb_page = \<lparr>pg_Code = KeyboardKeypad, pg_Name = ''Keyboard/Keypad Page'', pg_Alias = ''kb'', pg_Usages = Some newUsageTable\<rparr>"

lemma key_names_parse_witness:
  "\<exists>s. Usage_String [KeyboardKeypad \<mapsto> kb_page] (NewUsage KeyboardKeypad 4) = Some s
    \<and> ParseUsage [KeyboardKeypad \<mapsto> kb_page] [''kb'' \<mapsto> KeyboardKeypad] s = Ret (NewUsage KeyboardKeypad 4)"
  by (rule key_names_parse [where info = kb_page]) (simp_all add: kb_page_def)

text \<open>
  A page that the program does not know has no collection of usages, so looking a usage up in it,
  as in the pattern \<open>0x1234.Foo\<close>, panics instead of returning an error.
\<close>

lemma unknown_page_panics:
  assumes "ParsePage pages aliases p = Ret info" "pg_Usages info = None" "pg_Code info \<noteq> KeyboardKeypad"
    "CHR ''.'' \<notin> set p" "CHR ''.'' \<notin> set u"
  shows "ParseUsage pages aliases (p @ ''.'' @ u) = Panic"
  using parse_unknown_page [OF assms] by (simp add: ParseUsage_def)

lemma unknown_page_panics_witness: "ParseUsage Map.empty Map.empty ''0x1234.Foo'' = Panic"
proof -
  have "ParsePage Map.empty Map.empty ''0x1234'' = Ret (emptyPageInfo\<lparr>pg_Code := 0x1234\<rparr>)"
    by (simp add: ParsePage_def has_prefix_def ParseUint_def parse_digits_def digit_value_def GetPageInfoByCode_def)
  from unknown_page_panics [OF this, of "''Foo''"] show ?thesis by (simp add: emptyPageInfo_def KeyboardKeypad_def)
qed

text \<open>
  A list of patterns matches a usage exactly when one of the patterns does, and the empty list
  matches every usage.
\<close>

lemma patterns_match_any:
  assumes "NewMatcher pages aliases ps = Ret m"
  shows "m page i \<longleftrightarrow> ps = [] \<or> (\<exists>p \<in> set ps. \<exists>f. new_matcher pages aliases p = Ret f \<and> f page i)"
  by (rule NewMatcher_iff [OF assms])

lemma patterns_match_any_witness:
  "\<exists>m. NewMatcher [KeyboardKeypad \<mapsto> kb_page] [''kb'' \<mapsto> KeyboardKeypad] [''kb.*''] = Ret m \<and> m 7 4 \<and> \<not> m 9 4"
proof -
  have f: "new_matcher [KeyboardKeypad \<mapsto> kb_page] [''kb'' \<mapsto> KeyboardKeypad] ''kb.*'' = Ret (\<lambda>page i. pg_Code kb_page = page)"
    by (simp add: new_matcher_def ParsePage_def has_prefix_def GetPageInfoByAlias_def)
  then obtain m where m: "NewMatcher [KeyboardKeypad \<mapsto> kb_page] [''kb'' \<mapsto> KeyboardKeypad] [''kb.*''] = Ret m"
    by (simp add: NewMatcher_def)
  from patterns_match_any [OF m] f m show ?thesis by (auto simp: kb_page_def KeyboardKeypad_def)
qed

end
