(* ===== verification/NodeProperties.thy ===== *)
theory NodeProperties
  imports Pipeline NodeTypes StateProperties "HOL-Library.List_Lexorder" "HOL-Library.Char_ord"
begin

section \<open>Properties of the nodes of a flow (components)\<close>

text \<open>
  What bind, mux and split promise about the keys that the nodes behind them see, alone and composed with
  the report states at both ends.
\<close>

subsection \<open>From an input device through a bind to an output device\<close>






subsection \<open>Bind\<close>



text \<open>
  A trigger that names a usage twice never fires: its counters are kept by usage, and their number
  is compared with the length of the list.
\<close>

lemma repeated_usage_never_fires:
  assumes "event_inv ac" "counters_ok u" "\<not> distinct (ua_usages u)"
  shows "\<exists>u'. trigger_Check u ac = Some (False, u', ac) \<and> counters_ok u' \<and> ua_usages u' = ua_usages u"
  by (rule trigger_Check_duplicates [OF assms])

lemma repeated_usage_never_fires_witness:
  "\<exists>u'. trigger_Check (newUsageActivation [NewUsage 7 4, NewUsage 7 4]) (single_event (press (NewUsage 7 4) True))
     = Some (False, u', single_event (press (NewUsage 7 4) True))"
proof -
  have "event_inv (single_event (press (NewUsage 7 4) True))" "\<not> distinct (ua_usages (newUsageActivation [NewUsage 7 4, NewUsage 7 4]))"
    by (auto simp: single_event_def event_inv_def newUsageActivation_def)
  from repeated_usage_never_fires [OF this(1) counters_ok_new this(2)] show ?thesis by blast
qed

text \<open>
  Two keys bound together, pressed and released in the same order: the press of the first and the
  release of the second are sent on, so the receiver keeps the first key pressed although no key is
  down.
\<close>

lemma combination_leaves_key:
  assumes "a \<noteq> b"
  shows "\<exists>ms sent. combo_run a b = Some ((), ms, sent) \<and> fold hold sent {} = {a}
    \<and> (\<forall>m \<in> set ms. \<not> all_pressed (bi_trigger m) \<and> ua_counters (bi_trigger m) = [])"
proof -
  obtain ms sent where s: "combo_run a b = Some ((), ms, sent)" "map ev_usages sent = [[press a True], [press b False]]"
    "\<forall>m \<in> set ms. ua_counters (bi_trigger m) = [] \<and> ua_usages (bi_trigger m) = [a, b]"
    using combo_run_sent [OF assms] by metis
  then obtain e1 e2 where "sent = [e1, e2]" "ev_usages e1 = [press a True]" "ev_usages e2 = [press b False]"
    by (auto simp: map_eq_Cons_conv)
  then have "fold hold sent {} = {a}" using assms by (auto simp: hold_def Event_Usages_def hold_usage_def)
  moreover have "\<not> all_pressed (bi_trigger m)" if "m \<in> set ms" for m
    using s(3) that by (auto simp: all_pressed_def counter_of_def)
  ultimately show ?thesis using s by blast
qed

lemma combination_leaves_key_witness:
  "\<exists>ms sent. combo_run (NewUsage 7 4) (NewUsage 7 5) = Some ((), ms, sent) \<and> fold hold sent {} = {NewUsage 7 4}"
  using combination_leaves_key [of "NewUsage 7 4" "NewUsage 7 5"] by auto

subsection \<open>Mux\<close>




text \<open>
  The action \<open>switch\<close> of a mux, looked up by the name of its node: pressing it sends the signal that sets
  the route and releasing it the one that unsets it; a route that is not a downstream node is an error
  when the action is created.
\<close>

lemma switch_action_signals:
  fixes r :: "('w GoHandler, 'w SignalHandler, 'w Node) GraphRegistry"
  assumes "rg_nodes (gr_registry r) ''mux'' = Some (mux_registration send)"
    "gr_nodeTypes r i = Some ''mux''" "CHR ''.'' \<notin> set i" "inner (gr_declarations r) i = Map.empty"
    "MuxType_CreateNode send \<lparr>gi_ID = i, gi_Descriptor = MuxType_Descriptor, gi_Upstreams = ups, gi_Downstreams = downs\<rparr>
      = (Ret node, regs)"
  shows "action_handler pages aliases uh (fold (provider_register i) regs r) (switch_statement i d) =
    (if d \<in> set downs then Ret (Some (NewSignalActionHandler (Some (send i (muxSet d))) (Some (send i (muxUnset d)))))
     else Fail ''not a downstream node'')"
  by (rule switch_handler [OF assms])

lemma switch_action_signals_witness:
  "\<exists>node regs. MuxType_CreateNode (\<lambda>i s w. (w::nat)) \<lparr>gi_ID = ''layers'', gi_Descriptor = MuxType_Descriptor, gi_Upstreams = [''kbd''],
       gi_Downstreams = [''game'']\<rparr> = (Ret node, regs)
     \<and> action_handler Map.empty Map.empty \<lparr>uh_toggle = NewToggleActionHandler, uh_delta = NewSetDeltaHandler\<rparr>
         (fold (provider_register ''layers'') regs
            \<lparr>gr_registry = \<lparr>rg_nodes = [''mux'' \<mapsto> mux_registration (\<lambda>i s w. w)], rg_actions = Map.empty\<rparr>,
             gr_nodeTypes = [''layers'' \<mapsto> ''mux''], gr_declarations = Map.empty, gr_actions = Map.empty, gr_signals = Map.empty\<rparr>)
         (switch_statement ''layers'' ''nowhere'') = Fail ''not a downstream node''"
proof -
  let ?i = "\<lparr>gi_ID = ''layers'', gi_Descriptor = MuxType_Descriptor, gi_Upstreams = [''kbd''], gi_Downstreams = [''game'']\<rparr>"
  let ?r = "\<lparr>gr_registry = \<lparr>rg_nodes = [''mux'' \<mapsto> mux_registration (\<lambda>i s w. (w::nat))], rg_actions = Map.empty\<rparr>,
             gr_nodeTypes = [''layers'' \<mapsto> ''mux''], gr_declarations = Map.empty, gr_actions = Map.empty, gr_signals = Map.empty\<rparr>"
  obtain node regs where c: "MuxType_CreateNode (\<lambda>i s w. (w::nat)) ?i = (Ret node, regs)"
    by (auto simp: MuxType_CreateNode_def mux_CreateNode_def)
  from switch_action_signals [OF _ _ _ _ this, where r = ?r and d = "''nowhere''"] c show ?thesis
    by (auto simp: inner_def)
qed

text \<open>
  Pressing and releasing a switch to a route that is not set brings the mux back to the state before. Two
  switches to the same route do not nest: the release of the second goes back although the first is
  still held.
\<close>

lemma switch_returns:
  assumes "r \<notin> set (run_routeList s)" "r \<noteq> run_currentRoute s" "route_ok s"
  shows "mux_signal (mux_signal s (muxSet r)) (muxUnset r) = s
    \<and> mux_signal (mux_signal (mux_signal s (muxSet r)) (muxSet r)) (muxUnset r) = s"
  using switch_restores [OF assms] switch_twice [OF assms(2,1,3)] by simp_all

lemma switch_returns_witness:
  "\<exists>m. mux_CreateNode [''game'', ''text''] = Some m
     \<and> mux_signal (mux_signal (mux_start m) (muxSet ''game'')) (muxUnset ''game'') = mux_start m"
proof -
  obtain m where m: "mux_CreateNode [''game'', ''text''] = Some m" "mux_defaultRoute m = ''text''"
    by (auto simp: mux_CreateNode_def)
  from switch_returns [of "''game''" "mux_start m", OF _ _ route_ok_start] m show ?thesis
    by (simp add: mux_start_def)
qed

subsection \<open>Split\<close>



subsection \<open>Characters\<close>



end
