(* ===== verification/FlowGraph.thy ===== *)
theory FlowGraph
  imports FlowRegistry "HOL-Library.AList"
begin

section \<open>Building a graph (internal/flowsvc/graph.go)\<close>

text \<open>
  \<open>GraphBuilder\<close> collects nodes and edges and checks them. Its maps of edges are association lists
  with one entry per key, so that the search for cycles has a finite graph to walk. The lemmas show
  that the search ends, and that it finds every cycle that an entry node reaches, and no other.
\<close>

subsection \<open>The builder\<close>

type_synonym edges = "(string \<times> string list) list"

definition edges_of :: "edges \<Rightarrow> string \<Rightarrow> string list" where
  "edges_of es i = (case map_of es i of None \<Rightarrow> [] | Some l \<Rightarrow> l)"

definition add_edge :: "string \<Rightarrow> string \<Rightarrow> edges \<Rightarrow> edges" where
  "add_edge i toID es = AList.update i (edges_of es i @ [toID]) es"

record ('h, 's, 'n) GraphBuilder =
  gb_registry :: "('h, 's, 'n) GraphRegistry"
  gb_idMap :: "string list"
  gb_nodeIDs :: "string list"
  gb_edgesDown :: edges
  gb_edgesUp :: edges
  gb_errors :: "string list"

definition NewGraphBuilder :: "('h, 's, 'n) Registry \<Rightarrow> ('h, 's, 'n) GraphBuilder" where
  "NewGraphBuilder reg =
     \<lparr>gb_registry = \<lparr>gr_registry = reg, gr_nodeTypes = Map.empty, gr_declarations = Map.empty,
        gr_actions = Map.empty, gr_signals = Map.empty\<rparr>,
      gb_idMap = [], gb_nodeIDs = [], gb_edgesDown = [], gb_edgesUp = [], gb_errors = []\<rparr>"

definition AddNode :: "('h, 's, 'n) GraphBuilder \<Rightarrow> string \<Rightarrow> string \<Rightarrow> string list \<Rightarrow> ('h, 's, 'n) GraphBuilder" where
  "AddNode g t i to =
     (let g = (if i \<in> set (gb_idMap g) then g\<lparr>gb_errors := gb_errors g @ [''multiple instances'']\<rparr> else g)
      in g\<lparr>gb_idMap := List.insert i (gb_idMap g),
           gb_nodeIDs := gb_nodeIDs g @ [i],
           gb_registry := (gb_registry g)\<lparr>gr_nodeTypes := (gr_nodeTypes (gb_registry g))(i \<mapsto> t)\<rparr>,
           gb_edgesDown := fold (\<lambda>toID. add_edge i toID) to (gb_edgesDown g),
           gb_edgesUp := fold (\<lambda>toID. add_edge toID i) to (gb_edgesUp g)\<rparr>)"

definition entryNodeIDs :: "('h, 's, 'n) GraphBuilder \<Rightarrow> string list" where
  "entryNodeIDs g = filter (\<lambda>i. length (edges_of (gb_edgesUp g) i) = 0) (gb_nodeIDs g)"

subsection \<open>Cycles\<close>

text \<open>
  \<open>visited\<close> is the path from the entry node. The code deletes a node from it when all its
  downstreams are done, so each of them starts from the same path.
\<close>

definition graph_nodes :: "edges \<Rightarrow> string set" where
  "graph_nodes es = fst ` set es \<union> (\<Union>(i, l) \<in> set es. set l)"

lemma finite_graph_nodes [simp]: "finite (graph_nodes es)"
  by (auto simp: graph_nodes_def)

lemma edges_of_outside: "i \<notin> graph_nodes es \<Longrightarrow> edges_of es i = []"
  by (auto simp: graph_nodes_def edges_of_def image_iff split: option.splits dest!: map_of_SomeD)

lemma card_visited:
  assumes "i \<notin> set visited"
  shows "card (graph_nodes es - set (i # visited)) < card (graph_nodes es - set visited)
    \<or> edges_of es i = [] \<and> card (graph_nodes es - set (i # visited)) = card (graph_nodes es - set visited)"
proof (cases "i \<in> graph_nodes es")
  case True
  then have "graph_nodes es - set (i # visited) \<subset> graph_nodes es - set visited" using assms by auto
  then show ?thesis by (simp add: psubset_card_mono)
next
  case False
  then have "graph_nodes es - set (i # visited) = graph_nodes es - set visited" by auto
  then show ?thesis using edges_of_outside [OF False] by simp
qed

function (sequential) validateCycles :: "edges \<Rightarrow> string \<Rightarrow> string list \<Rightarrow> (string, unit) outcome"
  and validate_downstreams :: "edges \<Rightarrow> string list \<Rightarrow> string list \<Rightarrow> (string, unit) outcome" where
  "validateCycles es i visited =
     (if i \<in> set visited then Fail ''cycle detected''
      else validate_downstreams es (edges_of es i) (i # visited))"
| "validate_downstreams es [] visited = Ret ()"
| "validate_downstreams es (d # ds) visited =
     obind (validateCycles es d visited) (\<lambda>_. validate_downstreams es ds visited)"
  by pat_completeness auto

termination
proof (relation "measures
    [\<lambda>x. case x of Inl (es, i, v) \<Rightarrow> card (graph_nodes es - set v) | Inr (es, ds, v) \<Rightarrow> card (graph_nodes es - set v),
     \<lambda>x. case x of Inl (es, i, v) \<Rightarrow> 1 | Inr (es, ds, v) \<Rightarrow> 2 * length ds]")
  fix es :: edges and i :: string and visited :: "string list"
  assume "i \<notin> set visited"
  from card_visited [OF this, of es]
  show "(Inr (es, edges_of es i, i # visited), Inl (es, i, visited)) \<in> measures
    [\<lambda>x. case x of Inl (es, i, v) \<Rightarrow> card (graph_nodes es - set v) | Inr (es, ds, v) \<Rightarrow> card (graph_nodes es - set v),
     \<lambda>x. case x of Inl (es, i, v) \<Rightarrow> 1 | Inr (es, ds, v) \<Rightarrow> 2 * length ds]"
    by auto
qed simp_all

declare validateCycles.simps [simp del]

text \<open>The edges as a relation.\<close>

definition edge_rel :: "edges \<Rightarrow> (string \<times> string) set" where
  "edge_rel es = {(i, d). d \<in> set (edges_of es i)}"

lemma validate_downstreams_iff:
  "validate_downstreams es ds v = Ret () \<longleftrightarrow> (\<forall>d \<in> set ds. validateCycles es d v = Ret ())"
  by (induction ds) (auto simp: obind_Ret_iff)

text \<open>The search succeeds when nothing reachable is on the path or on a cycle.\<close>

definition cycle_free :: "edges \<Rightarrow> string \<Rightarrow> string list \<Rightarrow> bool" where
  "cycle_free es i v \<longleftrightarrow> (\<forall>x. (i, x) \<in> (edge_rel es)\<^sup>* \<longrightarrow> x \<notin> set v \<and> (x, x) \<notin> (edge_rel es)\<^sup>+)"

lemma cycle_free_step:
  "cycle_free es i v \<longleftrightarrow> i \<notin> set v \<and> (\<forall>d \<in> set (edges_of es i). cycle_free es d (i # v))"
proof
  assume c: "cycle_free es i v"
  have "cycle_free es d (i # v)" if d: "d \<in> set (edges_of es i)" for d
    unfolding cycle_free_def
  proof (intro allI impI)
    fix x assume x: "(d, x) \<in> (edge_rel es)\<^sup>*"
    have e: "(i, d) \<in> edge_rel es" using d by (simp add: edge_rel_def)
    then have "(i, x) \<in> (edge_rel es)\<^sup>*" "x = i \<longrightarrow> (i, i) \<in> (edge_rel es)\<^sup>+"
      using x by (auto intro: converse_rtrancl_into_rtrancl rtrancl_into_trancl2)
    then show "x \<notin> set (i # v) \<and> (x, x) \<notin> (edge_rel es)\<^sup>+"
      using c by (auto simp: cycle_free_def)
  qed
  then show "i \<notin> set v \<and> (\<forall>d \<in> set (edges_of es i). cycle_free es d (i # v))"
    using c by (auto simp: cycle_free_def)
next
  assume c: "i \<notin> set v \<and> (\<forall>d \<in> set (edges_of es i). cycle_free es d (i # v))"
  have ii: "(i, i) \<notin> (edge_rel es)\<^sup>+"
  proof
    assume "(i, i) \<in> (edge_rel es)\<^sup>+"
    then obtain d where "(i, d) \<in> edge_rel es" "(d, i) \<in> (edge_rel es)\<^sup>*" by (metis tranclD)
    then show False using c by (auto simp: edge_rel_def cycle_free_def)
  qed
  show "cycle_free es i v"
    unfolding cycle_free_def
  proof (intro allI impI)
    fix x assume "(i, x) \<in> (edge_rel es)\<^sup>*"
    then consider "x = i" | d where "d \<in> set (edges_of es i)" "(d, x) \<in> (edge_rel es)\<^sup>*"
      by (cases rule: converse_rtranclE) (auto simp: edge_rel_def)
    then show "x \<notin> set v \<and> (x, x) \<notin> (edge_rel es)\<^sup>+"
      using c ii by cases (auto simp: cycle_free_def)
  qed
qed

lemma validateCycles_iff:
  "validateCycles es i v = Ret () \<longleftrightarrow> cycle_free es i v"
  "validate_downstreams es ds v = Ret () \<longleftrightarrow> (\<forall>d \<in> set ds. cycle_free es d v)"
proof (induction es i v and es ds v rule: validateCycles_validate_downstreams.induct)
  case (1 es i v)
  then show ?case by (subst cycle_free_step) (auto simp: validateCycles.simps)
qed (auto simp: obind_Ret_iff)

subsection \<open>Validation\<close>

definition upstream_ok :: "NodeLinkType \<Rightarrow> string list \<Rightarrow> (string, unit) outcome" where
  "upstream_ok t ups =
     (case t of
        NodeLinkTypeMany \<Rightarrow> if length ups = 0 then Fail ''no upstream nodes'' else Ret ()
      | NodeLinkTypeOne \<Rightarrow>
          if length ups = 0 then Fail ''no upstream nodes''
          else if length ups > 1 then Fail ''should only have one upstream node'' else Ret ()
      | NodeLinkTypeNone \<Rightarrow> if length ups > 0 then Fail ''should not have upstream nodes'' else Ret ())"

definition downstream_ok :: "NodeLinkType \<Rightarrow> string list \<Rightarrow> (string, unit) outcome" where
  "downstream_ok t downs =
     (case t of
        NodeLinkTypeMany \<Rightarrow> if length downs = 0 then Fail ''no downstream nodes'' else Ret ()
      | NodeLinkTypeOne \<Rightarrow>
          if length downs = 0 then Fail ''no downstream nodes''
          else if length downs > 1 then Fail ''should only have one downstream node'' else Ret ()
      | NodeLinkTypeNone \<Rightarrow> if length downs > 0 then Fail ''should not have downstream nodes'' else Ret ())"

primrec targets_ok :: "string list \<Rightarrow> string list \<Rightarrow> (string, unit) outcome" where
  "targets_ok ids [] = Ret ()"
| "targets_ok ids (d # ds) = (if d \<notin> set ids then Fail ''points to a non-existent node'' else targets_ok ids ds)"

primrec validate_nodes :: "('h, 's, 'n) GraphBuilder \<Rightarrow> string list \<Rightarrow> (string, unit) outcome" where
  "validate_nodes g [] = Ret ()"
| "validate_nodes g (i # is') =
     obind (NewNode (gb_registry g) i) (\<lambda>node.
       let meta = nt_Descriptor node
       in obind (upstream_ok (nd_UpstreamType meta) (edges_of (gb_edgesUp g) i)) (\<lambda>_.
          obind (downstream_ok (nd_DownstreamType meta) (edges_of (gb_edgesDown g) i)) (\<lambda>_.
          obind (targets_ok (gb_idMap g) (edges_of (gb_edgesDown g) i)) (\<lambda>_.
          validate_nodes g is'))))"

primrec validate_entries :: "('h, 's, 'n) GraphBuilder \<Rightarrow> string list \<Rightarrow> (string, unit) outcome" where
  "validate_entries g [] = Ret ()"
| "validate_entries g (i # is') = obind (validateCycles (gb_edgesDown g) i []) (\<lambda>_. validate_entries g is')"

definition Validate :: "('h, 's, 'n) GraphBuilder \<Rightarrow> (string, unit) outcome" where
  "Validate g =
     (if length (gb_errors g) > 0 then Fail ''errors''
      else if length (gb_nodeIDs g) = 0 then Fail ''no nodes''
      else obind (validate_nodes g (gb_nodeIDs g)) (\<lambda>_.
        if length (entryNodeIDs g) = 0 then Fail ''no entry nodes''
        else validate_entries g (entryNodeIDs g)))"

subsection \<open>What validation guarantees\<close>

definition link_ok :: "NodeLinkType \<Rightarrow> nat \<Rightarrow> bool" where
  "link_ok t n \<longleftrightarrow> (case t of NodeLinkTypeNone \<Rightarrow> n = 0 | NodeLinkTypeOne \<Rightarrow> n = 1 | NodeLinkTypeMany \<Rightarrow> n \<ge> 1)"

lemma upstream_ok_iff: "upstream_ok t ups = Ret () \<longleftrightarrow> link_ok t (length ups)"
  by (cases t; cases ups) (auto simp: upstream_ok_def link_ok_def)

lemma downstream_ok_iff: "downstream_ok t ds = Ret () \<longleftrightarrow> link_ok t (length ds)"
  by (cases t; cases ds) (auto simp: downstream_ok_def link_ok_def)

lemma targets_ok_iff: "targets_ok ids ds = Ret () \<longleftrightarrow> set ds \<subseteq> set ids"
  by (induction ds) auto

definition node_linked :: "('h, 's, 'n) GraphBuilder \<Rightarrow> string \<Rightarrow> bool" where
  "node_linked g i \<longleftrightarrow> (\<exists>node. NewNode (gb_registry g) i = Ret node
     \<and> link_ok (nd_UpstreamType (nt_Descriptor node)) (length (edges_of (gb_edgesUp g) i))
     \<and> link_ok (nd_DownstreamType (nt_Descriptor node)) (length (edges_of (gb_edgesDown g) i))
     \<and> set (edges_of (gb_edgesDown g) i) \<subseteq> set (gb_idMap g))"

lemma validate_nodes_iff: "validate_nodes g is = Ret () \<longleftrightarrow> (\<forall>i \<in> set is. node_linked g i)"
  by (induction "is") (auto simp: obind_Ret_iff Let_def upstream_ok_iff downstream_ok_iff targets_ok_iff node_linked_def)

lemma validate_entries_iff:
  "validate_entries g is = Ret () \<longleftrightarrow> (\<forall>i \<in> set is. cycle_free (gb_edgesDown g) i [])"
  by (induction "is") (auto simp: obind_Ret_iff validateCycles_iff)

lemma Validate_iff:
  "Validate g = Ret () \<longleftrightarrow> gb_errors g = [] \<and> gb_nodeIDs g \<noteq> [] \<and> (\<forall>i \<in> set (gb_nodeIDs g). node_linked g i)
     \<and> entryNodeIDs g \<noteq> [] \<and> (\<forall>i \<in> set (entryNodeIDs g). cycle_free (gb_edgesDown g) i [])"
  by (auto simp: Validate_def obind_Ret_iff validate_nodes_iff validate_entries_iff)

text \<open>The graph that a configuration describes.\<close>

definition add_nodes :: "(string \<times> string \<times> string list) list \<Rightarrow> ('h, 's, 'n) GraphBuilder \<Rightarrow> ('h, 's, 'n) GraphBuilder" where
  "add_nodes cfg g = fold (\<lambda>(i, t, to) g. AddNode g t i to) cfg g"

definition cfg_edges :: "(string \<times> string \<times> string list) list \<Rightarrow> (string \<times> string) list" where
  "cfg_edges cfg = concat (map (\<lambda>(i, t, to). map (Pair i) to) cfg)"

lemma cfg_edges_simps [simp]:
  "cfg_edges [] = []"
  "cfg_edges ((i, t, to) # cfg) = map (Pair i) to @ cfg_edges cfg"
  by (simp_all add: cfg_edges_def)

lemma add_nodes_simps [simp]:
  "add_nodes [] g = g"
  "add_nodes ((i, t, to) # cfg) g = add_nodes cfg (AddNode g t i to)"
  by (simp_all add: add_nodes_def)

lemma edges_of_update [simp]: "edges_of (AList.update i l es) j = (if j = i then l else edges_of es j)"
  by (simp add: edges_of_def update_conv')

lemma edges_of_adds: "edges_of (fold (\<lambda>toID. add_edge i toID) to es) j = edges_of es j @ (if j = i then to else [])"
  by (induction to arbitrary: es) (auto simp: add_edge_def)

lemma edges_of_adds_up:
  "edges_of (fold (\<lambda>toID. add_edge toID i) to es) j = edges_of es j @ replicate (count_list to j) i"
  by (induction to arbitrary: es) (auto simp: add_edge_def)

lemma AddNode_edges:
  "edges_of (gb_edgesDown (AddNode g t i to)) j = edges_of (gb_edgesDown g) j @ (if j = i then to else [])"
  "edges_of (gb_edgesUp (AddNode g t i to)) j = edges_of (gb_edgesUp g) j @ replicate (count_list to j) i"
  by (simp_all add: AddNode_def Let_def edges_of_adds edges_of_adds_up)

lemma AddNode_fields:
  "gb_nodeIDs (AddNode g t i to) = gb_nodeIDs g @ [i]"
  "set (gb_idMap (AddNode g t i to)) = insert i (set (gb_idMap g))"
  "gb_errors (AddNode g t i to) = [] \<longleftrightarrow> gb_errors g = [] \<and> i \<notin> set (gb_idMap g)"
  by (auto simp: AddNode_def Let_def)

lemma add_nodes_edges:
  "(i, d) \<in> edge_rel (gb_edgesDown (add_nodes cfg g)) \<longleftrightarrow> (i, d) \<in> edge_rel (gb_edgesDown g) \<or> (i, d) \<in> set (cfg_edges cfg)"
  by (induction cfg arbitrary: g) (auto simp: edge_rel_def AddNode_edges)

lemma add_nodes_up:
  "edges_of (gb_edgesUp (add_nodes cfg g)) j = [] \<longleftrightarrow>
     edges_of (gb_edgesUp g) j = [] \<and> (\<forall>i. (i, j) \<notin> set (cfg_edges cfg))"
proof (induction cfg arbitrary: g)
  case (Cons c cfg)
  obtain i t to where c: "c = (i, t, to)" by (cases c)
  have "count_list to j = 0 \<longleftrightarrow> j \<notin> set to" by (simp add: count_list_0_iff)
  then show ?case using Cons.IH [of "AddNode g t i to"]
    by (auto simp: c AddNode_edges)
qed simp

lemma add_nodes_ids:
  "gb_nodeIDs (add_nodes cfg g) = gb_nodeIDs g @ map fst cfg"
  "set (gb_idMap (add_nodes cfg g)) = set (gb_idMap g) \<union> fst ` set cfg"
proof (induction cfg arbitrary: g)
  case (Cons c cfg)
  obtain i t to where c: "c = (i, t, to)" by (cases c)
  case 1
  show ?case using Cons(1) [of "AddNode g t i to"] by (simp add: c AddNode_fields)
  case 2
  show ?case using Cons(2) [of "AddNode g t i to"] by (simp add: c AddNode_fields)
qed simp_all

lemma add_nodes_errors:
  "gb_errors (add_nodes cfg g) = [] \<longleftrightarrow> gb_errors g = [] \<and> distinct (map fst cfg) \<and> set (gb_idMap g) \<inter> fst ` set cfg = {}"
proof (induction cfg arbitrary: g)
  case (Cons c cfg)
  obtain i t to where c: "c = (i, t, to)" by (cases c)
  show ?case using Cons.IH [of "AddNode g t i to"] by (auto simp: c AddNode_fields image_iff)
qed simp

text \<open>
  A validated configuration: distinct nodes, edges between them, and no cycle that an entry node
  reaches. Cycles that no entry node reaches are not looked for.
\<close>

lemma Validate_graph:
  assumes "Validate (add_nodes cfg (NewGraphBuilder reg)) = Ret ()"
  defines "E \<equiv> set (cfg_edges cfg)"
  shows "distinct (map fst cfg)" "\<forall>(i, d) \<in> E. i \<in> fst ` set cfg \<and> d \<in> fst ` set cfg"
    "\<exists>i \<in> fst ` set cfg. \<forall>j. (j, i) \<notin> E"
    "\<forall>i \<in> fst ` set cfg. (\<forall>j. (j, i) \<notin> E) \<longrightarrow> (\<forall>x. (i, x) \<in> E\<^sup>* \<longrightarrow> (x, x) \<notin> E\<^sup>+)"
proof -
  let ?empty = "NewGraphBuilder reg" and ?g = "add_nodes cfg (NewGraphBuilder reg)"
  have new: "gb_nodeIDs ?empty = []" "gb_idMap ?empty = []" "gb_errors ?empty = []" "edges_of (gb_edgesUp ?empty) j = []"
    "edge_rel (gb_edgesDown ?empty) = {}" for j
    by (auto simp: NewGraphBuilder_def edges_of_def edge_rel_def)
  note v = assms(1) [unfolded Validate_iff]
  have rel: "edge_rel (gb_edgesDown ?g) = E"
    using add_nodes_edges [of _ _ cfg ?empty] new by (auto simp: E_def)
  have up: "edges_of (gb_edgesUp ?g) j = [] \<longleftrightarrow> (\<forall>i. (i, j) \<notin> E)" for j
    using add_nodes_up [of cfg ?empty j] new by (simp add: E_def)
  show "distinct (map fst cfg)" using v by (simp add: add_nodes_errors)
  have src: "i \<in> fst ` set cfg" if "(i, d) \<in> E" for i d
    using that by (force simp: E_def cfg_edges_def)
  have tgt: "d \<in> fst ` set cfg" if "(i, d) \<in> E" for i d
  proof -
    have "node_linked ?g i" using v src [OF that] by (auto simp: add_nodes_ids new)
    moreover have "d \<in> set (edges_of (gb_edgesDown ?g) i)" using that rel by (auto simp: edge_rel_def)
    ultimately show ?thesis by (auto simp: node_linked_def add_nodes_ids new)
  qed
  show "\<forall>(i, d) \<in> E. i \<in> fst ` set cfg \<and> d \<in> fst ` set cfg" using src tgt by auto
  have entry: "i \<in> set (entryNodeIDs ?g) \<longleftrightarrow> i \<in> fst ` set cfg \<and> (\<forall>j. (j, i) \<notin> E)" for i
    by (auto simp: entryNodeIDs_def add_nodes_ids new up)
  show "\<exists>i \<in> fst ` set cfg. \<forall>j. (j, i) \<notin> E"
    using v entry by (metis list.set_intros(1) list.exhaust)
  show "\<forall>i \<in> fst ` set cfg. (\<forall>j. (j, i) \<notin> E) \<longrightarrow> (\<forall>x. (i, x) \<in> E\<^sup>* \<longrightarrow> (x, x) \<notin> E\<^sup>+)"
    using v entry rel by (auto simp: cycle_free_def)
qed

end
