(* ===== verification/FlowService.thy ===== *)
theory FlowService
  imports FlowGraph
begin

section \<open>Running a graph (internal/flowsvc/graph.go, flow_service.go, flow_config.go)\<close>

text \<open>
  Streams between the nodes of a graph, the creation and configuration of nodes, and the service that
  rebuilds the graph when its configuration changes. Nodes run concurrently in the code; here a graph
  is what its operations change: the registry, the last configurations and the node of each runner.
  A node is configured by \<open>conf\<close>, which may change it even when it fails. \<open>None\<close> and \<open>Panic\<close> are
  panics.
\<close>

subsection \<open>Streams\<close>

datatype FlowEventType = FlowEventDownstream | FlowEventUpstream

record FlowEventKey =
  fk_NodeID :: string
  fk_Type :: FlowEventType

record flowStream =
  fs_nodeIDs :: "string list"
  fs_subscriber :: "FlowEventKey list option"
  fs_publishers :: "string \<rightharpoonup> FlowEventKey"

text \<open>\<open>order\<close> is the order in which Go ranges over the map of publishers.\<close>

definition newFlowStream ::
  "((string \<rightharpoonup> FlowEventKey) \<Rightarrow> string list) \<Rightarrow> FlowEventKey list option \<Rightarrow> (string \<rightharpoonup> FlowEventKey) \<Rightarrow> flowStream" where
  "newFlowStream order sub pubs = \<lparr>fs_nodeIDs = order pubs, fs_subscriber = sub, fs_publishers = pubs\<rparr>"

definition createStream ::
  "((string \<rightharpoonup> FlowEventKey) \<Rightarrow> string list) \<Rightarrow> string \<Rightarrow> string list \<Rightarrow> bool \<Rightarrow> flowStream" where
  "createStream order nodeID nodes reverse =
     (if length nodes = 0 then newFlowStream order None Map.empty
      else
        let t1 = (if reverse then FlowEventDownstream else FlowEventUpstream);
            t2 = (if reverse then FlowEventUpstream else FlowEventDownstream)
        in newFlowStream order (Some [\<lparr>fk_NodeID = nodeID, fk_Type = t1\<rparr>])
             (fold (\<lambda>i m. m(i \<mapsto> \<lparr>fk_NodeID = i, fk_Type = t2\<rparr>)) nodes Map.empty))"

text \<open>A call of a missing publisher is a nil call. The time limit of a send is not modelled.\<close>

definition stream_Publish :: "flowStream \<Rightarrow> string \<Rightarrow> FlowEvent \<Rightarrow> (FlowEventKey \<times> FlowEvent) option" where
  "stream_Publish s toNodeID msg = map_option (\<lambda>key. (key, msg)) (fs_publishers s toNodeID)"

primrec broadcast_loop :: "flowStream \<Rightarrow> string list \<Rightarrow> FlowEvent \<Rightarrow> (FlowEventKey \<times> FlowEvent) list option" where
  "broadcast_loop s [] msg = Some []"
| "broadcast_loop s (i # is') msg =
     (case stream_Publish s i msg of
        None \<Rightarrow> None
      | Some m \<Rightarrow> map_option (\<lambda>ms. m # ms) (broadcast_loop s is' msg))"

definition stream_Broadcast :: "flowStream \<Rightarrow> FlowEvent \<Rightarrow> (FlowEventKey \<times> FlowEvent) list option" where
  "stream_Broadcast s msg = broadcast_loop s (fs_nodeIDs s) msg"

definition stream_Subscribe :: "flowStream \<Rightarrow> FlowEventKey list option" where
  "stream_Subscribe s = fs_subscriber s"

subsection \<open>The graph\<close>

record ('h, 's, 'n, 'c) Graph =
  gg_builder :: "('h, 's, 'n) GraphBuilder"
  gg_configs :: "string \<rightharpoonup> 'c"
  gg_runners :: "string \<rightharpoonup> 'n"

text \<open>The registry is shared, so the registrations of a node stay when its creation fails.\<close>

definition createNode :: "('h, 's, 'n) GraphBuilder \<Rightarrow> string \<Rightarrow> (string, 'n) outcome \<times> ('h, 's, 'n) GraphBuilder" where
  "createNode g i =
     (case NewNode (gb_registry g) i of
        Fail e \<Rightarrow> (Fail e, g)
      | Panic \<Rightarrow> (Panic, g)
      | Ret nodeType \<Rightarrow>
          let info = \<lparr>gi_ID = i, gi_Descriptor = nt_Descriptor nodeType,
                      gi_Upstreams = edges_of (gb_edgesUp g) i, gi_Downstreams = edges_of (gb_edgesDown g) i\<rparr>;
              (node, regs) = nt_CreateNode nodeType info
          in (node, g\<lparr>gb_registry := fold (provider_register i) regs (gb_registry g)\<rparr>))"

primrec initRunners ::
  "string list \<Rightarrow> ('h, 's, 'n, 'c) Graph \<Rightarrow> (string, ('h, 's, 'n, 'c) Graph) outcome" where
  "initRunners [] g = Ret g"
| "initRunners (i # is') g =
     (case createNode (gg_builder g) i of
        (Ret node, b) \<Rightarrow> initRunners is' (g\<lparr>gg_builder := b, gg_runners := (gg_runners g)(i \<mapsto> node)\<rparr>)
      | (Fail e, b) \<Rightarrow> Fail e
      | (Panic, b) \<Rightarrow> Panic)"

definition Build :: "('h, 's, 'n) GraphBuilder \<Rightarrow> (string, ('h, 's, 'n, 'c) Graph) outcome" where
  "Build g = initRunners (gb_nodeIDs g) \<lparr>gg_builder = g, gg_configs = Map.empty, gg_runners = Map.empty\<rparr>"

type_synonym ('h, 's, 'n, 'c) configure = "('h, 's, 'n) GraphRegistry \<Rightarrow> 'c \<Rightarrow> 'n \<Rightarrow> (string, unit) outcome \<times> 'n"

definition Graph_Configure ::
  "('h, 's, 'n, 'c) configure \<Rightarrow> ('h, 's, 'n, 'c) Graph \<Rightarrow> string \<Rightarrow> 'c \<Rightarrow> (string, unit) outcome \<times> ('h, 's, 'n, 'c) Graph" where
  "Graph_Configure conf g nodeID config =
     (case gg_runners g nodeID of
        None \<Rightarrow> (Fail ''node not found'', g)
      | Some node \<Rightarrow>
          let g1 = g\<lparr>gg_configs := (gg_configs g)(nodeID \<mapsto> config)\<rparr>
          in case gg_configs g nodeID of
               Some oldConfig \<Rightarrow>
                 if oldConfig = config then (Ret (), g)
                 else
                   (case createNode (gg_builder g) nodeID of
                      (Ret newNode, b) \<Rightarrow>
                        let g2 = g1\<lparr>gg_builder := b\<rparr>
                        in (case conf (gb_registry b) config newNode of
                              (Ret u, newNode) \<Rightarrow> (Ret (), g2\<lparr>gg_runners := (gg_runners g)(nodeID \<mapsto> newNode)\<rparr>)
                            | (Fail e, n) \<Rightarrow> (Fail e, g2)
                            | (Panic, n) \<Rightarrow> (Panic, g2))
                    | (Fail e, b) \<Rightarrow> (Fail e, g1\<lparr>gg_builder := b\<rparr>)
                    | (Panic, b) \<Rightarrow> (Panic, g1\<lparr>gg_builder := b\<rparr>))
             | None \<Rightarrow>
                 (case conf (gb_registry (gg_builder g)) config node of
                    (out, node) \<Rightarrow> (out, g1\<lparr>gg_runners := (gg_runners g)(nodeID \<mapsto> node)\<rparr>)))"

subsection \<open>The service\<close>

record 'c NodeConfig =
  nc_ID :: string
  nc_Type :: string
  nc_To :: "string list"
  nc_Config :: 'c

definition config_nodes :: "'c NodeConfig list \<Rightarrow> (string \<times> string \<times> string list) list" where
  "config_nodes cfg = map (\<lambda>n. (nc_ID n, nc_Type n, nc_To n)) cfg"

primrec hash_tokens :: "'c NodeConfig list \<Rightarrow> string list" where
  "hash_tokens [] = []"
| "hash_tokens (n # ns) = [nc_ID n, nc_Type n] @ nc_To n @ hash_tokens ns"

text \<open>\<open>strings.Join\<close>.\<close>

fun join :: "string \<Rightarrow> string list \<Rightarrow> string" where
  "join sep [] = ''''"
| "join sep [s] = s"
| "join sep (s # ss) = s @ sep @ join sep ss"

text \<open>\<open>xxhash\<close> is the library's.\<close>

definition treeHash :: "(string \<Rightarrow> 64 word) \<Rightarrow> 'c NodeConfig list \<Rightarrow> 64 word" where
  "treeHash xxhash cfg = xxhash (join ''|'' (hash_tokens cfg))"

primrec configure_nodes ::
  "('h, 's, 'n, 'c) configure \<Rightarrow> 'c NodeConfig list \<Rightarrow> ('h, 's, 'n, 'c) Graph \<Rightarrow> (string, ('h, 's, 'n, 'c) Graph) outcome" where
  "configure_nodes conf [] g = Ret g"
| "configure_nodes conf (n # ns) g =
     (case Graph_Configure conf g (nc_ID n) (nc_Config n) of
        (Ret u, g) \<Rightarrow> configure_nodes conf ns g
      | (Fail e, g) \<Rightarrow> Fail e
      | (Panic, g) \<Rightarrow> Panic)"

definition buildGraph ::
  "('h, 's, 'n, 'c) configure \<Rightarrow> ('h, 's, 'n) Registry \<Rightarrow> 'c NodeConfig list \<Rightarrow> (string, ('h, 's, 'n, 'c) Graph) outcome" where
  "buildGraph conf reg cfg =
     (let b = fold (\<lambda>n g. AddNode g (nc_Type n) (nc_ID n) (nc_To n)) cfg (NewGraphBuilder reg)
      in obind (Validate b) (\<lambda>_. obind (Build b) (configure_nodes conf cfg)))"

record ('h, 's, 'n, 'c) Service =
  sv_registry :: "('h, 's, 'n) Registry"
  sv_graph :: "('h, 's, 'n, 'c) Graph option"
  sv_graphHash :: "64 word"

definition startGraph ::
  "(string \<Rightarrow> 64 word) \<Rightarrow> ('h, 's, 'n, 'c) configure \<Rightarrow> 'c NodeConfig list \<Rightarrow> ('h, 's, 'n, 'c) Service \<Rightarrow>
   (string, ('h, 's, 'n, 'c) Service) outcome" where
  "startGraph xxhash conf cfg s =
     obind (buildGraph conf (sv_registry s) cfg) (\<lambda>g.
       Ret (s\<lparr>sv_graph := Some g, sv_graphHash := treeHash xxhash cfg\<rparr>))"

text \<open>
  A running graph is replaced when the new one can be built. A graph that stopped, or never started,
  has no \<open>graphCancel\<close>, and calling it panics.
\<close>

definition restartGraph ::
  "(string \<Rightarrow> 64 word) \<Rightarrow> ('h, 's, 'n, 'c) configure \<Rightarrow> 'c NodeConfig list \<Rightarrow> ('h, 's, 'n, 'c) Service \<Rightarrow>
   (string, ('h, 's, 'n, 'c) Service) outcome" where
  "restartGraph xxhash conf cfg s =
     obind (buildGraph conf (sv_registry s) cfg) (\<lambda>g.
       if sv_graph s = None then Panic
       else Ret (s\<lparr>sv_graph := Some g, sv_graphHash := treeHash xxhash cfg\<rparr>))"

text \<open>The same graph, with the errors of single nodes logged.\<close>

primrec reconfigure_nodes ::
  "('h, 's, 'n, 'c) configure \<Rightarrow> 'c NodeConfig list \<Rightarrow> ('h, 's, 'n, 'c) Graph \<Rightarrow> ('h, 's, 'n, 'c) Graph option" where
  "reconfigure_nodes conf [] g = Some g"
| "reconfigure_nodes conf (n # ns) g =
     (case Graph_Configure conf g (nc_ID n) (nc_Config n) of
        (Panic, g) \<Rightarrow> None
      | (_, g) \<Rightarrow> reconfigure_nodes conf ns g)"

text \<open>
  A change of the configuration: a file that cannot be parsed is ignored, another tree restarts the
  graph when the new one can be built, and otherwise the nodes are configured. \<open>None\<close> is a panic, also
  of a missing graph.
\<close>

definition onConfigChange ::
  "(string \<Rightarrow> 64 word) \<Rightarrow> ('h, 's, 'n, 'c) configure \<Rightarrow> (string, 'c NodeConfig list) outcome \<Rightarrow> ('h, 's, 'n, 'c) Service \<Rightarrow>
   ('h, 's, 'n, 'c) Service option" where
  "onConfigChange xxhash conf file s =
     (case file of
        Fail e \<Rightarrow> Some s
      | Panic \<Rightarrow> None
      | Ret cfg \<Rightarrow>
          if treeHash xxhash cfg \<noteq> sv_graphHash s then
            (case restartGraph xxhash conf cfg s of
               Ret s' \<Rightarrow> Some s'
             | Fail e \<Rightarrow> Some s
             | Panic \<Rightarrow> None)
          else if cfg = [] then Some s
          else
            (case sv_graph s of
               None \<Rightarrow> None
             | Some g \<Rightarrow> map_option (\<lambda>g. s\<lparr>sv_graph := Some g\<rparr>) (reconfigure_nodes conf cfg g)))"

end
