(* ===== verification/FlowServiceFacts.thy ===== *)
theory FlowServiceFacts
  imports FlowService NodeTypes
begin

section \<open>The graph and its service over time\<close>

text \<open>
  How the streams of a graph connect its nodes; what a change of the configuration does to a running
  service; and what it does not do: a node that is created again keeps the actions of the first one,
  a configuration that failed is taken as done when it comes again, and two graphs can have one hash.
\<close>

subsection \<open>Streams\<close>

lemma publishers_fold:
  "fold (\<lambda>i m. m(i \<mapsto> f i)) nodes m j = (if j \<in> set nodes then Some (f j) else m j)"
  by (induction nodes arbitrary: m) auto

lemma createStream_Publish:
  "stream_Publish (createStream order i nodes down) d msg =
     (if d \<in> set nodes
      then Some (\<lparr>fk_NodeID = d, fk_Type = (if down then FlowEventUpstream else FlowEventDownstream)\<rparr>, msg) else None)"
  by (auto simp: createStream_def newFlowStream_def stream_Publish_def publishers_fold Let_def)

lemma createStream_Subscribe:
  "stream_Subscribe (createStream order i nodes down) =
     (if nodes = [] then None
      else Some [\<lparr>fk_NodeID = i, fk_Type = (if down then FlowEventDownstream else FlowEventUpstream)\<rparr>])"
  by (auto simp: createStream_def newFlowStream_def stream_Subscribe_def Let_def)

lemma createStream_Broadcast:
  assumes "range_order order"
  shows "\<exists>ids. distinct ids \<and> set ids = set nodes \<and>
    stream_Broadcast (createStream order i nodes down) msg =
      Some (map (\<lambda>d. (\<lparr>fk_NodeID = d, fk_Type = (if down then FlowEventUpstream else FlowEventDownstream)\<rparr>, msg)) ids)"
proof -
  let ?s = "createStream order i nodes down"
  let ?key = "\<lambda>d. \<lparr>fk_NodeID = d, fk_Type = (if down then FlowEventUpstream else FlowEventDownstream)\<rparr>"
  have dom: "dom (fs_publishers ?s) = set nodes"
    by (auto simp: createStream_def newFlowStream_def publishers_fold Let_def split: if_splits)
  have ids: "fs_nodeIDs ?s = order (fs_publishers ?s)"
    by (simp add: createStream_def newFlowStream_def Let_def)
  have loop: "broadcast_loop ?s l msg = Some (map (\<lambda>d. (?key d, msg)) l)" if "set l \<subseteq> set nodes" for l
    using that by (induction l) (auto simp: createStream_Publish)
  have set: "set (fs_nodeIDs ?s) = set nodes" and dist: "distinct (fs_nodeIDs ?s)"
    using assms dom by (simp_all add: range_order_def ids)
  show ?thesis
    using loop [of "fs_nodeIDs ?s"] set dist by (intro exI [of _ "fs_nodeIDs ?s"]) (simp add: stream_Broadcast_def)
qed

text \<open>The streams that \<open>Build\<close> gives a node of the builder.\<close>

definition up_stream :: "((string \<rightharpoonup> FlowEventKey) \<Rightarrow> string list) \<Rightarrow> ('h, 's, 'n) GraphBuilder \<Rightarrow> string \<Rightarrow> flowStream" where
  "up_stream order g i = createStream order i (edges_of (gb_edgesUp g) i) True"

definition down_stream :: "((string \<rightharpoonup> FlowEventKey) \<Rightarrow> string list) \<Rightarrow> ('h, 's, 'n) GraphBuilder \<Rightarrow> string \<Rightarrow> flowStream" where
  "down_stream order g i = createStream order i (edges_of (gb_edgesDown g) i) False"

text \<open>Edges are kept in both directions.\<close>

definition edges_both :: "('h, 's, 'n) GraphBuilder \<Rightarrow> bool" where
  "edges_both g \<longleftrightarrow> (\<forall>i d. d \<in> set (edges_of (gb_edgesDown g) i) \<longleftrightarrow> i \<in> set (edges_of (gb_edgesUp g) d))"

lemma edges_both_AddNode: "edges_both g \<Longrightarrow> edges_both (AddNode g t i to)"
  by (auto simp: edges_both_def AddNode_edges count_list_0_iff split: if_splits)

lemma edges_both_add_nodes: "edges_both g \<Longrightarrow> edges_both (add_nodes cfg g)"
  by (induction cfg arbitrary: g) (auto simp: edges_both_AddNode)

lemma edges_both_New: "edges_both (NewGraphBuilder reg)"
  by (simp add: edges_both_def NewGraphBuilder_def edges_of_def)

text \<open>
  What a node publishes to a downstream node has the one key that this node listens to, in both
  directions, and no other stream listens to it.
\<close>

lemma streams_connected:
  assumes "g = add_nodes cfg (NewGraphBuilder reg)" "d \<in> set (edges_of (gb_edgesDown g) i)"
  shows "\<exists>k. stream_Publish (down_stream order g i) d msg = Some (k, msg)
      \<and> stream_Subscribe (up_stream order g d) = Some [k]
      \<and> (\<forall>j. stream_Subscribe (up_stream order g j) = Some [k] \<longrightarrow> j = d)
      \<and> (\<forall>j. stream_Subscribe (down_stream order g j) \<noteq> Some [k])"
    and "\<exists>k. stream_Publish (up_stream order g d) i msg = Some (k, msg)
      \<and> stream_Subscribe (down_stream order g i) = Some [k]
      \<and> (\<forall>j. stream_Subscribe (down_stream order g j) = Some [k] \<longrightarrow> j = i)
      \<and> (\<forall>j. stream_Subscribe (up_stream order g j) \<noteq> Some [k])"
proof -
  have "edges_both g" using assms(1) by (simp add: edges_both_add_nodes edges_both_New)
  then have "i \<in> set (edges_of (gb_edgesUp g) d)" using assms(2) by (simp add: edges_both_def)
  then show "\<exists>k. stream_Publish (down_stream order g i) d msg = Some (k, msg)
      \<and> stream_Subscribe (up_stream order g d) = Some [k]
      \<and> (\<forall>j. stream_Subscribe (up_stream order g j) = Some [k] \<longrightarrow> j = d)
      \<and> (\<forall>j. stream_Subscribe (down_stream order g j) \<noteq> Some [k])"
    "\<exists>k. stream_Publish (up_stream order g d) i msg = Some (k, msg)
      \<and> stream_Subscribe (down_stream order g i) = Some [k]
      \<and> (\<forall>j. stream_Subscribe (down_stream order g j) = Some [k] \<longrightarrow> j = i)
      \<and> (\<forall>j. stream_Subscribe (up_stream order g j) \<noteq> Some [k])"
    using assms(2) by (auto simp: up_stream_def down_stream_def createStream_Publish createStream_Subscribe)
qed

subsection \<open>Creating and configuring nodes\<close>

text \<open>What the registrations of a node do not change.\<close>

definition shape :: "('h, 's, 'n) GraphBuilder \<Rightarrow> string list \<times> edges \<times> edges \<times> (string \<rightharpoonup> string)" where
  "shape g = (gb_nodeIDs g, gb_edgesDown g, gb_edgesUp g, gr_nodeTypes (gb_registry g))"

definition keeps_creators :: "('h, 's, 'n) GraphRegistry \<Rightarrow> ('h, 's, 'n) GraphRegistry \<Rightarrow> bool" where
  "keeps_creators r r' \<longleftrightarrow> gr_registry r' = gr_registry r \<and> gr_nodeTypes r' = gr_nodeTypes r
     \<and> (\<forall>i name. inner (gr_declarations r) i name \<noteq> None \<longrightarrow>
          inner (gr_declarations r') i name = inner (gr_declarations r) i name
          \<and> inner (gr_actions r') i name = inner (gr_actions r) i name
          \<and> inner (gr_signals r') i name = inner (gr_signals r) i name)"

lemma keeps_creators_refl [simp]: "keeps_creators r r"
  by (simp add: keeps_creators_def)

lemma keeps_creators_trans: "keeps_creators r s \<Longrightarrow> keeps_creators s t \<Longrightarrow> keeps_creators r t"
  by (simp add: keeps_creators_def)

lemma provider_register_keeps: "keeps_creators r (provider_register i c r)"
proof (cases "provider_register i c r = r")
  case False
  then have fresh: "inner (gr_declarations r) i (snd (reg_key c)) = None"
    using rejected_declared provider_register_rejected by blast
  show ?thesis
  proof (cases c)
    case (RegAction name f)
    with False obtain r' where "RegisterAction r i name f = Ret r'"
      by (auto simp: provider_register_def split: outcome.splits)
    from RegisterAction_RetD [OF this] this show ?thesis
      using fresh RegAction by (auto simp: provider_register_def keeps_creators_def)
  next
    case (RegSignal name f)
    with False obtain r' where "RegisterSignal r i name f = Ret r'"
      by (auto simp: provider_register_def split: outcome.splits)
    from RegisterSignal_RetD [OF this] this show ?thesis
      using fresh RegSignal by (auto simp: provider_register_def keeps_creators_def)
  qed
qed simp

lemma registrations_keep: "keeps_creators r (fold (provider_register i) cs r)"
  by (induction cs arbitrary: r) (auto intro: keeps_creators_trans provider_register_keeps)

lemma createNode_frame:
  assumes "createNode g i = (out, g')"
  shows "shape g' = shape g" "keeps_creators (gb_registry g) (gb_registry g')"
  using assms registrations_keep [of "gb_registry g" i]
  by (auto simp: createNode_def shape_def keeps_creators_def split: outcome.splits prod.splits)

lemma Graph_Configure_frame:
  assumes "Graph_Configure conf g i config = (out, g')"
  shows "shape (gg_builder g') = shape (gg_builder g)"
    "keeps_creators (gb_registry (gg_builder g)) (gb_registry (gg_builder g'))"
    "dom (gg_runners g') = dom (gg_runners g)"
    "dom (gg_configs g') = dom (gg_configs g) \<union> (if i \<in> dom (gg_runners g) then {i} else {})"
  using assms createNode_frame [of "gg_builder g" i]
  by (auto simp: Graph_Configure_def Let_def domIff split: option.splits if_splits prod.splits outcome.splits)

lemma initRunners_frame:
  "initRunners is g = Ret g' \<Longrightarrow> shape (gg_builder g') = shape (gg_builder g) \<and> gg_configs g' = gg_configs g
    \<and> dom (gg_runners g') = dom (gg_runners g) \<union> set is"
proof (induction "is" arbitrary: g)
  case (Cons i js)
  obtain out b where c: "createNode (gg_builder g) i = (out, b)" by fastforce
  with Cons.prems obtain node where "out = Ret node" by (cases out) auto
  then show ?case
    using Cons.IH [of "g\<lparr>gg_builder := b, gg_runners := (gg_runners g)(i \<mapsto> node)\<rparr>"] Cons.prems c createNode_frame [OF c]
    by auto
qed simp

lemma configure_nodes_frame:
  "configure_nodes conf cfg g = Ret g' \<Longrightarrow> nc_ID ` set cfg \<subseteq> dom (gg_runners g) \<Longrightarrow>
     shape (gg_builder g') = shape (gg_builder g) \<and> dom (gg_runners g') = dom (gg_runners g)
     \<and> dom (gg_configs g') = dom (gg_configs g) \<union> nc_ID ` set cfg"
proof (induction cfg arbitrary: g)
  case (Cons n ns)
  obtain out g1 where c: "Graph_Configure conf g (nc_ID n) (nc_Config n) = (out, g1)" by fastforce
  with Cons.prems(1) have "configure_nodes conf ns g1 = Ret g'" by (cases out) auto
  then show ?case using Cons.IH [of g1] Cons.prems(2) Graph_Configure_frame [OF c] by auto
qed simp

lemma reconfigure_nodes_frame:
  "reconfigure_nodes conf cfg g = Some g' \<Longrightarrow> dom (gg_configs g) = dom (gg_runners g) \<Longrightarrow>
     shape (gg_builder g') = shape (gg_builder g) \<and> dom (gg_runners g') = dom (gg_runners g)
     \<and> dom (gg_configs g') = dom (gg_runners g')"
proof (induction cfg arbitrary: g)
  case (Cons n ns)
  obtain out g1 where c: "Graph_Configure conf g (nc_ID n) (nc_Config n) = (out, g1)" by fastforce
  note f = Graph_Configure_frame [OF c]
  have "reconfigure_nodes conf ns g1 = Some g'" using Cons.prems(1) c by (cases out) auto
  moreover have "dom (gg_configs g1) = dom (gg_runners g1)" using f(3,4) Cons.prems(2) by auto
  ultimately show ?case using Cons.IH [of g1] f(1,3) by simp
qed simp

subsection \<open>The running graph\<close>

definition builder_of :: "('h, 's, 'n) Registry \<Rightarrow> 'c NodeConfig list \<Rightarrow> ('h, 's, 'n) GraphBuilder" where
  "builder_of reg cfg = add_nodes (config_nodes cfg) (NewGraphBuilder reg)"

lemma fold_AddNode:
  "fold (\<lambda>n g. AddNode g (nc_Type n) (nc_ID n) (nc_To n)) cfg g = add_nodes (config_nodes cfg) g"
  by (induction cfg arbitrary: g) (auto simp: config_nodes_def)

definition ids_of :: "'c NodeConfig list \<Rightarrow> string set" where
  "ids_of cfg = nc_ID ` set cfg"

text \<open>A graph for a configuration: validated, wired, with a node and a configuration for each entry.\<close>

definition graph_for :: "('h, 's, 'n) Registry \<Rightarrow> 'c NodeConfig list \<Rightarrow> ('h, 's, 'n, 'c) Graph \<Rightarrow> bool" where
  "graph_for reg cfg g \<longleftrightarrow> Validate (builder_of reg cfg) = Ret () \<and> shape (gg_builder g) = shape (builder_of reg cfg)
     \<and> dom (gg_runners g) = ids_of cfg \<and> dom (gg_configs g) = ids_of cfg"

lemma buildGraph_for:
  assumes "buildGraph conf reg cfg = Ret g"
  shows "graph_for reg cfg g"
proof -
  obtain g1 where v: "Validate (builder_of reg cfg) = Ret ()" and b: "Build (builder_of reg cfg) = Ret g1"
    and c: "configure_nodes conf cfg g1 = Ret g"
    using assms by (auto simp: buildGraph_def builder_of_def fold_AddNode Let_def obind_Ret_iff)
  have ids: "set (gb_nodeIDs (builder_of reg cfg)) = ids_of cfg"
    by (auto simp: builder_of_def add_nodes_ids NewGraphBuilder_def config_nodes_def ids_of_def image_comp)
  note i = initRunners_frame [OF b [unfolded Build_def]]
  have "nc_ID ` set cfg \<subseteq> dom (gg_runners g1)" using i ids by (simp add: ids_of_def)
  from configure_nodes_frame [OF c this] i v ids show ?thesis
    by (auto simp: graph_for_def ids_of_def)
qed

definition service_ok :: "(string \<Rightarrow> 64 word) \<Rightarrow> ('h, 's, 'n, 'c) Service \<Rightarrow> bool" where
  "service_ok xxhash s \<longleftrightarrow>
     (\<exists>cfg g. sv_graph s = Some g \<and> graph_for (sv_registry s) cfg g \<and> sv_graphHash s = treeHash xxhash cfg)"

lemma startGraph_ok:
  assumes "startGraph xxhash conf cfg s = Ret s'"
  shows "service_ok xxhash s'"
  using assms buildGraph_for [of conf "sv_registry s" cfg] by (fastforce simp: startGraph_def obind_Ret_iff service_ok_def)

lemma onConfigChange_ok:
  assumes "service_ok xxhash s" "onConfigChange xxhash conf input s = Some s'"
  shows "service_ok xxhash s'"
proof (cases input)
  case (Ret cfg)
  show ?thesis
  proof (cases "treeHash xxhash cfg = sv_graphHash s")
    case False
    then have "s' = s \<or> restartGraph xxhash conf cfg s = Ret s'"
      using assms(2) Ret by (auto simp: onConfigChange_def split: outcome.splits)
    then show ?thesis
      using assms(1) buildGraph_for [of conf "sv_registry s" cfg]
      by (fastforce simp: restartGraph_def obind_Ret_iff service_ok_def split: if_splits)
  next
    case True
    obtain c g where g: "sv_graph s = Some g" "graph_for (sv_registry s) c g" "sv_graphHash s = treeHash xxhash c"
      using assms(1) by (auto simp: service_ok_def)
    from assms(2) Ret True g(1) consider "s' = s"
      | g' where "reconfigure_nodes conf cfg g = Some g'" "s' = s\<lparr>sv_graph := Some g'\<rparr>"
      by (auto simp: onConfigChange_def split: if_splits)
    then show ?thesis
    proof cases
      case 2
      have "graph_for (sv_registry s) c g'"
        using g(2) reconfigure_nodes_frame [OF 2(1)] by (auto simp: graph_for_def)
      then show ?thesis using 2(2) g(3) by (auto simp: service_ok_def)
    qed (use assms(1) in simp)
  qed
qed (use assms in \<open>auto simp: onConfigChange_def\<close>)

definition service_run ::
  "(string \<Rightarrow> 64 word) \<Rightarrow> ('h, 's, 'n, 'c) configure \<Rightarrow> (string, 'c NodeConfig list) outcome list \<Rightarrow>
   ('h, 's, 'n, 'c) Service \<Rightarrow> ('h, 's, 'n, 'c) Service option" where
  "service_run xxhash conf files s = fold_opt (\<lambda>s input. onConfigChange xxhash conf input s) files s"

lemma service_run_ok:
  "service_ok xxhash s \<Longrightarrow> service_run xxhash conf files s = Some s' \<Longrightarrow> service_ok xxhash s'"
  unfolding service_run_def
  by (induction files arbitrary: s) (auto split: option.splits intro: onConfigChange_ok)

text \<open>A file that does not parse, and a graph that cannot be built, change nothing.\<close>

lemma onConfigChange_failed:
  assumes "treeHash xxhash cfg \<noteq> sv_graphHash s" "buildGraph conf (sv_registry s) cfg = Fail e"
  shows "onConfigChange xxhash conf (Ret cfg) s = Some s"
  using assms by (simp add: onConfigChange_def restartGraph_def)

subsection \<open>Failures and stale actions\<close>

text \<open>A configuration that failed is recorded, and counts as unchanged the next time.\<close>

lemma Configure_retry:
  assumes "gg_configs g i \<noteq> None" "Graph_Configure conf g i config = (Fail e, g')" "gg_runners g i \<noteq> None"
  shows "gg_runners g' = gg_runners g" "Graph_Configure conf g' i config = (Ret (), g')"
  using assms by (auto simp: Graph_Configure_def Let_def split: option.splits if_splits prod.splits outcome.splits)

text \<open>An action of a node that was replaced is still the action of the first node.\<close>

lemma Configure_keeps_actions:
  assumes "Graph_Configure conf g i config = (out, g')"
    and "ci_NodeID ident = Some n" "inner (gr_declarations (gb_registry (gg_builder g))) n (ci_Name ident) \<noteq> None"
  shows "action_creator (gb_registry (gg_builder g')) ident = action_creator (gb_registry (gg_builder g)) ident"
    "signal_creator (gb_registry (gg_builder g')) ident = signal_creator (gb_registry (gg_builder g)) ident"
proof -
  have "keeps_creators (gb_registry (gg_builder g)) (gb_registry (gg_builder g'))"
    using Graph_Configure_frame [OF assms(1)] by simp
  moreover obtain d where d: "inner (gr_declarations (gb_registry (gg_builder g))) n (ci_Name ident) = Some d"
    using assms(3) by auto
  ultimately have "inner (gr_declarations (gb_registry (gg_builder g'))) n (ci_Name ident) = Some d"
      "inner (gr_actions (gb_registry (gg_builder g'))) n (ci_Name ident) = inner (gr_actions (gb_registry (gg_builder g))) n (ci_Name ident)"
      "inner (gr_signals (gb_registry (gg_builder g'))) n (ci_Name ident) = inner (gr_signals (gb_registry (gg_builder g))) n (ci_Name ident)"
    by (simp_all add: keeps_creators_def)
  then show "action_creator (gb_registry (gg_builder g')) ident = action_creator (gb_registry (gg_builder g)) ident"
    "signal_creator (gb_registry (gg_builder g')) ident = signal_creator (gb_registry (gg_builder g)) ident"
    using assms(2) d by (simp_all add: action_creator_def signal_creator_def split: option.split)
qed

end
