(* ===== verification/ConfigService.thy ===== *)
theory ConfigService
  imports Prelude
begin

section \<open>The configuration service (internal/configsvc/config_service.go)\<close>

text \<open>
  The service reads YAML files and tells its subscribers when one of them was written. The file system is
  a map from absolute paths to contents. Decoding is a parameter: \<open>yaml d b\<close> is what the library makes of
  the bytes \<open>b\<close> when it decodes into the default \<open>d\<close>. \<open>filepath.Abs\<close> and adding a directory to the
  watcher may fail, as \<open>abs_path\<close> and \<open>watch\<close> say. An error is kept with what it wraps, because the
  code asks for the cause of one.
\<close>

subsection \<open>Errors\<close>

datatype go_error = NotExist | OtherError string | Wrapped string go_error

text \<open>\<open>os.IsNotExist\<close> looks at the error itself, not at what \<open>fmt.Errorf\<close> has wrapped.\<close>

definition os_IsNotExist :: "go_error \<Rightarrow> bool" where
  "os_IsNotExist e = (e = NotExist)"

subsection \<open>Files\<close>

type_synonym files = "string \<rightharpoonup> u8 list"

definition os_ReadFile :: "files \<Rightarrow> string \<Rightarrow> (go_error, u8 list) outcome" where
  "os_ReadFile fs path = (case fs path of None \<Rightarrow> Fail NotExist | Some b \<Rightarrow> Ret b)"

definition readConfig :: "('c \<Rightarrow> u8 list \<Rightarrow> 'c option) \<Rightarrow> files \<Rightarrow> string \<Rightarrow> 'c \<Rightarrow> (go_error, 'c) outcome" where
  "readConfig yaml fs path d =
     (case os_ReadFile fs path of
        Fail e \<Rightarrow> Fail (Wrapped ''failed to read config file'' e)
      | Panic \<Rightarrow> Panic
      | Ret yamlB \<Rightarrow>
          (case yaml d yamlB of
             None \<Rightarrow> Fail (Wrapped ''failed to unmarshal YAML'' (OtherError ''yaml''))
           | Some config \<Rightarrow> Ret config))"

text \<open>\<open>encode\<close> is the way over JSON to YAML, \<open>writable\<close> the paths that can be written.\<close>

definition writeConfig ::
  "('c \<Rightarrow> u8 list option) \<Rightarrow> (string \<Rightarrow> bool) \<Rightarrow> files \<Rightarrow> string \<Rightarrow> 'c \<Rightarrow> (go_error, files) outcome" where
  "writeConfig encode writable fs path config =
     (case encode config of
        None \<Rightarrow> Fail (Wrapped ''failed to marshal config'' (OtherError ''json''))
      | Some yamlB \<Rightarrow>
          if writable path then Ret (fs(path \<mapsto> yamlB))
          else Fail (Wrapped ''failed to write config file'' (OtherError ''permission denied'')))"

subsection \<open>Subscriptions\<close>

datatype fs_op = FsCreate | FsWrite | FsRemove | FsRename | FsChmod

record fs_event =
  fse_Name :: string
  fse_Ops :: "fs_op list"

record 'c subscription =
  sb_path :: string
  sb_def :: 'c

text \<open>
  \<open>cs_watcher\<close> says that the service has started and has a watcher; \<open>cs_called\<close> are the calls of the
  functions that the subscribers gave, by the number of the subscriber.
\<close>

record 'c config_service =
  cs_watcher :: bool
  cs_subscribers :: "'c subscription list"
  cs_called :: "(nat \<times> (go_error, 'c) outcome) list"

definition NewConfigService :: "'c config_service" where
  "NewConfigService = \<lparr>cs_watcher = False, cs_subscribers = [], cs_called = []\<rparr>"

definition Register ::
  "('c \<Rightarrow> u8 list \<Rightarrow> 'c option) \<Rightarrow> (string \<Rightarrow> string option) \<Rightarrow> (string \<Rightarrow> bool) \<Rightarrow> files \<Rightarrow> string \<Rightarrow> 'c \<Rightarrow> 'c config_service
     \<Rightarrow> (go_error, 'c \<times> 'c config_service) outcome" where
  "Register yaml abs_path watch fs path d s =
     (case abs_path path of
        None \<Rightarrow> Fail (Wrapped ''failed to get absolute path'' (OtherError ''getwd''))
      | Some absPath \<Rightarrow>
          (case readConfig yaml fs absPath d of
             Fail e \<Rightarrow> Fail (Wrapped ''failed to read config'' e)
           | Panic \<Rightarrow> Panic
           | Ret config \<Rightarrow>
               if \<not> cs_watcher s then Panic
               else if \<not> watch absPath then Fail (Wrapped ''failed to add path to watcher'' (OtherError ''inotify''))
               else Ret (config, s\<lparr>cs_subscribers := cs_subscribers s @ [\<lparr>sb_path = absPath, sb_def = d\<rparr>]\<rparr>)))"

definition RegisterWriteable ::
  "('c \<Rightarrow> u8 list \<Rightarrow> 'c option) \<Rightarrow> ('c \<Rightarrow> u8 list option) \<Rightarrow> (string \<Rightarrow> bool) \<Rightarrow> (string \<Rightarrow> string option) \<Rightarrow> files \<Rightarrow> string \<Rightarrow> 'c
     \<Rightarrow> (go_error, 'c \<times> files) outcome" where
  "RegisterWriteable yaml encode writable abs_path fs path d =
     (case abs_path path of
        None \<Rightarrow> Fail (Wrapped ''failed to get absolute path'' (OtherError ''getwd''))
      | Some absPath \<Rightarrow>
          (case readConfig yaml fs absPath d of
             Ret config \<Rightarrow> Ret (config, fs)
           | Panic \<Rightarrow> Panic
           | Fail e \<Rightarrow>
               if os_IsNotExist e then
                 (case writeConfig encode writable fs absPath d of
                    Fail e \<Rightarrow> Fail (Wrapped ''failed to initialize config'' e)
                  | Panic \<Rightarrow> Panic
                  | Ret fs \<Rightarrow> Ret (d, fs))
               else Fail (Wrapped ''failed to read config'' e)))"

text \<open>An event of the watcher goes to every subscriber; the file is read when the event is handled.\<close>

definition concerns :: "fs_event \<Rightarrow> string \<Rightarrow> bool" where
  "concerns e path \<longleftrightarrow> fse_Name e = path \<and> (FsWrite \<in> set (fse_Ops e) \<or> FsCreate \<in> set (fse_Ops e))"

definition notify :: "('c \<Rightarrow> u8 list \<Rightarrow> 'c option) \<Rightarrow> files \<Rightarrow> fs_event \<Rightarrow> nat \<times> 'c subscription \<Rightarrow> (nat \<times> (go_error, 'c) outcome) list" where
  "notify yaml fs e = (\<lambda>(i, sub). if concerns e (sb_path sub) then [(i, readConfig yaml fs (sb_path sub) (sb_def sub))] else [])"

definition watcher_event :: "('c \<Rightarrow> u8 list \<Rightarrow> 'c option) \<Rightarrow> files \<times> fs_event \<Rightarrow> 'c config_service \<Rightarrow> 'c config_service" where
  "watcher_event yaml fe s =
     s\<lparr>cs_called := cs_called s @ concat (map (notify yaml (fst fe) (snd fe)) (List.enumerate 0 (cs_subscribers s)))\<rparr>"

definition config_Start :: "('c \<Rightarrow> u8 list \<Rightarrow> 'c option) \<Rightarrow> (files \<times> fs_event) list \<Rightarrow> 'c config_service \<Rightarrow> 'c config_service" where
  "config_Start yaml events s = fold (watcher_event yaml) events (s\<lparr>cs_watcher := True\<rparr>)"

subsection \<open>What a subscriber is told\<close>

definition told :: "'c config_service \<Rightarrow> nat \<Rightarrow> (go_error, 'c) outcome list" where
  "told s i = map snd (filter (\<lambda>c. fst c = i) (cs_called s))"

text \<open>
  A subscriber is told the content of its file at each event that concerns it, decoded into its default
  and not into what it was told before.
\<close>

lemma told_event:
  assumes "i < length (cs_subscribers s)"
  shows "told (watcher_event yaml (fs, e) s) i = told s i @
    (if concerns e (sb_path (cs_subscribers s ! i))
     then [readConfig yaml fs (sb_path (cs_subscribers s ! i)) (sb_def (cs_subscribers s ! i))] else [])"
proof -
  have "map snd (filter (\<lambda>c. fst c = i) (concat (map (notify yaml fs e) (List.enumerate n xs)))) =
      (if n \<le> i \<and> i < n + length xs \<and> concerns e (sb_path (xs ! (i - n)))
       then [readConfig yaml fs (sb_path (xs ! (i - n))) (sb_def (xs ! (i - n)))] else [])" for n xs
  proof (induction xs arbitrary: n)
    case (Cons x xs)
    show ?case
    proof (cases "i = n")
      case True
      then show ?thesis using Cons [of "Suc n"] by (simp add: notify_def)
    next
      case False
      have "(x # xs) ! (i - n) = xs ! (i - Suc n)" if "n < i" using that by (simp add: nth_Cons')
      then show ?thesis using False Cons [of "Suc n"] by (auto simp: notify_def)
    qed
  qed simp
  from this [of 0 "cs_subscribers s"] assms show ?thesis by (simp add: told_def watcher_event_def)
qed

lemma subscribers_kept: "cs_subscribers (fold (watcher_event yaml) events s) = cs_subscribers s"
  by (induction events arbitrary: s) (simp_all add: watcher_event_def)

lemma told_events:
  "i < length (cs_subscribers s) \<Longrightarrow> told (fold (watcher_event yaml) events s) i = told s i @
     map (\<lambda>(fs, e). readConfig yaml fs (sb_path (cs_subscribers s ! i)) (sb_def (cs_subscribers s ! i)))
       (filter (\<lambda>(fs, e). concerns e (sb_path (cs_subscribers s ! i))) events)"
proof (induction events arbitrary: s)
  case (Cons fe events)
  obtain fs e where fe: "fe = (fs, e)" by fastforce
  have "cs_subscribers (watcher_event yaml fe s) = cs_subscribers s" by (simp add: watcher_event_def)
  then show ?case using Cons.IH [of "watcher_event yaml fe s"] told_event [OF Cons.prems] Cons.prems by (auto simp: fe)
qed simp

text \<open>A missing file is never created: the error that says so is wrapped before it is looked at.\<close>

lemma missing_file_not_created:
  assumes "abs_path path = Some absPath" "fs absPath = None"
  shows "RegisterWriteable yaml encode writable abs_path fs path d =
    Fail (Wrapped ''failed to read config'' (Wrapped ''failed to read config file'' NotExist))"
  using assms by (simp add: RegisterWriteable_def readConfig_def os_ReadFile_def os_IsNotExist_def)

end
