(* ===== verification/FlowFiles.thy ===== *)
theory FlowFiles
  imports FlowServiceFacts ConfigService "HOL-Library.Char_ord" "HOL-Library.List_Lexorder"
begin

section \<open>The flow service and its configuration file (internal/flowsvc)\<close>

text \<open>
  How an entry of the file becomes a node configuration, how the service starts, and the service together
  with the configuration service: whatever is written to the file, the running graph is that of the last
  configuration in it that differed from the one before and could be built.
\<close>

subsection \<open>An entry of the file (flow_config.go)\<close>

text \<open>
  An entry is a YAML map with \<open>id\<close>, \<open>to\<close> and one key that is the type of the node. The library decodes
  the two fields (\<open>idStruct\<close>) and the whole map (\<open>mm\<close>); the code takes the first key it meets when it
  ranges over what is left.
\<close>

definition NodeConfig_UnmarshalYAML ::
  "((string \<rightharpoonup> 'v) \<Rightarrow> string list) \<Rightarrow> ('v \<Rightarrow> 'c option) \<Rightarrow> (string \<times> string list) option \<Rightarrow> (string \<rightharpoonup> 'v) option
     \<Rightarrow> (string, 'c NodeConfig) outcome" where
  "NodeConfig_UnmarshalYAML order marshal idStruct mm =
     (case idStruct of
        None \<Rightarrow> Fail ''error unmarshalling idStruct''
      | Some (i, to) \<Rightarrow>
          (case mm of
             None \<Rightarrow> Fail ''error unmarshalling node map''
           | Some mm \<Rightarrow>
               let mm = mm(''id'' := None, ''to'' := None)
               in (case order mm of
                     [] \<Rightarrow> Fail ''missing type in node config''
                   | key # _ \<Rightarrow>
                       (case marshal (the (mm key)) of
                          None \<Rightarrow> Fail ''error marshalling config''
                        | Some cfg \<Rightarrow> Ret \<lparr>nc_ID = i, nc_Type = key, nc_To = to, nc_Config = cfg\<rparr>))))"

text \<open>With one type the result does not depend on the order of the map. With two it does.\<close>

lemma one_type:
  assumes "range_order order" "dom mm \<subseteq> {''id'', ''to'', t}" "t \<notin> {''id'', ''to''}" "mm t = Some v" "marshal v = Some c"
  shows "NodeConfig_UnmarshalYAML order marshal (Some (i, to)) (Some mm) = Ret \<lparr>nc_ID = i, nc_Type = t, nc_To = to, nc_Config = c\<rparr>"
proof -
  let ?m = "mm(''id'' := None, ''to'' := None)"
  have "dom ?m = {t}" using assms(2-4) by auto
  then have "distinct (order ?m) \<and> set (order ?m) = {t}" using assms(1) by (simp add: range_order_def)
  then have "order ?m = [t]"
    by (cases "order ?m"; cases "tl (order ?m)") auto
  then show ?thesis using assms(3-5) by (simp add: NodeConfig_UnmarshalYAML_def Let_def)
qed

lemma two_types:
  fixes mm :: "string \<rightharpoonup> 'v"
  assumes "t \<noteq> u" "{t, u} \<inter> {''id'', ''to''} = {}" "mm = [t \<mapsto> v, u \<mapsto> w]" "marshal v = Some c" "marshal w = Some d"
  shows "\<exists>order order'. range_order order \<and> range_order order'
    \<and> NodeConfig_UnmarshalYAML order marshal (Some (i, to)) (Some mm) = Ret \<lparr>nc_ID = i, nc_Type = t, nc_To = to, nc_Config = c\<rparr>
    \<and> NodeConfig_UnmarshalYAML order' marshal (Some (i, to)) (Some mm) = Ret \<lparr>nc_ID = i, nc_Type = u, nc_To = to, nc_Config = d\<rparr>"
proof -
  let ?first = "\<lambda>x m. if m x = None then sorted_list_of_set (dom m) else x # sorted_list_of_set (dom m - {x})"
  have "range_order (?first x :: (string \<rightharpoonup> 'v) \<Rightarrow> string list)" for x
    by (auto simp: range_order_def domIff)
  moreover have "mm(''id'' := None, ''to'' := None) = mm" using assms(2,3) by (auto simp: fun_eq_iff)
  moreover have "mm t = Some v" "mm u = Some w" using assms(1,3) by simp_all
  ultimately show ?thesis using assms(4,5)
    by (intro exI [of _ "?first t"] exI [of _ "?first u"]) (simp add: NodeConfig_UnmarshalYAML_def)
qed

subsection \<open>Starting (flow_service.go)\<close>

definition flow_Start ::
  "('c NodeConfig list \<Rightarrow> u8 list \<Rightarrow> 'c NodeConfig list option) \<Rightarrow> (string \<Rightarrow> string option) \<Rightarrow> (string \<Rightarrow> bool) \<Rightarrow> (string \<Rightarrow> 64 word)
     \<Rightarrow> ('h, 's, 'n, 'c) configure \<Rightarrow> files \<Rightarrow> string \<Rightarrow> 'c NodeConfig list config_service \<Rightarrow> ('h, 's, 'n, 'c) Service
     \<Rightarrow> (string, 'c NodeConfig list config_service \<times> ('h, 's, 'n, 'c) Service) outcome" where
  "flow_Start yaml abs_path watch xxhash conf fs flowPath cs s =
     (case Register yaml abs_path watch fs flowPath [] cs of
        Fail e \<Rightarrow> Fail ''failed to register flow config''
      | Panic \<Rightarrow> Panic
      | Ret (cfg, cs) \<Rightarrow>
          (case startGraph xxhash conf cfg s of
             Fail e \<Rightarrow> Fail ''failed to compile flow''
           | Panic \<Rightarrow> Panic
           | Ret s \<Rightarrow> Ret (cs, s)))"

text \<open>What the watcher tells subscriber \<open>i\<close> is handled by \<open>onConfigChange\<close>.\<close>

definition flow_input :: "(go_error, 'c) outcome \<Rightarrow> (string, 'c) outcome" where
  "flow_input r = (case r of Ret c \<Rightarrow> Ret c | Fail e \<Rightarrow> Fail ''failed to parse config'' | Panic \<Rightarrow> Panic)"

definition flow_watch ::
  "('c NodeConfig list \<Rightarrow> u8 list \<Rightarrow> 'c NodeConfig list option) \<Rightarrow> (string \<Rightarrow> 64 word) \<Rightarrow> ('h, 's, 'n, 'c) configure \<Rightarrow> nat
     \<Rightarrow> 'c NodeConfig list config_service \<times> ('h, 's, 'n, 'c) Service \<Rightarrow> files \<times> fs_event
     \<Rightarrow> ('c NodeConfig list config_service \<times> ('h, 's, 'n, 'c) Service) option" where
  "flow_watch yaml xxhash conf i = (\<lambda>(cs, s) fe.
     let cs' = watcher_event yaml fe cs
     in map_option (Pair cs') (service_run xxhash conf (map flow_input (drop (length (told cs i)) (told cs' i))) s))"

subsection \<open>The last configuration that could be built\<close>

fun last_built ::
  "(string \<Rightarrow> 64 word) \<Rightarrow> ('h, 's, 'n, 'c) configure \<Rightarrow> ('h, 's, 'n) Registry \<Rightarrow> 'c NodeConfig list
     \<Rightarrow> (string, 'c NodeConfig list) outcome list \<Rightarrow> 'c NodeConfig list" where
  "last_built xxhash conf reg cur [] = cur"
| "last_built xxhash conf reg cur (input # inputs) =
     last_built xxhash conf reg
       (case input of
          Ret cfg \<Rightarrow>
            if treeHash xxhash cfg \<noteq> treeHash xxhash cur then (case buildGraph conf reg cfg of Ret g \<Rightarrow> cfg | _ \<Rightarrow> cur) else cur
        | _ \<Rightarrow> cur) inputs"

definition service_runs :: "(string \<Rightarrow> 64 word) \<Rightarrow> ('h, 's, 'n) Registry \<Rightarrow> 'c NodeConfig list \<Rightarrow> ('h, 's, 'n, 'c) Service \<Rightarrow> bool" where
  "service_runs xxhash reg cfg s \<longleftrightarrow> sv_registry s = reg \<and> sv_graphHash s = treeHash xxhash cfg \<and> (\<exists>g. sv_graph s = Some g \<and> graph_for reg cfg g)"

lemma runs_start: "startGraph xxhash conf cfg s = Ret s' \<Longrightarrow> service_runs xxhash (sv_registry s) cfg s'"
  using buildGraph_for [of conf "sv_registry s" cfg] by (fastforce simp: startGraph_def obind_Ret_iff service_runs_def)

lemma runs_change:
  assumes "service_runs xxhash reg cur s" "onConfigChange xxhash conf input s = Some s'"
  shows "service_runs xxhash reg (last_built xxhash conf reg cur [input]) s'"
proof (cases input)
  case (Ret cfg)
  obtain g where s: "sv_registry s = reg" "sv_graphHash s = treeHash xxhash cur" "sv_graph s = Some g" "graph_for reg cur g"
    using assms(1) by (auto simp: service_runs_def)
  show ?thesis
  proof (cases "treeHash xxhash cfg = treeHash xxhash cur")
    case True
    with assms(2) Ret s consider "s' = s" | g' where "reconfigure_nodes conf cfg g = Some g'" "s' = s\<lparr>sv_graph := Some g'\<rparr>"
      by (auto simp: onConfigChange_def split: if_splits)
    then show ?thesis
    proof cases
      case 2
      have "graph_for reg cur g'" using s(4) reconfigure_nodes_frame [OF 2(1)] by (auto simp: graph_for_def)
      then show ?thesis using 2(2) s Ret True by (simp add: service_runs_def)
    qed (use assms(1) Ret True in simp)
  next
    case False
    then show ?thesis
      using assms Ret s buildGraph_for [of conf reg cfg]
      by (cases "buildGraph conf reg cfg") (auto simp: onConfigChange_def restartGraph_def service_runs_def)
  qed
qed (use assms in \<open>auto simp: onConfigChange_def\<close>)

lemma runs_inputs:
  "service_runs xxhash reg cur s \<Longrightarrow> service_run xxhash conf inputs s = Some s' \<Longrightarrow> service_runs xxhash reg (last_built xxhash conf reg cur inputs) s'"
  unfolding service_run_def
proof (induction inputs arbitrary: cur s)
  case (Cons input inputs)
  obtain s1 where s1: "onConfigChange xxhash conf input s = Some s1" "fold_opt (\<lambda>s input. onConfigChange xxhash conf input s) inputs s1 = Some s'"
    using Cons.prems(2) by (auto split: option.splits)
  from Cons.IH [OF runs_change [OF Cons.prems(1) s1(1)] s1(2)] show ?case by simp
qed simp

lemma last_built_append:
  "last_built xxhash conf reg cur (xs @ ys) = last_built xxhash conf reg (last_built xxhash conf reg cur xs) ys"
  by (induction xs arbitrary: cur) simp_all

subsection \<open>The service follows its file\<close>

lemma flow_watch_runs:
  assumes "i < length (cs_subscribers cs)" "service_runs xxhash reg cur s"
    and "fold_opt (flow_watch yaml xxhash conf i) events (cs, s) = Some (cs', s')"
  shows "service_runs xxhash reg (last_built xxhash conf reg cur (map flow_input (drop (length (told cs i)) (told (fold (watcher_event yaml) events cs) i)))) s'"
  using assms
proof (induction events arbitrary: cs s cur)
  case Nil
  then show ?case by simp
next
  case (Cons fe events)
  let ?cs = "watcher_event yaml fe cs"
  obtain fs e where fe: "fe = (fs, e)" by fastforce
  obtain new where new: "told ?cs i = told cs i @ new" using told_event [OF Cons.prems(1)] fe by auto
  obtain s1 where s1: "service_run xxhash conf (map flow_input new) s = Some s1"
    "fold_opt (flow_watch yaml xxhash conf i) events (?cs, s1) = Some (cs', s')"
    using Cons.prems(3) new by (auto simp: flow_watch_def Let_def split: option.splits)
  have kept: "i < length (cs_subscribers ?cs)" using Cons.prems(1) by (simp add: watcher_event_def)
  obtain later where later: "told (fold (watcher_event yaml) events ?cs) i = told ?cs i @ later"
    using told_events [OF kept] by blast
  from Cons.IH [OF kept runs_inputs [OF Cons.prems(2) s1(1)] s1(2)]
  show ?case using new later by (simp add: last_built_append)
qed

lemma flow_follows_events:
  assumes "flow_Start yaml abs_path watch xxhash conf fs0 flowPath cs0 s0 = Ret (cs, s)"
    and "fold_opt (flow_watch yaml xxhash conf (length (cs_subscribers cs0))) events (cs, s) = Some (cs', s')"
    and "told cs0 (length (cs_subscribers cs0)) = []"
  shows "\<exists>path cfg0. abs_path flowPath = Some path \<and> readConfig yaml fs0 path [] = Ret cfg0
    \<and> service_runs xxhash (sv_registry s0)
        (last_built xxhash conf (sv_registry s0) cfg0
          (map (\<lambda>(fs, e). flow_input (readConfig yaml fs path [])) (filter (\<lambda>(fs, e). concerns e path) events))) s'"
proof -
  obtain path cfg0 where r: "abs_path flowPath = Some path" "readConfig yaml fs0 path [] = Ret cfg0"
    "cs = cs0\<lparr>cs_subscribers := cs_subscribers cs0 @ [\<lparr>sb_path = path, sb_def = []\<rparr>]\<rparr>" "startGraph xxhash conf cfg0 s0 = Ret s"
    using assms(1) by (auto simp: flow_Start_def Register_def split: outcome.splits option.splits if_splits)
  let ?i = "length (cs_subscribers cs0)"
  have i: "?i < length (cs_subscribers cs)" "cs_subscribers cs ! ?i = \<lparr>sb_path = path, sb_def = []\<rparr>" using r(3) by simp_all
  have "told cs ?i = []" using assms(3) r(3) by (simp add: told_def)
  then have "told (fold (watcher_event yaml) events cs) ?i =
      map (\<lambda>(fs, e). readConfig yaml fs path []) (filter (\<lambda>(fs, e). concerns e path) events)"
    using told_events [OF i(1)] i(2) by simp
  with flow_watch_runs [OF i(1) runs_start [OF r(4)] assms(2)] \<open>told cs ?i = []\<close> show ?thesis
    using r(1,2) by (auto simp: comp_def case_prod_unfold)
qed

end
