(* ===== verification/FlowProperties.thy ===== *)
theory FlowProperties
  imports FlowServiceFacts FlowFiles
begin

section \<open>Properties of statements, graphs and the flow service (flowapi, internal/flowsvc)\<close>

text \<open>
  What checked declarations and arguments give an action, what a validated graph is, and what the
  service keeps over changes of its configuration. The witnesses use graphs of the built-in nodes.
\<close>

subsection \<open>Arguments\<close>


definition route_parameter :: Parameter where
  "route_parameter = \<lparr>p_Name = ''route'', p_Type = ''string'', p_Default = None\<rparr>"



text \<open>
  Checking arguments panics only where a parameter of type string, number or boolean is given something
  that is not a literal, such as an action; then it does not return an error.
\<close>

lemma arguments_panic:
  assumes "NewArguments ps args = Panic"
  shows "\<exists>i < length ps. i < length args \<and> p_Type (ps ! i) \<in> {''string'', ''number'', ''boolean''} \<and> a_Value (args ! i) = None"
  by (rule NewArguments_Panic [OF assms])

lemma arguments_panic_witness:
  "NewArguments [route_parameter] [Argument None (Some (ExpressionStatement ''none'' [])) None None] = Panic
     \<and> a_Value (Argument None (Some (ExpressionStatement ''none'' [])) None None) = None"
proof -
  have p: "NewArguments [route_parameter] [Argument None (Some (ExpressionStatement ''none'' [])) None None] = Panic"
    by (simp add: NewArguments_def route_parameter_def argument_ok_def)
  from arguments_panic [OF p] p show ?thesis by auto
qed

subsection \<open>Graphs\<close>

text \<open>
  C27. The search for cycles from a node ends, and it succeeds exactly when no node that is reachable from there
  lies on a cycle.
\<close>

theorem cycles_are_found:
  "validateCycles es i [] = Ret () \<longleftrightarrow> (\<forall>x. (i, x) \<in> (edge_rel es)\<^sup>* \<longrightarrow> (x, x) \<notin> (edge_rel es)\<^sup>+)"
  by (simp add: validateCycles_iff cycle_free_def)

lemma cycles_are_found_witness: "validateCycles [(''a'', [''b'']), (''b'', [''b''])] ''a'' [] \<noteq> Ret ()"
proof -
  let ?es = "[(''a'', [''b'']), (''b'', [''b''])]"
  have e: "(''a'', ''b'') \<in> edge_rel ?es" "(''b'', ''b'') \<in> edge_rel ?es" by (simp_all add: edge_rel_def edges_of_def)
  then show ?thesis using cycles_are_found [of ?es "''a''"] by blast
qed

text \<open>
  C26. A graph that passes validation: the identifiers are distinct, every edge joins two nodes of the
  configuration, some node has no upstream, and nothing that such a node reaches lies on a cycle.
\<close>

theorem valid_graph:
  assumes "Validate (add_nodes cfg (NewGraphBuilder reg)) = Ret ()"
  shows "distinct (map fst cfg) \<and> (\<forall>(i, d) \<in> set (cfg_edges cfg). i \<in> fst ` set cfg \<and> d \<in> fst ` set cfg)
    \<and> (\<exists>i \<in> fst ` set cfg. \<forall>j. (j, i) \<notin> set (cfg_edges cfg))
    \<and> (\<forall>i \<in> fst ` set cfg. (\<forall>j. (j, i) \<notin> set (cfg_edges cfg)) \<longrightarrow>
         (\<forall>x. (i, x) \<in> (set (cfg_edges cfg))\<^sup>* \<longrightarrow> (x, x) \<notin> (set (cfg_edges cfg))\<^sup>+))"
  using Validate_graph [OF assms] by (intro conjI) assumption+

definition sample_registry :: "(nat GoHandler, nat SignalHandler, nat Node) Registry" where
  "sample_registry = \<lparr>rg_nodes = builtin_nodes (\<lambda>i s w. w), rg_actions = Map.empty\<rparr>"

definition two_nodes :: "(string \<times> string \<times> string list) list" where
  "two_nodes = [(''kbd'', ''input'', [''out'']), (''out'', ''output'', [])]"

lemmas graph_eval = Validate_def AddNode_def NewGraphBuilder_def add_edge_def edges_of_def entryNodeIDs_def NewNode_def GetNode_def
  registry_Get_def sample_registry_def builtin_nodes_def plain_registration_def upstream_ok_def downstream_ok_def
  InputNodeType_Descriptor_def OutputNodeType_Descriptor_def validateCycles.simps Let_def List.insert_def

lemma two_nodes_valid: "Validate (add_nodes two_nodes (NewGraphBuilder sample_registry)) = Ret ()"
  by (simp add: two_nodes_def graph_eval)

lemma valid_graph_witness:
  "\<exists>i \<in> fst ` set two_nodes. \<forall>j. (j, i) \<notin> set (cfg_edges two_nodes)"
  using valid_graph [OF two_nodes_valid] by blast



subsection \<open>The service\<close>

text \<open>
  Once a graph has started, and whatever configuration files arrive, valid or not, as long as nothing
  panics: the service runs the graph of a configuration that passed validation, with a node and a
  configuration for each of its entries, and remembers the hash of that configuration.
\<close>

lemma service_runs_valid_graph:
  assumes "startGraph xxhash conf cfg0 s0 = Ret s" "service_run xxhash conf files s = Some s'"
  shows "\<exists>cfg g. sv_graph s' = Some g \<and> graph_for (sv_registry s') cfg g \<and> sv_graphHash s' = treeHash xxhash cfg"
  using service_run_ok [OF startGraph_ok [OF assms(1)] assms(2)] by (simp add: service_ok_def)

definition entry :: "string \<Rightarrow> string \<Rightarrow> string list \<Rightarrow> nat \<Rightarrow> nat NodeConfig" where
  "entry i t to c = \<lparr>nc_ID = i, nc_Type = t, nc_To = to, nc_Config = c\<rparr>"

definition accepts :: "(nat GoHandler, nat SignalHandler, nat Node, nat) configure" where
  "accepts = (\<lambda>r c n. (if c = 0 then Fail ''invalid config'' else Ret (), n))"

definition two_entries :: "nat \<Rightarrow> nat NodeConfig list" where
  "two_entries c = [entry ''kbd'' ''input'' [''out''] 1, entry ''out'' ''output'' [] c]"

definition no_graph :: "(nat GoHandler, nat SignalHandler, nat Node, nat) Service" where
  "no_graph = \<lparr>sv_registry = sample_registry, sv_graph = None, sv_graphHash = 0\<rparr>"

lemmas build_eval = buildGraph_def Build_def createNode_def InputNodeType_CreateNode_def OutputNodeType_CreateNode_def
  Graph_Configure_def accepts_def entry_def graph_eval

lemma two_entries_build:
  "\<exists>g. buildGraph accepts sample_registry (two_entries 1) = Ret g \<and> gg_runners g ''out'' \<noteq> None \<and> gg_configs g ''out'' = Some 1
     \<and> gr_nodeTypes (gb_registry (gg_builder g)) ''out'' = Some ''output'' \<and> gr_registry (gb_registry (gg_builder g)) = sample_registry"
  by (simp add: two_entries_def build_eval)

lemma service_runs_valid_graph_witness:
  "\<exists>s s' g. startGraph (\<lambda>_. 1) accepts (two_entries 1) no_graph = Ret s
     \<and> service_run (\<lambda>_. 1) accepts [Fail ''not YAML''] s = Some s' \<and> sv_graph s' = Some g"
proof -
  obtain s where s: "startGraph (\<lambda>_. 1) accepts (two_entries 1) no_graph = Ret s"
    using two_entries_build by (auto simp: startGraph_def no_graph_def)
  have r: "service_run (\<lambda>_. 1) accepts [Fail ''not YAML''] s = Some s" by (simp add: service_run_def onConfigChange_def)
  from service_runs_valid_graph [OF s r] s r show ?thesis by blast
qed





text \<open>
  A configuration that cannot be parsed, or whose graph cannot be built, changes nothing: the service keeps
  running the graph it has.
\<close>

lemma bad_configuration_ignored:
  assumes "file = Fail e \<or> (\<exists>cfg. file = Ret cfg \<and> treeHash xxhash cfg \<noteq> sv_graphHash s \<and> buildGraph conf (sv_registry s) cfg = Fail e)"
  shows "onConfigChange xxhash conf file s = Some s"
  using assms onConfigChange_failed by (auto simp: onConfigChange_def restartGraph_def)

lemma bad_configuration_ignored_witness: "onConfigChange (\<lambda>_. 1) accepts (Ret []) no_graph = Some no_graph"
proof -
  have "buildGraph accepts (sv_registry no_graph) [] = Fail ''no nodes''"
    by (simp add: buildGraph_def Validate_def NewGraphBuilder_def no_graph_def)
  then show ?thesis
    by (intro bad_configuration_ignored [where e = "''no nodes''"]) (simp add: treeHash_def no_graph_def)
qed

text \<open>
  C40. The configuration of a node is stored before the node has accepted it: when it is rejected, the old
  node keeps running, and sending the same configuration again is reported as a success.
\<close>

theorem rejected_configuration_stored:
  assumes "gg_configs g i \<noteq> None" "Graph_Configure conf g i config = (Fail e, g')" "gg_runners g i \<noteq> None"
  shows "gg_runners g' = gg_runners g \<and> Graph_Configure conf g' i config = (Ret (), g')"
  using Configure_retry [OF assms] by blast

lemma rejected_configuration_stored_witness:
  "\<exists>g g'. Graph_Configure accepts g ''out'' 0 = (Fail ''invalid config'', g') \<and> Graph_Configure accepts g' ''out'' 0 = (Ret (), g')"
proof -
  obtain g where g: "buildGraph accepts sample_registry (two_entries 1) = Ret g" "gg_runners g ''out'' \<noteq> None" "gg_configs g ''out'' = Some 1"
    "gr_nodeTypes (gb_registry (gg_builder g)) ''out'' = Some ''output''" "gr_registry (gb_registry (gg_builder g)) = sample_registry"
    using two_entries_build by blast
  obtain g' where g': "Graph_Configure accepts g ''out'' 0 = (Fail ''invalid config'', g')"
    using g by (auto simp: Graph_Configure_def createNode_def NewNode_def GetNode_def registry_Get_def sample_registry_def
        builtin_nodes_def plain_registration_def OutputNodeType_CreateNode_def accepts_def Let_def)
  from rejected_configuration_stored [OF _ g' g(2)] g(3) g' show ?thesis by auto
qed

text \<open>
  A new node that replaces one with another configuration does not take over its actions and signals:
  every statement that names them still creates the handlers of the node that was replaced.
\<close>

lemma replaced_node_keeps_actions:
  assumes "Graph_Configure conf g i config = (out, g')" "ci_NodeID ident = Some n"
    "inner (gr_declarations (gb_registry (gg_builder g))) n (ci_Name ident) \<noteq> None"
  shows "action_creator (gb_registry (gg_builder g')) ident = action_creator (gb_registry (gg_builder g)) ident
    \<and> signal_creator (gb_registry (gg_builder g')) ident = signal_creator (gb_registry (gg_builder g)) ident"
  using Configure_keeps_actions [OF assms] by blast

definition layered :: "nat NodeConfig list" where
  "layered = [entry ''kbd'' ''input'' [''layers''] 1, entry ''layers'' ''mux'' [''out''] 1, entry ''out'' ''output'' [] 1]"

lemma layered_build:
  "\<exists>g. buildGraph accepts sample_registry layered = Ret g \<and> inner (gr_declarations (gb_registry (gg_builder g))) ''layers'' ''switch'' \<noteq> None"
  by (simp add: layered_def build_eval MuxType_Descriptor_def MuxType_CreateNode_def mux_CreateNode_def mux_registration_def
      provider_register_def RegisterAction_def RegisterSignal_def getNodeRegistration_def inner_def)

lemma replaced_node_keeps_actions_witness:
  "\<exists>g g'. buildGraph accepts sample_registry layered = Ret g \<and> snd (Graph_Configure accepts g ''layers'' 2) = g'
     \<and> action_creator (gb_registry (gg_builder g')) \<lparr>ci_Name = ''switch'', ci_NodeID = Some ''layers''\<rparr>
         = action_creator (gb_registry (gg_builder g)) \<lparr>ci_Name = ''switch'', ci_NodeID = Some ''layers''\<rparr>"
proof -
  obtain g where g: "buildGraph accepts sample_registry layered = Ret g"
    "inner (gr_declarations (gb_registry (gg_builder g))) ''layers'' ''switch'' \<noteq> None" using layered_build by blast
  obtain r g' where "Graph_Configure accepts g ''layers'' 2 = (r, g')" by fastforce
  from this replaced_node_keeps_actions [OF this, of "\<lparr>ci_Name = ''switch'', ci_NodeID = Some ''layers''\<rparr>" "''layers''"] g
  show ?thesis by auto
qed

definition bar_entries :: "nat NodeConfig list" where
  "bar_entries = [entry ''a'' ''input'' [''z''] 1, entry ''b'' ''input'' [''z''] 1, entry ''z'' ''output'' [] 1]"

definition bar_entries' :: "nat NodeConfig list" where
  "bar_entries' = [entry ''a|input|z|b'' ''input'' [''z''] 1, entry ''z'' ''output'' [] 1]"

text \<open>
  The hash of a configuration joins its identifiers, types and edges with bars, so two configurations
  with different graphs, both of which start, have the same hash, whatever the hash function: a change from one to the
  other is not seen as a change of the graph.
\<close>

lemma graph_hash_ambiguous:
  "treeHash xxhash bar_entries = treeHash xxhash bar_entries' \<and> length bar_entries \<noteq> length bar_entries' \<and>
   (\<exists>s s'. startGraph xxhash accepts bar_entries no_graph = Ret s \<and> startGraph xxhash accepts bar_entries' no_graph = Ret s')"
  by (simp_all add: treeHash_def bar_entries_def bar_entries'_def startGraph_def no_graph_def build_eval)

end
