(* ===== verification/AsyncActions.thy ===== *)
theory AsyncActions
  imports Bind
begin

section \<open>Asynchronous actions (flowapi/action.go, components/actions)\<close>

text \<open>
  An asynchronous action runs in a goroutine of its own, which waits, runs other actions on events of
  its own and sends these. A handler is a tree of the handlers it was made from, a goroutine is the
  place where it stands, and a finalizer is one of the two that the handlers here return. A step is one
  command of a goroutine, a tick of the clock, an event of the bind, or the end of an interruption:
  the pool's lock is held from its beginning to its end, and starting or finishing an asynchronous
  action takes the lock. Durations are in ticks and, as the lexer has no sign for them, not negative.
  Signals are numbers, and the pool keeps which of them ran; whom they reach is left out, and so is
  \<open>lock\<close>, which theory Actions models. \<open>None\<close> is a panic.
\<close>

subsection \<open>Handlers, finalizers and goroutines\<close>

datatype act =
    NilAct
  | NoneAct
  | Toggle "Usage list"
  | DeltaAct Usage i32
  | SignalAct "nat option" "nat option"
  | ModAct "Usage list" act int
  | TapAct act int
  | TapHoldAct act act int int
  | RepeatAct act int int
  | ChainAct "act list" int

datatype fin = Deactivate "Usage list" | SignalFin nat | FinishAsync nat

text \<open>Where a goroutine stands; deadlines are absolute.\<close>

datatype place =
    ModDelay "Usage list" act int
  | TapBegin act int
  | TapDelay "fin option" int
  | HoldSelect act act int int
  | HoldInterrupted act int
  | HoldDelay int
  | HoldLong act
  | HoldTap act int
  | RepeatSelect act "fin option" int int
  | RepeatFinish act "fin option" int
  | RepeatGap act int int
  | RepeatAction act int
  | RepeatHold act "fin option" int int
  | FinishLast "fin option"
  | ChainNext "act list" int
  | ChainHold "fin option" "act list" int int
  | ChainFinish "fin option" "act list" int
  | ChainGap "act list" int int
  | Returned

record async =
  as_parent :: nat
  as_place :: place
  as_interrupt :: bool
  as_finished :: bool
  as_onFinish :: "fin list"

definition as_done :: "async \<Rightarrow> bool" where
  "as_done a \<longleftrightarrow> as_place a = Returned"

record pool =
  po_async :: "nat \<rightharpoonup> async"
  po_active :: "nat list"
  po_next :: nat
  po_context :: nat
  po_now :: int
  po_signals :: "nat list"

definition NewActionContextPool :: pool where
  "NewActionContextPool = \<lparr>po_async = Map.empty, po_active = [], po_next = 0, po_context = 0, po_now = 0, po_signals = []\<rparr>"

definition run_signal :: "nat \<Rightarrow> pool \<Rightarrow> pool" where
  "run_signal i p = p\<lparr>po_signals := po_signals p @ [i]\<rparr>"

definition runAsync :: "place \<Rightarrow> pool \<Rightarrow> pool \<times> fin" where
  "runAsync pl p =
     (let g = po_next p
      in (p\<lparr>po_async := (po_async p)(g \<mapsto> \<lparr>as_parent = po_context p, as_place = pl, as_interrupt = False,
                                       as_finished = False, as_onFinish = []\<rparr>),
            po_active := po_active p @ [g], po_next := g + 1\<rparr>, FinishAsync g))"

text \<open>What the handlers of the files of components/actions do in the call.\<close>

definition mod_start :: "Usage list \<Rightarrow> act \<Rightarrow> int \<Rightarrow> pool \<Rightarrow> Event \<Rightarrow> (pool \<times> Event \<times> fin option) option" where [simp]:
  "mod_start modifier action duration p e =
     map_option (\<lambda>e. let (p, f) = runAsync (ModDelay modifier action (po_now p + duration)) p in (p, e, Some f))
       (Event_Activate e modifier)"

definition tap_start :: "act \<Rightarrow> int \<Rightarrow> pool \<Rightarrow> Event \<Rightarrow> (pool \<times> Event \<times> fin option) option" where [simp]:
  "tap_start action tapDuration p e = (let (p, f) = runAsync (TapBegin action tapDuration) p in Some (p, e, Some f))"

definition tapHold_start :: "act \<Rightarrow> act \<Rightarrow> int \<Rightarrow> int \<Rightarrow> pool \<Rightarrow> Event \<Rightarrow> (pool \<times> Event \<times> fin option) option" where [simp]:
  "tapHold_start onTap onHold delay tapDuration p e =
     (let (p, f) = runAsync (HoldSelect onTap onHold (po_now p + delay) tapDuration) p in Some (p, e, Some f))"

text \<open>The handler of \<open>repeat\<close> runs the action in the call; \<open>fin\<close> is what that returned.\<close>

definition repeat_start :: "act \<Rightarrow> fin option \<Rightarrow> int \<Rightarrow> int \<Rightarrow> pool \<Rightarrow> Event \<Rightarrow> (pool \<times> Event \<times> fin option) option" where [simp]:
  "repeat_start action fin delay interval p e =
     (let half = interval div 2; (p, f) = runAsync (RepeatSelect action fin (po_now p + delay - half) half) p
      in Some (p, e, Some f))"

definition chain_start :: "act list \<Rightarrow> int \<Rightarrow> pool \<Rightarrow> Event \<Rightarrow> (pool \<times> Event \<times> fin option) option" where [simp]:
  "chain_start actions delay p e =
     (if actions = [] then Some (p, e, None) else let (p, f) = runAsync (ChainNext actions delay) p in Some (p, e, Some f))"

text \<open>The synchronous part of a handler. A nil handler panics.\<close>

primrec start_act :: "act \<Rightarrow> pool \<Rightarrow> Event \<Rightarrow> (pool \<times> Event \<times> fin option) option" where
  "start_act NilAct p e = None"
| "start_act NoneAct p e = Some (p, e, None)"
| "start_act (Toggle us) p e = map_option (\<lambda>e. (p, e, Some (Deactivate us))) (Event_Activate e us)"
| "start_act (DeltaAct u v) p e = map_option (\<lambda>e. (p, e, None)) (Event_SetDelta e u v)"
| "start_act (SignalAct onActivate onDeactivate) p e =
     Some (case onActivate of None \<Rightarrow> p | Some i \<Rightarrow> run_signal i p, e, map_option SignalFin onDeactivate)"
| "start_act (ModAct us a d) p e = mod_start us a d p e"
| "start_act (TapAct a d) p e = tap_start a d p e"
| "start_act (TapHoldAct tap hld d td) p e = tapHold_start tap hld d td p e"
| "start_act (RepeatAct a d interval) p e =
     (case start_act a p e of None \<Rightarrow> None | Some (p, e, f) \<Rightarrow> repeat_start a f d interval p e)"
| "start_act (ChainAct as d) p e = chain_start as d p e"

text \<open>
  Running finalizers: that of an asynchronous action takes it out of the pool, runs what was registered
  with \<open>OnFinish\<close> and then closes \<open>finished\<close>. Closing it a second time panics.
\<close>

definition registered :: "pool \<Rightarrow> nat \<Rightarrow> fin list" where
  "registered p g = (case po_async p g of None \<Rightarrow> [] | Some a \<Rightarrow> as_onFinish a)"

definition close_finished :: "nat \<Rightarrow> pool \<Rightarrow> pool" where
  "close_finished g p = p\<lparr>po_async := (\<lambda>k. if k = g then map_option (\<lambda>a. a\<lparr>as_finished := True\<rparr>) (po_async p g) else po_async p k)\<rparr>"

datatype fin_task = Fin fin | CloseFinished nat

function finish_all :: "fin_task list \<Rightarrow> pool \<Rightarrow> Event \<Rightarrow> (pool \<times> Event) option" where
  "finish_all [] p e = Some (p, e)"
| "finish_all (Fin (Deactivate us) # ts) p e =
     (case Event_Deactivate e us of None \<Rightarrow> None | Some e \<Rightarrow> finish_all ts p e)"
| "finish_all (Fin (SignalFin i) # ts) p e = finish_all ts (run_signal i p) e"
| "finish_all (Fin (FinishAsync g) # ts) p e =
     (if g \<in> set (po_active p)
      then finish_all (map Fin (registered p g) @ CloseFinished g # ts) (p\<lparr>po_active := remove1 g (po_active p)\<rparr>) e
      else None)"
| "finish_all (CloseFinished g # ts) p e = finish_all ts (close_finished g p) e"
  by pat_completeness auto
termination
proof (relation "measure (\<lambda>(ts, p, e). length ts + sum_list (map (\<lambda>g. length (registered p g) + 1) (po_active p)))", goal_cases)
  case (4 g ts p e)
  have "sum_list (map f (remove1 g xs)) + f g = sum_list (map f xs)" if "g \<in> set xs" for f :: "nat \<Rightarrow> nat" and xs
    using that by (induction xs) auto
  note sum = this [OF 4, of "\<lambda>g. length (registered p g) + 1"]
  have "registered (p\<lparr>po_active := remove1 g (po_active p)\<rparr>) = registered p" by (simp add: registered_def fun_eq_iff)
  then show ?case using sum by simp
next
  case (5 g ts p e)
  have "registered (close_finished g p) = registered p"
    by (auto simp: registered_def close_finished_def fun_eq_iff split: option.splits)
  then show ?case by (simp add: close_finished_def)
qed (simp_all add: run_signal_def registered_def)

text \<open>As the handlers of the bind node.\<close>

definition act_finalizer :: "fin \<Rightarrow> pool ActionFinalizer" where
  "act_finalizer f = (\<lambda>p e. finish_all [Fin f] p e)"

definition act_handler :: "act \<Rightarrow> pool ActionHandler" where
  "act_handler a = (\<lambda>p e. map_option (\<lambda>(p, e, f). (p, e, map_option act_finalizer f)) (start_act a p e))"

subsection \<open>The commands of a goroutine\<close>

text \<open>
  \<open>Goto\<close> moves on; \<open>DoAction\<close> runs a handler on a new event, and what follows and what is registered
  with \<open>OnFinish\<close> depends on its finalizer; \<open>DoFinish\<close> runs a finalizer on a new event.
\<close>

datatype command = Goto place | DoAction act "fin option \<Rightarrow> place" "fin option \<Rightarrow> fin list" | DoFinish "fin option" place

definition opt_list :: "'a option \<Rightarrow> 'a list" where
  "opt_list x = (case x of None \<Rightarrow> [] | Some y \<Rightarrow> [y])"

definition after :: "int \<Rightarrow> int \<Rightarrow> command list \<Rightarrow> command list" where
  "after now deadline cs = (if deadline \<le> now then cs else [])"

text \<open>mod.go\<close>

definition mod_delay :: "int \<Rightarrow> Usage list \<Rightarrow> act \<Rightarrow> int \<Rightarrow> command list" where [simp]:
  "mod_delay now modifier action t =
     after now t [DoAction action (\<lambda>fin. Returned) (\<lambda>fin. opt_list fin @ [Deactivate modifier])]"

text \<open>tap.go\<close>

definition tap_action :: "int \<Rightarrow> act \<Rightarrow> int \<Rightarrow> command list" where [simp]:
  "tap_action now action tapDuration = [DoAction action (\<lambda>fin. TapDelay fin (now + tapDuration)) (\<lambda>fin. [])]"

definition tap_finish :: "int \<Rightarrow> fin option \<Rightarrow> int \<Rightarrow> command list" where [simp]:
  "tap_finish now fin t = after now t [DoFinish fin Returned]"

text \<open>tap_hold.go: the select, and the bodies of its cases\<close>

definition tapHold_select :: "int \<Rightarrow> bool \<Rightarrow> bool \<Rightarrow> act \<Rightarrow> act \<Rightarrow> int \<Rightarrow> int \<Rightarrow> command list" where [simp]:
  "tapHold_select now intr finished onTap onHold t tapDuration =
     (if intr then [Goto (HoldInterrupted onHold tapDuration)] else []) @ after now t [Goto (HoldLong onHold)]
     @ (if finished then [Goto (HoldTap onTap tapDuration)] else [])"

definition tapHold_interrupted :: "int \<Rightarrow> act \<Rightarrow> int \<Rightarrow> command list" where [simp]:
  "tapHold_interrupted now onHold tapDuration = [DoAction onHold (\<lambda>fin. HoldDelay (now + tapDuration)) opt_list]"

definition tapHold_held :: "act \<Rightarrow> command list" where [simp]:
  "tapHold_held onHold = [DoAction onHold (\<lambda>fin. Returned) opt_list]"

definition tapHold_tapped :: "int \<Rightarrow> act \<Rightarrow> int \<Rightarrow> command list" where [simp]:
  "tapHold_tapped now onTap tapDuration = [DoAction onTap (\<lambda>fin. TapDelay fin (now + tapDuration)) (\<lambda>fin. [])]"

text \<open>repeat.go: the first select, and the loop\<close>

definition repeat_wait :: "int \<Rightarrow> bool \<Rightarrow> act \<Rightarrow> fin option \<Rightarrow> int \<Rightarrow> int \<Rightarrow> command list" where [simp]:
  "repeat_wait now finished action fin t half =
     after now t [Goto (RepeatFinish action fin half)] @ (if finished then [Goto (FinishLast fin)] else [])"

definition repeat_release :: "int \<Rightarrow> act \<Rightarrow> fin option \<Rightarrow> int \<Rightarrow> command list" where [simp]:
  "repeat_release now action fin half = [DoFinish fin (RepeatGap action (now + half) half)]"

definition repeat_gap :: "int \<Rightarrow> bool \<Rightarrow> act \<Rightarrow> int \<Rightarrow> int \<Rightarrow> command list" where [simp]:
  "repeat_gap now finished action t half =
     after now t [Goto (RepeatAction action half)] @ (if finished then [Goto Returned] else [])"

definition repeat_press :: "int \<Rightarrow> act \<Rightarrow> int \<Rightarrow> command list" where [simp]:
  "repeat_press now action half = [DoAction action (\<lambda>fin. RepeatHold action fin (now + half) half) (\<lambda>fin. [])]"

definition repeat_hold :: "int \<Rightarrow> bool \<Rightarrow> act \<Rightarrow> fin option \<Rightarrow> int \<Rightarrow> int \<Rightarrow> command list" where [simp]:
  "repeat_hold now finished action fin t half =
     after now t [Goto (RepeatFinish action fin half)] @ (if finished then [Goto (FinishLast fin)] else [])"

text \<open>send_string.go: the loop of the chain\<close>

definition chain_next :: "int \<Rightarrow> act list \<Rightarrow> int \<Rightarrow> command list" where [simp]:
  "chain_next now actions delay =
     (case actions of
        [] \<Rightarrow> [Goto Returned]
      | action # actions \<Rightarrow> [DoAction action (\<lambda>fin. ChainHold fin actions delay (now + delay)) (\<lambda>fin. [])])"

definition chain_hold :: "int \<Rightarrow> bool \<Rightarrow> fin option \<Rightarrow> act list \<Rightarrow> int \<Rightarrow> int \<Rightarrow> command list" where [simp]:
  "chain_hold now intr fin actions delay t =
     after now t [Goto (ChainFinish fin actions delay)] @ (if intr then [Goto (FinishLast fin)] else [])"

definition chain_release :: "int \<Rightarrow> fin option \<Rightarrow> act list \<Rightarrow> int \<Rightarrow> command list" where [simp]:
  "chain_release now fin actions delay = [DoFinish fin (ChainGap actions delay (now + delay))]"

definition chain_gap :: "int \<Rightarrow> bool \<Rightarrow> act list \<Rightarrow> int \<Rightarrow> int \<Rightarrow> command list" where [simp]:
  "chain_gap now intr actions delay t =
     after now t [Goto (ChainNext actions delay)] @ (if intr then [Goto Returned] else [])"

primrec commands :: "int \<Rightarrow> bool \<Rightarrow> bool \<Rightarrow> place \<Rightarrow> command list" where
  "commands now intr finished (ModDelay us a t) = mod_delay now us a t"
| "commands now intr finished (TapBegin a d) = tap_action now a d"
| "commands now intr finished (TapDelay f t) = tap_finish now f t"
| "commands now intr finished (HoldSelect tap hld t td) = tapHold_select now intr finished tap hld t td"
| "commands now intr finished (HoldInterrupted hld td) = tapHold_interrupted now hld td"
| "commands now intr finished (HoldDelay t) = after now t [Goto Returned]"
| "commands now intr finished (HoldLong hld) = tapHold_held hld"
| "commands now intr finished (HoldTap tap td) = tapHold_tapped now tap td"
| "commands now intr finished (RepeatSelect a f t half) = repeat_wait now finished a f t half"
| "commands now intr finished (RepeatFinish a f half) = repeat_release now a f half"
| "commands now intr finished (RepeatGap a t half) = repeat_gap now finished a t half"
| "commands now intr finished (RepeatAction a half) = repeat_press now a half"
| "commands now intr finished (RepeatHold a f t half) = repeat_hold now finished a f t half"
| "commands now intr finished (FinishLast f) = [DoFinish f Returned]"
| "commands now intr finished (ChainNext as d) = chain_next now as d"
| "commands now intr finished (ChainHold f as d t) = chain_hold now intr f as d t"
| "commands now intr finished (ChainFinish f as d) = chain_release now f as d"
| "commands now intr finished (ChainGap as d t) = chain_gap now intr as d t"
| "commands now intr finished Returned = []"

text \<open>Which of them need the lock of the pool.\<close>

primrec act_locks :: "act \<Rightarrow> bool" where
  "act_locks NilAct = False"
| "act_locks NoneAct = False"
| "act_locks (Toggle us) = False"
| "act_locks (DeltaAct u v) = False"
| "act_locks (SignalAct onActivate onDeactivate) = False"
| "act_locks (ModAct us a d) = True"
| "act_locks (TapAct a d) = True"
| "act_locks (TapHoldAct tap hld d td) = True"
| "act_locks (RepeatAct a d interval) = True"
| "act_locks (ChainAct as d) = (as \<noteq> [])"

definition fin_locks :: "fin option \<Rightarrow> bool" where
  "fin_locks f = (case f of Some (FinishAsync g) \<Rightarrow> True | _ \<Rightarrow> False)"

definition command_locks :: "command \<Rightarrow> bool" where
  "command_locks c = (case c of Goto pl \<Rightarrow> False | DoAction a k h \<Rightarrow> act_locks a | DoFinish f pl \<Rightarrow> fin_locks f)"

definition set_async :: "nat \<Rightarrow> place \<Rightarrow> fin list \<Rightarrow> pool \<Rightarrow> pool" where
  "set_async g pl fs p =
     p\<lparr>po_async := (\<lambda>k. if k = g then map_option (\<lambda>a. a\<lparr>as_place := pl, as_onFinish := as_onFinish a @ fs\<rparr>) (po_async p g)
                       else po_async p k)\<rparr>"

definition sent_event :: "Event \<Rightarrow> Event list" where
  "sent_event e = (if Event_IsEmpty (Some e) then [] else [e])"

text \<open>\<open>Do\<close> makes an action context of its own.\<close>

definition new_context :: "pool \<Rightarrow> pool" where
  "new_context p = p\<lparr>po_context := po_context p + 1\<rparr>"

definition run_command :: "nat \<Rightarrow> command \<Rightarrow> pool \<Rightarrow> (pool \<times> Event list) option" where
  "run_command g c p =
     (case c of
        Goto pl \<Rightarrow> Some (set_async g pl [] p, [])
      | DoAction a k h \<Rightarrow>
          map_option (\<lambda>(p, e, f). (set_async g (k f) (h f) p, sent_event e))
            (start_act a (new_context p) (NewEvent (po_now p)))
      | DoFinish f pl \<Rightarrow>
          (case f of
             None \<Rightarrow> Some (set_async g pl [] p, [])
           | Some f \<Rightarrow>
               map_option (\<lambda>(p, e). (set_async g pl [] p, sent_event e))
                 (finish_all [Fin f] (new_context p) (NewEvent (po_now p)))))"

subsection \<open>The bind node and its pool\<close>

datatype main_phase = Idle | Interrupting "nat list" "Event list"

record bind_system =
  sy_pool :: pool
  sy_mappings :: "pool bindItem list"
  sy_main :: main_phase
  sy_sent :: "Event list"

text \<open>Which actions an interruption waits for: those of other contexts that were not interrupted before.\<close>

definition interruptible :: "pool \<Rightarrow> nat list" where
  "interruptible p = filter (\<lambda>g. case po_async p g of None \<Rightarrow> False
     | Some a \<Rightarrow> as_parent a \<noteq> po_context p \<and> \<not> as_interrupt a) (po_active p)"

definition interrupt_all :: "nat list \<Rightarrow> pool \<Rightarrow> pool" where
  "interrupt_all gs p = p\<lparr>po_async := (\<lambda>g. if g \<in> set gs then map_option (\<lambda>a. a\<lparr>as_interrupt := True\<rparr>) (po_async p g) else po_async p g)\<rparr>"

definition returned :: "pool \<Rightarrow> nat \<Rightarrow> bool" where
  "returned p g \<longleftrightarrow> (case po_async p g of None \<Rightarrow> False | Some a \<Rightarrow> as_done a)"

text \<open>One event of \<open>Run\<close>; the event is sent when the interruption is over.\<close>

definition main_event :: "(u16 \<Rightarrow> u16 \<Rightarrow> bool) \<Rightarrow> Event \<Rightarrow> bind_system \<Rightarrow> bind_system option" where
  "main_event interrupt ev s =
     map_option
       (\<lambda>(p, ms, i, sent).
          if i then s\<lparr>sy_pool := interrupt_all (interruptible p) p, sy_mappings := ms, sy_main := Interrupting (interruptible p) sent\<rparr>
          else s\<lparr>sy_pool := p, sy_mappings := ms, sy_sent := sy_sent s @ sent\<rparr>)
       (bind_event interrupt (sy_mappings s) (new_context (sy_pool s)) ev)"

definition async_command :: "nat \<Rightarrow> bind_system \<Rightarrow> command \<Rightarrow> bool" where
  "async_command g s c \<longleftrightarrow>
     (case po_async (sy_pool s) g of
        None \<Rightarrow> False
      | Some a \<Rightarrow> c \<in> set (commands (po_now (sy_pool s)) (as_interrupt a) (as_finished a) (as_place a)))
     \<and> (command_locks c \<longrightarrow> sy_main s = Idle)"

inductive bind_step :: "(u16 \<Rightarrow> u16 \<Rightarrow> bool) \<Rightarrow> bind_system \<Rightarrow> bind_system \<Rightarrow> bool" for interrupt where
  event: "sy_main s = Idle \<Longrightarrow> main_event interrupt ev s = Some s' \<Longrightarrow> bind_step interrupt s s'"
| interrupted: "sy_main s = Interrupting gs sent \<Longrightarrow> (\<forall>g \<in> set gs. returned (sy_pool s) g) \<Longrightarrow>
    bind_step interrupt s (s\<lparr>sy_main := Idle, sy_sent := sy_sent s @ sent\<rparr>)"
| tick: "bind_step interrupt s (s\<lparr>sy_pool := (sy_pool s)\<lparr>po_now := po_now (sy_pool s) + 1\<rparr>\<rparr>)"
| async: "async_command g s c \<Longrightarrow> run_command g c (sy_pool s) = Some (p, sent) \<Longrightarrow>
    bind_step interrupt s (s\<lparr>sy_pool := p, sy_sent := sy_sent s @ sent\<rparr>)"

inductive_cases bind_stepE: "bind_step interrupt s s'"

definition new_bind :: "(Usage list \<times> act) list \<Rightarrow> bind_system" where
  "new_bind items = \<lparr>sy_pool = NewActionContextPool, sy_mappings = map (\<lambda>(us, a). new_bindItem us (act_handler a)) items,
     sy_main = Idle, sy_sent = []\<rparr>"

end
