(* ===== verification/AsyncFacts.thy ===== *)
theory AsyncFacts
  imports AsyncActions
begin

section \<open>When an interruption ends\<close>

text \<open>
  An interruption waits, with the lock held, for the goroutines it interrupts. If these run only
  actions without goroutines of their own and do not repeat, it ends from every reachable state
  (\<open>tame\<close>, \<open>calm\<close>). If one of them repeats an action, or still has to start or finish an action that
  needs the lock, it never ends (\<open>stuck\<close>).
\<close>

subsection \<open>Goroutines that never return while they are not finished\<close>

primrec stuck :: "place \<Rightarrow> bool" where
  "stuck (ModDelay us a t) = act_locks a"
| "stuck (TapBegin a d) = act_locks a"
| "stuck (TapDelay f t) = fin_locks f"
| "stuck (HoldSelect tap hld t td) = act_locks hld"
| "stuck (HoldInterrupted hld td) = act_locks hld"
| "stuck (HoldDelay t) = False"
| "stuck (HoldLong hld) = act_locks hld"
| "stuck (HoldTap tap td) = act_locks tap"
| "stuck (RepeatSelect a f t half) = True"
| "stuck (RepeatFinish a f half) = True"
| "stuck (RepeatGap a t half) = True"
| "stuck (RepeatAction a half) = True"
| "stuck (RepeatHold a f t half) = True"
| "stuck (FinishLast f) = fin_locks f"
| "stuck (ChainNext as d) = (case as of [] \<Rightarrow> False | a # _ \<Rightarrow> act_locks a)"
| "stuck (ChainHold f as d t) = fin_locks f"
| "stuck (ChainFinish f as d) = fin_locks f"
| "stuck (ChainGap as d t) = False"
| "stuck Returned = False"

lemma after_set [simp]: "c \<in> set (after now t cs) \<longleftrightarrow> t \<le> now \<and> c \<in> set cs"
  by (simp add: after_def)

text \<open>Where a command without the lock leads.\<close>

definition leads_to :: "command \<Rightarrow> place \<Rightarrow> bool" where
  "leads_to c pl \<longleftrightarrow>
     (case c of
        Goto pl' \<Rightarrow> pl = pl'
      | DoAction a k h \<Rightarrow> (\<exists>f. \<not> fin_locks f \<and> pl = k f)
      | DoFinish f pl' \<Rightarrow> pl = pl')"

lemma stuck_leads:
  "stuck pl \<Longrightarrow> c \<in> set (commands now intr False pl) \<Longrightarrow> \<not> command_locks c \<Longrightarrow> leads_to c pl' \<Longrightarrow> stuck pl'"
  by (cases pl) (auto simp: leads_to_def command_locks_def split: if_splits list.splits)

text \<open>Handlers and commands that need no lock and call no nil handler.\<close>

definition plain :: "act \<Rightarrow> bool" where
  "plain a \<longleftrightarrow> \<not> act_locks a \<and> a \<noteq> NilAct"

definition plain_command :: "command \<Rightarrow> bool" where
  "plain_command c \<longleftrightarrow> \<not> command_locks c \<and> (case c of DoAction a k h \<Rightarrow> a \<noteq> NilAct | _ \<Rightarrow> True)"

text \<open>A command without the lock only moves its own goroutine.\<close>

definition moved :: "nat \<Rightarrow> place \<Rightarrow> pool \<Rightarrow> pool \<Rightarrow> bool" where
  "moved g pl p p' \<longleftrightarrow> (\<exists>fs ctx sgs. p' = set_async g pl fs (p\<lparr>po_context := ctx, po_signals := sgs\<rparr>))"

lemma moved_self: "moved g pl p (set_async g pl fs (p\<lparr>po_context := ctx, po_signals := sgs\<rparr>))"
  by (auto simp: moved_def)

lemma movedI [intro]:
  "moved g pl p (set_async g pl fs p)" "moved g pl p (set_async g pl fs (new_context p))"
  "moved g pl p (set_async g pl fs (run_signal i (new_context p)))"
  using moved_self [where g = g and pl = pl and p = p and fs = fs and ctx = "po_context p" and sgs = "po_signals p"]
    moved_self [where g = g and pl = pl and p = p and fs = fs and ctx = "po_context p + 1" and sgs = "po_signals p"]
    moved_self [where g = g and pl = pl and p = p and fs = fs and ctx = "po_context p + 1" and sgs = "po_signals p @ [i]"]
  by (simp_all add: new_context_def run_signal_def)

lemma start_plain:
  "\<not> act_locks a \<Longrightarrow> start_act a p e = Some (p', e', f) \<Longrightarrow> (p' = p \<or> (\<exists>i. p' = run_signal i p)) \<and> \<not> fin_locks f"
  by (cases a) (auto simp: fin_locks_def split: option.splits)

lemma run_plain:
  assumes "\<not> command_locks c" "run_command g c p = Some (p', sent)"
  shows "\<exists>pl. leads_to c pl \<and> moved g pl p p'"
proof (cases c)
  case (Goto pl)
  then show ?thesis using assms(2) by (auto simp: run_command_def leads_to_def)
next
  case (DoAction a k h)
  obtain q e f where r: "start_act a (new_context p) (NewEvent (po_now p)) = Some (q, e, f)" "p' = set_async g (k f) (h f) q"
    using assms(2) DoAction by (auto simp: run_command_def)
  have "(q = new_context p \<or> (\<exists>i. q = run_signal i (new_context p))) \<and> \<not> fin_locks f"
    using start_plain [OF _ r(1)] assms(1) DoAction by (simp add: command_locks_def)
  then show ?thesis using r(2) DoAction by (auto simp: leads_to_def)
next
  case (DoFinish f pl)
  have "moved g pl p p'"
  proof (cases f)
    case None
    then show ?thesis using assms(2) DoFinish by (auto simp: run_command_def)
  next
    case (Some x)
    then show ?thesis using assms DoFinish
      by (cases x) (auto simp: run_command_def command_locks_def fin_locks_def split: option.splits)
  qed
  then show ?thesis using DoFinish by (auto simp: leads_to_def)
qed

lemma moved_async:
  "moved g pl p p' \<Longrightarrow> k \<noteq> g \<Longrightarrow> po_async p' k = po_async p k"
  "moved g pl p p' \<Longrightarrow> po_async p g = Some a \<Longrightarrow> \<exists>fs. po_async p' g = Some (a\<lparr>as_place := pl, as_onFinish := fs\<rparr>)"
  "moved g pl p p' \<Longrightarrow> dom (po_async p') = dom (po_async p) \<and> po_active p' = po_active p \<and> po_now p' = po_now p \<and> po_next p' = po_next p"
  by (auto simp: moved_def set_async_def dom_def split: if_splits)

definition waits_for :: "nat list \<Rightarrow> Event list \<Rightarrow> nat \<Rightarrow> bind_system \<Rightarrow> bool" where
  "waits_for gs sent g s \<longleftrightarrow> sy_main s = Interrupting gs sent \<and> g \<in> set gs
     \<and> (\<exists>a. po_async (sy_pool s) g = Some a \<and> stuck (as_place a) \<and> \<not> as_finished a)"

lemma waits_step:
  assumes "bind_step interrupt s s'" "waits_for gs sent g s"
  shows "waits_for gs sent g s'"
  using assms(1)
proof (cases rule: bind_step.cases)
  case (interrupted hs ev)
  then show ?thesis using assms(2) by (auto simp: waits_for_def returned_def as_done_def)
next
  case (async k c p ev)
  obtain a where a: "po_async (sy_pool s) g = Some a" "stuck (as_place a)" "\<not> as_finished a"
    using assms(2) by (auto simp: waits_for_def)
  have c: "\<not> command_locks c" using async(2) assms(2) by (auto simp: async_command_def waits_for_def)
  obtain pl where pl: "leads_to c pl" "moved k pl (sy_pool s) p" using run_plain [OF c async(3)] by blast
  have "\<exists>a. po_async p g = Some a \<and> stuck (as_place a) \<and> \<not> as_finished a"
  proof (cases "k = g")
    case True
    then have "c \<in> set (commands (po_now (sy_pool s)) (as_interrupt a) False (as_place a))"
      using async(2) a by (simp add: async_command_def)
    from stuck_leads [OF a(2) this c pl(1)] show ?thesis
      using moved_async(2) [OF pl(2) [unfolded True] a(1)] a(3) by auto
  next
    case False
    then show ?thesis using moved_async(1) [OF pl(2), of g] a by auto
  qed
  then show ?thesis using assms(2) by (simp add: waits_for_def async(1))
qed (use assms(2) in \<open>auto simp: waits_for_def\<close>)

lemma waits_forever: "(bind_step interrupt)\<^sup>*\<^sup>* s s' \<Longrightarrow> waits_for gs sent g s \<Longrightarrow> waits_for gs sent g s'"
  by (induction rule: rtranclp_induct) (auto intro: waits_step)

subsection \<open>Goroutines that always return\<close>

primrec calm :: "place \<Rightarrow> bool" where
  "calm (ModDelay us a t) = (plain a)"
| "calm (TapBegin a d) = (plain a)"
| "calm (TapDelay f t) = (\<not> fin_locks f)"
| "calm (HoldSelect tap hld t td) = (plain tap \<and> plain hld)"
| "calm (HoldInterrupted hld td) = (plain hld)"
| "calm (HoldDelay t) = True"
| "calm (HoldLong hld) = (plain hld)"
| "calm (HoldTap tap td) = (plain tap)"
| "calm (RepeatSelect a f t half) = False"
| "calm (RepeatFinish a f half) = False"
| "calm (RepeatGap a t half) = False"
| "calm (RepeatAction a half) = False"
| "calm (RepeatHold a f t half) = False"
| "calm (FinishLast f) = (\<not> fin_locks f)"
| "calm (ChainNext as d) = (\<forall>a \<in> set as. plain a)"
| "calm (ChainHold f as d t) = (\<not> fin_locks f \<and> (\<forall>a \<in> set as. plain a))"
| "calm (ChainFinish f as d) = (\<not> fin_locks f \<and> (\<forall>a \<in> set as. plain a))"
| "calm (ChainGap as d t) = (\<forall>a \<in> set as. plain a)"
| "calm Returned = True"

text \<open>The actions whose goroutines are calm.\<close>

primrec tame :: "act \<Rightarrow> bool" where
  "tame NilAct = False"
| "tame NoneAct = True"
| "tame (Toggle us) = True"
| "tame (DeltaAct u v) = True"
| "tame (SignalAct onActivate onDeactivate) = True"
| "tame (ModAct us a d) = (plain a)"
| "tame (TapAct a d) = (plain a)"
| "tame (TapHoldAct tap hld d td) = (plain tap \<and> plain hld)"
| "tame (RepeatAct a d interval) = False"
| "tame (ChainAct as d) = (\<forall>a \<in> set as. plain a)"

text \<open>The commands of a calm goroutine need no lock and bring it nearer to its end.\<close>

primrec rank :: "place \<Rightarrow> nat" where
  "rank (ModDelay us a t) = 1"
| "rank (TapBegin a d) = 2"
| "rank (TapDelay f t) = 1"
| "rank (HoldSelect tap hld t td) = 3"
| "rank (HoldInterrupted hld td) = 2"
| "rank (HoldDelay t) = 1"
| "rank (HoldLong hld) = 1"
| "rank (HoldTap tap td) = 2"
| "rank (RepeatSelect a f t half) = 1"
| "rank (RepeatFinish a f half) = 1"
| "rank (RepeatGap a t half) = 1"
| "rank (RepeatAction a half) = 1"
| "rank (RepeatHold a f t half) = 1"
| "rank (FinishLast f) = 1"
| "rank (ChainNext as d) = 4 * length as + 1"
| "rank (ChainHold f as d t) = 4 * length as + 4"
| "rank (ChainFinish f as d) = 4 * length as + 3"
| "rank (ChainGap as d t) = 4 * length as + 2"
| "rank Returned = 0"

lemma calm_leads:
  "calm pl \<Longrightarrow> c \<in> set (commands now intr finished pl) \<Longrightarrow> plain_command c \<and> (leads_to c pl' \<longrightarrow> calm pl' \<and> rank pl' < rank pl)"
  by (cases pl) (auto simp: leads_to_def command_locks_def plain_def plain_command_def split: if_splits list.splits)

text \<open>Once its timer has run out, a goroutine that has not returned has a command.\<close>

primrec deadline :: "place \<Rightarrow> int" where
  "deadline (ModDelay us a t) = t"
| "deadline (TapBegin a d) = 0"
| "deadline (TapDelay f t) = t"
| "deadline (HoldSelect tap hld t td) = t"
| "deadline (HoldInterrupted hld td) = 0"
| "deadline (HoldDelay t) = t"
| "deadline (HoldLong hld) = 0"
| "deadline (HoldTap tap td) = 0"
| "deadline (RepeatSelect a f t half) = t"
| "deadline (RepeatFinish a f half) = 0"
| "deadline (RepeatGap a t half) = t"
| "deadline (RepeatAction a half) = 0"
| "deadline (RepeatHold a f t half) = t"
| "deadline (FinishLast f) = 0"
| "deadline (ChainNext as d) = 0"
| "deadline (ChainHold f as d t) = t"
| "deadline (ChainFinish f as d) = 0"
| "deadline (ChainGap as d t) = t"
| "deadline Returned = 0"

lemma commands_available: "pl \<noteq> Returned \<Longrightarrow> deadline pl \<le> now \<Longrightarrow> commands now intr finished pl \<noteq> []"
  by (cases pl) (auto simp: after_def split: list.splits)

lemma start_plain_total:
  assumes "plain a" "event_inv e"
  shows "start_act a p e \<noteq> None"
proof (cases a)
  case (Toggle us)
  then show ?thesis using Event_Activate_hold [OF assms(2), of us] by auto
next
  case (DeltaAct u v)
  then show ?thesis using addUsage_law [OF assms(2)] by (fastforce simp: Event_SetDelta_def)
qed (use assms(1) in \<open>auto simp: plain_def\<close>)

lemma run_plain_total:
  assumes "plain_command c"
  shows "run_command g c p \<noteq> None"
proof (cases c)
  case (DoAction a k h)
  then show ?thesis
    using start_plain_total [of a "NewEvent (po_now p)" "new_context p"] assms event_inv_NewEvent
    by (auto simp: run_command_def command_locks_def plain_command_def plain_def)
next
  case (DoFinish f pl)
  show ?thesis
  proof (cases f)
    case (Some x)
    have "Event_Deactivate (NewEvent (po_now p)) us \<noteq> None" for us
      using Event_Deactivate_hold [OF event_inv_NewEvent(1) [of "po_now p"], of us] by auto
    then show ?thesis using DoFinish Some assms
      by (cases x) (auto simp: run_command_def command_locks_def plain_command_def fin_locks_def split: option.splits)
  qed (simp add: run_command_def DoFinish)
qed (simp add: run_command_def)

subsection \<open>The bind node stays calm\<close>

definition calm_pool :: "pool \<Rightarrow> bool" where
  "calm_pool p \<longleftrightarrow> (\<forall>g a. po_async p g = Some a \<longrightarrow> calm (as_place a)) \<and> set (po_active p) \<subseteq> dom (po_async p)"

lemma calm_new_context [simp]: "calm_pool (new_context p) = calm_pool p"
  by (simp add: calm_pool_def new_context_def)

lemma calm_set_async: "calm_pool p \<Longrightarrow> calm pl \<Longrightarrow> calm_pool (set_async g pl fs p)"
  by (auto simp: calm_pool_def set_async_def dom_def split: if_splits)

lemma calm_moved: "calm_pool p \<Longrightarrow> calm pl \<Longrightarrow> moved g pl p p' \<Longrightarrow> calm_pool p'"
proof -
  assume p: "calm_pool p" "calm pl" "moved g pl p p'"
  then obtain fs ctx sgs where "p' = set_async g pl fs (p\<lparr>po_context := ctx, po_signals := sgs\<rparr>)" by (auto simp: moved_def)
  moreover have "calm_pool (p\<lparr>po_context := ctx, po_signals := sgs\<rparr>)" using p(1) by (simp add: calm_pool_def)
  ultimately show ?thesis using calm_set_async p(2) by blast
qed

lemma calm_run_signal [simp]: "calm_pool (run_signal i p) = calm_pool p"
  by (simp add: calm_pool_def run_signal_def)

lemma calm_start: "start_act a p e = Some (p', e', f) \<Longrightarrow> calm_pool p \<Longrightarrow> tame a \<Longrightarrow> calm_pool p'"
proof (cases a)
  case (SignalAct x y)
  then show "start_act a p e = Some (p', e', f) \<Longrightarrow> calm_pool p \<Longrightarrow> tame a \<Longrightarrow> calm_pool p'" by (auto split: option.splits)
qed (auto simp: calm_pool_def runAsync_def Let_def split: if_splits)

lemma calm_finish: "finish_all ts p e = Some (p', e') \<Longrightarrow> calm_pool p \<Longrightarrow> calm_pool p'"
proof (induction ts p e rule: finish_all.induct)
  case (4 g ts p e)
  have "calm_pool (p\<lparr>po_active := remove1 g (po_active p)\<rparr>)"
    using 4(3) set_remove1_subset [of g "po_active p"] by (auto simp: calm_pool_def)
  then show ?case using 4 by (auto split: if_splits)
next
  case (5 g ts p e)
  have "calm_pool (close_finished g p)"
    using 5(3) by (auto simp: calm_pool_def close_finished_def dom_def split: if_splits)
  then show ?case using 5 by simp
qed (auto split: option.splits)

text \<open>The mappings of the bind run tame handlers and finalizers of this theory.\<close>

definition tame_item :: "pool bindItem \<Rightarrow> bool" where
  "tame_item m \<longleftrightarrow> (\<exists>a. tame a \<and> bi_handler m = act_handler a) \<and> (\<forall>f. bi_finalizer m = Some f \<longrightarrow> (\<exists>x. f = act_finalizer x))"

lemma tame_trigger:
  assumes "trigger_item p ac m = Some (p', ac', m')" "tame_item m" "calm_pool p"
  shows "tame_item m' \<and> calm_pool p'"
proof -
  obtain a where a: "tame a" "bi_handler m = act_handler a" using assms(2) by (auto simp: tame_item_def)
  obtain on t ac1 where t: "trigger_Check (bi_trigger m) ac = Some (on, t, ac1)"
    using assms(1) by (auto simp: trigger_item_def split: option.splits)
  consider "on" "\<not> bi_triggered m" | "\<not> on" "bi_triggered m" | "on = bi_triggered m" by blast
  then show ?thesis
  proof cases
    case 1
    then obtain f where f: "start_act a p ac1 = Some (p', ac', f)"
      "m' = m\<lparr>bi_trigger := t, bi_triggered := True, bi_finalizer := map_option act_finalizer f\<rparr>"
      using assms(1) t by (auto simp: trigger_item_def act_handler_def a(2))
    then show ?thesis using a assms(3) calm_start [OF f(1) assms(3) a(1)] by (auto simp: tame_item_def)
  next
    case 2
    have "calm_pool p'"
    proof (cases "bi_finalizer m")
      case None
      then show ?thesis using assms 2 t by (simp add: trigger_item_def)
    next
      case (Some f)
      then obtain x where "f = act_finalizer x" using assms(2) by (auto simp: tame_item_def)
      then have "finish_all [Fin x] p ac1 = Some (p', ac')"
        using assms(1) 2 t Some by (auto simp: trigger_item_def act_finalizer_def)
      then show ?thesis using calm_finish assms(3) by blast
    qed
    moreover have "tame_item m'"
      using assms(1,2) 2 t by (auto simp: trigger_item_def tame_item_def split: option.splits)
    ultimately show ?thesis by blast
  next
    case 3
    then show ?thesis using assms t by (auto simp: trigger_item_def tame_item_def)
  qed
qed

lemma tame_triggers:
  "triggerMappings ms p ac = Some (p', ac', ms') \<Longrightarrow> \<forall>m \<in> set ms. tame_item m \<Longrightarrow> calm_pool p \<Longrightarrow>
     (\<forall>m \<in> set ms'. tame_item m) \<and> calm_pool p'"
proof (induction ms arbitrary: p ac p' ac' ms')
  case (Cons m ms)
  then obtain p1 ac1 m1 ms1 where m: "trigger_item p ac m = Some (p1, ac1, m1)"
    "triggerMappings ms p1 ac1 = Some (p', ac', ms1)" "ms' = m1 # ms1"
    by (auto split: option.splits)
  have "tame_item m1" "calm_pool p1" using tame_trigger [OF m(1)] Cons.prems(2,3) by auto
  then show ?case using Cons.IH [OF m(2)] Cons.prems(2) m(3) by auto
qed simp

definition calm_system :: "bind_system \<Rightarrow> bool" where
  "calm_system s \<longleftrightarrow> calm_pool (sy_pool s) \<and> (\<forall>m \<in> set (sy_mappings s). tame_item m)
     \<and> (\<forall>gs sent. sy_main s = Interrupting gs sent \<longrightarrow> set gs \<subseteq> dom (po_async (sy_pool s)))"

lemma calm_interrupt: "calm_pool p \<Longrightarrow> calm_pool (interrupt_all gs p)"
  by (auto simp: calm_pool_def interrupt_all_def dom_def split: if_splits)

lemma calm_event:
  assumes "main_event interrupt ev s = Some s'" "calm_system s" "sy_main s = Idle"
  shows "calm_system s'"
proof -
  obtain p ac ms where t: "triggerMappings (sy_mappings s) (new_context (sy_pool s)) ev = Some (p, ac, ms)"
    "s' = (if shouldInterrupt interrupt ac
      then s\<lparr>sy_pool := interrupt_all (interruptible p) p, sy_mappings := ms,
             sy_main := Interrupting (interruptible p) (if \<not> Event_IsEmpty (Some ac) then [ac] else [])\<rparr>
      else s\<lparr>sy_pool := p, sy_mappings := ms, sy_sent := sy_sent s @ (if \<not> Event_IsEmpty (Some ac) then [ac] else [])\<rparr>)"
    using assms(1) by (auto simp: main_event_def bind_event_def)
  have p: "\<forall>m \<in> set ms. tame_item m" "calm_pool p"
    using tame_triggers [OF t(1)] assms(2) by (auto simp: calm_system_def)
  have "set (interruptible p) \<subseteq> dom (po_async p)" using p(2) by (auto simp: interruptible_def calm_pool_def)
  moreover have "dom (po_async (interrupt_all gs p)) = dom (po_async p)" for gs by (auto simp: interrupt_all_def dom_def)
  ultimately show ?thesis using p calm_interrupt [OF p(2)] assms(3) by (simp add: t(2) calm_system_def)
qed

lemma calm_async:
  assumes "async_command g s c" "run_command g c (sy_pool s) = Some (p, sent)" "calm_system s"
  obtains pl a where "po_async (sy_pool s) g = Some a" "moved g pl (sy_pool s) p" "rank pl < rank (as_place a)"
    "calm_system (s\<lparr>sy_pool := p, sy_sent := sy_sent s @ sent\<rparr>)"
proof -
  obtain a where a: "po_async (sy_pool s) g = Some a"
    "c \<in> set (commands (po_now (sy_pool s)) (as_interrupt a) (as_finished a) (as_place a))"
    using assms(1) by (auto simp: async_command_def split: option.splits)
  have calm: "calm (as_place a)" "calm_pool (sy_pool s)" using assms(3) a(1) by (auto simp: calm_system_def calm_pool_def)
  from calm_leads [OF calm(1) a(2)] have c: "plain_command c" by blast
  obtain pl where pl: "leads_to c pl" "moved g pl (sy_pool s) p" using run_plain [OF _ assms(2)] c by (auto simp: plain_command_def)
  have next_place: "calm pl" "rank pl < rank (as_place a)" using calm_leads [OF calm(1) a(2)] pl(1) by auto
  have "calm_pool p" using calm_moved [OF calm(2) next_place(1) pl(2)] .
  then have "calm_system (s\<lparr>sy_pool := p, sy_sent := sy_sent s @ sent\<rparr>)"
    using assms(3) moved_async(3) [OF pl(2)] by (simp add: calm_system_def)
  then show ?thesis using that [OF a(1) pl(2) next_place(2)] by blast
qed

lemma calm_tick: "calm_system s \<Longrightarrow> calm_system (s\<lparr>sy_pool := (sy_pool s)\<lparr>po_now := t\<rparr>\<rparr>)"
  by (simp add: calm_system_def calm_pool_def)

lemma calm_step:
  assumes "bind_step interrupt s s'" "calm_system s"
  shows "calm_system s'"
  using assms(1)
proof (cases rule: bind_step.cases)
  case (event ev)
  then show ?thesis using calm_event assms(2) by blast
next
  case (interrupted gs sent)
  then show ?thesis using assms(2) by (simp add: calm_system_def)
next
  case tick
  then show ?thesis using calm_tick assms(2) by simp
next
  case (async g c p sent)
  show ?thesis using async(2,3) assms(2) by (rule calm_async) (simp add: async(1))
qed

lemma calm_new_bind: "\<forall>(us, a) \<in> set items. tame a \<Longrightarrow> calm_system (new_bind items)"
  by (auto simp: calm_system_def new_bind_def NewActionContextPool_def calm_pool_def tame_item_def new_bindItem_def)

lemma calm_reachable: "(bind_step interrupt)\<^sup>*\<^sup>* s s' \<Longrightarrow> calm_system s \<Longrightarrow> calm_system s'"
  by (induction rule: rtranclp_induct) (auto intro: calm_step)

subsection \<open>Interruptions end\<close>

lemma ticks: "(bind_step interrupt)\<^sup>*\<^sup>* s (s\<lparr>sy_pool := (sy_pool s)\<lparr>po_now := po_now (sy_pool s) + int n\<rparr>\<rparr>)"
proof (induction n)
  case (Suc n)
  let ?s = "s\<lparr>sy_pool := (sy_pool s)\<lparr>po_now := po_now (sy_pool s) + int n\<rparr>\<rparr>"
  have "bind_step interrupt ?s (s\<lparr>sy_pool := (sy_pool s)\<lparr>po_now := po_now (sy_pool s) + int (Suc n)\<rparr>\<rparr>)"
    using tick [of interrupt ?s] by (simp add: algebra_simps)
  then show ?case using Suc.IH by (rule rtranclp.rtrancl_into_rtrancl [rotated])
qed simp

definition pending_rank :: "nat list \<Rightarrow> bind_system \<Rightarrow> nat" where
  "pending_rank gs s = sum_list (map (\<lambda>g. case po_async (sy_pool s) g of None \<Rightarrow> 0 | Some a \<Rightarrow> rank (as_place a)) gs)"

text \<open>A goroutine that has not returned can be brought nearer to its end.\<close>

lemma calm_progress:
  assumes "calm_system s" "sy_main s = Interrupting gs sent" "g \<in> set gs" "\<not> returned (sy_pool s) g"
  shows "\<exists>s'. (bind_step interrupt)\<^sup>*\<^sup>* s s' \<and> calm_system s' \<and> sy_main s' = Interrupting gs sent \<and> pending_rank gs s' < pending_rank gs s"
proof -
  obtain a where a: "po_async (sy_pool s) g = Some a" "as_place a \<noteq> Returned"
    using assms by (auto simp: calm_system_def returned_def as_done_def split: option.splits)
  let ?n = "nat (deadline (as_place a) - po_now (sy_pool s))"
  let ?s1 = "s\<lparr>sy_pool := (sy_pool s)\<lparr>po_now := po_now (sy_pool s) + int ?n\<rparr>\<rparr>"
  have s1: "calm_system ?s1" "(bind_step interrupt)\<^sup>*\<^sup>* s ?s1" by (rule calm_tick [OF assms(1)]) (rule ticks)
  have "commands (po_now (sy_pool ?s1)) (as_interrupt a) (as_finished a) (as_place a) \<noteq> []"
    using a(2) by (intro commands_available) simp_all
  then obtain c where c: "c \<in> set (commands (po_now (sy_pool ?s1)) (as_interrupt a) (as_finished a) (as_place a))"
    by (metis list.set_intros(1) neq_Nil_conv)
  have "calm (as_place a)" using assms(1) a(1) by (auto simp: calm_system_def calm_pool_def)
  with calm_leads [OF _ c] have plain: "plain_command c" by blast
  with c a have async: "async_command g ?s1 c" by (simp add: async_command_def plain_command_def)
  obtain p ev where run: "run_command g c (sy_pool ?s1) = Some (p, ev)" using run_plain_total [OF plain] by fastforce
  let ?s2 = "?s1\<lparr>sy_pool := p, sy_sent := sy_sent ?s1 @ ev\<rparr>"
  obtain pl a' where r: "po_async (sy_pool ?s1) g = Some a'" "moved g pl (sy_pool ?s1) p" "rank pl < rank (as_place a')" "calm_system ?s2"
    using async run s1(1) by (rule calm_async)
  then have less: "rank pl < rank (as_place a)" using a(1) by simp
  let ?r = "\<lambda>q k. case po_async q k of None \<Rightarrow> 0 | Some a \<Rightarrow> rank (as_place a)"
  have same: "?r p k = ?r (sy_pool s) k" if "k \<noteq> g" for k using moved_async(1) [OF r(2) that] by simp
  have own: "?r p g < ?r (sy_pool s) g" using moved_async(2) [OF r(2,1)] less a(1) by auto
  have "sum_list (map (?r p) xs) \<le> sum_list (map (?r (sy_pool s)) xs)
      \<and> (g \<in> set xs \<longrightarrow> sum_list (map (?r p) xs) < sum_list (map (?r (sy_pool s)) xs))" for xs
  proof (induction xs)
    case (Cons k xs)
    then show ?case using own same [of k] by (cases "k = g") auto
  qed simp
  then have "pending_rank gs ?s2 < pending_rank gs s" using assms(3) by (simp add: pending_rank_def)
  moreover have "(bind_step interrupt)\<^sup>*\<^sup>* s ?s2"
    using s1(2) bind_step.async [OF async run] by (rule rtranclp.rtrancl_into_rtrancl)
  ultimately show ?thesis using r(4) assms(2) by (intro exI [of _ ?s2]) simp
qed

lemma interruption_ends:
  "calm_system s \<Longrightarrow> sy_main s = Interrupting gs sent \<Longrightarrow> \<exists>s'. (bind_step interrupt)\<^sup>*\<^sup>* s s' \<and> sy_main s' = Idle"
proof (induction "pending_rank gs s" arbitrary: s rule: less_induct)
  case less
  show ?case
  proof (cases "\<forall>g \<in> set gs. returned (sy_pool s) g")
    case True
    from interrupted [OF less.prems(2) this]
    show ?thesis by (intro exI [of _ "s\<lparr>sy_main := Idle, sy_sent := sy_sent s @ sent\<rparr>"]) auto
  next
    case False
    then obtain s1 where s1: "(bind_step interrupt)\<^sup>*\<^sup>* s s1" "calm_system s1" "sy_main s1 = Interrupting gs sent"
      "pending_rank gs s1 < pending_rank gs s"
      using calm_progress [OF less.prems] by blast
    then show ?thesis using less.hyps [OF s1(4,2,3)] by (meson rtranclp_trans)
  qed
qed

lemma becomes_idle:
  "calm_system s \<Longrightarrow> \<exists>s'. (bind_step interrupt)\<^sup>*\<^sup>* s s' \<and> sy_main s' = Idle"
  using interruption_ends by (cases "sy_main s") blast+

text \<open>The bind waits for a goroutine that will not return.\<close>

definition blocked :: "nat \<Rightarrow> bind_system \<Rightarrow> bool" where
  "blocked g s \<longleftrightarrow>
     (case sy_main s of Idle \<Rightarrow> False | Interrupting gs sent \<Rightarrow> g \<in> set gs)
     \<and> (case po_async (sy_pool s) g of None \<Rightarrow> False | Some a \<Rightarrow> stuck (as_place a) \<and> \<not> as_finished a)"

lemma blocked_waits: "blocked g s \<Longrightarrow> \<exists>gs sent. waits_for gs sent g s"
  by (auto simp: blocked_def waits_for_def split: main_phase.splits option.splits)

lemma waits_mappings: "bind_step interrupt s s' \<Longrightarrow> waits_for gs sent g s \<Longrightarrow> sy_mappings s' = sy_mappings s"
  by (cases rule: bind_step.cases) (auto simp: waits_for_def)

lemma blocked_for_ever:
  assumes "blocked g s" "(bind_step interrupt)\<^sup>*\<^sup>* s s'"
  shows "sy_main s' = sy_main s \<and> sy_mappings s' = sy_mappings s \<and> blocked g s'"
proof -
  obtain gs sent where w: "waits_for gs sent g s" using blocked_waits [OF assms(1)] by blast
  have "waits_for gs sent g s' \<and> sy_mappings s' = sy_mappings s"
    using assms(2) by (induction rule: rtranclp_induct) (use w in \<open>auto dest: waits_step waits_mappings\<close>)
  then show ?thesis using w by (auto simp: waits_for_def blocked_def)
qed

subsection \<open>A modifier that is released before its delay\<close>

definition key_event :: "Usage \<Rightarrow> bool \<Rightarrow> Event" where
  "key_event u on = the (if on then Event_Activate (NewEvent 0) [u] else Event_Deactivate (NewEvent 0) [u])"

definition after_event :: "(u16 \<Rightarrow> u16 \<Rightarrow> bool) \<Rightarrow> Event \<Rightarrow> bind_system \<Rightarrow> bind_system" where
  "after_event interrupt ev s = (case main_event interrupt ev s of None \<Rightarrow> s | Some s' \<Rightarrow> s')"

definition after_interrupted :: "bind_system \<Rightarrow> bind_system" where
  "after_interrupted s =
     (case sy_main s of
        Idle \<Rightarrow> s
      | Interrupting gs sent \<Rightarrow>
          if \<forall>g \<in> set gs. returned (sy_pool s) g then s\<lparr>sy_main := Idle, sy_sent := sy_sent s @ sent\<rparr> else s)"

definition after_tick :: "bind_system \<Rightarrow> bind_system" where
  "after_tick s = s\<lparr>sy_pool := (sy_pool s)\<lparr>po_now := po_now (sy_pool s) + 1\<rparr>\<rparr>"

definition after_async :: "nat \<Rightarrow> bind_system \<Rightarrow> bind_system" where
  "after_async g s =
     (case po_async (sy_pool s) g of
        None \<Rightarrow> s
      | Some a \<Rightarrow>
          (case commands (po_now (sy_pool s)) (as_interrupt a) (as_finished a) (as_place a) of
             [] \<Rightarrow> s
           | c # _ \<Rightarrow> (case run_command g c (sy_pool s) of None \<Rightarrow> s | Some (p, sent) \<Rightarrow> s\<lparr>sy_pool := p, sy_sent := sy_sent s @ sent\<rparr>)))"

lemma after_event_step: "sy_main s = Idle \<Longrightarrow> (bind_step interrupt)\<^sup>*\<^sup>* s (after_event interrupt ev s)"
  by (auto simp: after_event_def split: option.splits intro!: r_into_rtranclp event)

lemma after_interrupted_step: "(bind_step interrupt)\<^sup>*\<^sup>* s (after_interrupted s)"
  by (auto simp: after_interrupted_def split: main_phase.splits intro!: r_into_rtranclp interrupted)

lemma after_tick_step: "(bind_step interrupt)\<^sup>*\<^sup>* s (after_tick s)"
  unfolding after_tick_def by (intro r_into_rtranclp tick)

lemma after_async_step: "sy_main s = Idle \<Longrightarrow> (bind_step interrupt)\<^sup>*\<^sup>* s (after_async g s)"
  by (auto simp: after_async_def async_command_def split: option.splits list.splits intro!: r_into_rtranclp async)

text \<open>Key 4 is bound to key 5 with the modifier 225, which waits one tick; it is released before.\<close>

definition mod_binding :: "(Usage list \<times> act) list" where
  "mod_binding = [([4], ModAct [225] (Toggle [5]) 1)]"

definition never_interrupt :: "u16 \<Rightarrow> u16 \<Rightarrow> bool" where
  "never_interrupt page i = False"

definition mod_pressed :: bind_system where
  "mod_pressed = after_event never_interrupt (key_event 4 True) (new_bind mod_binding)"

definition mod_released :: bind_system where
  "mod_released = after_event never_interrupt (key_event 4 False) mod_pressed"

definition mod_late :: bind_system where
  "mod_late = after_async 0 (after_tick mod_released)"

lemma mod_idle: "sy_main (new_bind mod_binding) = Idle" "sy_main mod_pressed = Idle" "sy_main (after_tick mod_released) = Idle"
  by code_simp+

lemma mod_late_reachable: "(bind_step never_interrupt)\<^sup>*\<^sup>* (new_bind mod_binding) mod_late"
proof -
  have "(bind_step never_interrupt)\<^sup>*\<^sup>* (new_bind mod_binding) mod_pressed"
    unfolding mod_pressed_def using mod_idle(1) by (rule after_event_step)
  also have "(bind_step never_interrupt)\<^sup>*\<^sup>* mod_pressed mod_released"
    unfolding mod_released_def using mod_idle(2) by (rule after_event_step)
  also have "(bind_step never_interrupt)\<^sup>*\<^sup>* mod_released (after_tick mod_released)" by (rule after_tick_step)
  also have "(bind_step never_interrupt)\<^sup>*\<^sup>* (after_tick mod_released) mod_late"
    unfolding mod_late_def using mod_idle(3) by (rule after_async_step)
  finally show ?thesis .
qed

text \<open>The key is up, no action is left, and the modifier and the key it was bound to are held.\<close>

lemma mod_late_holds:
  "po_active (sy_pool mod_late) = [] \<and> returned (sy_pool mod_late) 0
   \<and> (\<forall>m \<in> set (sy_mappings mod_late). \<not> bi_triggered m \<and> bi_finalizer m = None)
   \<and> fold hold (sy_sent mod_late) {} = {225, 5}"
  by code_simp

text \<open>Key 4 repeats itself, and key 5 is pressed while it does.\<close>

definition always_interrupt :: "u16 \<Rightarrow> u16 \<Rightarrow> bool" where
  "always_interrupt page i = True"

definition repeat_binding :: "(Usage list \<times> act) list" where
  "repeat_binding = [([4], RepeatAct (Toggle [4]) 150 50)]"

definition repeat_pressed :: bind_system where
  "repeat_pressed = after_interrupted (after_event always_interrupt (key_event 4 True) (new_bind repeat_binding))"

definition repeat_interrupted :: bind_system where
  "repeat_interrupted = after_event always_interrupt (key_event 5 True) repeat_pressed"

lemma repeat_idle: "sy_main (new_bind repeat_binding) = Idle" "sy_main repeat_pressed = Idle"
  by code_simp+

lemma repeat_interrupted_reachable: "(bind_step always_interrupt)\<^sup>*\<^sup>* (new_bind repeat_binding) repeat_interrupted"
proof -
  have "(bind_step always_interrupt)\<^sup>*\<^sup>* (new_bind repeat_binding) (after_event always_interrupt (key_event 4 True) (new_bind repeat_binding))"
    using repeat_idle(1) by (rule after_event_step)
  also have "(bind_step always_interrupt)\<^sup>*\<^sup>* \<dots> repeat_pressed"
    unfolding repeat_pressed_def by (rule after_interrupted_step)
  also have "(bind_step always_interrupt)\<^sup>*\<^sup>* repeat_pressed repeat_interrupted"
    unfolding repeat_interrupted_def using repeat_idle(2) by (rule after_event_step)
  finally show ?thesis .
qed

lemma repeat_interrupted_blocked: "blocked 0 repeat_interrupted"
  by code_simp

text \<open>A tap-hold whose hold is a modifier, interrupted before its delay.\<close>

definition hold_binding :: "(Usage list \<times> act) list" where
  "hold_binding = [([4], TapHoldAct (Toggle [4]) (ModAct [225] (Toggle [6]) 1) 250 1)]"

lemma hold_interrupted_blocked:
  "blocked 0 (after_event always_interrupt (key_event 5 True)
     (after_interrupted (after_event always_interrupt (key_event 4 True) (new_bind hold_binding))))"
  by code_simp

end
