(* ===== verification/TapHold.thy ===== *)
theory TapHold
  imports AsyncFacts
begin

section \<open>What a tap-hold sends\<close>

text \<open>
  One goroutine of \<open>tapHold\<close>, followed through every run of its bind: the events it sends, whatever the
  clock, the other goroutines and the events of the bind do in between.
\<close>

subsection \<open>Watching a goroutine\<close>

text \<open>The log has, for each action that the goroutine runs or finishes, the time and what it sent.\<close>

definition logged :: "command \<Rightarrow> int \<Rightarrow> Event list \<Rightarrow> (int \<times> Event list) list" where
  "logged c now sent = (case c of Goto pl \<Rightarrow> [] | _ \<Rightarrow> [(now, sent)])"

inductive watched :: "(u16 \<Rightarrow> u16 \<Rightarrow> bool) \<Rightarrow> nat \<Rightarrow> bind_system \<times> (int \<times> Event list) list \<Rightarrow> bind_system \<times> (int \<times> Event list) list \<Rightarrow> bool"
  for interrupt g where
  event: "sy_main s = Idle \<Longrightarrow> main_event interrupt ev s = Some s' \<Longrightarrow> watched interrupt g (s, l) (s', l)"
| interrupted: "sy_main s = Interrupting gs sent \<Longrightarrow> (\<forall>k \<in> set gs. returned (sy_pool s) k) \<Longrightarrow>
    watched interrupt g (s, l) (s\<lparr>sy_main := Idle, sy_sent := sy_sent s @ sent\<rparr>, l)"
| tick: "watched interrupt g (s, l) (s\<lparr>sy_pool := (sy_pool s)\<lparr>po_now := po_now (sy_pool s) + 1\<rparr>\<rparr>, l)"
| other: "k \<noteq> g \<Longrightarrow> async_command k s c \<Longrightarrow> run_command k c (sy_pool s) = Some (p, sent) \<Longrightarrow>
    watched interrupt g (s, l) (s\<lparr>sy_pool := p, sy_sent := sy_sent s @ sent\<rparr>, l)"
| own: "async_command g s c \<Longrightarrow> run_command g c (sy_pool s) = Some (p, sent) \<Longrightarrow>
    watched interrupt g (s, l) (s\<lparr>sy_pool := p, sy_sent := sy_sent s @ sent\<rparr>, l @ logged c (po_now (sy_pool s)) sent)"

lemma watched_step: "watched interrupt g (s, l) (s', l') \<Longrightarrow> bind_step interrupt s s'"
  by (cases rule: watched.cases) (auto intro: bind_step.intros)

subsection \<open>What others do to a goroutine\<close>

text \<open>Others leave its place alone; what they registered, the interruption and the end are only added.\<close>

definition kept :: "nat \<Rightarrow> pool \<Rightarrow> pool \<Rightarrow> bool" where
  "kept g p p' \<longleftrightarrow> (\<forall>a. po_async p g = Some a \<longrightarrow> (\<exists>a'. po_async p' g = Some a' \<and> as_place a' = as_place a \<and> as_onFinish a' = as_onFinish a
     \<and> (as_interrupt a \<longrightarrow> as_interrupt a') \<and> (as_finished a \<longrightarrow> as_finished a')))
     \<and> po_next p \<le> po_next p' \<and> po_now p \<le> po_now p'"

lemma kept_refl [simp]: "kept g p p"
  by (simp add: kept_def)

lemma kept_trans: "kept g p q \<Longrightarrow> kept g q r \<Longrightarrow> kept g p r"
  unfolding kept_def by (intro conjI allI impI; fastforce)

lemma kept_simps [simp]:
  "kept g p (new_context p)" "kept g p (run_signal i p)" "kept g p (close_finished k p)" "kept g p (interrupt_all gs p)"
  "kept g p (p\<lparr>po_active := xs\<rparr>)" "t \<ge> po_now p \<Longrightarrow> kept g p (p\<lparr>po_now := t\<rparr>)" "k \<noteq> g \<Longrightarrow> kept g p (set_async k pl fs p)"
  by (auto simp: kept_def new_context_def run_signal_def close_finished_def interrupt_all_def set_async_def)

text \<open>New goroutines get numbers that are free.\<close>

definition numbered :: "pool \<Rightarrow> bool" where
  "numbered p \<longleftrightarrow> (\<forall>g a. po_async p g = Some a \<longrightarrow> g < po_next p)"

lemma numbered_simps [simp]:
  "numbered (new_context p) = numbered p" "numbered (run_signal i p) = numbered p"
  "numbered (p\<lparr>po_active := xs\<rparr>) = numbered p" "numbered (p\<lparr>po_now := t\<rparr>) = numbered p"
  "numbered p \<Longrightarrow> numbered (close_finished k p)" "numbered p \<Longrightarrow> numbered (interrupt_all gs p)" "numbered p \<Longrightarrow> numbered (set_async k pl fs p)"
  by (auto simp: numbered_def new_context_def run_signal_def close_finished_def interrupt_all_def set_async_def)

lemma runAsync_kept: "numbered p \<Longrightarrow> runAsync pl p = (p', f) \<Longrightarrow> kept g p p' \<and> numbered p'"
  unfolding numbered_def by (auto simp: runAsync_def Let_def kept_def less_Suc_eq)

lemma start_kept: "start_act a p e = Some (p', e', f) \<Longrightarrow> numbered p \<Longrightarrow> kept g p p' \<and> numbered p'"
proof (induction a arbitrary: p e p' e' f)
  case (ModAct us a d)
  show ?case using ModAct.prems(1) runAsync_kept [OF ModAct.prems(2)]
    by (cases "runAsync (ModDelay us a (po_now p + d)) p") auto
next
  case (RepeatAct a d interval)
  obtain q e1 f1 where q: "start_act a p e = Some (q, e1, f1)" "repeat_start a f1 d interval q e1 = Some (p', e', f)"
    using RepeatAct.prems(1) by (auto split: option.splits)
  have 1: "kept g p q" "numbered q" using RepeatAct.IH [OF q(1) RepeatAct.prems(2)] by simp_all
  have "kept g q p' \<and> numbered p'"
    using q(2) runAsync_kept [OF 1(2)] by (auto simp: Let_def split: prod.splits)
  then show ?case using 1(1) kept_trans by blast
qed (auto simp: Let_def split: prod.splits option.splits if_splits dest: runAsync_kept)

lemma finish_kept: "finish_all ts p e = Some (p', e') \<Longrightarrow> numbered p \<Longrightarrow> kept g p p' \<and> numbered p'"
proof (induction ts p e rule: finish_all.induct)
  case (2 us ts p e)
  then show ?case by (auto split: option.splits)
next
  case (3 i ts p e)
  then show ?case using kept_trans [OF kept_simps(2)] by auto
next
  case (4 k ts p e)
  then show ?case using kept_trans [OF kept_simps(5)] by (auto split: if_splits)
next
  case (5 k ts p e)
  then show ?case using kept_trans [OF kept_simps(3)] by auto
qed simp

lemma run_kept:
  assumes "run_command k c p = Some (p', sent)" "numbered p"
  shows "(k \<noteq> g \<longrightarrow> kept g p p') \<and> numbered p'"
proof -
  have *: "(k \<noteq> g \<longrightarrow> kept g p (set_async k pl fs q)) \<and> numbered (set_async k pl fs q)"
    if "kept g (new_context p) q \<and> numbered q" for pl fs q
    using that kept_trans [OF kept_simps(1)] kept_trans [OF _ kept_simps(7)] by auto
  have n: "numbered (new_context p)" using assms(2) by simp
  show ?thesis
  proof (cases c)
    case (Goto pl)
    then show ?thesis using assms by (auto simp: run_command_def)
  next
    case (DoAction a f h)
    then show ?thesis using assms(1) start_kept [OF _ n] * by (fastforce simp: run_command_def)
  next
    case (DoFinish f pl)
    then show ?thesis using assms finish_kept [OF _ n] * by (cases f) (fastforce simp: run_command_def)+
  qed
qed

subsection \<open>The mappings of a bind\<close>

definition act_item :: "pool bindItem \<Rightarrow> bool" where
  "act_item m \<longleftrightarrow> (\<exists>a. bi_handler m = act_handler a) \<and> (\<forall>f. bi_finalizer m = Some f \<longrightarrow> (\<exists>x. f = act_finalizer x))"

lemma trigger_kept:
  assumes "trigger_item p ac m = Some (p', ac', m')" "act_item m" "numbered p"
  shows "act_item m' \<and> kept g p p' \<and> numbered p'"
proof -
  obtain a where a: "bi_handler m = act_handler a" using assms(2) by (auto simp: act_item_def)
  obtain on t ac1 where t: "trigger_Check (bi_trigger m) ac = Some (on, t, ac1)"
    using assms(1) by (auto simp: trigger_item_def split: option.splits)
  consider "on" "\<not> bi_triggered m" | "\<not> on" "bi_triggered m" | "on = bi_triggered m" by blast
  then show ?thesis
  proof cases
    case 1
    then show ?thesis using assms t a start_kept
      by (fastforce simp: trigger_item_def act_item_def act_handler_def)
  next
    case 2
    show ?thesis
    proof (cases "bi_finalizer m")
      case None
      then show ?thesis using 2 assms t by (auto simp: trigger_item_def act_item_def)
    next
      case (Some f)
      then obtain x where "f = act_finalizer x" using assms(2) by (auto simp: act_item_def)
      then show ?thesis using 2 Some assms t finish_kept
        by (fastforce simp: trigger_item_def act_item_def act_finalizer_def)
    qed
  next
    case 3
    then show ?thesis using assms t by (auto simp: trigger_item_def act_item_def)
  qed
qed

lemma triggers_kept:
  "triggerMappings ms p ac = Some (p', ac', ms') \<Longrightarrow> \<forall>m \<in> set ms. act_item m \<Longrightarrow> numbered p
   \<Longrightarrow> (\<forall>m \<in> set ms'. act_item m) \<and> kept g p p' \<and> numbered p'"
proof (induction ms arbitrary: p ac p' ac' ms')
  case (Cons m ms)
  obtain q ac1 m1 ms1 where r: "trigger_item p ac m = Some (q, ac1, m1)" "triggerMappings ms q ac1 = Some (p', ac', ms1)" "ms' = m1 # ms1"
    using Cons.prems(1) by (auto split: option.splits)
  have 1: "act_item m1 \<and> kept g p q \<and> numbered q" using trigger_kept [OF r(1)] Cons.prems by simp
  have "(\<forall>m \<in> set ms1. act_item m) \<and> kept g q p' \<and> numbered p'" using Cons.IH [OF r(2)] Cons.prems 1 by simp
  then show ?case using 1 r(3) kept_trans by auto
qed simp

definition ordered_system :: "bind_system \<Rightarrow> bool" where
  "ordered_system s \<longleftrightarrow> numbered (sy_pool s) \<and> (\<forall>m \<in> set (sy_mappings s). act_item m)"

lemma event_kept:
  assumes "main_event interrupt ev s = Some s'" "ordered_system s"
  shows "ordered_system s' \<and> kept g (sy_pool s) (sy_pool s')"
proof -
  obtain p ac ms where t: "triggerMappings (sy_mappings s) (new_context (sy_pool s)) ev = Some (p, ac, ms)"
    "sy_mappings s' = ms" "sy_pool s' = (if shouldInterrupt interrupt ac then interrupt_all (interruptible p) p else p)"
    using assms(1) by (auto simp: main_event_def bind_event_def)
  have 1: "(\<forall>m \<in> set ms. act_item m) \<and> kept g (new_context (sy_pool s)) p \<and> numbered p"
    using triggers_kept [OF t(1)] assms(2) by (simp add: ordered_system_def)
  then have "kept g (sy_pool s) p" using kept_trans [OF kept_simps(1)] by blast
  then show ?thesis using 1 t kept_trans [OF _ kept_simps(4)] by (simp add: ordered_system_def)
qed

lemma ordered_new_bind: "ordered_system (new_bind items)"
  by (auto simp: ordered_system_def new_bind_def NewActionContextPool_def numbered_def act_item_def new_bindItem_def)

lemma ordered_step: "bind_step interrupt s s' \<Longrightarrow> ordered_system s \<Longrightarrow> ordered_system s'"
  by (cases rule: bind_step.cases) (auto simp: ordered_system_def dest: event_kept run_kept)

lemma ordered_reachable: "(bind_step interrupt)\<^sup>*\<^sup>* s s' \<Longrightarrow> ordered_system s \<Longrightarrow> ordered_system s'"
  by (induction rule: rtranclp_induct) (auto intro: ordered_step)

subsection \<open>The phases of a tap-hold\<close>

definition pressed :: "Usage list \<Rightarrow> int \<Rightarrow> Event list" where
  "pressed us n = (case Event_Activate (NewEvent n) us of None \<Rightarrow> [] | Some e \<Rightarrow> sent_event e)"

definition released :: "Usage list \<Rightarrow> int \<Rightarrow> Event list" where
  "released us n = (case Event_Deactivate (NewEvent n) us of None \<Rightarrow> [] | Some e \<Rightarrow> sent_event e)"

text \<open>Where the goroutine stands and what it sent, for the keys, the deadline and the duration of the tap.\<close>

definition hold_phase :: "Usage list \<Rightarrow> Usage list \<Rightarrow> int \<Rightarrow> int \<Rightarrow> int \<Rightarrow> async \<Rightarrow> (int \<times> Event list) list \<Rightarrow> bool" where
  "hold_phase tap hld t td now a log \<longleftrightarrow>
     (case as_place a of
        HoldSelect x y t' d \<Rightarrow> log = [] \<and> x = Toggle tap \<and> y = Toggle hld \<and> t' = t \<and> d = td \<and> as_onFinish a = []
      | HoldInterrupted y d \<Rightarrow> log = [] \<and> y = Toggle hld \<and> d = td \<and> as_interrupt a \<and> as_onFinish a = []
      | HoldLong y \<Rightarrow> log = [] \<and> y = Toggle hld \<and> t \<le> now \<and> as_onFinish a = []
      | HoldTap x d \<Rightarrow> log = [] \<and> x = Toggle tap \<and> d = td \<and> as_finished a \<and> as_onFinish a = []
      | HoldDelay t' \<Rightarrow> (\<exists>n. log = [(n, pressed hld n)] \<and> (as_interrupt a \<or> t \<le> n)) \<and> as_onFinish a = [Deactivate hld]
      | TapDelay f t' \<Rightarrow> (\<exists>n. log = [(n, pressed tap n)] \<and> t' = n + td) \<and> f = Some (Deactivate tap) \<and> as_finished a \<and> as_onFinish a = []
      | Returned \<Rightarrow>
          (\<exists>n. log = [(n, pressed hld n)] \<and> (as_interrupt a \<or> t \<le> n)) \<and> as_onFinish a = [Deactivate hld]
          \<or> (\<exists>n m. log = [(n, pressed tap n), (m, released tap m)] \<and> n + td \<le> m) \<and> as_finished a \<and> as_onFinish a = []
      | _ \<Rightarrow> False)"

lemma hold_phase_kept:
  assumes "hold_phase tap hld t td now a log" "as_place a' = as_place a" "as_onFinish a' = as_onFinish a"
    "as_interrupt a \<longrightarrow> as_interrupt a'" "as_finished a \<longrightarrow> as_finished a'" "now \<le> now'"
  shows "hold_phase tap hld t td now' a' log"
  using assms by (cases "as_place a") (auto simp: hold_phase_def)

text \<open>The effect of an own step on the place and on the log.\<close>

lemma toggle_run:
  assumes "run_command g (DoAction (Toggle us) k h) p = Some (p', sent)"
  shows "p' = set_async g (k (Some (Deactivate us))) (h (Some (Deactivate us))) (new_context p) \<and> sent = pressed us (po_now p)"
  using assms by (auto simp: run_command_def pressed_def)

lemma untoggle_run:
  assumes "run_command g (DoFinish (Some (Deactivate us)) pl) p = Some (p', sent)"
  shows "p' = set_async g pl [] (new_context p) \<and> sent = released us (po_now p)"
  using assms by (auto simp: run_command_def released_def split: option.splits)

lemma set_async_own [simp]:
  "po_async p g = Some a \<Longrightarrow> po_async (set_async g pl fs p) g = Some (a\<lparr>as_place := pl, as_onFinish := as_onFinish a @ fs\<rparr>)"
  "po_async (new_context p) = po_async p" "po_now (set_async g pl fs p) = po_now p" "po_now (new_context p) = po_now p"
  by (simp_all add: set_async_def new_context_def)

lemma hold_phase_own:
  assumes "hold_phase tap hld t td (po_now p) a log" "po_async p g = Some a"
    "c \<in> set (commands (po_now p) (as_interrupt a) (as_finished a) (as_place a))" "run_command g c p = Some (p', sent)"
  shows "\<exists>a'. po_async p' g = Some a' \<and> hold_phase tap hld t td (po_now p') a' (log @ logged c (po_now p) sent)"
proof (cases "as_place a")
  case (HoldSelect x y t' d)
  then show ?thesis using assms by (auto simp: hold_phase_def run_command_def logged_def split: if_splits)
next
  case (HoldInterrupted y d)
  then have c: "c = DoAction (Toggle hld) (\<lambda>fin. HoldDelay (po_now p + d)) opt_list" using assms(1,3) by (simp add: hold_phase_def)
  show ?thesis using HoldInterrupted assms(1,2) toggle_run [OF assms(4) [unfolded c]]
    by (auto simp: hold_phase_def logged_def c opt_list_def)
next
  case (HoldLong y)
  then have c: "c = DoAction (Toggle hld) (\<lambda>fin. Returned) opt_list" using assms(1,3) by (simp add: hold_phase_def)
  show ?thesis using HoldLong assms(1,2) toggle_run [OF assms(4) [unfolded c]]
    by (auto simp: hold_phase_def logged_def c opt_list_def)
next
  case (HoldTap x d)
  then have c: "c = DoAction (Toggle tap) (\<lambda>fin. TapDelay fin (po_now p + d)) (\<lambda>fin. [])" using assms(1,3) by (simp add: hold_phase_def)
  show ?thesis using HoldTap assms(1,2) toggle_run [OF assms(4) [unfolded c]]
    by (auto simp: hold_phase_def logged_def c)
next
  case (HoldDelay t')
  then show ?thesis using assms by (auto simp: hold_phase_def run_command_def logged_def)
next
  case (TapDelay f t')
  then have c: "c = DoFinish (Some (Deactivate tap)) Returned" "t' \<le> po_now p" using assms(1,3) by (simp_all add: hold_phase_def)
  show ?thesis using TapDelay c(2) assms(1,2) untoggle_run [OF assms(4) [unfolded c(1)]]
    by (auto simp: hold_phase_def logged_def c(1))
qed (use assms in \<open>auto simp: hold_phase_def\<close>)

subsection \<open>Through every run\<close>

text \<open>
  The phases of a goroutine are a predicate of the time, its place and its log. Others keep it, and its own
  steps lead from one phase to the next; then it holds in every state that is reached.
\<close>

locale goroutine_phase =
  fixes phase :: "int \<Rightarrow> async \<Rightarrow> (int \<times> Event list) list \<Rightarrow> bool"
  assumes phase_kept: "phase now a log \<Longrightarrow> as_place a' = as_place a \<Longrightarrow> as_onFinish a' = as_onFinish a \<Longrightarrow>
      (as_interrupt a \<longrightarrow> as_interrupt a') \<Longrightarrow> (as_finished a \<longrightarrow> as_finished a') \<Longrightarrow> now \<le> now' \<Longrightarrow> phase now' a' log"
    and phase_own: "phase (po_now p) a log \<Longrightarrow> po_async p g = Some a \<Longrightarrow>
      c \<in> set (commands (po_now p) (as_interrupt a) (as_finished a) (as_place a)) \<Longrightarrow> run_command g c p = Some (p', sent) \<Longrightarrow>
      \<exists>a'. po_async p' g = Some a' \<and> phase (po_now p') a' (log @ logged c (po_now p) sent)"
begin

lemma kept_phase:
  assumes "po_async p g = Some a" "phase (po_now p) a log" "kept g p p'"
  shows "\<exists>a'. po_async p' g = Some a' \<and> phase (po_now p') a' log"
  using assms phase_kept unfolding kept_def by blast

lemma phase_step:
  assumes "watched interrupt g (s, l) (s', l')" "ordered_system s"
    "\<exists>a. po_async (sy_pool s) g = Some a \<and> phase (po_now (sy_pool s)) a l"
  shows "\<exists>a. po_async (sy_pool s') g = Some a \<and> phase (po_now (sy_pool s')) a l'"
proof -
  obtain a where a: "po_async (sy_pool s) g = Some a" "phase (po_now (sy_pool s)) a l" using assms(3) by blast
  show ?thesis using assms(1)
  proof (cases rule: watched.cases)
    case (event ev)
    then have "kept g (sy_pool s) (sy_pool s')" using event_kept assms(2) by blast
    then show ?thesis using kept_phase [OF a] event by simp
  next
    case (other k c p sent)
    then have "kept g (sy_pool s) (sy_pool s')" using run_kept assms(2) by (auto simp: ordered_system_def)
    then show ?thesis using kept_phase [OF a] other by simp
  next
    case (own c p sent)
    then have "c \<in> set (commands (po_now (sy_pool s)) (as_interrupt a) (as_finished a) (as_place a))"
      using a(1) by (simp add: async_command_def)
    from phase_own [OF a(2,1) this] show ?thesis using own by simp
  next
    case tick
    then show ?thesis using kept_phase [OF a, of "(sy_pool s)\<lparr>po_now := po_now (sy_pool s) + 1\<rparr>"] by simp
  qed (use a in simp_all)
qed

lemma phase_reachable:
  "(watched interrupt g)\<^sup>*\<^sup>* (s, l) (s', l') \<Longrightarrow> ordered_system s \<Longrightarrow>
   \<exists>a. po_async (sy_pool s) g = Some a \<and> phase (po_now (sy_pool s)) a l \<Longrightarrow>
   ordered_system s' \<and> (\<exists>a. po_async (sy_pool s') g = Some a \<and> phase (po_now (sy_pool s')) a l')"
proof (induction rule: rtranclp_induct2)
  case (step s1 l1 s2 l2)
  then show ?case using phase_step watched_step ordered_step by blast
qed simp

lemma phase_of_log:
  assumes "(bind_step interrupt)\<^sup>*\<^sup>* (new_bind items) s" "po_async (sy_pool s) g = Some a" "phase (po_now (sy_pool s)) a []"
    "(watched interrupt g)\<^sup>*\<^sup>* (s, []) (s', log)"
  shows "\<exists>a'. po_async (sy_pool s') g = Some a' \<and> phase (po_now (sy_pool s')) a' log"
  using phase_reachable [OF assms(4) ordered_reachable [OF assms(1) ordered_new_bind]] assms(2,3) by blast

end

interpretation hold: goroutine_phase "hold_phase tap hld t td" for tap hld t td
  by unfold_locales (rule hold_phase_kept, assumption+, rule hold_phase_own)

text \<open>The verdicts that a log can have.\<close>

definition tap_hold_log :: "Usage list \<Rightarrow> Usage list \<Rightarrow> int \<Rightarrow> int \<Rightarrow> async \<Rightarrow> (int \<times> Event list) list \<Rightarrow> bool" where
  "tap_hold_log tap hld t td a log \<longleftrightarrow>
     log = []
     \<or> (\<exists>n. log = [(n, pressed hld n)] \<and> (as_interrupt a \<or> t \<le> n) \<and> as_onFinish a = [Deactivate hld])
     \<or> as_finished a \<and> as_onFinish a = [] \<and>
       (\<exists>n. log = [(n, pressed tap n)] \<or> (\<exists>m. n + td \<le> m \<and> log = [(n, pressed tap n), (m, released tap m)]))"

lemma hold_phase_log: "hold_phase tap hld t td now a log \<Longrightarrow> tap_hold_log tap hld t td a log"
  by (cases "as_place a") (auto simp: hold_phase_def tap_hold_log_def)

lemma tap_hold_logs:
  assumes "(bind_step interrupt)\<^sup>*\<^sup>* (new_bind items) s" "po_async (sy_pool s) g = Some a"
    "as_place a = HoldSelect (Toggle tap) (Toggle hld) t td" "as_onFinish a = []"
    "(watched interrupt g)\<^sup>*\<^sup>* (s, []) (s', log)"
  shows "\<exists>a'. po_async (sy_pool s') g = Some a' \<and> tap_hold_log tap hld t td a' log"
proof -
  have "hold_phase tap hld t td (po_now (sy_pool s)) a []" using assms(3,4) by (simp add: hold_phase_def)
  from hold.phase_of_log [OF assms(1,2) this assms(5)] show ?thesis using hold_phase_log by blast
qed

text \<open>Every run of the bind can be watched.\<close>

lemma watched_complete:
  assumes "bind_step interrupt s s'"
  shows "\<exists>l'. watched interrupt g (s, l) (s', l')"
  using assms
proof (cases rule: bind_step.cases)
  case (async k c p sent)
  then show ?thesis by (cases "k = g") (auto intro: watched.own watched.other)
qed (auto intro: watched.intros)

lemma watched_runs: "(bind_step interrupt)\<^sup>*\<^sup>* s s' \<Longrightarrow> \<exists>l'. (watched interrupt g)\<^sup>*\<^sup>* (s, l) (s', l')"
proof (induction rule: rtranclp_induct)
  case (step s1 s2)
  then show ?case using watched_complete by (meson rtranclp.rtrancl_into_rtrancl)
qed auto

subsection \<open>Key 4, with a modifier when it is held\<close>

definition after_own :: "nat \<Rightarrow> bind_system \<times> (int \<times> Event list) list \<Rightarrow> bind_system \<times> (int \<times> Event list) list" where
  "after_own g sl =
     (let (s, l) = sl in
      case po_async (sy_pool s) g of
        None \<Rightarrow> sl
      | Some a \<Rightarrow>
          (case commands (po_now (sy_pool s)) (as_interrupt a) (as_finished a) (as_place a) of
             [] \<Rightarrow> sl
           | c # _ \<Rightarrow> (case run_command g c (sy_pool s) of
                 None \<Rightarrow> sl
               | Some (p, sent) \<Rightarrow> (s\<lparr>sy_pool := p, sy_sent := sy_sent s @ sent\<rparr>, l @ logged c (po_now (sy_pool s)) sent))))"

lemma after_own_step:
  assumes "sy_main (fst sl) = Idle"
  shows "(watched interrupt g)\<^sup>*\<^sup>* sl (after_own g sl)"
proof -
  obtain s l where sl: "sl = (s, l)" by (cases sl)
  show ?thesis
  proof (cases "po_async (sy_pool s) g")
    case None
    then show ?thesis by (simp add: after_own_def sl)
  next
    case a: (Some a)
    show ?thesis
    proof (cases "commands (po_now (sy_pool s)) (as_interrupt a) (as_finished a) (as_place a)")
      case Nil
      then show ?thesis by (simp add: after_own_def sl a)
    next
      case c: (Cons c cs)
      have "async_command g s c" using a c assms sl by (simp add: async_command_def)
      then show ?thesis using a c
        by (cases "run_command g c (sy_pool s)") (auto simp: after_own_def sl intro!: r_into_rtranclp intro: watched.own)
    qed
  qed
qed

lemma watched_tick: "(watched interrupt g)\<^sup>*\<^sup>* (s, l) (after_tick s, l)"
  unfolding after_tick_def by (intro r_into_rtranclp watched.tick)

definition layer_binding :: "(Usage list \<times> act) list" where
  "layer_binding = [([4], TapHoldAct (Toggle [4]) (Toggle [225]) 1 1)]"

definition layer_pressed :: bind_system where
  "layer_pressed = after_event never_interrupt (key_event 4 True) (new_bind layer_binding)"

definition layer_held :: "bind_system \<times> (int \<times> Event list) list" where
  "layer_held = after_own 0 (after_own 0 (after_tick layer_pressed, []))"

lemma layer_idle:
  "sy_main (new_bind layer_binding) = Idle" "sy_main (after_tick layer_pressed) = Idle"
  "sy_main (fst (after_own 0 (after_tick layer_pressed, []))) = Idle"
  by code_simp+

lemma layer_pressed_reachable: "(bind_step never_interrupt)\<^sup>*\<^sup>* (new_bind layer_binding) layer_pressed"
  unfolding layer_pressed_def using layer_idle(1) by (rule after_event_step)

lemma layer_held_watched: "(watched never_interrupt 0)\<^sup>*\<^sup>* (layer_pressed, []) (fst layer_held, snd layer_held)"
proof -
  have "(watched never_interrupt 0)\<^sup>*\<^sup>* (layer_pressed, []) (after_tick layer_pressed, [])" by (rule watched_tick)
  also have "(watched never_interrupt 0)\<^sup>*\<^sup>* \<dots> (after_own 0 (after_tick layer_pressed, []))"
    using layer_idle(2) by (intro after_own_step) simp
  also have "(watched never_interrupt 0)\<^sup>*\<^sup>* \<dots> layer_held"
    unfolding layer_held_def using layer_idle(3) by (rule after_own_step)
  finally show ?thesis by simp
qed

lemma layer_waits:
  "po_async (sy_pool layer_pressed) 0 =
     Some \<lparr>as_parent = 1, as_place = HoldSelect (Toggle [4]) (Toggle [225]) 1 1, as_interrupt = False, as_finished = False, as_onFinish = []\<rparr>"
  by code_simp

lemma layer_log: "snd layer_held = [(1, pressed [225] 1)] \<and> length (pressed [225] 1) = 1"
  by code_simp

end
