(* ===== verification/SendString.thy ===== *)
theory SendString
  imports TapHold
begin

section \<open>What a string sends\<close>

text \<open>
  The goroutine of \<open>sendString\<close>, a chain of actions, followed through every run of its bind as that of
  \<open>tapHold\<close> is. The actions are plain keys: characters that need a modifier run an action of their own.
\<close>

subsection \<open>The logs\<close>

text \<open>Every key pressed and released, at least the delay apart unless the chain was interrupted.\<close>

primrec typed :: "bool \<Rightarrow> int \<Rightarrow> Usage list list \<Rightarrow> (int \<times> Event list) list \<Rightarrow> bool" where
  "typed intr d [] log \<longleftrightarrow> log = []"
| "typed intr d (us # keys) log \<longleftrightarrow>
     (\<exists>n m rest. log = (n, pressed us n) # (m, released us m) # rest \<and> (intr \<or> n + d \<le> m) \<and> typed intr d keys rest)"

lemma typed_snoc: "typed intr d keys log \<Longrightarrow> intr \<or> n + d \<le> m \<Longrightarrow> typed intr d (keys @ [us]) (log @ [(n, pressed us n), (m, released us m)])"
  by (induction keys arbitrary: log) auto

lemma typed_interrupted: "typed intr d keys log \<Longrightarrow> intr \<longrightarrow> intr' \<Longrightarrow> typed intr' d keys log"
  by (induction keys arbitrary: log) auto

text \<open>One key more is pressed.\<close>

definition typing :: "bool \<Rightarrow> int \<Rightarrow> Usage list list \<Rightarrow> Usage list \<Rightarrow> int \<Rightarrow> (int \<times> Event list) list \<Rightarrow> bool" where
  "typing intr d keys us n log \<longleftrightarrow> (\<exists>l. log = l @ [(n, pressed us n)] \<and> typed intr d keys l)"

lemma typing_starts: "typed intr d keys log \<Longrightarrow> typing intr d keys us n (log @ [(n, pressed us n)])"
  by (auto simp: typing_def)

lemma typing_ends: "typing intr d keys us n log \<Longrightarrow> intr \<or> n + d \<le> m \<Longrightarrow> typed intr d (keys @ [us]) (log @ [(m, released us m)])"
  using typed_snoc by (auto simp: typing_def)

lemma typing_interrupted: "typing intr d keys us n log \<Longrightarrow> intr \<longrightarrow> intr' \<Longrightarrow> typing intr' d keys us n log"
  unfolding typing_def using typed_interrupted by blast

text \<open>The keys that are left, when no key is pressed and when one is.\<close>

definition keys_left :: "Usage list list \<Rightarrow> int \<Rightarrow> bool \<Rightarrow> Usage list list \<Rightarrow> (int \<times> Event list) list \<Rightarrow> bool" where
  "keys_left keys d intr rest log \<longleftrightarrow> (\<exists>ks. keys = ks @ rest \<and> typed intr d ks log)"

definition key_down :: "Usage list list \<Rightarrow> int \<Rightarrow> bool \<Rightarrow> Usage list \<Rightarrow> Usage list list \<Rightarrow> int \<Rightarrow> (int \<times> Event list) list \<Rightarrow> bool" where
  "key_down keys d intr us rest n log \<longleftrightarrow> (\<exists>ks. keys = ks @ us # rest \<and> typing intr d ks us n log)"

lemma keys_start: "keys_left keys d intr keys []"
  by (simp add: keys_left_def)

lemma next_key_press: "keys_left keys d intr (us # rest) log \<Longrightarrow> key_down keys d intr us rest n (log @ [(n, pressed us n)])"
  using typing_starts by (auto simp: keys_left_def key_down_def)

lemma next_key_release:
  assumes "key_down keys d intr us rest n log" "intr \<or> n + d \<le> m"
  shows "keys_left keys d intr rest (log @ [(m, released us m)])"
proof -
  obtain ks where ks: "keys = ks @ us # rest" "typing intr d ks us n log" using assms(1) by (auto simp: key_down_def)
  have "keys = (ks @ [us]) @ rest" using ks(1) by simp
  then show ?thesis using typing_ends [OF ks(2) assms(2)] unfolding keys_left_def by blast
qed

lemma keys_interrupted: "keys_left keys d intr rest log \<Longrightarrow> intr \<longrightarrow> intr' \<Longrightarrow> keys_left keys d intr' rest log"
  unfolding keys_left_def using typed_interrupted by blast

lemma down_interrupted: "key_down keys d intr us rest n log \<Longrightarrow> intr \<longrightarrow> intr' \<Longrightarrow> key_down keys d intr' us rest n log"
  unfolding key_down_def using typing_interrupted by blast

subsection \<open>The phases\<close>

definition chain_phase :: "Usage list list \<Rightarrow> int \<Rightarrow> int \<Rightarrow> async \<Rightarrow> (int \<times> Event list) list \<Rightarrow> bool" where
  "chain_phase keys d now a log \<longleftrightarrow> as_onFinish a = [] \<and>
     (case as_place a of
        ChainNext as e \<Rightarrow> e = d \<and> (\<exists>rest. as = map Toggle rest \<and> keys_left keys d (as_interrupt a) rest log)
      | ChainHold f as e t \<Rightarrow> e = d \<and> (\<exists>us rest. as = map Toggle rest \<and> f = Some (Deactivate us)
          \<and> key_down keys d (as_interrupt a) us rest (t - d) log)
      | ChainFinish f as e \<Rightarrow> e = d \<and> (\<exists>us rest n. as = map Toggle rest \<and> f = Some (Deactivate us)
          \<and> key_down keys d (as_interrupt a) us rest n log \<and> n + d \<le> now)
      | ChainGap as e t \<Rightarrow> e = d \<and> (\<exists>rest. as = map Toggle rest \<and> keys_left keys d (as_interrupt a) rest log)
      | FinishLast f \<Rightarrow> (\<exists>us rest n. f = Some (Deactivate us) \<and> key_down keys d (as_interrupt a) us rest n log) \<and> as_interrupt a
      | Returned \<Rightarrow> (\<exists>rest. keys_left keys d (as_interrupt a) rest log \<and> (rest = [] \<or> as_interrupt a))
      | _ \<Rightarrow> False)"

lemma chain_phase_kept:
  assumes "chain_phase keys d now a log" "as_place a' = as_place a" "as_onFinish a' = as_onFinish a"
    "as_interrupt a \<longrightarrow> as_interrupt a'" "as_finished a \<longrightarrow> as_finished a'" "now \<le> now'"
  shows "chain_phase keys d now' a' log"
proof -
  have left: "keys_left keys d (as_interrupt a') rest log" if "keys_left keys d (as_interrupt a) rest log" for rest
    using keys_interrupted [OF that assms(4)] .
  have down: "key_down keys d (as_interrupt a') us rest n log" if "key_down keys d (as_interrupt a) us rest n log" for us rest n
    using down_interrupted [OF that assms(4)] .
  show ?thesis
  proof (cases "as_place a")
    case (ChainFinish f as e)
    then obtain us rest n where *: "e = d" "as = map Toggle rest" "f = Some (Deactivate us)"
      "key_down keys d (as_interrupt a) us rest n log" "n + d \<le> now" "as_onFinish a = []" using assms(1) by (auto simp: chain_phase_def)
    then have "key_down keys d (as_interrupt a') us rest n log \<and> n + d \<le> now'" using assms(6) down by simp
    then have "\<exists>rest' n. map Toggle rest = map Toggle rest' \<and> key_down keys d (as_interrupt a') us rest' n log \<and> n + d \<le> now'" by blast
    then show ?thesis using ChainFinish assms(2,3) * by (simp add: chain_phase_def)
  next
    case (ChainHold f as e t)
    then obtain us rest where *: "e = d" "as = map Toggle rest" "f = Some (Deactivate us)"
      "key_down keys d (as_interrupt a) us rest (t - d) log" "as_onFinish a = []" using assms(1) by (auto simp: chain_phase_def)
    then have "\<exists>rest'. map Toggle rest = map Toggle rest' \<and> key_down keys d (as_interrupt a') us rest' (t - d) log" using down by blast
    then show ?thesis using ChainHold assms(2,3) * by (simp add: chain_phase_def)
  next
    case (FinishLast f)
    then obtain us rest n where *: "f = Some (Deactivate us)" "key_down keys d (as_interrupt a) us rest n log" "as_interrupt a" "as_onFinish a = []"
      using assms(1) by (auto simp: chain_phase_def)
    then have "\<exists>rest n. key_down keys d (as_interrupt a') us rest n log" using down by blast
    then show ?thesis using FinishLast assms(2-4) * by (simp add: chain_phase_def)
  qed (use assms(1-4) left in \<open>auto simp: chain_phase_def\<close>)
qed

lemma chain_phase_own:
  assumes "chain_phase keys d (po_now p) a log" "po_async p g = Some a"
    "c \<in> set (commands (po_now p) (as_interrupt a) (as_finished a) (as_place a))" "run_command g c p = Some (p', sent)"
  shows "\<exists>a'. po_async p' g = Some a' \<and> chain_phase keys d (po_now p') a' (log @ logged c (po_now p) sent)"
proof (cases "as_place a")
  case (ChainNext as e)
  then obtain rest where k: "e = d" "as = map Toggle rest" "keys_left keys d (as_interrupt a) rest log" "as_onFinish a = []"
    using assms(1) by (auto simp: chain_phase_def)
  show ?thesis
  proof (cases rest)
    case Nil
    then have "c = Goto Returned" using assms(3) ChainNext k by simp
    then show ?thesis using assms(2,4) k Nil by (auto simp: chain_phase_def run_command_def logged_def)
  next
    case (Cons us rest')
    then have c: "c = DoAction (Toggle us) (\<lambda>fin. ChainHold fin (map Toggle rest') d (po_now p + d)) (\<lambda>fin. [])"
      using assms(3) ChainNext k by simp
    have "key_down keys d (as_interrupt a) us rest' (po_now p) (log @ [(po_now p, pressed us (po_now p))])"
      using next_key_press k(3) Cons by simp
    then show ?thesis using toggle_run [OF assms(4) [unfolded c]] assms(2) k by (auto simp: chain_phase_def logged_def c)
  qed
next
  case (ChainHold f as e t)
  then obtain us rest where k: "e = d" "as = map Toggle rest" "f = Some (Deactivate us)"
    "key_down keys d (as_interrupt a) us rest (t - d) log" "as_onFinish a = []" using assms(1) by (auto simp: chain_phase_def)
  then have "c = Goto (ChainFinish f as d) \<and> t \<le> po_now p \<or> c = Goto (FinishLast f) \<and> as_interrupt a"
    using assms(3) ChainHold by (auto split: if_splits)
  then show ?thesis
  proof
    assume c: "c = Goto (ChainFinish f as d) \<and> t \<le> po_now p"
    then have "key_down keys d (as_interrupt a) us rest (t - d) log \<and> (t - d) + d \<le> po_now p" using k(4) by simp
    then show ?thesis using c assms(2,4) k by (fastforce simp: chain_phase_def run_command_def logged_def)
  next
    assume c: "c = Goto (FinishLast f) \<and> as_interrupt a"
    then show ?thesis using c assms(2,4) k by (fastforce simp: chain_phase_def run_command_def logged_def)
  qed
next
  case (ChainFinish f as e)
  then obtain us rest n where k: "e = d" "as = map Toggle rest" "f = Some (Deactivate us)"
    "key_down keys d (as_interrupt a) us rest n log" "n + d \<le> po_now p" "as_onFinish a = []" using assms(1) by (auto simp: chain_phase_def)
  then have c: "c = DoFinish (Some (Deactivate us)) (ChainGap (map Toggle rest) d (po_now p + d))" using assms(3) ChainFinish by simp
  have "keys_left keys d (as_interrupt a) rest (log @ [(po_now p, released us (po_now p))])" using next_key_release [OF k(4)] k(5) by simp
  then show ?thesis using untoggle_run [OF assms(4) [unfolded c]] assms(2) k by (auto simp: chain_phase_def logged_def c)
next
  case (ChainGap as e t)
  then obtain rest where k: "e = d" "as = map Toggle rest" "keys_left keys d (as_interrupt a) rest log" "as_onFinish a = []"
    using assms(1) by (auto simp: chain_phase_def)
  then have "c = Goto (ChainNext as d) \<or> c = Goto Returned \<and> as_interrupt a" using assms(3) ChainGap by (auto split: if_splits)
  then show ?thesis using assms(2,4) k by (fastforce simp: chain_phase_def run_command_def logged_def)
next
  case (FinishLast f)
  then obtain us rest n where k: "f = Some (Deactivate us)" "key_down keys d (as_interrupt a) us rest n log" "as_interrupt a" "as_onFinish a = []"
    using assms(1) by (auto simp: chain_phase_def)
  then have c: "c = DoFinish (Some (Deactivate us)) Returned" using assms(3) FinishLast by simp
  have "keys_left keys d (as_interrupt a) rest (log @ [(po_now p, released us (po_now p))])" using next_key_release [OF k(2)] k(3) by simp
  then show ?thesis using untoggle_run [OF assms(4) [unfolded c]] assms(2) k by (auto simp: chain_phase_def logged_def c)
qed (use assms in \<open>auto simp: chain_phase_def\<close>)

interpretation chain: goroutine_phase "chain_phase keys d" for keys d
  by unfold_locales (rule chain_phase_kept, assumption+, rule chain_phase_own)

lemma chain_phase_log:
  assumes "chain_phase keys d now a log"
  shows "(\<exists>rest. keys_left keys d (as_interrupt a) rest log \<and> (as_place a = Returned \<longrightarrow> rest = [] \<or> as_interrupt a))
    \<or> as_place a \<noteq> Returned \<and> (\<exists>us rest n. key_down keys d (as_interrupt a) us rest n log)"
  using assms by (cases "as_place a") (auto simp: chain_phase_def)

lemma string_logs:
  assumes "(bind_step interrupt)\<^sup>*\<^sup>* (new_bind items) s" "po_async (sy_pool s) g = Some a"
    "as_place a = ChainNext (map Toggle keys) d" "as_onFinish a = []" "(watched interrupt g)\<^sup>*\<^sup>* (s, []) (s', log)"
  shows "\<exists>a' ks rest. po_async (sy_pool s') g = Some a' \<and> keys = ks @ rest \<and>
    (typed (as_interrupt a') d ks log \<and> (as_place a' = Returned \<longrightarrow> rest = [] \<or> as_interrupt a')
     \<or> as_place a' \<noteq> Returned \<and> (\<exists>us rest' n l. rest = us # rest' \<and> log = l @ [(n, pressed us n)] \<and> typed (as_interrupt a') d ks l))"
proof -
  have "chain_phase keys d (po_now (sy_pool s)) a []" using assms(3,4) keys_start by (auto simp: chain_phase_def)
  then obtain a' where a': "po_async (sy_pool s') g = Some a'" "chain_phase keys d (po_now (sy_pool s')) a' log"
    using chain.phase_of_log [OF assms(1,2) _ assms(5)] by blast
  from chain_phase_log [OF a'(2)] show ?thesis
  proof
    assume "\<exists>rest. keys_left keys d (as_interrupt a') rest log \<and> (as_place a' = Returned \<longrightarrow> rest = [] \<or> as_interrupt a')"
    then show ?thesis using a'(1) unfolding keys_left_def by blast
  next
    assume "as_place a' \<noteq> Returned \<and> (\<exists>us rest n. key_down keys d (as_interrupt a') us rest n log)"
    then show ?thesis using a'(1) unfolding key_down_def typing_def by blast
  qed
qed

subsection \<open>Keys 5 and 6, typed by key 4\<close>

text \<open>The goroutine makes its steps, and the clock ticks where the list says so.\<close>

primrec after_steps :: "nat \<Rightarrow> bool list \<Rightarrow> bind_system \<times> (int \<times> Event list) list \<Rightarrow> bind_system \<times> (int \<times> Event list) list" where
  "after_steps g [] sl = sl"
| "after_steps g (t # ts) sl = after_steps g ts (if t then (after_tick (fst sl), snd sl) else after_own g sl)"

lemma after_own_main: "sy_main (fst (after_own g sl)) = sy_main (fst sl)"
  by (auto simp: after_own_def split: prod.splits option.splits list.splits)

lemma after_steps_watched: "sy_main (fst sl) = Idle \<Longrightarrow> (watched interrupt g)\<^sup>*\<^sup>* sl (after_steps g ts sl)"
proof (induction ts arbitrary: sl)
  case (Cons t ts)
  let ?sl = "if t then (after_tick (fst sl), snd sl) else after_own g sl"
  have "(watched interrupt g)\<^sup>*\<^sup>* sl ?sl" using Cons.prems after_own_step watched_tick [of interrupt g "fst sl" "snd sl"] by simp
  moreover have "sy_main (fst ?sl) = Idle" using Cons.prems by (simp add: after_own_main) (simp add: after_tick_def)
  ultimately show ?case using Cons.IH [of ?sl] by simp
qed simp

definition word_binding :: "(Usage list \<times> act) list" where
  "word_binding = [([4], ChainAct [Toggle [5], Toggle [6]] 1)]"

definition word_pressed :: bind_system where
  "word_pressed = after_event never_interrupt (key_event 4 True) (new_bind word_binding)"

definition word_typed :: "bind_system \<times> (int \<times> Event list) list" where
  "word_typed = after_steps 0 [False, True, False, False, True, False, False, True, False, False, True, False, False] (word_pressed, [])"

lemma word_idle: "sy_main (new_bind word_binding) = Idle" "sy_main word_pressed = Idle"
  by code_simp+

lemma word_pressed_reachable: "(bind_step never_interrupt)\<^sup>*\<^sup>* (new_bind word_binding) word_pressed"
  unfolding word_pressed_def using word_idle(1) by (rule after_event_step)

lemma word_typed_watched: "(watched never_interrupt 0)\<^sup>*\<^sup>* (word_pressed, []) (fst word_typed, snd word_typed)"
  unfolding word_typed_def prod.collapse by (rule after_steps_watched) (simp add: word_idle(2))

lemma word_waits:
  "po_async (sy_pool word_pressed) 0 =
     Some \<lparr>as_parent = 1, as_place = ChainNext [Toggle [5], Toggle [6]] 1, as_interrupt = False, as_finished = False, as_onFinish = []\<rparr>"
  by code_simp

lemma word_returned:
  "map_option as_place (po_async (sy_pool (fst word_typed)) 0) = Some Returned"
  "map_option as_interrupt (po_async (sy_pool (fst word_typed)) 0) = Some False"
  by code_simp+

end
