(* ===== verification/UsagePages.thy ===== *)
theory UsagePages
  imports HidUsage
begin

section \<open>The tables of usages (hidapi/hidusage/usagepages/pages_gen.go)\<close>

text \<open>
  The table of pages of the program: every page with its code, alias and name, and its usages in the
  order of the source. A page of the source is one list of rows, a long one several. The keyboard page
  has a table too, which the program does not use: it has its own key names.
\<close>

subsection \<open>Types of usages (pages.go)\<close>

definition UsageTypeLC :: string where "UsageTypeLC = ''LC''"
definition UsageTypeOOC :: string where "UsageTypeOOC = ''OOC''"
definition UsageTypeMC :: string where "UsageTypeMC = ''MC''"
definition UsageTypeOSC :: string where "UsageTypeOSC = ''OSC''"
definition UsageTypeRTC :: string where "UsageTypeRTC = ''RTC''"
definition UsageTypeSel :: string where "UsageTypeSel = ''Sel''"
definition UsageTypeSV :: string where "UsageTypeSV = ''SV''"
definition UsageTypeSF :: string where "UsageTypeSF = ''SF''"
definition UsageTypeDV :: string where "UsageTypeDV = ''DV''"
definition UsageTypeDF :: string where "UsageTypeDF = ''DF''"
definition UsageTypeNAry :: string where "UsageTypeNAry = ''NAry''"
definition UsageTypeCA :: string where "UsageTypeCA = ''CA''"
definition UsageTypeCL :: string where "UsageTypeCL = ''CL''"
definition UsageTypeCP :: string where "UsageTypeCP = ''CP''"
definition UsageTypeUS :: string where "UsageTypeUS = ''US''"
definition UsageTypeUM :: string where "UsageTypeUM = ''UM''"

subsection \<open>Rows\<close>

type_synonym usage_row = "u16 \<times> string \<times> string list"

datatype usage_table = Rows "usage_row list" | Ordinals string

type_synonym page_row = "u16 \<times> string \<times> string \<times> usage_table option"

definition usages_dsk :: "usage_row list" where
  "usages_dsk =
    [(0x00, ''Undefined'', []),
     (0x01, ''Pointer'', [UsageTypeCP]),
     (0x02, ''Mouse'', [UsageTypeCA]),
     (0x04, ''Joystick'', [UsageTypeCA]),
     (0x05, ''Gamepad'', [UsageTypeCA]),
     (0x06, ''Keyboard'', [UsageTypeCA]),
     (0x07, ''Keypad'', [UsageTypeCA]),
     (0x08, ''Multi-axis Controller'', [UsageTypeCA]),
     (0x09, ''Tablet PC System Controls'', [UsageTypeCA]),
     (0x0a, ''Water Cooling Device'', [UsageTypeCA]),
     (0x0b, ''Computer Chassis Device'', [UsageTypeCA]),
     (0x0c, ''Wireless Radio Controls'', [UsageTypeCA]),
     (0x0d, ''Portable Device Control'', [UsageTypeCA]),
     (0x0e, ''System Multi-Axis Controller'', [UsageTypeCA]),
     (0x0f, ''Spatial Controller'', [UsageTypeCA]),
     (0x10, ''Assistive Control'', [UsageTypeCA]),
     (0x11, ''Device Dock'', [UsageTypeCA]),
     (0x12, ''Dockable Device'', [UsageTypeCA]),
     (0x13, ''Call State Management Control'', [UsageTypeCA]),
     (0x30, ''X'', [UsageTypeDV]),
     (0x31, ''Y'', [UsageTypeDV]),
     (0x32, ''Z'', [UsageTypeDV]),
     (0x33, ''Rx'', [UsageTypeDV]),
     (0x34, ''Ry'', [UsageTypeDV]),
     (0x35, ''Rz'', [UsageTypeDV]),
     (0x36, ''Slider'', [UsageTypeDV]),
     (0x37, ''Dial'', [UsageTypeDV]),
     (0x38, ''Wheel'', [UsageTypeDV]),
     (0x39, ''Hat Switch'', [UsageTypeDV]),
     (0x3a, ''Counted Buffer'', [UsageTypeCL]),
     (0x3b, ''Byte Count'', [UsageTypeDV]),
     (0x3c, ''Motion Wakeup'', [UsageTypeOSC, UsageTypeDF]),
     (0x3d, ''Start'', [UsageTypeOOC]),
     (0x3e, ''Select'', [UsageTypeOOC]),
     (0x40, ''Vx'', [UsageTypeDV]),
     (0x41, ''Vy'', [UsageTypeDV]),
     (0x42, ''Vz'', [UsageTypeDV]),
     (0x43, ''Vbrx'', [UsageTypeDV]),
     (0x44, ''Vbry'', [UsageTypeDV]),
     (0x45, ''Vbrz'', [UsageTypeDV]),
     (0x46, ''Vno'', [UsageTypeDV]),
     (0x47, ''Feature Notification'', [UsageTypeDV, UsageTypeDF]),
     (0x48, ''Resolution Multiplier'', [UsageTypeDV]),
     (0x49, ''Qx'', [UsageTypeDV]),
     (0x4a, ''Qy'', [UsageTypeDV]),
     (0x4b, ''Qz'', [UsageTypeDV]),
     (0x4c, ''Qw'', [UsageTypeDV]),
     (0x80, ''System Control'', [UsageTypeCA]),
     (0x81, ''System Power Down'', [UsageTypeOSC]),
     (0x82, ''System Sleep'', [UsageTypeOSC]),
     (0x83, ''System Wake Up'', [UsageTypeOSC]),
     (0x84, ''System Context Menu'', [UsageTypeOSC]),
     (0x85, ''System Main Menu'', [UsageTypeOSC]),
     (0x86, ''System App Menu'', [UsageTypeOSC]),
     (0x87, ''System Menu Help'', [UsageTypeOSC]),
     (0x88, ''System Menu Exit'', [UsageTypeOSC]),
     (0x89, ''System Menu Select'', [UsageTypeOSC]),
     (0x8a, ''System Menu Right'', [UsageTypeRTC]),
     (0x8b, ''System Menu Left'', [UsageTypeRTC]),
     (0x8c, ''System Menu Up'', [UsageTypeRTC]),
     (0x8d, ''System Menu Down'', [UsageTypeRTC]),
     (0x8e, ''System Cold Restart'', [UsageTypeOSC]),
     (0x8f, ''System Warm Restart'', [UsageTypeOSC]),
     (0x90, ''D-pad Up'', [UsageTypeOOC]),
     (0x91, ''D-pad Down'', [UsageTypeOOC]),
     (0x92, ''D-pad Right'', [UsageTypeOOC]),
     (0x93, ''D-pad Left'', [UsageTypeOOC]),
     (0x94, ''Index Trigger'', [UsageTypeMC, UsageTypeDV]),
     (0x95, ''Palm Trigger'', [UsageTypeMC, UsageTypeDV]),
     (0x96, ''Thumbstick'', [UsageTypeCP]),
     (0x97, ''System Function Shift'', [UsageTypeMC]),
     (0x98, ''System Function Shift Lock'', [UsageTypeOOC]),
     (0x99, ''System Function Shift Lock Indicator'', [UsageTypeDV]),
     (0x9a, ''System Dismiss Notification'', [UsageTypeOSC]),
     (0x9b, ''System Do Not Disturb'', [UsageTypeOOC]),
     (0xa0, ''System Dock'', [UsageTypeOSC]),
     (0xa1, ''System Undock'', [UsageTypeOSC]),
     (0xa2, ''System Setup'', [UsageTypeOSC]),
     (0xa3, ''System Break'', [UsageTypeOSC]),
     (0xa4, ''System Debugger Break'', [UsageTypeOSC]),
     (0xa5, ''Application Break'', [UsageTypeOSC]),
     (0xa6, ''Application Debugger Break'', [UsageTypeOSC]),
     (0xa7, ''System Speaker Mute'', [UsageTypeOSC]),
     (0xa8, ''System Hibernate'', [UsageTypeOSC]),
     (0xa9, ''System Microphone Mute'', [UsageTypeOOC]),
     (0xb0, ''System Display Invert'', [UsageTypeOSC]),
     (0xb1, ''System Display Internal'', [UsageTypeOSC]),
     (0xb2, ''System Display External'', [UsageTypeOSC]),
     (0xb3, ''System Display Both'', [UsageTypeOSC]),
     (0xb4, ''System Display Dual'', [UsageTypeOSC]),
     (0xb5, ''System Display Toggle Int/Ext Mode'', [UsageTypeOSC]),
     (0xb6, ''System Display Swap Primary/Secondary'', [UsageTypeOSC]),
     (0xb7, ''System Display Toggle LCD Autoscale'', [UsageTypeOSC]),
     (0xc0, ''Sensor Zone'', [UsageTypeCL]),
     (0xc1, ''RPM'', [UsageTypeDV]),
     (0xc2, ''Coolant Level'', [UsageTypeDV]),
     (0xc3, ''Coolant Critical Level'', [UsageTypeSV]),
     (0xc4, ''Coolant Pump'', [UsageTypeUS]),
     (0xc5, ''Chassis Enclosure'', [UsageTypeCL]),
     (0xc6, ''Wireless Radio Button'', [UsageTypeOOC]),
     (0xc7, ''Wireless Radio LED'', [UsageTypeOOC]),
     (0xc8, ''Wireless Radio Slider Switch'', [UsageTypeOOC]),
     (0xc9, ''System Display Rotation Lock Button'', [UsageTypeOOC]),
     (0xca, ''System Display Rotation Lock Slider Switch'', [UsageTypeOOC]),
     (0xcb, ''Control Enable'', [UsageTypeDF]),
     (0xd0, ''Dockable Device Unique ID'', [UsageTypeDV]),
     (0xd1, ''Dockable Device Vendor ID'', [UsageTypeDV]),
     (0xd2, ''Dockable Device Primary Usage Page'', [UsageTypeDV]),
     (0xd3, ''Dockable Device Primary Usage ID'', [UsageTypeDV]),
     (0xd4, ''Dockable Device Docking State'', [UsageTypeDF]),
     (0xd5, ''Dockable Device Display Occlusion'', [UsageTypeCL]),
     (0xd6, ''Dockable Device Object Type'', [UsageTypeDV]),
     (0xe0, ''Call Active LED'', [UsageTypeOOC]),
     (0xe1, ''Call Mute Toggle'', [UsageTypeOSC]),
     (0xe2, ''Call Mute LED'', [UsageTypeOOC])]"

definition usages_sim :: "usage_row list" where
  "usages_sim =
    [(0x00, ''Undefined'', []),
     (0x01, ''Flight Simulation Device'', [UsageTypeCA]),
     (0x02, ''Automobile Simulation Device'', [UsageTypeCA]),
     (0x03, ''Tank Simulation Device'', [UsageTypeCA]),
     (0x04, ''Spaceship Simulation Device'', [UsageTypeCA]),
     (0x05, ''Submarine Simulation Device'', [UsageTypeCA]),
     (0x06, ''Sailing Simulation Device'', [UsageTypeCA]),
     (0x07, ''Motorcycle Simulation Device'', [UsageTypeCA]),
     (0x08, ''Sports Simulation Device'', [UsageTypeCA]),
     (0x09, ''Airplane Simulation Device'', [UsageTypeCA]),
     (0x0a, ''Helicopter Simulation Device'', [UsageTypeCA]),
     (0x0b, ''Magic Carpet Simulation Device'', [UsageTypeCA]),
     (0x0c, ''Bicycle Simulation Device'', [UsageTypeCA]),
     (0x20, ''Flight Control Stick'', [UsageTypeCA]),
     (0x21, ''Flight Stick'', [UsageTypeCA]),
     (0x22, ''Cyclic Control'', [UsageTypeCP]),
     (0x23, ''Cyclic Trim'', [UsageTypeCP]),
     (0x24, ''Flight Yoke'', [UsageTypeCA]),
     (0x25, ''Track Control'', [UsageTypeCP]),
     (0xb0, ''Aileron'', [UsageTypeDV]),
     (0xb1, ''Aileron Trim'', [UsageTypeDV]),
     (0xb2, ''Anti-Torque Control'', [UsageTypeDV]),
     (0xb3, ''Autopilot Enable'', [UsageTypeOOC]),
     (0xb4, ''Chaff Release'', [UsageTypeOSC]),
     (0xb5, ''Collective Control'', [UsageTypeDV]),
     (0xb6, ''Dive Brake'', [UsageTypeDV]),
     (0xb7, ''Electronic Countermeasures'', [UsageTypeOOC]),
     (0xb8, ''Elevator'', [UsageTypeDV]),
     (0xb9, ''Elevator Trim'', [UsageTypeDV]),
     (0xba, ''Rudder'', [UsageTypeDV]),
     (0xbb, ''Throttle'', [UsageTypeDV]),
     (0xbc, ''Flight Communications'', [UsageTypeOOC]),
     (0xbd, ''Flare Release'', [UsageTypeOSC]),
     (0xbe, ''Landing Gear'', [UsageTypeOOC]),
     (0xbf, ''Toe Brake'', [UsageTypeDV]),
     (0xc0, ''Trigger'', [UsageTypeMC]),
     (0xc1, ''Weapons Arm'', [UsageTypeOOC]),
     (0xc2, ''Weapons Select'', [UsageTypeOSC]),
     (0xc3, ''Wing Flaps'', [UsageTypeDV]),
     (0xc4, ''Accelerator'', [UsageTypeDV]),
     (0xc5, ''Brake'', [UsageTypeDV]),
     (0xc6, ''Clutch'', [UsageTypeDV]),
     (0xc7, ''Shifter'', [UsageTypeDV]),
     (0xc8, ''Steering'', [UsageTypeDV]),
     (0xc9, ''Turret Direction'', [UsageTypeDV]),
     (0xca, ''Barrel Elevation'', [UsageTypeDV]),
     (0xcb, ''Dive Plane'', [UsageTypeDV]),
     (0xcc, ''Ballast'', [UsageTypeDV]),
     (0xcd, ''Bicycle Crank'', [UsageTypeDV]),
     (0xce, ''Handle Bars'', [UsageTypeDV]),
     (0xcf, ''Front Brake'', [UsageTypeDV]),
     (0xd0, ''Rear Brake'', [UsageTypeDV])]"

definition usages_vr :: "usage_row list" where
  "usages_vr =
    [(0x00, ''Undefined'', []),
     (0x01, ''Belt'', [UsageTypeCA]),
     (0x02, ''Body Suit'', [UsageTypeCA]),
     (0x03, ''Flexor'', [UsageTypeCP]),
     (0x04, ''Glove'', [UsageTypeCA]),
     (0x05, ''Head Tracker'', [UsageTypeCP]),
     (0x06, ''Head Mounted Display'', [UsageTypeCA]),
     (0x07, ''Hand Tracker'', [UsageTypeCA]),
     (0x08, ''Oculometer'', [UsageTypeCA]),
     (0x09, ''Vest'', [UsageTypeCA]),
     (0x0a, ''Animatronic Device'', [UsageTypeCA]),
     (0x20, ''Stereo Enable'', [UsageTypeOOC]),
     (0x21, ''Display Enable'', [UsageTypeOOC])]"

definition usages_sc :: "usage_row list" where
  "usages_sc =
    [(0x00, ''Undefined'', []),
     (0x01, ''Baseball Bat'', [UsageTypeCA]),
     (0x02, ''Golf Club'', [UsageTypeCA]),
     (0x03, ''Rowing Machine'', [UsageTypeCA]),
     (0x04, ''Treadmill'', [UsageTypeCA]),
     (0x30, ''Oar'', [UsageTypeDV]),
     (0x31, ''Slope'', [UsageTypeDV]),
     (0x32, ''Rate'', [UsageTypeDV]),
     (0x33, ''Stick Speed'', [UsageTypeDV]),
     (0x34, ''Stick Face Angle'', [UsageTypeDV]),
     (0x35, ''Stick Heel/Toe'', [UsageTypeDV]),
     (0x36, ''Stick Follow Through'', [UsageTypeDV]),
     (0x37, ''Stick Tempo'', [UsageTypeDV]),
     (0x38, ''Stick Type'', [UsageTypeNAry]),
     (0x39, ''Stick Height'', [UsageTypeDV]),
     (0x50, ''Putter'', [UsageTypeSel]),
     (0x51, ''1 Iron'', [UsageTypeSel]),
     (0x52, ''2 Iron'', [UsageTypeSel]),
     (0x53, ''3 Iron'', [UsageTypeSel]),
     (0x54, ''4 Iron'', [UsageTypeSel]),
     (0x55, ''5 Iron'', [UsageTypeSel]),
     (0x56, ''6 Iron'', [UsageTypeSel]),
     (0x57, ''7 Iron'', [UsageTypeSel]),
     (0x58, ''8 Iron'', [UsageTypeSel]),
     (0x59, ''9 Iron'', [UsageTypeSel]),
     (0x5a, ''10 Iron'', [UsageTypeSel]),
     (0x5b, ''11 Iron'', [UsageTypeSel]),
     (0x5c, ''Sand Wedge'', [UsageTypeSel]),
     (0x5d, ''Loft Wedge'', [UsageTypeSel]),
     (0x5e, ''Power Wedge'', [UsageTypeSel]),
     (0x5f, ''1 Wood'', [UsageTypeSel]),
     (0x60, ''3 Wood'', [UsageTypeSel]),
     (0x61, ''5 Wood'', [UsageTypeSel]),
     (0x62, ''7 Wood'', [UsageTypeSel]),
     (0x63, ''9 Wood'', [UsageTypeSel])]"

definition usages_gc :: "usage_row list" where
  "usages_gc =
    [(0x00, ''Undefined'', []),
     (0x01, ''3D Game Controller'', [UsageTypeCA]),
     (0x02, ''Pinball Device'', [UsageTypeCA]),
     (0x03, ''Gun Device'', [UsageTypeCA]),
     (0x20, ''Point of View'', [UsageTypeCP]),
     (0x21, ''Turn Right/Left'', [UsageTypeDV]),
     (0x22, ''Pitch Forward/Backward'', [UsageTypeDV]),
     (0x23, ''Roll Right/Left'', [UsageTypeDV]),
     (0x24, ''Move Right/Left'', [UsageTypeDV]),
     (0x25, ''Move Forward/Backward'', [UsageTypeDV]),
     (0x26, ''Move Up/Down'', [UsageTypeDV]),
     (0x27, ''Lean Right/Left'', [UsageTypeDV]),
     (0x28, ''Lean Forward/Backward'', [UsageTypeDV]),
     (0x29, ''Height of POV'', [UsageTypeDV]),
     (0x2a, ''Flipper'', [UsageTypeMC]),
     (0x2b, ''Secondary Flipper'', [UsageTypeMC]),
     (0x2c, ''Bump'', [UsageTypeMC]),
     (0x2d, ''New Game'', [UsageTypeOSC]),
     (0x2e, ''Shoot Ball'', [UsageTypeOSC]),
     (0x2f, ''Player'', [UsageTypeOSC]),
     (0x30, ''Gun Bolt'', [UsageTypeOOC]),
     (0x31, ''Gun Clip'', [UsageTypeOOC]),
     (0x32, ''Gun Selector'', [UsageTypeNAry]),
     (0x33, ''Gun Single Shot'', [UsageTypeSel]),
     (0x34, ''Gun Burst'', [UsageTypeSel]),
     (0x35, ''Gun Automatic'', [UsageTypeSel]),
     (0x36, ''Gun Safety'', [UsageTypeOOC]),
     (0x37, ''Gamepad Fire/Jump'', [UsageTypeCL]),
     (0x39, ''Gamepad Trigger'', [UsageTypeCL]),
     (0x3a, ''Form-fitting Gamepad'', [UsageTypeSF])]"

definition usages_gdc :: "usage_row list" where
  "usages_gdc =
    [(0x00, ''Undefined'', []),
     (0x01, ''Background/Nonuser Controls'', [UsageTypeCA]),
     (0x20, ''Battery Strength'', [UsageTypeDV]),
     (0x21, ''Wireless Channel'', [UsageTypeDV]),
     (0x22, ''Wireless ID'', [UsageTypeDV]),
     (0x23, ''Discover Wireless Control'', [UsageTypeOSC]),
     (0x24, ''Security Code Character Entered'', [UsageTypeOSC]),
     (0x25, ''Security Code Character Erased'', [UsageTypeOSC]),
     (0x26, ''Security Code Cleared'', [UsageTypeOSC]),
     (0x27, ''Sequence ID'', [UsageTypeDV]),
     (0x28, ''Sequence ID Reset'', [UsageTypeDF]),
     (0x29, ''RF Signal Strength'', [UsageTypeDV]),
     (0x2a, ''Software Version'', [UsageTypeCL]),
     (0x2b, ''Protocol Version'', [UsageTypeCL]),
     (0x2c, ''Hardware Version'', [UsageTypeCL]),
     (0x2d, ''Major'', [UsageTypeSV]),
     (0x2e, ''Minor'', [UsageTypeSV]),
     (0x2f, ''Revision'', [UsageTypeSV]),
     (0x30, ''Handedness'', [UsageTypeNAry]),
     (0x31, ''Either Hand'', [UsageTypeSel]),
     (0x32, ''Left Hand'', [UsageTypeSel]),
     (0x33, ''Right Hand'', [UsageTypeSel]),
     (0x34, ''Both Hands'', [UsageTypeSel]),
     (0x40, ''Grip Pose Offset'', [UsageTypeCP]),
     (0x41, ''Pointer Pose Offset'', [UsageTypeCP])]"

definition usages_kb_1 :: "usage_row list" where
  "usages_kb_1 =
    [(0x01, ''Keyboard ErrorRollOver'', [UsageTypeSel]),
     (0x02, ''Keyboard POSTFail'', [UsageTypeSel]),
     (0x03, ''Keyboard ErrorUndefined'', [UsageTypeSel]),
     (0x04, ''Keyboard a and A'', [UsageTypeSel]),
     (0x05, ''Keyboard b and B'', [UsageTypeSel]),
     (0x06, ''Keyboard c and C'', [UsageTypeSel]),
     (0x07, ''Keyboard d and D'', [UsageTypeSel]),
     (0x08, ''Keyboard e and E'', [UsageTypeSel]),
     (0x09, ''Keyboard f and F'', [UsageTypeSel]),
     (0x0a, ''Keyboard g and G'', [UsageTypeSel]),
     (0x0b, ''Keyboard h and H'', [UsageTypeSel]),
     (0x0c, ''Keyboard i and I'', [UsageTypeSel]),
     (0x0d, ''Keyboard j and J'', [UsageTypeSel]),
     (0x0e, ''Keyboard k and K'', [UsageTypeSel]),
     (0x0f, ''Keyboard l and L'', [UsageTypeSel]),
     (0x10, ''Keyboard m and M'', [UsageTypeSel]),
     (0x11, ''Keyboard n and N'', [UsageTypeSel]),
     (0x12, ''Keyboard o and O'', [UsageTypeSel]),
     (0x13, ''Keyboard p and P'', [UsageTypeSel]),
     (0x14, ''Keyboard q and Q'', [UsageTypeSel]),
     (0x15, ''Keyboard r and R'', [UsageTypeSel]),
     (0x16, ''Keyboard s and S'', [UsageTypeSel]),
     (0x17, ''Keyboard t and T'', [UsageTypeSel]),
     (0x18, ''Keyboard u and U'', [UsageTypeSel]),
     (0x19, ''Keyboard v and V'', [UsageTypeSel]),
     (0x1a, ''Keyboard w and W'', [UsageTypeSel]),
     (0x1b, ''Keyboard x and X'', [UsageTypeSel]),
     (0x1c, ''Keyboard y and Y'', [UsageTypeSel]),
     (0x1d, ''Keyboard z and Z'', [UsageTypeSel]),
     (0x1e, ''Keyboard 1 and !'', [UsageTypeSel]),
     (0x1f, ''Keyboard 2 and @'', [UsageTypeSel]),
     (0x20, ''Keyboard 3 and #'', [UsageTypeSel]),
     (0x21, ''Keyboard 4 and $'', [UsageTypeSel]),
     (0x22, ''Keyboard 5 and %'', [UsageTypeSel]),
     (0x23, ''Keyboard 6 and '' @ [CHR 0xE2, CHR 0x88, CHR 0xA7], [UsageTypeSel]),
     (0x24, ''Keyboard 7 and &'', [UsageTypeSel]),
     (0x25, ''Keyboard 8 and *'', [UsageTypeSel]),
     (0x26, ''Keyboard 9 and ('', [UsageTypeSel]),
     (0x27, ''Keyboard 0 and )'', [UsageTypeSel]),
     (0x28, ''Keyboard Return (ENTER)'', [UsageTypeSel]),
     (0x29, ''Keyboard ESCAPE'', [UsageTypeSel]),
     (0x2a, ''Keyboard DELETE (Backspace)'', [UsageTypeSel]),
     (0x2b, ''Keyboard Tab'', [UsageTypeSel]),
     (0x2c, ''Keyboard Spacebar'', [UsageTypeSel]),
     (0x2d, ''Keyboard - and (underscore)'', [UsageTypeSel]),
     (0x2e, ''Keyboard = and +'', [UsageTypeSel]),
     (0x2f, ''Keyboard [ and {'', [UsageTypeSel]),
     (0x30, ''Keyboard ] and }'', [UsageTypeSel]),
     (0x31, ''Keyboard '' @ [CHR 0x5C] @ '' and |'', [UsageTypeSel]),
     (0x32, ''Keyboard Non-US # and '' @ [CHR 0xCB, CHR 0x9C], [UsageTypeSel]),
     (0x33, ''Keyboard ; and :'', [UsageTypeSel]),
     (0x34, ''Keyboard '' @ [CHR 0x27] @ '' and '' @ [CHR 0x22], [UsageTypeSel]),
     (0x35, ''Keyboard Grave Accent and Tilde'', [UsageTypeSel]),
     (0x36, ''Keyboard , and <'', [UsageTypeSel]),
     (0x37, ''Keyboard . and >'', [UsageTypeSel]),
     (0x38, ''Keyboard / and ?'', [UsageTypeSel]),
     (0x39, ''Keyboard Caps Lock'', [UsageTypeSel]),
     (0x3a, ''Keyboard F1'', [UsageTypeSel]),
     (0x3b, ''Keyboard F2'', [UsageTypeSel]),
     (0x3c, ''Keyboard F3'', [UsageTypeSel]),
     (0x3d, ''Keyboard F4'', [UsageTypeSel]),
     (0x3e, ''Keyboard F5'', [UsageTypeSel]),
     (0x3f, ''Keyboard F6'', [UsageTypeSel]),
     (0x40, ''Keyboard F7'', [UsageTypeSel]),
     (0x41, ''Keyboard F8'', [UsageTypeSel]),
     (0x42, ''Keyboard F9'', [UsageTypeSel]),
     (0x43, ''Keyboard F10'', [UsageTypeSel]),
     (0x44, ''Keyboard F11'', [UsageTypeSel]),
     (0x45, ''Keyboard F12'', [UsageTypeSel]),
     (0x46, ''Keyboard PrintScreen'', [UsageTypeSel]),
     (0x47, ''Keyboard Scroll Lock'', [UsageTypeSel]),
     (0x48, ''Keyboard Pause'', [UsageTypeSel]),
     (0x49, ''Keyboard Insert'', [UsageTypeSel]),
     (0x4a, ''Keyboard Home'', [UsageTypeSel]),
     (0x4b, ''Keyboard PageUp'', [UsageTypeSel]),
     (0x4c, ''Keyboard Delete Forward'', [UsageTypeSel]),
     (0x4d, ''Keyboard End'', [UsageTypeSel]),
     (0x4e, ''Keyboard PageDown'', [UsageTypeSel]),
     (0x4f, ''Keyboard RightArrow'', [UsageTypeSel]),
     (0x50, ''Keyboard LeftArrow'', [UsageTypeSel]),
     (0x51, ''Keyboard DownArrow'', [UsageTypeSel]),
     (0x52, ''Keyboard UpArrow'', [UsageTypeSel]),
     (0x53, ''Keypad Num Lock and Clear'', [UsageTypeSel]),
     (0x54, ''Keypad /'', [UsageTypeSel]),
     (0x55, ''Keypad *'', [UsageTypeSel]),
     (0x56, ''Keypad -'', [UsageTypeSel]),
     (0x57, ''Keypad +'', [UsageTypeSel]),
     (0x58, ''Keypad ENTER'', [UsageTypeSel]),
     (0x59, ''Keypad 1 and End'', [UsageTypeSel]),
     (0x5a, ''Keypad 2 and Down Arrow'', [UsageTypeSel]),
     (0x5b, ''Keypad 3 and PageDn'', [UsageTypeSel]),
     (0x5c, ''Keypad 4 and Left Arrow'', [UsageTypeSel]),
     (0x5d, ''Keypad 5'', [UsageTypeSel]),
     (0x5e, ''Keypad 6 and Right Arrow'', [UsageTypeSel]),
     (0x5f, ''Keypad 7 and Home'', [UsageTypeSel]),
     (0x60, ''Keypad 8 and Up Arrow'', [UsageTypeSel]),
     (0x61, ''Keypad 9 and PageUp'', [UsageTypeSel]),
     (0x62, ''Keypad 0 and Insert'', [UsageTypeSel]),
     (0x63, ''Keypad . and Delete'', [UsageTypeSel]),
     (0x64, ''Keyboard Non-US '' @ [CHR 0x5C] @ '' and |'', [UsageTypeSel]),
     (0x65, ''Keyboard Application'', [UsageTypeSel]),
     (0x66, ''Keyboard Power'', [UsageTypeSel]),
     (0x67, ''Keypad ='', [UsageTypeSel]),
     (0x68, ''Keyboard F13'', [UsageTypeSel]),
     (0x69, ''Keyboard F14'', [UsageTypeSel]),
     (0x6a, ''Keyboard F15'', [UsageTypeSel]),
     (0x6b, ''Keyboard F16'', [UsageTypeSel]),
     (0x6c, ''Keyboard F17'', [UsageTypeSel]),
     (0x6d, ''Keyboard F18'', [UsageTypeSel]),
     (0x6e, ''Keyboard F19'', [UsageTypeSel]),
     (0x6f, ''Keyboard F20'', [UsageTypeSel]),
     (0x70, ''Keyboard F21'', [UsageTypeSel]),
     (0x71, ''Keyboard F22'', [UsageTypeSel]),
     (0x72, ''Keyboard F23'', [UsageTypeSel]),
     (0x73, ''Keyboard F24'', [UsageTypeSel]),
     (0x74, ''Keyboard Execute'', [UsageTypeSel]),
     (0x75, ''Keyboard Help'', [UsageTypeSel]),
     (0x76, ''Keyboard Menu'', [UsageTypeSel]),
     (0x77, ''Keyboard Select'', [UsageTypeSel]),
     (0x78, ''Keyboard Stop'', [UsageTypeSel]),
     (0x79, ''Keyboard Again'', [UsageTypeSel]),
     (0x7a, ''Keyboard Undo'', [UsageTypeSel]),
     (0x7b, ''Keyboard Cut'', [UsageTypeSel]),
     (0x7c, ''Keyboard Copy'', [UsageTypeSel]),
     (0x7d, ''Keyboard Paste'', [UsageTypeSel]),
     (0x7e, ''Keyboard Find'', [UsageTypeSel]),
     (0x7f, ''Keyboard Mute'', [UsageTypeSel]),
     (0x80, ''Keyboard Volume Up'', [UsageTypeSel]),
     (0x81, ''Keyboard Volume Down'', [UsageTypeSel]),
     (0x82, ''Keyboard Locking Caps Lock'', [UsageTypeSel]),
     (0x83, ''Keyboard Locking Num Lock'', [UsageTypeSel]),
     (0x84, ''Keyboard Locking Scroll Lock'', [UsageTypeSel]),
     (0x85, ''Keypad Comma'', [UsageTypeSel]),
     (0x86, ''Keypad Equal Sign'', [UsageTypeSel]),
     (0x87, ''Keyboard International1'', [UsageTypeSel]),
     (0x88, ''Keyboard International2'', [UsageTypeSel]),
     (0x89, ''Keyboard International3'', [UsageTypeSel]),
     (0x8a, ''Keyboard International4'', [UsageTypeSel]),
     (0x8b, ''Keyboard International5'', [UsageTypeSel]),
     (0x8c, ''Keyboard International6'', [UsageTypeSel])]"

definition usages_kb_2 :: "usage_row list" where
  "usages_kb_2 =
    [(0x8d, ''Keyboard International7'', [UsageTypeSel]),
     (0x8e, ''Keyboard International8'', [UsageTypeSel]),
     (0x8f, ''Keyboard International9'', [UsageTypeSel]),
     (0x90, ''Keyboard LANG1'', [UsageTypeSel]),
     (0x91, ''Keyboard LANG2'', [UsageTypeSel]),
     (0x92, ''Keyboard LANG3'', [UsageTypeSel]),
     (0x93, ''Keyboard LANG4'', [UsageTypeSel]),
     (0x94, ''Keyboard LANG5'', [UsageTypeSel]),
     (0x95, ''Keyboard LANG6'', [UsageTypeSel]),
     (0x96, ''Keyboard LANG7'', [UsageTypeSel]),
     (0x97, ''Keyboard LANG8'', [UsageTypeSel]),
     (0x98, ''Keyboard LANG9'', [UsageTypeSel]),
     (0x99, ''Keyboard Alternate Erase'', [UsageTypeSel]),
     (0x9a, ''Keyboard SysReq/Attention'', [UsageTypeSel]),
     (0x9b, ''Keyboard Cancel'', [UsageTypeSel]),
     (0x9c, ''Keyboard Clear'', [UsageTypeSel]),
     (0x9d, ''Keyboard Prior'', [UsageTypeSel]),
     (0x9e, ''Keyboard Return'', [UsageTypeSel]),
     (0x9f, ''Keyboard Separator'', [UsageTypeSel]),
     (0xa0, ''Keyboard Out'', [UsageTypeSel]),
     (0xa1, ''Keyboard Oper'', [UsageTypeSel]),
     (0xa2, ''Keyboard Clear/Again'', [UsageTypeSel]),
     (0xa3, ''Keyboard CrSel/Props'', [UsageTypeSel]),
     (0xa4, ''Keyboard ExSel'', [UsageTypeSel]),
     (0xb0, ''Keypad 00'', [UsageTypeSel]),
     (0xb1, ''Keypad 000'', [UsageTypeSel]),
     (0xb2, ''Thousands Separator'', [UsageTypeSel]),
     (0xb3, ''Decimal Separator'', [UsageTypeSel]),
     (0xb4, ''Currency Unit'', [UsageTypeSel]),
     (0xb5, ''Currency Sub-unit'', [UsageTypeSel]),
     (0xb6, ''Keypad ('', [UsageTypeSel]),
     (0xb7, ''Keypad )'', [UsageTypeSel]),
     (0xb8, ''Keypad {'', [UsageTypeSel]),
     (0xb9, ''Keypad }'', [UsageTypeSel]),
     (0xba, ''Keypad Tab'', [UsageTypeSel]),
     (0xbb, ''Keypad Backspace'', [UsageTypeSel]),
     (0xbc, ''Keypad A'', [UsageTypeSel]),
     (0xbd, ''Keypad B'', [UsageTypeSel]),
     (0xbe, ''Keypad C'', [UsageTypeSel]),
     (0xbf, ''Keypad D'', [UsageTypeSel]),
     (0xc0, ''Keypad E'', [UsageTypeSel]),
     (0xc1, ''Keypad F'', [UsageTypeSel]),
     (0xc2, ''Keypad XOR'', [UsageTypeSel]),
     (0xc3, ''Keypad ^'', [UsageTypeSel]),
     (0xc4, ''Keypad %'', [UsageTypeSel]),
     (0xc5, ''Keypad <'', [UsageTypeSel]),
     (0xc6, ''Keypad >'', [UsageTypeSel]),
     (0xc7, ''Keypad &'', [UsageTypeSel]),
     (0xc8, ''Keypad &&'', [UsageTypeSel]),
     (0xc9, ''Keypad |'', [UsageTypeSel]),
     (0xca, ''Keypad ||'', [UsageTypeSel]),
     (0xcb, ''Keypad :'', [UsageTypeSel]),
     (0xcc, ''Keypad #'', [UsageTypeSel]),
     (0xcd, ''Keypad Space'', [UsageTypeSel]),
     (0xce, ''Keypad @'', [UsageTypeSel]),
     (0xcf, ''Keypad !'', [UsageTypeSel]),
     (0xd0, ''Keypad Memory Store'', [UsageTypeSel]),
     (0xd1, ''Keypad Memory Recall'', [UsageTypeSel]),
     (0xd2, ''Keypad Memory Clear'', [UsageTypeSel]),
     (0xd3, ''Keypad Memory Add'', [UsageTypeSel]),
     (0xd4, ''Keypad Memory Subtract'', [UsageTypeSel]),
     (0xd5, ''Keypad Memory Multiply'', [UsageTypeSel]),
     (0xd6, ''Keypad Memory Divide'', [UsageTypeSel]),
     (0xd7, ''Keypad +/-'', [UsageTypeSel]),
     (0xd8, ''Keypad Clear'', [UsageTypeSel]),
     (0xd9, ''Keypad Clear Entry'', [UsageTypeSel]),
     (0xda, ''Keypad Binary'', [UsageTypeSel]),
     (0xdb, ''Keypad Octal'', [UsageTypeSel]),
     (0xdc, ''Keypad Decimal'', [UsageTypeSel]),
     (0xdd, ''Keypad Hexadecimal'', [UsageTypeSel]),
     (0xe0, ''Keyboard LeftControl'', [UsageTypeSel]),
     (0xe1, ''Keyboard LeftShift'', [UsageTypeSel]),
     (0xe2, ''Keyboard LeftAlt'', [UsageTypeSel]),
     (0xe3, ''Keyboard LeftGUI'', [UsageTypeSel]),
     (0xe4, ''Keyboard RightControl'', [UsageTypeSel]),
     (0xe5, ''Keyboard RightShift'', [UsageTypeSel]),
     (0xe6, ''Keyboard RightAlt'', [UsageTypeSel]),
     (0xe7, ''Keyboard RightGUI'', [UsageTypeSel])]"

definition usages_led :: "usage_row list" where
  "usages_led =
    [(0x00, ''Undefined'', []),
     (0x01, ''Num Lock'', [UsageTypeOOC]),
     (0x02, ''Caps Lock'', [UsageTypeOOC]),
     (0x03, ''Scroll Lock'', [UsageTypeOOC]),
     (0x04, ''Compose'', [UsageTypeOOC]),
     (0x05, ''Kana'', [UsageTypeOOC]),
     (0x06, ''Power'', [UsageTypeOOC]),
     (0x07, ''Shift'', [UsageTypeOOC]),
     (0x08, ''Do Not Disturb'', [UsageTypeOOC]),
     (0x09, ''Mute'', [UsageTypeOOC]),
     (0x0a, ''Tone Enable'', [UsageTypeOOC]),
     (0x0b, ''High Cut Filter'', [UsageTypeOOC]),
     (0x0c, ''Low Cut Filter'', [UsageTypeOOC]),
     (0x0d, ''Equalizer Enable'', [UsageTypeOOC]),
     (0x0e, ''Sound Field On'', [UsageTypeOOC]),
     (0x0f, ''Surround On'', [UsageTypeOOC]),
     (0x10, ''Repeat'', [UsageTypeOOC]),
     (0x11, ''Stereo'', [UsageTypeOOC]),
     (0x12, ''Sampling Rate Detect'', [UsageTypeOOC]),
     (0x13, ''Spinning'', [UsageTypeOOC]),
     (0x14, ''CAV'', [UsageTypeOOC]),
     (0x15, ''CLV'', [UsageTypeOOC]),
     (0x16, ''Recording Format Detect'', [UsageTypeOOC]),
     (0x17, ''Off-Hook'', [UsageTypeOOC]),
     (0x18, ''Ring'', [UsageTypeOOC]),
     (0x19, ''Message Waiting'', [UsageTypeOOC]),
     (0x1a, ''Data Mode'', [UsageTypeOOC]),
     (0x1b, ''Battery Operation'', [UsageTypeOOC]),
     (0x1c, ''Battery OK'', [UsageTypeOOC]),
     (0x1d, ''Battery Low'', [UsageTypeOOC]),
     (0x1e, ''Speaker'', [UsageTypeOOC]),
     (0x1f, ''Headset'', [UsageTypeOOC]),
     (0x20, ''Hold'', [UsageTypeOOC]),
     (0x21, ''Microphone'', [UsageTypeOOC]),
     (0x22, ''Coverage'', [UsageTypeOOC]),
     (0x23, ''Night Mode'', [UsageTypeOOC]),
     (0x24, ''Send Calls'', [UsageTypeOOC]),
     (0x25, ''Call Pickup'', [UsageTypeOOC]),
     (0x26, ''Conference'', [UsageTypeOOC]),
     (0x27, ''Stand-by'', [UsageTypeOOC]),
     (0x28, ''Camera On'', [UsageTypeOOC]),
     (0x29, ''Camera Off'', [UsageTypeOOC]),
     (0x2a, ''On-Line'', [UsageTypeOOC]),
     (0x2b, ''Off-Line'', [UsageTypeOOC]),
     (0x2c, ''Busy'', [UsageTypeOOC]),
     (0x2d, ''Ready'', [UsageTypeOOC]),
     (0x2e, ''Paper-Out'', [UsageTypeOOC]),
     (0x2f, ''Paper-Jam'', [UsageTypeOOC]),
     (0x30, ''Remote'', [UsageTypeOOC]),
     (0x31, ''Forward'', [UsageTypeOOC]),
     (0x32, ''Reverse'', [UsageTypeOOC]),
     (0x33, ''Stop'', [UsageTypeOOC]),
     (0x34, ''Rewind'', [UsageTypeOOC]),
     (0x35, ''Fast Forward'', [UsageTypeOOC]),
     (0x36, ''Play'', [UsageTypeOOC]),
     (0x37, ''Pause'', [UsageTypeOOC]),
     (0x38, ''Record'', [UsageTypeOOC]),
     (0x39, ''Error'', [UsageTypeOOC]),
     (0x3a, ''Usage Selected Indicator'', [UsageTypeUS]),
     (0x3b, ''Usage In Use Indicator'', [UsageTypeUS]),
     (0x3c, ''Usage Multi Mode Indicator'', [UsageTypeUM]),
     (0x3d, ''Indicator On'', [UsageTypeSel]),
     (0x3e, ''Indicator Flash'', [UsageTypeSel]),
     (0x3f, ''Indicator Slow Blink'', [UsageTypeSel]),
     (0x40, ''Indicator Fast Blink'', [UsageTypeSel]),
     (0x41, ''Indicator Off'', [UsageTypeSel]),
     (0x42, ''Flash On Time'', [UsageTypeDV]),
     (0x43, ''Slow Blink On Time'', [UsageTypeDV]),
     (0x44, ''Slow Blink Off Time'', [UsageTypeDV]),
     (0x45, ''Fast Blink On Time'', [UsageTypeDV]),
     (0x46, ''Fast Blink Off Time'', [UsageTypeDV]),
     (0x47, ''Usage Indicator Color'', [UsageTypeUM]),
     (0x48, ''Indicator Red'', [UsageTypeSel]),
     (0x49, ''Indicator Green'', [UsageTypeSel]),
     (0x4a, ''Indicator Amber'', [UsageTypeSel]),
     (0x4b, ''Generic Indicator'', [UsageTypeOOC]),
     (0x4c, ''System Suspend'', [UsageTypeOOC]),
     (0x4d, ''External Power Connected'', [UsageTypeOOC]),
     (0x4e, ''Indicator Blue'', [UsageTypeSel]),
     (0x4f, ''Indicator Orange'', [UsageTypeSel]),
     (0x50, ''Good Status'', [UsageTypeOOC]),
     (0x51, ''Warning Status'', [UsageTypeOOC]),
     (0x52, ''RGB LED'', [UsageTypeCL]),
     (0x53, ''Red LED Channel'', [UsageTypeDV]),
     (0x54, ''Blue LED Channel'', [UsageTypeDV]),
     (0x55, ''Green LED Channel'', [UsageTypeDV]),
     (0x56, ''LED Intensity'', [UsageTypeDV]),
     (0x57, ''bookmark529'', [UsageTypeOOC]),
     (0x60, ''Player Indicator'', [UsageTypeNAry]),
     (0x61, ''Player 1'', [UsageTypeSel]),
     (0x62, ''Player 2'', [UsageTypeSel]),
     (0x63, ''Player 3'', [UsageTypeSel]),
     (0x64, ''Player 4'', [UsageTypeSel]),
     (0x65, ''Player 5'', [UsageTypeSel]),
     (0x66, ''Player 6'', [UsageTypeSel]),
     (0x67, ''Player 7'', [UsageTypeSel]),
     (0x68, ''Player 8'', [UsageTypeSel])]"

definition usages_td :: "usage_row list" where
  "usages_td =
    [(0x00, ''Undefined'', []),
     (0x01, ''Phone'', [UsageTypeCA]),
     (0x02, ''Answering Machine'', [UsageTypeCA]),
     (0x03, ''Message Controls'', [UsageTypeCL]),
     (0x04, ''Handset'', [UsageTypeCL]),
     (0x05, ''Headset'', [UsageTypeCL, UsageTypeCA]),
     (0x06, ''Telephony Key Pad'', [UsageTypeNAry]),
     (0x07, ''Programmable Button'', [UsageTypeNAry]),
     (0x20, ''Hook Switch'', [UsageTypeOOC]),
     (0x21, ''Flash'', [UsageTypeMC]),
     (0x22, ''Feature'', [UsageTypeOSC]),
     (0x23, ''Hold'', [UsageTypeOOC]),
     (0x24, ''Redial'', [UsageTypeOSC]),
     (0x25, ''Transfer'', [UsageTypeOSC]),
     (0x26, ''Drop'', [UsageTypeOSC]),
     (0x27, ''Park'', [UsageTypeOOC]),
     (0x28, ''Forward Calls'', [UsageTypeOOC]),
     (0x29, ''Alternate Function'', [UsageTypeMC]),
     (0x2a, ''Line'', [UsageTypeOSC, UsageTypeNAry]),
     (0x2b, ''Speaker Phone'', [UsageTypeOOC]),
     (0x2c, ''Conference'', [UsageTypeOOC]),
     (0x2d, ''Ring Enable'', [UsageTypeOOC]),
     (0x2e, ''Ring Select'', [UsageTypeOSC]),
     (0x2f, ''Phone Mute'', [UsageTypeOOC]),
     (0x30, ''Caller ID'', [UsageTypeMC]),
     (0x31, ''Send'', [UsageTypeOOC]),
     (0x50, ''Speed Dial'', [UsageTypeOSC]),
     (0x51, ''Store Number'', [UsageTypeOSC]),
     (0x52, ''Recall Number'', [UsageTypeOSC]),
     (0x53, ''Phone Directory'', [UsageTypeOOC]),
     (0x70, ''Voice Mail'', [UsageTypeOOC]),
     (0x71, ''Screen Calls'', [UsageTypeOOC]),
     (0x72, ''Do Not Disturb'', [UsageTypeOOC]),
     (0x73, ''Message'', [UsageTypeOSC]),
     (0x74, ''Answer On/Off'', [UsageTypeOOC]),
     (0x90, ''Inside Dial Tone'', [UsageTypeMC]),
     (0x91, ''Outside Dial Tone'', [UsageTypeMC]),
     (0x92, ''Inside Ring Tone'', [UsageTypeMC]),
     (0x93, ''Outside Ring Tone'', [UsageTypeMC]),
     (0x94, ''Priority Ring Tone'', [UsageTypeMC]),
     (0x95, ''Inside Ringback'', [UsageTypeMC]),
     (0x96, ''Priority Ringback'', [UsageTypeMC]),
     (0x97, ''Line Busy Tone'', [UsageTypeMC]),
     (0x98, ''Reorder Tone'', [UsageTypeMC]),
     (0x99, ''Call Waiting Tone'', [UsageTypeMC]),
     (0x9a, ''Confirmation Tone 1'', [UsageTypeMC]),
     (0x9b, ''Confirmation Tone 2'', [UsageTypeMC]),
     (0x9c, ''Tones Off'', [UsageTypeOOC]),
     (0x9d, ''Outside Ringback'', [UsageTypeMC]),
     (0x9e, ''Ringer'', [UsageTypeOOC]),
     (0xb0, ''Phone Key 0'', [UsageTypeSel]),
     (0xb1, ''Phone Key 1'', [UsageTypeSel]),
     (0xb2, ''Phone Key 2'', [UsageTypeSel]),
     (0xb3, ''Phone Key 3'', [UsageTypeSel]),
     (0xb4, ''Phone Key 4'', [UsageTypeSel]),
     (0xb5, ''Phone Key 5'', [UsageTypeSel]),
     (0xb6, ''Phone Key 6'', [UsageTypeSel]),
     (0xb7, ''Phone Key 7'', [UsageTypeSel]),
     (0xb8, ''Phone Key 8'', [UsageTypeSel]),
     (0xb9, ''Phone Key 9'', [UsageTypeSel]),
     (0xba, ''Phone Key Star'', [UsageTypeSel]),
     (0xbb, ''Phone Key Pound'', [UsageTypeSel]),
     (0xbc, ''Phone Key A'', [UsageTypeSel]),
     (0xbd, ''Phone Key B'', [UsageTypeSel]),
     (0xbe, ''Phone Key C'', [UsageTypeSel]),
     (0xbf, ''Phone Key D'', [UsageTypeSel]),
     (0xc0, ''Phone Call History Key'', [UsageTypeSel]),
     (0xc1, ''Phone Caller ID Key'', [UsageTypeSel]),
     (0xc2, ''Phone Settings Key'', [UsageTypeSel]),
     (0xf0, ''Host Control'', [UsageTypeOOC]),
     (0xf1, ''Host Available'', [UsageTypeOOC]),
     (0xf2, ''Host Call Active'', [UsageTypeOOC]),
     (0xf3, ''Activate Handset Audio'', [UsageTypeOOC]),
     (0xf4, ''Ring Type'', [UsageTypeNAry]),
     (0xf5, ''Re-dialable Phone Number'', [UsageTypeOOC]),
     (0xf8, ''Stop Ring Tone'', [UsageTypeSel]),
     (0xf9, ''PSTN Ring Tone'', [UsageTypeSel]),
     (0xfa, ''Host Ring Tone'', [UsageTypeSel]),
     (0xfb, ''Alert Sound Error'', [UsageTypeSel]),
     (0xfc, ''Alert Sound Confirm'', [UsageTypeSel]),
     (0xfd, ''Alert Sound Notification'', [UsageTypeSel]),
     (0xfe, ''Silent Ring'', [UsageTypeSel]),
     (0x108, ''Email Message Waiting'', [UsageTypeOOC]),
     (0x109, ''Voicemail Message Waiting'', [UsageTypeOOC]),
     (0x10a, ''Host Hold'', [UsageTypeOOC]),
     (0x110, ''Incoming Call History Count'', [UsageTypeDV]),
     (0x111, ''Outgoing Call History Count'', [UsageTypeDV]),
     (0x112, ''Incoming Call History'', [UsageTypeCL]),
     (0x113, ''Outgoing Call History'', [UsageTypeCL]),
     (0x114, ''Phone Locale'', [UsageTypeDV]),
     (0x140, ''Phone Time Second'', [UsageTypeDV]),
     (0x141, ''Phone Time Minute'', [UsageTypeDV]),
     (0x142, ''Phone Time Hour'', [UsageTypeDV]),
     (0x143, ''Phone Date Day'', [UsageTypeDV]),
     (0x144, ''Phone Date Month'', [UsageTypeDV]),
     (0x145, ''Phone Date Year'', [UsageTypeDV]),
     (0x146, ''Handset Nickname'', [UsageTypeDV]),
     (0x147, ''Address Book ID'', [UsageTypeDV]),
     (0x14a, ''Call Duration'', [UsageTypeDV]),
     (0x14b, ''Dual Mode Phone'', [UsageTypeCA])]"

definition usages_con_1 :: "usage_row list" where
  "usages_con_1 =
    [(0x00, ''Undefined'', []),
     (0x01, ''Consumer Control'', [UsageTypeCA]),
     (0x02, ''Numeric Key Pad'', [UsageTypeNAry]),
     (0x03, ''Programmable Buttons'', [UsageTypeNAry]),
     (0x04, ''Microphone'', [UsageTypeCA]),
     (0x05, ''Headphone'', [UsageTypeCA]),
     (0x06, ''Graphic Equalizer'', [UsageTypeCA]),
     (0x20, ''+10'', [UsageTypeOSC]),
     (0x21, ''+100'', [UsageTypeOSC]),
     (0x22, ''AM/PM'', [UsageTypeOSC]),
     (0x30, ''Power'', [UsageTypeOOC]),
     (0x31, ''Reset'', [UsageTypeOSC]),
     (0x32, ''Sleep'', [UsageTypeOSC]),
     (0x33, ''Sleep After'', [UsageTypeOSC]),
     (0x34, ''Sleep Mode'', [UsageTypeRTC]),
     (0x35, ''Illumination'', [UsageTypeOOC]),
     (0x36, ''Function Buttons'', [UsageTypeNAry]),
     (0x40, ''Menu'', [UsageTypeOOC]),
     (0x41, ''Menu Pick'', [UsageTypeOSC]),
     (0x42, ''Menu Up'', [UsageTypeOSC]),
     (0x43, ''Menu Down'', [UsageTypeOSC]),
     (0x44, ''Menu Left'', [UsageTypeOSC]),
     (0x45, ''Menu Right'', [UsageTypeOSC]),
     (0x46, ''Menu Escape'', [UsageTypeOSC]),
     (0x47, ''Menu Value Increase'', [UsageTypeOSC]),
     (0x48, ''Menu Value Decrease'', [UsageTypeOSC]),
     (0x60, ''Data On Screen'', [UsageTypeOOC]),
     (0x61, ''Closed Caption'', [UsageTypeOOC]),
     (0x62, ''Closed Caption Select'', [UsageTypeOSC]),
     (0x63, ''VCR/TV'', [UsageTypeOOC]),
     (0x64, ''Broadcast Mode'', [UsageTypeOSC]),
     (0x65, ''Snapshot'', [UsageTypeOSC]),
     (0x66, ''Still'', [UsageTypeOSC]),
     (0x67, ''Picture-in-Picture Toggle'', [UsageTypeOSC]),
     (0x68, ''Picture-in-Picture Swap'', [UsageTypeOSC]),
     (0x69, ''Red Menu Button'', [UsageTypeMC]),
     (0x6a, ''Green Menu Button'', [UsageTypeMC]),
     (0x6b, ''Blue Menu Button'', [UsageTypeMC]),
     (0x6c, ''Yellow Menu Button'', [UsageTypeMC]),
     (0x6d, ''Aspect'', [UsageTypeOSC]),
     (0x6e, ''3D Mode Select'', [UsageTypeOSC]),
     (0x6f, ''Display Brightness Increment'', [UsageTypeRTC]),
     (0x70, ''Display Brightness Decrement'', [UsageTypeRTC]),
     (0x71, ''Display Brightness'', [UsageTypeLC]),
     (0x72, ''Display Backlight Toggle'', [UsageTypeOOC]),
     (0x73, ''Display Set Brightness to Minimum'', [UsageTypeOSC]),
     (0x74, ''Display Set Brightness to Maximum'', [UsageTypeOSC]),
     (0x75, ''Display Set Auto Brightness'', [UsageTypeOOC]),
     (0x76, ''Camera Access Enabled'', [UsageTypeOOC]),
     (0x77, ''Camera Access Disabled'', [UsageTypeOOC]),
     (0x78, ''Camera Access Toggle'', [UsageTypeOOC]),
     (0x79, ''Keyboard Brightness Increment'', [UsageTypeOSC]),
     (0x7a, ''Keyboard Brightness Decrement'', [UsageTypeOSC]),
     (0x7b, ''Keyboard Backlight Set Level'', [UsageTypeLC]),
     (0x7c, ''Keyboard Backlight OOC'', [UsageTypeOOC]),
     (0x7d, ''Keyboard Backlight Set Minimum'', [UsageTypeOSC]),
     (0x7e, ''Keyboard Backlight Set Maximum'', [UsageTypeOSC]),
     (0x7f, ''Keyboard Backlight Auto'', [UsageTypeOOC]),
     (0x80, ''Selection'', [UsageTypeNAry]),
     (0x81, ''Assign Selection'', [UsageTypeOSC]),
     (0x82, ''Mode Step'', [UsageTypeOSC]),
     (0x83, ''Recall Last'', [UsageTypeOSC]),
     (0x84, ''Enter Channel'', [UsageTypeOSC]),
     (0x85, ''Order Movie'', [UsageTypeOSC]),
     (0x86, ''Channel'', [UsageTypeLC]),
     (0x87, ''Media Selection'', [UsageTypeNAry]),
     (0x88, ''Media Select Computer'', [UsageTypeSel]),
     (0x89, ''Media Select TV'', [UsageTypeSel]),
     (0x8a, ''Media Select WWW'', [UsageTypeSel]),
     (0x8b, ''Media Select DVD'', [UsageTypeSel]),
     (0x8c, ''Media Select Telephone'', [UsageTypeSel]),
     (0x8d, ''Media Select Program Guide'', [UsageTypeSel]),
     (0x8e, ''Media Select Video Phone'', [UsageTypeSel]),
     (0x8f, ''Media Select Games'', [UsageTypeSel]),
     (0x90, ''Media Select Messages'', [UsageTypeSel]),
     (0x91, ''Media Select CD'', [UsageTypeSel]),
     (0x92, ''Media Select VCR'', [UsageTypeSel]),
     (0x93, ''Media Select Tuner'', [UsageTypeSel]),
     (0x94, ''Quit'', [UsageTypeOSC]),
     (0x95, ''Help'', [UsageTypeOOC]),
     (0x96, ''Media Select Tape'', [UsageTypeSel]),
     (0x97, ''Media Select Cable'', [UsageTypeSel]),
     (0x98, ''Media Select Satellite'', [UsageTypeSel]),
     (0x99, ''Media Select Security'', [UsageTypeSel]),
     (0x9a, ''Media Select Home'', [UsageTypeSel]),
     (0x9b, ''Media Select Call'', [UsageTypeSel]),
     (0x9c, ''Channel Increment'', [UsageTypeOSC]),
     (0x9d, ''Channel Decrement'', [UsageTypeOSC]),
     (0x9e, ''Media Select SAP'', [UsageTypeSel]),
     (0xa0, ''VCR Plus'', [UsageTypeOSC]),
     (0xa1, ''Once'', [UsageTypeOSC]),
     (0xa2, ''Daily'', [UsageTypeOSC]),
     (0xa3, ''Weekly'', [UsageTypeOSC]),
     (0xa4, ''Monthly'', [UsageTypeOSC]),
     (0xb0, ''Play'', [UsageTypeOOC]),
     (0xb1, ''Pause'', [UsageTypeOOC]),
     (0xb2, ''Record'', [UsageTypeOOC]),
     (0xb3, ''Fast Forward'', [UsageTypeOOC]),
     (0xb4, ''Rewind'', [UsageTypeOOC]),
     (0xb5, ''Scan Next Track'', [UsageTypeOSC]),
     (0xb6, ''Scan Previous Track'', [UsageTypeOSC]),
     (0xb7, ''Stop'', [UsageTypeOSC]),
     (0xb8, ''Eject'', [UsageTypeOSC]),
     (0xb9, ''Random Play'', [UsageTypeOOC]),
     (0xba, ''Select Disc'', [UsageTypeNAry]),
     (0xbb, ''Enter Disc'', [UsageTypeMC]),
     (0xbc, ''Repeat'', [UsageTypeOSC]),
     (0xbd, ''Tracking'', [UsageTypeLC]),
     (0xbe, ''Track Normal'', [UsageTypeOSC]),
     (0xbf, ''Slow Tracking'', [UsageTypeLC]),
     (0xc0, ''Frame Forward'', [UsageTypeRTC]),
     (0xc1, ''Frame Back'', [UsageTypeRTC]),
     (0xc2, ''Mark'', [UsageTypeOSC]),
     (0xc3, ''Clear Mark'', [UsageTypeOSC]),
     (0xc4, ''Repeat From Mark'', [UsageTypeOOC]),
     (0xc5, ''Return To Mark'', [UsageTypeOSC]),
     (0xc6, ''Search Mark Forward'', [UsageTypeOSC]),
     (0xc7, ''Search Mark Backwards'', [UsageTypeOSC]),
     (0xc8, ''Counter Reset'', [UsageTypeOSC]),
     (0xc9, ''Show Counter'', [UsageTypeOSC]),
     (0xca, ''Tracking Increment'', [UsageTypeRTC]),
     (0xcb, ''Tracking Decrement'', [UsageTypeRTC]),
     (0xcc, ''Stop/Eject'', [UsageTypeOSC]),
     (0xcd, ''Play/Pause'', [UsageTypeOSC]),
     (0xce, ''Play/Skip'', [UsageTypeOSC]),
     (0xcf, ''Voice Command'', [UsageTypeOSC]),
     (0xd0, ''Invoke Capture Interface'', [UsageTypeSel]),
     (0xd1, ''Start or Stop Game Recording'', [UsageTypeSel]),
     (0xd2, ''Historical Game Capture'', [UsageTypeSel]),
     (0xd3, ''Capture Game Screenshot'', [UsageTypeSel]),
     (0xd4, ''Show or Hide Recording Indicator'', [UsageTypeSel]),
     (0xd5, ''Start or Stop Microphone Capture'', [UsageTypeSel]),
     (0xd6, ''Start or Stop Camera Capture'', [UsageTypeSel]),
     (0xd7, ''Start or Stop Game Broadcast'', [UsageTypeSel]),
     (0xd8, ''Start or Stop Voice Dictation Session'', [UsageTypeOOC]),
     (0xd9, ''Invoke/Dismiss Emoji Picker'', [UsageTypeOOC]),
     (0xe0, ''Volume'', [UsageTypeLC]),
     (0xe1, ''Balance'', [UsageTypeLC]),
     (0xe2, ''Mute'', [UsageTypeOOC]),
     (0xe3, ''Bass'', [UsageTypeLC])]"

definition usages_con_2 :: "usage_row list" where
  "usages_con_2 =
    [(0xe4, ''Treble'', [UsageTypeLC]),
     (0xe5, ''Bass Boost'', [UsageTypeOOC]),
     (0xe6, ''Surround Mode'', [UsageTypeOSC]),
     (0xe7, ''Loudness'', [UsageTypeOOC]),
     (0xe8, ''MPX'', [UsageTypeOOC]),
     (0xe9, ''Volume Increment'', [UsageTypeRTC]),
     (0xea, ''Volume Decrement'', [UsageTypeRTC]),
     (0xf0, ''Speed Select'', [UsageTypeOSC]),
     (0xf1, ''Playback Speed'', [UsageTypeNAry]),
     (0xf2, ''Standard Play'', [UsageTypeSel]),
     (0xf3, ''Long Play'', [UsageTypeSel]),
     (0xf4, ''Extended Play'', [UsageTypeSel]),
     (0xf5, ''Slow'', [UsageTypeOSC]),
     (0x100, ''Fan Enable'', [UsageTypeOOC]),
     (0x101, ''Fan Speed'', [UsageTypeLC]),
     (0x102, ''Light Enable'', [UsageTypeOOC]),
     (0x103, ''Light Illumination Level'', [UsageTypeLC]),
     (0x104, ''Climate Control Enable'', [UsageTypeOOC]),
     (0x105, ''Room Temperature'', [UsageTypeLC]),
     (0x106, ''Security Enable'', [UsageTypeOOC]),
     (0x107, ''Fire Alarm'', [UsageTypeOSC]),
     (0x108, ''Police Alarm'', [UsageTypeOSC]),
     (0x109, ''Proximity'', [UsageTypeLC]),
     (0x10a, ''Motion'', [UsageTypeOSC]),
     (0x10b, ''Duress Alarm'', [UsageTypeOSC]),
     (0x10c, ''Holdup Alarm'', [UsageTypeOSC]),
     (0x10d, ''Medical Alarm'', [UsageTypeOSC]),
     (0x150, ''Balance Right'', [UsageTypeRTC]),
     (0x151, ''Balance Left'', [UsageTypeRTC]),
     (0x152, ''Bass Increment'', [UsageTypeRTC]),
     (0x153, ''Bass Decrement'', [UsageTypeRTC]),
     (0x154, ''Treble Increment'', [UsageTypeRTC]),
     (0x155, ''Treble Decrement'', [UsageTypeRTC]),
     (0x160, ''Speaker System'', [UsageTypeCL]),
     (0x161, ''Channel Left'', [UsageTypeCL]),
     (0x162, ''Channel Right'', [UsageTypeCL]),
     (0x163, ''Channel Center'', [UsageTypeCL]),
     (0x164, ''Channel Front'', [UsageTypeCL]),
     (0x165, ''Channel Center Front'', [UsageTypeCL]),
     (0x166, ''Channel Side'', [UsageTypeCL]),
     (0x167, ''Channel Surround'', [UsageTypeCL]),
     (0x168, ''Channel Low Frequency Enhancement'', [UsageTypeCL]),
     (0x169, ''Channel Top'', [UsageTypeCL]),
     (0x16a, ''Channel Unknown'', [UsageTypeCL]),
     (0x170, ''Sub-channel'', [UsageTypeLC]),
     (0x171, ''Sub-channel Increment'', [UsageTypeOSC]),
     (0x172, ''Sub-channel Decrement'', [UsageTypeOSC]),
     (0x173, ''Alternate Audio Increment'', [UsageTypeOSC]),
     (0x174, ''Alternate Audio Decrement'', [UsageTypeOSC]),
     (0x180, ''Application Launch Buttons'', [UsageTypeNAry]),
     (0x181, ''AL Launch Button Configuration Tool'', [UsageTypeSel]),
     (0x182, ''AL Programmable Button Configuration'', [UsageTypeSel]),
     (0x183, ''AL Consumer Control Configuration'', [UsageTypeSel]),
     (0x184, ''AL Word Processor'', [UsageTypeSel]),
     (0x185, ''AL Text Editor'', [UsageTypeSel]),
     (0x186, ''AL Spreadsheet'', [UsageTypeSel]),
     (0x187, ''AL Graphics Editor'', [UsageTypeSel]),
     (0x188, ''AL Presentation App'', [UsageTypeSel]),
     (0x189, ''AL Database App'', [UsageTypeSel]),
     (0x18a, ''AL Email Reader'', [UsageTypeSel]),
     (0x18b, ''AL Newsreader'', [UsageTypeSel]),
     (0x18c, ''AL Voicemail'', [UsageTypeSel]),
     (0x18d, ''AL Contacts/Address Book'', [UsageTypeSel]),
     (0x18e, ''AL Calendar/Schedule'', [UsageTypeSel]),
     (0x18f, ''AL Task/Project Manager'', [UsageTypeSel]),
     (0x190, ''AL Log/Journal/Timecard'', [UsageTypeSel]),
     (0x191, ''AL Checkbook/Finance'', [UsageTypeSel]),
     (0x192, ''AL Calculator'', [UsageTypeSel]),
     (0x193, ''AL A/V Capture/Playback'', [UsageTypeSel]),
     (0x194, ''AL Local Machine Browser'', [UsageTypeSel]),
     (0x195, ''AL LAN/WAN Browser'', [UsageTypeSel]),
     (0x196, ''AL Internet Browser'', [UsageTypeSel]),
     (0x197, ''AL Remote Networking/ISP Connect'', [UsageTypeSel]),
     (0x198, ''AL Network Conference'', [UsageTypeSel]),
     (0x199, ''AL Network Chat'', [UsageTypeSel]),
     (0x19a, ''AL Telephony/Dialer'', [UsageTypeSel]),
     (0x19b, ''AL Logon'', [UsageTypeSel]),
     (0x19c, ''AL Logoff'', [UsageTypeSel]),
     (0x19d, ''AL Logon/Logoff'', [UsageTypeSel]),
     (0x19e, ''AL Terminal Lock/Screensaver'', [UsageTypeSel]),
     (0x19f, ''AL Control Panel'', [UsageTypeSel]),
     (0x1a0, ''AL Command Line Processor/Run'', [UsageTypeSel]),
     (0x1a1, ''AL Process/Task Manager'', [UsageTypeSel]),
     (0x1a2, ''AL Select Task/Application'', [UsageTypeSel]),
     (0x1a3, ''AL Next Task/Application'', [UsageTypeSel]),
     (0x1a4, ''AL Previous Task/Application'', [UsageTypeSel]),
     (0x1a5, ''AL Preemptive Halt Task/Application'', [UsageTypeSel]),
     (0x1a6, ''AL Integrated Help Center'', [UsageTypeSel]),
     (0x1a7, ''AL Documents'', [UsageTypeSel]),
     (0x1a8, ''AL Thesaurus'', [UsageTypeSel]),
     (0x1a9, ''AL Dictionary'', [UsageTypeSel]),
     (0x1aa, ''AL Desktop'', [UsageTypeSel]),
     (0x1ab, ''AL Spell Check'', [UsageTypeSel]),
     (0x1ac, ''AL Grammar Check'', [UsageTypeSel]),
     (0x1ad, ''AL Wireless Status'', [UsageTypeSel]),
     (0x1ae, ''AL Keyboard Layout'', [UsageTypeSel]),
     (0x1af, ''AL Virus Protection'', [UsageTypeSel]),
     (0x1b0, ''AL Encryption'', [UsageTypeSel]),
     (0x1b1, ''AL Screen Saver'', [UsageTypeSel]),
     (0x1b2, ''AL Alarms'', [UsageTypeSel]),
     (0x1b3, ''AL Clock'', [UsageTypeSel]),
     (0x1b4, ''AL File Browser'', [UsageTypeSel]),
     (0x1b5, ''AL Power Status'', [UsageTypeSel]),
     (0x1b6, ''AL Image Browser'', [UsageTypeSel]),
     (0x1b7, ''AL Audio Browser'', [UsageTypeSel]),
     (0x1b8, ''AL Movie Browser'', [UsageTypeSel]),
     (0x1b9, ''AL Digital Rights Manager'', [UsageTypeSel]),
     (0x1ba, ''AL Digital Wallet'', [UsageTypeSel]),
     (0x1bc, ''AL Instant Messaging'', [UsageTypeSel]),
     (0x1bd, ''AL OEM Features/ Tips/Tutorial Browser'', [UsageTypeSel]),
     (0x1be, ''AL OEM Help'', [UsageTypeSel]),
     (0x1bf, ''AL Online Community'', [UsageTypeSel]),
     (0x1c0, ''AL Entertainment Content Browser'', [UsageTypeSel]),
     (0x1c1, ''AL Online Shopping Browser'', [UsageTypeSel]),
     (0x1c2, ''AL SmartCard Information/Help'', [UsageTypeSel]),
     (0x1c3, ''AL Market Monitor/Finance Browser'', [UsageTypeSel]),
     (0x1c4, ''AL Customized Corporate News Browser'', [UsageTypeSel]),
     (0x1c5, ''AL Online Activity Browser'', [UsageTypeSel]),
     (0x1c6, ''AL Research/Search Browser'', [UsageTypeSel]),
     (0x1c7, ''AL Audio Player'', [UsageTypeSel]),
     (0x1c8, ''AL Message Status'', [UsageTypeSel]),
     (0x1c9, ''AL Contact Sync'', [UsageTypeSel]),
     (0x1ca, ''AL Navigation'', [UsageTypeSel]),
     (0x1cb, ''AL Context-aware Desktop Assistant'', [UsageTypeSel]),
     (0x200, ''Generic GUI Application Controls'', [UsageTypeNAry]),
     (0x201, ''AC New'', [UsageTypeSel]),
     (0x202, ''AC Open'', [UsageTypeSel]),
     (0x203, ''AC Close'', [UsageTypeSel]),
     (0x204, ''AC Exit'', [UsageTypeSel]),
     (0x205, ''AC Maximize'', [UsageTypeSel]),
     (0x206, ''AC Minimize'', [UsageTypeSel]),
     (0x207, ''AC Save'', [UsageTypeSel]),
     (0x208, ''AC Print'', [UsageTypeSel]),
     (0x209, ''AC Properties'', [UsageTypeSel]),
     (0x21a, ''AC Undo'', [UsageTypeSel]),
     (0x21b, ''AC Copy'', [UsageTypeSel]),
     (0x21c, ''AC Cut'', [UsageTypeSel]),
     (0x21d, ''AC Paste'', [UsageTypeSel]),
     (0x21e, ''AC Select All'', [UsageTypeSel]),
     (0x21f, ''AC Find'', [UsageTypeSel])]"

definition usages_con_3 :: "usage_row list" where
  "usages_con_3 =
    [(0x220, ''AC Find and Replace'', [UsageTypeSel]),
     (0x221, ''AC Search'', [UsageTypeSel]),
     (0x222, ''AC Go To'', [UsageTypeSel]),
     (0x223, ''AC Home'', [UsageTypeSel]),
     (0x224, ''AC Back'', [UsageTypeSel]),
     (0x225, ''AC Forward'', [UsageTypeSel]),
     (0x226, ''AC Stop'', [UsageTypeSel]),
     (0x227, ''AC Refresh'', [UsageTypeSel]),
     (0x228, ''AC Previous Link'', [UsageTypeSel]),
     (0x229, ''AC Next Link'', [UsageTypeSel]),
     (0x22a, ''AC Bookmarks'', [UsageTypeSel]),
     (0x22b, ''AC History'', [UsageTypeSel]),
     (0x22c, ''AC Subscriptions'', [UsageTypeSel]),
     (0x22d, ''AC Zoom In'', [UsageTypeSel]),
     (0x22e, ''AC Zoom Out'', [UsageTypeSel]),
     (0x22f, ''AC Zoom'', [UsageTypeLC]),
     (0x230, ''AC Full Screen View'', [UsageTypeSel]),
     (0x231, ''AC Normal View'', [UsageTypeSel]),
     (0x232, ''AC View Toggle'', [UsageTypeSel]),
     (0x233, ''AC Scroll Up'', [UsageTypeSel]),
     (0x234, ''AC Scroll Down'', [UsageTypeSel]),
     (0x235, ''AC Scroll'', [UsageTypeLC]),
     (0x236, ''AC Pan Left'', [UsageTypeSel]),
     (0x237, ''AC Pan Right'', [UsageTypeSel]),
     (0x238, ''AC Pan'', [UsageTypeLC]),
     (0x239, ''AC New Window'', [UsageTypeSel]),
     (0x23a, ''AC Tile Horizontally'', [UsageTypeSel]),
     (0x23b, ''AC Tile Vertically'', [UsageTypeSel]),
     (0x23c, ''AC Format'', [UsageTypeSel]),
     (0x23d, ''AC Edit'', [UsageTypeSel]),
     (0x23e, ''AC Bold'', [UsageTypeSel]),
     (0x23f, ''AC Italics'', [UsageTypeSel]),
     (0x240, ''AC Underline'', [UsageTypeSel]),
     (0x241, ''AC Strikethrough'', [UsageTypeSel]),
     (0x242, ''AC Subscript'', [UsageTypeSel]),
     (0x243, ''AC Superscript'', [UsageTypeSel]),
     (0x244, ''AC All Caps'', [UsageTypeSel]),
     (0x245, ''AC Rotate'', [UsageTypeSel]),
     (0x246, ''AC Resize'', [UsageTypeSel]),
     (0x247, ''AC Flip Horizontal'', [UsageTypeSel]),
     (0x248, ''AC Flip Vertical'', [UsageTypeSel]),
     (0x249, ''AC Mirror Horizontal'', [UsageTypeSel]),
     (0x24a, ''AC Mirror Vertical'', [UsageTypeSel]),
     (0x24b, ''AC Font Select'', [UsageTypeSel]),
     (0x24c, ''AC Font Color'', [UsageTypeSel]),
     (0x24d, ''AC Font Size'', [UsageTypeSel]),
     (0x24e, ''AC Justify Left'', [UsageTypeSel]),
     (0x24f, ''AC Justify Center H'', [UsageTypeSel]),
     (0x250, ''AC Justify Right'', [UsageTypeSel]),
     (0x251, ''AC Justify Block H'', [UsageTypeSel]),
     (0x252, ''AC Justify Top'', [UsageTypeSel]),
     (0x253, ''AC Justify Center V'', [UsageTypeSel]),
     (0x254, ''AC Justify Bottom'', [UsageTypeSel]),
     (0x255, ''AC Justify Block V'', [UsageTypeSel]),
     (0x256, ''AC Indent Decrease'', [UsageTypeSel]),
     (0x257, ''AC Indent Increase'', [UsageTypeSel]),
     (0x258, ''AC Numbered List'', [UsageTypeSel]),
     (0x259, ''AC Restart Numbering'', [UsageTypeSel]),
     (0x25a, ''AC Bulleted List'', [UsageTypeSel]),
     (0x25b, ''AC Promote'', [UsageTypeSel]),
     (0x25c, ''AC Demote'', [UsageTypeSel]),
     (0x25d, ''AC Yes'', [UsageTypeSel]),
     (0x25e, ''AC No'', [UsageTypeSel]),
     (0x25f, ''AC Cancel'', [UsageTypeSel]),
     (0x260, ''AC Catalog'', [UsageTypeSel]),
     (0x261, ''AC Buy/Checkout'', [UsageTypeSel]),
     (0x262, ''AC Add to Cart'', [UsageTypeSel]),
     (0x263, ''AC Expand'', [UsageTypeSel]),
     (0x264, ''AC Expand All'', [UsageTypeSel]),
     (0x265, ''AC Collapse'', [UsageTypeSel]),
     (0x266, ''AC Collapse All'', [UsageTypeSel]),
     (0x267, ''AC Print Preview'', [UsageTypeSel]),
     (0x268, ''AC Paste Special'', [UsageTypeSel]),
     (0x269, ''AC Insert Mode'', [UsageTypeSel]),
     (0x26a, ''AC Delete'', [UsageTypeSel]),
     (0x26b, ''AC Lock'', [UsageTypeSel]),
     (0x26c, ''AC Unlock'', [UsageTypeSel]),
     (0x26d, ''AC Protect'', [UsageTypeSel]),
     (0x26e, ''AC Unprotect'', [UsageTypeSel]),
     (0x26f, ''AC Attach Comment'', [UsageTypeSel]),
     (0x270, ''AC Delete Comment'', [UsageTypeSel]),
     (0x271, ''AC View Comment'', [UsageTypeSel]),
     (0x272, ''AC Select Word'', [UsageTypeSel]),
     (0x273, ''AC Select Sentence'', [UsageTypeSel]),
     (0x274, ''AC Select Paragraph'', [UsageTypeSel]),
     (0x275, ''AC Select Column'', [UsageTypeSel]),
     (0x276, ''AC Select Row'', [UsageTypeSel]),
     (0x277, ''AC Select Table'', [UsageTypeSel]),
     (0x278, ''AC Select Object'', [UsageTypeSel]),
     (0x279, ''AC Redo/Repeat'', [UsageTypeSel]),
     (0x27a, ''AC Sort'', [UsageTypeSel]),
     (0x27b, ''AC Sort Ascending'', [UsageTypeSel]),
     (0x27c, ''AC Sort Descending'', [UsageTypeSel]),
     (0x27d, ''AC Filter'', [UsageTypeSel]),
     (0x27e, ''AC Set Clock'', [UsageTypeSel]),
     (0x27f, ''AC View Clock'', [UsageTypeSel]),
     (0x280, ''AC Select Time Zone'', [UsageTypeSel]),
     (0x281, ''AC Edit Time Zones'', [UsageTypeSel]),
     (0x282, ''AC Set Alarm'', [UsageTypeSel]),
     (0x283, ''AC Clear Alarm'', [UsageTypeSel]),
     (0x284, ''AC Snooze Alarm'', [UsageTypeSel]),
     (0x285, ''AC Reset Alarm'', [UsageTypeSel]),
     (0x286, ''AC Synchronize'', [UsageTypeSel]),
     (0x287, ''AC Send/Receive'', [UsageTypeSel]),
     (0x288, ''AC Send To'', [UsageTypeSel]),
     (0x289, ''AC Reply'', [UsageTypeSel]),
     (0x28a, ''AC Reply All'', [UsageTypeSel]),
     (0x28b, ''AC Forward Msg'', [UsageTypeSel]),
     (0x28c, ''AC Send'', [UsageTypeSel]),
     (0x28d, ''AC Attach File'', [UsageTypeSel]),
     (0x28e, ''AC Upload'', [UsageTypeSel]),
     (0x28f, ''AC Download (Save Target As)'', [UsageTypeSel]),
     (0x290, ''AC Set Borders'', [UsageTypeSel]),
     (0x291, ''AC Insert Row'', [UsageTypeSel]),
     (0x292, ''AC Insert Column'', [UsageTypeSel]),
     (0x293, ''AC Insert File'', [UsageTypeSel]),
     (0x294, ''AC Insert Picture'', [UsageTypeSel]),
     (0x295, ''AC Insert Object'', [UsageTypeSel]),
     (0x296, ''AC Insert Symbol'', [UsageTypeSel]),
     (0x297, ''AC Save and Close'', [UsageTypeSel]),
     (0x298, ''AC Rename'', [UsageTypeSel]),
     (0x299, ''AC Merge'', [UsageTypeSel]),
     (0x29a, ''AC Split'', [UsageTypeSel]),
     (0x29b, ''AC Disribute Horizontally'', [UsageTypeSel]),
     (0x29c, ''AC Distribute Vertically'', [UsageTypeSel]),
     (0x29d, ''bookmark488'', [UsageTypeSel]),
     (0x29e, ''AC Navigation Guidance'', [UsageTypeSel]),
     (0x29f, ''AC Desktop Show All Windows'', [UsageTypeSel]),
     (0x2a0, ''AC Soft Key Left'', [UsageTypeSel]),
     (0x2a1, ''AC Soft Key Right'', [UsageTypeSel]),
     (0x2a2, ''AC Desktop Show All Applications'', [UsageTypeSel]),
     (0x2b0, ''AC Idle Keep Alive'', [UsageTypeSel]),
     (0x2c0, ''Extended Keyboard Attributes Collection'', [UsageTypeCL]),
     (0x2c1, ''Keyboard Form Factor'', [UsageTypeSV]),
     (0x2c2, ''Keyboard Key Type'', [UsageTypeSV]),
     (0x2c3, ''Keyboard Physical Layout'', [UsageTypeSV]),
     (0x2c4, ''Vendor-Specific Keyboard Physical Layout'', [UsageTypeSV]),
     (0x2c5, ''Keyboard IETF Language Tag Index'', [UsageTypeSV]),
     (0x2c6, ''Implemented Keyboard Input Assist Controls'', [UsageTypeSV]),
     (0x2c7, ''Keyboard Input Assist Previous'', [UsageTypeSel])]"

definition usages_con_4 :: "usage_row list" where
  "usages_con_4 =
    [(0x2c8, ''Keyboard Input Assist Next'', [UsageTypeSel]),
     (0x2c9, ''Keyboard Input Assist Previous Group'', [UsageTypeSel]),
     (0x2ca, ''Keyboard Input Assist Next Group'', [UsageTypeSel]),
     (0x2cb, ''Keyboard Input Assist Accept'', [UsageTypeSel]),
     (0x2cc, ''Keyboard Input Assist Cancel'', [UsageTypeSel]),
     (0x2d0, ''Privacy Screen Toggle'', [UsageTypeOOC]),
     (0x2d1, ''Privacy Screen Level Decrement'', [UsageTypeRTC]),
     (0x2d2, ''Privacy Screen Level Increment'', [UsageTypeRTC]),
     (0x2d3, ''Privacy Screen Level Minimum'', [UsageTypeOSC]),
     (0x2d4, ''Privacy Screen Level Maximum'', [UsageTypeOSC]),
     (0x500, ''Contact Edited'', [UsageTypeOOC]),
     (0x501, ''Contact Added'', [UsageTypeOOC]),
     (0x502, ''Contact Record Active'', [UsageTypeOOC]),
     (0x503, ''Contact Index'', [UsageTypeDV]),
     (0x504, ''Contact Nickname'', [UsageTypeDV]),
     (0x505, ''Contact First Name'', [UsageTypeDV]),
     (0x506, ''Contact Last Name'', [UsageTypeDV]),
     (0x507, ''Contact Full Name'', [UsageTypeDV]),
     (0x508, ''Contact Phone Number Personal'', [UsageTypeDV]),
     (0x509, ''Contact Phone Number Business'', [UsageTypeDV]),
     (0x50a, ''Contact Phone Number Mobile'', [UsageTypeDV]),
     (0x50b, ''Contact Phone Number Pager'', [UsageTypeDV]),
     (0x50c, ''Contact Phone Number Fax'', [UsageTypeDV]),
     (0x50d, ''Contact Phone Number Other'', [UsageTypeDV]),
     (0x50e, ''Contact Email Personal'', [UsageTypeDV]),
     (0x50f, ''Contact Email Business'', [UsageTypeDV]),
     (0x510, ''Contact Email Other'', [UsageTypeDV]),
     (0x511, ''Contact Email Main'', [UsageTypeDV]),
     (0x512, ''Contact Speed Dial Number'', [UsageTypeDV]),
     (0x513, ''Contact Status Flag'', [UsageTypeDV]),
     (0x514, ''Contact Misc.'', [UsageTypeDV])]"

definition usages_dig :: "usage_row list" where
  "usages_dig =
    [(0x00, ''Undefined'', []),
     (0x01, ''Digitizer'', [UsageTypeCA]),
     (0x02, ''Pen'', [UsageTypeCA]),
     (0x03, ''Light Pen'', [UsageTypeCA]),
     (0x04, ''Touch Screen'', [UsageTypeCA]),
     (0x05, ''Touch Pad'', [UsageTypeCA]),
     (0x06, ''Whiteboard'', [UsageTypeCA]),
     (0x07, ''Coordinate Measuring Machine'', [UsageTypeCA]),
     (0x08, ''3D Digitizer'', [UsageTypeCA]),
     (0x09, ''Stereo Plotter'', [UsageTypeCA]),
     (0x0a, ''Articulated Arm'', [UsageTypeCA]),
     (0x0b, ''Armature'', [UsageTypeCA]),
     (0x0c, ''Multiple Point Digitizer'', [UsageTypeCA]),
     (0x0d, ''Free Space Wand'', [UsageTypeCA]),
     (0x0e, ''Device Configuration'', [UsageTypeCA]),
     (0x0f, ''Capacitive Heat Map Digitizer'', [UsageTypeCA]),
     (0x20, ''Stylus'', [UsageTypeCA, UsageTypeCL]),
     (0x21, ''Puck'', [UsageTypeCL]),
     (0x22, ''Finger'', [UsageTypeCL]),
     (0x23, ''Device settings'', [UsageTypeCL]),
     (0x24, ''Character Gesture'', [UsageTypeCL]),
     (0x30, ''Tip Pressure'', [UsageTypeDV]),
     (0x31, ''Barrel Pressure'', [UsageTypeDV]),
     (0x32, ''In Range'', [UsageTypeMC]),
     (0x33, ''Touch'', [UsageTypeMC]),
     (0x34, ''Untouch'', [UsageTypeOSC]),
     (0x35, ''Tap'', [UsageTypeOSC]),
     (0x36, ''Quality'', [UsageTypeDV]),
     (0x37, ''Data Valid'', [UsageTypeMC]),
     (0x38, ''Transducer Index'', [UsageTypeDV]),
     (0x39, ''Tablet Function Keys'', [UsageTypeCL]),
     (0x3a, ''Program Change Keys'', [UsageTypeCL]),
     (0x3b, ''Battery Strength'', [UsageTypeDV]),
     (0x3c, ''Invert'', [UsageTypeMC]),
     (0x3d, ''X Tilt'', [UsageTypeDV]),
     (0x3e, ''Y Tilt'', [UsageTypeDV]),
     (0x3f, ''Azimuth'', [UsageTypeDV]),
     (0x40, ''Altitude'', [UsageTypeDV]),
     (0x41, ''Twist'', [UsageTypeDV]),
     (0x42, ''Tip Switch'', [UsageTypeMC]),
     (0x43, ''Secondary Tip Switch'', [UsageTypeMC]),
     (0x44, ''Barrel Switch'', [UsageTypeMC]),
     (0x45, ''Eraser'', [UsageTypeMC]),
     (0x46, ''Tablet Pick'', [UsageTypeMC]),
     (0x47, ''Touch Valid'', [UsageTypeMC]),
     (0x48, ''Width'', [UsageTypeDV]),
     (0x49, ''Height'', [UsageTypeDV]),
     (0x51, ''Contact Identifier'', [UsageTypeDV]),
     (0x52, ''Device Mode'', [UsageTypeDV]),
     (0x53, ''Device Identifier'', [UsageTypeDV, UsageTypeSV]),
     (0x54, ''Contact Count'', [UsageTypeDV]),
     (0x55, ''Contact Count Maximum'', [UsageTypeSV]),
     (0x56, ''Scan Time'', [UsageTypeDV]),
     (0x57, ''Surface Switch'', [UsageTypeDF]),
     (0x58, ''Button Switch'', [UsageTypeDF]),
     (0x59, ''Pad Type'', [UsageTypeSF]),
     (0x5a, ''Secondary Barrel Switch'', [UsageTypeMC]),
     (0x5b, ''Transducer Serial Number'', [UsageTypeSV]),
     (0x5c, ''Preferred Color'', [UsageTypeDV]),
     (0x5d, ''Preferred Color is Locked'', [UsageTypeMC]),
     (0x5e, ''Preferred Line Width'', [UsageTypeDV]),
     (0x5f, ''Preferred Line Width is Locked'', [UsageTypeMC]),
     (0x60, ''Latency Mode'', [UsageTypeDF]),
     (0x61, ''Gesture Character Quality'', [UsageTypeDV]),
     (0x62, ''Character Gesture Data Length'', [UsageTypeDV]),
     (0x63, ''Character Gesture Data'', [UsageTypeDV]),
     (0x64, ''Gesture Character Encoding'', [UsageTypeNAry]),
     (0x65, ''UTF8 Character Gesture Encoding'', [UsageTypeSel]),
     (0x66, ''UTF16 Little Endian Character Gesture Encoding'', [UsageTypeSel]),
     (0x67, ''UTF16 Big Endian Character Gesture Encoding'', [UsageTypeSel]),
     (0x68, ''UTF32 Little Endian Character Gesture Encoding'', [UsageTypeSel]),
     (0x69, ''UTF32 Big Endian Character Gesture Encoding'', [UsageTypeSel]),
     (0x6a, ''Capacitive Heat Map Protocol Vendor ID'', [UsageTypeSV]),
     (0x6b, ''Capacitive Heat Map Protocol Version'', [UsageTypeSV]),
     (0x6c, ''Capacitive Heat Map Frame Data'', [UsageTypeDV]),
     (0x6d, ''Gesture Character Enable'', [UsageTypeDF]),
     (0x6e, ''Transducer Serial Number Part 2'', [UsageTypeSV]),
     (0x6f, ''No Preferred Color'', [UsageTypeDF]),
     (0x70, ''Preferred Line Style'', [UsageTypeNAry]),
     (0x71, ''Preferred Line Style is Locked'', [UsageTypeMC]),
     (0x72, ''Ink'', [UsageTypeSel]),
     (0x73, ''Pencil'', [UsageTypeSel]),
     (0x74, ''Highlighter'', [UsageTypeSel]),
     (0x75, ''Chisel Marker'', [UsageTypeSel]),
     (0x76, ''Brush'', [UsageTypeSel]),
     (0x77, ''No Preference'', [UsageTypeSel]),
     (0x80, ''Digitizer Diagnostic'', [UsageTypeCL]),
     (0x81, ''Digitizer Error'', [UsageTypeNAry]),
     (0x82, ''Err Normal Status'', [UsageTypeSel]),
     (0x83, ''Err Transducers Exceeded'', [UsageTypeSel]),
     (0x84, ''Err Full Trans Features Unavailable'', [UsageTypeSel]),
     (0x85, ''Err Charge Low'', [UsageTypeSel]),
     (0x90, ''Transducer Software Info'', [UsageTypeCL]),
     (0x91, ''Transducer Vendor Id'', [UsageTypeSV]),
     (0x92, ''Transducer Product Id'', [UsageTypeSV]),
     (0x93, ''Device Supported Protocols'', [UsageTypeNAry, UsageTypeCL]),
     (0x94, ''Transducer Supported Protocols'', [UsageTypeNAry, UsageTypeCL]),
     (0x95, ''No Protocol'', [UsageTypeSel]),
     (0x96, ''Wacom AES Protocol'', [UsageTypeSel]),
     (0x97, ''USI Protocol'', [UsageTypeSel]),
     (0x98, ''Microsoft Pen Protocol'', [UsageTypeSel]),
     (0xa0, ''Supported Report Rates'', [UsageTypeSV, UsageTypeCL]),
     (0xa1, ''Report Rate'', [UsageTypeDV]),
     (0xa2, ''Transducer Connected'', [UsageTypeSF]),
     (0xa3, ''Switch Disabled'', [UsageTypeSel]),
     (0xa4, ''Switch Unimplemented'', [UsageTypeSel]),
     (0xa5, ''Transducer Switches'', [UsageTypeCL]),
     (0xa6, ''Transducer Index Selector'', [UsageTypeDV]),
     (0xb0, ''Button Press Threshold'', [UsageTypeDV])]"

definition usages_hap :: "usage_row list" where
  "usages_hap =
    [(0x00, ''Undefined'', []),
     (0x01, ''Simple Haptic Controller'', [UsageTypeCA, UsageTypeCL]),
     (0x10, ''Waveform List'', [UsageTypeNAry]),
     (0x11, ''Duration List'', [UsageTypeNAry]),
     (0x20, ''Auto Trigger'', [UsageTypeDV]),
     (0x21, ''Manual Trigger'', [UsageTypeDV]),
     (0x22, ''Auto Trigger Associated Control'', [UsageTypeSV]),
     (0x23, ''Intensity'', [UsageTypeDV]),
     (0x24, ''Repeat Count'', [UsageTypeDV]),
     (0x25, ''Retrigger Period'', [UsageTypeDV]),
     (0x26, ''Waveform Vendor Page'', [UsageTypeSV]),
     (0x27, ''Waveform Vendor ID'', [UsageTypeSV]),
     (0x28, ''Waveform Cutoff Time'', [UsageTypeSV]),
     (0x1001, ''Waveform None'', [UsageTypeSV]),
     (0x1002, ''Waveform Stop'', [UsageTypeSV]),
     (0x1003, ''Waveform Click'', [UsageTypeSV]),
     (0x1004, ''Waveform Buzz Continuous'', [UsageTypeSV]),
     (0x1005, ''Waveform Rumble Continuous'', [UsageTypeSV]),
     (0x1006, ''Waveform Press'', [UsageTypeSV]),
     (0x1007, ''Waveform Release'', [UsageTypeSV]),
     (0x1008, ''Waveform Hover'', [UsageTypeSV]),
     (0x1009, ''Waveform Success'', [UsageTypeSV]),
     (0x100a, ''Waveform Error'', [UsageTypeSV]),
     (0x100b, ''Waveform Ink Continuous'', [UsageTypeSV]),
     (0x100c, ''Waveform Pencil Continuous'', [UsageTypeSV]),
     (0x100d, ''Waveform Marker Continuous'', [UsageTypeSV]),
     (0x100e, ''Waveform Chisel Marker Continuous'', [UsageTypeSV]),
     (0x100f, ''Waveform Brush Continuous'', [UsageTypeSV]),
     (0x1010, ''Waveform Eraser Continuous'', [UsageTypeSV]),
     (0x1011, ''Waveform Sparkle Continuous'', [UsageTypeSV])]"

definition usages_pid :: "usage_row list" where
  "usages_pid =
    [(0x00, ''Undefined'', []),
     (0x01, ''Physical Input Device'', [UsageTypeCA]),
     (0x20, ''Normal'', [UsageTypeDV]),
     (0x21, ''Set Effect Report'', [UsageTypeCL]),
     (0x22, ''Effect Parameter Block Index'', [UsageTypeDV]),
     (0x23, ''Parameter Block Offset'', [UsageTypeDV]),
     (0x24, ''ROM Flag'', [UsageTypeDF]),
     (0x25, ''Effect Type'', [UsageTypeNAry]),
     (0x26, ''ET Constant-Force'', [UsageTypeSel]),
     (0x27, ''ET Ramp'', [UsageTypeSel]),
     (0x28, ''ET Custom-Force'', [UsageTypeSel]),
     (0x30, ''ET Square'', [UsageTypeSel]),
     (0x31, ''ET Sine'', [UsageTypeSel]),
     (0x32, ''ET Triangle'', [UsageTypeSel]),
     (0x33, ''ET Sawtooth Up'', [UsageTypeSel]),
     (0x34, ''ET Sawtooth Down'', [UsageTypeSel]),
     (0x40, ''ET Spring'', [UsageTypeSel]),
     (0x41, ''ET Damper'', [UsageTypeSel]),
     (0x42, ''ET Inertia'', [UsageTypeSel]),
     (0x43, ''ET Friction'', [UsageTypeSel]),
     (0x50, ''Duration'', [UsageTypeDV]),
     (0x51, ''Sample Period'', [UsageTypeDV]),
     (0x52, ''Gain'', [UsageTypeDV]),
     (0x53, ''Trigger Button'', [UsageTypeDV]),
     (0x54, ''Trigger Repeat Interval'', [UsageTypeDV]),
     (0x55, ''Axes Enable'', [UsageTypeUS]),
     (0x56, ''Direction Enable'', [UsageTypeDF]),
     (0x57, ''Direction'', [UsageTypeCL]),
     (0x58, ''Type Specific Block Offset'', [UsageTypeCL]),
     (0x59, ''Block Type'', [UsageTypeNAry]),
     (0x5a, ''Set Envelope Report'', [UsageTypeCL, UsageTypeSV]),
     (0x5b, ''Attack Level'', [UsageTypeDV]),
     (0x5c, ''Attack Time'', [UsageTypeDV]),
     (0x5d, ''Fade Level'', [UsageTypeDV]),
     (0x5e, ''Fade Time'', [UsageTypeDV]),
     (0x5f, ''Set Condition Report'', [UsageTypeCL, UsageTypeSV]),
     (0x60, ''Center-Point Offset'', [UsageTypeDV]),
     (0x61, ''Positive Coefficient'', [UsageTypeDV]),
     (0x62, ''Negative Coefficient'', [UsageTypeDV]),
     (0x63, ''Positive Saturation'', [UsageTypeDV]),
     (0x64, ''Negative Saturation'', [UsageTypeDV]),
     (0x65, ''Dead Band'', [UsageTypeDV]),
     (0x66, ''Download Force Sample'', [UsageTypeCL]),
     (0x67, ''Isoch Custom-Force Enable'', [UsageTypeDF]),
     (0x68, ''Custom-Force Data Report'', [UsageTypeCL]),
     (0x69, ''Custom-Force Data'', [UsageTypeDV]),
     (0x6a, ''Custom-Force Vendor Defined Data'', [UsageTypeDV]),
     (0x6b, ''Set Custom-Force Report'', [UsageTypeCL, UsageTypeSV]),
     (0x6c, ''Custom-Force Data Offset'', [UsageTypeDV]),
     (0x6d, ''Sample Count'', [UsageTypeDV]),
     (0x6e, ''Set Periodic Report'', [UsageTypeCL, UsageTypeSV]),
     (0x6f, ''Offset'', [UsageTypeDV]),
     (0x70, ''Magnitude'', [UsageTypeDV]),
     (0x71, ''Phase'', [UsageTypeDV]),
     (0x72, ''Period'', [UsageTypeDV]),
     (0x73, ''Set Constant-Force Report'', [UsageTypeCL, UsageTypeSV]),
     (0x74, ''Set Ramp-Force Report'', [UsageTypeCL, UsageTypeSV]),
     (0x75, ''Ramp Start'', [UsageTypeDV]),
     (0x76, ''Ramp End'', [UsageTypeDV]),
     (0x77, ''Effect Operation Report'', [UsageTypeCL]),
     (0x78, ''Effect Operation'', [UsageTypeNAry]),
     (0x79, ''Op Effect Start'', [UsageTypeSel]),
     (0x7a, ''Op Effect Start Solo'', [UsageTypeSel]),
     (0x7b, ''Op Effect Stop'', [UsageTypeSel]),
     (0x7c, ''Loop Count'', [UsageTypeDV]),
     (0x7d, ''Device Gain Report'', [UsageTypeCL]),
     (0x7e, ''Device Gain'', [UsageTypeDV]),
     (0x7f, ''Parameter Block Pools Report'', [UsageTypeCL]),
     (0x80, ''RAM Pool Size'', [UsageTypeDV]),
     (0x81, ''ROM Pool Size'', [UsageTypeSV]),
     (0x82, ''ROM Effect Block Count'', [UsageTypeSV]),
     (0x83, ''Simultaneous Effects Max'', [UsageTypeSV]),
     (0x84, ''Pool Alignment'', [UsageTypeSV]),
     (0x85, ''Parameter Block Move Report'', [UsageTypeCL]),
     (0x86, ''Move Source'', [UsageTypeDV]),
     (0x87, ''Move Destination'', [UsageTypeDV]),
     (0x88, ''Move Length'', [UsageTypeDV]),
     (0x89, ''Effect Parameter Block Load Report'', [UsageTypeCL]),
     (0x8b, ''Effect Parameter Block Load Status'', [UsageTypeNAry]),
     (0x8c, ''Block Load Success'', [UsageTypeSel]),
     (0x8d, ''Block Load Full'', [UsageTypeSel]),
     (0x8e, ''Block Load Error'', [UsageTypeSel]),
     (0x8f, ''Block Handle'', [UsageTypeDV]),
     (0x90, ''Effect Parameter Block Free Report'', [UsageTypeCL]),
     (0x91, ''Type Specific Block Handle'', [UsageTypeCL]),
     (0x92, ''PID State Report'', [UsageTypeCL]),
     (0x94, ''Effect Playing'', [UsageTypeDF]),
     (0x95, ''PID Device Control Report'', [UsageTypeCL]),
     (0x96, ''PID Device Control'', [UsageTypeNAry]),
     (0x97, ''DC Enable Actuators'', [UsageTypeSel]),
     (0x98, ''DC Disable Actuators'', [UsageTypeSel]),
     (0x99, ''DC Stop All Effects'', [UsageTypeSel]),
     (0x9a, ''DC Reset'', [UsageTypeSel]),
     (0x9b, ''DC Pause'', [UsageTypeSel]),
     (0x9c, ''DC Continue'', [UsageTypeSel]),
     (0x9f, ''Device Paused'', [UsageTypeDF]),
     (0xa0, ''Actuators Enabled'', [UsageTypeDF]),
     (0xa4, ''Safety Switch'', [UsageTypeDF]),
     (0xa5, ''Actuator Override Switch'', [UsageTypeDF]),
     (0xa6, ''Actuator Power'', [UsageTypeOOC]),
     (0xa7, ''Start Delay'', [UsageTypeDV]),
     (0xa8, ''Parameter Block Size'', [UsageTypeCL]),
     (0xa9, ''Device-Managed Pool'', [UsageTypeSF]),
     (0xaa, ''Shared Parameter Blocks'', [UsageTypeSF]),
     (0xab, ''Create New Effect Parameter Block Report'', [UsageTypeCL]),
     (0xac, ''RAM Pool Available'', [UsageTypeDV])]"

definition usages_soc :: "usage_row list" where
  "usages_soc =
    [(0x00, ''Undefined'', []),
     (0x01, ''SocControl'', [UsageTypeCA]),
     (0x02, ''FirmwareTransfer'', [UsageTypeCL]),
     (0x03, ''FirmwareFileId'', [UsageTypeDV]),
     (0x04, ''FileOffsetInBytes'', [UsageTypeDV]),
     (0x05, ''FileTransferSizeMaxInBytes'', [UsageTypeDV]),
     (0x06, ''FilePayload'', [UsageTypeDV]),
     (0x07, ''FilePayloadSizeInBytes'', [UsageTypeDV]),
     (0x08, ''FilePayloadContainsLastBytes'', [UsageTypeDF]),
     (0x09, ''FileTransferStop'', [UsageTypeDF]),
     (0x0a, ''FileTransferTillEnd'', [UsageTypeDF])]"

definition usages_eht :: "usage_row list" where
  "usages_eht =
    [(0x00, ''Undefined'', []),
     (0x01, ''Eye Tracker'', [UsageTypeCA]),
     (0x02, ''Head Tracker'', [UsageTypeCA]),
     (0x10, ''Tracking Data'', [UsageTypeCP]),
     (0x11, ''Capabilities'', [UsageTypeCL]),
     (0x12, ''Configuration'', [UsageTypeCL]),
     (0x13, ''Status'', [UsageTypeCL]),
     (0x14, ''Control'', [UsageTypeCL]),
     (0x20, ''Sensor Timestamp'', [UsageTypeDV]),
     (0x21, ''Position X'', [UsageTypeDV]),
     (0x22, ''Position Y'', [UsageTypeDV]),
     (0x23, ''Position Z'', [UsageTypeDV]),
     (0x24, ''Gaze Point'', [UsageTypeCP]),
     (0x25, ''Left Eye Position'', [UsageTypeCP]),
     (0x26, ''Right Eye Position'', [UsageTypeCP]),
     (0x27, ''Head Position'', [UsageTypeCP]),
     (0x28, ''Head Direction Point'', [UsageTypeCP]),
     (0x29, ''Rotation about X axis'', [UsageTypeDV]),
     (0x2a, ''Rotation about Y axis'', [UsageTypeDV]),
     (0x2b, ''Rotation about Z axis'', [UsageTypeDV]),
     (0x100, ''Tracker Quality'', [UsageTypeSV]),
     (0x101, ''Minimum Tracking Distance'', [UsageTypeSV]),
     (0x102, ''Optimum Tracking Distance'', [UsageTypeSV]),
     (0x103, ''Maximum Tracking Distance'', [UsageTypeSV]),
     (0x104, ''Maximum Screen Plane Width'', [UsageTypeSV]),
     (0x105, ''Maximum Screen Plane Height'', [UsageTypeSV]),
     (0x200, ''Display Manufacturer ID'', [UsageTypeSV]),
     (0x201, ''Display Product ID'', [UsageTypeSV]),
     (0x202, ''Display Serial Number'', [UsageTypeSV]),
     (0x203, ''Display Manufacturer Date'', [UsageTypeSV]),
     (0x204, ''Calibrated Screen Width'', [UsageTypeSV]),
     (0x205, ''Calibrated Screen Height'', [UsageTypeSV]),
     (0x300, ''Sampling Frequency'', [UsageTypeDV]),
     (0x301, ''Configuration Status'', [UsageTypeDV]),
     (0x400, ''Device Mode Request'', [UsageTypeDV])]"

definition usages_ad :: "usage_row list" where
  "usages_ad =
    [(0x00, ''Undefined'', []),
     (0x01, ''Alphanumeric Display'', [UsageTypeCA]),
     (0x02, ''Auxiliary Display'', [UsageTypeCA]),
     (0x20, ''Display Attributes Report'', [UsageTypeCL]),
     (0x21, ''ASCII Character Set'', [UsageTypeSF]),
     (0x22, ''Data Read Back'', [UsageTypeSF]),
     (0x23, ''Font Read Back'', [UsageTypeSF]),
     (0x24, ''Display Control Report'', [UsageTypeCL]),
     (0x25, ''Clear Display'', [UsageTypeDF]),
     (0x26, ''Display Enable'', [UsageTypeDF]),
     (0x27, ''Screen Saver Delay'', [UsageTypeSV, UsageTypeDV]),
     (0x28, ''Screen Saver Enable'', [UsageTypeDF]),
     (0x29, ''Vertical Scroll'', [UsageTypeSF, UsageTypeDF]),
     (0x2a, ''Horizontal Scroll'', [UsageTypeSF, UsageTypeDF]),
     (0x2b, ''Character Report'', [UsageTypeCL]),
     (0x2c, ''Display Data'', [UsageTypeDV]),
     (0x2d, ''Display Status'', [UsageTypeCL]),
     (0x2e, ''Stat Not Ready'', [UsageTypeSel]),
     (0x2f, ''Stat Ready'', [UsageTypeSel]),
     (0x30, ''Err Not a loadable character'', [UsageTypeSel]),
     (0x31, ''Err Font data cannot be read'', [UsageTypeSel]),
     (0x32, ''Cursor Position Report'', [UsageTypeSel]),
     (0x33, ''Row'', [UsageTypeDV]),
     (0x34, ''Column'', [UsageTypeDV]),
     (0x35, ''Rows'', [UsageTypeSV]),
     (0x36, ''Columns'', [UsageTypeSV]),
     (0x37, ''Cursor Pixel Positioning'', [UsageTypeSF]),
     (0x38, ''Cursor Mode'', [UsageTypeDF]),
     (0x39, ''Cursor Enable'', [UsageTypeDF]),
     (0x3a, ''Cursor Blink'', [UsageTypeDF]),
     (0x3b, ''Font Report'', [UsageTypeCL]),
     (0x3c, ''Font Data'', [UsageTypeCL]),
     (0x3d, ''Character Width'', [UsageTypeSV]),
     (0x3e, ''Character Height'', [UsageTypeSV]),
     (0x3f, ''Character Spacing Horizontal'', [UsageTypeSV]),
     (0x40, ''Character Spacing Vertical'', [UsageTypeSV]),
     (0x41, ''Unicode Character Set'', [UsageTypeSF]),
     (0x42, ''Font 7-Segment'', [UsageTypeSF]),
     (0x43, ''7-Segment Direct Map'', [UsageTypeSF]),
     (0x44, ''Font 14-Segment'', [UsageTypeSF]),
     (0x45, ''14-Segment Direct Map'', [UsageTypeSF]),
     (0x46, ''Display Brightness'', [UsageTypeDV]),
     (0x47, ''Display Contrast'', [UsageTypeDV]),
     (0x48, ''Character Attribute'', [UsageTypeCL]),
     (0x49, ''Attribute Readback'', [UsageTypeSF]),
     (0x4a, ''Attribute Data'', [UsageTypeDV]),
     (0x4b, ''Char Attr Enhance'', [UsageTypeOOC]),
     (0x4c, ''Char Attr Underline'', [UsageTypeOOC]),
     (0x4d, ''Char Attr Blink'', [UsageTypeOOC]),
     (0x80, ''Bitmap Size X'', [UsageTypeSV]),
     (0x81, ''Bitmap Size Y'', [UsageTypeSV]),
     (0x82, ''Max Blit Size'', [UsageTypeSV]),
     (0x83, ''Bit Depth Format'', [UsageTypeSV]),
     (0x84, ''Display Orientation'', [UsageTypeDV]),
     (0x85, ''Palette Report'', [UsageTypeCL]),
     (0x86, ''Palette Data Size'', [UsageTypeSV]),
     (0x87, ''Palette Data Offset'', [UsageTypeSV]),
     (0x88, ''Palette Data'', [UsageTypeCL]),
     (0x8a, ''Blit Report'', [UsageTypeCL]),
     (0x8b, ''Blit Rectangle X1'', [UsageTypeSV]),
     (0x8c, ''Blit Rectangle Y1'', [UsageTypeSV]),
     (0x8d, ''Blit Rectangle X2'', [UsageTypeSV]),
     (0x8e, ''Blit Rectangle Y2'', [UsageTypeSV]),
     (0x8f, ''Blit Data'', [UsageTypeCL]),
     (0x90, ''Soft Button'', [UsageTypeCL]),
     (0x91, ''Soft Button ID'', [UsageTypeSV]),
     (0x92, ''Soft Button Side'', [UsageTypeSV]),
     (0x93, ''Soft Button Offset 1'', [UsageTypeSV]),
     (0x94, ''Soft Button Offset 2'', [UsageTypeSV]),
     (0x95, ''Soft Button Report'', [UsageTypeSV]),
     (0xc2, ''Soft Keys'', [UsageTypeSV]),
     (0xcc, ''Display Data Extensions'', [UsageTypeSF]),
     (0xcf, ''Character Mapping'', [UsageTypeSV]),
     (0xdd, ''Unicode Equivalent'', [UsageTypeSV]),
     (0xdf, ''Character Page Mapping'', [UsageTypeSV]),
     (0xff, ''Request Report'', [UsageTypeDV])]"

definition usages_sen_1 :: "usage_row list" where
  "usages_sen_1 =
    [(0x00, ''Undefined'', []),
     (0x01, ''Sensor'', [UsageTypeCA, UsageTypeCP]),
     (0x10, ''Biometric'', [UsageTypeCA, UsageTypeCP]),
     (0x11, ''Biometric: Human Presence'', [UsageTypeCA, UsageTypeCP]),
     (0x12, ''Biometric: Human Proximity'', [UsageTypeCA, UsageTypeCP]),
     (0x13, ''Biometric: Human Touch'', [UsageTypeCA, UsageTypeCP]),
     (0x14, ''Biometric: Blood Pressure'', [UsageTypeCA, UsageTypeCP]),
     (0x15, ''Biometric: Body Temperature'', [UsageTypeCA, UsageTypeCP]),
     (0x16, ''Biometric: Heart Rate'', [UsageTypeCA, UsageTypeCP]),
     (0x17, ''Biometric: Heart Rate Variability'', [UsageTypeCA, UsageTypeCP]),
     (0x18, ''Biometric: Peripheral Oxygen Saturation'', [UsageTypeCA, UsageTypeCP]),
     (0x19, ''Biometric: Respiratory Rate'', [UsageTypeCA, UsageTypeCP]),
     (0x20, ''Electrical'', [UsageTypeCA, UsageTypeCP]),
     (0x21, ''Electrical: Capacitance'', [UsageTypeCA, UsageTypeCP]),
     (0x22, ''Electrical: Current'', [UsageTypeCA, UsageTypeCP]),
     (0x23, ''Electrical: Power'', [UsageTypeCA, UsageTypeCP]),
     (0x24, ''Electrical: Inductance'', [UsageTypeCA, UsageTypeCP]),
     (0x25, ''Electrical: Resistance'', [UsageTypeCA, UsageTypeCP]),
     (0x26, ''Electrical: Voltage'', [UsageTypeCA, UsageTypeCP]),
     (0x27, ''Electrical: Potentiometer'', [UsageTypeCA, UsageTypeCP]),
     (0x28, ''Electrical: Frequency'', [UsageTypeCA, UsageTypeCP]),
     (0x29, ''Electrical: Period'', [UsageTypeCA, UsageTypeCP]),
     (0x30, ''Environmental'', [UsageTypeCA, UsageTypeCP]),
     (0x31, ''Environmental: Atmospheric Pressure'', [UsageTypeCA, UsageTypeCP]),
     (0x32, ''Environmental: Humidity'', [UsageTypeCA, UsageTypeCP]),
     (0x33, ''Environmental: Temperature'', [UsageTypeCA, UsageTypeCP]),
     (0x34, ''Environmental: Wind Direction'', [UsageTypeCA, UsageTypeCP]),
     (0x35, ''Environmental: Wind Speed'', [UsageTypeCA, UsageTypeCP]),
     (0x36, ''Environmental: Air Quality'', [UsageTypeCA, UsageTypeCP]),
     (0x37, ''Environmental: Heat Index'', [UsageTypeCA, UsageTypeCP]),
     (0x38, ''Environmental: Surface Temperature'', [UsageTypeCA, UsageTypeCP]),
     (0x39, ''Environmental: Volatile Organic Compounds'', [UsageTypeCA, UsageTypeCP]),
     (0x3a, ''Environmental: Object Presence'', [UsageTypeCA, UsageTypeCP]),
     (0x3b, ''Environmental: Object Proximity'', [UsageTypeCA, UsageTypeCP]),
     (0x40, ''Light'', [UsageTypeCA, UsageTypeCP]),
     (0x41, ''Light: Ambient Light'', [UsageTypeCA, UsageTypeCP]),
     (0x42, ''Light: Consumer Infrared'', [UsageTypeCA, UsageTypeCP]),
     (0x43, ''Light: Infrared Light'', [UsageTypeCA, UsageTypeCP]),
     (0x44, ''Light: Visible Light'', [UsageTypeCA, UsageTypeCP]),
     (0x45, ''Light: Ultraviolet Light'', [UsageTypeCA, UsageTypeCP]),
     (0x50, ''Location'', [UsageTypeCA, UsageTypeCP]),
     (0x51, ''Location: Broadcast'', [UsageTypeCA, UsageTypeCP]),
     (0x52, ''Location: Dead Reckoning'', [UsageTypeCA, UsageTypeCP]),
     (0x53, ''Location: GPS (Global Positioning System)'', [UsageTypeCA, UsageTypeCP]),
     (0x54, ''Location: Lookup'', [UsageTypeCA, UsageTypeCP]),
     (0x55, ''Location: Other'', [UsageTypeCA, UsageTypeCP]),
     (0x56, ''Location: Static'', [UsageTypeCA, UsageTypeCP]),
     (0x57, ''Location: Triangulation'', [UsageTypeCA, UsageTypeCP]),
     (0x60, ''Mechanical'', [UsageTypeCA, UsageTypeCP]),
     (0x61, ''Mechanical: Boolean Switch'', [UsageTypeCA, UsageTypeCP]),
     (0x62, ''Mechanical: Boolean Switch Array'', [UsageTypeCA, UsageTypeCP]),
     (0x63, ''Mechanical: Multivalue Switch'', [UsageTypeCA, UsageTypeCP]),
     (0x64, ''Mechanical: Force'', [UsageTypeCA, UsageTypeCP]),
     (0x65, ''Mechanical: Pressure'', [UsageTypeCA, UsageTypeCP]),
     (0x66, ''Mechanical: Strain'', [UsageTypeCA, UsageTypeCP]),
     (0x67, ''Mechanical: Weight'', [UsageTypeCA, UsageTypeCP]),
     (0x68, ''Mechanical: Haptic Vibrator'', [UsageTypeCA, UsageTypeCP]),
     (0x69, ''Mechanical: Hall Effect Switch'', [UsageTypeCA, UsageTypeCP]),
     (0x70, ''Motion'', [UsageTypeCA, UsageTypeCP]),
     (0x71, ''Motion: Accelerometer 1D'', [UsageTypeCA, UsageTypeCP]),
     (0x72, ''Motion: Accelerometer 2D'', [UsageTypeCA, UsageTypeCP]),
     (0x73, ''Motion: Accelerometer 3D'', [UsageTypeCA, UsageTypeCP]),
     (0x74, ''Motion: Gyrometer 1D'', [UsageTypeCA, UsageTypeCP]),
     (0x75, ''Motion: Gyrometer 2D'', [UsageTypeCA, UsageTypeCP]),
     (0x76, ''Motion: Gyrometer 3D'', [UsageTypeCA, UsageTypeCP]),
     (0x77, ''Motion: Motion Detector'', [UsageTypeCA, UsageTypeCP]),
     (0x78, ''Motion: Speedometer'', [UsageTypeCA, UsageTypeCP]),
     (0x79, ''Motion: Accelerometer'', [UsageTypeCA, UsageTypeCP]),
     (0x7a, ''Motion: Gyrometer'', [UsageTypeCA, UsageTypeCP]),
     (0x7b, ''Motion: Gravity Vector'', [UsageTypeCA, UsageTypeCP]),
     (0x7c, ''Motion: Linear Accelerometer'', [UsageTypeCA, UsageTypeCP]),
     (0x80, ''Orientation'', [UsageTypeCA, UsageTypeCP]),
     (0x81, ''Orientation: Compass 1D'', [UsageTypeCA, UsageTypeCP]),
     (0x82, ''Orientation: Compass 2D'', [UsageTypeCA, UsageTypeCP]),
     (0x83, ''Orientation: Compass 3D'', [UsageTypeCA, UsageTypeCP]),
     (0x84, ''Orientation: Inclinometer 1D'', [UsageTypeCA, UsageTypeCP]),
     (0x85, ''Orientation: Inclinometer 2D'', [UsageTypeCA, UsageTypeCP]),
     (0x86, ''Orientation: Inclinometer 3D'', [UsageTypeCA, UsageTypeCP]),
     (0x87, ''Orientation: Distance 1D'', [UsageTypeCA, UsageTypeCP]),
     (0x88, ''Orientation: Distance 2D'', [UsageTypeCA, UsageTypeCP]),
     (0x89, ''Orientation: Distance 3D'', [UsageTypeCA, UsageTypeCP]),
     (0x8a, ''Orientation: Device Orientation'', [UsageTypeCA, UsageTypeCP]),
     (0x8b, ''Orientation: Compass'', [UsageTypeCA, UsageTypeCP]),
     (0x8c, ''Orientation: Inclinometer'', [UsageTypeCA, UsageTypeCP]),
     (0x8d, ''Orientation: Distance'', [UsageTypeCA, UsageTypeCP]),
     (0x8e, ''Orientation: Relative Orientation'', [UsageTypeCA, UsageTypeCP]),
     (0x8f, ''Orientation: Simple Orientation'', [UsageTypeCA, UsageTypeCP]),
     (0x90, ''Scanner'', [UsageTypeCA, UsageTypeCP]),
     (0x91, ''Scanner: Barcode'', [UsageTypeCA, UsageTypeCP]),
     (0x92, ''Scanner: RFID'', [UsageTypeCA, UsageTypeCP]),
     (0x93, ''Scanner: NFC'', [UsageTypeCA, UsageTypeCP]),
     (0xa0, ''Time'', [UsageTypeCA, UsageTypeCP]),
     (0xa1, ''Time: Alarm Timer'', [UsageTypeCA, UsageTypeCP]),
     (0xa2, ''Time: Real Time Clock'', [UsageTypeCA, UsageTypeCP]),
     (0xb0, ''Personal Activity'', [UsageTypeCA, UsageTypeCP]),
     (0xb1, ''Personal Activity: Activity Detection'', [UsageTypeCA, UsageTypeCP]),
     (0xb2, ''Personal Activity: Device Position'', [UsageTypeCA, UsageTypeCP]),
     (0xb3, ''Personal Activity: Pedometer'', [UsageTypeCA, UsageTypeCP]),
     (0xb4, ''Personal Activity: Step Detection'', [UsageTypeCA, UsageTypeCP]),
     (0xc0, ''Orientation Extended'', [UsageTypeCA, UsageTypeCP]),
     (0xc1, ''Orientation Extended: Geomagnetic Orientation'', [UsageTypeCA, UsageTypeCP]),
     (0xc2, ''Orientation Extended: Magnetometer'', [UsageTypeCA, UsageTypeCP]),
     (0xd0, ''Gesture'', [UsageTypeCA, UsageTypeCP]),
     (0xd1, ''Gesture: Chassis Flip Gesture'', [UsageTypeCA, UsageTypeCP]),
     (0xd2, ''Gesture: Hinge Fold Gesture'', [UsageTypeCA, UsageTypeCP]),
     (0xe0, ''Other'', [UsageTypeCA, UsageTypeCP]),
     (0xe1, ''Other: Custom'', [UsageTypeCA, UsageTypeCP]),
     (0xe2, ''Other: Generic'', [UsageTypeCA, UsageTypeCP]),
     (0xe3, ''Other: Generic Enumerator'', [UsageTypeCA, UsageTypeCP]),
     (0xe4, ''Other: Hinge Angle'', [UsageTypeCA, UsageTypeCP]),
     (0xf0, ''Vendor Reserved 1'', [UsageTypeCA, UsageTypeCP]),
     (0xf1, ''Vendor Reserved 2'', [UsageTypeCA, UsageTypeCP]),
     (0xf2, ''Vendor Reserved 3'', [UsageTypeCA, UsageTypeCP]),
     (0xf3, ''Vendor Reserved 4'', [UsageTypeCA, UsageTypeCP]),
     (0xf4, ''Vendor Reserved 5'', [UsageTypeCA, UsageTypeCP]),
     (0xf5, ''Vendor Reserved 6'', [UsageTypeCA, UsageTypeCP]),
     (0xf6, ''Vendor Reserved 7'', [UsageTypeCA, UsageTypeCP]),
     (0xf7, ''Vendor Reserved 8'', [UsageTypeCA, UsageTypeCP]),
     (0xf8, ''Vendor Reserved 9'', [UsageTypeCA, UsageTypeCP]),
     (0xf9, ''Vendor Reserved 10'', [UsageTypeCA, UsageTypeCP]),
     (0xfa, ''Vendor Reserved 11'', [UsageTypeCA, UsageTypeCP]),
     (0xfb, ''Vendor Reserved 12'', [UsageTypeCA, UsageTypeCP]),
     (0xfc, ''Vendor Reserved 13'', [UsageTypeCA, UsageTypeCP]),
     (0xfd, ''Vendor Reserved 14'', [UsageTypeCA, UsageTypeCP]),
     (0xfe, ''Vendor Reserved 15'', [UsageTypeCA, UsageTypeCP]),
     (0xff, ''Vendor Reserved 16'', [UsageTypeCA, UsageTypeCP]),
     (0x200, ''Event'', [UsageTypeDV]),
     (0x201, ''Event: Sensor State'', [UsageTypeNAry]),
     (0x202, ''Event: Sensor Event'', [UsageTypeNAry]),
     (0x300, ''Property'', [UsageTypeDV]),
     (0x301, ''Property: Friendly Name'', [UsageTypeSV]),
     (0x302, ''Property: Persistent Unique ID'', [UsageTypeDV]),
     (0x303, ''Property: Sensor Status'', [UsageTypeDV]),
     (0x304, ''Property: Minimum Report Interval'', [UsageTypeSV]),
     (0x305, ''Property: Sensor Manufacturer'', [UsageTypeSV]),
     (0x306, ''Property: Sensor Model'', [UsageTypeSV]),
     (0x307, ''Property: Sensor Serial Number'', [UsageTypeSV]),
     (0x308, ''Property: Sensor Description'', [UsageTypeSV]),
     (0x309, ''Property: Sensor Connection Type'', [UsageTypeNAry]),
     (0x30a, ''Property: Sensor Device Path'', [UsageTypeDV])]"

definition usages_sen_2 :: "usage_row list" where
  "usages_sen_2 =
    [(0x30b, ''Property: Hardware Revision'', [UsageTypeSV]),
     (0x30c, ''Property: Firmware Version'', [UsageTypeSV]),
     (0x30d, ''Property: Release Date'', [UsageTypeSV]),
     (0x30e, ''Property: Report Interval'', [UsageTypeDV]),
     (0x30f, ''Property: Change Sensitivity Absolute'', [UsageTypeDV]),
     (0x310, ''Property: Change Sensitivity Percent of Range'', [UsageTypeDV]),
     (0x311, ''Property: Change Sensitivity Percent Relative'', [UsageTypeDV]),
     (0x312, ''Property: Accuracy'', [UsageTypeDV]),
     (0x313, ''Property: Resolution'', [UsageTypeDV]),
     (0x314, ''Property: Maximum'', [UsageTypeDV]),
     (0x315, ''Property: Minimum'', [UsageTypeDV]),
     (0x316, ''Property: Reporting State'', [UsageTypeNAry]),
     (0x317, ''Property: Sampling Rate'', [UsageTypeDV]),
     (0x318, ''Property: Response Curve'', [UsageTypeDV]),
     (0x319, ''Property: Power State'', [UsageTypeNAry]),
     (0x31a, ''Property: Maximum FIFO Events'', [UsageTypeSV]),
     (0x31b, ''Property: Report Latency'', [UsageTypeDV]),
     (0x31c, ''Property: Flush FIFO Events'', [UsageTypeDF]),
     (0x31d, ''Property: Maximum Power Consumption'', [UsageTypeDV]),
     (0x31e, ''Property: Is Primary'', [UsageTypeDF]),
     (0x31f, ''Property: Human Presence Detection Type'', [UsageTypeNAry]),
     (0x400, ''Data Field: Location'', [UsageTypeDV]),
     (0x402, ''Data Field: Altitude Antenna Sea Level'', [UsageTypeSV]),
     (0x403, ''Data Field: Differential Reference Station ID'', [UsageTypeSV]),
     (0x404, ''Data Field: Altitude Ellipsoid Error'', [UsageTypeSV]),
     (0x405, ''Data Field: Altitude Ellipsoid'', [UsageTypeSV]),
     (0x406, ''Data Field: Altitude Sea Level Error'', [UsageTypeSV]),
     (0x407, ''Data Field: Altitude Sea Level'', [UsageTypeSV]),
     (0x408, ''Data Field: Differential GPS Data Age'', [UsageTypeSV]),
     (0x409, ''Data Field: Error Radius'', [UsageTypeSV]),
     (0x40a, ''Data Field: Fix Quality'', [UsageTypeNAry]),
     (0x40b, ''Data Field: Fix Type'', [UsageTypeNAry]),
     (0x40c, ''Data Field: Geoidal Separation'', [UsageTypeSV]),
     (0x40d, ''Data Field: GPS Operation Mode'', [UsageTypeNAry]),
     (0x40e, ''Data Field: GPS Selection Mode'', [UsageTypeNAry]),
     (0x40f, ''Data Field: GPS Status'', [UsageTypeNAry]),
     (0x410, ''Data Field: Position Dilution of Precision'', [UsageTypeSV]),
     (0x411, ''Data Field: Horizontal Dilution of Precision'', [UsageTypeSV]),
     (0x412, ''Data Field: Vertical Dilution of Precision'', [UsageTypeSV]),
     (0x413, ''Data Field: Latitude'', [UsageTypeSV]),
     (0x414, ''Data Field: Longitude'', [UsageTypeSV]),
     (0x415, ''Data Field: True Heading'', [UsageTypeSV]),
     (0x416, ''Data Field: Magnetic Heading'', [UsageTypeSV]),
     (0x417, ''Data Field: Magnetic Variation'', [UsageTypeSV]),
     (0x418, ''Data Field: Speed'', [UsageTypeSV]),
     (0x419, ''Data Field: Satellites in View'', [UsageTypeSV]),
     (0x41a, ''Data Field: Satellites in View Azimuth'', [UsageTypeSV]),
     (0x41b, ''Data Field: Satellites in View Elevation'', [UsageTypeSV]),
     (0x41c, ''Data Field: Satellites in View IDs'', [UsageTypeSV]),
     (0x41d, ''Data Field: Satellites in View PRNs'', [UsageTypeSV]),
     (0x41e, ''Data Field: Satellites in View S/N Ratios'', [UsageTypeSV]),
     (0x41f, ''Data Field: Satellites Used Count'', [UsageTypeSV]),
     (0x420, ''Data Field: Satellites Used PRNs'', [UsageTypeSV]),
     (0x421, ''Data Field: NMEA Sentence'', [UsageTypeSV]),
     (0x422, ''Data Field: Address Line 1'', [UsageTypeSV]),
     (0x423, ''Data Field: Address Line 2'', [UsageTypeSV]),
     (0x424, ''Data Field: City'', [UsageTypeSV]),
     (0x425, ''Data Field: State or Province'', [UsageTypeSV]),
     (0x426, ''Data Field: Country or Region'', [UsageTypeSV]),
     (0x427, ''Data Field: Postal Code'', [UsageTypeSV]),
     (0x42a, ''Property: Location'', [UsageTypeDV]),
     (0x42b, ''Property: Location Desired Accuracy'', [UsageTypeNAry]),
     (0x430, ''Data Field: Environmental'', [UsageTypeSV]),
     (0x431, ''Data Field: Atmospheric Pressure'', [UsageTypeSV]),
     (0x433, ''Data Field: Relative Humidity'', [UsageTypeSV]),
     (0x434, ''Data Field: Temperature'', [UsageTypeSV]),
     (0x435, ''Data Field: Wind Direction'', [UsageTypeSV]),
     (0x436, ''Data Field: Wind Speed'', [UsageTypeSV]),
     (0x437, ''Data Field: Air Quality Index'', [UsageTypeSV]),
     (0x438, ''Data Field: Equivalent CO2'', [UsageTypeSV]),
     (0x439, ''Data Field: Volatile Organic Compound Concentration'', [UsageTypeSV]),
     (0x43a, ''Data Field: Object Presence'', [UsageTypeSF]),
     (0x43b, ''Data Field: Object Proximity Range'', [UsageTypeSV]),
     (0x43c, ''Data Field: Object Proximity Out of Range'', [UsageTypeSF]),
     (0x440, ''Property: Environmental'', [UsageTypeSV]),
     (0x441, ''Property: Reference Pressure'', [UsageTypeSV]),
     (0x450, ''Data Field: Motion'', [UsageTypeDV]),
     (0x451, ''Data Field: Motion State'', [UsageTypeSF]),
     (0x452, ''Data Field: Acceleration'', [UsageTypeSV]),
     (0x453, ''Data Field: Acceleration Axis X'', [UsageTypeSV]),
     (0x454, ''Data Field: Acceleration Axis Y'', [UsageTypeSV]),
     (0x455, ''Data Field: Acceleration Axis Z'', [UsageTypeSV]),
     (0x456, ''Data Field: Angular Velocity'', [UsageTypeSV]),
     (0x457, ''Data Field: Angular Velocity about X Axis'', [UsageTypeSV]),
     (0x458, ''Data Field: Angular Velocity about Y Axis'', [UsageTypeSV]),
     (0x459, ''Data Field: Angular Velocity about Z Axis'', [UsageTypeSV]),
     (0x45a, ''Data Field: Angular Position'', [UsageTypeSV]),
     (0x45b, ''Data Field: Angular Position about X Axis'', [UsageTypeSV]),
     (0x45c, ''Data Field: Angular Position about Y Axis'', [UsageTypeSV]),
     (0x45d, ''Data Field: Angular Position about Z Axis'', [UsageTypeSV]),
     (0x45e, ''Data Field: Motion Speed'', [UsageTypeSV]),
     (0x45f, ''Data Field: Motion Intensity'', [UsageTypeSV]),
     (0x470, ''Data Field: Orientation'', [UsageTypeDV]),
     (0x471, ''Data Field: Heading'', [UsageTypeSV]),
     (0x472, ''Data Field: Heading X Axis'', [UsageTypeSV]),
     (0x473, ''Data Field: Heading Y Axis'', [UsageTypeSV]),
     (0x474, ''Data Field: Heading Z Axis'', [UsageTypeSV]),
     (0x475, ''Data Field: Heading Compensated Magnetic North'', [UsageTypeSV]),
     (0x476, ''Data Field: Heading Compensated True North'', [UsageTypeSV]),
     (0x477, ''Data Field: Heading Magnetic North'', [UsageTypeSV]),
     (0x478, ''Data Field: Heading True North'', [UsageTypeSV]),
     (0x479, ''Data Field: Distance'', [UsageTypeSV]),
     (0x47a, ''Data Field: Distance X Axis'', [UsageTypeSV]),
     (0x47b, ''Data Field: Distance Y Axis'', [UsageTypeSV]),
     (0x47c, ''Data Field: Distance Z Axis'', [UsageTypeSV]),
     (0x47d, ''Data Field: Distance Out-of-Range'', [UsageTypeSF]),
     (0x47e, ''Data Field: Tilt'', [UsageTypeSV]),
     (0x47f, ''Data Field: Tilt X Axis'', [UsageTypeSV]),
     (0x480, ''Data Field: Tilt Y Axis'', [UsageTypeSV]),
     (0x481, ''Data Field: Tilt Z Axis'', [UsageTypeSV]),
     (0x482, ''Data Field: Rotation Matrix'', [UsageTypeSV]),
     (0x483, ''Data Field: Quaternion'', [UsageTypeSV]),
     (0x484, ''Data Field: Magnetic Flux'', [UsageTypeSV]),
     (0x485, ''Data Field: Magnetic Flux X Axis'', [UsageTypeSV]),
     (0x486, ''Data Field: Magnetic Flux Y Axis'', [UsageTypeSV]),
     (0x487, ''Data Field: Magnetic Flux Z Axis'', [UsageTypeSV]),
     (0x488, ''Data Field: Magnetometer Accuracy'', [UsageTypeNAry]),
     (0x489, ''Data Field: Simple Orientation Direction'', [UsageTypeNAry]),
     (0x490, ''Data Field: Mechanical'', [UsageTypeDV]),
     (0x491, ''Data Field: Boolean Switch State'', [UsageTypeSF]),
     (0x492, ''Data Field: Boolean Switch Array States'', [UsageTypeSV]),
     (0x493, ''Data Field: Multivalue Switch Value'', [UsageTypeSV]),
     (0x494, ''Data Field: Force'', [UsageTypeSV]),
     (0x495, ''Data Field: Absolute Pressure'', [UsageTypeSV]),
     (0x496, ''Data Field: Gauge Pressure'', [UsageTypeSV]),
     (0x497, ''Data Field: Strain'', [UsageTypeSV]),
     (0x498, ''Data Field: Weight'', [UsageTypeSV]),
     (0x4a0, ''Property: Mechanical'', [UsageTypeDV]),
     (0x4a1, ''Property: Vibration State'', [UsageTypeDF]),
     (0x4a2, ''Property: Forward Vibration Speed'', [UsageTypeDV]),
     (0x4a3, ''Property: Backward Vibration Speed'', [UsageTypeDV]),
     (0x4b0, ''Data Field: Biometric'', [UsageTypeDV]),
     (0x4b1, ''Data Field: Human Presence'', [UsageTypeSF]),
     (0x4b2, ''Data Field: Human Proximity Range'', [UsageTypeSV]),
     (0x4b3, ''Data Field: Human Proximity Out of Range'', [UsageTypeSF]),
     (0x4b4, ''Data Field: Human Touch State'', [UsageTypeSF]),
     (0x4b5, ''Data Field: Blood Pressure'', [UsageTypeSV]),
     (0x4b6, ''Data Field: Blood Pressure Diastolic'', [UsageTypeSV]),
     (0x4b7, ''Data Field: Blood Pressure Systolic'', [UsageTypeSV]),
     (0x4b8, ''Data Field: Heart Rate'', [UsageTypeSV])]"

definition usages_sen_3 :: "usage_row list" where
  "usages_sen_3 =
    [(0x4b9, ''Data Field: Resting Heart Rate'', [UsageTypeSV]),
     (0x4ba, ''Data Field: Heartbeat Interval'', [UsageTypeSV]),
     (0x4bb, ''Data Field: Respiratory Rate'', [UsageTypeSV]),
     (0x4bc, ''Data Field: SpO2'', [UsageTypeSV]),
     (0x4bd, ''Data Field: Human Attention Detected'', [UsageTypeMC]),
     (0x4d0, ''Data Field: Light'', [UsageTypeDV]),
     (0x4d1, ''Data Field: Illuminance'', [UsageTypeSV]),
     (0x4d2, ''Data Field: Color Temperature'', [UsageTypeSV]),
     (0x4d3, ''Data Field: Chromaticity'', [UsageTypeSV]),
     (0x4d4, ''Data Field: Chromaticity X'', [UsageTypeSV]),
     (0x4d5, ''Data Field: Chromaticity Y'', [UsageTypeSV]),
     (0x4d6, ''Data Field: Consumer IR Sentence Receive'', [UsageTypeSV]),
     (0x4d7, ''Data Field: Infrared Light'', [UsageTypeSV]),
     (0x4d8, ''Data Field: Red Light'', [UsageTypeSV]),
     (0x4d9, ''Data Field: Green Light'', [UsageTypeSV]),
     (0x4da, ''Data Field: Blue Light'', [UsageTypeSV]),
     (0x4db, ''Data Field: Ultraviolet A Light'', [UsageTypeSV]),
     (0x4dc, ''Data Field: Ultraviolet B Light'', [UsageTypeSV]),
     (0x4dd, ''Data Field: Ultraviolet Index'', [UsageTypeSV]),
     (0x4de, ''Data Field: Near Infrared Light'', [UsageTypeSV]),
     (0x4df, ''Property: Light'', [UsageTypeDV]),
     (0x4f0, ''Data Field: Scanner'', [UsageTypeDV]),
     (0x4f1, ''Data Field: RFID Tag 40 Bit'', [UsageTypeSV]),
     (0x4f2, ''Data Field: NFC Sentence Receive'', [UsageTypeSV]),
     (0x4f8, ''Property: Scanner'', [UsageTypeDV]),
     (0x4f9, ''Property: NFC Sentence Send'', [UsageTypeSV]),
     (0x500, ''Data Field: Electrical'', [UsageTypeSV]),
     (0x501, ''Data Field: Capacitance'', [UsageTypeSV]),
     (0x502, ''Data Field: Current'', [UsageTypeSV]),
     (0x503, ''Data Field: Electrical Power'', [UsageTypeSV]),
     (0x504, ''Data Field: Inductance'', [UsageTypeSV]),
     (0x505, ''Data Field: Resistance'', [UsageTypeSV]),
     (0x506, ''Data Field: Voltage'', [UsageTypeSV]),
     (0x507, ''Data Field: Frequency'', [UsageTypeSV]),
     (0x508, ''Data Field: Period'', [UsageTypeSV]),
     (0x509, ''Data Field: Percent of Range'', [UsageTypeSV]),
     (0x520, ''Data Field: Time'', [UsageTypeDV]),
     (0x521, ''Data Field: Year'', [UsageTypeSV]),
     (0x522, ''Data Field: Month'', [UsageTypeSV]),
     (0x523, ''Data Field: Day'', [UsageTypeSV]),
     (0x524, ''Data Field: Day of Week'', [UsageTypeNAry]),
     (0x525, ''Data Field: Hour'', [UsageTypeSV]),
     (0x526, ''Data Field: Minute'', [UsageTypeSV]),
     (0x527, ''Data Field: Second'', [UsageTypeSV]),
     (0x528, ''Data Field: Millisecond'', [UsageTypeSV]),
     (0x529, ''Data Field: Timestamp'', [UsageTypeSV]),
     (0x52a, ''Data Field: Julian Day of Year'', [UsageTypeSV]),
     (0x52b, ''Data Field: Time Since System Boot'', [UsageTypeSV]),
     (0x530, ''Property: Time'', [UsageTypeDV]),
     (0x531, ''Property: Time Zone Offset from UTC'', [UsageTypeDV]),
     (0x532, ''Property: Time Zone Name'', [UsageTypeDV]),
     (0x533, ''Property: Daylight Savings Time Observed'', [UsageTypeDF]),
     (0x534, ''Property: Time Trim Adjustment'', [UsageTypeDV]),
     (0x535, ''Property: Arm Alarm'', [UsageTypeDF]),
     (0x540, ''Data Field: Custom'', [UsageTypeDV]),
     (0x541, ''Data Field: Custom Usage'', [UsageTypeSV]),
     (0x542, ''Data Field: Custom Boolean Array'', [UsageTypeSV]),
     (0x543, ''Data Field: Custom Value'', [UsageTypeSV]),
     (0x544, ''Data Field: Custom Value 1'', [UsageTypeSV]),
     (0x545, ''Data Field: Custom Value 2'', [UsageTypeSV]),
     (0x546, ''Data Field: Custom Value 3'', [UsageTypeSV]),
     (0x547, ''Data Field: Custom Value 4'', [UsageTypeSV]),
     (0x548, ''Data Field: Custom Value 5'', [UsageTypeSV]),
     (0x549, ''Data Field: Custom Value 6'', [UsageTypeSV]),
     (0x54a, ''Data Field: Custom Value 7'', [UsageTypeSV]),
     (0x54b, ''Data Field: Custom Value 8'', [UsageTypeSV]),
     (0x54c, ''Data Field: Custom Value 9'', [UsageTypeSV]),
     (0x54d, ''Data Field: Custom Value 10'', [UsageTypeSV]),
     (0x54e, ''Data Field: Custom Value 11'', [UsageTypeSV]),
     (0x54f, ''Data Field: Custom Value 12'', [UsageTypeSV]),
     (0x550, ''Data Field: Custom Value 13'', [UsageTypeSV]),
     (0x551, ''Data Field: Custom Value 14'', [UsageTypeSV]),
     (0x552, ''Data Field: Custom Value 15'', [UsageTypeSV]),
     (0x553, ''Data Field: Custom Value 16'', [UsageTypeSV]),
     (0x554, ''Data Field: Custom Value 17'', [UsageTypeSV]),
     (0x555, ''Data Field: Custom Value 18'', [UsageTypeSV]),
     (0x556, ''Data Field: Custom Value 19'', [UsageTypeSV]),
     (0x557, ''Data Field: Custom Value 20'', [UsageTypeSV]),
     (0x558, ''Data Field: Custom Value 21'', [UsageTypeSV]),
     (0x559, ''Data Field: Custom Value 22'', [UsageTypeSV]),
     (0x55a, ''Data Field: Custom Value 23'', [UsageTypeSV]),
     (0x55b, ''Data Field: Custom Value 24'', [UsageTypeSV]),
     (0x55c, ''Data Field: Custom Value 25'', [UsageTypeSV]),
     (0x55d, ''Data Field: Custom Value 26'', [UsageTypeSV]),
     (0x55e, ''Data Field: Custom Value 27'', [UsageTypeSV]),
     (0x55f, ''Data Field: Custom Value 28'', [UsageTypeSV]),
     (0x560, ''Data Field: Generic'', [UsageTypeDV]),
     (0x561, ''Data Field: Generic GUID or PROPERTYKEY'', [UsageTypeSV]),
     (0x562, ''Data Field: Generic Category GUID'', [UsageTypeSV]),
     (0x563, ''Data Field: Generic Type GUID'', [UsageTypeSV]),
     (0x564, ''Data Field: Generic Event PROPERTYKEY'', [UsageTypeSV]),
     (0x565, ''Data Field: Generic Property PROPERTYKEY'', [UsageTypeSV]),
     (0x566, ''Data Field: Generic Data Field PROPERTYKEY'', [UsageTypeSV]),
     (0x567, ''Data Field: Generic Event'', [UsageTypeSV]),
     (0x568, ''Data Field: Generic Property'', [UsageTypeSV]),
     (0x569, ''Data Field: Generic Data Field'', [UsageTypeSV]),
     (0x56a, ''Data Field: Enumerator Table Row Index'', [UsageTypeSV]),
     (0x56b, ''Data Field: Enumerator Table Row Count'', [UsageTypeSV]),
     (0x56c, ''Data Field: Generic GUID or PROPERTYKEY kind'', [UsageTypeNAry]),
     (0x56d, ''Data Field: Generic GUID'', [UsageTypeSV]),
     (0x56e, ''Data Field: Generic PROPERTYKEY'', [UsageTypeSV]),
     (0x56f, ''Data Field: Generic Top Level Collection ID'', [UsageTypeSV]),
     (0x570, ''Data Field: Generic Report ID'', [UsageTypeSV]),
     (0x571, ''Data Field: Generic Report Item Position Index'', [UsageTypeSV]),
     (0x572, ''Data Field: Generic Firmware VARTYPE'', [UsageTypeNAry]),
     (0x573, ''Data Field: Generic Unit of Measure'', [UsageTypeNAry]),
     (0x574, ''Data Field: Generic Unit Exponent'', [UsageTypeNAry]),
     (0x575, ''Data Field: Generic Report Size'', [UsageTypeSV]),
     (0x576, ''Data Field: Generic Report Count'', [UsageTypeSV]),
     (0x580, ''Property: Generic'', [UsageTypeDV]),
     (0x581, ''Property: Enumerator Table Row Index'', [UsageTypeDV]),
     (0x582, ''Property: Enumerator Table Row Count'', [UsageTypeSV]),
     (0x590, ''Data Field: Personal Activity'', [UsageTypeDV]),
     (0x591, ''Data Field: Activity Type'', [UsageTypeNAry]),
     (0x592, ''Data Field: Activity State'', [UsageTypeNAry]),
     (0x593, ''Data Field: Device Position'', [UsageTypeNAry]),
     (0x594, ''Data Field: Step Count'', [UsageTypeSV]),
     (0x595, ''Data Field: Step Count Reset'', [UsageTypeDF]),
     (0x596, ''Data Field: Step Duration'', [UsageTypeSV]),
     (0x597, ''Data Field: Step Type'', [UsageTypeNAry]),
     (0x5a0, ''Property: Minimum Activity Detection Interval'', [UsageTypeDV]),
     (0x5a1, ''Property: Supported Activity Types'', [UsageTypeNAry]),
     (0x5a2, ''Property: Subscribed Activity Types'', [UsageTypeNAry]),
     (0x5a3, ''Property: Supported Step Types'', [UsageTypeNAry]),
     (0x5a4, ''Property: Subscribed Step Types'', [UsageTypeNAry]),
     (0x5a5, ''Property: Floor Height'', [UsageTypeDV]),
     (0x5b0, ''Data Field: Custom Type ID'', [UsageTypeSV]),
     (0x5c0, ''Property: Custom'', [UsageTypeDV]),
     (0x5c1, ''Property: Custom Value 1'', [UsageTypeDV]),
     (0x5c2, ''Property: Custom Value 2'', [UsageTypeDV]),
     (0x5c3, ''Property: Custom Value 3'', [UsageTypeDV]),
     (0x5c4, ''Property: Custom Value 4'', [UsageTypeDV]),
     (0x5c5, ''Property: Custom Value 5'', [UsageTypeDV]),
     (0x5c6, ''Property: Custom Value 6'', [UsageTypeDV]),
     (0x5c7, ''Property: Custom Value 7'', [UsageTypeDV]),
     (0x5c8, ''Property: Custom Value 8'', [UsageTypeDV]),
     (0x5c9, ''Property: Custom Value 9'', [UsageTypeDV]),
     (0x5ca, ''Property: Custom Value 10'', [UsageTypeDV]),
     (0x5cb, ''Property: Custom Value 11'', [UsageTypeDV]),
     (0x5cc, ''Property: Custom Value 12'', [UsageTypeDV])]"

definition usages_sen_4 :: "usage_row list" where
  "usages_sen_4 =
    [(0x5cd, ''Property: Custom Value 13'', [UsageTypeDV]),
     (0x5ce, ''Property: Custom Value 14'', [UsageTypeDV]),
     (0x5cf, ''Property: Custom Value 15'', [UsageTypeDV]),
     (0x5d0, ''Property: Custom Value 16'', [UsageTypeDV]),
     (0x5f0, ''Data Field: Gesture Sensor'', [UsageTypeDV]),
     (0x5f1, ''Data Field: Gesture State'', [UsageTypeNAry]),
     (0x5f2, ''Data Field: Hinge Fold Initial Angle'', [UsageTypeSV]),
     (0x5f3, ''Data Field: Hinge Fold Final Angle'', [UsageTypeSV]),
     (0x5f4, ''Data Field: Hinge Fold Contributing Panel'', [UsageTypeNAry]),
     (0x5f5, ''Data Field: Hinge Fold Type'', [UsageTypeNAry]),
     (0x800, ''Sensor State: Undefined'', [UsageTypeSel]),
     (0x801, ''Sensor State: Ready'', [UsageTypeSel]),
     (0x802, ''Sensor State: Not Available'', [UsageTypeSel]),
     (0x803, ''Sensor State: No Data'', [UsageTypeSel]),
     (0x804, ''Sensor State: Initializing'', [UsageTypeSel]),
     (0x805, ''Sensor State: Access Denied'', [UsageTypeSel]),
     (0x806, ''Sensor State: Error'', [UsageTypeSel]),
     (0x810, ''Sensor Event: Unknown'', [UsageTypeSel]),
     (0x811, ''Sensor Event: State Changed'', [UsageTypeSel]),
     (0x812, ''Sensor Event: Property Changed'', [UsageTypeSel]),
     (0x813, ''Sensor Event: Data Updated'', [UsageTypeSel]),
     (0x814, ''Sensor Event: Poll Response'', [UsageTypeSel]),
     (0x815, ''Sensor Event: Change Sensitivity'', [UsageTypeSel]),
     (0x816, ''Sensor Event: Range Maximum Reached'', [UsageTypeSel]),
     (0x817, ''Sensor Event: Range Minimum Reached'', [UsageTypeSel]),
     (0x818, ''Sensor Event: High Threshold Cross Upward'', [UsageTypeSel]),
     (0x819, ''Sensor Event: High Threshold Cross Downward'', [UsageTypeSel]),
     (0x81a, ''Sensor Event: Low Threshold Cross Upward'', [UsageTypeSel]),
     (0x81b, ''Sensor Event: Low Threshold Cross Downward'', [UsageTypeSel]),
     (0x81c, ''Sensor Event: Zero Threshold Cross Upward'', [UsageTypeSel]),
     (0x81d, ''Sensor Event: Zero Threshold Cross Downward'', [UsageTypeSel]),
     (0x81e, ''Sensor Event: Period Exceeded'', [UsageTypeSel]),
     (0x81f, ''Sensor Event: Frequency Exceeded'', [UsageTypeSel]),
     (0x820, ''Sensor Event: Complex Trigger'', [UsageTypeSel]),
     (0x830, ''Connection Type: PC Integrated'', [UsageTypeSel]),
     (0x831, ''Connection Type: PC Attached'', [UsageTypeSel]),
     (0x832, ''Connection Type: PC External'', [UsageTypeSel]),
     (0x840, ''Reporting State: Report No Events'', [UsageTypeSel]),
     (0x841, ''Reporting State: Report All Events'', [UsageTypeSel]),
     (0x842, ''Reporting State: Report Threshold Events'', [UsageTypeSel]),
     (0x843, ''Reporting State: Wake On No Events'', [UsageTypeSel]),
     (0x844, ''Reporting State: Wake On All Events'', [UsageTypeSel]),
     (0x845, ''Reporting State: Wake On Threshold Events'', [UsageTypeSel]),
     (0x850, ''Power State: Undefined'', [UsageTypeSel]),
     (0x851, ''Power State: D0 Full Power'', [UsageTypeSel]),
     (0x852, ''Power State: D1 Low Power'', [UsageTypeSel]),
     (0x853, ''Power State: D2 Standby Power with Wakeup'', [UsageTypeSel]),
     (0x854, ''Power State: D3 Sleep with Wakeup'', [UsageTypeSel]),
     (0x855, ''Power State: D4 Power Off'', [UsageTypeSel]),
     (0x860, ''Accuracy: Default'', [UsageTypeSel]),
     (0x861, ''Accuracy: High'', [UsageTypeSel]),
     (0x862, ''Accuracy: Medium'', [UsageTypeSel]),
     (0x863, ''Accuracy: Low'', [UsageTypeSel]),
     (0x870, ''Fix Quality: No Fix'', [UsageTypeSel]),
     (0x871, ''Fix Quality: GPS'', [UsageTypeSel]),
     (0x872, ''Fix Quality: DGPS'', [UsageTypeSel]),
     (0x880, ''Fix Type: No Fix'', [UsageTypeSel]),
     (0x881, ''Fix Type: GPS SPS Mode, Fix Valid'', [UsageTypeSel]),
     (0x882, ''Fix Type: DGPS SPS Mode, Fix Valid'', [UsageTypeSel]),
     (0x883, ''Fix Type: GPS PPS Mode, Fix Valid'', [UsageTypeSel]),
     (0x884, ''Fix Type: Real Time Kinematic'', [UsageTypeSel]),
     (0x885, ''Fix Type: Float RTK'', [UsageTypeSel]),
     (0x886, ''Fix Type: Estimated (dead reckoned)'', [UsageTypeSel]),
     (0x887, ''Fix Type: Manual Input Mode'', [UsageTypeSel]),
     (0x888, ''Fix Type: Simulator Mode'', [UsageTypeSel]),
     (0x890, ''GPS Operation Mode: Manual'', [UsageTypeSel]),
     (0x891, ''GPS Operation Mode: Automatic'', [UsageTypeSel]),
     (0x8a0, ''GPS Selection Mode: Autonomous'', [UsageTypeSel]),
     (0x8a1, ''GPS Selection Mode: DGPS'', [UsageTypeSel]),
     (0x8a2, ''GPS Selection Mode: Estimated (dead reckoned)'', [UsageTypeSel]),
     (0x8a3, ''GPS Selection Mode: Manual Input'', [UsageTypeSel]),
     (0x8a4, ''GPS Selection Mode: Simulator'', [UsageTypeSel]),
     (0x8a5, ''GPS Selection Mode: Data Not Valid'', [UsageTypeSel]),
     (0x8b0, ''GPS Status Data: Valid'', [UsageTypeSel]),
     (0x8b1, ''GPS Status Data: Not Valid'', [UsageTypeSel]),
     (0x8c0, ''Day of Week: Sunday'', [UsageTypeSel]),
     (0x8c1, ''Day of Week: Monday'', [UsageTypeSel]),
     (0x8c2, ''Day of Week: Tuesday'', [UsageTypeSel]),
     (0x8c3, ''Day of Week: Wednesday'', [UsageTypeSel]),
     (0x8c4, ''Day of Week: Thursday'', [UsageTypeSel]),
     (0x8c5, ''Day of Week: Friday'', [UsageTypeSel]),
     (0x8c6, ''Day of Week: Saturday'', [UsageTypeSel]),
     (0x8d0, ''Kind: Category'', [UsageTypeSel]),
     (0x8d1, ''Kind: Type'', [UsageTypeSel]),
     (0x8d2, ''Kind: Event'', [UsageTypeSel]),
     (0x8d3, ''Kind: Property'', [UsageTypeSel]),
     (0x8d4, ''Kind: Data Field'', [UsageTypeSel]),
     (0x8f0, ''Simple Orientation Direction: Not Rotated'', [UsageTypeSel]),
     (0x8f1, ''Simple Orientation Direction: Rotated 90 Degrees CCW'', [UsageTypeSel]),
     (0x8f2, ''Simple Orientation Direction: Rotated 180 Degrees CCW'', [UsageTypeSel]),
     (0x8f3, ''Simple Orientation Direction: Rotated 270 Degrees CCW'', [UsageTypeSel]),
     (0x8f4, ''Simple Orientation Direction: Face Up'', [UsageTypeSel]),
     (0x8f5, ''Simple Orientation Direction: Face Down'', [UsageTypeSel]),
     (0x900, ''VT_NULL'', [UsageTypeSel]),
     (0x901, ''VT_BOOL'', [UsageTypeSel]),
     (0x902, ''VT_UI1'', [UsageTypeSel]),
     (0x903, ''VT_I1'', [UsageTypeSel]),
     (0x904, ''VT_UI2'', [UsageTypeSel]),
     (0x905, ''VT_I2'', [UsageTypeSel]),
     (0x906, ''VT_UI4'', [UsageTypeSel]),
     (0x907, ''VT_I4'', [UsageTypeSel]),
     (0x908, ''VT_UI8'', [UsageTypeSel]),
     (0x909, ''VT_I8'', [UsageTypeSel]),
     (0x90a, ''VT_R4'', [UsageTypeSel]),
     (0x90b, ''VT_R8'', [UsageTypeSel]),
     (0x90c, ''VT_WSTR'', [UsageTypeSel]),
     (0x90d, ''VT_STR'', [UsageTypeSel]),
     (0x90e, ''VT_CLSID'', [UsageTypeSel]),
     (0x90f, ''VT_VECTOR VT_UI1'', [UsageTypeSel]),
     (0x910, ''VT_F16E0'', [UsageTypeSel]),
     (0x911, ''VT_F16E1'', [UsageTypeSel]),
     (0x912, ''VT_F16E2'', [UsageTypeSel]),
     (0x913, ''VT_F16E3'', [UsageTypeSel]),
     (0x914, ''VT_F16E4'', [UsageTypeSel]),
     (0x915, ''VT_F16E5'', [UsageTypeSel]),
     (0x916, ''VT_F16E6'', [UsageTypeSel]),
     (0x917, ''VT_F16E7'', [UsageTypeSel]),
     (0x918, ''VT_F16E8'', [UsageTypeSel]),
     (0x919, ''VT_F16E9'', [UsageTypeSel]),
     (0x91a, ''VT_F16EA'', [UsageTypeSel]),
     (0x91b, ''VT_F16EB'', [UsageTypeSel]),
     (0x91c, ''VT_F16EC'', [UsageTypeSel]),
     (0x91d, ''VT_F16ED'', [UsageTypeSel]),
     (0x91e, ''VT_F16EE'', [UsageTypeSel]),
     (0x91f, ''VT_F16EF'', [UsageTypeSel]),
     (0x920, ''VT_F32E0'', [UsageTypeSel]),
     (0x921, ''VT_F32E1'', [UsageTypeSel]),
     (0x922, ''VT_F32E2'', [UsageTypeSel]),
     (0x923, ''VT_F32E3'', [UsageTypeSel]),
     (0x924, ''VT_F32E4'', [UsageTypeSel]),
     (0x925, ''VT_F32E5'', [UsageTypeSel]),
     (0x926, ''VT_F32E6'', [UsageTypeSel]),
     (0x927, ''VT_F32E7'', [UsageTypeSel]),
     (0x928, ''VT_F32E8'', [UsageTypeSel]),
     (0x929, ''VT_F32E9'', [UsageTypeSel]),
     (0x92a, ''VT_F32EA'', [UsageTypeSel]),
     (0x92b, ''VT_F32EB'', [UsageTypeSel]),
     (0x92c, ''VT_F32EC'', [UsageTypeSel]),
     (0x92d, ''VT_F32ED'', [UsageTypeSel]),
     (0x92e, ''VT_F32EE'', [UsageTypeSel])]"

definition usages_sen_5 :: "usage_row list" where
  "usages_sen_5 =
    [(0x92f, ''VT_F32EF'', [UsageTypeSel]),
     (0x930, ''Activity Type: Unknown'', [UsageTypeSel]),
     (0x931, ''Activity Type: Stationary'', [UsageTypeSel]),
     (0x932, ''Activity Type: Fidgeting'', [UsageTypeSel]),
     (0x933, ''Activity Type: Walking'', [UsageTypeSel]),
     (0x934, ''Activity Type: Running'', [UsageTypeSel]),
     (0x935, ''Activity Type: In Vehicle'', [UsageTypeSel]),
     (0x936, ''Activity Type: Biking'', [UsageTypeSel]),
     (0x937, ''Activity Type: Idle'', [UsageTypeSel]),
     (0x940, ''Unit: Not Specified'', [UsageTypeSel]),
     (0x941, ''Unit: Lux'', [UsageTypeSel]),
     (0x942, ''Unit: Degrees Kelvin'', [UsageTypeSel]),
     (0x943, ''Unit: Degrees Celsius'', [UsageTypeSel]),
     (0x944, ''Unit: Pascal'', [UsageTypeSel]),
     (0x945, ''Unit: Newton'', [UsageTypeSel]),
     (0x946, ''Unit: Meters/Second'', [UsageTypeSel]),
     (0x947, ''Unit: Kilogram'', [UsageTypeSel]),
     (0x948, ''Unit: Meter'', [UsageTypeSel]),
     (0x949, ''Unit: Meters/Second/Second'', [UsageTypeSel]),
     (0x94a, ''Unit: Farad'', [UsageTypeSel]),
     (0x94b, ''Unit: Ampere'', [UsageTypeSel]),
     (0x94c, ''Unit: Watt'', [UsageTypeSel]),
     (0x94d, ''Unit: Henry'', [UsageTypeSel]),
     (0x94e, ''Unit: Ohm'', [UsageTypeSel]),
     (0x94f, ''Unit: Volt'', [UsageTypeSel]),
     (0x950, ''Unit: Hertz'', [UsageTypeSel]),
     (0x951, ''Unit: Bar'', [UsageTypeSel]),
     (0x952, ''Unit: Degrees Anti-clockwise'', [UsageTypeSel]),
     (0x953, ''Unit: Degrees Clockwise'', [UsageTypeSel]),
     (0x954, ''Unit: Degrees'', [UsageTypeSel]),
     (0x955, ''Unit: Degrees/Second'', [UsageTypeSel]),
     (0x956, ''Unit: Degrees/Second/Second'', [UsageTypeSel]),
     (0x957, ''Unit: Knot'', [UsageTypeSel]),
     (0x958, ''Unit: Percent'', [UsageTypeSel]),
     (0x959, ''Unit: Second'', [UsageTypeSel]),
     (0x95a, ''Unit: Millisecond'', [UsageTypeSel]),
     (0x95b, ''Unit: G'', [UsageTypeSel]),
     (0x95c, ''Unit: Bytes'', [UsageTypeSel]),
     (0x95d, ''Unit: Milligauss'', [UsageTypeSel]),
     (0x95e, ''Unit: Bits'', [UsageTypeSel]),
     (0x960, ''Activity State: No State Change'', [UsageTypeSel]),
     (0x961, ''Activity State: Start Activity'', [UsageTypeSel]),
     (0x962, ''Activity State: End Activity'', [UsageTypeSel]),
     (0x970, ''Exponent 0'', [UsageTypeSel]),
     (0x971, ''Exponent 1'', [UsageTypeSel]),
     (0x972, ''Exponent 2'', [UsageTypeSel]),
     (0x973, ''Exponent 3'', [UsageTypeSel]),
     (0x974, ''Exponent 4'', [UsageTypeSel]),
     (0x975, ''Exponent 5'', [UsageTypeSel]),
     (0x976, ''Exponent 6'', [UsageTypeSel]),
     (0x977, ''Exponent 7'', [UsageTypeSel]),
     (0x978, ''Exponent 8'', [UsageTypeSel]),
     (0x979, ''Exponent 9'', [UsageTypeSel]),
     (0x97a, ''Exponent A'', [UsageTypeSel]),
     (0x97b, ''Exponent B'', [UsageTypeSel]),
     (0x97c, ''Exponent C'', [UsageTypeSel]),
     (0x97d, ''Exponent D'', [UsageTypeSel]),
     (0x97e, ''Exponent E'', [UsageTypeSel]),
     (0x97f, ''Exponent F'', [UsageTypeSel]),
     (0x980, ''Device Position: Unknown'', [UsageTypeSel]),
     (0x981, ''Device Position: Unchanged'', [UsageTypeSel]),
     (0x982, ''Device Position: On Desk'', [UsageTypeSel]),
     (0x983, ''Device Position: In Hand'', [UsageTypeSel]),
     (0x984, ''Device Position: Moving in Bag'', [UsageTypeSel]),
     (0x985, ''Device Position: Stationary in Bag'', [UsageTypeSel]),
     (0x990, ''Step Type: Unknown'', [UsageTypeSel]),
     (0x991, ''Step Type: Running'', [UsageTypeSel]),
     (0x992, ''Step Type: Walking'', [UsageTypeSel]),
     (0x9a0, ''Gesture State: Unknown'', [UsageTypeSel]),
     (0x9a1, ''Gesture State: Started'', [UsageTypeSel]),
     (0x9a2, ''Gesture State: Completed'', [UsageTypeSel]),
     (0x9a3, ''Gesture State: Cancelled'', [UsageTypeSel]),
     (0x9b0, ''Hinge Fold Contributing Panel: Unknown'', [UsageTypeSel]),
     (0x9b1, ''Hinge Fold Contributing Panel: Panel 1'', [UsageTypeSel]),
     (0x9b2, ''Hinge Fold Contributing Panel: Panel 2'', [UsageTypeSel]),
     (0x9b3, ''Hinge Fold Contributing Panel: Both'', [UsageTypeSel]),
     (0x9b4, ''Hinge Fold Type: Unknown'', [UsageTypeSel]),
     (0x9b5, ''Hinge Fold Type: Increasing'', [UsageTypeSel]),
     (0x9b6, ''Hinge Fold Type: Decreasing'', [UsageTypeSel]),
     (0x9c0, ''Human Presence Detection Type: Vendor-Defined Non-Biometric'', [UsageTypeSel]),
     (0x9c1, ''Human Presence Detection Type: Vendor-Defined Biometric'', [UsageTypeSel]),
     (0x9c2, ''Human Presence Detection Type: Facial Biometric'', [UsageTypeSel]),
     (0x9c3, ''Human Presence Detection Type: Audio Biometric'', [UsageTypeSel]),
     (0x1000, ''Modifier: Change Sensitivity Absolute'', [UsageTypeUS]),
     (0x2000, ''Modifier: Maximum'', [UsageTypeUS]),
     (0x3000, ''Modifier: Minimum'', [UsageTypeUS]),
     (0x4000, ''Modifier: Accuracy'', [UsageTypeUS]),
     (0x5000, ''Modifier: Resolution'', [UsageTypeUS]),
     (0x6000, ''Modifier: Threshold High'', [UsageTypeUS]),
     (0x7000, ''Modifier: Threshold Low'', [UsageTypeUS]),
     (0x8000, ''Modifier: Calibration Offset'', [UsageTypeUS]),
     (0x9000, ''Modifier: Calibration Multiplier'', [UsageTypeUS]),
     (0xa000, ''Modifier: Report Interval'', [UsageTypeUS]),
     (0xb000, ''Modifier: Frequency Max'', [UsageTypeUS]),
     (0xc000, ''Modifier: Period Max'', [UsageTypeUS]),
     (0xd000, ''Modifier: Change Sensitivity Percent of Range'', [UsageTypeUS]),
     (0xe000, ''Modifier: Change Sensitivity Percent Relative'', [UsageTypeUS]),
     (0xf000, ''Modifier: Vendor Reserved'', [UsageTypeUS])]"

definition usages_med :: "usage_row list" where
  "usages_med =
    [(0x00, ''Undefined'', []),
     (0x01, ''Medical Ultrasound'', [UsageTypeCA]),
     (0x20, ''VCR/Acquisition'', [UsageTypeOOC]),
     (0x21, ''Freeze/Thaw'', [UsageTypeOOC]),
     (0x22, ''Clip Store'', [UsageTypeOSC]),
     (0x23, ''Update'', [UsageTypeOSC]),
     (0x24, ''Next'', [UsageTypeOSC]),
     (0x25, ''Save'', [UsageTypeOSC]),
     (0x26, ''Print'', [UsageTypeOSC]),
     (0x27, ''Microphone Enable'', [UsageTypeOSC]),
     (0x40, ''Cine'', [UsageTypeLC]),
     (0x41, ''Transmit Power'', [UsageTypeLC]),
     (0x42, ''Volume'', [UsageTypeLC]),
     (0x43, ''Focus'', [UsageTypeLC]),
     (0x44, ''Depth'', [UsageTypeLC]),
     (0x60, ''Soft Step - Primary'', [UsageTypeLC]),
     (0x61, ''Soft Step - Secondary'', [UsageTypeLC]),
     (0x70, ''Depth Gain Compensation'', [UsageTypeLC]),
     (0x80, ''Zoom Select'', [UsageTypeOSC]),
     (0x81, ''Zoom Adjust'', [UsageTypeLC]),
     (0x82, ''Spectral Doppler Mode Select'', [UsageTypeOSC]),
     (0x83, ''Spectral Doppler Adjust'', [UsageTypeLC]),
     (0x84, ''Color Doppler Mode Select'', [UsageTypeOSC]),
     (0x85, ''Color Doppler Adjust'', [UsageTypeLC]),
     (0x86, ''Motion Mode Select'', [UsageTypeOSC]),
     (0x87, ''Motion Mode Adjust'', [UsageTypeLC]),
     (0x88, ''2-D Mode Select'', [UsageTypeOSC]),
     (0x89, ''2-D Mode Adjust'', [UsageTypeLC]),
     (0xa0, ''Soft Control Select'', [UsageTypeOSC]),
     (0xa1, ''Soft Control Adjust'', [UsageTypeLC])]"

definition usages_bd :: "usage_row list" where
  "usages_bd =
    [(0x00, ''Undefined'', []),
     (0x01, ''Braille Display'', [UsageTypeCA]),
     (0x02, ''Braille Row'', [UsageTypeNAry]),
     (0x03, ''8 Dot Braille Cell'', [UsageTypeDV]),
     (0x04, ''6 Dot Braille Cell'', [UsageTypeDV]),
     (0x05, ''Number of Braille Cells'', [UsageTypeDV]),
     (0x06, ''Screen Reader Control'', [UsageTypeNAry]),
     (0x07, ''Screen Reader Identifier'', [UsageTypeDV]),
     (0xfa, ''Router Set 1'', [UsageTypeNAry]),
     (0xfb, ''Router Set 2'', [UsageTypeNAry]),
     (0xfc, ''Router Set 3'', [UsageTypeNAry]),
     (0x100, ''Router Key'', [UsageTypeSel]),
     (0x101, ''Row Router Key'', [UsageTypeSel]),
     (0x200, ''Braille Buttons'', [UsageTypeNAry]),
     (0x201, ''Braille Keyboard Dot 1'', [UsageTypeSel]),
     (0x202, ''Braille Keyboard Dot 2'', [UsageTypeSel]),
     (0x203, ''Braille Keyboard Dot 3'', [UsageTypeSel]),
     (0x204, ''Braille Keyboard Dot 4'', [UsageTypeSel]),
     (0x205, ''Braille Keyboard Dot 5'', [UsageTypeSel]),
     (0x206, ''Braille Keyboard Dot 6'', [UsageTypeSel]),
     (0x207, ''Braille Keyboard Dot 7'', [UsageTypeSel]),
     (0x208, ''Braille Keyboard Dot 8'', [UsageTypeSel]),
     (0x209, ''Braille Keyboard Space'', [UsageTypeSel]),
     (0x20a, ''Braille Keyboard Left Space'', [UsageTypeSel]),
     (0x20b, ''Braille Keyboard Right Space'', [UsageTypeSel]),
     (0x20c, ''Braille Face Controls'', [UsageTypeNAry]),
     (0x20d, ''Braille Left Controls'', [UsageTypeNAry]),
     (0x20e, ''Braille Right Controls'', [UsageTypeNAry]),
     (0x20f, ''Braille Top Controls'', [UsageTypeNAry]),
     (0x210, ''Braille Joystick Center'', [UsageTypeSel]),
     (0x211, ''Braille Joystick Up'', [UsageTypeSel]),
     (0x212, ''Braille Joystick Down'', [UsageTypeSel]),
     (0x213, ''Braille Joystick Left'', [UsageTypeSel]),
     (0x214, ''Braille Joystick Right'', [UsageTypeSel]),
     (0x215, ''Braille D-Pad Center'', [UsageTypeSel]),
     (0x216, ''Braille D-Pad Up'', [UsageTypeSel]),
     (0x217, ''Braille D-Pad Down'', [UsageTypeSel]),
     (0x218, ''Braille D-Pad Left'', [UsageTypeSel]),
     (0x219, ''Braille D-Pad Right'', [UsageTypeSel]),
     (0x21a, ''Braille Pan Left'', [UsageTypeSel]),
     (0x21b, ''Braille Pan Right'', [UsageTypeSel]),
     (0x21c, ''Braille Rocker Up'', [UsageTypeSel]),
     (0x21d, ''Braille Rocker Down'', [UsageTypeSel]),
     (0x21e, ''Braille Rocker Press'', [UsageTypeSel])]"

definition usages_lig :: "usage_row list" where
  "usages_lig =
    [(0x00, ''Undefined'', []),
     (0x01, ''LampArray'', [UsageTypeCA]),
     (0x02, ''LampArrayAttributesReport'', [UsageTypeCL]),
     (0x03, ''LampCount'', [UsageTypeSV, UsageTypeDV]),
     (0x04, ''BoundingBoxWidthInMicrometers'', [UsageTypeSV]),
     (0x05, ''BoundingBoxHeightInMicrometers'', [UsageTypeSV]),
     (0x06, ''BoundingBoxDepthInMicrometers'', [UsageTypeSV]),
     (0x07, ''LampArrayKind'', [UsageTypeSV]),
     (0x08, ''MinUpdateIntervalInMicroseconds'', [UsageTypeSV]),
     (0x20, ''LampAttributesRequestReport'', [UsageTypeCL]),
     (0x21, ''LampId'', [UsageTypeSV, UsageTypeDV]),
     (0x22, ''LampAttributesResponseReport'', [UsageTypeCL]),
     (0x23, ''PositionXInMicrometers'', [UsageTypeDV]),
     (0x24, ''PositionYInMicrometers'', [UsageTypeDV]),
     (0x25, ''PositionZInMicrometers'', [UsageTypeDV]),
     (0x26, ''LampPurposes'', [UsageTypeDV]),
     (0x27, ''UpdateLatencyInMicroseconds'', [UsageTypeDV]),
     (0x28, ''RedLevelCount'', [UsageTypeDV]),
     (0x29, ''GreenLevelCount'', [UsageTypeDV]),
     (0x2a, ''BlueLevelCount'', [UsageTypeDV]),
     (0x2b, ''IntensityLevelCount'', [UsageTypeDV]),
     (0x2c, ''IsProgrammable'', [UsageTypeDV]),
     (0x2d, ''InputBinding'', [UsageTypeDV]),
     (0x50, ''LampMultiUpdateReport'', [UsageTypeCL]),
     (0x51, ''RedUpdateChannel'', [UsageTypeDV]),
     (0x52, ''GreenUpdateChannel'', [UsageTypeDV]),
     (0x53, ''BlueUpdateChannel'', [UsageTypeDV]),
     (0x54, ''IntensityUpdateChannel'', [UsageTypeDV]),
     (0x55, ''LampUpdateFlags'', [UsageTypeDV]),
     (0x60, ''LampRangeUpdateReport'', [UsageTypeCL]),
     (0x61, ''LampIdStart'', [UsageTypeDV]),
     (0x62, ''LampIdEnd'', [UsageTypeDV]),
     (0x70, ''LampArrayControlReport'', [UsageTypeCL]),
     (0x71, ''AutonomousMode'', [UsageTypeDV])]"

definition usages_mon :: "usage_row list" where
  "usages_mon =
    [(0x00, ''Undefined'', []),
     (0x01, ''Monitor Control'', [UsageTypeCA]),
     (0x02, ''EDID Information'', [UsageTypeSV]),
     (0x03, ''VDIF Information'', [UsageTypeSV]),
     (0x04, ''VESA Version'', [UsageTypeSV])]"

definition usages_me :: "usage_row list" where
  "usages_me =
    [(0x00, ''Reserved'', []),
     (0x01, ''Enum 1'', [UsageTypeSel]),
     (0x02, ''Enum 2'', [UsageTypeSel]),
     (0x03, ''Enum 3'', [UsageTypeSel]),
     (0x04, ''Enum 4'', [UsageTypeSel]),
     (0xffff, ''Enum 65535'', [UsageTypeSel])]"

definition usages_vvc :: "usage_row list" where
  "usages_vvc =
    [(0x00, ''Undefined'', []),
     (0x01, ''Degauss'', [UsageTypeDV]),
     (0x10, ''Brightness'', [UsageTypeDV]),
     (0x12, ''Contrast'', [UsageTypeDV]),
     (0x16, ''Red Video Gain'', [UsageTypeDV]),
     (0x18, ''Green Video Gain'', [UsageTypeDV]),
     (0x1a, ''Blue Video Gain'', [UsageTypeDV]),
     (0x1c, ''Focus'', [UsageTypeDV]),
     (0x20, ''Horizontal Position'', [UsageTypeDV]),
     (0x22, ''Horizontal Size'', [UsageTypeDV]),
     (0x24, ''Horizontal Pincushion'', [UsageTypeDV]),
     (0x26, ''Horizontal Pincushion Balance'', [UsageTypeDV]),
     (0x28, ''Horizontal Misconvergence'', [UsageTypeDV]),
     (0x2a, ''Horizontal Linearity'', [UsageTypeDV]),
     (0x2c, ''Horizontal Linearity Balance'', [UsageTypeDV]),
     (0x30, ''Vertical Position'', [UsageTypeDV]),
     (0x32, ''Vertical Size'', [UsageTypeDV]),
     (0x34, ''Vertical Pincushion'', [UsageTypeDV]),
     (0x36, ''Vertical Pincushion Balance'', [UsageTypeDV]),
     (0x38, ''Vertical Misconvergence'', [UsageTypeDV]),
     (0x3a, ''Vertical Linearity'', [UsageTypeDV]),
     (0x3c, ''Vertical Linearity Balance'', [UsageTypeDV]),
     (0x40, ''Parallelogram Distortion (Key Balance)'', [UsageTypeDV]),
     (0x42, ''Trapezoidal Distortion (Key)'', [UsageTypeDV]),
     (0x44, ''Tilt (Rotation)'', [UsageTypeDV]),
     (0x46, ''Top Corner Distortion Control'', [UsageTypeDV]),
     (0x48, ''Top Corner Distortion Balance'', [UsageTypeDV]),
     (0x4a, ''Bottom Corner Distortion Control'', [UsageTypeDV]),
     (0x4c, ''Bottom Corner Distortion Balance'', [UsageTypeDV]),
     (0x56, ''Horizontal Moir'' @ [CHR 0xC3, CHR 0xA9], [UsageTypeDV]),
     (0x58, ''Vertical Moir'' @ [CHR 0xC3, CHR 0xA9], [UsageTypeDV]),
     (0x5e, ''Input Level Select'', [UsageTypeNAry]),
     (0x60, ''Input Source Select'', [UsageTypeNAry]),
     (0x6c, ''Red Video Black Level'', [UsageTypeDV]),
     (0x6e, ''Green Video Black Level'', [UsageTypeDV]),
     (0x70, ''Blue Video Black Level'', [UsageTypeDV]),
     (0xa2, ''Auto Size Center'', [UsageTypeNAry]),
     (0xa4, ''Polarity Horizontal Synchronization'', [UsageTypeNAry]),
     (0xa6, ''Polarity Vertical Synchronization'', [UsageTypeNAry]),
     (0xa8, ''Synchronization Type'', [UsageTypeNAry]),
     (0xaa, ''Screen Orientation'', [UsageTypeNAry]),
     (0xac, ''Horizontal Frequency'', [UsageTypeDV]),
     (0xae, ''Vertical Frequency'', [UsageTypeDV]),
     (0xb0, ''Settings'', [UsageTypeNAry]),
     (0xca, ''On Screen Display'', [UsageTypeNAry]),
     (0xd4, ''Stereo Mode'', [UsageTypeNAry])]"

definition usages_pow :: "usage_row list" where
  "usages_pow =
    [(0x00, ''Undefined'', []),
     (0x01, ''iName'', [UsageTypeSV]),
     (0x02, ''Present Status'', [UsageTypeCL]),
     (0x03, ''Changed Status'', [UsageTypeCL]),
     (0x04, ''UPS'', [UsageTypeCA]),
     (0x05, ''Power Supply'', [UsageTypeCA]),
     (0x10, ''Battery System'', [UsageTypeCP]),
     (0x11, ''Battery System Id'', [UsageTypeSV]),
     (0x12, ''Battery'', [UsageTypeCP]),
     (0x13, ''Battery Id'', [UsageTypeSV]),
     (0x14, ''Charger'', [UsageTypeCP]),
     (0x15, ''Charger Id'', [UsageTypeSV]),
     (0x16, ''Power Converter'', [UsageTypeCP]),
     (0x17, ''Power Converter Id'', [UsageTypeSV]),
     (0x18, ''Outlet System'', [UsageTypeCP]),
     (0x19, ''Outlet System Id'', [UsageTypeSV]),
     (0x1a, ''Input'', [UsageTypeCP]),
     (0x1b, ''Input Id'', [UsageTypeSV]),
     (0x1c, ''Output'', [UsageTypeCP]),
     (0x1d, ''Output Id'', [UsageTypeSV]),
     (0x1e, ''Flow'', [UsageTypeCP]),
     (0x1f, ''Flow Id'', [UsageTypeSV]),
     (0x20, ''Outlet'', [UsageTypeCP]),
     (0x21, ''Outlet Id'', [UsageTypeSV]),
     (0x22, ''Gang'', [UsageTypeCL, UsageTypeCP]),
     (0x23, ''Gang Id'', [UsageTypeSV]),
     (0x24, ''Power Summary'', [UsageTypeCL, UsageTypeCP]),
     (0x25, ''Power Summary Id'', [UsageTypeSV]),
     (0x30, ''Voltage'', [UsageTypeDV]),
     (0x31, ''Current'', [UsageTypeDV]),
     (0x32, ''Frequency'', [UsageTypeDV]),
     (0x33, ''Apparent Power'', [UsageTypeDV]),
     (0x34, ''Active Power'', [UsageTypeDV]),
     (0x35, ''Percent Load'', [UsageTypeDV]),
     (0x36, ''Temperature'', [UsageTypeDV]),
     (0x37, ''Humidity'', [UsageTypeDV]),
     (0x38, ''Bad Count'', [UsageTypeDV]),
     (0x40, ''Config Voltage'', [UsageTypeSV, UsageTypeDV]),
     (0x41, ''Config Current'', [UsageTypeSV, UsageTypeDV]),
     (0x42, ''Config Frequency'', [UsageTypeSV, UsageTypeDV]),
     (0x43, ''Config Apparent Power'', [UsageTypeSV, UsageTypeDV]),
     (0x44, ''Config Active Power'', [UsageTypeSV, UsageTypeDV]),
     (0x45, ''Config Percent Load'', [UsageTypeSV, UsageTypeDV]),
     (0x46, ''Config Temperature'', [UsageTypeSV, UsageTypeDV]),
     (0x47, ''Config Humidity'', [UsageTypeSV, UsageTypeDV]),
     (0x50, ''Switch On Control'', [UsageTypeDV]),
     (0x51, ''Switch Off Control'', [UsageTypeDV]),
     (0x52, ''Toggle Control'', [UsageTypeDV]),
     (0x53, ''Low Voltage Transfer'', [UsageTypeDV]),
     (0x54, ''High Voltage Transfer'', [UsageTypeDV]),
     (0x55, ''Delay Before Reboot'', [UsageTypeDV]),
     (0x56, ''Delay Before Startup'', [UsageTypeDV]),
     (0x57, ''Delay Before Shutdown'', [UsageTypeDV]),
     (0x58, ''Test'', [UsageTypeDV]),
     (0x59, ''Module Reset'', [UsageTypeDV]),
     (0x5a, ''Audible Alarm Control'', [UsageTypeDV]),
     (0x60, ''Present'', [UsageTypeDF]),
     (0x61, ''Good'', [UsageTypeDF]),
     (0x62, ''Internal Failure'', [UsageTypeDF]),
     (0x63, ''Voltag Out Of Range'', [UsageTypeDF]),
     (0x64, ''Frequency Out Of Range'', [UsageTypeDF]),
     (0x65, ''Overload'', [UsageTypeDF]),
     (0x66, ''Over Charged'', [UsageTypeDF]),
     (0x67, ''Over Temperature'', [UsageTypeDF]),
     (0x68, ''Shutdown Requested'', [UsageTypeDF]),
     (0x69, ''Shutdown Imminent'', [UsageTypeDF]),
     (0x6b, ''Switch On/Off'', [UsageTypeDF]),
     (0x6c, ''Switchable'', [UsageTypeDF]),
     (0x6d, ''Used'', [UsageTypeDF]),
     (0x6e, ''Boost'', [UsageTypeDF]),
     (0x6f, ''Buck'', [UsageTypeDF]),
     (0x70, ''Initialized'', [UsageTypeDF]),
     (0x71, ''Tested'', [UsageTypeDF]),
     (0x72, ''Awaiting Power'', [UsageTypeDF]),
     (0x73, ''Communication Lost'', [UsageTypeDF]),
     (0xfd, ''iManufacturer'', [UsageTypeSV]),
     (0xfe, ''iProduct'', [UsageTypeSV]),
     (0xff, ''iSerialNumber'', [UsageTypeSV])]"

definition usages_bat :: "usage_row list" where
  "usages_bat =
    [(0x00, ''Undefined'', []),
     (0x01, ''Smart Battery Battery Mode'', [UsageTypeCL]),
     (0x02, ''Smart Battery Battery Status'', [UsageTypeNAry]),
     (0x03, ''Smart Battery Alarm Warning'', [UsageTypeNAry]),
     (0x04, ''Smart Battery Charger Mode'', [UsageTypeCL]),
     (0x05, ''Smart Battery Charger Status'', [UsageTypeCL]),
     (0x06, ''Smart Battery Charger Spec Info'', [UsageTypeCL]),
     (0x07, ''Smart Battery Selector State'', [UsageTypeCL]),
     (0x08, ''Smart Battery Selector Presets'', [UsageTypeCL]),
     (0x09, ''Smart Battery Selector Info'', [UsageTypeCL]),
     (0x10, ''Optional Mfg Function 1'', [UsageTypeDV]),
     (0x11, ''Optional Mfg Function 2'', [UsageTypeDV]),
     (0x12, ''Optional Mfg Function 3'', [UsageTypeDV]),
     (0x13, ''Optional Mfg Function 4'', [UsageTypeDV]),
     (0x14, ''Optional Mfg Function 5'', [UsageTypeDV]),
     (0x15, ''Connection To SM Bus'', [UsageTypeDF]),
     (0x16, ''Output Connection'', [UsageTypeDF]),
     (0x17, ''Charger Connection'', [UsageTypeDF]),
     (0x18, ''Battery Insertion'', [UsageTypeDF]),
     (0x19, ''Use Next'', [UsageTypeDF]),
     (0x1a, ''OK To Use'', [UsageTypeDF]),
     (0x1b, ''Battery Supported'', [UsageTypeDF]),
     (0x1c, ''Selector Revision'', [UsageTypeDF]),
     (0x1d, ''Charging Indicator'', [UsageTypeDF]),
     (0x28, ''Manufacturer Access'', [UsageTypeDV]),
     (0x29, ''Remaining Capacity Limit'', [UsageTypeDV]),
     (0x2a, ''Remaining Time Limit'', [UsageTypeDV]),
     (0x2b, ''At Rate'', [UsageTypeDV]),
     (0x2c, ''Capacity Mode'', [UsageTypeDV]),
     (0x2d, ''Broadcast To Charger'', [UsageTypeDV]),
     (0x2e, ''Primary Battery'', [UsageTypeDV]),
     (0x2f, ''Charge Controller'', [UsageTypeDV]),
     (0x40, ''Terminate Charge'', [UsageTypeSel]),
     (0x41, ''Terminate Discharge'', [UsageTypeSel]),
     (0x42, ''Below Remaining Capacity Limit'', [UsageTypeSel]),
     (0x43, ''Remaining Time Limit Expired'', [UsageTypeSel]),
     (0x44, ''Charging'', [UsageTypeSel]),
     (0x45, ''Discharging'', [UsageTypeSel]),
     (0x46, ''Fully Charged'', [UsageTypeSel]),
     (0x47, ''Fully Discharged'', [UsageTypeSel]),
     (0x48, ''Conditioning Flag'', [UsageTypeDF]),
     (0x49, ''At Rate OK'', [UsageTypeDF]),
     (0x4a, ''Smart Battery Error Code'', [UsageTypeDV]),
     (0x4b, ''Need Replacement'', [UsageTypeDF]),
     (0x60, ''At Rate Time To Full'', [UsageTypeDV]),
     (0x61, ''At Rate Time To Empty'', [UsageTypeDV]),
     (0x62, ''Average Current'', [UsageTypeDV]),
     (0x63, ''Max Error'', [UsageTypeDV]),
     (0x64, ''Relative State Of Charge'', [UsageTypeDV]),
     (0x65, ''Absolute State Of Charge'', [UsageTypeDV]),
     (0x66, ''Remaining Capacity'', [UsageTypeDV]),
     (0x67, ''Full Charge Capacity'', [UsageTypeDV]),
     (0x68, ''Run Time To Empty'', [UsageTypeDV]),
     (0x69, ''Average Time To Empty'', [UsageTypeDV]),
     (0x6a, ''Average Time To Full'', [UsageTypeDV]),
     (0x6b, ''Cycle Count'', [UsageTypeDV]),
     (0x80, ''Battery Pack Model Level'', [UsageTypeSV]),
     (0x81, ''Internal Charge Controller'', [UsageTypeSF]),
     (0x82, ''Primary Battery Support'', [UsageTypeSF]),
     (0x83, ''Design Capacity'', [UsageTypeSV]),
     (0x84, ''Specification Info'', [UsageTypeSV]),
     (0x85, ''Manufacture Date'', [UsageTypeSV]),
     (0x86, ''Serial Number'', [UsageTypeSV]),
     (0x87, ''iManufacturer Name'', [UsageTypeSV]),
     (0x88, ''iDevice Name'', [UsageTypeSV]),
     (0x89, ''iDevice Chemistry'', [UsageTypeSV]),
     (0x8a, ''Manufacturer Data'', [UsageTypeSV]),
     (0x8b, ''Rechargable'', [UsageTypeSV]),
     (0x8c, ''Warning Capacity Limit'', [UsageTypeSV]),
     (0x8d, ''Capacity Granularity 1'', [UsageTypeSV]),
     (0x8e, ''Capacity Granularity 2'', [UsageTypeSV]),
     (0x8f, ''iOEM Information'', [UsageTypeSV]),
     (0xc0, ''Inhibit Charge'', [UsageTypeDF]),
     (0xc1, ''Enable Polling'', [UsageTypeDF]),
     (0xc2, ''Reset To Zero'', [UsageTypeDF]),
     (0xd0, ''AC Present'', [UsageTypeDV]),
     (0xd1, ''Battery Present'', [UsageTypeDV]),
     (0xd2, ''Power Fail'', [UsageTypeDV]),
     (0xd3, ''Alarm Inhibited'', [UsageTypeDV]),
     (0xd4, ''Thermistor Under Range'', [UsageTypeDV]),
     (0xd5, ''Thermistor Hot'', [UsageTypeDV]),
     (0xd6, ''Thermistor Cold'', [UsageTypeDV]),
     (0xd7, ''Thermistor Over Range'', [UsageTypeDV]),
     (0xd8, ''Voltage Out Of Range'', [UsageTypeDV]),
     (0xd9, ''Current Out Of Range'', [UsageTypeDV]),
     (0xda, ''Current Not Regulated'', [UsageTypeDV]),
     (0xdb, ''Voltage Not Regulated'', [UsageTypeDV]),
     (0xdc, ''Master Mode'', [UsageTypeDV]),
     (0xf0, ''Charger Selector Support'', [UsageTypeSF]),
     (0xf1, ''Charger Spec'', [UsageTypeSV]),
     (0xf2, ''Level 2'', [UsageTypeSF]),
     (0xf3, ''Level 3'', [UsageTypeSF])]"

definition usages_bar_1 :: "usage_row list" where
  "usages_bar_1 =
    [(0x00, ''Undefined'', []),
     (0x01, ''Barcode Badge Reader'', [UsageTypeCA]),
     (0x02, ''Barcode Scanner'', [UsageTypeCA]),
     (0x03, ''Dumb Bar Code Scanner'', [UsageTypeCA]),
     (0x04, ''Cordless Scanner Base'', [UsageTypeCA]),
     (0x05, ''Bar Code Scanner Cradle'', [UsageTypeCA]),
     (0x10, ''Attribute Report'', [UsageTypeCL]),
     (0x11, ''Settings Report'', [UsageTypeCL]),
     (0x12, ''Scanned Data Report'', [UsageTypeCL]),
     (0x13, ''Raw Scanned Data Report'', [UsageTypeCL]),
     (0x14, ''Trigger Report'', [UsageTypeCL]),
     (0x15, ''Status Report'', [UsageTypeCL]),
     (0x16, ''UPC/EAN Control Report'', [UsageTypeCL]),
     (0x17, ''EAN 2/3 Label Control Report'', [UsageTypeCL]),
     (0x18, ''Code 39 Control Report'', [UsageTypeCL]),
     (0x19, ''Interleaved 2 of 5 Control Report'', [UsageTypeCL]),
     (0x1a, ''Standard 2 of 5 Control Report'', [UsageTypeCL]),
     (0x1b, ''MSI Plessey Control Report'', [UsageTypeCL]),
     (0x1c, ''Codabar Control Report'', [UsageTypeCL]),
     (0x1d, ''Code 128 Control Report'', [UsageTypeCL]),
     (0x1e, ''Misc 1D Control Report'', [UsageTypeCL]),
     (0x1f, ''2D Control Report'', [UsageTypeCL]),
     (0x30, ''Aiming/Pointer Mode'', [UsageTypeSF]),
     (0x31, ''Bar Code Present Sensor'', [UsageTypeSF]),
     (0x32, ''Class 1A Laser'', [UsageTypeSF]),
     (0x33, ''Class 2 Laser'', [UsageTypeSF]),
     (0x34, ''Heater Present'', [UsageTypeSF]),
     (0x35, ''Contact Scanner'', [UsageTypeSF]),
     (0x36, ''Electronic Article Surveillance Notification'', [UsageTypeSF]),
     (0x37, ''Constant Electronic Article Surveillance'', [UsageTypeSF]),
     (0x38, ''Error Indication'', [UsageTypeSF]),
     (0x39, ''Fixed Beeper'', [UsageTypeSF]),
     (0x3a, ''Good Decode Indication'', [UsageTypeSF]),
     (0x3b, ''Hands Free Scanning'', [UsageTypeSF]),
     (0x3c, ''Intrinsically Safe'', [UsageTypeSF]),
     (0x3d, ''Klasse Eins Laser'', [UsageTypeSF]),
     (0x3e, ''Long Range Scanner'', [UsageTypeSF]),
     (0x3f, ''Mirror Speed Control'', [UsageTypeSF]),
     (0x40, ''Not On File Indication'', [UsageTypeSF]),
     (0x41, ''Programmable Beeper'', [UsageTypeSF]),
     (0x42, ''Triggerless'', [UsageTypeSF]),
     (0x43, ''Wand'', [UsageTypeSF]),
     (0x44, ''Water Resistant'', [UsageTypeSF]),
     (0x45, ''Multi-Range Scanner'', [UsageTypeSF]),
     (0x46, ''Proximity Sensor'', [UsageTypeSF]),
     (0x4d, ''Fragment Decoding'', [UsageTypeDF]),
     (0x4e, ''Scanner Read Confidence'', [UsageTypeDV]),
     (0x4f, ''Data Prefix'', [UsageTypeNAry]),
     (0x50, ''Prefix AIMI'', [UsageTypeSel]),
     (0x51, ''Prefix None'', [UsageTypeSel]),
     (0x52, ''Prefix Proprietary'', [UsageTypeSel]),
     (0x55, ''Active Time'', [UsageTypeDV]),
     (0x56, ''Aiming Laser Pattern'', [UsageTypeDF]),
     (0x57, ''Bar Code Present'', [UsageTypeOOC]),
     (0x58, ''Beeper State'', [UsageTypeOOC]),
     (0x59, ''Laser On Time'', [UsageTypeDV]),
     (0x5a, ''Laser State'', [UsageTypeOOC]),
     (0x5b, ''Lockout Time'', [UsageTypeDV]),
     (0x5c, ''Motor State'', [UsageTypeOOC]),
     (0x5d, ''Motor Timeout'', [UsageTypeDV]),
     (0x5e, ''Power On Reset Scanner'', [UsageTypeDF]),
     (0x5f, ''Prevent Read of Barcodes'', [UsageTypeDF]),
     (0x60, ''Initiate Barcode Read'', [UsageTypeDF]),
     (0x61, ''Trigger State'', [UsageTypeOOC]),
     (0x62, ''Trigger Mode'', [UsageTypeNAry]),
     (0x63, ''Trigger Mode Blinking Laser On'', [UsageTypeSel]),
     (0x64, ''Trigger Mode Continuous Laser On'', [UsageTypeSel]),
     (0x65, ''Trigger Mode Laser on while Pulled'', [UsageTypeSel]),
     (0x66, ''Trigger Mode Laser stays on after release'', [UsageTypeSel]),
     (0x6d, ''Commit Parameters to NVM'', [UsageTypeDF]),
     (0x6e, ''Parameter Scanning'', [UsageTypeDF]),
     (0x6f, ''Parameters Changed'', [UsageTypeOOC]),
     (0x70, ''Set parameter default values'', [UsageTypeDF]),
     (0x75, ''Scanner In Cradle'', [UsageTypeOOC]),
     (0x76, ''Scanner In Range'', [UsageTypeOOC]),
     (0x7a, ''Aim Duration'', [UsageTypeDV]),
     (0x7b, ''Good Read Lamp Duration'', [UsageTypeDV]),
     (0x7c, ''Good Read Lamp Intensity'', [UsageTypeDV]),
     (0x7d, ''Good Read LED'', [UsageTypeDF]),
     (0x7e, ''Good Read Tone Frequency'', [UsageTypeDV]),
     (0x7f, ''Good Read Tone Length'', [UsageTypeDV]),
     (0x80, ''Good Read Tone Volume'', [UsageTypeDV]),
     (0x82, ''No Read Message'', [UsageTypeDF]),
     (0x83, ''Not on File Volume'', [UsageTypeDV]),
     (0x84, ''Powerup Beep'', [UsageTypeDF]),
     (0x85, ''Sound Error Beep'', [UsageTypeDF]),
     (0x86, ''Sound Good Read Beep'', [UsageTypeDF]),
     (0x87, ''Sound Not On File Beep'', [UsageTypeDF]),
     (0x88, ''Good Read When to Write'', [UsageTypeNAry]),
     (0x89, ''GRWTI After Decode'', [UsageTypeSel]),
     (0x8a, ''GRWTI Beep/Lamp after transmit'', [UsageTypeSel]),
     (0x8b, ''GRWTI No Beep/Lamp use at all'', [UsageTypeSel]),
     (0x91, ''Bookland EAN'', [UsageTypeDF]),
     (0x92, ''Convert EAN 8 to 13 Type'', [UsageTypeDF]),
     (0x93, ''Convert UPC A to EAN-13'', [UsageTypeDF]),
     (0x94, ''Convert UPC-E to A'', [UsageTypeDF]),
     (0x95, ''EAN-13'', [UsageTypeDF]),
     (0x96, ''EAN-8'', [UsageTypeDF]),
     (0x97, ''EAN-99 128 Mandatory'', [UsageTypeDF]),
     (0x98, ''EAN-99 P5/128 Optional'', [UsageTypeDF]),
     (0x99, ''Enable EAN Two Label'', [UsageTypeDF]),
     (0x9a, ''UPC/EAN'', [UsageTypeDF]),
     (0x9b, ''UPC/EAN Coupon Code'', [UsageTypeDF]),
     (0x9c, ''UPC/EAN Periodicals'', [UsageTypeDV]),
     (0x9d, ''UPC-A'', [UsageTypeDF]),
     (0x9e, ''UPC-A with 128 Mandatory'', [UsageTypeDF]),
     (0x9f, ''UPC-A with 128 Optional'', [UsageTypeDF]),
     (0xa0, ''UPC-A with P5 Optional'', [UsageTypeDF]),
     (0xa1, ''UPC-E'', [UsageTypeDF]),
     (0xa2, ''UPC-E1'', [UsageTypeDF]),
     (0xa9, ''Periodical'', [UsageTypeNAry]),
     (0xaa, ''Periodical Auto-Discriminate +2'', [UsageTypeSel]),
     (0xab, ''Periodical Only Decode with +2'', [UsageTypeSel]),
     (0xac, ''Periodical Ignore +2'', [UsageTypeSel]),
     (0xad, ''Periodical Auto-Discriminate +5'', [UsageTypeSel]),
     (0xae, ''Periodical Only Decode with +5'', [UsageTypeSel]),
     (0xaf, ''Periodical Ignore +5'', [UsageTypeSel]),
     (0xb0, ''Check'', [UsageTypeNAry]),
     (0xb1, ''Check Disable Price'', [UsageTypeSel]),
     (0xb2, ''Check Enable 4 digit Price'', [UsageTypeSel]),
     (0xb3, ''Check Enable 5 digit Price'', [UsageTypeSel]),
     (0xb4, ''Check Enable European 4 digit Price'', [UsageTypeSel]),
     (0xb5, ''Check Enable European 5 digit Price'', [UsageTypeSel]),
     (0xb7, ''EAN Two Label'', [UsageTypeDF]),
     (0xb8, ''EAN Three Label'', [UsageTypeDF]),
     (0xb9, ''EAN 8 Flag Digit 1'', [UsageTypeDV]),
     (0xba, ''EAN 8 Flag Digit 2'', [UsageTypeDV]),
     (0xbb, ''EAN 8 Flag Digit 3'', [UsageTypeDV]),
     (0xbc, ''EAN 13 Flag Digit 1'', [UsageTypeDV]),
     (0xbd, ''EAN 13 Flag Digit 2'', [UsageTypeDV]),
     (0xbe, ''EAN 13 Flag Digit 3'', [UsageTypeDV]),
     (0xbf, ''Add EAN 2/3 Label Definition'', [UsageTypeDF]),
     (0xc0, ''Clear all EAN 2/3 Label Definitions'', [UsageTypeDF]),
     (0xc3, ''Codabar'', [UsageTypeDF]),
     (0xc4, ''Code 128'', [UsageTypeDF]),
     (0xc7, ''Code 39'', [UsageTypeDF]),
     (0xc8, ''Code 93'', [UsageTypeDF]),
     (0xc9, ''Full ASCII Conversion'', [UsageTypeDF]),
     (0xca, ''Interleaved 2 of 5'', [UsageTypeDF]),
     (0xcb, ''Italian Pharmacy Code'', [UsageTypeDF])]"

definition usages_bar_2 :: "usage_row list" where
  "usages_bar_2 =
    [(0xcc, ''MSI/Plessey'', [UsageTypeDF]),
     (0xcd, ''Standard 2 of 5 IATA'', [UsageTypeDF]),
     (0xce, ''Standard 2 of 5'', [UsageTypeDF]),
     (0xd3, ''Transmit Start/Stop'', [UsageTypeDF]),
     (0xd4, ''Tri-Optic'', [UsageTypeDF]),
     (0xd5, ''UCC/EAN-128'', [UsageTypeDF]),
     (0xd6, ''Check Digit'', [UsageTypeNAry]),
     (0xd7, ''Check Digit Disable'', [UsageTypeSel]),
     (0xd8, ''Check Digit Enable Interleaved 2 of 5 OPCC'', [UsageTypeSel]),
     (0xd9, ''Check Digit Enable Interleaved 2 of 5 USS'', [UsageTypeSel]),
     (0xda, ''Check Digit Enable Standard 2 of 5 OPCC'', [UsageTypeSel]),
     (0xdb, ''Check Digit Enable Standard 2 of 5 USS'', [UsageTypeSel]),
     (0xdc, ''Check Digit Enable One MSI Plessey'', [UsageTypeSel]),
     (0xdd, ''Check Digit Enable Two MSI Plessey'', [UsageTypeSel]),
     (0xde, ''Check Digit Codabar Enable'', [UsageTypeSel]),
     (0xdf, ''Check Digit Code 39 Enable'', [UsageTypeSel]),
     (0xf0, ''Transmit Check Digit'', [UsageTypeNAry]),
     (0xf1, ''Disable Check Digit Transmit'', [UsageTypeSel]),
     (0xf2, ''Enable Check Digit Transmit'', [UsageTypeSel]),
     (0xfb, ''Symbology Identifier 1'', [UsageTypeDV]),
     (0xfc, ''Symbology Identifier 2'', [UsageTypeDV]),
     (0xfd, ''Symbology Identifier 3'', [UsageTypeDV]),
     (0xfe, ''Decoded Data'', [UsageTypeDV]),
     (0xff, ''Decode Data Continued'', [UsageTypeDF]),
     (0x100, ''Bar Space Data'', [UsageTypeDV]),
     (0x101, ''Scanner Data Accuracy'', [UsageTypeDV]),
     (0x102, ''Raw Data Polarity'', [UsageTypeNAry]),
     (0x103, ''Polarity Inverted Bar Code'', [UsageTypeSel]),
     (0x104, ''Polarity Normal Bar Code'', [UsageTypeSel]),
     (0x106, ''Minimum Length to Decode'', [UsageTypeDV]),
     (0x107, ''Maximum Length to Decode'', [UsageTypeDV]),
     (0x108, ''Discrete Length to Decode 1'', [UsageTypeDV]),
     (0x109, ''Discrete Length to Decode 2'', [UsageTypeDV]),
     (0x10a, ''Data Length Method'', [UsageTypeNAry]),
     (0x10b, ''DL Method Read any'', [UsageTypeSel]),
     (0x10c, ''DL Method Check in Range'', [UsageTypeSel]),
     (0x10d, ''DL Method Check for Discrete'', [UsageTypeSel]),
     (0x110, ''Aztec Code'', [UsageTypeDF]),
     (0x111, ''BC412'', [UsageTypeDF]),
     (0x112, ''Channel Code'', [UsageTypeDF]),
     (0x113, ''Code 16'', [UsageTypeDF]),
     (0x114, ''Code 32'', [UsageTypeDF]),
     (0x115, ''Code 49'', [UsageTypeDF]),
     (0x116, ''Code One'', [UsageTypeDF]),
     (0x117, ''Colorcode'', [UsageTypeDF]),
     (0x118, ''Data Matrix'', [UsageTypeDF]),
     (0x119, ''MaxiCode'', [UsageTypeDF]),
     (0x11a, ''MicroPDF'', [UsageTypeDF]),
     (0x11b, ''PDF-417'', [UsageTypeDF]),
     (0x11c, ''PosiCode'', [UsageTypeDF]),
     (0x11d, ''QR Code'', [UsageTypeDF]),
     (0x11e, ''SuperCode'', [UsageTypeDF]),
     (0x11f, ''UltraCode'', [UsageTypeDF]),
     (0x120, ''USD-5 (Slug Code)'', [UsageTypeDF]),
     (0x121, ''VeriCode'', [UsageTypeDF])]"

definition usages_sca :: "usage_row list" where
  "usages_sca =
    [(0x00, ''Undefined'', []),
     (0x01, ''Scales'', [UsageTypeCA]),
     (0x20, ''Scale Device'', [UsageTypeCL]),
     (0x21, ''Scale Class'', [UsageTypeNAry]),
     (0x22, ''Scale Class I Metric'', [UsageTypeSel]),
     (0x23, ''Scale Class II Metric'', [UsageTypeSel]),
     (0x24, ''Scale Class III Metric'', [UsageTypeSel]),
     (0x25, ''Scale Class IIIL Metric'', [UsageTypeSel]),
     (0x26, ''Scale Class IV Metric'', [UsageTypeSel]),
     (0x27, ''Scale Class III English'', [UsageTypeSel]),
     (0x28, ''Scale Class IIIL English'', [UsageTypeSel]),
     (0x29, ''Scale Class IV English'', [UsageTypeSel]),
     (0x2a, ''Scale Class Generic'', [UsageTypeSel]),
     (0x30, ''Scale Attribute Report'', [UsageTypeCL]),
     (0x31, ''Scale Control Report'', [UsageTypeCL]),
     (0x32, ''Scale Data Report'', [UsageTypeCL]),
     (0x33, ''Scale Status Report'', [UsageTypeCL]),
     (0x34, ''Scale Weight Limit Report'', [UsageTypeCL]),
     (0x35, ''Scale Statistics Report'', [UsageTypeCL]),
     (0x40, ''Data Weight'', [UsageTypeDV]),
     (0x41, ''Data Scaling'', [UsageTypeDV]),
     (0x50, ''Weight Unit'', [UsageTypeCL]),
     (0x51, ''Weight Unit Milligram'', [UsageTypeSel]),
     (0x52, ''Weight Unit Gram'', [UsageTypeSel]),
     (0x53, ''Weight Unit Kilogram'', [UsageTypeSel]),
     (0x54, ''Weight Unit Carats'', [UsageTypeSel]),
     (0x55, ''Weight Unit Taels'', [UsageTypeSel]),
     (0x56, ''Weight Unit Grains'', [UsageTypeSel]),
     (0x57, ''Weight Unit Pennyweights'', [UsageTypeSel]),
     (0x58, ''Weight Unit Metric Ton'', [UsageTypeSel]),
     (0x59, ''Weight Unit Avoir Ton'', [UsageTypeSel]),
     (0x5a, ''Weight Unit Troy Ounce'', [UsageTypeSel]),
     (0x5b, ''Weight Unit Ounce'', [UsageTypeSel]),
     (0x5c, ''Weight Unit Pound'', [UsageTypeSel]),
     (0x60, ''Calibration Count'', [UsageTypeDV]),
     (0x61, ''Re-Zero Count'', [UsageTypeDV]),
     (0x70, ''Scale Status'', [UsageTypeNAry]),
     (0x71, ''Scale Status Fault'', [UsageTypeSel]),
     (0x72, ''Scale Status Stable at Center of Zero'', [UsageTypeSel]),
     (0x73, ''Scale Status In Motion'', [UsageTypeSel]),
     (0x74, ''Scale Status Weight Stable'', [UsageTypeSel]),
     (0x75, ''Scale Status Under Zero'', [UsageTypeSel]),
     (0x76, ''Scale Status Over Weight Limit'', [UsageTypeSel]),
     (0x77, ''Scale Status Requires Calibration'', [UsageTypeSel]),
     (0x78, ''Scale Status Requires Rezeroing'', [UsageTypeSel]),
     (0x80, ''Zero Scale'', [UsageTypeOOC]),
     (0x81, ''Enforced Zero Return'', [UsageTypeOOC])]"

definition usages_mag :: "usage_row list" where
  "usages_mag =
    [(0x00, ''Undefined'', []),
     (0x01, ''MSR Device Read-Only'', [UsageTypeCA]),
     (0x11, ''Track 1 Length'', [UsageTypeDV]),
     (0x12, ''Track 2 Length'', [UsageTypeDV]),
     (0x13, ''Track 3 Length'', [UsageTypeDV]),
     (0x14, ''Track JIS Length'', [UsageTypeDV]),
     (0x20, ''Track Data'', [UsageTypeSF, UsageTypeDF, UsageTypeDV]),
     (0x21, ''Track 1 Data'', [UsageTypeSF, UsageTypeDF, UsageTypeDV]),
     (0x22, ''Track 2 Data'', [UsageTypeSF, UsageTypeDF, UsageTypeDV]),
     (0x23, ''Track 3 Data'', [UsageTypeSF, UsageTypeDF, UsageTypeDV]),
     (0x24, ''Track JIS Data'', [UsageTypeSF, UsageTypeDF, UsageTypeDV])]"

definition usages_cam :: "usage_row list" where
  "usages_cam =
    [(0x00, ''Undefined'', []),
     (0x20, ''Camera Auto-focus'', [UsageTypeOSC]),
     (0x21, ''Camera Shutter'', [UsageTypeOSC])]"

definition usages_arc :: "usage_row list" where
  "usages_arc =
    [(0x00, ''Undefined'', []),
     (0x01, ''General Purpose IO Card'', [UsageTypeCA]),
     (0x02, ''Coin Door'', [UsageTypeCA]),
     (0x03, ''Watchdog Timer'', [UsageTypeCA]),
     (0x30, ''General Purpose Analog Input State'', [UsageTypeDV]),
     (0x31, ''General Purpose Digital Input State'', [UsageTypeDV]),
     (0x32, ''General Purpose Optical Input State'', [UsageTypeDV]),
     (0x33, ''General Purpose Digital Output State'', [UsageTypeDV]),
     (0x34, ''Number of Coin Doors'', [UsageTypeDV]),
     (0x35, ''Coin Drawer Drop Count'', [UsageTypeDV]),
     (0x36, ''Coin Drawer Start'', [UsageTypeOOC]),
     (0x37, ''Coin Drawer Service'', [UsageTypeOOC]),
     (0x38, ''Coin Drawer Tilt'', [UsageTypeOOC]),
     (0x39, ''Coin Door Test'', [UsageTypeOOC]),
     (0x40, ''Coin Door Lockout'', [UsageTypeOOC]),
     (0x41, ''Watchdog Timeout'', [UsageTypeDV]),
     (0x42, ''Watchdog Action'', [UsageTypeNAry]),
     (0x43, ''Watchdog Reboot'', [UsageTypeSel]),
     (0x44, ''Watchdog Restart'', [UsageTypeSel]),
     (0x45, ''Alarm Input'', [UsageTypeDV]),
     (0x46, ''Coin Door Counter'', [UsageTypeOOC]),
     (0x47, ''I/O Direction Mapping'', [UsageTypeDV]),
     (0x48, ''Set I/O Direction Mapping'', [UsageTypeDV]),
     (0x49, ''Extended Optical Input State'', [UsageTypeDV]),
     (0x4a, ''Pin Pad Input State'', [UsageTypeDV]),
     (0x4b, ''Pin Pad Status'', [UsageTypeDV]),
     (0x4c, ''Pin Pad Output'', [UsageTypeOOC]),
     (0x4d, ''Pin Pad Command'', [UsageTypeDV])]"

definition usages_fid :: "usage_row list" where
  "usages_fid =
    [(0x00, ''Undefined'', []),
     (0x01, ''U2F Authenticator Device'', [UsageTypeCA]),
     (0x20, ''Input Report Data'', [UsageTypeDV]),
     (0x21, ''Output Report Data'', [UsageTypeDV])]"

definition page_tables :: "page_row list" where
  "page_tables =
    [(0x01, ''dsk'', ''Generic Desktop Page'', Some (Rows usages_dsk)),
     (0x02, ''sim'', ''Simulation Controls Page'', Some (Rows usages_sim)),
     (0x03, ''vr'', ''VR Controls Page'', Some (Rows usages_vr)),
     (0x04, ''sc'', ''Sport Controls Page'', Some (Rows usages_sc)),
     (0x05, ''gc'', ''Game Controls Page'', Some (Rows usages_gc)),
     (0x06, ''gdc'', ''Generic Device Controls Page'', Some (Rows usages_gdc)),
     (0x07, ''kb'', ''Keyboard/Keypad Page'', Some (Rows (usages_kb_1 @ usages_kb_2))),
     (0x08, ''led'', ''LED Page'', Some (Rows usages_led)),
     (0x09, ''btn'', ''Button Page'', Some (Ordinals ''Button'')),
     (0x0a, ''ord'', ''Ordinal Page'', Some (Ordinals ''Instance'')),
     (0x0b, ''td'', ''Telephony Device Page'', Some (Rows usages_td)),
     (0x0c, ''con'', ''Consumer Page'', Some (Rows (usages_con_1 @ usages_con_2 @ usages_con_3 @ usages_con_4))),
     (0x0d, ''dig'', ''Digitizers Page'', Some (Rows usages_dig)),
     (0x0e, ''hap'', ''Haptics Page'', Some (Rows usages_hap)),
     (0x0f, ''pid'', ''Physical Input Device Page'', Some (Rows usages_pid)),
     (0x10, ''uni'', ''Unicode Page'', None),
     (0x11, ''soc'', ''SoC Page'', Some (Rows usages_soc)),
     (0x12, ''eht'', ''Eye and Head Trackers Page'', Some (Rows usages_eht)),
     (0x14, ''ad'', ''Auxiliary Display Page'', Some (Rows usages_ad)),
     (0x20, ''sen'', ''Sensors Page'', Some (Rows (usages_sen_1 @ usages_sen_2 @ usages_sen_3 @ usages_sen_4 @ usages_sen_5))),
     (0x40, ''med'', ''Medical Instrument Page'', Some (Rows usages_med)),
     (0x41, ''bd'', ''Braille Display Page'', Some (Rows usages_bd)),
     (0x59, ''lig'', ''Lighting and Illumination Page'', Some (Rows usages_lig)),
     (0x80, ''mon'', ''Monitor Page'', Some (Rows usages_mon)),
     (0x81, ''me'', ''Monitor Enumerated Page'', Some (Rows usages_me)),
     (0x82, ''vvc'', ''VESA Virtual Controls Page'', Some (Rows usages_vvc)),
     (0x84, ''pow'', ''Power Page'', Some (Rows usages_pow)),
     (0x85, ''bat'', ''Battery System Page'', Some (Rows usages_bat)),
     (0x8c, ''bar'', ''Barcode Scanner Page'', Some (Rows (usages_bar_1 @ usages_bar_2))),
     (0x8d, ''sca'', ''Scales Page'', Some (Rows usages_sca)),
     (0x8e, ''mag'', ''Magnetic Stripe Reader'', Some (Rows usages_mag)),
     (0x90, ''cam'', ''Camera Control Page'', Some (Rows usages_cam)),
     (0x91, ''arc'', ''Arcade Page'', Some (Rows usages_arc)),
     (0x92, ''gd'', ''Gaming Device Page'', None),
     (0xf1d0, ''fid'', ''FIDO Alliance Page'', Some (Rows usages_fid))]"

subsection \<open>The maps of the program\<close>

definition usage_collection :: "(string \<Rightarrow> string) \<Rightarrow> usage_table \<Rightarrow> UsageCollection" where
  "usage_collection camel t =
     (case t of
        Rows rows \<Rightarrow> fold (\<lambda>(i, name, tys) u. table_usage camel u i name tys) rows newUsageTable
      | Ordinals prefix \<Rightarrow> OrdinalUsages prefix [])"

definition page_info :: "(string \<Rightarrow> string) \<Rightarrow> page_row \<Rightarrow> PageInfo" where
  "page_info camel row =
     (case row of (code, a, name, t) \<Rightarrow>
        \<lparr>pg_Code = code, pg_Name = name, pg_Alias = a, pg_Usages = map_option (usage_collection camel) t\<rparr>)"

definition known_pages :: "(string \<Rightarrow> string) \<Rightarrow> u16 \<rightharpoonup> PageInfo" where
  "known_pages camel = map_of (map (\<lambda>row. (fst row, page_info camel row)) page_tables)"

definition pageAliasMap :: "string \<rightharpoonup> u16" where
  "pageAliasMap = map_of (map (\<lambda>row. (fst (snd row), fst row)) page_tables)"

end
