(* ===== verification/UsagePageFacts.thy ===== *)
theory UsagePageFacts
  imports UsagePages HidUsageFacts
begin

section \<open>Names of the usages of the tables\<close>

text \<open>
  What looking a usage up by its number and by its alias gives in a table that was built row by row,
  and that the names the program writes for the usages of its tables are read back. \<open>camel\<close> is
  \<open>strcase.ToCamel\<close>, of which only what the statements say is used.
\<close>

definition row_info :: "(string \<Rightarrow> string) \<Rightarrow> usage_row \<Rightarrow> UsageInfo" where
  "row_info camel r = \<lparr>ui_ID = fst r, ui_Name = fst (snd r), ui_Alias = camel (fst (snd r)), ui_Types = snd (snd r)\<rparr>"

lemma fold_table_usage:
  "fold (\<lambda>(i, name, tys) u. table_usage camel u i name tys) rows (UsageTable f g) =
     UsageTable (f ++ map_of (rev (map (\<lambda>r. (fst r, row_info camel r)) rows)))
       (g ++ map_of (rev (map (\<lambda>r. (camel (fst (snd r)), row_info camel r)) rows)))"
  by (induction rows arbitrary: f g) (auto simp: table_usage_def row_info_def Let_def map_add_upd_left fun_eq_iff map_add_def split: option.splits)

lemma usage_collection_Rows:
  "usage_collection camel (Rows rows) =
     UsageTable (map_of (rev (map (\<lambda>r. (fst r, row_info camel r)) rows)))
       (map_of (rev (map (\<lambda>r. (camel (fst (snd r)), row_info camel r)) rows)))"
  by (simp add: usage_collection_def newUsageTable_def fold_table_usage)

text \<open>The last row with a number names it, and with distinct aliases that name leads back to it.\<close>

lemma table_lookup:
  assumes "r \<in> set rows" "distinct (map (\<lambda>r. camel (fst (snd r))) rows)"
  obtains r' where "r' \<in> set rows" "fst r' = fst r" "usages_Get (usage_collection camel (Rows rows)) (fst r) = Some (row_info camel r')"
    "usages_ByAlias (usage_collection camel (Rows rows)) (camel (fst (snd r'))) = Some (row_info camel r')"
proof -
  let ?m = "map_of (rev (map (\<lambda>r. (fst r, row_info camel r)) rows))"
  have "fst r \<in> dom ?m" using assms(1) by (simp add: domIff map_of_eq_None_iff image_image)
  then obtain info where "?m (fst r) = Some info" by blast
  then obtain r' where r': "r' \<in> set rows" "fst r' = fst r" "?m (fst r) = Some (row_info camel r')"
    by (auto dest!: map_of_SomeD)
  have "map_of (rev (map (\<lambda>r. (camel (fst (snd r)), row_info camel r)) rows)) (camel (fst (snd r'))) = Some (row_info camel r')"
    using assms(2) r'(1) by (intro map_of_is_SomeI) (auto simp: rev_map comp_def simp flip: rev_map)
  then show ?thesis using that [of r'] r' by (simp add: usage_collection_Rows usages_Get_def usages_ByAlias_def)
qed

subsection \<open>The pages\<close>

lemma page_tables_distinct: "distinct (map fst page_tables)" "distinct (map (\<lambda>row. fst (snd row)) page_tables)"
  by (simp_all add: page_tables_def)

lemma page_aliases: "row \<in> set page_tables \<Longrightarrow> CHR ''.'' \<notin> set (fst (snd row)) \<and> \<not> has_prefix ''0x'' (fst (snd row))"
  by (auto simp: page_tables_def has_prefix_def)

lemma known_pages_row: "row \<in> set page_tables \<Longrightarrow> known_pages camel (fst row) = Some (page_info camel row)"
  using page_tables_distinct by (force simp: known_pages_def comp_def intro!: map_of_is_SomeI)

lemma pageAliasMap_row: "row \<in> set page_tables \<Longrightarrow> pageAliasMap (fst (snd row)) = Some (fst row)"
  using page_tables_distinct by (force simp: pageAliasMap_def comp_def intro!: map_of_is_SomeI)

lemma ParsePage_alias:
  assumes "row \<in> set page_tables"
  shows "ParsePage (known_pages camel) pageAliasMap (fst (snd row)) = Ret (page_info camel row)"
  using page_aliases [OF assms] pageAliasMap_row [OF assms] known_pages_row [OF assms]
  by (simp add: ParsePage_def GetPageInfoByAlias_def)

lemma parse_usage_two:
  "CHR ''.'' \<notin> set p \<Longrightarrow> CHR ''.'' \<notin> set u \<Longrightarrow> split_at CHR ''.'' (p @ CHR ''.'' # u) = [p, u]"
  by (induction p) (auto simp: split_at_absent)

lemma parse_row:
  assumes row: "(code, a, pname, Some t) \<in> set page_tables" "code \<noteq> KeyboardKeypad" "CHR ''.'' \<notin> set u"
  shows "ParseUsage (known_pages camel) pageAliasMap (a @ ''.'' @ u) =
    (case usages_ByAlias (usage_collection camel t) u of None \<Rightarrow> Fail ''unknown usage'' | Some info \<Rightarrow> Ret (NewUsage code (ui_ID info)))"
  using page_aliases [OF row(1)] ParsePage_alias [OF row(1), of camel] row(2,3)
  by (auto simp: ParseUsage_def parse_usage_def parse_usage_two page_info_def split: option.splits)

lemma known_usage_roundtrip:
  assumes row: "(code, a, pname, Some (Rows rows)) \<in> set page_tables" "code \<noteq> KeyboardKeypad" "r \<in> set rows"
    and camel: "distinct (map (\<lambda>r. camel (fst (snd r))) rows)" "\<And>r. r \<in> set rows \<Longrightarrow> CHR ''.'' \<notin> set (camel (fst (snd r)))"
  shows "\<exists>s. Usage_String (known_pages camel) (NewUsage code (fst r)) = Some s
    \<and> ParseUsage (known_pages camel) pageAliasMap s = Ret (NewUsage code (fst r))"
proof -
  obtain r' where r': "r' \<in> set rows" "fst r' = fst r"
    "usages_Get (usage_collection camel (Rows rows)) (fst r) = Some (row_info camel r')"
    "usages_ByAlias (usage_collection camel (Rows rows)) (camel (fst (snd r'))) = Some (row_info camel r')"
    by (rule table_lookup [OF row(3) camel(1)])
  have "Usage_String (known_pages camel) (NewUsage code (fst r)) = Some (a @ ''.'' @ camel (fst (snd r')))"
    using known_pages_row [OF row(1), of camel] row(2) r'(3)
    by (simp add: Usage_String_def format_usage_def GetPageInfoByCode_def page_info_def row_info_def)
  then show ?thesis
    using parse_row [OF row(1,2) camel(2) [OF r'(1)], of camel] r'(2,4) by (simp add: row_info_def)
qed

text \<open>Pages whose collection is nil.\<close>

lemma nil_page_panics: "code \<in> {0x10, 0x92} \<Longrightarrow> Usage_String (known_pages camel) (NewUsage code i) = None"
  by (auto simp: Usage_String_def format_usage_def GetPageInfoByCode_def known_pages_def page_tables_def page_info_def KeyboardKeypad_def)

subsection \<open>Buttons and ordinals\<close>

lemma digits_no_dot: "CHR ''.'' \<notin> set (format_decimal n)"
  using set_digits_of [of 10 n] dot_not_digit by (auto simp: format_decimal_def)

lemma ordinal_names:
  assumes row: "(code, a, pname, Some (Ordinals prefix)) \<in> set page_tables"
  shows "\<exists>s. Usage_String (known_pages camel) (NewUsage code i) = Some s
    \<and> ParseUsage (known_pages camel) pageAliasMap s = (if unat i < 2 ^ 15 then Ret (NewUsage code i) else Fail ''unknown usage'')"
proof -
  have kb: "code \<noteq> KeyboardKeypad" using row by (auto simp: page_tables_def KeyboardKeypad_def)
  have get: "usages_Get (OrdinalUsages prefix []) i = Some \<lparr>ui_ID = i, ui_Name = prefix @ '' '' @ format_decimal (unat i),
      ui_Alias = format_decimal (unat i), ui_Types = []\<rparr>" by (simp add: usages_Get_def)
  have "Usage_String (known_pages camel) (NewUsage code i) = Some (a @ ''.'' @ format_decimal (unat i))"
    using known_pages_row [OF row, of camel] kb get
    by (simp add: Usage_String_def format_usage_def GetPageInfoByCode_def page_info_def usage_collection_def)
  then show ?thesis
    using parse_row [OF row kb digits_no_dot, of camel "unat i"] ordinal_alias [OF get] by (simp add: usage_collection_def)
qed

subsection \<open>The default patterns of a bind\<close>

lemma page_pattern:
  assumes "(code, a, pname, t) \<in> set page_tables" "a \<noteq> ''*''"
  shows "new_matcher (known_pages camel) pageAliasMap (a @ ''.*'') = Ret (\<lambda>page i. code = page)"
proof -
  have "split_at CHR ''.'' (a @ CHR ''.'' # ''*'') = [a, ''*'']"
    using page_aliases [OF assms(1)] by (simp add: parse_usage_two)
  then show ?thesis
    using ParsePage_alias [OF assms(1), of camel] assms(2) by (simp add: new_matcher_def page_info_def)
qed

lemma default_patterns:
  assumes "camel ''Wheel'' = ''Wheel''" "distinct (map (\<lambda>r. camel (fst (snd r))) usages_dsk)"
  shows "\<exists>m. NewMatcher (known_pages camel) pageAliasMap [''kb.*'', ''con.*'', ''btn.*'', ''dsk.Wheel''] = Ret m
    \<and> (\<forall>page i. m page i \<longleftrightarrow> page \<in> {0x07, 0x0c, 0x09} \<or> page = 0x01 \<and> i = 0x38)"
proof -
  let ?m = "new_matcher (known_pages camel) pageAliasMap"
  have pages: "?m ''kb.*'' = Ret (\<lambda>page i. 0x07 = page)" "?m ''con.*'' = Ret (\<lambda>page i. 0x0c = page)" "?m ''btn.*'' = Ret (\<lambda>page i. 0x09 = page)"
    using page_pattern [of "0x07" "''kb''" "''Keyboard/Keypad Page''" "Some (Rows (usages_kb_1 @ usages_kb_2))" camel]
      page_pattern [of "0x0c" "''con''" "''Consumer Page''" "Some (Rows (usages_con_1 @ usages_con_2 @ usages_con_3 @ usages_con_4))" camel]
      page_pattern [of "0x09" "''btn''" "''Button Page''" "Some (Ordinals ''Button'')" camel]
    by (simp_all add: page_tables_def)
  have row: "(0x01, ''dsk'', ''Generic Desktop Page'', Some (Rows usages_dsk)) \<in> set page_tables" by (simp add: page_tables_def)
  have wheel: "(0x38, ''Wheel'', [UsageTypeDV]) \<in> set usages_dsk" by (simp add: usages_dsk_def)
  have info: "usages_ByAlias (usage_collection camel (Rows usages_dsk)) ''Wheel'' = Some (row_info camel (0x38, ''Wheel'', [UsageTypeDV]))"
    using wheel assms by (force simp: usage_collection_Rows usages_ByAlias_def rev_map comp_def simp flip: rev_map intro!: map_of_is_SomeI)
  have "?m ''dsk.Wheel'' = Ret (\<lambda>page i. 0x01 = page \<and> 0x38 = i)"
    using info ParsePage_alias [OF row, of camel]
    by (simp add: new_matcher_def parse_usage_def page_info_def KeyboardKeypad_def row_info_def)
  with pages show ?thesis by (auto simp: NewMatcher_def)
qed

end
