(* ===== verification/PageGenerator.thy ===== *)
theory PageGenerator
  imports UsagePageFacts
begin

section \<open>The generator of the usage tables (usagepages/cmd/generate-pages)\<close>

text \<open>
  How the generator reads the tables of the documents and what Go source it writes from them; the
  tables of theory UsagePages are its output. The parser of the front matter (\<open>meta\<close>), the formatter of
  Go source and \<open>strcase.ToCamel\<close> are parameters; the files are the list of their names and contents.
  Spaces and upper case are those of ASCII. \<open>None\<close> is a panic.
\<close>

subsection \<open>What the code uses of package strings\<close>

text \<open>\<open>strings.ReplaceAll\<close> of a text that is not empty.\<close>

function replace_all :: "string \<Rightarrow> string \<Rightarrow> string \<Rightarrow> string" where
  "replace_all old new [] = []"
| "replace_all old new (c # s) =
     (if has_prefix old (c # s) \<and> old \<noteq> [] then new @ replace_all old new (drop (length old) (c # s))
      else c # replace_all old new s)"
  by pat_completeness auto
termination by (relation "measure (\<lambda>(old, new, s). length s)") auto

definition strings_Trim :: "(char \<Rightarrow> bool) \<Rightarrow> string \<Rightarrow> string" where
  "strings_Trim p s = rev (dropWhile p (rev (dropWhile p s)))"

definition is_space :: "char \<Rightarrow> bool" where
  "is_space c \<longleftrightarrow> (let n = of_char c :: nat in 9 \<le> n \<and> n \<le> 13 \<or> n = 32)"

definition strings_Fields :: "string \<Rightarrow> string list" where
  "strings_Fields s = filter (\<lambda>w. w \<noteq> []) (split_at CHR '' '' (map (\<lambda>c. if is_space c then CHR '' '' else c) s))"

fun strings_Join :: "string \<Rightarrow> string list \<Rightarrow> string" where
  "strings_Join sep [] = []"
| "strings_Join sep [w] = w"
| "strings_Join sep (w # ws) = w @ sep @ strings_Join sep ws"

definition TrimPrefix :: "string \<Rightarrow> string \<Rightarrow> string" where
  "TrimPrefix p s = (if has_prefix p s then drop (length p) s else s)"

definition TrimSuffix :: "string \<Rightarrow> string \<Rightarrow> string" where
  "TrimSuffix p s = (if has_prefix (rev p) (rev s) then take (length s - length p) s else s)"

primrec strings_Index :: "string \<Rightarrow> string \<Rightarrow> nat option" where
  "strings_Index p [] = (if p = [] then Some 0 else None)"
| "strings_Index p (c # s) = (if has_prefix p (c # s) then Some 0 else map_option Suc (strings_Index p s))"

definition ToUpper :: "string \<Rightarrow> string" where
  "ToUpper = map (\<lambda>c. let n = of_char c :: nat in if 97 \<le> n \<and> n \<le> 122 then char_of (n - 32) else c)"

text \<open>\<open>big.Int.SetString\<close> with base 16.\<close>

definition SetString16 :: "string \<Rightarrow> int option" where
  "SetString16 s =
     (case s of
        [] \<Rightarrow> None
      | c # cs \<Rightarrow>
          let t = (if c = CHR ''-'' \<or> c = CHR ''+'' then cs else s)
          in if t = [] then None
             else map_option (\<lambda>n. if c = CHR ''-'' then - int n else int n) (parse_digits 16 t 0))"

subsection \<open>Reading a table\<close>

definition newline :: char where "newline = CHR 0x0A"

definition table_row :: "string \<Rightarrow> string list" where
  "table_row line = map (\<lambda>field. strings_Trim ((=) CHR '' '') (replace_all ''_PIPE_'' ''|'' field))
     (split_at CHR ''|'' (replace_all [CHR 0x5C, CHR ''|''] ''_PIPE_'' line))"

definition parseMarkdownTable :: "string \<Rightarrow> string list list" where
  "parseMarkdownTable str = map table_row (filter (has_prefix ''|'') (split_at newline str))"

record usageInfo =
  gu_usageID :: u16
  gu_usageName :: string
  gu_usageTypes :: "string list"
  gu_reserved :: bool

record pageInfo =
  gp_code :: u16
  gp_alias :: string
  gp_name :: string
  gp_ordinalPrefix :: string
  gp_usages :: "usageInfo list"

definition knownUsageTypes :: "string list" where
  "knownUsageTypes =
     [''LC'', ''OOC'', ''MC'', ''OSC'', ''RTC'',
      ''Sel'', ''SV'', ''SF'', ''DV'', ''DF'',
      ''NAry'', ''CA'', ''CL'', ''CP'', ''US'', ''UM'']"

definition usageTypeMap :: "string \<rightharpoonup> string" where
  "usageTypeMap = [''Buffered Bytes'' \<mapsto> ''CL'']"

primrec valid_types :: "string list \<Rightarrow> string list" where
  "valid_types [] = []"
| "valid_types (usageType # ts) =
     (if usageType = [] then valid_types ts
      else let usageType = (case usageTypeMap usageType of None \<Rightarrow> usageType | Some mappedType \<Rightarrow> mappedType)
           in if usageType \<notin> set knownUsageTypes then valid_types ts else usageType # valid_types ts)"

text \<open>A row of a page; the number is cut to 16 bits.\<close>

definition usage_row :: "string list \<Rightarrow> usageInfo list" where
  "usage_row row =
     (if length row \<noteq> 5 then []
      else case SetString16 (strings_Trim is_space (row ! 1)) of
             None \<Rightarrow> []
           | Some n \<Rightarrow>
               let usageName = strings_Join '' '' (strings_Fields (row ! 2));
                   usageTypes = split_at CHR ''/'' (strings_Trim is_space (row ! 3))
               in [\<lparr>gu_usageID = of_int n, gu_usageName = usageName, gu_usageTypes = valid_types usageTypes,
                    gu_reserved = (usageName = ''Reserved'')\<rparr>])"

definition keyboard_row :: "string list \<Rightarrow> usageInfo list" where
  "keyboard_row row =
     (if length row < 3 then []
      else case SetString16 (strings_Trim ((=) CHR '' '') (row ! 1)) of
             None \<Rightarrow> []
           | Some n \<Rightarrow>
               [\<lparr>gu_usageID = of_int n, gu_usageName = strings_Trim ((=) CHR '' '') (row ! 2), gu_usageTypes = [''Sel''],
                 gu_reserved = False\<rparr>])"

definition parseKeyboard :: "string \<Rightarrow> usageInfo list" where
  "parseKeyboard fb = concat (map keyboard_row (parseMarkdownTable fb))"

definition usageParsers :: "string \<rightharpoonup> (string \<Rightarrow> usageInfo list) option" where
  "usageParsers = [''0x07-keyboard-keypad.md'' \<mapsto> Some parseKeyboard, ''0x09-button.md'' \<mapsto> None, ''0x10-ordinal.md'' \<mapsto> None]"

definition page_usages :: "string \<Rightarrow> string \<Rightarrow> usageInfo list" where
  "page_usages fileName fb =
     (case usageParsers fileName of
        Some None \<Rightarrow> []
      | Some (Some parser) \<Rightarrow> parser fb
      | None \<Rightarrow> concat (map usage_row (parseMarkdownTable fb)))"

datatype yaml = YamlInt int | YamlString string | YamlOther

text \<open>Reading a field of the front matter at a type panics when it is missing or of another type.\<close>

definition parsePage :: "(string \<Rightarrow> string \<rightharpoonup> yaml) \<Rightarrow> string \<Rightarrow> string \<Rightarrow> pageInfo option" where
  "parsePage meta fileName fb =
     (let data = meta fb;
          prefix = (case data ''ordinalPrefix'' of Some (YamlString s) \<Rightarrow> s | _ \<Rightarrow> [])
      in case (data ''code'', data ''alias'', data ''name'') of
           (Some (YamlInt code), Some (YamlString alias), Some (YamlString name)) \<Rightarrow>
             Some \<lparr>gp_code = of_int code, gp_alias = alias, gp_name = name, gp_ordinalPrefix = prefix,
                   gp_usages = page_usages fileName fb\<rparr>
         | _ \<Rightarrow> None)"

subsection \<open>The names of keys\<close>

definition keyNames :: "string \<rightharpoonup> string" where
  "keyNames = map_of
     [(''ESCAPE'', ''Esc''),
      (''Return (ENTER)'', ''Enter''),
      (''DELETE (Backspace)'', ''Backspace''),
      (''-'', ''Minus''),
      (''+'', ''Plus''),
      (''='', ''Equal''),
      (''['', ''LeftBracket''),
      ('']'', ''RightBracket''),
      ([CHR 0x5C], ''Backslash''),
      (''NON-US '' @ [CHR 0x5C], ''NonUSBackslash''),
      (''NON-US #'', ''NonUSHash''),
      ('';'', ''Semicolon''),
      ([CHR 0x27], ''Quote''),
      ([CHR 0x60], ''GraveAccent''),
      ('','', ''Comma''),
      (''.'', ''Period''),
      (''/'', ''Slash''),
      (''SysReq/Attention'', ''SysReqAttention''),
      (''Clear/Again'', ''ClearAgain''),
      (''CrSel/Props'', ''CrSelProps''),
      (''Currency Sub-unit'', ''CurrencySubUnit''),
      (''|'', ''Pipe''),
      (''||'', ''DoublePipe''),
      ('':'', ''Colon''),
      (''#'', ''Hash''),
      (''. and Delete'', ''PeriodDelete''),
      (''*'', ''Asterisk''),
      (''('', ''LeftParenthesis''),
      ('')'', ''RightParenthesis''),
      (''{'', ''LeftBrace''),
      (''}'', ''RightBrace''),
      (''<'', ''LessThan''),
      (''>'', ''GreaterThan''),
      (''^'', ''Caret''),
      (''%'', ''Percent''),
      (''&'', ''Ampersand''),
      (''&&'', ''DoubleAmpersand''),
      (''!'', ''Exclamation''),
      (''+/-'', ''PlusMinus''),
      (''@'', ''At'')]"

definition validNameRegex :: "string \<Rightarrow> bool" where
  "validNameRegex s \<longleftrightarrow> s \<noteq> [] \<and>
     (\<forall>c \<in> set s. let n = of_char c :: nat
       in 97 \<le> n \<and> n \<le> 122 \<or> 65 \<le> n \<and> n \<le> 90 \<or> 48 \<le> n \<and> n \<le> 57 \<or> n = 95 \<or> n \<in> {9, 10, 12, 13, 32})"

definition formatKeyName :: "(string \<Rightarrow> string) \<Rightarrow> u16 \<Rightarrow> string \<Rightarrow> string" where
  "formatKeyName camel code name =
     (let kp = has_prefix ''Keypad'' name;
          name = (if kp then TrimPrefix ''Keypad '' name else name);
          name = (if has_prefix ''Keyboard'' name
                  then let name = TrimPrefix ''Keyboard '' name
                       in case strings_Index '' and '' name of None \<Rightarrow> name | Some i \<Rightarrow> ToUpper (take i name)
                  else name);
          name = (case keyNames name of None \<Rightarrow> name | Some newName \<Rightarrow> newName)
      in if \<not> validNameRegex name then ''Code'' @ ToUpper (digits_of 16 (unat code))
         else if kp then ''Kp'' @ camel name else camel name)"

subsection \<open>The source that is written\<close>

text \<open>The verb \<open>%q\<close>.\<close>

definition quote_char :: "char \<Rightarrow> string" where
  "quote_char c =
     (let n = of_char c :: nat
      in if c = CHR 0x22 \<or> c = CHR 0x5C then [CHR 0x5C, c]
         else if n = 7 then [CHR 0x5C, CHR ''a''] else if n = 8 then [CHR 0x5C, CHR ''b'']
         else if n = 9 then [CHR 0x5C, CHR ''t''] else if n = 10 then [CHR 0x5C, CHR ''n'']
         else if n = 11 then [CHR 0x5C, CHR ''v''] else if n = 12 then [CHR 0x5C, CHR ''f'']
         else if n = 13 then [CHR 0x5C, CHR ''r'']
         else if n < 32 \<or> n = 127 then [CHR 0x5C, CHR ''x''] @ format_hex n
         else [c])"

definition Quote :: "string \<Rightarrow> string" where
  "Quote s = [CHR 0x22] @ concat (map quote_char s) @ [CHR 0x22]"

definition tabs :: "nat \<Rightarrow> string" where
  "tabs n = replicate n (CHR 0x09)"

definition ln :: "string \<Rightarrow> string" where
  "ln s = s @ [newline]"

text \<open>The calls that fill a table: a dot after each but the last.\<close>

primrec usage_lines :: "usageInfo list \<Rightarrow> string" where
  "usage_lines [] = []"
| "usage_lines (usage # us) =
     (let types = map (\<lambda>t. ''UsageType'' @ t) (gu_usageTypes usage);
          dot = (if us = [] then '','' else ''.'');
          call = ''usage(0x'' @ format_hex (unat (gu_usageID usage)) @ '', '' @ Quote (gu_usageName usage)
      in ln (tabs 3 @ call @ (if types \<noteq> [] then '', '' @ strings_Join '', '' types else []) @ '')'' @ dot) @ usage_lines us)"

definition page_lines :: "pageInfo \<Rightarrow> string" where
  "page_lines page =
     ln (tabs 1 @ ''0x'' @ format_hex (unat (gp_code page)) @ '': {'')
     @ ln (tabs 2 @ ''Code: 0x'' @ format_hex (unat (gp_code page)) @ '','')
     @ ln (tabs 2 @ ''Alias: '' @ Quote (gp_alias page) @ '','')
     @ ln (tabs 2 @ ''Name: '' @ Quote (gp_name page) @ '','')
     @ (if gp_ordinalPrefix page \<noteq> [] then
          ln (tabs 2 @ ''Usages: newOrdinalUsageCollection('' @ Quote (gp_ordinalPrefix page) @ ''),'')
        else if gp_usages page = [] then []
        else ln (tabs 2 @ ''Usages: newUsageTable().'') @ usage_lines (gp_usages page))
     @ ln (tabs 1 @ ''},'')"

definition page_constant :: "(string \<Rightarrow> string) \<Rightarrow> pageInfo \<Rightarrow> string" where
  "page_constant camel page =
     ln (tabs 1 @ camel (TrimSuffix '' Page'' (gp_name page)) @ '' uint16 = 0x'' @ format_hex (unat (gp_code page))
       @ '' // '' @ gp_name page)"

definition pages_source :: "(string \<Rightarrow> string) \<Rightarrow> pageInfo list \<Rightarrow> string" where
  "pages_source camel pages =
     ln ''//go:build !generate'' @ ln ''// Code generated by generate-pages. DO NOT EDIT.'' @ ln (ln ''package usagepages'')
     @ ln ''const ('' @ concat (map (page_constant camel) pages) @ ln '')''
     @ newline # ln ''var pages = map[uint16]PageInfo{'' @ concat (map page_lines pages) @ ln ''}''"

text \<open>The file that is written and the exit code: source that cannot be formatted is written as it is.\<close>

definition generatePages ::
  "(string \<Rightarrow> string) \<Rightarrow> (string \<Rightarrow> string option) \<Rightarrow> (string \<Rightarrow> string \<rightharpoonup> yaml) \<Rightarrow> (string \<times> string) list \<Rightarrow> (string \<times> nat) option" where
  "generatePages camel format meta files =
     (case fold_opt (\<lambda>pages (fileName, fb). map_option (\<lambda>page. pages @ [page]) (parsePage meta fileName fb)) files [] of
        None \<Rightarrow> None
      | Some pages \<Rightarrow>
          let generated = pages_source camel pages
          in Some (case format generated of None \<Rightarrow> (generated, 1) | Some formatted \<Rightarrow> (formatted, 0)))"

definition key_constant :: "(string \<Rightarrow> string) \<Rightarrow> usageInfo \<Rightarrow> string" where
  "key_constant camel keycode =
     ln (tabs 1 @ ''Key'' @ formatKeyName camel (gu_usageID keycode) (gu_usageName keycode) @ '' uint8 = 0x''
       @ digits_of 16 (unat (gu_usageID keycode)) @ '' // '' @ gu_usageName keycode)"

definition key_name_line :: "(string \<Rightarrow> string) \<Rightarrow> usageInfo \<Rightarrow> string" where
  "key_name_line camel keycode =
     ln (tabs 1 @ ''0x'' @ digits_of 16 (unat (gu_usageID keycode)) @ '': ''
       @ Quote (formatKeyName camel (gu_usageID keycode) (gu_usageName keycode)) @ '','')"

definition generateKeycodes :: "(string \<Rightarrow> string) \<Rightarrow> (string \<Rightarrow> string option) \<Rightarrow> string \<Rightarrow> string option" where
  "generateKeycodes camel format fb =
     (let keycodes = parseKeyboard fb
      in format (ln ''//go:build !generate'' @ ln ''// Code generated by generate-keycodes. DO NOT EDIT.''
           @ ln ''package usagepages'' @ ln ''const ('' @ concat (map (key_constant camel) keycodes) @ ln '')''
           @ newline # ln ''var keyNameMap = map[uint8]string{'' @ concat (map (key_name_line camel) keycodes) @ ln ''}''))"

end
