(* ===== verification/PageGeneratorFacts.thy ===== *)
theory PageGeneratorFacts
  imports PageGenerator
begin

section \<open>The generator reads back what its tables say\<close>

text \<open>
  A table that is written as a document, a row for each usage with its bars escaped, is read back by the
  generator; every table of theory UsagePages can be written so.
\<close>

subsection \<open>Writing a table\<close>

definition escape :: "string \<Rightarrow> string" where
  "escape c = concat (map (\<lambda>x. if x = CHR ''|'' then [CHR 0x5C, x] else [x]) c)"

definition write_row :: "string list \<Rightarrow> string" where
  "write_row cs = CHR ''|'' # concat (map (\<lambda>c. CHR '' '' # escape c @ '' |'') cs)"

definition write_rows :: "string list list \<Rightarrow> string" where
  "write_rows rows = concat (map (\<lambda>r. newline # write_row r) rows)"

definition pipe_ok :: "string \<Rightarrow> bool" where
  "pipe_ok c \<longleftrightarrow> CHR ''_'' \<notin> set c \<or> CHR ''|'' \<notin> set c \<and> strings_Index ''_PIPE_'' c = None"

definition trimmed :: "string \<Rightarrow> bool" where
  "trimmed c \<longleftrightarrow> c = [] \<or> hd c \<noteq> CHR '' '' \<and> last c \<noteq> CHR '' ''"

definition cell_ok :: "string \<Rightarrow> bool" where
  "cell_ok c \<longleftrightarrow> newline \<notin> set c \<and> trimmed c \<and> pipe_ok c"

text \<open>Words with one space between them.\<close>

fun spaced :: "string \<Rightarrow> bool" where
  "spaced [] = True"
| "spaced [c] = (\<not> is_space c)"
| "spaced (c # d # s) = ((is_space c \<longrightarrow> c = CHR '' '' \<and> \<not> is_space d) \<and> spaced (d # s))"

definition single_spaced :: "string \<Rightarrow> bool" where
  "single_spaced s \<longleftrightarrow> (s = [] \<or> \<not> is_space (hd s)) \<and> spaced s"

text \<open>A usage as a row of a document, and as the generator holds it.\<close>

definition row_cells :: "usage_row \<Rightarrow> string list" where
  "row_cells r = (case r of (i, name, ts) \<Rightarrow> [format_hex (unat i), name, strings_Join ''/'' ts])"

definition row_usage :: "usage_row \<Rightarrow> usageInfo" where
  "row_usage r = (case r of (i, name, ts) \<Rightarrow>
     \<lparr>gu_usageID = i, gu_usageName = name, gu_usageTypes = ts, gu_reserved = (name = ''Reserved'')\<rparr>)"

definition row_ok :: "usage_row \<Rightarrow> bool" where
  "row_ok r = (case r of (i, name, ts) \<Rightarrow> single_spaced name \<and> pipe_ok name \<and> list_all (\<lambda>t. List.member knownUsageTypes t) ts)"

definition document :: "string \<Rightarrow> usage_row list \<Rightarrow> string" where
  "document header us = header @ write_rows ([''Usage ID'', ''Usage Name'', ''Usage Types''] # [''---'', ''---'', ''---''] # map row_cells us)"

lemma is_space_code [code]: "is_space (Char b0 b1 b2 b3 b4 b5 b6 b7) \<longleftrightarrow>
   (if b7 \<or> b6 \<or> b4 then False else if b5 then \<not> (b0 \<or> b1 \<or> b2 \<or> b3) else b3 \<and> (if b2 then \<not> b1 else b1 \<or> b0))"
  unfolding is_space_def Let_def by (auto simp: of_char_Char)

lemma is_space_simps [simp]: "is_space CHR '' ''" "is_space newline" "\<not> is_space CHR ''/''" "\<not> is_space CHR ''|''"
  by (simp_all add: is_space_code newline_def)

subsection \<open>Replacing and splitting\<close>

lemma has_prefix_Nil [simp]: "has_prefix [] s"
  by (simp add: has_prefix_def)

lemma has_prefix_Cons [simp]: "has_prefix (x # p) s \<longleftrightarrow> (case s of [] \<Rightarrow> False | y # t \<Rightarrow> x = y \<and> has_prefix p t)"
  by (auto simp: has_prefix_def split: list.splits)

lemma has_prefix_append: "has_prefix p (p @ s)"
  by (simp add: has_prefix_def)

lemma replace_skip: "\<not> has_prefix old (c # s) \<Longrightarrow> replace_all old new (c # s) = c # replace_all old new s"
  by simp

lemma replace_hit: "old \<noteq> [] \<Longrightarrow> replace_all old new (old @ s) = new @ replace_all old new s"
  using has_prefix_append [of old s] by (cases old) auto

definition pipes :: "string \<Rightarrow> string" where
  "pipes c = concat (map (\<lambda>x. if x = CHR ''|'' then ''_PIPE_'' else [x]) c)"

lemma split_at_not_Nil: "split_at c s \<noteq> []"
  by (cases s) (auto split: list.splits)

lemma escape_head: "hd (escape c @ CHR '' '' # t) \<noteq> CHR ''|''"
  by (cases c) (auto simp: escape_def)

lemma hide_cell: "replace_all [CHR 0x5C, CHR ''|''] ''_PIPE_'' (escape c @ CHR '' '' # t)
    = pipes c @ CHR '' '' # replace_all [CHR 0x5C, CHR ''|''] ''_PIPE_'' t"
proof (induction c)
  case (Cons x c)
  show ?case
  proof (cases "x = CHR ''|''")
    case True
    then show ?thesis using Cons by (simp add: escape_def pipes_def)
  next
    case False
    then have "\<not> has_prefix [CHR 0x5C, CHR ''|''] (x # escape c @ CHR '' '' # t)"
      using escape_head [of c t] by (auto split: list.splits)
    from replace_skip [OF this] show ?thesis using Cons False by (simp add: escape_def pipes_def)
  qed
qed (simp add: escape_def pipes_def)

lemma pipes_no_bar: "CHR ''|'' \<notin> set (pipes c)"
  by (auto simp: pipes_def)

lemma hide_row:
  "replace_all [CHR 0x5C, CHR ''|''] ''_PIPE_'' (concat (map (\<lambda>c. CHR '' '' # escape c @ '' |'') cs))
     = concat (map (\<lambda>c. CHR '' '' # pipes c @ '' |'') cs)"
  by (induction cs) (auto simp: hide_cell)

lemma split_row: "split_at CHR ''|'' (concat (map (\<lambda>c. CHR '' '' # pipes c @ '' |'') cs)) = map (\<lambda>c. CHR '' '' # pipes c @ '' '') cs @ [[]]"
proof (induction cs)
  case (Cons c cs)
  have "split_at CHR ''|'' ((CHR '' '' # pipes c @ '' '') @ CHR ''|'' # s) = (CHR '' '' # pipes c @ '' '') # split_at CHR ''|'' s" for s
    using pipes_no_bar [of c] by (intro split_at_append) simp
  then show ?case using Cons by simp
qed simp

text \<open>Showing what was hidden.\<close>

lemma index_None_Cons: "strings_Index p (x # s) = None \<longleftrightarrow> \<not> has_prefix p (x # s) \<and> strings_Index p s = None"
  by auto

lemma show_plain:
  assumes "strings_Index ''_PIPE_'' c = None"
  shows "replace_all ''_PIPE_'' ''|'' (c @ '' '') = c @ '' ''"
  using assms
proof (induction c)
  case (Cons x c)
  have "\<not> has_prefix ''_PIPE_'' (x # c @ '' '')"
    using Cons.prems by (auto simp: index_None_Cons simp del: strings_Index.simps split: list.splits)
  from replace_skip [OF this] show ?case using Cons by (simp add: index_None_Cons del: has_prefix_Cons replace_all.simps strings_Index.simps)
qed simp

lemma show_bars: "CHR ''_'' \<notin> set c \<Longrightarrow> replace_all ''_PIPE_'' ''|'' (pipes c @ '' '') = c @ '' ''"
  by (induction c) (auto simp: pipes_def)

lemma show_cell:
  assumes "pipe_ok c"
  shows "replace_all ''_PIPE_'' ''|'' (CHR '' '' # pipes c @ '' '') = CHR '' '' # c @ '' ''"
proof (cases "CHR ''_'' \<in> set c")
  case True
  then have "CHR ''|'' \<notin> set c" "strings_Index ''_PIPE_'' c = None" using assms by (auto simp: pipe_ok_def)
  moreover have "pipes c = c" if "CHR ''|'' \<notin> set c"
    using that unfolding pipes_def by (induction c) auto
  ultimately show ?thesis using show_plain by simp
qed (simp add: show_bars)

lemma dropWhile_hd: "c = [] \<or> \<not> p (hd c) \<Longrightarrow> dropWhile p c = c"
  by (cases c) auto

lemma Trim_ends: "c = [] \<or> \<not> p (hd c) \<and> \<not> p (last c) \<Longrightarrow> strings_Trim p c = c"
  using dropWhile_hd [of c p] dropWhile_hd [of "rev c" p] by (auto simp: strings_Trim_def hd_rev)

lemma trim_cell: "trimmed c \<Longrightarrow> strings_Trim ((=) CHR '' '') (CHR '' '' # c @ '' '') = c"
  using dropWhile_hd [of "c @ '' ''" "(=) CHR '' ''"] dropWhile_hd [of "rev c" "(=) CHR '' ''"]
  by (cases "c = []") (auto simp: trimmed_def strings_Trim_def hd_rev)

lemma table_row_write:
  assumes "\<forall>c \<in> set cs. cell_ok c"
  shows "table_row (write_row cs) = [] # cs @ [[]]"
proof -
  have "table_row (write_row cs) = map (\<lambda>field. strings_Trim ((=) CHR '' '') (replace_all ''_PIPE_'' ''|'' field))
      ([] # map (\<lambda>c. CHR '' '' # pipes c @ '' '') cs @ [[]])"
    by (simp add: table_row_def write_row_def hide_row split_row)
  also have "\<dots> = [] # map (\<lambda>c. strings_Trim ((=) CHR '' '') (replace_all ''_PIPE_'' ''|'' (CHR '' '' # pipes c @ '' ''))) cs @ [[]]"
    by (simp add: strings_Trim_def comp_def)
  also have "map (\<lambda>c. strings_Trim ((=) CHR '' '') (replace_all ''_PIPE_'' ''|'' (CHR '' '' # pipes c @ '' ''))) cs = cs"
    using assms by (intro map_idI) (simp add: cell_ok_def show_cell trim_cell del: replace_all.simps)
  finally show ?thesis .
qed

lemma newline_escape: "newline \<notin> set c \<Longrightarrow> newline \<notin> set (escape c)"
  by (auto simp: escape_def newline_def)

lemma newline_chars [simp]: "newline \<noteq> CHR ''|''" "newline \<noteq> CHR '' ''"
  by (simp_all add: newline_def)

lemma newline_row: "\<forall>c \<in> set cs. cell_ok c \<Longrightarrow> newline \<notin> set (write_row cs)"
  by (auto simp: write_row_def cell_ok_def dest: newline_escape)

lemma split_rows:
  assumes "\<forall>r \<in> set rows. \<forall>c \<in> set r. cell_ok c"
  shows "filter (has_prefix ''|'') (split_at newline (s @ write_rows rows))
    = filter (has_prefix ''|'') (split_at newline s) @ map write_row rows"
  using assms
proof (induction rows arbitrary: s rule: rev_induct)
  case Nil
  then show ?case by (simp add: write_rows_def)
next
  case (snoc r rows)
  have r: "newline \<notin> set (write_row r)" "has_prefix ''|'' (write_row r)"
    using newline_row [of r] snoc.prems by simp_all (simp add: write_row_def)
  have "split_at newline (t @ newline # write_row r) = split_at newline t @ [write_row r]" for t
  proof (induction t)
    case Nil
    have "split_at newline u = [u]" if "newline \<notin> set u" for u
      using that by (induction u) auto
    then show ?case using r(1) by simp
  qed (use split_at_not_Nil in \<open>auto split: list.splits\<close>)
  then have "filter (has_prefix ''|'') (split_at newline (s @ write_rows (rows @ [r])))
      = filter (has_prefix ''|'') (split_at newline (s @ write_rows rows)) @ [write_row r]"
    using r(2) by (simp add: write_rows_def flip: append_assoc)
  then show ?case using snoc by (simp del: has_prefix_Cons)
qed

lemma table_roundtrip:
  assumes "\<forall>r \<in> set rows. \<forall>c \<in> set r. cell_ok c" "\<forall>l \<in> set (split_at newline header). \<not> has_prefix ''|'' l"
  shows "parseMarkdownTable (header @ write_rows rows) = map (\<lambda>r. [] # r @ [[]]) rows"
proof -
  have "parseMarkdownTable (header @ write_rows rows) = map (\<lambda>r. table_row (write_row r)) rows"
    using split_rows [OF assms(1), of header] assms(2) by (simp add: parseMarkdownTable_def comp_def)
  also have "\<dots> = map (\<lambda>r. [] # r @ [[]]) rows" using assms(1) table_row_write by simp
  finally show ?thesis .
qed

subsection \<open>Reading a usage\<close>

definition blank :: "char \<Rightarrow> char" where
  "blank c = (if is_space c then CHR '' '' else c)"

lemma blank_eq: "\<not> is_space c \<Longrightarrow> blank c = c" "is_space c \<Longrightarrow> blank c = CHR '' ''" "blank c = CHR '' '' \<longleftrightarrow> is_space c"
  by (auto simp: blank_def)

lemma Fields_blank: "strings_Fields s = filter (\<lambda>w. w \<noteq> []) (split_at CHR '' '' (map blank s))"
  by (simp add: strings_Fields_def blank_def [abs_def])

lemma Fields_step:
  "\<not> is_space c \<Longrightarrow> \<not> is_space d \<Longrightarrow> \<exists>w ws. strings_Fields (d # s) = w # ws \<and> strings_Fields (c # d # s) = (c # w) # ws"
  "\<not> is_space c \<Longrightarrow> is_space d \<Longrightarrow> strings_Fields (c # d # s) = [c] # strings_Fields s"
  "\<not> is_space c \<Longrightarrow> strings_Fields [c] = [[c]]"
  by (auto simp: Fields_blank blank_eq split: list.splits)

lemma Join_Cons: "ws \<noteq> [] \<Longrightarrow> strings_Join sep (w # ws) = w @ sep @ strings_Join sep ws"
  by (cases ws) auto

lemma Fields_Join: "single_spaced s \<Longrightarrow> strings_Join '' '' (strings_Fields s) = s"
proof (induction "length s" arbitrary: s rule: less_induct)
  case less
  show ?case
  proof (cases s)
    case Nil
    then show ?thesis by (simp add: Fields_blank)
  next
    case (Cons c t)
    have c: "\<not> is_space c" using less.prems Cons by (simp add: single_spaced_def)
    show ?thesis
    proof (cases t)
      case Nil
      then show ?thesis using Cons c Fields_step(3) by simp
    next
      case t: (Cons d u)
      show ?thesis
      proof (cases "is_space d")
        case False
        obtain w ws where w: "strings_Fields t = w # ws" "strings_Fields s = (c # w) # ws"
          using Fields_step(1) [OF c False] Cons t by blast
        have "strings_Join '' '' (w # ws) = t"
          using less.hyps [of t] less.prems Cons t False w(1) by (simp add: single_spaced_def)
        then show ?thesis using w(2) Cons by (cases ws) auto
      next
        case True
        have u: "u \<noteq> []" "d = CHR '' ''" "\<not> is_space (hd u)" "spaced u"
          using less.prems Cons t True by (cases u; auto simp: single_spaced_def)+
        then have "strings_Fields u \<noteq> []"
          by (cases u; cases "tl u") (metis Fields_step list.collapse list.distinct(1) list.sel(1,3))+
        moreover have "strings_Join '' '' (strings_Fields u) = u"
          using less.hyps [of u] u Cons t by (simp add: single_spaced_def)
        ultimately show ?thesis using Fields_step(2) [OF c True, of u] u(2) Cons t by (simp add: Join_Cons)
      qed
    qed
  qed
qed

lemma spaced_last: "spaced s \<Longrightarrow> s \<noteq> [] \<Longrightarrow> \<not> is_space (last s)"
  by (induction s rule: spaced.induct) auto

lemma spaced_newline: "spaced s \<Longrightarrow> newline \<notin> set s"
  by (induction s rule: spaced.induct) (auto simp: newline_def is_space_code)

lemma single_spaced_cell: "single_spaced s \<Longrightarrow> pipe_ok s \<Longrightarrow> cell_ok s"
  using spaced_last [of s] spaced_newline [of s] by (auto simp: cell_ok_def trimmed_def single_spaced_def)

text \<open>The number of a usage.\<close>

lemma hex_chars: "set (format_hex n) \<subseteq> set ''0123456789abcdef''"
proof -
  let ?H = "set ''0123456789abcdef''"
  have "hex_digit m \<in> ?H" if "m < 16" for m
    unfolding hex_digit_def using that by (intro nth_mem) simp
  then have "hex_digit ` {..<16} \<subseteq> ?H" by blast
  then have "set (digits_of 16 n) \<subseteq> ?H" using set_digits_of [of 16 n] by (rule order_trans [rotated]) simp_all
  moreover have "CHR ''0'' \<in> ?H" by simp
  ultimately show ?thesis unfolding format_hex_def by (simp only: list.set insert_subset split: if_split) blast
qed

lemma number_chars:
  "list_all (\<lambda>c. \<not> is_space c) ''0123456789abcdef''" "list_all (\<lambda>c. c \<noteq> CHR ''-'') ''0123456789abcdef''"
  "list_all (\<lambda>c. c \<noteq> CHR ''+'') ''0123456789abcdef''" "list_all (\<lambda>c. c \<noteq> CHR ''_'') ''0123456789abcdef''"
  "list_all (\<lambda>c. c \<noteq> newline) ''0123456789abcdef''"
  by code_simp+

definition cell_char :: "char \<Rightarrow> bool" where
  "cell_char c \<longleftrightarrow> \<not> is_space c \<and> c \<noteq> CHR ''_'' \<and> c \<noteq> newline"

lemma hex_char:
  assumes "c \<in> set (format_hex n)"
  shows "cell_char c" "c \<noteq> CHR ''-''" "c \<noteq> CHR ''+''"
proof -
  have c: "c \<in> set ''0123456789abcdef''" using hex_chars assms by (rule subsetD)
  show "cell_char c" "c \<noteq> CHR ''-''" "c \<noteq> CHR ''+''"
    unfolding cell_char_def using number_chars [unfolded list_all_iff, THEN bspec, OF c] by simp_all
qed

lemma no_spaces: "\<forall>c \<in> set s. \<not> is_space c \<Longrightarrow> strings_Trim is_space s = s \<and> trimmed s"
  using Trim_ends [of s is_space] hd_in_set [of s] last_in_set [of s] is_space_simps(1) unfolding trimmed_def by metis

lemma number_cell: "cell_ok (format_hex n)" "SetString16 (strings_Trim is_space (format_hex n)) = Some (int n)"
proof -
  have *: "\<forall>c \<in> set (format_hex n). \<not> is_space c" using hex_char(1) by (simp add: cell_char_def)
  show "cell_ok (format_hex n)"
    using no_spaces [OF *] hex_char(1) [of "newline" n] hex_char(1) [of "CHR ''_''" n] by (auto simp: cell_ok_def pipe_ok_def cell_char_def)
  obtain c cs where c: "format_hex n = c # cs" using parse_format_hex(2) [of n] by (cases "format_hex n") auto
  have "c \<noteq> CHR ''-'' \<and> c \<noteq> CHR ''+''" using hex_char(2,3) [of c n] c by simp
  then show "SetString16 (strings_Trim is_space (format_hex n)) = Some (int n)"
    using no_spaces [OF *] parse_format_hex(1) [of n] c by (simp add: SetString16_def)
qed

text \<open>Its types.\<close>

lemma known_type:
  assumes "t \<in> set knownUsageTypes"
  shows "t \<noteq> []" "usageTypeMap t = None" "\<forall>c \<in> set t. \<not> is_space c \<and> c \<notin> {CHR ''/'', CHR ''_'', newline}"
proof -
  have "list_all (\<lambda>t. t \<noteq> [] \<and> usageTypeMap t = None \<and> list_all (\<lambda>c. \<not> is_space c \<and> c \<noteq> CHR ''/'' \<and> c \<noteq> CHR ''_'' \<and> c \<noteq> newline) t) knownUsageTypes"
    by code_simp
  then show "t \<noteq> []" "usageTypeMap t = None" "\<forall>c \<in> set t. \<not> is_space c \<and> c \<notin> {CHR ''/'', CHR ''_'', newline}"
    using assms by (auto simp: list_all_iff)
qed

lemma valid_known: "set ts \<subseteq> set knownUsageTypes \<Longrightarrow> valid_types ts = ts"
  by (induction ts) (auto simp: known_type)

lemma split_Join: "ts \<noteq> [] \<Longrightarrow> \<forall>t \<in> set ts. c \<notin> set t \<Longrightarrow> split_at c (strings_Join [c] ts) = ts"
proof (induction ts)
  case (Cons t ts)
  then show ?case by (cases "ts = []") (simp_all add: split_at_absent Join_Cons split_at_append)
qed simp

lemma set_Join: "c \<in> set (strings_Join sep ts) \<Longrightarrow> c \<in> set sep \<or> (\<exists>t \<in> set ts. c \<in> set t)"
  by (induction sep ts rule: strings_Join.induct) auto

lemma types_cell:
  assumes "set ts \<subseteq> set knownUsageTypes"
  shows "cell_ok (strings_Join ''/'' ts)" "valid_types (split_at CHR ''/'' (strings_Trim is_space (strings_Join ''/'' ts))) = ts"
proof -
  have *: "\<not> is_space c \<and> c \<notin> {CHR ''_'', newline}" if c: "c \<in> set (strings_Join ''/'' ts)" for c
  proof -
    consider "c = CHR ''/''" | t where "t \<in> set ts" "c \<in> set t" using set_Join [of c "''/''" ts] c by auto
    then show ?thesis
    proof cases
      case 2
      then show ?thesis using known_type(3) [of t] assms by auto
    qed (simp add: newline_def)
  qed
  then have trim: "strings_Trim is_space (strings_Join ''/'' ts) = strings_Join ''/'' ts" "trimmed (strings_Join ''/'' ts)"
    using no_spaces by blast+
  show "cell_ok (strings_Join ''/'' ts)" using * trim(2) by (auto simp: cell_ok_def pipe_ok_def)
  show "valid_types (split_at CHR ''/'' (strings_Trim is_space (strings_Join ''/'' ts))) = ts"
  proof (cases "ts = []")
    case False
    moreover have "\<forall>t \<in> set ts. CHR ''/'' \<notin> set t" using known_type(3) assms by blast
    ultimately show ?thesis using split_Join [of ts "CHR ''/''"] trim(1) valid_known [OF assms] by simp
  qed (simp add: strings_Trim_def)
qed

lemma row_read:
  assumes "row_ok r"
  shows "usage_row ([] # row_cells r @ [[]]) = [row_usage r]" "\<forall>c \<in> set (row_cells r). cell_ok c"
proof -
  obtain i name ts where r: "r = (i, name, ts)" by (cases r)
  have name: "single_spaced name" "pipe_ok name" and ts: "set ts \<subseteq> set knownUsageTypes"
    using assms r by (auto simp: row_ok_def list_all_iff)
  show "usage_row ([] # row_cells r @ [[]]) = [row_usage r]"
    using number_cell(2) [of "unat i"] Fields_Join [OF name(1)] types_cell(2) [OF ts]
    by (simp add: r usage_row_def row_cells_def row_usage_def Let_def)
  show "\<forall>c \<in> set (row_cells r). cell_ok c"
    using number_cell(1) single_spaced_cell [OF name] types_cell(1) [OF ts] by (simp add: r row_cells_def)
qed

lemma keyboard_read:
  assumes "row_ok r" "snd (snd r) = [''Sel'']"
  shows "keyboard_row ([] # row_cells r @ [[]]) = [(row_usage r)\<lparr>gu_reserved := False\<rparr>]"
proof -
  obtain i name ts where r: "r = (i, name, ts)" by (cases r)
  have name: "cell_ok name" using assms(1) r single_spaced_cell by (auto simp: row_ok_def)
  have "strings_Trim ((=) CHR '' '') (format_hex (unat i)) = strings_Trim is_space (format_hex (unat i))"
    using Trim_ends [of "format_hex (unat i)" "(=) CHR '' ''"] number_cell(1) [of "unat i"] no_spaces [of "format_hex (unat i)"] hex_char(1)
    by (auto simp: cell_ok_def trimmed_def cell_char_def)
  moreover have "strings_Trim ((=) CHR '' '') name = name" using Trim_ends [of name "(=) CHR '' ''"] name by (auto simp: cell_ok_def trimmed_def)
  ultimately show ?thesis using number_cell(2) [of "unat i"] assms(2) by (simp add: r keyboard_row_def row_cells_def row_usage_def)
qed

lemma heading_cells: "\<forall>r \<in> set [[''Usage ID'', ''Usage Name'', ''Usage Types''], [''---'', ''---'', ''---'']]. \<forall>c \<in> set r. cell_ok c"
  by code_simp

lemma heading_rows:
  "concat (map (\<lambda>r. usage_row ([] # r @ [[]])) [[''Usage ID'', ''Usage Name'', ''Usage Types''], [''---'', ''---'', ''---'']]) = []"
  "concat (map (\<lambda>r. keyboard_row ([] # r @ [[]])) [[''Usage ID'', ''Usage Name'', ''Usage Types''], [''---'', ''---'', ''---'']]) = []"
  by code_simp+

lemma document_rows:
  assumes "list_all row_ok us" "\<forall>l \<in> set (split_at newline header). \<not> has_prefix ''|'' l"
  shows "parseMarkdownTable (document header us) =
    map (\<lambda>r. [] # r @ [[]]) ([[''Usage ID'', ''Usage Name'', ''Usage Types''], [''---'', ''---'', ''---'']] @ map row_cells us)"
proof -
  let ?rows = "[[''Usage ID'', ''Usage Name'', ''Usage Types''], [''---'', ''---'', ''---'']] @ map row_cells us"
  have "\<forall>r \<in> set (map row_cells us). \<forall>c \<in> set r. cell_ok c" using assms(1) row_read(2) by (auto simp: list_all_iff)
  then have "\<forall>r \<in> set ?rows. \<forall>c \<in> set r. cell_ok c" using heading_cells by (simp only: set_append ball_Un)
  from table_roundtrip [OF this assms(2)] show ?thesis by (simp only: document_def append_Cons append_Nil)
qed

lemma document_read:
  assumes "list_all row_ok us" "\<forall>l \<in> set (split_at newline header). \<not> has_prefix ''|'' l"
  shows "usageParsers fileName = None \<Longrightarrow> page_usages fileName (document header us) = map row_usage us"
    "list_all (\<lambda>r. snd (snd r) = [''Sel'']) us \<Longrightarrow> parseKeyboard (document header us) = map (\<lambda>r. (row_usage r)\<lparr>gu_reserved := False\<rparr>) us"
proof -
  have "concat (map (usage_row \<circ> (\<lambda>r. [] # r @ [[]]) \<circ> row_cells) us) = map row_usage us"
    using assms(1) row_read(1) by (induction us) auto
  then show "usageParsers fileName = None \<Longrightarrow> page_usages fileName (document header us) = map row_usage us"
    using heading_rows(1) by (simp add: page_usages_def document_rows [OF assms] comp_def)
  assume sel: "list_all (\<lambda>r. snd (snd r) = [''Sel'']) us"
  have "concat (map (keyboard_row \<circ> (\<lambda>r. [] # r @ [[]]) \<circ> row_cells) us) = map (\<lambda>r. (row_usage r)\<lparr>gu_reserved := False\<rparr>) us"
    using assms(1) sel keyboard_read by (induction us) auto
  then show "parseKeyboard (document header us) = map (\<lambda>r. (row_usage r)\<lparr>gu_reserved := False\<rparr>) us"
    using heading_rows(2) by (simp add: parseKeyboard_def document_rows [OF assms] comp_def)
qed

end
