(* ===== verification/GeneratedTables.thy ===== *)
theory GeneratedTables
  imports PageGeneratorFacts
begin

section \<open>The tables that the generator wrote\<close>

text \<open>
  Every table of theory UsagePages is one that the generator writes for some document: its names and types
  survive being written and read again.
\<close>

subsection \<open>Each table\<close>

lemma ok_dsk: "list_all row_ok usages_dsk" by code_simp
lemma ok_sim: "list_all row_ok usages_sim" by code_simp
lemma ok_vr: "list_all row_ok usages_vr" by code_simp
lemma ok_sc: "list_all row_ok usages_sc" by code_simp
lemma ok_gc: "list_all row_ok usages_gc" by code_simp
lemma ok_gdc: "list_all row_ok usages_gdc" by code_simp
lemma ok_kb_1: "list_all row_ok usages_kb_1" by code_simp
lemma ok_kb_2: "list_all row_ok usages_kb_2" by code_simp
lemma ok_led: "list_all row_ok usages_led" by code_simp
lemma ok_td: "list_all row_ok usages_td" by code_simp
lemma ok_con_1: "list_all row_ok usages_con_1" by code_simp
lemma ok_con_2: "list_all row_ok usages_con_2" by code_simp
lemma ok_con_3: "list_all row_ok usages_con_3" by code_simp
lemma ok_con_4: "list_all row_ok usages_con_4" by code_simp
lemma ok_dig: "list_all row_ok usages_dig" by code_simp
lemma ok_hap: "list_all row_ok usages_hap" by code_simp
lemma ok_pid: "list_all row_ok usages_pid" by code_simp
lemma ok_soc: "list_all row_ok usages_soc" by code_simp
lemma ok_eht: "list_all row_ok usages_eht" by code_simp
lemma ok_ad: "list_all row_ok usages_ad" by code_simp
lemma ok_sen_1: "list_all row_ok usages_sen_1" by code_simp
lemma ok_sen_2: "list_all row_ok usages_sen_2" by code_simp
lemma ok_sen_3: "list_all row_ok usages_sen_3" by code_simp
lemma ok_sen_4: "list_all row_ok usages_sen_4" by code_simp
lemma ok_sen_5: "list_all row_ok usages_sen_5" by code_simp
lemma ok_med: "list_all row_ok usages_med" by code_simp
lemma ok_bd: "list_all row_ok usages_bd" by code_simp
lemma ok_lig: "list_all row_ok usages_lig" by code_simp
lemma ok_mon: "list_all row_ok usages_mon" by code_simp
lemma ok_me: "list_all row_ok usages_me" by code_simp
lemma ok_vvc: "list_all row_ok usages_vvc" by code_simp
lemma ok_pow: "list_all row_ok usages_pow" by code_simp
lemma ok_bat: "list_all row_ok usages_bat" by code_simp
lemma ok_bar_1: "list_all row_ok usages_bar_1" by code_simp
lemma ok_bar_2: "list_all row_ok usages_bar_2" by code_simp
lemma ok_sca: "list_all row_ok usages_sca" by code_simp
lemma ok_mag: "list_all row_ok usages_mag" by code_simp
lemma ok_cam: "list_all row_ok usages_cam" by code_simp
lemma ok_arc: "list_all row_ok usages_arc" by code_simp
lemma ok_fid: "list_all row_ok usages_fid" by code_simp

lemma keys_select: "list_all (\<lambda>r. snd (snd r) = [''Sel'']) usages_kb_1" "list_all (\<lambda>r. snd (snd r) = [''Sel'']) usages_kb_2"
  by code_simp+

lemmas tables_ok =
  ok_dsk ok_sim ok_vr ok_sc ok_gc ok_gdc ok_kb_1 ok_kb_2 ok_led ok_td ok_con_1 ok_con_2 ok_con_3 ok_con_4
  ok_dig ok_hap ok_pid ok_soc ok_eht ok_ad ok_sen_1 ok_sen_2 ok_sen_3 ok_sen_4 ok_sen_5 ok_med ok_bd ok_lig
  ok_mon ok_me ok_vvc ok_pow ok_bat ok_bar_1 ok_bar_2 ok_sca ok_mag ok_cam ok_arc ok_fid

subsection \<open>Every page\<close>

lemma page_rows_ok: "(code, a, n, Some (Rows us)) \<in> set page_tables \<Longrightarrow> list_all row_ok us"
  unfolding page_tables_def by (auto simp: tables_ok)

lemma keyboard_rows: "(KeyboardKeypad, a, n, Some (Rows us)) \<in> set page_tables \<Longrightarrow> list_all (\<lambda>r. snd (snd r) = [''Sel'']) us"
  unfolding page_tables_def KeyboardKeypad_def by (auto simp: keys_select)

definition usage_triple :: "usageInfo \<Rightarrow> usage_row" where
  "usage_triple u = (gu_usageID u, gu_usageName u, gu_usageTypes u)"

lemma usage_triple_row [simp]: "usage_triple (row_usage r) = r" "usage_triple (row_usage r\<lparr>gu_reserved := b\<rparr>) = r"
  by (cases r; simp add: usage_triple_def row_usage_def)+

definition front_matter :: "u16 \<Rightarrow> string \<Rightarrow> string \<Rightarrow> string \<rightharpoonup> yaml" where
  "front_matter code alias name = [''code'' \<mapsto> YamlInt (uint code), ''alias'' \<mapsto> YamlString alias, ''name'' \<mapsto> YamlString name]"

lemma page_read:
  assumes "(code, a, n, Some (Rows us)) \<in> set page_tables" "\<forall>l \<in> set (split_at newline header). \<not> has_prefix ''|'' l"
    "usageParsers fileName = (if code = KeyboardKeypad then Some (Some parseKeyboard) else None)"
    "meta (document header us) = front_matter code a n"
  obtains page where "parsePage meta fileName (document header us) = Some page"
    "gp_code page = code" "gp_alias page = a" "gp_name page = n" "gp_ordinalPrefix page = []" "map usage_triple (gp_usages page) = us"
proof -
  let ?us = "page_usages fileName (document header us)"
  have "map usage_triple ?us = us"
  proof (cases "code = KeyboardKeypad")
    case True
    then have "?us = map (\<lambda>r. (row_usage r)\<lparr>gu_reserved := False\<rparr>) us"
      using document_read(2) [OF page_rows_ok [OF assms(1)] assms(2)] keyboard_rows assms(1,3) by (simp add: page_usages_def)
    then show ?thesis by (simp add: comp_def)
  next
    case False
    then have "?us = map row_usage us" using document_read(1) [OF page_rows_ok [OF assms(1)] assms(2)] assms(3) by simp
    then show ?thesis by (simp add: comp_def)
  qed
  then show ?thesis using assms(4) that [of "\<lparr>gp_code = code, gp_alias = a, gp_name = n, gp_ordinalPrefix = [], gp_usages = ?us\<rparr>"]
    by (simp add: parsePage_def front_matter_def Let_def)
qed

text \<open>A document of the repository, read as it is.\<close>

definition fido_document :: string where
  "fido_document =
     ln ''---''
     @ ln ''name: FIDO Alliance Page''
     @ ln ''alias: fid''
     @ ln ''code: 0xF1D0''
     @ ln ''---''
     @ ln ''# Usage Table''
     @ ln []
     @ ln ''| Usage ID | Usage Name                 | Usage Types |''
     @ ln ''|----------|----------------------------|-------------|''
     @ ln ''| 00       | Undefined                  |             |''
     @ ln ''| 01       | U2F  Authenticator  Device | CA          |''
     @ ln ''| 02-1F    | Reserved                   |             |''
     @ ln ''| 20       | Input Report Data          | DV          |''
     @ ln ''| 21       | Output Report Data         | DV          |''
     @ ln ''| 22-FFFF  | Reserved                   |             |''"

lemma fido_read: "map usage_triple (page_usages ''0xF1D0-fido-alliance-page.md'' fido_document) = usages_fid"
  by code_simp

text \<open>Names of keys.\<close>

lemma key_names_formatted:
  "formatKeyName (\<lambda>s. s) 0x04 ''Keyboard a and A'' = ''A''" "formatKeyName (\<lambda>s. s) 0x29 ''Keyboard ESCAPE'' = ''Esc''"
  "formatKeyName (\<lambda>s. s) 0x31 (''Keyboard '' @ [CHR 0x5C] @ '' and |'') = ''Backslash''"
  "formatKeyName (\<lambda>s. s) 0x54 ''Keypad /'' = ''KpSlash''" "formatKeyName (\<lambda>s. s) 0xC9 ''Keypad ?'' = ''CodeC9''"
  by code_simp+

end
