(* ===== verification/GeneratedConstants.thy ===== *)
theory GeneratedConstants
  imports UsagePages
begin

section \<open>The generated constants (keycodes_gen.go, pages_gen.go)\<close>

text \<open>
  The constants for keys and pages that the generator writes beside its tables, those of theory KeyNames
  apart. They agree with the tables: the table of names has a constant for each key, in the same order,
  and the table of pages one for each page.
\<close>

subsection \<open>Keys\<close>

definition KeyErrorRollOver :: u8 where "KeyErrorRollOver = 0x1"
definition KeyPostfail :: u8 where "KeyPostfail = 0x2"
definition KeyErrorUndefined :: u8 where "KeyErrorUndefined = 0x3"
definition KeyB :: u8 where "KeyB = 0x5"
definition KeyC :: u8 where "KeyC = 0x6"
definition KeyD :: u8 where "KeyD = 0x7"
definition KeyE :: u8 where "KeyE = 0x8"
definition KeyF :: u8 where "KeyF = 0x9"
definition KeyG :: u8 where "KeyG = 0xa"
definition KeyH :: u8 where "KeyH = 0xb"
definition KeyI :: u8 where "KeyI = 0xc"
definition KeyJ :: u8 where "KeyJ = 0xd"
definition KeyK :: u8 where "KeyK = 0xe"
definition KeyL :: u8 where "KeyL = 0xf"
definition KeyM :: u8 where "KeyM = 0x10"
definition KeyN :: u8 where "KeyN = 0x11"
definition KeyO :: u8 where "KeyO = 0x12"
definition KeyP :: u8 where "KeyP = 0x13"
definition KeyQ :: u8 where "KeyQ = 0x14"
definition KeyR :: u8 where "KeyR = 0x15"
definition KeyS :: u8 where "KeyS = 0x16"
definition KeyT :: u8 where "KeyT = 0x17"
definition KeyU :: u8 where "KeyU = 0x18"
definition KeyV :: u8 where "KeyV = 0x19"
definition KeyW :: u8 where "KeyW = 0x1a"
definition KeyX :: u8 where "KeyX = 0x1b"
definition KeyY :: u8 where "KeyY = 0x1c"
definition KeyZ :: u8 where "KeyZ = 0x1d"
definition KeyEsc :: u8 where "KeyEsc = 0x29"
definition KeyBackspace :: u8 where "KeyBackspace = 0x2a"
definition KeyTab :: u8 where "KeyTab = 0x2b"
definition KeyNonUshash :: u8 where "KeyNonUshash = 0x32"
definition KeyCapsLock :: u8 where "KeyCapsLock = 0x39"
definition KeyF1 :: u8 where "KeyF1 = 0x3a"
definition KeyF2 :: u8 where "KeyF2 = 0x3b"
definition KeyF3 :: u8 where "KeyF3 = 0x3c"
definition KeyF4 :: u8 where "KeyF4 = 0x3d"
definition KeyF5 :: u8 where "KeyF5 = 0x3e"
definition KeyF6 :: u8 where "KeyF6 = 0x3f"
definition KeyF7 :: u8 where "KeyF7 = 0x40"
definition KeyF8 :: u8 where "KeyF8 = 0x41"
definition KeyF9 :: u8 where "KeyF9 = 0x42"
definition KeyF10 :: u8 where "KeyF10 = 0x43"
definition KeyF11 :: u8 where "KeyF11 = 0x44"
definition KeyF12 :: u8 where "KeyF12 = 0x45"
definition KeyPrintScreen :: u8 where "KeyPrintScreen = 0x46"
definition KeyScrollLock :: u8 where "KeyScrollLock = 0x47"
definition KeyPause :: u8 where "KeyPause = 0x48"
definition KeyInsert :: u8 where "KeyInsert = 0x49"
definition KeyHome :: u8 where "KeyHome = 0x4a"
definition KeyPageUp :: u8 where "KeyPageUp = 0x4b"
definition KeyDeleteForward :: u8 where "KeyDeleteForward = 0x4c"
definition KeyEnd :: u8 where "KeyEnd = 0x4d"
definition KeyPageDown :: u8 where "KeyPageDown = 0x4e"
definition KeyRightArrow :: u8 where "KeyRightArrow = 0x4f"
definition KeyLeftArrow :: u8 where "KeyLeftArrow = 0x50"
definition KeyDownArrow :: u8 where "KeyDownArrow = 0x51"
definition KeyUpArrow :: u8 where "KeyUpArrow = 0x52"
definition KeyKpNumLockAndClear :: u8 where "KeyKpNumLockAndClear = 0x53"
definition KeyKpSlash :: u8 where "KeyKpSlash = 0x54"
definition KeyKpAsterisk :: u8 where "KeyKpAsterisk = 0x55"
definition KeyKpMinus :: u8 where "KeyKpMinus = 0x56"
definition KeyKpPlus :: u8 where "KeyKpPlus = 0x57"
definition KeyKpEnter :: u8 where "KeyKpEnter = 0x58"
definition KeyKp1AndEnd :: u8 where "KeyKp1AndEnd = 0x59"
definition KeyKp2AndDownArrow :: u8 where "KeyKp2AndDownArrow = 0x5a"
definition KeyKp3AndPageDn :: u8 where "KeyKp3AndPageDn = 0x5b"
definition KeyKp4AndLeftArrow :: u8 where "KeyKp4AndLeftArrow = 0x5c"
definition KeyKp5 :: u8 where "KeyKp5 = 0x5d"
definition KeyKp6AndRightArrow :: u8 where "KeyKp6AndRightArrow = 0x5e"
definition KeyKp7AndHome :: u8 where "KeyKp7AndHome = 0x5f"
definition KeyKp8AndUpArrow :: u8 where "KeyKp8AndUpArrow = 0x60"
definition KeyKp9AndPageUp :: u8 where "KeyKp9AndPageUp = 0x61"
definition KeyKp0AndInsert :: u8 where "KeyKp0AndInsert = 0x62"
definition KeyKpPeriodDelete :: u8 where "KeyKpPeriodDelete = 0x63"
definition KeyNonUsbackslash :: u8 where "KeyNonUsbackslash = 0x64"
definition KeyApplication :: u8 where "KeyApplication = 0x65"
definition KeyPower :: u8 where "KeyPower = 0x66"
definition KeyKpEqual :: u8 where "KeyKpEqual = 0x67"
definition KeyF13 :: u8 where "KeyF13 = 0x68"
definition KeyF14 :: u8 where "KeyF14 = 0x69"
definition KeyF15 :: u8 where "KeyF15 = 0x6a"
definition KeyF16 :: u8 where "KeyF16 = 0x6b"
definition KeyF17 :: u8 where "KeyF17 = 0x6c"
definition KeyF18 :: u8 where "KeyF18 = 0x6d"
definition KeyF19 :: u8 where "KeyF19 = 0x6e"
definition KeyF20 :: u8 where "KeyF20 = 0x6f"
definition KeyF21 :: u8 where "KeyF21 = 0x70"
definition KeyF22 :: u8 where "KeyF22 = 0x71"
definition KeyF23 :: u8 where "KeyF23 = 0x72"
definition KeyF24 :: u8 where "KeyF24 = 0x73"
definition KeyExecute :: u8 where "KeyExecute = 0x74"
definition KeyHelp :: u8 where "KeyHelp = 0x75"
definition KeyMenu :: u8 where "KeyMenu = 0x76"
definition KeySelect :: u8 where "KeySelect = 0x77"
definition KeyStop :: u8 where "KeyStop = 0x78"
definition KeyAgain :: u8 where "KeyAgain = 0x79"
definition KeyUndo :: u8 where "KeyUndo = 0x7a"
definition KeyCut :: u8 where "KeyCut = 0x7b"
definition KeyCopy :: u8 where "KeyCopy = 0x7c"
definition KeyPaste :: u8 where "KeyPaste = 0x7d"
definition KeyFind :: u8 where "KeyFind = 0x7e"
definition KeyMute :: u8 where "KeyMute = 0x7f"
definition KeyVolumeUp :: u8 where "KeyVolumeUp = 0x80"
definition KeyVolumeDown :: u8 where "KeyVolumeDown = 0x81"
definition KeyLockingCapsLock :: u8 where "KeyLockingCapsLock = 0x82"
definition KeyLockingNumLock :: u8 where "KeyLockingNumLock = 0x83"
definition KeyLockingScrollLock :: u8 where "KeyLockingScrollLock = 0x84"
definition KeyKpComma :: u8 where "KeyKpComma = 0x85"
definition KeyKpEqualSign :: u8 where "KeyKpEqualSign = 0x86"
definition KeyInternational1 :: u8 where "KeyInternational1 = 0x87"
definition KeyInternational2 :: u8 where "KeyInternational2 = 0x88"
definition KeyInternational3 :: u8 where "KeyInternational3 = 0x89"
definition KeyInternational4 :: u8 where "KeyInternational4 = 0x8a"
definition KeyInternational5 :: u8 where "KeyInternational5 = 0x8b"
definition KeyInternational6 :: u8 where "KeyInternational6 = 0x8c"
definition KeyInternational7 :: u8 where "KeyInternational7 = 0x8d"
definition KeyInternational8 :: u8 where "KeyInternational8 = 0x8e"
definition KeyInternational9 :: u8 where "KeyInternational9 = 0x8f"
definition KeyLang1 :: u8 where "KeyLang1 = 0x90"
definition KeyLang2 :: u8 where "KeyLang2 = 0x91"
definition KeyLang3 :: u8 where "KeyLang3 = 0x92"
definition KeyLang4 :: u8 where "KeyLang4 = 0x93"
definition KeyLang5 :: u8 where "KeyLang5 = 0x94"
definition KeyLang6 :: u8 where "KeyLang6 = 0x95"
definition KeyLang7 :: u8 where "KeyLang7 = 0x96"
definition KeyLang8 :: u8 where "KeyLang8 = 0x97"
definition KeyLang9 :: u8 where "KeyLang9 = 0x98"
definition KeyAlternateErase :: u8 where "KeyAlternateErase = 0x99"
definition KeySysReqAttention :: u8 where "KeySysReqAttention = 0x9a"
definition KeyCancel :: u8 where "KeyCancel = 0x9b"
definition KeyClear :: u8 where "KeyClear = 0x9c"
definition KeyPrior :: u8 where "KeyPrior = 0x9d"
definition KeyReturn :: u8 where "KeyReturn = 0x9e"
definition KeySeparator :: u8 where "KeySeparator = 0x9f"
definition KeyOut :: u8 where "KeyOut = 0xa0"
definition KeyOper :: u8 where "KeyOper = 0xa1"
definition KeyClearAgain :: u8 where "KeyClearAgain = 0xa2"
definition KeyCrSelProps :: u8 where "KeyCrSelProps = 0xa3"
definition KeyExSel :: u8 where "KeyExSel = 0xa4"
definition KeyKp00 :: u8 where "KeyKp00 = 0xb0"
definition KeyKp000 :: u8 where "KeyKp000 = 0xb1"
definition KeyThousandsSeparator :: u8 where "KeyThousandsSeparator = 0xb2"
definition KeyDecimalSeparator :: u8 where "KeyDecimalSeparator = 0xb3"
definition KeyCurrencyUnit :: u8 where "KeyCurrencyUnit = 0xb4"
definition KeyCurrencySubUnit :: u8 where "KeyCurrencySubUnit = 0xb5"
definition KeyKpLeftParenthesis :: u8 where "KeyKpLeftParenthesis = 0xb6"
definition KeyKpRightParenthesis :: u8 where "KeyKpRightParenthesis = 0xb7"
definition KeyKpLeftBrace :: u8 where "KeyKpLeftBrace = 0xb8"
definition KeyKpRightBrace :: u8 where "KeyKpRightBrace = 0xb9"
definition KeyKpTab :: u8 where "KeyKpTab = 0xba"
definition KeyKpBackspace :: u8 where "KeyKpBackspace = 0xbb"
definition KeyKpA :: u8 where "KeyKpA = 0xbc"
definition KeyKpB :: u8 where "KeyKpB = 0xbd"
definition KeyKpC :: u8 where "KeyKpC = 0xbe"
definition KeyKpD :: u8 where "KeyKpD = 0xbf"
definition KeyKpE :: u8 where "KeyKpE = 0xc0"
definition KeyKpF :: u8 where "KeyKpF = 0xc1"
definition KeyKpXor :: u8 where "KeyKpXor = 0xc2"
definition KeyKpCaret :: u8 where "KeyKpCaret = 0xc3"
definition KeyKpPercent :: u8 where "KeyKpPercent = 0xc4"
definition KeyKpLessThan :: u8 where "KeyKpLessThan = 0xc5"
definition KeyKpGreaterThan :: u8 where "KeyKpGreaterThan = 0xc6"
definition KeyKpAmpersand :: u8 where "KeyKpAmpersand = 0xc7"
definition KeyKpDoubleAmpersand :: u8 where "KeyKpDoubleAmpersand = 0xc8"
definition KeyKpPipe :: u8 where "KeyKpPipe = 0xc9"
definition KeyKpDoublePipe :: u8 where "KeyKpDoublePipe = 0xca"
definition KeyKpColon :: u8 where "KeyKpColon = 0xcb"
definition KeyKpHash :: u8 where "KeyKpHash = 0xcc"
definition KeyKpSpace :: u8 where "KeyKpSpace = 0xcd"
definition KeyKpAt :: u8 where "KeyKpAt = 0xce"
definition KeyKpExclamation :: u8 where "KeyKpExclamation = 0xcf"
definition KeyKpMemoryStore :: u8 where "KeyKpMemoryStore = 0xd0"
definition KeyKpMemoryRecall :: u8 where "KeyKpMemoryRecall = 0xd1"
definition KeyKpMemoryClear :: u8 where "KeyKpMemoryClear = 0xd2"
definition KeyKpMemoryAdd :: u8 where "KeyKpMemoryAdd = 0xd3"
definition KeyKpMemorySubtract :: u8 where "KeyKpMemorySubtract = 0xd4"
definition KeyKpMemoryMultiply :: u8 where "KeyKpMemoryMultiply = 0xd5"
definition KeyKpMemoryDivide :: u8 where "KeyKpMemoryDivide = 0xd6"
definition KeyKpPlusMinus :: u8 where "KeyKpPlusMinus = 0xd7"
definition KeyKpClear :: u8 where "KeyKpClear = 0xd8"
definition KeyKpClearEntry :: u8 where "KeyKpClearEntry = 0xd9"
definition KeyKpBinary :: u8 where "KeyKpBinary = 0xda"
definition KeyKpOctal :: u8 where "KeyKpOctal = 0xdb"
definition KeyKpDecimal :: u8 where "KeyKpDecimal = 0xdc"
definition KeyKpHexadecimal :: u8 where "KeyKpHexadecimal = 0xdd"
definition KeyLeftControl :: u8 where "KeyLeftControl = 0xe0"
definition KeyLeftAlt :: u8 where "KeyLeftAlt = 0xe2"
definition KeyLeftGui :: u8 where "KeyLeftGui = 0xe3"
definition KeyRightControl :: u8 where "KeyRightControl = 0xe4"
definition KeyRightAlt :: u8 where "KeyRightAlt = 0xe6"
definition KeyRightGui :: u8 where "KeyRightGui = 0xe7"

lemmas key_constant_defs = key_defs
  KeyErrorRollOver_def KeyPostfail_def KeyErrorUndefined_def KeyB_def KeyC_def KeyD_def KeyE_def
  KeyF_def KeyG_def KeyH_def KeyI_def KeyJ_def KeyK_def KeyL_def KeyM_def KeyN_def KeyO_def KeyP_def
  KeyQ_def KeyR_def KeyS_def KeyT_def KeyU_def KeyV_def KeyW_def KeyX_def KeyY_def KeyZ_def KeyEsc_def
  KeyBackspace_def KeyTab_def KeyNonUshash_def KeyCapsLock_def KeyF1_def KeyF2_def KeyF3_def KeyF4_def
  KeyF5_def KeyF6_def KeyF7_def KeyF8_def KeyF9_def KeyF10_def KeyF11_def KeyF12_def
  KeyPrintScreen_def KeyScrollLock_def KeyPause_def KeyInsert_def KeyHome_def KeyPageUp_def
  KeyDeleteForward_def KeyEnd_def KeyPageDown_def KeyRightArrow_def KeyLeftArrow_def KeyDownArrow_def
  KeyUpArrow_def KeyKpNumLockAndClear_def KeyKpSlash_def KeyKpAsterisk_def KeyKpMinus_def
  KeyKpPlus_def KeyKpEnter_def KeyKp1AndEnd_def KeyKp2AndDownArrow_def KeyKp3AndPageDn_def
  KeyKp4AndLeftArrow_def KeyKp5_def KeyKp6AndRightArrow_def KeyKp7AndHome_def KeyKp8AndUpArrow_def
  KeyKp9AndPageUp_def KeyKp0AndInsert_def KeyKpPeriodDelete_def KeyNonUsbackslash_def
  KeyApplication_def KeyPower_def KeyKpEqual_def KeyF13_def KeyF14_def KeyF15_def KeyF16_def
  KeyF17_def KeyF18_def KeyF19_def KeyF20_def KeyF21_def KeyF22_def KeyF23_def KeyF24_def
  KeyExecute_def KeyHelp_def KeyMenu_def KeySelect_def KeyStop_def KeyAgain_def KeyUndo_def KeyCut_def
  KeyCopy_def KeyPaste_def KeyFind_def KeyMute_def KeyVolumeUp_def KeyVolumeDown_def
  KeyLockingCapsLock_def KeyLockingNumLock_def KeyLockingScrollLock_def KeyKpComma_def
  KeyKpEqualSign_def KeyInternational1_def KeyInternational2_def KeyInternational3_def
  KeyInternational4_def KeyInternational5_def KeyInternational6_def KeyInternational7_def
  KeyInternational8_def KeyInternational9_def KeyLang1_def KeyLang2_def KeyLang3_def KeyLang4_def
  KeyLang5_def KeyLang6_def KeyLang7_def KeyLang8_def KeyLang9_def KeyAlternateErase_def
  KeySysReqAttention_def KeyCancel_def KeyClear_def KeyPrior_def KeyReturn_def KeySeparator_def
  KeyOut_def KeyOper_def KeyClearAgain_def KeyCrSelProps_def KeyExSel_def KeyKp00_def KeyKp000_def
  KeyThousandsSeparator_def KeyDecimalSeparator_def KeyCurrencyUnit_def KeyCurrencySubUnit_def
  KeyKpLeftParenthesis_def KeyKpRightParenthesis_def KeyKpLeftBrace_def KeyKpRightBrace_def
  KeyKpTab_def KeyKpBackspace_def KeyKpA_def KeyKpB_def KeyKpC_def KeyKpD_def KeyKpE_def KeyKpF_def
  KeyKpXor_def KeyKpCaret_def KeyKpPercent_def KeyKpLessThan_def KeyKpGreaterThan_def
  KeyKpAmpersand_def KeyKpDoubleAmpersand_def KeyKpPipe_def KeyKpDoublePipe_def KeyKpColon_def
  KeyKpHash_def KeyKpSpace_def KeyKpAt_def KeyKpExclamation_def KeyKpMemoryStore_def
  KeyKpMemoryRecall_def KeyKpMemoryClear_def KeyKpMemoryAdd_def KeyKpMemorySubtract_def
  KeyKpMemoryMultiply_def KeyKpMemoryDivide_def KeyKpPlusMinus_def KeyKpClear_def KeyKpClearEntry_def
  KeyKpBinary_def KeyKpOctal_def KeyKpDecimal_def KeyKpHexadecimal_def KeyLeftControl_def
  KeyLeftAlt_def KeyLeftGui_def KeyRightControl_def KeyRightAlt_def KeyRightGui_def

definition key_constants :: "u8 list" where
  "key_constants =
    [KeyErrorRollOver, KeyPostfail, KeyErrorUndefined, KeyA, KeyB, KeyC, KeyD, KeyE, KeyF, KeyG, KeyH,
     KeyI, KeyJ, KeyK, KeyL, KeyM, KeyN, KeyO, KeyP, KeyQ, KeyR, KeyS, KeyT, KeyU, KeyV, KeyW, KeyX,
     KeyY, KeyZ, Key1, Key2, Key3, Key4, Key5, Key6, Key7, Key8, Key9, Key0, KeyEnter, KeyEsc,
     KeyBackspace, KeyTab, KeySpacebar, KeyMinus, KeyEqual, KeyLeftBracket, KeyRightBracket,
     KeyBackslash, KeyNonUshash, KeySemicolon, KeyQuote, KeyGraveAccent, KeyComma, KeyPeriod, KeySlash,
     KeyCapsLock, KeyF1, KeyF2, KeyF3, KeyF4, KeyF5, KeyF6, KeyF7, KeyF8, KeyF9, KeyF10, KeyF11, KeyF12,
     KeyPrintScreen, KeyScrollLock, KeyPause, KeyInsert, KeyHome, KeyPageUp, KeyDeleteForward, KeyEnd,
     KeyPageDown, KeyRightArrow, KeyLeftArrow, KeyDownArrow, KeyUpArrow, KeyKpNumLockAndClear,
     KeyKpSlash, KeyKpAsterisk, KeyKpMinus, KeyKpPlus, KeyKpEnter, KeyKp1AndEnd, KeyKp2AndDownArrow,
     KeyKp3AndPageDn, KeyKp4AndLeftArrow, KeyKp5, KeyKp6AndRightArrow, KeyKp7AndHome, KeyKp8AndUpArrow,
     KeyKp9AndPageUp, KeyKp0AndInsert, KeyKpPeriodDelete, KeyNonUsbackslash, KeyApplication, KeyPower,
     KeyKpEqual, KeyF13, KeyF14, KeyF15, KeyF16, KeyF17, KeyF18, KeyF19, KeyF20, KeyF21, KeyF22, KeyF23,
     KeyF24, KeyExecute, KeyHelp, KeyMenu, KeySelect, KeyStop, KeyAgain, KeyUndo, KeyCut, KeyCopy,
     KeyPaste, KeyFind, KeyMute, KeyVolumeUp, KeyVolumeDown, KeyLockingCapsLock, KeyLockingNumLock,
     KeyLockingScrollLock, KeyKpComma, KeyKpEqualSign, KeyInternational1, KeyInternational2,
     KeyInternational3, KeyInternational4, KeyInternational5, KeyInternational6, KeyInternational7,
     KeyInternational8, KeyInternational9, KeyLang1, KeyLang2, KeyLang3, KeyLang4, KeyLang5, KeyLang6,
     KeyLang7, KeyLang8, KeyLang9, KeyAlternateErase, KeySysReqAttention, KeyCancel, KeyClear, KeyPrior,
     KeyReturn, KeySeparator, KeyOut, KeyOper, KeyClearAgain, KeyCrSelProps, KeyExSel, KeyKp00, KeyKp000,
     KeyThousandsSeparator, KeyDecimalSeparator, KeyCurrencyUnit, KeyCurrencySubUnit,
     KeyKpLeftParenthesis, KeyKpRightParenthesis, KeyKpLeftBrace, KeyKpRightBrace, KeyKpTab,
     KeyKpBackspace, KeyKpA, KeyKpB, KeyKpC, KeyKpD, KeyKpE, KeyKpF, KeyKpXor, KeyKpCaret, KeyKpPercent,
     KeyKpLessThan, KeyKpGreaterThan, KeyKpAmpersand, KeyKpDoubleAmpersand, KeyKpPipe, KeyKpDoublePipe,
     KeyKpColon, KeyKpHash, KeyKpSpace, KeyKpAt, KeyKpExclamation, KeyKpMemoryStore, KeyKpMemoryRecall,
     KeyKpMemoryClear, KeyKpMemoryAdd, KeyKpMemorySubtract, KeyKpMemoryMultiply, KeyKpMemoryDivide,
     KeyKpPlusMinus, KeyKpClear, KeyKpClearEntry, KeyKpBinary, KeyKpOctal, KeyKpDecimal,
     KeyKpHexadecimal, KeyLeftControl, KeyLeftShift, KeyLeftAlt, KeyLeftGui, KeyRightControl,
     KeyRightShift, KeyRightAlt, KeyRightGui]"

lemma key_constants_table: "key_constants = map fst keyNameMap"
  by (simp add: key_constants_def key_constant_defs keyNameMap_defs)

subsection \<open>Pages\<close>

definition GenericDesktop :: u16 where "GenericDesktop = 0x01"
definition SimulationControls :: u16 where "SimulationControls = 0x02"
definition VrControls :: u16 where "VrControls = 0x03"
definition SportControls :: u16 where "SportControls = 0x04"
definition GameControls :: u16 where "GameControls = 0x05"
definition GenericDeviceControls :: u16 where "GenericDeviceControls = 0x06"
definition Led :: u16 where "Led = 0x08"
definition Button :: u16 where "Button = 0x09"
definition Ordinal :: u16 where "Ordinal = 0x0a"
definition TelephonyDevice :: u16 where "TelephonyDevice = 0x0b"
definition Consumer :: u16 where "Consumer = 0x0c"
definition Digitizers :: u16 where "Digitizers = 0x0d"
definition Haptics :: u16 where "Haptics = 0x0e"
definition PhysicalInputDevice :: u16 where "PhysicalInputDevice = 0x0f"
definition Unicode :: u16 where "Unicode = 0x10"
definition SoC :: u16 where "SoC = 0x11"
definition EyeAndHeadTrackers :: u16 where "EyeAndHeadTrackers = 0x12"
definition AuxiliaryDisplay :: u16 where "AuxiliaryDisplay = 0x14"
definition Sensors :: u16 where "Sensors = 0x20"
definition MedicalInstrument :: u16 where "MedicalInstrument = 0x40"
definition BrailleDisplay :: u16 where "BrailleDisplay = 0x41"
definition LightingAndIllumination :: u16 where "LightingAndIllumination = 0x59"
definition Monitor :: u16 where "Monitor = 0x80"
definition MonitorEnumerated :: u16 where "MonitorEnumerated = 0x81"
definition VesaVirtualControls :: u16 where "VesaVirtualControls = 0x82"
definition Power :: u16 where "Power = 0x84"
definition BatterySystem :: u16 where "BatterySystem = 0x85"
definition BarcodeScanner :: u16 where "BarcodeScanner = 0x8c"
definition Scales :: u16 where "Scales = 0x8d"
definition MagneticStripeReader :: u16 where "MagneticStripeReader = 0x8e"
definition CameraControl :: u16 where "CameraControl = 0x90"
definition Arcade :: u16 where "Arcade = 0x91"
definition GamingDevice :: u16 where "GamingDevice = 0x92"
definition FidoAlliance :: u16 where "FidoAlliance = 0xf1d0"

lemmas page_constant_defs = KeyboardKeypad_def
  GenericDesktop_def SimulationControls_def VrControls_def SportControls_def GameControls_def
  GenericDeviceControls_def Led_def Button_def Ordinal_def TelephonyDevice_def Consumer_def
  Digitizers_def Haptics_def PhysicalInputDevice_def Unicode_def SoC_def EyeAndHeadTrackers_def
  AuxiliaryDisplay_def Sensors_def MedicalInstrument_def BrailleDisplay_def
  LightingAndIllumination_def Monitor_def MonitorEnumerated_def VesaVirtualControls_def Power_def
  BatterySystem_def BarcodeScanner_def Scales_def MagneticStripeReader_def CameraControl_def
  Arcade_def GamingDevice_def FidoAlliance_def

definition page_constants :: "u16 list" where
  "page_constants =
    [GenericDesktop, SimulationControls, VrControls, SportControls, GameControls, GenericDeviceControls,
     KeyboardKeypad, Led, Button, Ordinal, TelephonyDevice, Consumer, Digitizers, Haptics,
     PhysicalInputDevice, Unicode, SoC, EyeAndHeadTrackers, AuxiliaryDisplay, Sensors, MedicalInstrument,
     BrailleDisplay, LightingAndIllumination, Monitor, MonitorEnumerated, VesaVirtualControls, Power,
     BatterySystem, BarcodeScanner, Scales, MagneticStripeReader, CameraControl, Arcade, GamingDevice,
     FidoAlliance]"

lemma page_constants_table: "page_constants = map fst page_tables"
  by (simp add: page_constants_def page_constant_defs page_tables_def)

end
