(* ===== verification/Startup.thy ===== *)
theory Startup
  imports Prelude
begin

section \<open>Starting and stopping the agent (agent.go, hid_service.go, linux_backend.go)\<close>

text \<open>
  The agent runs the configuration service, the HID service and the flow service in a group: the first
  error cancels the context of all of them. The HID service starts its buses and then its backends, each
  in a goroutine that starts it again after a pause, and is ready when all of them are. A step is one
  step of one goroutine, in any order. What the outside decides is a parameter of the relation (record
  world): which results creating the watcher, registering a file, refreshing the devices and starting
  the flow can have. Closing a channel twice panics.
\<close>

subsection \<open>A backend and its goroutine\<close>

datatype backend_place = NotStarted | WaitConfig | RegisterUhid | RefreshUhid | RefreshHid | CloseReady | Polling | Backoff | Stopped

record backend =
  be_place :: backend_place
  be_ready :: bool

record world =
  can_watch :: "bool \<Rightarrow> bool"
  can_register :: "bool \<Rightarrow> bool"
  can_refresh :: "bool \<Rightarrow> bool"
  can_flow :: "bool \<Rightarrow> bool"

text \<open>
  \<open>Start\<close> of the Linux backend, and the loop around it. When several cases of a select are ready Go takes
  any of them. \<open>None\<close> is a panic. An error of a later refresh is only logged.
\<close>

inductive linux_Start :: "world \<Rightarrow> bool \<Rightarrow> bool \<Rightarrow> backend \<Rightarrow> backend option \<Rightarrow> bool" for w cancelled configReady where
  cancelled: "cancelled \<Longrightarrow> be_place b = WaitConfig \<Longrightarrow> linux_Start w cancelled configReady b (Some (b\<lparr>be_place := Backoff\<rparr>))"
| config: "configReady \<Longrightarrow> be_place b = WaitConfig \<Longrightarrow> linux_Start w cancelled configReady b (Some (b\<lparr>be_place := RegisterUhid\<rparr>))"
| register: "can_register w ok \<Longrightarrow> be_place b = RegisterUhid \<Longrightarrow>
    linux_Start w cancelled configReady b (Some (b\<lparr>be_place := if ok then RefreshUhid else Backoff\<rparr>))"
| uhid: "can_refresh w ok \<Longrightarrow> be_place b = RefreshUhid \<Longrightarrow>
    linux_Start w cancelled configReady b (Some (b\<lparr>be_place := if ok then RefreshHid else Backoff\<rparr>))"
| hid: "can_refresh w ok \<Longrightarrow> be_place b = RefreshHid \<Longrightarrow>
    linux_Start w cancelled configReady b (Some (b\<lparr>be_place := if ok then CloseReady else Backoff\<rparr>))"
| close: "be_place b = CloseReady \<Longrightarrow>
    linux_Start w cancelled configReady b (if be_ready b then None else Some (b\<lparr>be_ready := True, be_place := Polling\<rparr>))"
| stop: "cancelled \<Longrightarrow> be_place b = Polling \<Longrightarrow> linux_Start w cancelled configReady b (Some (b\<lparr>be_place := Backoff\<rparr>))"

inductive runBackend :: "world \<Rightarrow> bool \<Rightarrow> bool \<Rightarrow> backend \<Rightarrow> backend option \<Rightarrow> bool" for w cancelled configReady where
  start: "linux_Start w cancelled configReady b b' \<Longrightarrow> runBackend w cancelled configReady b b'"
| again: "be_place b = Backoff \<Longrightarrow> runBackend w cancelled configReady b (Some (b\<lparr>be_place := WaitConfig\<rparr>))"
| ended: "cancelled \<Longrightarrow> be_place b = Backoff \<Longrightarrow> runBackend w cancelled configReady b (Some (b\<lparr>be_place := Stopped\<rparr>))"

subsection \<open>The services\<close>

datatype service_phase = Starting | Up | Down

datatype hid_phase = HidBuses nat | HidBackends "string list" | HidUp | HidDown

record agent =
  ag_cancelled :: bool
  ag_error :: "string option"
  ag_config :: service_phase
  ag_configReady :: bool
  ag_hid :: hid_phase
  ag_hidReady :: bool
  ag_backends :: "string \<Rightarrow> backend"
  ag_flow :: service_phase
  ag_panicked :: bool
  ag_result :: "string option option"

definition new_agent :: agent where
  "new_agent = \<lparr>ag_cancelled = False, ag_error = None, ag_config = Starting, ag_configReady = False, ag_hid = HidBuses 0,
     ag_hidReady = False, ag_backends = (\<lambda>i. \<lparr>be_place = NotStarted, be_ready = False\<rparr>), ag_flow = Starting,
     ag_panicked = False, ag_result = None\<rparr>"

text \<open>The group keeps the first error and cancels.\<close>

definition group_error :: "string \<Rightarrow> agent \<Rightarrow> agent" where
  "group_error e s = s\<lparr>ag_cancelled := True, ag_error := (case ag_error s of None \<Rightarrow> Some e | Some e \<Rightarrow> Some e)\<rparr>"

inductive config_step :: "world \<Rightarrow> agent \<Rightarrow> agent \<Rightarrow> bool" for w where
  watcher: "ag_config s = Starting \<Longrightarrow> can_watch w ok \<Longrightarrow>
    config_step w s (if ok then s\<lparr>ag_config := Up, ag_configReady := True\<rparr>
                     else group_error ''failed to create fsnotify watcher'' (s\<lparr>ag_config := Down\<rparr>))"
| stop: "ag_config s = Up \<Longrightarrow> ag_cancelled s \<Longrightarrow> config_step w s (s\<lparr>ag_config := Down\<rparr>)"

text \<open>\<open>Start\<close> of the HID service; starting a bus closes its channel, so that the select after it can go on.\<close>

inductive hid_step :: "string list \<Rightarrow> agent \<Rightarrow> agent \<Rightarrow> bool" for ids where
  bus: "ag_hid s = HidBuses k \<Longrightarrow> k < 3 \<Longrightarrow> hid_step ids s (s\<lparr>ag_hid := HidBuses (k + 1)\<rparr>)"
| bus_cancelled: "ag_hid s = HidBuses k \<Longrightarrow> k < 3 \<Longrightarrow> ag_cancelled s \<Longrightarrow> hid_step ids s (s\<lparr>ag_hid := HidDown\<rparr>)"
| backends: "ag_hid s = HidBuses 3 \<Longrightarrow>
    hid_step ids s (s\<lparr>ag_hid := HidBackends ids,
      ag_backends := (\<lambda>i. if i \<in> set ids then (ag_backends s i)\<lparr>be_place := WaitConfig\<rparr> else ag_backends s i)\<rparr>)"
| backend_ready: "ag_hid s = HidBackends (i # js) \<Longrightarrow> be_ready (ag_backends s i) \<Longrightarrow> hid_step ids s (s\<lparr>ag_hid := HidBackends js\<rparr>)"
| backend_cancelled: "ag_hid s = HidBackends (i # js) \<Longrightarrow> ag_cancelled s \<Longrightarrow> hid_step ids s (s\<lparr>ag_hid := HidDown\<rparr>)"
| ready: "ag_hid s = HidBackends [] \<Longrightarrow> hid_step ids s (s\<lparr>ag_hid := HidUp, ag_hidReady := True\<rparr>)"
| stop: "ag_hid s = HidUp \<Longrightarrow> ag_cancelled s \<Longrightarrow> hid_step ids s (s\<lparr>ag_hid := HidDown\<rparr>)"

text \<open>
  \<open>Start\<close> of the flow service, of which theory FlowFiles says when it succeeds. Its end is also that of the
  graph, for which it waits; theory GraphRuns has the goroutines of a graph.
\<close>

inductive flow_step :: "world \<Rightarrow> agent \<Rightarrow> agent \<Rightarrow> bool" for w where
  cancelled: "ag_flow s = Starting \<Longrightarrow> ag_cancelled s \<Longrightarrow> flow_step w s (s\<lparr>ag_flow := Down\<rparr>)"
| started: "ag_flow s = Starting \<Longrightarrow> ag_configReady s \<Longrightarrow> can_flow w ok \<Longrightarrow>
    flow_step w s (if ok then s\<lparr>ag_flow := Up\<rparr> else group_error ''failed to start the flow'' (s\<lparr>ag_flow := Down\<rparr>))"
| stop: "ag_flow s = Up \<Longrightarrow> ag_cancelled s \<Longrightarrow> flow_step w s (s\<lparr>ag_flow := Down\<rparr>)"

subsection \<open>The agent\<close>

inductive agent_step :: "world \<Rightarrow> string list \<Rightarrow> agent \<Rightarrow> agent \<Rightarrow> bool" for w ids where
  cancel: "\<not> ag_panicked s \<Longrightarrow> agent_step w ids s (s\<lparr>ag_cancelled := True\<rparr>)"
| config: "\<not> ag_panicked s \<Longrightarrow> config_step w s s' \<Longrightarrow> agent_step w ids s s'"
| hid: "\<not> ag_panicked s \<Longrightarrow> hid_step ids s s' \<Longrightarrow> agent_step w ids s s'"
| flow: "\<not> ag_panicked s \<Longrightarrow> flow_step w s s' \<Longrightarrow> agent_step w ids s s'"
| backend: "\<not> ag_panicked s \<Longrightarrow> i \<in> set ids \<Longrightarrow>
    runBackend w (ag_cancelled s) (ag_configReady s) (ag_backends s i) (Some b) \<Longrightarrow>
    agent_step w ids s (s\<lparr>ag_backends := (ag_backends s)(i := b)\<rparr>)"
| panic: "\<not> ag_panicked s \<Longrightarrow> i \<in> set ids \<Longrightarrow> runBackend w (ag_cancelled s) (ag_configReady s) (ag_backends s i) None \<Longrightarrow>
    agent_step w ids s (s\<lparr>ag_panicked := True\<rparr>)"
| returns: "\<not> ag_panicked s \<Longrightarrow> ag_config s = Down \<Longrightarrow> ag_hid s = HidDown \<Longrightarrow> ag_flow s = Down \<Longrightarrow> ag_result s = None \<Longrightarrow>
    agent_step w ids s (s\<lparr>ag_result := Some (ag_error s), ag_cancelled := True\<rparr>)"

subsection \<open>What is invariant\<close>

text \<open>A backend that is ready polls until it is cancelled; one that cannot register is never ready.\<close>

definition backend_ok :: "world \<Rightarrow> bool \<Rightarrow> backend \<Rightarrow> bool" where
  "backend_ok w cancelled b \<longleftrightarrow>
     (\<not> cancelled \<longrightarrow> (be_ready b \<longleftrightarrow> be_place b = Polling)) \<and> (be_place b = NotStarted \<longrightarrow> \<not> be_ready b)
     \<and> (\<not> can_register w True \<longrightarrow> \<not> be_ready b \<and> be_place b \<in> {NotStarted, WaitConfig, RegisterUhid, Backoff, Stopped})"

definition phase_ok :: "string list \<Rightarrow> hid_phase \<Rightarrow> bool \<Rightarrow> (string \<Rightarrow> backend) \<Rightarrow> bool \<Rightarrow> bool" where
  "phase_ok ids phase ready bs cancelled \<longleftrightarrow>
     (case phase of
        HidBuses k \<Rightarrow> k \<le> 3 \<and> (\<forall>i. be_place (bs i) = NotStarted) \<and> \<not> ready
      | HidBackends js \<Rightarrow> set js \<subseteq> set ids \<and> (\<forall>i \<in> set ids - set js. be_ready (bs i)) \<and> \<not> ready
      | HidUp \<Rightarrow> ready
      | HidDown \<Rightarrow> cancelled)
     \<and> (ready \<longrightarrow> (\<forall>i \<in> set ids. be_ready (bs i)))"

definition result_ok :: "agent \<Rightarrow> bool" where
  "result_ok s \<longleftrightarrow>
     (case ag_result s of
        None \<Rightarrow> True
      | Some r \<Rightarrow> r = ag_error s \<and> ag_config s = Down \<and> ag_hid s = HidDown \<and> ag_flow s = Down \<and> ag_cancelled s)"

definition agent_ok :: "world \<Rightarrow> string list \<Rightarrow> agent \<Rightarrow> bool" where
  "agent_ok w ids s \<longleftrightarrow>
     (\<forall>i. backend_ok w (ag_cancelled s) (ag_backends s i))
     \<and> phase_ok ids (ag_hid s) (ag_hidReady s) (ag_backends s) (ag_cancelled s)
     \<and> (ag_panicked s \<longrightarrow> ag_cancelled s) \<and> (ag_error s \<noteq> None \<longrightarrow> ag_cancelled s)
     \<and> (ag_config s = Down \<or> ag_flow s = Down \<longrightarrow> ag_cancelled s) \<and> result_ok s"

lemma backend_running:
  assumes "runBackend w c r b b'"
  shows "be_place b \<noteq> NotStarted"
  using assms by (cases rule: runBackend.cases) (auto elim: linux_Start.cases)

lemma backend_step_ok:
  assumes "runBackend w c r b b'" "backend_ok w c b"
  shows "case b' of None \<Rightarrow> c | Some b' \<Rightarrow> backend_ok w c b' \<and> be_place b' \<noteq> NotStarted \<and> (be_ready b \<longrightarrow> be_ready b')"
  using assms by (cases rule: runBackend.cases) (auto simp: backend_ok_def split: if_splits elim!: linux_Start.cases)

lemma backend_cancelled: "backend_ok w c b \<Longrightarrow> backend_ok w True b"
  by (auto simp: backend_ok_def)

lemma backend_enters: "backend_ok w c b \<Longrightarrow> be_place b = NotStarted \<Longrightarrow> backend_ok w c (b\<lparr>be_place := WaitConfig\<rparr>)"
  by (auto simp: backend_ok_def)

lemma phase_cancelled: "phase_ok ids phase ready bs c \<Longrightarrow> phase_ok ids phase ready bs True"
  by (auto simp: phase_ok_def split: hid_phase.splits)

lemma phase_backend:
  assumes "phase_ok ids phase ready bs c" "be_place (bs i) \<noteq> NotStarted" "be_ready (bs i) \<longrightarrow> be_ready b"
  shows "phase_ok ids phase ready (bs(i := b)) c"
  using assms by (cases phase) (auto simp: phase_ok_def)

lemma result_ok_same [simp]:
  "result_ok (s\<lparr>ag_backends := bs\<rparr>) = result_ok s" "result_ok (s\<lparr>ag_panicked := b\<rparr>) = result_ok s"
  by (simp_all add: result_ok_def split: option.split)

lemma cancelled_parts:
  assumes "agent_ok w ids s"
  shows "\<forall>i. backend_ok w True (ag_backends s i)" "phase_ok ids (ag_hid s) (ag_hidReady s) (ag_backends s) True"
  using assms backend_cancelled phase_cancelled unfolding agent_ok_def by blast+

lemma cancel_ok: "agent_ok w ids s \<Longrightarrow> agent_ok w ids (s\<lparr>ag_cancelled := True\<rparr>)"
  using cancelled_parts [of w ids s] by (auto simp: agent_ok_def result_ok_def split: option.splits)

lemma error_ok: "agent_ok w ids s \<Longrightarrow> ag_result s = None \<Longrightarrow> agent_ok w ids (group_error e s)"
  using cancelled_parts [of w ids s] by (simp add: agent_ok_def result_ok_def group_error_def)

lemma no_result: "agent_ok w ids s \<Longrightarrow> ag_config s \<noteq> Down \<or> ag_flow s \<noteq> Down \<or> ag_hid s \<noteq> HidDown \<Longrightarrow> ag_result s = None"
  by (auto simp: agent_ok_def result_ok_def split: option.splits)

lemma config_ok:
  assumes "config_step w s s'" "agent_ok w ids s"
  shows "agent_ok w ids s'"
proof -
  have r: "ag_result s = None" using assms(1) no_result [OF assms(2)] by (cases rule: config_step.cases) auto
  show ?thesis using assms(1)
    by (cases rule: config_step.cases)
      (use r assms(2) cancelled_parts [OF assms(2)] in \<open>simp_all add: agent_ok_def result_ok_def group_error_def\<close>)
qed

lemma flow_ok:
  assumes "flow_step w s s'" "agent_ok w ids s"
  shows "agent_ok w ids s'"
proof -
  have r: "ag_result s = None" using assms(1) no_result [OF assms(2)] by (cases rule: flow_step.cases) auto
  show ?thesis using assms(1)
    by (cases rule: flow_step.cases)
      (use r assms(2) cancelled_parts [OF assms(2)] in \<open>simp_all add: agent_ok_def result_ok_def group_error_def\<close>)
qed

lemma hid_ok:
  assumes "hid_step ids s s'" "agent_ok w ids s"
  shows "agent_ok w ids s'"
proof -
  have r: "ag_result s = None" using assms(1) no_result [OF assms(2)] by (cases rule: hid_step.cases) auto
  show ?thesis using assms(1)
  proof (cases rule: hid_step.cases)
    case backends
    have "phase_ok ids (ag_hid s') (ag_hidReady s') (ag_backends s') (ag_cancelled s')"
      using backends assms(2) by (auto simp: agent_ok_def phase_ok_def)
    moreover have "backend_ok w (ag_cancelled s) (ag_backends s' i)" for i
      using backends assms(2) backend_enters by (auto simp: agent_ok_def phase_ok_def)
    ultimately show ?thesis using backends assms(2) r by (simp add: agent_ok_def result_ok_def)
  next
    case (backend_ready i js)
    then show ?thesis using assms(2) r by (auto simp: agent_ok_def result_ok_def phase_ok_def)
  qed (use assms(2) r in \<open>simp_all add: agent_ok_def result_ok_def phase_ok_def\<close>)
qed

lemma backends_ok:
  assumes "agent_ok w ids s" "runBackend w (ag_cancelled s) (ag_configReady s) (ag_backends s i) (Some b)"
  shows "agent_ok w ids (s\<lparr>ag_backends := (ag_backends s)(i := b)\<rparr>)"
proof -
  have b: "backend_ok w (ag_cancelled s) b" "be_ready (ag_backends s i) \<longrightarrow> be_ready b" "be_place (ag_backends s i) \<noteq> NotStarted"
    using backend_step_ok [OF assms(2)] backend_running [OF assms(2)] assms(1) by (auto simp: agent_ok_def)
  have "phase_ok ids (ag_hid s) (ag_hidReady s) ((ag_backends s)(i := b)) (ag_cancelled s)"
    using assms(1) b(3,2) by (intro phase_backend) (simp_all add: agent_ok_def)
  then show ?thesis using assms(1) b(1) by (simp add: agent_ok_def)
qed

lemma agent_step_ok:
  assumes "agent_step w ids s s'" "agent_ok w ids s"
  shows "agent_ok w ids s'"
  using assms(1)
proof (cases rule: agent_step.cases)
  case (panic i)
  have "backend_ok w (ag_cancelled s) (ag_backends s i)" using assms(2) by (simp add: agent_ok_def)
  from backend_step_ok [OF panic(4) this] have "ag_cancelled s" by simp
  then show ?thesis using assms(2) panic(1) by (simp add: agent_ok_def)
next
  case returns
  then show ?thesis using cancelled_parts [OF assms(2)] assms(2) by (simp add: agent_ok_def result_ok_def)
qed (use assms(2) cancel_ok config_ok hid_ok flow_ok backends_ok in blast)+

lemma new_agent_ok: "agent_ok w ids new_agent"
  by (simp add: agent_ok_def new_agent_def backend_ok_def phase_ok_def result_ok_def)

lemma agent_reachable: "(agent_step w ids)\<^sup>*\<^sup>* s s' \<Longrightarrow> agent_ok w ids s \<Longrightarrow> agent_ok w ids s'"
  by (induction rule: rtranclp_induct) (auto intro: agent_step_ok)

text \<open>The agent is ready only with its backends, and panics only while it shuts down.\<close>

lemma ready_backends:
  "(agent_step w ids)\<^sup>*\<^sup>* new_agent s \<Longrightarrow> (ag_hidReady s \<longrightarrow> (\<forall>i \<in> set ids. be_ready (ag_backends s i))) \<and> (ag_panicked s \<longrightarrow> ag_cancelled s)"
  using agent_reachable [OF _ new_agent_ok] by (auto simp: agent_ok_def phase_ok_def)

text \<open>
  A configuration of virtual devices that is not valid does not make the agent fail: the HID service waits
  for the backend, and the backend tries again for ever.
\<close>

lemma invalid_uhid_waits:
  assumes "(agent_step w ids)\<^sup>*\<^sup>* new_agent s" "\<not> can_register w True" "ids \<noteq> []"
  shows "\<not> ag_hidReady s \<and> (\<not> ag_cancelled s \<longrightarrow> ag_hid s \<notin> {HidUp, HidDown} \<and> ag_result s = None \<and> ag_error s = None)"
proof -
  have ok: "agent_ok w ids s" using agent_reachable [OF assms(1) new_agent_ok] .
  obtain i where i: "i \<in> set ids" using assms(3) by (cases ids) auto
  have "\<not> be_ready (ag_backends s i)" using ok assms(2) by (auto simp: agent_ok_def backend_ok_def)
  then show ?thesis using ok i by (auto simp: agent_ok_def phase_ok_def result_ok_def split: hid_phase.splits option.splits)
qed

text \<open>After a cancellation the agent can always return, with the first error.\<close>

definition same_group :: "agent \<Rightarrow> agent \<Rightarrow> bool" where
  "same_group s x \<longleftrightarrow> ag_cancelled x = ag_cancelled s \<and> ag_error x = ag_error s \<and> ag_config x = ag_config s \<and> ag_flow x = ag_flow s
     \<and> ag_panicked x = ag_panicked s"

lemma up_down:
  assumes "ag_cancelled s" "\<not> ag_panicked s" "ag_hid s = HidUp"
  shows "\<exists>x. (agent_step w ids)\<^sup>*\<^sup>* s x \<and> ag_hid x = HidDown \<and> same_group s x"
proof -
  have "agent_step w ids s (s\<lparr>ag_hid := HidDown\<rparr>)" using assms hid_step.stop by (intro agent_step.hid) simp_all
  then show ?thesis by (intro exI [of _ "s\<lparr>ag_hid := HidDown\<rparr>"]) (auto simp: same_group_def)
qed

lemma backends_down:
  assumes "ag_cancelled s" "\<not> ag_panicked s" "ag_hid s = HidBackends js"
  shows "\<exists>x. (agent_step w ids)\<^sup>*\<^sup>* s x \<and> ag_hid x = HidDown \<and> same_group s x"
proof (cases js)
  case Nil
  let ?s = "s\<lparr>ag_hid := HidUp, ag_hidReady := True\<rparr>"
  have step: "agent_step w ids s ?s" using assms Nil hid_step.ready by (intro agent_step.hid) simp_all
  obtain x where "(agent_step w ids)\<^sup>*\<^sup>* ?s x \<and> ag_hid x = HidDown \<and> same_group ?s x"
    using up_down [of ?s w ids] assms(1,2) by auto
  then show ?thesis using step by (intro exI [of _ x]) (auto simp: same_group_def)
next
  case (Cons i ks)
  have "agent_step w ids s (s\<lparr>ag_hid := HidDown\<rparr>)" using assms Cons hid_step.backend_cancelled by (intro agent_step.hid) simp_all
  then show ?thesis by (intro exI [of _ "s\<lparr>ag_hid := HidDown\<rparr>"]) (auto simp: same_group_def)
qed

lemma hid_down:
  assumes "agent_ok w ids s" "ag_cancelled s" "\<not> ag_panicked s"
  shows "\<exists>x. (agent_step w ids)\<^sup>*\<^sup>* s x \<and> ag_hid x = HidDown \<and> same_group s x"
proof (cases "ag_hid s")
  case (HidBuses k)
  show ?thesis
  proof (cases "k < 3")
    case True
    have "agent_step w ids s (s\<lparr>ag_hid := HidDown\<rparr>)"
      using assms HidBuses True hid_step.bus_cancelled by (intro agent_step.hid) simp_all
    then show ?thesis by (intro exI [of _ "s\<lparr>ag_hid := HidDown\<rparr>"]) (auto simp: same_group_def)
  next
    case False
    then have k: "ag_hid s = HidBuses 3" using HidBuses assms(1) by (simp add: agent_ok_def phase_ok_def)
    let ?bs = "\<lambda>i. if i \<in> set ids then (ag_backends s i)\<lparr>be_place := WaitConfig\<rparr> else ag_backends s i"
    let ?s = "s\<lparr>ag_hid := HidBackends ids, ag_backends := ?bs\<rparr>"
    have step: "agent_step w ids s ?s" using assms hid_step.backends [OF k] by (intro agent_step.hid) simp_all
    obtain x where "(agent_step w ids)\<^sup>*\<^sup>* ?s x \<and> ag_hid x = HidDown \<and> same_group ?s x"
      using backends_down [of ?s ids w ids] assms(2,3) by auto
    then show ?thesis using step by (intro exI [of _ x]) (auto simp: same_group_def)
  qed
next
  case HidDown
  then show ?thesis by (auto simp: same_group_def)
qed (use up_down backends_down assms in blast)+

lemma agent_returns:
  assumes "agent_ok w ids s" "\<not> ag_panicked s" "can_watch w ok"
  shows "\<exists>s'. (agent_step w ids)\<^sup>*\<^sup>* s s' \<and> (\<exists>r. ag_result s' = Some r \<and> r = ag_error s' \<and> (ag_error s \<noteq> None \<longrightarrow> r = ag_error s))"
proof -
  let ?P = "\<lambda>s'. (agent_step w ids)\<^sup>*\<^sup>* s s' \<and> \<not> ag_panicked s' \<and> ag_cancelled s' \<and> (ag_error s \<noteq> None \<longrightarrow> ag_error s' = ag_error s)"
  have extend: "(agent_step w ids)\<^sup>*\<^sup>* s y" if "?P x" "agent_step w ids x y" for x y
    using that by (meson rtranclp.rtrancl_into_rtrancl)
  have "?P (s\<lparr>ag_cancelled := True\<rparr>)" using assms(2) agent_step.cancel [of s w ids] by auto
  then obtain s1 where s1: "?P s1" by blast
  have "\<exists>x. ?P x \<and> ag_config x \<noteq> Starting"
  proof (cases "ag_config s1 = Starting")
    case True
    let ?x = "if ok then s1\<lparr>ag_config := Up, ag_configReady := True\<rparr>
      else group_error ''failed to create fsnotify watcher'' (s1\<lparr>ag_config := Down\<rparr>)"
    have "agent_step w ids s1 ?x" using s1 config_step.watcher [OF True assms(3)] by (intro agent_step.config) simp_all
    from extend [OF s1 this] show ?thesis using s1 by (intro exI [of _ ?x]) (auto simp: group_error_def split: option.splits)
  qed (use s1 in blast)
  then obtain s2 where s2: "?P s2" "ag_config s2 \<noteq> Starting" by blast
  have "\<exists>x. ?P x \<and> ag_config x = Down"
  proof (cases "ag_config s2 = Up")
    case True
    have "agent_step w ids s2 (s2\<lparr>ag_config := Down\<rparr>)" using s2 config_step.stop [OF True] by (intro agent_step.config) simp_all
    from extend [OF s2(1) this] show ?thesis using s2 by (intro exI [of _ "s2\<lparr>ag_config := Down\<rparr>"]) simp
  next
    case False
    then have "ag_config s2 = Down" using s2(2) by (cases "ag_config s2") auto
    then show ?thesis using s2(1) by blast
  qed
  then obtain s3 where s3: "?P s3" "ag_config s3 = Down" by blast
  have "\<exists>x. ?P x \<and> ag_config x = Down \<and> ag_flow x = Down"
  proof (cases "ag_flow s3 = Down")
    case False
    have "flow_step w s3 (s3\<lparr>ag_flow := Down\<rparr>)"
      using False s3(1) by (cases "ag_flow s3") (auto intro: flow_step.intros)
    then have "agent_step w ids s3 (s3\<lparr>ag_flow := Down\<rparr>)" using s3 by (intro agent_step.flow) simp_all
    from extend [OF s3(1) this] show ?thesis using s3 by (intro exI [of _ "s3\<lparr>ag_flow := Down\<rparr>"]) simp
  qed (use s3 in blast)
  then obtain s4 where s4: "?P s4" "ag_config s4 = Down" "ag_flow s4 = Down" by blast
  have "agent_ok w ids s4" using agent_reachable s4(1) assms(1) by blast
  then obtain s5 where s5: "(agent_step w ids)\<^sup>*\<^sup>* s4 s5" "ag_hid s5 = HidDown" "same_group s4 s5"
    using hid_down s4(1) by blast
  have run: "(agent_step w ids)\<^sup>*\<^sup>* s s5" using s4(1) s5(1) by (meson rtranclp_trans)
  have ok: "agent_ok w ids s5" using agent_reachable [OF run assms(1)] .
  show ?thesis
  proof (cases "ag_result s5")
    case None
    let ?x = "s5\<lparr>ag_result := Some (ag_error s5), ag_cancelled := True\<rparr>"
    have "agent_step w ids s5 ?x" using None s4 s5 by (intro agent_step.returns) (simp_all add: same_group_def)
    with run have "(agent_step w ids)\<^sup>*\<^sup>* s ?x" by (rule rtranclp.rtrancl_into_rtrancl)
    then show ?thesis using s4(1) s5(3) by (intro exI [of _ ?x]) (simp add: same_group_def)
  next
    case (Some r)
    then have "r = ag_error s5" using ok by (simp add: agent_ok_def result_ok_def)
    then show ?thesis using run Some s4(1) s5(3) by (intro exI [of _ s5]) (simp add: same_group_def)
  qed
qed

text \<open>
  A backend that starts again after it was cancelled closes its channel a second time: the pause of the
  loop is over when the goroutine gets to look, and so is the wait for the configuration.
\<close>

definition lucky :: world where
  "lucky = \<lparr>can_watch = (\<lambda>b. b), can_register = (\<lambda>b. b), can_refresh = (\<lambda>b. b), can_flow = (\<lambda>b. b)\<rparr>"

lemma restart_panics:
  "be_place b = Backoff \<Longrightarrow> be_ready b \<Longrightarrow> \<exists>b'. (\<lambda>x y. runBackend lucky True True x (Some y))\<^sup>*\<^sup>* b b' \<and> runBackend lucky True True b' None"
proof -
  assume b: "be_place b = Backoff" "be_ready b"
  let ?r = "\<lambda>x y. runBackend lucky True True x (Some y)"
  let ?at = "\<lambda>p. b\<lparr>be_place := p\<rparr>"
  have "?r b (?at WaitConfig)" using b by (intro runBackend.again)
  moreover have "?r (?at WaitConfig) (?at RegisterUhid)"
    using linux_Start.config [of True "?at WaitConfig" lucky True] by (intro runBackend.start) simp
  moreover have "?r (?at RegisterUhid) (?at RefreshUhid)"
    using linux_Start.register [of lucky True "?at RegisterUhid" True True] by (intro runBackend.start) (simp add: lucky_def)
  moreover have "?r (?at RefreshUhid) (?at RefreshHid)"
    using linux_Start.uhid [of lucky True "?at RefreshUhid" True True] by (intro runBackend.start) (simp add: lucky_def)
  moreover have "?r (?at RefreshHid) (?at CloseReady)"
    using linux_Start.hid [of lucky True "?at RefreshHid" True True] by (intro runBackend.start) (simp add: lucky_def)
  moreover have "runBackend lucky True True (?at CloseReady) None"
    using linux_Start.close [of "?at CloseReady" lucky True True] b(2) by (intro runBackend.start) simp
  ultimately show ?thesis by (meson converse_rtranclp_into_rtranclp rtranclp.rtrancl_refl)
qed

end
