(* ===== verification/ValueJson.thy ===== *)
theory ValueJson
  imports FlowDsl
begin

section \<open>Values as JSON (flowapi/flowdsl/parser.go)\<close>

text \<open>
  How the values of a statement are captured by the parser, and how they are written as JSON and read
  again. What \<open>encoding/json\<close> does with strings and numbers is a parameter, with the laws it documents.
\<close>

subsection \<open>Captures\<close>

text \<open>The parser calls them with the tokens it matched; an empty list is an index error.\<close>

definition Boolean_Capture :: "string list \<Rightarrow> (string, bool) outcome" where
  "Boolean_Capture values = (case values of [] \<Rightarrow> Panic | v # _ \<Rightarrow> Ret (v = ''true''))"

definition Number_Capture :: "string list \<Rightarrow> (string, string) outcome" where
  "Number_Capture values = (case values of [] \<Rightarrow> Panic | v # _ \<Rightarrow> Ret v)"

definition Null_Capture :: "string list \<Rightarrow> (string, unit) outcome" where
  "Null_Capture values = Ret ()"

definition Duration_Capture :: "(string \<Rightarrow> int option) \<Rightarrow> string list \<Rightarrow> (string, int) outcome" where
  "Duration_Capture ParseDuration values =
     (case values of
        [] \<Rightarrow> Panic
      | v # _ \<Rightarrow> (case ParseDuration v of None \<Rightarrow> Fail ''invalid duration'' | Some d \<Rightarrow> Ret d))"

subsection \<open>Writing and reading\<close>

record json_lib =
  js_Marshal :: "string \<Rightarrow> string"
  js_Unmarshal :: "string \<Rightarrow> string option"
  js_MarshalNumber :: "string \<Rightarrow> string option"
  js_UnmarshalNumber :: "string \<Rightarrow> string option"

definition Value_MarshalJSON :: "json_lib \<Rightarrow> Value \<Rightarrow> (string, string) outcome" where
  "Value_MarshalJSON J v =
     (case v_String v of
        Some s \<Rightarrow> Ret (js_Marshal J s)
      | None \<Rightarrow>
          (case v_Number v of
             Some n \<Rightarrow> (case js_MarshalNumber J n of None \<Rightarrow> Fail ''invalid number literal'' | Some t \<Rightarrow> Ret t)
           | None \<Rightarrow>
               (case v_Boolean v of
                  Some b \<Rightarrow> Ret (if b then ''true'' else ''false'')
                | None \<Rightarrow> Ret ''null'')))"

text \<open>The case of \<open>false\<close> sets the value and falls out of the switch.\<close>

definition Value_UnmarshalJSON :: "json_lib \<Rightarrow> string \<Rightarrow> (string, Value) outcome" where
  "Value_UnmarshalJSON J data =
     (if data = ''null'' then Ret nullValue
      else if data = ''true'' then Ret (nullValue\<lparr>v_Boolean := Some True\<rparr>)
      else if length data > 2 \<and> hd data = CHR 0x22 \<and> last data = CHR 0x22 then
        (case js_Unmarshal J data of None \<Rightarrow> Fail ''invalid string'' | Some s \<Rightarrow> Ret (nullValue\<lparr>v_String := Some s\<rparr>))
      else (case js_UnmarshalNumber J data of
              None \<Rightarrow> Fail ''invalid number'' | Some n \<Rightarrow> Ret (nullValue\<lparr>v_Number := Some n\<rparr>)))"

subsection \<open>What is read back\<close>

text \<open>
  Strings are quoted and read back; a number is a JSON number or an error, and is written as it is;
  neither \<open>false\<close> nor an empty string is a number.
\<close>

definition json_laws :: "json_lib \<Rightarrow> bool" where
  "json_laws J \<longleftrightarrow>
     (\<forall>s. js_Unmarshal J (js_Marshal J s) = Some s \<and> hd (js_Marshal J s) = CHR 0x22 \<and> last (js_Marshal J s) = CHR 0x22
        \<and> length (js_Marshal J s) \<ge> length s + 2)
     \<and> js_Marshal J [] = [CHR 0x22, CHR 0x22]
     \<and> (\<forall>n t. js_MarshalNumber J n = Some t \<longrightarrow> t = n \<and> js_UnmarshalNumber J n = Some n \<and> n \<noteq> []
          \<and> hd n \<noteq> CHR 0x22 \<and> n \<noteq> ''null'' \<and> n \<noteq> ''true'')
     \<and> js_UnmarshalNumber J ''false'' = None \<and> js_UnmarshalNumber J [CHR 0x22, CHR 0x22] = None"

text \<open>The values that the parser makes: at most one field is set.\<close>

definition one_field :: "Value \<Rightarrow> bool" where
  "one_field v \<longleftrightarrow> v = nullValue \<or> (\<exists>s. v = nullValue\<lparr>v_String := Some s\<rparr>) \<or> (\<exists>n. v = nullValue\<lparr>v_Number := Some n\<rparr>)
     \<or> (\<exists>b. v = nullValue\<lparr>v_Boolean := Some b\<rparr>)"

lemma string_read:
  assumes "json_laws J" "s \<noteq> []"
  shows "Value_UnmarshalJSON J (js_Marshal J s) = Ret (nullValue\<lparr>v_String := Some s\<rparr>)"
proof -
  have *: "js_Unmarshal J (js_Marshal J s) = Some s" "hd (js_Marshal J s) = CHR 0x22" "last (js_Marshal J s) = CHR 0x22"
    "length (js_Marshal J s) \<ge> length s + 2" using assms(1) by (simp_all add: json_laws_def)
  have "js_Marshal J s \<noteq> ''null'' \<and> js_Marshal J s \<noteq> ''true''" using *(2) by auto
  moreover have "length s > 0" using assms(2) by simp
  then have "length (js_Marshal J s) > 2" using *(4) by linarith
  ultimately show ?thesis using * by (simp add: Value_UnmarshalJSON_def)
qed

text \<open>The value that was written is read back, but for \<open>false\<close> and the empty string, which are errors.\<close>

lemma value_read:
  assumes "json_laws J" "one_field v" "Value_MarshalJSON J v = Ret data"
  shows "Value_UnmarshalJSON J data =
    (if v_Boolean v = Some False \<or> v_String v = Some [] then Fail ''invalid number'' else Ret v)"
proof -
  consider "v = nullValue" | s where "v = nullValue\<lparr>v_String := Some s\<rparr>" | n where "v = nullValue\<lparr>v_Number := Some n\<rparr>"
    | b where "v = nullValue\<lparr>v_Boolean := Some b\<rparr>" using assms(2) by (auto simp: one_field_def)
  then show ?thesis
  proof cases
    case 1
    then show ?thesis using assms(3) by (auto simp: Value_MarshalJSON_def Value_UnmarshalJSON_def nullValue_def)
  next
    case (2 s)
    then have data: "data = js_Marshal J s" using assms(3) by (auto simp: Value_MarshalJSON_def nullValue_def)
    show ?thesis
    proof (cases "s = []")
      case True
      then show ?thesis using 2 data assms(1) by (simp add: json_laws_def Value_UnmarshalJSON_def nullValue_def)
    next
      case False
      then show ?thesis using 2 data string_read [OF assms(1)] by (simp add: nullValue_def)
    qed
  next
    case (3 n)
    then obtain t where "js_MarshalNumber J n = Some t" "data = t"
      using assms(3) by (auto simp: Value_MarshalJSON_def nullValue_def split: option.splits)
    then have n: "js_UnmarshalNumber J n = Some n" "hd n \<noteq> CHR 0x22" "n \<noteq> ''null''" "n \<noteq> ''true''" "data = n"
      using assms(1) by (auto simp: json_laws_def)
    then show ?thesis using 3 by (simp add: Value_UnmarshalJSON_def nullValue_def)
  next
    case (4 b)
    then show ?thesis using assms(1,3)
      by (cases b) (auto simp: Value_MarshalJSON_def Value_UnmarshalJSON_def nullValue_def json_laws_def)
  qed
qed

text \<open>Not every number of a statement is a number of JSON: one with a plus is matched by the lexer.\<close>

lemma plus_number: "js_MarshalNumber J ''+5'' = None \<Longrightarrow> Value_MarshalJSON J (nullValue\<lparr>v_Number := Some ''+5''\<rparr>) = Fail ''invalid number literal''"
  by (simp add: Value_MarshalJSON_def nullValue_def)

end
