(* ===== verification/DeviceAcquire.thy ===== *)
theory DeviceAcquire
  imports HidUsage
begin

section \<open>Taking a device from the system (linux_backend.go)\<close>

text \<open>
  \<open>Acquire\<close> of a hidraw device detaches the event devices next to it, by writing to their uevent files,
  and returns the function that attaches them again. udev and the files are parameters: the list of the
  devices it enumerates and whether a write succeeds. A write is a pair of path and contents.
\<close>

text \<open>\<open>filepath.Base\<close>\<close>

definition filepath_Base :: "string \<Rightarrow> string" where
  "filepath_Base path =
     (if path = [] then ''.''
      else let p = rev (dropWhile ((=) CHR ''/'') (rev path)) in if p = [] then ''/'' else last (split_at CHR ''/'' p))"

definition write_uevent :: "string \<Rightarrow> string \<Rightarrow> string \<times> string" where
  "write_uevent input contents = (input @ ''/uevent'', contents)"

text \<open>The loop: what it tried to write, and what it detached.\<close>

primrec detach_inputs :: "(string \<times> string \<Rightarrow> bool) \<Rightarrow> string list \<Rightarrow> (string \<times> string) list \<times> string list" where
  "detach_inputs write [] = ([], [])"
| "detach_inputs write (syspath # inputs) =
     (let (ws, detached) = detach_inputs write inputs
      in if \<not> has_prefix ''event'' (filepath_Base syspath) then (ws, detached)
         else let u = write_uevent syspath ''remove'' in (u # ws, if write u then syspath # detached else detached))"

definition release_inputs :: "string list \<Rightarrow> (string \<times> string) list" where
  "release_inputs detachedInputs = map (\<lambda>input. write_uevent input ''add'') detachedInputs"

definition Acquire ::
  "(string \<times> string \<Rightarrow> bool) \<Rightarrow> (string \<Rightarrow> 'd option) \<Rightarrow> ('d \<Rightarrow> string list option) \<Rightarrow> string
     \<Rightarrow> (string, (string \<times> string) list \<times> string list) outcome" where
  "Acquire write hidraw enumerateInputs path =
     (case hidraw (filepath_Base path) of
        None \<Rightarrow> Fail ''hidraw device not found in udev''
      | Some hidrawDev \<Rightarrow>
          (case enumerateInputs hidrawDev of
             None \<Rightarrow> Fail ''failed to list enumerateInputs devices''
           | Some inputs \<Rightarrow> Ret (detach_inputs write inputs)))"

text \<open>What the writes do to the set of detached devices.\<close>

definition apply_write :: "(string \<times> string \<Rightarrow> bool) \<Rightarrow> string set \<Rightarrow> string \<times> string \<Rightarrow> string set" where
  "apply_write write D u =
     (if \<not> write u then D
      else D \<union> {p. u = write_uevent p ''remove''} - {p. u = write_uevent p ''add''})"

lemma write_uevent_eq [simp]: "write_uevent p c = write_uevent q d \<longleftrightarrow> p = q \<and> c = d"
  by (simp add: write_uevent_def)

lemma detached_inputs:
  "detach_inputs write inputs = (ws, detached) \<Longrightarrow>
   foldl (apply_write write) D ws = D \<union> set detached
   \<and> set detached = {p \<in> set inputs. has_prefix ''event'' (filepath_Base p) \<and> write (write_uevent p ''remove'')}"
proof (induction inputs arbitrary: ws detached D)
  case (Cons p inputs)
  obtain ws1 d1 where r: "detach_inputs write inputs = (ws1, d1)" by (cases "detach_inputs write inputs")
  then show ?case using Cons.IH [OF r] Cons.prems
    by (auto simp: apply_write_def Let_def split: if_splits)
qed simp

lemma released_inputs:
  assumes "\<forall>p \<in> set detached. write (write_uevent p ''add'')"
  shows "foldl (apply_write write) D (release_inputs detached) = D - set detached"
  using assms
proof (induction detached arbitrary: D)
  case (Cons p detached)
  have "apply_write write D (write_uevent p ''add'') = D - {p}" using Cons.prems by (auto simp: apply_write_def)
  then show ?case using Cons by (auto simp: release_inputs_def)
qed (simp add: release_inputs_def)

text \<open>The event devices are detached, and attached again on release, and no other device is touched.\<close>

lemma acquire_release:
  assumes "Acquire write hidraw enumerateInputs path = Ret (ws, detached)" "\<forall>p \<in> set detached. write (write_uevent p ''add'')"
    "D \<inter> set detached = {}"
  shows "foldl (apply_write write) D ws = D \<union> set detached
    \<and> foldl (apply_write write) D (ws @ release_inputs detached) = D"
proof -
  obtain inputs where "detach_inputs write inputs = (ws, detached)"
    using assms(1) by (auto simp: Acquire_def split: option.splits)
  from detached_inputs [OF this, of D] show ?thesis using released_inputs [OF assms(2)] assms(3) by auto
qed

end
