(* ===== verification/MessageBus.thy ===== *)
theory MessageBus
  imports Main
begin

section \<open>The message bus (pkg/bus/bus.go)\<close>

text \<open>
  A bus has one worker, which takes a message and sends it first to the subscribers of all messages,
  then to those of its key. Channels have no buffer, so the worker waits at each subscriber. A channel
  is a number. A subscription ends in two steps, as the code has it: its channel is closed, then it is
  taken out of the maps, key by key. Sending on a closed channel panics. The steps of the worker, of
  the subscribers and of the goroutine that ends a subscription interleave freely. The bus of
  subscription events has no subscribers in this program and is left out.
\<close>

datatype bus_phase = BusIdle | BusGlobal | BusKeyed | BusPanicked

record ('k, 'm) Bus =
  bu_globalSubs :: "nat set"
  bu_keySubs :: "'k \<Rightarrow> nat set"
  bu_closed :: "nat set"
  bu_ending :: "nat \<Rightarrow> 'k list option"
  bu_next :: nat
  bu_phase :: bus_phase
  bu_message :: "('k \<times> 'm) option"
  bu_visited :: "nat set"
  bu_target :: "nat option"
  bu_published :: "('k \<times> 'm) list"
  bu_received :: "nat \<Rightarrow> ('k \<times> 'm) list"

definition NewBus :: "('k, 'm) Bus" where
  "NewBus = \<lparr>bu_globalSubs = {}, bu_keySubs = (\<lambda>k. {}), bu_closed = {}, bu_ending = (\<lambda>c. None), bu_next = 0,
     bu_phase = BusIdle, bu_message = None, bu_visited = {}, bu_target = None, bu_published = [], bu_received = (\<lambda>c. [])\<rparr>"

text \<open>\<open>Subscribe\<close> with no key is for all messages.\<close>

definition bus_Subscribe :: "'k list \<Rightarrow> ('k, 'm) Bus \<Rightarrow> ('k, 'm) Bus" where
  "bus_Subscribe keys b =
     (let c = bu_next b
      in if keys = [] then b\<lparr>bu_globalSubs := insert c (bu_globalSubs b), bu_next := c + 1\<rparr>
         else b\<lparr>bu_keySubs := (\<lambda>k. if k \<in> set keys then insert c (bu_keySubs b k) else bu_keySubs b k), bu_next := c + 1\<rparr>)"

text \<open>The end of a subscription: closing, then removing. \<open>bu_ending\<close> holds the keys still to do.\<close>

definition close_subscription :: "nat \<Rightarrow> 'k list \<Rightarrow> ('k, 'm) Bus \<Rightarrow> ('k, 'm) Bus" where
  "close_subscription c keys b = b\<lparr>bu_closed := insert c (bu_closed b), bu_ending := (bu_ending b)(c := Some keys)\<rparr>"

definition remove_global :: "nat \<Rightarrow> ('k, 'm) Bus \<Rightarrow> ('k, 'm) Bus" where
  "remove_global c b = b\<lparr>bu_globalSubs := bu_globalSubs b - {c}, bu_ending := (bu_ending b)(c := None)\<rparr>"

definition remove_key :: "nat \<Rightarrow> 'k \<Rightarrow> 'k list \<Rightarrow> ('k, 'm) Bus \<Rightarrow> ('k, 'm) Bus" where
  "remove_key c k keys b =
     b\<lparr>bu_keySubs := (bu_keySubs b)(k := bu_keySubs b k - {c}), bu_ending := (bu_ending b)(c := if keys = [] then None else Some keys)\<rparr>"

text \<open>The worker: what it takes, whom it sends to next, and the end of a pass.\<close>

definition bus_take :: "'k \<Rightarrow> 'm \<Rightarrow> ('k, 'm) Bus \<Rightarrow> ('k, 'm) Bus" where
  "bus_take k msg b = b\<lparr>bu_phase := BusGlobal, bu_message := Some (k, msg), bu_visited := {}, bu_target := None,
     bu_published := bu_published b @ [(k, msg)]\<rparr>"

definition bus_candidates :: "('k, 'm) Bus \<Rightarrow> nat set" where
  "bus_candidates b =
     (case (bu_phase b, bu_message b) of
        (BusGlobal, _) \<Rightarrow> bu_globalSubs b - bu_visited b
      | (BusKeyed, Some (k, msg)) \<Rightarrow> bu_keySubs b k - bu_visited b
      | _ \<Rightarrow> {})"

definition bus_send :: "nat \<Rightarrow> ('k, 'm) Bus \<Rightarrow> ('k, 'm) Bus" where
  "bus_send c b =
     (if c \<in> bu_closed b then b\<lparr>bu_phase := BusPanicked, bu_target := None\<rparr>
      else b\<lparr>bu_target := None, bu_received := (bu_received b)(c := bu_received b c @ (case bu_message b of None \<Rightarrow> [] | Some m \<Rightarrow> [m]))\<rparr>)"

definition bus_pass :: "('k, 'm) Bus \<Rightarrow> ('k, 'm) Bus" where
  "bus_pass b =
     (if bu_phase b = BusGlobal then b\<lparr>bu_phase := BusKeyed, bu_visited := {}\<rparr>
      else b\<lparr>bu_phase := BusIdle, bu_message := None, bu_visited := {}\<rparr>)"

inductive bus_step :: "('k, 'm) Bus \<Rightarrow> ('k, 'm) Bus \<Rightarrow> bool" where
  publish: "bu_phase b = BusIdle \<Longrightarrow> bus_step b (bus_take k msg b)"
| subscribe: "bu_phase b \<noteq> BusPanicked \<Longrightarrow> bus_step b (bus_Subscribe keys b)"
| pick: "bu_phase b \<in> {BusGlobal, BusKeyed} \<Longrightarrow> bu_target b = None \<Longrightarrow> c \<in> bus_candidates b \<Longrightarrow>
    bus_step b (b\<lparr>bu_target := Some c, bu_visited := insert c (bu_visited b)\<rparr>)"
| send: "bu_target b = Some c \<Longrightarrow> bus_step b (bus_send c b)"
| pass: "bu_phase b \<in> {BusGlobal, BusKeyed} \<Longrightarrow> bu_target b = None \<Longrightarrow> bus_candidates b = {} \<Longrightarrow> bus_step b (bus_pass b)"
| close_global: "c \<in> bu_globalSubs b \<Longrightarrow> c \<notin> bu_closed b \<Longrightarrow> bu_phase b \<noteq> BusPanicked \<Longrightarrow> bus_step b (close_subscription c [] b)"
| close_keys: "keys \<noteq> [] \<Longrightarrow> (\<forall>k. c \<in> bu_keySubs b k \<longleftrightarrow> k \<in> set keys) \<Longrightarrow> c \<notin> bu_closed b \<Longrightarrow> bu_phase b \<noteq> BusPanicked \<Longrightarrow>
    bus_step b (close_subscription c keys b)"
| end_global: "bu_ending b c = Some [] \<Longrightarrow> bu_phase b \<noteq> BusPanicked \<Longrightarrow> bus_step b (remove_global c b)"
| end_key: "bu_ending b c = Some (k # keys) \<Longrightarrow> bu_phase b \<noteq> BusPanicked \<Longrightarrow> bus_step b (remove_key c k keys b)"

inductive_cases bus_stepE: "bus_step b b'"

subsection \<open>Who receives what\<close>

text \<open>
  A subscriber that stays receives, in the order of publication and each once, the messages of its keys.
\<close>

definition interested :: "('k, 'm) Bus \<Rightarrow> nat \<Rightarrow> 'k \<Rightarrow> bool" where
  "interested b c k \<longleftrightarrow> c \<in> bu_globalSubs b \<or> c \<in> bu_keySubs b k"

definition wanted :: "('k, 'm) Bus \<Rightarrow> nat \<Rightarrow> ('k \<times> 'm) list \<Rightarrow> ('k \<times> 'm) list" where
  "wanted b c ms = filter (\<lambda>m. interested b c (fst m)) ms"

definition bus_ok :: "('k, 'm) Bus \<Rightarrow> bool" where
  "bus_ok b \<longleftrightarrow>
     (\<forall>c \<in> bu_globalSubs b. c < bu_next b \<and> (\<forall>k. c \<notin> bu_keySubs b k)) \<and> (\<forall>k. \<forall>c \<in> bu_keySubs b k. c < bu_next b)
     \<and> (bu_phase b \<in> {BusIdle, BusPanicked} \<longrightarrow> bu_target b = None)
     \<and> (\<forall>c. bu_target b = Some c \<longrightarrow> c \<in> bu_visited b)
     \<and> (\<forall>c. bu_ending b c \<noteq> None \<longrightarrow> c \<in> bu_closed b)"

lemma bus_ok_step: "bus_step b b' \<Longrightarrow> bus_ok b \<Longrightarrow> bus_ok b'"
proof (induction rule: bus_step.induct)
  case (subscribe b keys)
  then show ?case by (auto simp: bus_ok_def bus_Subscribe_def Let_def less_Suc_eq)
next
  case (pick b c)
  then show ?case by (auto simp: bus_ok_def)
next
  case (end_key b c k keys)
  then show ?case by (auto simp: bus_ok_def remove_key_def)
qed (auto simp: bus_ok_def bus_take_def bus_send_def bus_pass_def close_subscription_def remove_global_def)

lemma bus_ok_start: "bus_ok NewBus"
  by (simp add: bus_ok_def NewBus_def)

text \<open>What a subscriber has of the message in hand.\<close>

definition handed :: "('k, 'm) Bus \<Rightarrow> nat \<Rightarrow> bool" where
  "handed b c \<longleftrightarrow>
     (if c \<in> bu_globalSubs b then bu_phase b = BusKeyed \<or> c \<in> bu_visited b \<and> bu_target b \<noteq> Some c
      else bu_phase b = BusKeyed \<and> c \<in> bu_visited b \<and> bu_target b \<noteq> Some c)"

definition in_hand :: "('k, 'm) Bus \<Rightarrow> nat \<Rightarrow> ('k \<times> 'm) list" where
  "in_hand b c = (case bu_message b of None \<Rightarrow> [] | Some m \<Rightarrow> if bu_phase b \<in> {BusGlobal, BusKeyed} \<and> \<not> handed b c then wanted b c [m] else [])"

definition delivering :: "nat \<Rightarrow> ('k, 'm) Bus \<Rightarrow> nat \<Rightarrow> ('k, 'm) Bus \<Rightarrow> bool" where
  "delivering n b0 c b \<longleftrightarrow>
     (c \<in> bu_closed b \<or> bu_phase b = BusPanicked
      \<or> c < bu_next b \<and> (\<forall>k. interested b c k \<longleftrightarrow> interested b0 c k) \<and> (c \<in> bu_globalSubs b \<longleftrightarrow> c \<in> bu_globalSubs b0)
        \<and> n \<le> length (bu_published b)
        \<and> (bu_phase b \<in> {BusGlobal, BusKeyed} \<longrightarrow> bu_message b \<noteq> None \<and> (bu_target b = Some c \<longrightarrow> \<not> handed b c \<and> interested b c (fst (the (bu_message b)))
              \<and> (bu_phase b = BusGlobal \<longrightarrow> c \<in> bu_globalSubs b)))
        \<and> bu_received b c @ in_hand b c = bu_received b0 c @ wanted b0 c (drop n (bu_published b)))"

lemma wanted_same: "(\<forall>k. interested b c k \<longleftrightarrow> interested b0 c k) \<Longrightarrow> wanted b c ms = wanted b0 c ms"
  by (simp add: wanted_def)

lemma wanted_simps [simp]: "wanted b c [] = []" "wanted b c (xs @ ys) = wanted b c xs @ wanted b c ys"
  "wanted b c [m] = (if interested b c (fst m) then [m] else [])"
  by (simp_all add: wanted_def)

text \<open>Steps that leave a subscriber, its messages and its part of the pass alone.\<close>

lemma delivering_frame:
  assumes "delivering n b0 c b" "c \<notin> bu_closed b \<Longrightarrow> c \<notin> bu_closed b' \<Longrightarrow> bu_phase b \<noteq> BusPanicked \<Longrightarrow> bu_phase b' \<noteq> BusPanicked \<Longrightarrow> c < bu_next b \<Longrightarrow>
      c < bu_next b' \<and> (\<forall>k. interested b' c k = interested b c k) \<and> (c \<in> bu_globalSubs b' \<longleftrightarrow> c \<in> bu_globalSubs b)
      \<and> bu_published b' = bu_published b \<and> (bu_target b' = Some c \<longrightarrow> bu_target b = Some c)
      \<and> bu_message b' = bu_message b \<and> bu_phase b' = bu_phase b
      \<and> bu_received b' c = bu_received b c \<and> (handed b' c \<longleftrightarrow> handed b c)"
    and "bu_closed b \<subseteq> bu_closed b'" "bu_phase b = BusPanicked \<Longrightarrow> bu_phase b' = BusPanicked"
  shows "delivering n b0 c b'"
proof (cases "c \<in> bu_closed b' \<or> bu_phase b' = BusPanicked")
  case False
  then have open_: "c \<notin> bu_closed b" "bu_phase b \<noteq> BusPanicked" using assms(3,4) by auto
  then have less: "c < bu_next b" using assms(1) by (simp add: delivering_def)
  note f = assms(2) [OF open_(1) _ open_(2) _ less]
  have "in_hand b' c = in_hand b c" using f False wanted_same [of b' c b] by (simp add: in_hand_def split: option.splits)
  then show ?thesis using assms(1) f False open_ by (auto simp: delivering_def)
qed (auto simp: delivering_def)

lemma delivering_step:
  assumes "bus_step b b'" "bus_ok b" "delivering n b0 c b"
  shows "delivering n b0 c b'"
  using assms(1)
proof (cases rule: bus_step.cases)
  case (publish k msg)
  have same: "interested b' c i = interested b c i" "c \<in> bu_globalSubs b' \<longleftrightarrow> c \<in> bu_globalSubs b" for i
    by (simp_all add: publish(1) interested_def bus_take_def)
  have p: "bu_received b' = bu_received b" "bu_published b' = bu_published b @ [(k, msg)]" "bu_next b' = bu_next b"
    "bu_message b' = Some (k, msg)" "bu_target b' = None" "bu_phase b' = BusGlobal" "bu_visited b' = {}"
    by (simp_all add: publish(1) bus_take_def)
  have hand: "in_hand b c = []" "in_hand b' c = wanted b c [(k, msg)]"
    using same by (simp_all add: in_hand_def publish(2) handed_def p split: option.splits)
  show ?thesis
  proof (cases "c \<in> bu_closed b")
    case False
    then have d: "bu_received b c = bu_received b0 c @ wanted b0 c (drop n (bu_published b))"
      "\<forall>k. interested b c k \<longleftrightarrow> interested b0 c k" "n \<le> length (bu_published b)" "c < bu_next b"
      "c \<in> bu_globalSubs b \<longleftrightarrow> c \<in> bu_globalSubs b0"
      using assms(3) publish(2) hand(1) by (auto simp: delivering_def)
    show ?thesis using d same hand(2) wanted_same [OF d(2)] by (simp add: delivering_def p)
  qed (auto simp: delivering_def publish(1) bus_take_def)
next
  case (subscribe keys)
  show ?thesis unfolding subscribe(1)
    by (rule delivering_frame [OF assms(3)])
      (auto simp: bus_Subscribe_def Let_def interested_def handed_def)
next
  case (pick d)
  show ?thesis
  proof (cases "d = c")
    case False
    show ?thesis unfolding pick(1)
      by (rule delivering_frame [OF assms(3)]) (use False pick in \<open>auto simp: interested_def handed_def\<close>)
  next
    case True
    have "\<not> handed b' c" "\<not> handed b c"
      using pick True assms(2) by (auto simp: handed_def bus_candidates_def bus_ok_def split: option.splits)
    moreover from this have "in_hand b' c = in_hand b c"
      by (simp add: in_hand_def pick(1) wanted_def interested_def split: option.splits)
    ultimately show ?thesis
      using assms(3) pick True by (auto simp: delivering_def interested_def bus_candidates_def wanted_def split: option.splits)
  qed
next
  case (send d)
  show ?thesis
  proof (cases "d = c \<and> c \<notin> bu_closed b")
    case False
    then show ?thesis
      unfolding send(1) using send(2)
      by (cases "d \<in> bu_closed b"; intro delivering_frame [OF assms(3)])
        (auto simp: bus_send_def interested_def handed_def)
  next
    case True
    have phase: "bu_phase b \<in> {BusGlobal, BusKeyed}" "c \<in> bu_visited b"
      using send(2) True assms(2) by (cases "bu_phase b"; auto simp: bus_ok_def)+
    show ?thesis
    proof (cases "bu_phase b = BusPanicked")
      case False
      then obtain m where m: "bu_message b = Some m" "interested b c (fst m)" "\<not> handed b c"
        "bu_phase b = BusGlobal \<longrightarrow> c \<in> bu_globalSubs b"
        using assms(3) phase(1) send(2) True by (auto simp: delivering_def)
      then have "in_hand b c = [m]" using m phase(1) by (simp add: in_hand_def)
      moreover have "in_hand b' c = []"
        using send True phase m by (auto simp: in_hand_def bus_send_def handed_def interested_def)
      ultimately show ?thesis
        using assms(3) send True m by (auto simp: delivering_def bus_send_def interested_def wanted_def)
    qed (use phase in simp)
  qed
next
  case pass
  show ?thesis
  proof (cases "c \<in> bu_closed b")
    case False
    then obtain m where m: "bu_message b = Some m" using assms(3) pass(2) by (auto simp: delivering_def)
    have "in_hand b' c = in_hand b c"
      using pass m assms(2)
      by (cases m) (auto simp: in_hand_def bus_pass_def handed_def bus_candidates_def wanted_def interested_def split: if_splits)
    then show ?thesis
      using assms(3) pass m by (auto simp: delivering_def bus_pass_def interested_def)
  qed (use pass in \<open>auto simp: delivering_def bus_pass_def\<close>)
next
  case (close_global d)
  show ?thesis unfolding close_global(1)
    by (rule delivering_frame [OF assms(3)]) (auto simp: close_subscription_def interested_def handed_def)
next
  case (close_keys keys d)
  show ?thesis unfolding close_keys(1)
    by (rule delivering_frame [OF assms(3)]) (auto simp: close_subscription_def interested_def handed_def)
next
  case (end_global d)
  then have "d \<in> bu_closed b" using assms(2) by (auto simp: bus_ok_def)
  then show ?thesis unfolding end_global(1)
    by (intro delivering_frame [OF assms(3)]) (auto simp: remove_global_def interested_def handed_def)
next
  case (end_key d k keys)
  then have "d \<in> bu_closed b" using assms(2) by (auto simp: bus_ok_def)
  then show ?thesis unfolding end_key(1)
    by (intro delivering_frame [OF assms(3)]) (auto simp: remove_key_def interested_def handed_def)
qed

lemma bus_delivers_between:
  assumes "bus_step\<^sup>*\<^sup>* NewBus b" "bus_step\<^sup>*\<^sup>* b b'" "bu_phase b = BusIdle" "bu_phase b' = BusIdle" "c < bu_next b" "c \<notin> bu_closed b'"
  shows "bu_received b' c = bu_received b c @ wanted b c (drop (length (bu_published b)) (bu_published b'))"
proof -
  have "bus_ok b" using assms(1) by (induction rule: rtranclp_induct) (auto intro: bus_ok_start bus_ok_step)
  moreover have "delivering (length (bu_published b)) b c b"
    using assms(3,5) by (simp add: delivering_def in_hand_def split: option.splits)
  ultimately have "bus_ok b' \<and> delivering (length (bu_published b)) b c b'"
    using assms(2) by (induction rule: rtranclp_induct [OF assms(2)]) (auto intro: bus_ok_step delivering_step)
  then show ?thesis using assms(4,6) by (auto simp: delivering_def in_hand_def split: option.splits)
qed

text \<open>A subscriber whose channel is closed while it is still in the map makes the worker panic.\<close>

lemma bus_panic_reachable: "\<exists>b :: (nat, nat) Bus. bus_step\<^sup>*\<^sup>* NewBus b \<and> bu_phase b = BusPanicked"
proof -
  let ?b0 = "NewBus :: (nat, nat) Bus"
  let ?b1 = "bus_Subscribe [] ?b0"
  let ?b2 = "bus_take 0 0 ?b1"
  let ?b3 = "close_subscription 0 [] ?b2"
  let ?b4 = "?b3\<lparr>bu_target := Some 0, bu_visited := insert 0 (bu_visited ?b3)\<rparr>"
  note defs = NewBus_def bus_Subscribe_def bus_take_def close_subscription_def bus_candidates_def
  have s1: "bus_step ?b0 ?b1" by (rule subscribe) (simp add: NewBus_def)
  have s2: "bus_step ?b1 ?b2" by (rule publish) (simp add: defs)
  have s3: "bus_step ?b2 ?b3" by (rule close_global) (simp_all add: defs)
  have s4: "bus_step ?b3 ?b4" by (rule pick) (simp_all add: defs)
  have s5: "bus_step ?b4 (bus_send 0 ?b4)" by (rule send) simp
  have "bus_step\<^sup>*\<^sup>* ?b0 (bus_send 0 ?b4)"
    by (rule converse_rtranclp_into_rtranclp, rule s1, rule converse_rtranclp_into_rtranclp, rule s2,
        rule converse_rtranclp_into_rtranclp, rule s3, rule converse_rtranclp_into_rtranclp, rule s4,
        rule converse_rtranclp_into_rtranclp, rule s5, rule rtranclp.rtrancl_refl)
  moreover have "bu_phase (bus_send 0 ?b4) = BusPanicked" by (simp add: bus_send_def defs)
  ultimately show ?thesis by blast
qed

end
