(* ===== verification/EventBus.thy ===== *)
theory EventBus
  imports MessageBus
begin

section \<open>The bus of subscription events (pkg/bus/bus.go)\<close>

text \<open>
  Beside its messages a bus has events that say who subscribed. They go through a channel, a worker and
  subscribers of their own, whose code is that of the messages: it is a second bus of theory MessageBus.
  A subscription stores its channel key by key and announces each key; announcing waits for the worker.
  The end of a subscription is announced with a context that has ended, and may be left out.
\<close>

datatype EventType = EventTypeSubscribed | EventTypeUnsubscribed

record ('k, 'm) FullBus =
  fb_messages :: "('k, 'm) Bus"
  fb_events :: "('k, EventType) Bus"

definition NewFullBus :: "('k, 'm) FullBus" where
  "NewFullBus = \<lparr>fb_messages = NewBus, fb_events = NewBus\<rparr>"

subsection \<open>A subscription in its parts\<close>

datatype 'k bus_op = StoreGlobal | StoreKey 'k | CloseChannel | DeleteGlobal | DeleteKey 'k | PublishEvent 'k EventType

definition subscribe_ops :: "'k \<Rightarrow> 'k list \<Rightarrow> 'k bus_op list" where
  "subscribe_ops zeroKey keys =
     (if keys = [] then [StoreGlobal, PublishEvent zeroKey EventTypeSubscribed]
      else concat (map (\<lambda>k. [StoreKey k, PublishEvent k EventTypeSubscribed]) keys))"

text \<open>The goroutine that waits for the end of the context.\<close>

definition unsubscribe_ops :: "'k \<Rightarrow> 'k list \<Rightarrow> 'k bus_op list" where
  "unsubscribe_ops zeroKey keys =
     (if keys = [] then [CloseChannel, DeleteGlobal, PublishEvent zeroKey EventTypeUnsubscribed]
      else CloseChannel # concat (map (\<lambda>k. [DeleteKey k, PublishEvent k EventTypeUnsubscribed]) keys))"

text \<open>A channel of its own, and one part. An announcement needs the worker of the events to be idle.\<close>

definition make_channel :: "('k, 'm) FullBus \<Rightarrow> nat \<times> ('k, 'm) FullBus" where
  "make_channel b = (bu_next (fb_messages b), b\<lparr>fb_messages := (fb_messages b)\<lparr>bu_next := bu_next (fb_messages b) + 1\<rparr>\<rparr>)"

definition run_op :: "nat \<Rightarrow> 'k bus_op \<Rightarrow> ('k, 'm) FullBus \<Rightarrow> ('k, 'm) FullBus" where
  "run_op c x b =
     (let m = fb_messages b in
      case x of
        StoreGlobal \<Rightarrow> b\<lparr>fb_messages := m\<lparr>bu_globalSubs := insert c (bu_globalSubs m)\<rparr>\<rparr>
      | StoreKey k \<Rightarrow> b\<lparr>fb_messages := m\<lparr>bu_keySubs := (bu_keySubs m)(k := insert c (bu_keySubs m k))\<rparr>\<rparr>
      | CloseChannel \<Rightarrow> b\<lparr>fb_messages := m\<lparr>bu_closed := insert c (bu_closed m)\<rparr>\<rparr>
      | DeleteGlobal \<Rightarrow> b\<lparr>fb_messages := m\<lparr>bu_globalSubs := bu_globalSubs m - {c}\<rparr>\<rparr>
      | DeleteKey k \<Rightarrow> b\<lparr>fb_messages := m\<lparr>bu_keySubs := (bu_keySubs m)(k := bu_keySubs m k - {c})\<rparr>\<rparr>
      | PublishEvent k e \<Rightarrow> b\<lparr>fb_events := bus_take k e (fb_events b)\<rparr>)"

subsection \<open>The worker of the events\<close>

definition processEvent :: "('k, EventType) Bus \<Rightarrow> ('k, EventType) Bus \<Rightarrow> bool" where
  "processEvent b b' \<longleftrightarrow> bu_phase b \<noteq> BusIdle \<and> bus_step b b'"

definition SubscribeEvents :: "'k list \<Rightarrow> ('k, 'm) FullBus \<Rightarrow> ('k, 'm) FullBus" where
  "SubscribeEvents keys b = b\<lparr>fb_events := bus_Subscribe keys (fb_events b)\<rparr>"

text \<open>With nobody interested the worker passes an event by and is idle again, so nobody waits for ever.\<close>

definition no_subscribers :: "('k, 'e) Bus \<Rightarrow> bool" where
  "no_subscribers b \<longleftrightarrow> bu_globalSubs b = {} \<and> bu_keySubs b = (\<lambda>k. {})"

lemma event_passes:
  assumes "no_subscribers b" "bu_phase b = BusIdle"
  shows "\<exists>b'. processEvent\<^sup>*\<^sup>* (bus_take k e b) b' \<and> bu_phase b' = BusIdle \<and> no_subscribers b'
    \<and> bu_received b' = bu_received b \<and> bu_published b' = bu_published b @ [(k, e)]"
proof -
  let ?b1 = "bus_take k e b" and ?b2 = "bus_pass (bus_take k e b)"
  note defs = bus_take_def bus_pass_def bus_candidates_def no_subscribers_def
  have "processEvent ?b1 ?b2"
    unfolding processEvent_def using assms(1) by (intro conjI bus_step.pass) (simp_all add: defs)
  moreover have "processEvent ?b2 (bus_pass ?b2)"
    unfolding processEvent_def using assms(1) by (intro conjI bus_step.pass) (simp_all add: defs)
  ultimately have "processEvent\<^sup>*\<^sup>* ?b1 (bus_pass ?b2)" by (meson converse_rtranclp_into_rtranclp rtranclp.rtrancl_refl)
  then show ?thesis using assms(1) by (intro exI [of _ "bus_pass ?b2"]) (simp add: defs)
qed

text \<open>The parts of a subscription, with the worker idle before each announcement, make up what \<open>Subscribe\<close> does.\<close>

primrec subscribing :: "nat \<Rightarrow> 'k bus_op list \<Rightarrow> ('k, 'm) FullBus \<Rightarrow> ('k, 'm) FullBus \<Rightarrow> bool" where
  "subscribing c [] b b' \<longleftrightarrow> b' = b"
| "subscribing c (x # xs) b b' \<longleftrightarrow>
     (\<exists>e. processEvent\<^sup>*\<^sup>* (fb_events b) e \<and> ((\<exists>k t. x = PublishEvent k t) \<longrightarrow> bu_phase e = BusIdle)
        \<and> subscribing c xs (run_op c x (b\<lparr>fb_events := e\<rparr>)) b')"

lemma subscribing_append: "subscribing c (xs @ ys) b b' \<longleftrightarrow> (\<exists>b1. subscribing c xs b b1 \<and> subscribing c ys b1 b')"
  by (induction xs arbitrary: b) auto

lemma subscribing_key:
  "subscribing c [StoreKey k, PublishEvent k t] b b' \<Longrightarrow>
   fb_messages b' = (fb_messages b)\<lparr>bu_keySubs := (bu_keySubs (fb_messages b))(k := insert c (bu_keySubs (fb_messages b) k))\<rparr>"
  by (auto simp: run_op_def Let_def)

lemma subscribing_keys:
  "subscribing c (concat (map (\<lambda>k. [StoreKey k, PublishEvent k t]) keys)) b b' \<Longrightarrow>
   fb_messages b' = (fb_messages b)\<lparr>bu_keySubs :=
     (\<lambda>k. if k \<in> set keys then insert c (bu_keySubs (fb_messages b) k) else bu_keySubs (fb_messages b) k)\<rparr>"
proof (induction keys arbitrary: b)
  case (Cons k keys)
  obtain b1 where b1: "subscribing c [StoreKey k, PublishEvent k t] b b1"
    "subscribing c (concat (map (\<lambda>k. [StoreKey k, PublishEvent k t]) keys)) b1 b'"
    using Cons.prems subscribing_append [of c "[StoreKey k, PublishEvent k t]" _ b b'] by auto
  have "(\<lambda>i. if i \<in> set keys then insert c (bu_keySubs (fb_messages b1) i) else bu_keySubs (fb_messages b1) i)
      = (\<lambda>i. if i \<in> set (k # keys) then insert c (bu_keySubs (fb_messages b) i) else bu_keySubs (fb_messages b) i)"
    using subscribing_key [OF b1(1)] by (intro ext) (simp cong: if_cong)
  then show ?case using Cons.IH [OF b1(2)] subscribing_key [OF b1(1)] by simp
qed simp

lemma subscribe_in_parts:
  assumes "subscribing (fst (make_channel b)) (subscribe_ops zeroKey keys) (snd (make_channel b)) b'"
  shows "fb_messages b' = bus_Subscribe keys (fb_messages b)"
proof (cases "keys = []")
  case True
  then show ?thesis using assms by (auto simp: subscribe_ops_def make_channel_def run_op_def bus_Subscribe_def Let_def)
next
  case False
  then have "subscribing (fst (make_channel b)) (concat (map (\<lambda>k. [StoreKey k, PublishEvent k EventTypeSubscribed]) keys)) (snd (make_channel b)) b'"
    using assms by (simp add: subscribe_ops_def)
  from subscribing_keys [OF this] show ?thesis using False by (simp add: make_channel_def bus_Subscribe_def Let_def cong: if_cong)
qed

subsection \<open>Publishers and subscribers as functions\<close>

definition CreatePublisher :: "'k \<Rightarrow> 'm \<Rightarrow> ('k, 'm) FullBus \<Rightarrow> ('k, 'm) FullBus" where
  "CreatePublisher key = (\<lambda>msg b. b\<lparr>fb_messages := bus_take key msg (fb_messages b)\<rparr>)"

definition CreateSubscriber :: "'k list \<Rightarrow> ('k, 'm) FullBus \<Rightarrow> ('k, 'm) FullBus" where
  "CreateSubscriber keys = (\<lambda>b. b\<lparr>fb_messages := bus_Subscribe keys (fb_messages b)\<rparr>)"

text \<open>
  A subscriber of messages without keys: what its goroutine passed on, and the message it holds. It ends,
  with the message it holds lost, when the context does.
\<close>

record ('k, 'm) message_subscriber =
  ms_input :: "('k \<times> 'm) list"
  ms_held :: "'m option"
  ms_output :: "'m list"
  ms_ended :: bool

inductive message_step :: "bool \<Rightarrow> ('k, 'm) message_subscriber \<Rightarrow> ('k, 'm) message_subscriber \<Rightarrow> bool" for cancelled where
  receive: "\<not> ms_ended s \<Longrightarrow> ms_held s = None \<Longrightarrow> ms_input s = (k, m) # rest \<Longrightarrow>
    message_step cancelled s (s\<lparr>ms_input := rest, ms_held := Some m\<rparr>)"
| pass_on: "\<not> ms_ended s \<Longrightarrow> ms_held s = Some m \<Longrightarrow> message_step cancelled s (s\<lparr>ms_held := None, ms_output := ms_output s @ [m]\<rparr>)"
| context_done: "cancelled \<Longrightarrow> \<not> ms_ended s \<Longrightarrow> ms_held s = Some m \<Longrightarrow> message_step cancelled s (s\<lparr>ms_held := None, ms_ended := True\<rparr>)"
| closed: "cancelled \<Longrightarrow> \<not> ms_ended s \<Longrightarrow> ms_held s = None \<Longrightarrow> ms_input s = [] \<Longrightarrow> message_step cancelled s (s\<lparr>ms_ended := True\<rparr>)"

definition CreateMessageSubscriber :: "('k \<times> 'm) list \<Rightarrow> ('k, 'm) message_subscriber" where
  "CreateMessageSubscriber ms = \<lparr>ms_input = ms, ms_held = None, ms_output = [], ms_ended = False\<rparr>"

text \<open>What comes out are the first of the messages that came in, and until the end of the context none is lost.\<close>

lemma messages_passed:
  "(message_step cancelled)\<^sup>*\<^sup>* (CreateMessageSubscriber ms) s \<Longrightarrow>
   \<exists>ls. map snd ms = ms_output s @ (case ms_held s of None \<Rightarrow> [] | Some m \<Rightarrow> [m]) @ ls
     \<and> (\<not> ms_ended s \<longrightarrow> ls = map snd (ms_input s)) \<and> (ms_ended s \<longrightarrow> cancelled \<and> ms_held s = None)"
proof (induction rule: rtranclp_induct)
  case base
  then show ?case by (simp add: CreateMessageSubscriber_def)
next
  case (step s s')
  from step.hyps(2) step.IH show ?case by (cases rule: message_step.cases) auto
qed

end
