(* ===== verification/EventText.thy ===== *)
theory EventText
  imports HidEvent PageGenerator
begin

section \<open>Events as text (hidapi/event.go)\<close>

text \<open>
  What the log shows of an event. The name of a usage may panic (theory HidUsage), and so may the text of
  an event with it.
\<close>

text \<open>The first of the three fields that is set; the sign of a 32-bit number wraps around.\<close>

definition UsageEvent_String :: "(u16 \<rightharpoonup> PageInfo) \<Rightarrow> UsageEvent \<Rightarrow> string option" where
  "UsageEvent_String pages u =
     (case ue_Activate u of
        Some on \<Rightarrow> map_option (\<lambda>s. (if on then ''+'' else ''-'') @ s) (Usage_String pages (ue_Usage u))
      | None \<Rightarrow>
          (case ue_Delta u of
             Some d \<Rightarrow>
               map_option (\<lambda>s. s @ (if sint d > 0 then ''+='' @ format_int (sint d) else ''-='' @ format_int (sint (- d))))
                 (Usage_String pages (ue_Usage u))
           | None \<Rightarrow>
               (case ue_Value u of
                  Some v \<Rightarrow> map_option (\<lambda>s. s @ ''='' @ format_int (sint v)) (Usage_String pages (ue_Usage u))
                | None \<Rightarrow> Some ''(empty)'')))"

definition Event_String :: "(u16 \<rightharpoonup> PageInfo) \<Rightarrow> Event \<Rightarrow> string option" where
  "Event_String pages e =
     map_option (strings_Join '', '')
       (fold_opt (\<lambda>parts usage. map_option (\<lambda>s. parts @ [s]) (UsageEvent_String pages usage)) (ev_usages e) [])"

lemma usage_text: "Usage_String pages (ue_Usage u) \<noteq> None \<Longrightarrow> UsageEvent_String pages u \<noteq> None"
  by (auto simp: UsageEvent_String_def split: option.split)

lemma parts_named:
  "\<forall>u \<in> set us. Usage_String pages (ue_Usage u) \<noteq> None \<Longrightarrow>
   \<exists>parts'. fold_opt (\<lambda>parts usage. map_option (\<lambda>s. parts @ [s]) (UsageEvent_String pages usage)) us parts = Some parts'"
proof (induction us arbitrary: parts)
  case (Cons u us)
  then obtain s where "UsageEvent_String pages u = Some s"
    using usage_text [of pages u] by auto
  then show ?case using Cons by simp
qed simp

text \<open>The text exists when the names of the usages do.\<close>

lemma event_text: "\<forall>u \<in> set (ev_usages e). Usage_String pages (ue_Usage u) \<noteq> None \<Longrightarrow> \<exists>s. Event_String pages e = Some s"
  using parts_named [of "ev_usages e" pages "[]"] by (auto simp: Event_String_def)

text \<open>The least delta is its own negative.\<close>

lemma least_delta:
  "Usage_String pages u = Some s \<Longrightarrow>
   UsageEvent_String pages \<lparr>ue_Usage = u, ue_Activate = None, ue_Value = None, ue_Delta = Some 0x80000000\<rparr> = Some (s @ ''-=-2147483648'')"
  by (simp add: UsageEvent_String_def format_int_def format_decimal_def digits_of.simps hex_digit_def)

end
