(* ===== verification/ActionCreators.thy ===== *)
theory ActionCreators
  imports FlowRegistry AsyncActions
begin

section \<open>How statements become actions (components/actions)\<close>

text \<open>
  The descriptors of the actions and their \<open>CreateHandler\<close> functions, which read the arguments of a
  statement and make the handler. Handlers are the trees of theory AsyncActions, signals are numbers.
  An action argument that is \<open>null\<close> is a nil handler. Durations are in nanoseconds.
\<close>

subsection \<open>Descriptors\<close>

record ActionDescriptor =
  xd_DisplayName :: string
  xd_Description :: string
  xd_Signature :: string

definition none_Descriptor :: ActionDescriptor where
  "none_Descriptor = \<lparr>xd_DisplayName = ''None'', xd_Description = ''No action'', xd_Signature = ''none()''\<rparr>"

definition mod_Descriptor :: ActionDescriptor where
  "mod_Descriptor = \<lparr>xd_DisplayName = ''Modifier'',
     xd_Description = ''Perform an action with active modifier key (or any other HID usage)'',
     xd_Signature = ''mod(modifier: Usage, action: Action, delay: Duration = 1ms)''\<rparr>"

definition char_Descriptor :: ActionDescriptor where
  "char_Descriptor = \<lparr>xd_DisplayName = ''Char'',
     xd_Description = ''Maps one ASCII character to a keyboard Usage. Only works for US layouts.'',
     xd_Signature = ''char(char: string, rightShift: boolean = false, modDelay: Duration = 1ms)''\<rparr>"

definition sendString_Descriptor :: ActionDescriptor where
  "sendString_Descriptor = \<lparr>xd_DisplayName = ''Send String'',
     xd_Description = ''Send a string of ASCII characters in quick succession.'',
     xd_Signature = ''sendString(value: string, rightShift: boolean = false, delay: Duration = 4ms, modDuration: Duration = 1ms)''\<rparr>"

definition tap_Descriptor :: ActionDescriptor where
  "tap_Descriptor = \<lparr>xd_DisplayName = ''Tap'', xd_Description = ''Tap action'',
     xd_Signature = ''tap(action: Action, duration: Duration = 2ms)''\<rparr>"

definition tapHold_Descriptor :: ActionDescriptor where
  "tapHold_Descriptor = \<lparr>xd_DisplayName = ''Tap Hold'', xd_Description = ''Tap and hold action'',
     xd_Signature = ''tapHold(onTap: Action, onHold: Action, delay: Duration = 250ms, tapDuration: Duration = 1ms, interrupt: boolean = true)''\<rparr>"

definition lock_Descriptor :: ActionDescriptor where
  "lock_Descriptor = \<lparr>xd_DisplayName = ''Lock'',
     xd_Description = ''Locks a button until it'' @ [CHR 0x27] @ ''s pressed again.'', xd_Signature = ''lock(action: Action)''\<rparr>"

definition signal_Descriptor :: ActionDescriptor where
  "signal_Descriptor = \<lparr>xd_DisplayName = ''Signal'', xd_Description = '''',
     xd_Signature = ''signal(onActivate: Signal = null, onDeactivate: Signal = null)''\<rparr>"

definition repeat_Descriptor :: ActionDescriptor where
  "repeat_Descriptor = \<lparr>xd_DisplayName = ''Repeat'', xd_Description = '''',
     xd_Signature = ''repeat(action: Action, delay: Duration = 150ms, interval: Duration = 50ms, tapDuration: Duration = 1ms)''\<rparr>"

subsection \<open>Handlers from arguments\<close>

type_synonym act_provider = "(act, nat) ActionProvider"

definition handler_arg :: "act option \<Rightarrow> act" where
  "handler_arg h = (case h of None \<Rightarrow> NilAct | Some a \<Rightarrow> a)"

definition duration_arg :: "act_provider \<Rightarrow> string \<Rightarrow> (string, int) outcome" where
  "duration_arg p name = of_panic (Arguments_Duration (ap_Args p) name)"

definition boolean_arg :: "act_provider \<Rightarrow> string \<Rightarrow> (string, bool) outcome" where
  "boolean_arg p name = of_panic (Arguments_Boolean (ap_Args p) name)"

definition string_arg :: "act_provider \<Rightarrow> string \<Rightarrow> (string, string) outcome" where
  "string_arg p name = of_panic (Arguments_String (ap_Args p) name)"

definition none_CreateHandler :: "act_provider \<Rightarrow> (string, act option) outcome" where
  "none_CreateHandler p = Ret (Some NoneAct)"

definition mod_CreateHandler ::
  "(u16 \<rightharpoonup> PageInfo) \<Rightarrow> (string \<rightharpoonup> u16) \<Rightarrow> act_provider \<Rightarrow> (string, act option) outcome" where
  "mod_CreateHandler pages aliases p =
     obind (Arguments_Usages pages aliases (ap_Args p) ''modifier'') (\<lambda>modifier.
     obind (ap_ActionArg p ''action'') (\<lambda>action.
     obind (duration_arg p ''delay'') (\<lambda>delay.
     Ret (Some (ModAct modifier (handler_arg action) delay)))))"

definition NewCharActionHandler :: "int \<Rightarrow> bool \<Rightarrow> int \<Rightarrow> (string, act) outcome" where
  "NewCharActionHandler char rightShift modDelay =
     obind (GetAsciiCharKey char) (\<lambda>(key, shift).
       let usageHandler = Toggle [NewUsage KeyboardKeypad (ucast key)];
           shiftKey = (if rightShift then KeyRightShift else KeyLeftShift)
       in Ret (if shift then ModAct [NewUsage KeyboardKeypad (ucast shiftKey)] usageHandler modDelay else usageHandler))"

definition char_CreateHandler :: "act_provider \<Rightarrow> (string, act option) outcome" where
  "char_CreateHandler p =
     obind (string_arg p ''char'') (\<lambda>char.
     if length char \<noteq> 1 then Fail ''char must be a single character''
     else
       obind (boolean_arg p ''rightShift'') (\<lambda>rightShift.
       obind (duration_arg p ''modDelay'') (\<lambda>modDelay.
       obind (NewCharActionHandler (of_char (hd char)) rightShift modDelay) (\<lambda>a. Ret (Some a)))))"

text \<open>
  The loop over the runes of a text. A rune is here a byte: the runes that are more than one byte, or
  none, are refused as the bytes from 128 are.
\<close>

primrec char_actions :: "string \<Rightarrow> bool \<Rightarrow> int \<Rightarrow> (string, act list) outcome" where
  "char_actions [] rightShift modDuration = Ret []"
| "char_actions (c # cs) rightShift modDuration =
     obind (NewCharActionHandler (of_char c) rightShift modDuration) (\<lambda>charAction.
     obind (char_actions cs rightShift modDuration) (\<lambda>actions. Ret (charAction # actions)))"

definition sendString_CreateHandler :: "act_provider \<Rightarrow> (string, act option) outcome" where
  "sendString_CreateHandler p =
     obind (string_arg p ''value'') (\<lambda>v.
     if v = '''' then Ret (Some NoneAct)
     else
       obind (boolean_arg p ''rightShift'') (\<lambda>rightShift.
       obind (duration_arg p ''delay'') (\<lambda>delay.
       obind (duration_arg p ''modDuration'') (\<lambda>modDuration.
       obind (char_actions v rightShift modDuration) (\<lambda>actions. Ret (Some (ChainAct actions delay)))))))"

definition tap_CreateHandler :: "act_provider \<Rightarrow> (string, act option) outcome" where
  "tap_CreateHandler p =
     obind (ap_ActionArg p ''action'') (\<lambda>action.
     obind (duration_arg p ''duration'') (\<lambda>duration. Ret (Some (TapAct (handler_arg action) duration))))"

text \<open>The argument \<open>interrupt\<close> is read, but nothing uses it.\<close>

definition tapHold_CreateHandler :: "act_provider \<Rightarrow> (string, act option) outcome" where
  "tapHold_CreateHandler p =
     obind (ap_ActionArg p ''onHold'') (\<lambda>onHold.
     obind (ap_ActionArg p ''onTap'') (\<lambda>onTap.
     obind (duration_arg p ''delay'') (\<lambda>delay.
     obind (duration_arg p ''tapDuration'') (\<lambda>tapDuration.
     obind (boolean_arg p ''interrupt'') (\<lambda>interrupt.
     Ret (Some (TapHoldAct (handler_arg onTap) (handler_arg onHold) delay tapDuration)))))))"

text \<open>As is \<open>tapDuration\<close> here.\<close>

definition repeat_CreateHandler :: "act_provider \<Rightarrow> (string, act option) outcome" where
  "repeat_CreateHandler p =
     obind (ap_ActionArg p ''action'') (\<lambda>action.
     obind (duration_arg p ''delay'') (\<lambda>delay.
     obind (duration_arg p ''interval'') (\<lambda>interval.
     obind (duration_arg p ''tapDuration'') (\<lambda>tapDuration.
     Ret (Some (RepeatAct (handler_arg action) delay interval))))))"

definition signalAct_CreateHandler :: "act_provider \<Rightarrow> (string, act option) outcome" where
  "signalAct_CreateHandler p =
     obind (ap_SignalArg p ''onActivate'') (\<lambda>onActivate.
     obind (ap_SignalArg p ''onDeactivate'') (\<lambda>onDeactivate.
     Ret (Some (if onActivate = None \<and> onDeactivate = None then NoneAct else SignalAct onActivate onDeactivate))))"

text \<open>The handlers of flowapi for usages.\<close>

definition act_usage_handlers :: "act UsageHandlers" where
  "act_usage_handlers = \<lparr>uh_toggle = Toggle, uh_delta = DeltaAct\<rparr>"

subsection \<open>Declarations\<close>

text \<open>What the grammar reads from two of the signatures.\<close>

definition duration_default :: "int \<Rightarrow> ParameterValue" where
  "duration_default d = \<lparr>pv_Duration = Some d, pv_Value = None\<rparr>"

definition tap_declaration :: Declaration where
  "tap_declaration = \<lparr>d_Identifier = ''tap'',
     d_Parameters = [\<lparr>p_Name = ''action'', p_Type = ''Action'', p_Default = None\<rparr>,
       \<lparr>p_Name = ''duration'', p_Type = ''Duration'', p_Default = Some (duration_default 2000000)\<rparr>]\<rparr>"

definition tapHold_declaration :: Declaration where
  "tapHold_declaration = \<lparr>d_Identifier = ''tapHold'',
     d_Parameters = [\<lparr>p_Name = ''onTap'', p_Type = ''Action'', p_Default = None\<rparr>,
       \<lparr>p_Name = ''onHold'', p_Type = ''Action'', p_Default = None\<rparr>,
       \<lparr>p_Name = ''delay'', p_Type = ''Duration'', p_Default = Some (duration_default 250000000)\<rparr>,
       \<lparr>p_Name = ''tapDuration'', p_Type = ''Duration'', p_Default = Some (duration_default 1000000)\<rparr>,
       \<lparr>p_Name = ''interrupt'', p_Type = ''boolean'', p_Default =
          Some \<lparr>pv_Duration = None, pv_Value = Some \<lparr>v_String = None, v_Number = None, v_Boolean = Some True\<rparr>\<rparr>\<rparr>]\<rparr>"

text \<open>An expression with arguments.\<close>

definition call :: "string \<Rightarrow> Argument list \<Rightarrow> Statement" where
  "call name args = \<lparr>st_Usage = None, st_Expr = Some (ExpressionStatement name args)\<rparr>"

definition statement_arg :: "Statement \<Rightarrow> Argument" where
  "statement_arg st = Argument (st_Usage st) (st_Expr st) None None"

definition null_arg :: Argument where
  "null_arg = Argument None None None (Some nullValue)"

text \<open>A registered action answers to its name.\<close>

lemma registered_action:
  assumes "ParseDeclaration parser sig = Ret decl" "RegisterAction_type parser reg sig creator = Ret (gr_registry g)"
  shows "action_creator g \<lparr>ci_Name = d_Identifier decl, ci_NodeID = None\<rparr> = Ret (creator, decl)"
proof -
  have "gr_registry g = reg\<lparr>rg_actions := (rg_actions reg)(d_Identifier decl \<mapsto> \<lparr>xr_action = creator, xr_declaration = decl\<rparr>)\<rparr>"
    using assms by (auto simp: RegisterAction_type_def registry_Register_def obind_Ret_iff split: if_splits)
  then show ?thesis by (simp add: action_creator_def getActionRegistration_def registry_Get_def)
qed

lemma NewArguments_Ret:
  assumes "check_arguments ps 0 args = Ret ()" "length (filter (\<lambda>p. p_Default p = None) ps) \<le> length args" "length args \<le> length ps"
  shows "NewArguments ps args = Ret \<lparr>ar_parameters = ps, ar_arguments = args, ar_nameMap = name_map_loop ps 0 Map.empty\<rparr>"
  using assms by (simp add: NewArguments_def Let_def)

lemma call_handler:
  assumes "ParseDeclaration parser sig = Ret decl" "RegisterAction_type parser reg sig creator = Ret (gr_registry g)"
    and "parseIdentifier (d_Identifier decl) = Ret \<lparr>ci_Name = d_Identifier decl, ci_NodeID = None\<rparr>"
    and "NewArguments (d_Parameters decl) args = Ret a"
  shows "action_handler pages aliases uh g (call (d_Identifier decl) args) =
    creator \<lparr>ap_Args = a,
      ap_ActionArg = (\<lambda>name. case Arguments_StatementOrNil a name of
         None \<Rightarrow> Panic | Some None \<Rightarrow> Ret None | Some (Some st) \<Rightarrow> action_handler pages aliases uh g st),
      ap_SignalArg = (\<lambda>name. case Arguments_StatementOrNil a name of
         None \<Rightarrow> Panic | Some None \<Rightarrow> Ret None | Some (Some st) \<Rightarrow> signal_handler pages aliases uh g st)\<rparr>"
  by (subst action_handler.simps) (simp add: call_def assms(3,4) registered_action [OF assms(1,2)])

text \<open>Both signatures are accepted.\<close>

lemma declarations_accepted:
  "parser (xd_Signature tap_Descriptor) = Ret tap_declaration \<Longrightarrow> ParseDeclaration parser (xd_Signature tap_Descriptor) = Ret tap_declaration"
  "parser (xd_Signature tapHold_Descriptor) = Ret tapHold_declaration \<Longrightarrow>
     ParseDeclaration parser (xd_Signature tapHold_Descriptor) = Ret tapHold_declaration"
  by (simp_all add: ParseDeclaration_def tap_declaration_def tapHold_declaration_def duration_default_def default_ok_def)

lemma names_parse:
  "parseIdentifier ''tap'' = Ret \<lparr>ci_Name = ''tap'', ci_NodeID = None\<rparr>"
  "parseIdentifier ''tapHold'' = Ret \<lparr>ci_Name = ''tapHold'', ci_NodeID = None\<rparr>"
  by code_simp+

text \<open>The statement of \<open>tapHold\<close> with two actions makes the handler with the durations of the signature.\<close>

lemma tapHold_statement:
  assumes "parser (xd_Signature tapHold_Descriptor) = Ret tapHold_declaration"
    and "RegisterAction_type parser reg (xd_Signature tapHold_Descriptor) tapHold_CreateHandler = Ret (gr_registry g)"
    and "action_handler pages aliases uh g onTap = Ret (Some t)" "action_handler pages aliases uh g onHold = Ret (Some h)"
    and "st_Usage onTap \<noteq> None \<or> st_Expr onTap \<noteq> None" "st_Usage onHold \<noteq> None \<or> st_Expr onHold \<noteq> None"
  shows "action_handler pages aliases uh g (call ''tapHold'' [statement_arg onTap, statement_arg onHold]) =
    Ret (Some (TapHoldAct t h 250000000 1000000))"
proof -
  let ?args = "[statement_arg onTap, statement_arg onHold]"
  let ?a = "\<lparr>ar_parameters = d_Parameters tapHold_declaration, ar_arguments = ?args,
    ar_nameMap = name_map_loop (d_Parameters tapHold_declaration) 0 Map.empty\<rparr>"
  have a: "NewArguments (d_Parameters tapHold_declaration) ?args = Ret ?a"
    by (rule NewArguments_Ret) (use assms(5,6) in \<open>auto simp: tapHold_declaration_def argument_ok_def statement_arg_def Let_def\<close>)
  note read = get_argument_def ArgumentOrNil_def tapHold_declaration_def index_def duration_default_def
  have d: "Arguments_Duration ?a ''delay'' = Some 250000000" "Arguments_Duration ?a ''tapDuration'' = Some 1000000"
    "Arguments_Boolean ?a ''interrupt'' = Some True"
    by (simp_all add: Arguments_Duration_def Arguments_Boolean_def read)
  have s: "Arguments_StatementOrNil ?a ''onTap'' = Some (Some onTap)" "Arguments_StatementOrNil ?a ''onHold'' = Some (Some onHold)"
    using assms(5,6) by (auto simp: Arguments_StatementOrNil_def read statement_arg_def)
  note c = call_handler [OF declarations_accepted(2) [where parser = parser, OF assms(1)] assms(2) _ a, of pages aliases uh]
  have n: "d_Identifier tapHold_declaration = ''tapHold''" by (simp add: tapHold_declaration_def)
  show ?thesis
    using c names_parse(2) assms(3,4) d s
    by (simp add: n tapHold_CreateHandler_def duration_arg_def boolean_arg_def handler_arg_def)
qed

text \<open>\<open>tap(null)\<close> is accepted, and its goroutine calls a nil handler.\<close>

lemma null_statement:
  assumes "parser (xd_Signature tap_Descriptor) = Ret tap_declaration"
    and "RegisterAction_type parser reg (xd_Signature tap_Descriptor) tap_CreateHandler = Ret (gr_registry g)"
  shows "action_handler pages aliases uh g (call ''tap'' [null_arg]) = Ret (Some (TapAct NilAct 2000000))"
proof -
  let ?a = "\<lparr>ar_parameters = d_Parameters tap_declaration, ar_arguments = [null_arg],
    ar_nameMap = name_map_loop (d_Parameters tap_declaration) 0 Map.empty\<rparr>"
  have a: "NewArguments (d_Parameters tap_declaration) [null_arg] = Ret ?a"
    by (rule NewArguments_Ret) (auto simp: tap_declaration_def argument_ok_def null_arg_def nullValue_def Value_IsNull_def Let_def)
  note read = get_argument_def ArgumentOrNil_def tap_declaration_def index_def duration_default_def
  have d: "Arguments_Duration ?a ''duration'' = Some 2000000"
    by (simp add: Arguments_Duration_def read)
  have s: "Arguments_StatementOrNil ?a ''action'' = Some None"
    by (simp add: Arguments_StatementOrNil_def read null_arg_def)
  note c = call_handler [OF declarations_accepted(1) [where parser = parser, OF assms(1)] assms(2) _ a, of pages aliases uh]
  have n: "d_Identifier tap_declaration = ''tap''" by (simp add: tap_declaration_def)
  show ?thesis
    using c names_parse(1) d s by (simp add: n tap_CreateHandler_def duration_arg_def handler_arg_def)
qed

lemma nil_goroutine_panics:
  "start_act (TapAct NilAct d) p e = Some (p', e', f) \<Longrightarrow>
     \<exists>a. po_async p' (po_next p) = Some a
       \<and> (\<forall>c \<in> set (commands now intr finished (as_place a)). run_command g c q = None)
       \<and> commands now intr finished (as_place a) \<noteq> []"
  by (auto simp: runAsync_def run_command_def Let_def)

end
