(* ===== verification/HidNodeRuns.thy ===== *)
theory HidNodeRuns
  imports Main
begin

section \<open>The main loops of the input and the output node\<close>

text \<open>
  \<open>Run\<close> of an input or output node, seen from one address: it subscribes to the messages about the
  device, asks whether the device is connected, and then starts and stops the goroutine that serves the
  device as messages come in. The service stores that a device is connected before it publishes it.
  A goroutine has a number; \<open>nm_done\<close> is the one whose \<open>done\<close> channel the node holds. The input node
  waits for that channel when a device goes away, the output node does not: \<open>waits\<close>.
\<close>

datatype run_phase = Starting | Subscribing | Running | Waiting | Stopping | Ended

record node_main =
  nm_connected :: bool
  nm_unsent :: "bool option"
  nm_bus :: "bool list"
  nm_phase :: run_phase
  nm_cancel :: bool
  nm_done :: "nat option"
  nm_next :: nat
  nm_live :: "nat list"

definition new_node :: "bool \<Rightarrow> node_main" where
  "new_node connected = \<lparr>nm_connected = connected, nm_unsent = None, nm_bus = [], nm_phase = Starting,
     nm_cancel = False, nm_done = None, nm_next = 0, nm_live = []\<rparr>"

definition start_handler :: "bool \<Rightarrow> node_main \<Rightarrow> node_main" where
  "start_handler waits s = s\<lparr>nm_cancel := True, nm_done := (if waits then Some (nm_next s) else None),
     nm_next := nm_next s + 1, nm_live := nm_live s @ [nm_next s]\<rparr>"

definition device_message :: "bool \<Rightarrow> bool \<Rightarrow> node_main \<Rightarrow> node_main" where
  "device_message waits connected s =
     (if connected then (if nm_cancel s then s else start_handler waits s)
      else if \<not> nm_cancel s then s
      else if waits then s\<lparr>nm_phase := Waiting\<rparr>
      else s\<lparr>nm_cancel := False\<rparr>)"

text \<open>Receiving from a nil channel blocks for ever, from the channel of a goroutine until it returned.\<close>

definition done_closed :: "node_main \<Rightarrow> bool" where
  "done_closed s \<longleftrightarrow> (case nm_done s of None \<Rightarrow> False | Some g \<Rightarrow> g \<notin> set (nm_live s))"

inductive node_step :: "bool \<Rightarrow> node_main \<Rightarrow> node_main \<Rightarrow> bool" for waits where
  service_stores: "nm_unsent s = None \<Longrightarrow> node_step waits s (s\<lparr>nm_connected := b, nm_unsent := Some b\<rparr>)"
| service_publishes: "nm_unsent s = Some b \<Longrightarrow>
    node_step waits s (s\<lparr>nm_unsent := None, nm_bus := (if nm_phase s \<in> {Starting, Ended} then nm_bus s else nm_bus s @ [b])\<rparr>)"
| subscribes: "nm_phase s = Starting \<Longrightarrow> node_step waits s (s\<lparr>nm_phase := Subscribing\<rparr>)"
| checks: "nm_phase s = Subscribing \<Longrightarrow>
    node_step waits s (if nm_connected s then start_handler waits (s\<lparr>nm_phase := Running\<rparr>) else s\<lparr>nm_phase := Running\<rparr>)"
| receives: "nm_phase s = Running \<Longrightarrow> nm_bus s = b # bs \<Longrightarrow> node_step waits s (device_message waits b (s\<lparr>nm_bus := bs\<rparr>))"
| waited: "nm_phase s = Waiting \<Longrightarrow> done_closed s \<Longrightarrow>
    node_step waits s (s\<lparr>nm_phase := Running, nm_cancel := False, nm_done := None\<rparr>)"
| returns: "g \<in> set (nm_live s) \<Longrightarrow> node_step waits s (s\<lparr>nm_live := remove1 g (nm_live s)\<rparr>)"
| stops: "nm_phase s = Running \<Longrightarrow>
    node_step waits s (s\<lparr>nm_phase := (if nm_cancel s \<and> waits then Stopping else Ended)\<rparr>)"
| stopped: "nm_phase s = Stopping \<Longrightarrow> done_closed s \<Longrightarrow> node_step waits s (s\<lparr>nm_phase := Ended\<rparr>)"

inductive_cases node_stepE: "node_step waits s s'"

definition input_node_step :: "node_main \<Rightarrow> node_main \<Rightarrow> bool" where
  "input_node_step = node_step True"

definition output_node_step :: "node_main \<Rightarrow> node_main \<Rightarrow> bool" where
  "output_node_step = node_step False"

subsection \<open>The node follows the device\<close>

definition messages :: "node_main \<Rightarrow> bool list" where
  "messages s = nm_bus s @ (case nm_unsent s of None \<Rightarrow> [] | Some b \<Rightarrow> [b])"

definition follows :: "node_main \<Rightarrow> bool" where
  "follows s \<longleftrightarrow>
     (nm_phase s \<in> {Subscribing, Running, Waiting} \<longrightarrow> messages s \<noteq> [] \<longrightarrow> last (messages s) = nm_connected s)
     \<and> (nm_phase s = Running \<longrightarrow> messages s = [] \<longrightarrow> nm_cancel s = nm_connected s)
     \<and> (nm_phase s = Waiting \<longrightarrow> messages s = [] \<longrightarrow> \<not> nm_connected s)
     \<and> (nm_phase s \<in> {Starting, Subscribing} \<longrightarrow> \<not> nm_cancel s)
     \<and> (nm_phase s = Starting \<longrightarrow> nm_bus s = [])
     \<and> (nm_unsent s \<noteq> None \<longrightarrow> nm_unsent s = Some (nm_connected s))"

lemma follows_message:
  assumes "follows s" "nm_phase s = Running" "nm_bus s = b # bs"
  shows "follows (device_message waits b (s\<lparr>nm_bus := bs\<rparr>))"
proof -
  have last_message: "last (messages s) = nm_connected s" using assms by (auto simp: follows_def messages_def)
  show ?thesis
  proof (cases "bs = [] \<and> nm_unsent s = None")
    case True
    then have "b = nm_connected s" using last_message assms(3) by (simp add: messages_def)
    then show ?thesis using True assms by (auto simp: follows_def messages_def device_message_def start_handler_def)
  next
    case False
    then have "last (bs @ (case nm_unsent s of None \<Rightarrow> [] | Some b \<Rightarrow> [b])) = nm_connected s"
      using last_message assms(3) by (auto simp: messages_def split: option.splits if_splits)
    then show ?thesis
      using False assms by (auto simp: follows_def messages_def device_message_def start_handler_def split: option.splits)
  qed
qed

lemma follows_step: "node_step waits s s' \<Longrightarrow> follows s \<Longrightarrow> follows s'"
proof (induction rule: node_step.induct)
  case (receives s b bs)
  then show ?case by (intro follows_message)
qed (auto simp: follows_def messages_def start_handler_def split: option.splits if_splits)

lemma follows_reachable: "(node_step waits)\<^sup>*\<^sup>* (new_node c) s \<Longrightarrow> follows s"
proof (induction rule: rtranclp_induct)
  case base
  show ?case by (simp add: follows_def new_node_def messages_def)
next
  case (step s s')
  then show ?case by (blast intro: follows_step)
qed

subsection \<open>One goroutine at a time\<close>

definition one_handler :: "node_main \<Rightarrow> bool" where
  "one_handler s \<longleftrightarrow>
     (nm_live s = [] \<or> (\<exists>g. nm_live s = [g] \<and> nm_done s = Some g \<and> nm_cancel s))
     \<and> (nm_cancel s \<longleftrightarrow> nm_done s \<noteq> None)
     \<and> (nm_phase s \<in> {Waiting, Stopping} \<longrightarrow> nm_cancel s)
     \<and> (nm_phase s \<in> {Starting, Subscribing} \<longrightarrow> \<not> nm_cancel s)
     \<and> (nm_phase s = Ended \<longrightarrow> nm_live s = [])"

lemma one_handler_step: "node_step True s s' \<Longrightarrow> one_handler s \<Longrightarrow> one_handler s'"
proof (induction rule: node_step.induct)
  case (receives s b bs)
  then show ?case
    by (cases b; cases "nm_cancel s") (auto simp: one_handler_def device_message_def start_handler_def)
next
  case (checks s)
  then show ?case by (cases "nm_connected s") (auto simp: one_handler_def start_handler_def)
next
  case (waited s)
  then show ?case by (auto simp: one_handler_def done_closed_def)
next
  case (returns g s)
  then show ?case by (auto simp: one_handler_def)
next
  case (stops s)
  then show ?case by (auto simp: one_handler_def)
next
  case (stopped s)
  then show ?case by (auto simp: one_handler_def done_closed_def)
qed (auto simp: one_handler_def)

lemma one_handler_reachable: "(node_step True)\<^sup>*\<^sup>* (new_node c) s \<Longrightarrow> one_handler s"
proof (induction rule: rtranclp_induct)
  case base
  show ?case by (simp add: one_handler_def new_node_def)
next
  case (step s s')
  then show ?case by (blast intro: one_handler_step)
qed

text \<open>An output node serves a device that comes back while the goroutine before has not returned.\<close>

lemma output_handlers_overlap:
  "\<exists>s. output_node_step\<^sup>*\<^sup>* (new_node True) s \<and> nm_phase s = Running \<and> length (nm_live s) = 2"
proof -
  let ?s = "new_node True"
  let ?r = "node_step False"
  let ?s1 = "?s\<lparr>nm_phase := Subscribing\<rparr>"
  let ?s2 = "start_handler False (?s1\<lparr>nm_phase := Running\<rparr>)"
  let ?s3 = "?s2\<lparr>nm_connected := False, nm_unsent := Some False\<rparr>"
  let ?s4 = "?s3\<lparr>nm_unsent := None, nm_bus := [False]\<rparr>"
  let ?s5 = "device_message False False (?s4\<lparr>nm_bus := []\<rparr>)"
  let ?s6 = "?s5\<lparr>nm_connected := True, nm_unsent := Some True\<rparr>"
  let ?s7 = "?s6\<lparr>nm_unsent := None, nm_bus := [True]\<rparr>"
  let ?s8 = "device_message False True (?s7\<lparr>nm_bus := []\<rparr>)"
  have r1: "?r ?s ?s1" by (rule subscribes) (simp add: new_node_def)
  have r2: "?r ?s1 ?s2" using checks [of ?s1 False] by (simp add: new_node_def)
  have r3: "?r ?s2 ?s3" by (rule service_stores) (simp add: new_node_def start_handler_def)
  have r4: "?r ?s3 ?s4" using service_publishes [of ?s3 False False] by (simp add: new_node_def start_handler_def)
  have r5: "?r ?s4 ?s5" by (rule receives) (simp_all add: new_node_def start_handler_def)
  have r6: "?r ?s5 ?s6" by (rule service_stores) (simp add: new_node_def start_handler_def device_message_def)
  have r7: "?r ?s6 ?s7" using service_publishes [of ?s6 True False] by (simp add: new_node_def start_handler_def device_message_def)
  have r8: "?r ?s7 ?s8" by (rule receives) (simp_all add: new_node_def start_handler_def device_message_def)
  have "?r\<^sup>*\<^sup>* ?s ?s8"
    by (rule converse_rtranclp_into_rtranclp, rule r1, rule converse_rtranclp_into_rtranclp, rule r2, rule converse_rtranclp_into_rtranclp, rule r3, rule converse_rtranclp_into_rtranclp, rule r4, rule converse_rtranclp_into_rtranclp, rule r5, rule converse_rtranclp_into_rtranclp, rule r6, rule converse_rtranclp_into_rtranclp, rule r7, rule converse_rtranclp_into_rtranclp, rule r8, rule rtranclp.rtrancl_refl)
  then show ?thesis unfolding output_node_step_def
    by (intro exI [of _ ?s8]) (simp add: new_node_def start_handler_def device_message_def)
qed

end
