(* ===== verification/HidService.thy ===== *)
theory HidService
  imports HidUsage "HOL-Library.Char_ord" "HOL-Library.List_Lexorder"
begin

section \<open>The HID service (internal/hidsvc/hid_service.go)\<close>

text \<open>
  The service keeps the set of connected devices, stores each device and its report descriptor in a
  database, and tells the nodes about devices over two buses. The database is a map from keys to
  values, as Badger's transactions give it; its I/O errors are not modelled. \<open>codec\<close> is
  \<open>encoding/json\<close> on device records, and the backends answer with the descriptor of a device.
  Messages on a bus are the lists of what was published, in order.
\<close>

subsection \<open>Addresses\<close>

record Address =
  ad_Backend :: string
  ad_ID :: string

definition Address_String :: "Address \<Rightarrow> string" where
  "Address_String a = ad_Backend a @ ''/'' @ ad_ID a"

definition ReplaceAll_char :: "char \<Rightarrow> char \<Rightarrow> string \<Rightarrow> string" where
  "ReplaceAll_char c d s = map (\<lambda>x. if x = c then d else x) s"

definition ParseAddress :: "string \<Rightarrow> (string, Address) outcome" where
  "ParseAddress s =
     (let parts = split_at CHR ''/'' s
      in if length parts \<noteq> 2 then Fail ''invalid address''
         else Ret \<lparr>ad_Backend = parts ! 0, ad_ID = ReplaceAll_char CHR ''.'' CHR '':'' (parts ! 1)\<rparr>)"

text \<open>
  What \<open>UnmarshalJSON\<close> and \<open>UnmarshalYAML\<close> do: an object with two fields is taken as it is, a string is
  parsed, and anything else is an error. The library decodes the data into one of the two.
\<close>

datatype address_data = AddressObject string string | AddressString string | AddressOther | AddressEmpty

definition Address_Unmarshal :: "address_data \<Rightarrow> Address \<Rightarrow> (string, Address) outcome" where
  "Address_Unmarshal d a =
     (case d of
        AddressEmpty \<Rightarrow> Ret a
      | AddressObject b i \<Rightarrow> Ret \<lparr>ad_Backend = b, ad_ID = i\<rparr>
      | AddressString s \<Rightarrow> ParseAddress s
      | AddressOther \<Rightarrow> Fail ''cannot unmarshal'')"

subsection \<open>Devices\<close>

record BackendDevice =
  bd_ID :: string
  bd_Name :: string

text \<open>Input and output devices have the same fields. Times count from the zero time.\<close>

record HidDevice =
  hd_Address :: Address
  hd_BackendDevice :: BackendDevice
  hd_Name :: string
  hd_FirstSeenAt :: int
  hd_LastSeenAt :: int

definition named_device :: "string \<Rightarrow> HidDevice" where
  "named_device name = \<lparr>hd_Address = \<lparr>ad_Backend = '''', ad_ID = ''''\<rparr>, hd_BackendDevice = \<lparr>bd_ID = '''', bd_Name = ''''\<rparr>,
     hd_Name = name, hd_FirstSeenAt = 0, hd_LastSeenAt = 0\<rparr>"

text \<open>\<open>js_clean\<close> is what JSON makes of a string: bytes that are not UTF-8 are replaced.\<close>

record json =
  js_clean :: "string \<Rightarrow> string"
  js_marshal :: "string \<times> BackendDevice \<times> string \<times> int \<times> int \<Rightarrow> u8 list option"
  js_unmarshal :: "u8 list \<Rightarrow> (address_data \<times> BackendDevice \<times> string \<times> int \<times> int) option"

definition marshal_device :: "json \<Rightarrow> HidDevice \<Rightarrow> u8 list option" where
  "marshal_device js dev =
     js_marshal js (Address_String (hd_Address dev), hd_BackendDevice dev, hd_Name dev, hd_FirstSeenAt dev, hd_LastSeenAt dev)"

definition unmarshal_device :: "json \<Rightarrow> u8 list \<Rightarrow> HidDevice option" where
  "unmarshal_device js val =
     (case js_unmarshal js val of
        None \<Rightarrow> None
      | Some (d, bdev, name, first, last_seen) \<Rightarrow>
          (case Address_Unmarshal d \<lparr>ad_Backend = '''', ad_ID = ''''\<rparr> of
             Ret a \<Rightarrow> Some \<lparr>hd_Address = a, hd_BackendDevice = bdev, hd_Name = name,
                             hd_FirstSeenAt = first, hd_LastSeenAt = last_seen\<rparr>
           | _ \<Rightarrow> None))"

type_synonym db = "string \<rightharpoonup> u8 list"

definition reportDescriptorKey :: "Address \<Rightarrow> string" where
  "reportDescriptorKey a = ''hid/descriptors/'' @ ad_Backend a @ ''/'' @ ad_ID a"

definition inputDeviceKey :: "Address \<Rightarrow> string" where
  "inputDeviceKey a = ''hid/inputs/'' @ ad_Backend a @ ''/'' @ ad_ID a"

definition outputDeviceKey :: "Address \<Rightarrow> string" where
  "outputDeviceKey a = ''hid/outputs/'' @ ad_Backend a @ ''/'' @ ad_ID a"

text \<open>The device of a key: a missing one starts with the name that the backend gives.\<close>

definition load_device :: "json \<Rightarrow> db \<Rightarrow> string \<Rightarrow> BackendDevice \<Rightarrow> (string, HidDevice) outcome" where
  "load_device js m key bdev =
     (case m key of
        None \<Rightarrow> Ret (named_device (bd_Name bdev))
      | Some val \<Rightarrow> (case unmarshal_device js val of None \<Rightarrow> Fail ''failed to unmarshal device'' | Some dev \<Rightarrow> Ret dev))"

definition seen_device :: "int \<Rightarrow> Address \<Rightarrow> BackendDevice \<Rightarrow> HidDevice \<Rightarrow> HidDevice" where
  "seen_device now addr bdev dev =
     (let dev = dev\<lparr>hd_Address := addr, hd_BackendDevice := bdev\<rparr>;
          dev = (if hd_FirstSeenAt dev = 0 then dev\<lparr>hd_FirstSeenAt := now\<rparr> else dev)
      in dev\<lparr>hd_LastSeenAt := now\<rparr>)"

text \<open>
  A transaction that fails leaves the database as it was. A backend is a function from identifiers to
  the descriptor that the opened device reports; one that does not exist is a nil interface.
\<close>

type_synonym backends = "string \<rightharpoonup> (string \<Rightarrow> (string, u8 list) outcome)"

definition initializeInputDevice ::
  "json \<Rightarrow> backends \<Rightarrow> int \<Rightarrow> string \<Rightarrow> BackendDevice \<Rightarrow> db \<Rightarrow> (string, HidDevice) outcome \<times> db" where
  "initializeInputDevice js backends now backendID bdev m =
     (case backends backendID of
        None \<Rightarrow> (Panic, m)
      | Some open_device \<Rightarrow>
          (case open_device (bd_ID bdev) of
             Panic \<Rightarrow> (Panic, m)
           | Fail e \<Rightarrow> (Fail e, m)
           | Ret desc \<Rightarrow>
               let addr = \<lparr>ad_Backend = backendID, ad_ID = bd_ID bdev\<rparr>;
                   key = inputDeviceKey addr
               in (case load_device js m key bdev of
                     Fail e \<Rightarrow> (Fail e, m)
                   | Panic \<Rightarrow> (Panic, m)
                   | Ret dev \<Rightarrow>
                       let dev = seen_device now addr bdev dev
                       in (case marshal_device js dev of
                             None \<Rightarrow> (Fail ''failed to marshal device'', m)
                           | Some b \<Rightarrow> (Ret dev, m(key \<mapsto> b, reportDescriptorKey addr \<mapsto> desc))))))"

definition initializeOutputDevice ::
  "json \<Rightarrow> int \<Rightarrow> string \<Rightarrow> BackendDevice \<Rightarrow> db \<Rightarrow> (string, HidDevice) outcome \<times> db" where
  "initializeOutputDevice js now backendID bdev m =
     (let addr = \<lparr>ad_Backend = backendID, ad_ID = bd_ID bdev\<rparr>;
          key = outputDeviceKey addr
      in (case load_device js m key bdev of
            Fail e \<Rightarrow> (Fail e, m)
          | Panic \<Rightarrow> (Panic, m)
          | Ret dev \<Rightarrow>
              let dev = seen_device now addr bdev dev
              in (case marshal_device js dev of
                    None \<Rightarrow> (Fail ''failed to marshal device'', m)
                  | Some b \<Rightarrow> (Ret dev, m(key \<mapsto> b)))))"

definition GetInputDevice :: "json \<Rightarrow> db \<Rightarrow> Address \<Rightarrow> (string, HidDevice) outcome" where
  "GetInputDevice js m addr =
     (case m (inputDeviceKey addr) of
        None \<Rightarrow> Fail ''Key not found''
      | Some val \<Rightarrow> (case unmarshal_device js val of None \<Rightarrow> Fail ''failed to get device'' | Some dev \<Rightarrow> Ret dev))"

definition GetOutputDevice :: "json \<Rightarrow> db \<Rightarrow> Address \<Rightarrow> (string, HidDevice) outcome" where
  "GetOutputDevice js m addr =
     (case m (outputDeviceKey addr) of
        None \<Rightarrow> Fail ''Key not found''
      | Some val \<Rightarrow> (case unmarshal_device js val of None \<Rightarrow> Fail ''failed to get device'' | Some dev \<Rightarrow> Ret dev))"

definition GetReportDescriptor :: "db \<Rightarrow> Address \<Rightarrow> (string, u8 list) outcome" where
  "GetReportDescriptor m addr =
     (case m (reportDescriptorKey addr) of None \<Rightarrow> Fail ''Key not found'' | Some desc \<Rightarrow> Ret desc)"

text \<open>Badger iterates over keys in their byte order; the list stops at the first record that does not parse.\<close>

definition ListInputDevices :: "json \<Rightarrow> db \<Rightarrow> (string, HidDevice list) outcome" where
  "ListInputDevices js m =
     (let keys = filter (has_prefix ''hid/inputs/'') (sorted_list_of_set (dom m));
          devices = map (\<lambda>k. unmarshal_device js (the (m k))) keys
      in if None \<in> set devices then Fail ''failed to list devices'' else Ret (map the devices))"

subsection \<open>The service\<close>

datatype InputEventType = InputConnected | InputDisconnected
datatype OutputEventType = OutputConnected | OutputDisconnected

record InputBusKey =
  ik_Type :: InputEventType
  ik_Addr :: Address

record OutputBusKey =
  ok_Type :: OutputEventType
  ok_Addr :: Address

record HidService =
  hs_db :: db
  hs_inputBus :: "InputBusKey list"
  hs_connectedInputs :: "Address set"
  hs_outputBus :: "OutputBusKey list"
  hs_connectedOutputs :: "Address set"

record BackendEventChanged =
  bc_Connected :: "BackendDevice list"
  bc_Disconnected :: "string list"

record BackendEvent =
  be_InputsChanged :: "BackendEventChanged option"
  be_OutputsChanged :: "BackendEventChanged option"

definition onInputDisconnected :: "string \<Rightarrow> string \<Rightarrow> HidService \<Rightarrow> HidService" where
  "onInputDisconnected backendID i s =
     (let addr = \<lparr>ad_Backend = backendID, ad_ID = i\<rparr>
      in s\<lparr>hs_connectedInputs := hs_connectedInputs s - {addr},
           hs_inputBus := hs_inputBus s @ [\<lparr>ik_Type = InputDisconnected, ik_Addr = addr\<rparr>]\<rparr>)"

text \<open>\<open>clock\<close> is the reading of the clock for the device.\<close>

definition onInputConnected ::
  "json \<Rightarrow> backends \<Rightarrow> (BackendDevice \<Rightarrow> int) \<Rightarrow> string \<Rightarrow> HidService \<Rightarrow> BackendDevice \<Rightarrow> HidService option" where
  "onInputConnected js backends clock backendID s bdev =
     (case initializeInputDevice js backends (clock bdev) backendID bdev (hs_db s) of
        (Panic, m) \<Rightarrow> None
      | (Fail e, m) \<Rightarrow> Some (s\<lparr>hs_db := m\<rparr>)
      | (Ret dev, m) \<Rightarrow>
          Some (s\<lparr>hs_db := m, hs_connectedInputs := insert (hd_Address dev) (hs_connectedInputs s),
                  hs_inputBus := hs_inputBus s @ [\<lparr>ik_Type = InputConnected, ik_Addr = hd_Address dev\<rparr>]\<rparr>))"

definition onOutputDisconnected :: "string \<Rightarrow> string \<Rightarrow> HidService \<Rightarrow> HidService" where
  "onOutputDisconnected backendID i s =
     (let addr = \<lparr>ad_Backend = backendID, ad_ID = i\<rparr>
      in s\<lparr>hs_connectedOutputs := hs_connectedOutputs s - {addr},
           hs_outputBus := hs_outputBus s @ [\<lparr>ok_Type = OutputDisconnected, ok_Addr = addr\<rparr>]\<rparr>)"

definition onOutputConnected ::
  "json \<Rightarrow> (BackendDevice \<Rightarrow> int) \<Rightarrow> string \<Rightarrow> HidService \<Rightarrow> BackendDevice \<Rightarrow> HidService option" where
  "onOutputConnected js clock backendID s bdev =
     (case initializeOutputDevice js (clock bdev) backendID bdev (hs_db s) of
        (Panic, m) \<Rightarrow> None
      | (Fail e, m) \<Rightarrow> Some (s\<lparr>hs_db := m\<rparr>)
      | (Ret dev, m) \<Rightarrow>
          Some (s\<lparr>hs_db := m, hs_connectedOutputs := insert (hd_Address dev) (hs_connectedOutputs s),
                  hs_outputBus := hs_outputBus s @ [\<lparr>ok_Type = OutputConnected, ok_Addr = hd_Address dev\<rparr>]\<rparr>))"

definition onBackendInputsChanged ::
  "json \<Rightarrow> backends \<Rightarrow> (BackendDevice \<Rightarrow> int) \<Rightarrow> string \<Rightarrow> BackendEventChanged \<Rightarrow> HidService \<Rightarrow> HidService option" where
  "onBackendInputsChanged js backends clock backendID event s =
     fold_opt (onInputConnected js backends clock backendID) (bc_Connected event)
       (fold (onInputDisconnected backendID) (bc_Disconnected event) s)"

definition onBackendOutputsChanged ::
  "json \<Rightarrow> (BackendDevice \<Rightarrow> int) \<Rightarrow> string \<Rightarrow> BackendEventChanged \<Rightarrow> HidService \<Rightarrow> HidService option" where
  "onBackendOutputsChanged js clock backendID event s =
     fold_opt (onOutputConnected js clock backendID) (bc_Connected event)
       (fold (onOutputDisconnected backendID) (bc_Disconnected event) s)"

definition handleBackendEvent ::
  "json \<Rightarrow> backends \<Rightarrow> (BackendDevice \<Rightarrow> int) \<Rightarrow> string \<Rightarrow> BackendEvent \<Rightarrow> HidService \<Rightarrow> HidService option" where
  "handleBackendEvent js backends clock backendID event s =
     (case be_InputsChanged event of
        Some ev \<Rightarrow> onBackendInputsChanged js backends clock backendID ev s
      | None \<Rightarrow>
          (case be_OutputsChanged event of
             Some ev \<Rightarrow> onBackendOutputsChanged js clock backendID ev s
           | None \<Rightarrow> Some s))"

definition IsInputConnected :: "HidService \<Rightarrow> Address \<Rightarrow> bool" where
  "IsInputConnected s addr \<longleftrightarrow> addr \<in> hs_connectedInputs s"

definition IsOutputConnected :: "HidService \<Rightarrow> Address \<Rightarrow> bool" where
  "IsOutputConnected s addr \<longleftrightarrow> addr \<in> hs_connectedOutputs s"

definition NewHidService :: "db \<Rightarrow> HidService" where
  "NewHidService m = \<lparr>hs_db = m, hs_inputBus = [], hs_connectedInputs = {}, hs_outputBus = [], hs_connectedOutputs = {}\<rparr>"

text \<open>The events of the backends are taken from their bus one after another. With each comes what the
  backends answer and what the clock reads while it is handled.\<close>

type_synonym backend_message = "backends \<times> (BackendDevice \<Rightarrow> int) \<times> string \<times> BackendEvent"

definition consumeEvents :: "json \<Rightarrow> backend_message list \<Rightarrow> HidService \<Rightarrow> HidService option" where
  "consumeEvents js =
     fold_opt (\<lambda>s (backends, clock, backendID, event). handleBackendEvent js backends clock backendID event s)"

definition OpenInputDevice :: "backends \<Rightarrow> Address \<Rightarrow> (string, u8 list) outcome" where
  "OpenInputDevice backends addr =
     (case backends (ad_Backend addr) of
        None \<Rightarrow> Panic
      | Some open_device \<Rightarrow>
          (case open_device (ad_ID addr) of Fail e \<Rightarrow> Fail ''error opening input device'' | r \<Rightarrow> r))"

end
