(* ===== verification/HidNodes.thy ===== *)
theory HidNodes
  imports HidService ReportStates FlowApi DescEncoder
begin

section \<open>The input and the output node (internal/hidsvc/node_input.go, node_output.go)\<close>

text \<open>
  An input node turns the reports of a device into events and events into reports for it; an output
  node is the same for a virtual device whose descriptor is put together from those of input devices.
  \<open>env\<close> is the order of maps and the clock, as in the theory of report states, and \<open>None\<close> is a panic.
  The operations of the device are parameters. Goroutines are steps: what one does with an event is a
  function, and starting and stopping the goroutine of a device is a step relation. Log messages are
  left out.
\<close>

subsection \<open>The descriptor of an output\<close>

text \<open>
  The search for an ID that is no key of the map. \<open>id++\<close> wraps, so after 256 keys it has seen all and
  goes on for ever: \<open>None\<close>.
\<close>

fun free_id :: "nat \<Rightarrow> (u8 \<rightharpoonup> u8) \<Rightarrow> u8 \<Rightarrow> u8 option" where
  "free_id 0 idMap i = None"
| "free_id (Suc n) idMap i = (if idMap i = None then Some i else free_id n idMap (i + 1))"

definition assign_ids :: "DataItemSetReport list \<Rightarrow> (u8 \<rightharpoonup> u8) \<Rightarrow> (u8 \<rightharpoonup> u8) option" where
  "assign_ids = fold_opt (\<lambda>idMap rd.
     map_option (\<lambda>i. idMap(set_report_ID rd \<mapsto> i)) (free_id 256 idMap (set_report_ID rd)))"

definition mapped_id :: "(u8 \<rightharpoonup> u8) \<Rightarrow> u8 \<Rightarrow> u8" where
  "mapped_id idMap i = (case idMap i of None \<Rightarrow> 0 | Some j \<Rightarrow> j)"

definition remap_item :: "(u8 \<rightharpoonup> u8) \<Rightarrow> MainItem \<Rightarrow> unit \<Rightarrow> bool \<times> DataItem option \<times> unit" where
  "remap_item idMap item u =
     (True, map_option (\<lambda>d. d\<lparr>ReportID := mapped_id idMap (ReportID d)\<rparr>) (MDataItem item), u)"

text \<open>The result of the loop: an error, a panic, or the collections so far; \<open>None\<close> if it does not end.\<close>

fun collect_inputs ::
  "(Address \<Rightarrow> (string, u8 list) outcome) \<Rightarrow> Address list \<Rightarrow> (u8 \<rightharpoonup> u8) \<Rightarrow> Collection list \<Rightarrow> (string, Collection list) outcome option" where
  "collect_inputs get [] idMap cs = Some (Ret cs)"
| "collect_inputs get (addr # addrs) idMap cs =
     (case get addr of
        Fail e \<Rightarrow> Some (Fail ''failed to get report descriptor for input device'')
      | Panic \<Rightarrow> Some Panic
      | Ret raw \<Rightarrow>
          (case Decode raw of
             Fail e \<Rightarrow> collect_inputs get addrs idMap cs
           | Panic \<Rightarrow> Some Panic
           | Ret inputDesc \<Rightarrow>
               (case NewDataItemSet inputDesc of
                  None \<Rightarrow> Some Panic
                | Some inputSet \<Rightarrow>
                    (case assign_ids (DataItemSet_Reports inputSet) idMap of
                       None \<Rightarrow> None
                     | Some idMap \<Rightarrow>
                         collect_inputs get addrs idMap
                           (cs @ fst (ReportDescriptor_Walk (remap_item idMap) (Collections inputDesc) ()))))))"

definition buildDescriptor :: "(Address \<Rightarrow> (string, u8 list) outcome) \<Rightarrow> Address list \<Rightarrow> (string, ReportDescriptor) outcome option" where
  "buildDescriptor get inputs =
     (if inputs = [] then Some (Fail ''no input devices specified'')
      else map_option (\<lambda>r. obind r (\<lambda>cs. if cs = [] then Fail ''no input devices connected'' else Ret \<lparr>Collections = cs\<rparr>))
             (collect_inputs get inputs Map.empty []))"

subsection \<open>The output node\<close>

record outputConfig =
  oc_Addr :: Address
  oc_Inputs :: "Address list"

record DeviceStates =
  inputState :: ReportState
  outputState :: ReportState
  featureState :: ReportState

record OutputNode =
  on_addr :: Address
  on_desc :: ReportDescriptor
  on_descRaw :: "u8 list"
  on_states :: DeviceStates

definition device_states :: "Env \<Rightarrow> int \<Rightarrow> DataItemSet \<Rightarrow> DeviceStates option" where
  "device_states env now items =
     (case (NewReportState env now (DataItemSet_WithType items MainItemTypeInput),
            NewReportState env now (DataItemSet_WithType items MainItemTypeOutput),
            NewReportState env now (DataItemSet_WithType items MainItemTypeFeature)) of
        (Some i, Some oo, Some f) \<Rightarrow> Some \<lparr>inputState = i, outputState = oo, featureState = f\<rparr>
      | _ \<Rightarrow> None)"

definition OutputNode_Configure ::
  "Env \<Rightarrow> int \<Rightarrow> (Address \<Rightarrow> (string, u8 list) outcome) \<Rightarrow> outputConfig option \<Rightarrow> (string, OutputNode) outcome option" where
  "OutputNode_Configure env now get cfg =
     (case cfg of
        None \<Rightarrow> Some (Fail ''failed to unmarshal config'')
      | Some cfg \<Rightarrow>
          (case buildDescriptor get (oc_Inputs cfg) of
             None \<Rightarrow> None
           | Some (Fail e) \<Rightarrow> Some (Fail ''failed to build HID report descriptor'')
           | Some Panic \<Rightarrow> Some Panic
           | Some (Ret desc) \<Rightarrow>
               Some (case NewDataItemSet desc of
                       None \<Rightarrow> Panic
                     | Some items \<Rightarrow>
                         (case device_states env now items of
                            None \<Rightarrow> Panic
                          | Some states \<Rightarrow>
                              Ret \<lparr>on_addr = oc_Addr cfg, on_desc = desc, on_descRaw = Encode desc, on_states = states\<rparr>))))"

text \<open>What the virtual device asks its handler.\<close>

definition handler_GetInputReport :: "DeviceStates \<Rightarrow> u8 \<Rightarrow> (string, u8 list) outcome" where
  "handler_GetInputReport st i = GetReport (inputState st) i"

definition handler_GetOutputReport :: "DeviceStates \<Rightarrow> u8 \<Rightarrow> (string, u8 list) outcome" where
  "handler_GetOutputReport st i = GetReport (outputState st) i"

definition handler_GetFeatureReport :: "DeviceStates \<Rightarrow> u8 \<Rightarrow> (string, u8 list) outcome" where
  "handler_GetFeatureReport st i = GetReport (featureState st) i"

definition handler_SetOutputReport :: "Env \<Rightarrow> u8 \<Rightarrow> u8 list \<Rightarrow> DeviceStates \<Rightarrow> (string, DeviceStates) outcome" where
  "handler_SetOutputReport env i data st =
     (case data of
        [] \<Rightarrow> Panic
      | b # _ \<Rightarrow>
          if b \<noteq> i then Fail ''report ID mismatch''
          else of_panic (map_option (\<lambda>(e, r). st\<lparr>outputState := r\<rparr>) (ApplyReport env (outputState st) data [])))"

definition handler_SetFeatureReport :: "Env \<Rightarrow> u8 \<Rightarrow> u8 list \<Rightarrow> DeviceStates \<Rightarrow> (string, DeviceStates) outcome" where
  "handler_SetFeatureReport env i data st =
     (case data of
        [] \<Rightarrow> Panic
      | b # _ \<Rightarrow>
          if b \<noteq> i then Fail ''report ID mismatch''
          else of_panic (map_option (\<lambda>(e, r). st\<lparr>featureState := r\<rparr>) (ApplyReport env (featureState st) data [])))"

text \<open>A report that the virtual device received; \<open>spare\<close> is the rest of the buffer it was read into.\<close>

definition output_read :: "Env \<Rightarrow> u8 list \<Rightarrow> u8 list \<Rightarrow> DeviceStates \<Rightarrow> (DeviceStates \<times> FlowEvent list) option" where
  "output_read env data spare st =
     map_option
       (\<lambda>(e, r). (st\<lparr>outputState := r\<rparr>,
          case e of None \<Rightarrow> [] | Some ev \<Rightarrow> if Event_IsEmpty e then [] else [\<lparr>fe_Type = HIDEventTypeOutput, fe_HID = ev\<rparr>]))
       (ApplyReport env (outputState st) data spare)"

text \<open>
  The channel of reports holds one batch; a batch that finds it full is dropped. The goroutine of the
  device empties it into the device.
\<close>

record output_run =
  or_states :: DeviceStates
  or_reportsCh :: "u8 list list option"
  or_written :: "u8 list list"
  or_dropped :: "u8 list list list"

definition output_event :: "Env \<Rightarrow> FlowEvent \<Rightarrow> output_run \<Rightarrow> output_run option" where
  "output_event env e s =
     (case fe_Type e of
        HIDEventTypeInput \<Rightarrow>
          (case ApplyEvent env (inputState (or_states s)) (fe_HID e) of
             None \<Rightarrow> None
           | Some (reports, r) \<Rightarrow>
               let s = s\<lparr>or_states := (or_states s)\<lparr>inputState := r\<rparr>\<rparr>
               in Some (if reports = [] then s
                        else case or_reportsCh s of
                               None \<Rightarrow> s\<lparr>or_reportsCh := Some reports\<rparr>
                             | Some _ \<Rightarrow> s\<lparr>or_dropped := or_dropped s @ [reports]\<rparr>))
      | HIDEventTypeFeature \<Rightarrow>
          map_option (\<lambda>(reports, r). s\<lparr>or_states := (or_states s)\<lparr>featureState := r\<rparr>\<rparr>)
            (ApplyEvent env (featureState (or_states s)) (fe_HID e))
      | HIDEventTypeOutput \<Rightarrow> Some s)"

definition output_write :: "output_run \<Rightarrow> output_run" where
  "output_write s =
     (case or_reportsCh s of
        None \<Rightarrow> s
      | Some reports \<Rightarrow> s\<lparr>or_reportsCh := None, or_written := or_written s @ reports\<rparr>)"

subsection \<open>The input node\<close>

text \<open>The operations of the device as the node calls them; \<open>spare\<close> is the rest of a buffer.\<close>

record device_ops =
  op_open :: "(string, unit) outcome"
  op_descriptor :: "(string, u8 list) outcome"
  op_input :: "u8 \<Rightarrow> (u8 list \<times> u8 list) option"
  op_feature :: "u8 \<Rightarrow> (u8 list \<times> u8 list) option"
  op_acquire :: "(string, unit) outcome"

datatype device_action = Opened | Closed | Acquired | Released | Subscribed | Sent FlowEvent

definition InputNode_Configure :: "Address option \<Rightarrow> (string, Address) outcome" where
  "InputNode_Configure cfg = (case cfg of None \<Rightarrow> Fail ''failed to unmarshal config'' | Some addr \<Rightarrow> Ret addr)"

text \<open>
  What \<open>handleDevice\<close> does up to the point where it waits for the end: the actions, and the states of
  the reports unless it has returned. \<open>None\<close> is a panic.
\<close>

definition handleDevice_states ::
  "Env \<Rightarrow> int \<Rightarrow> device_ops \<Rightarrow> DataItemSet \<Rightarrow> (device_action list \<times> DeviceStates option) option" where
  "handleDevice_states env now ops items =
     (case device_states env now items of
        None \<Rightarrow> None
      | Some st \<Rightarrow>
          (case InitReports env (op_input ops) (inputState st) of
             None \<Rightarrow> None
           | Some (inputEvents, i) \<Rightarrow>
               (case InitReports env (op_feature ops) (featureState st) of
                  None \<Rightarrow> None
                | Some (featureEvents, f) \<Rightarrow>
                    (case op_acquire ops of
                       Panic \<Rightarrow> None
                     | Fail e \<Rightarrow> Some ([Opened, Closed], None)
                     | Ret _ \<Rightarrow>
                         Some ([Opened, Acquired, Subscribed]
                             @ map (\<lambda>e. Sent \<lparr>fe_Type = HIDEventTypeInput, fe_HID = e\<rparr>) inputEvents
                             @ map (\<lambda>e. Sent \<lparr>fe_Type = HIDEventTypeFeature, fe_HID = e\<rparr>) featureEvents,
                           Some (st\<lparr>inputState := i, featureState := f\<rparr>))))))"

definition handleDevice :: "Env \<Rightarrow> int \<Rightarrow> device_ops \<Rightarrow> (device_action list \<times> DeviceStates option) option" where
  "handleDevice env now ops =
     (case op_open ops of
        Panic \<Rightarrow> None
      | Fail e \<Rightarrow> Some ([], None)
      | Ret _ \<Rightarrow>
          (case op_descriptor ops of
             Panic \<Rightarrow> None
           | Fail e \<Rightarrow> Some ([Opened, Closed], None)
           | Ret raw \<Rightarrow>
               (case Decode raw of
                  Panic \<Rightarrow> None
                | Fail e \<Rightarrow> Some ([Opened, Closed], None)
                | Ret desc \<Rightarrow>
                    (case NewDataItemSet desc of None \<Rightarrow> None | Some items \<Rightarrow> handleDevice_states env now ops items))))"

definition handleDevice_end :: "device_action list" where
  "handleDevice_end = [Released, Closed]"

definition input_read :: "Env \<Rightarrow> u8 list \<Rightarrow> u8 list \<Rightarrow> DeviceStates \<Rightarrow> (DeviceStates \<times> FlowEvent list) option" where
  "input_read env data spare st =
     (if data = [] then Some (st, [])
      else map_option
        (\<lambda>(e, r). (st\<lparr>inputState := r\<rparr>,
           case e of None \<Rightarrow> [] | Some ev \<Rightarrow> if Event_IsEmpty e then [] else [\<lparr>fe_Type = HIDEventTypeInput, fe_HID = ev\<rparr>]))
        (ApplyReport env (inputState st) data spare))"

text \<open>An event from downstream: reports that are written to the device and reports that are set.\<close>

definition input_down :: "Env \<Rightarrow> FlowEvent \<Rightarrow> DeviceStates \<Rightarrow> (DeviceStates \<times> u8 list list \<times> u8 list list) option" where
  "input_down env e st =
     (case fe_Type e of
        HIDEventTypeOutput \<Rightarrow>
          map_option (\<lambda>(reports, r). (st\<lparr>outputState := r\<rparr>, reports, [])) (ApplyEvent env (outputState st) (fe_HID e))
      | HIDEventTypeFeature \<Rightarrow>
          map_option (\<lambda>(reports, r). (st\<lparr>featureState := r\<rparr>, [], reports)) (ApplyEvent env (featureState st) (fe_HID e))
      | HIDEventTypeInput \<Rightarrow> Some (st, [], []))"

end
