(* ===== verification/HidNodeFacts.thy ===== *)
theory HidNodeFacts
  imports HidNodes DescSync ReportFacts
begin

section \<open>The descriptor of an output and the life of an input device\<close>

text \<open>
  The descriptor of an output is that of its inputs with new report IDs: the one input of most
  outputs keeps its IDs, a second gets IDs that the first does not have. An input device that is opened
  is closed, and released when it was acquired, on every path.
\<close>

subsection \<open>Report IDs\<close>

text \<open>A descriptor with other report IDs.\<close>

fun renumber :: "(u8 \<Rightarrow> u8) \<Rightarrow> Collection \<Rightarrow> Collection" and renumber_items :: "(u8 \<Rightarrow> u8) \<Rightarrow> MainItem list \<Rightarrow> MainItem list" where
  "renumber f (Collection t p u items) = Collection t p u (renumber_items f items)"
| "renumber_items f [] = []"
| "renumber_items f (MainItem t d c # items) =
     MainItem t (map_option (\<lambda>i. i\<lparr>ReportID := f (ReportID i)\<rparr>) d) (map_option (renumber f) c) # renumber_items f items"

lemma Walk_remap:
  "Collection_Walk (remap_item m) k () = (renumber (mapped_id m) k, ())"
  "items_Walk (remap_item m) items () = (renumber_items (mapped_id m) items, ())"
  by (induction k and items rule: full_collection_full_items.induct) (auto simp: remap_item_def split: option.splits)

lemma Walk_remap_all: "ReportDescriptor_Walk (remap_item m) cs () = (map (renumber (mapped_id m)) cs, ())"
  by (induction cs) (simp_all add: Walk_remap)

lemma wf_full: "wf_collection k \<Longrightarrow> full_collection k" "wf_items items \<Longrightarrow> full_items items"
  by (induction k and items rule: full_collection_full_items.induct) (auto split: option.splits)

lemma renumber_id:
  "wf_collection k \<Longrightarrow> \<forall>x \<in> set (flat_collection k). f (ReportID (snd x)) = ReportID (snd x) \<Longrightarrow> renumber f k = k"
  "wf_items items \<Longrightarrow> \<forall>x \<in> set (flat_items items). f (ReportID (snd x)) = ReportID (snd x) \<Longrightarrow> renumber_items f items = items"
  by (induction k and items rule: full_collection_full_items.induct) (auto split: option.splits)

definition report_ids :: "ReportDescriptor \<Rightarrow> u8 list" where
  "report_ids d = first_ids (flat d)"

lemma report_ids_distinct [simp]: "distinct (report_ids d)"
  by (simp add: report_ids_def first_ids_def)

lemma report_ids_item: "c \<in> set (Collections d) \<Longrightarrow> x \<in> set (flat_collection c) \<Longrightarrow> ReportID (snd x) \<in> set (report_ids d)"
  by (auto simp: report_ids_def first_ids_def flat_def)

text \<open>The search for an ID that is not taken ends while there is one.\<close>

lemma free_id_None: "free_id n m i = None \<longleftrightarrow> (\<forall>k < n. m (i + of_nat k) \<noteq> None)"
proof (induction n arbitrary: i)
  case (Suc n)
  show ?case by (simp add: Suc.IH All_less_Suc2 add.assoc)
qed simp

lemma free_id_Some: "free_id n m i = Some j \<Longrightarrow> m j = None"
  by (induction n arbitrary: i) (auto split: if_splits)

lemma free_id_here: "m i = None \<Longrightarrow> free_id 256 m i = Some i"
  by (simp add: numeral_eq_Suc)

lemma free_id_ends: "m j = None \<Longrightarrow> free_id 256 m i \<noteq> None"
proof -
  assume j: "m j = None"
  have "unat (j - i) < 256" using unsigned_less [of "j - i"] by simp
  moreover have "i + of_nat (unat (j - i)) = j" by simp
  ultimately show ?thesis using j unfolding free_id_None by metis
qed

text \<open>Only the IDs of the reports matter.\<close>

definition assign_list :: "u8 list \<Rightarrow> (u8 \<rightharpoonup> u8) \<Rightarrow> (u8 \<rightharpoonup> u8) option" where
  "assign_list = fold_opt (\<lambda>m i. map_option (\<lambda>j. m(i \<mapsto> j)) (free_id 256 m i))"

lemma assign_list_simps [simp]:
  "assign_list [] m = Some m"
  "assign_list (i # is) m = (case free_id 256 m i of None \<Rightarrow> None | Some j \<Rightarrow> assign_list is (m(i \<mapsto> j)))"
  by (simp_all add: assign_list_def split: option.splits)

lemma assign_ids_list: "assign_ids rds m = assign_list (map set_report_ID rds) m"
  by (induction rds arbitrary: m) (auto simp: assign_ids_def assign_list_def split: option.splits)

lemma assign_fresh:
  "distinct is \<Longrightarrow> \<forall>i \<in> set is. m i = None \<Longrightarrow> assign_list is m = Some (\<lambda>i. if i \<in> set is then Some i else m i)"
proof (induction "is" arbitrary: m)
  case (Cons i "is")
  have "assign_list is (m(i \<mapsto> i)) = Some (\<lambda>k. if k \<in> set is then Some k else (m(i \<mapsto> i)) k)"
    using Cons by (intro Cons.IH) auto
  then show ?case using Cons.prems by (auto simp: free_id_here fun_eq_iff)
qed simp

lemma assign_other:
  "assign_list is m = Some m' \<Longrightarrow> (\<forall>k. k \<notin> set is \<longrightarrow> m' k = m k)
     \<and> (\<forall>k j. k \<in> set is \<longrightarrow> m' k = Some j \<longrightarrow> m j = None) \<and> (\<forall>k \<in> set is. m' k \<noteq> None)"
proof (induction "is" arbitrary: m)
  case (Cons i "is")
  then obtain j where j: "free_id 256 m i = Some j" "assign_list is (m(i \<mapsto> j)) = Some m'"
    by (auto split: option.splits)
  from Cons.IH [OF j(2)] have IH: "\<And>k. k \<notin> set is \<Longrightarrow> m' k = (m(i \<mapsto> j)) k"
    "\<And>k l. k \<in> set is \<Longrightarrow> m' k = Some l \<Longrightarrow> (m(i \<mapsto> j)) l = None" "\<And>k. k \<in> set is \<Longrightarrow> m' k \<noteq> None" by blast+
  have "m' i \<noteq> None" using IH(1) [of i] IH(3) [of i] by (cases "i \<in> set is") auto
  with IH show ?case
  proof (intro conjI allI impI ballI)
    fix k l assume "k \<in> set (i # is)" "m' k = Some l"
    then have "l = j \<and> k \<notin> set is \<or> (m(i \<mapsto> j)) l = None"
      using IH(1) [of k] IH(2) [of k l] by (cases "k \<in> set is") auto
    then show "m l = None" using free_id_Some [OF j(1)] by (auto split: if_splits)
  qed (use IH in \<open>auto split: if_splits\<close>)
qed simp

lemma assign_ends: "m j = None \<Longrightarrow> j \<notin> set is \<Longrightarrow> assign_list is m \<noteq> None"
proof (induction "is" arbitrary: m)
  case (Cons i "is")
  obtain k where k: "free_id 256 m i = Some k" using free_id_ends [of m j i] Cons.prems(1) by blast
  have "assign_list is (m(i \<mapsto> k)) \<noteq> None" using Cons by (intro Cons.IH) auto
  then show ?case using k by simp
qed simp

subsection \<open>Descriptors\<close>

lemma collect_wf:
  assumes "get addr = Ret (Encode d)" "wf_descriptor d"
  shows "collect_inputs get (addr # addrs) m cs =
    (case assign_list (report_ids d) m of
       None \<Rightarrow> None
     | Some m' \<Rightarrow> collect_inputs get addrs m' (cs @ map (renumber (mapped_id m')) (Collections d)))"
proof -
  obtain s where s: "NewDataItemSet d = Some s" "represents s (flat d)"
    using NewDataItemSet_represents [of d] assms(2) wf_full(1) by (auto simp: wf_descriptor_def)
  have "map set_report_ID (DataItemSet_Reports s) = report_ids d"
    using s(2) by (simp add: DataItemSet_Reports_def represents_def report_ids_def comp_def)
  then show ?thesis
    using assms s(1) by (simp add: Decode_Encode_wf assign_ids_list Walk_remap_all split: option.splits)
qed

lemma renumber_descriptor:
  assumes "wf_descriptor d" "\<forall>i \<in> set (report_ids d). f i = i"
  shows "map (renumber f) (Collections d) = Collections d"
  using assms report_ids_item by (intro map_idI renumber_id(1)) (auto simp: wf_descriptor_def)

lemma first_input:
  assumes "get addr = Ret (Encode d)" "wf_descriptor d"
  shows "collect_inputs get (addr # addrs) Map.empty [] =
    collect_inputs get addrs (\<lambda>i. if i \<in> set (report_ids d) then Some i else None) (Collections d)"
  using renumber_descriptor [OF assms(2)]
  by (simp add: collect_wf [where get = get and addr = addr and d = d, OF assms] assign_fresh mapped_id_def
      del: collect_inputs.simps)

lemma single_input:
  assumes "get addr = Ret (Encode d)" "wf_descriptor d" "Collections d \<noteq> []"
  shows "buildDescriptor get [addr] = Some (Ret d)"
  using assms(3) first_input [where get = get and addr = addr and d = d and addrs = "[]", OF assms(1,2)]
  by (simp add: buildDescriptor_def del: collect_inputs.simps(2))

lemma two_inputs:
  assumes "get a1 = Ret (Encode d1)" "wf_descriptor d1" "Collections d1 \<noteq> []"
    and "get a2 = Ret (Encode d2)" "wf_descriptor d2" "set (report_ids d1) \<union> set (report_ids d2) \<noteq> UNIV"
  shows "\<exists>f. buildDescriptor get [a1, a2] = Some (Ret \<lparr>Collections = Collections d1 @ map (renumber f) (Collections d2)\<rparr>)
    \<and> (\<forall>i \<in> set (report_ids d2). f i \<notin> set (report_ids d1))"
proof -
  let ?m = "\<lambda>i. if i \<in> set (report_ids d1) then Some i else None"
  obtain j where "j \<notin> set (report_ids d1)" "j \<notin> set (report_ids d2)" using assms(6) by blast
  then obtain m' where m': "assign_list (report_ids d2) ?m = Some m'"
    using assign_ends [of ?m j "report_ids d2"] by auto
  then have c: "collect_inputs get [a1, a2] Map.empty [] =
      Some (Ret (Collections d1 @ map (renumber (mapped_id m')) (Collections d2)))"
    using first_input [where get = get and addr = a1 and d = d1 and addrs = "[a2]", OF assms(1,2)]
      collect_wf [where get = get and addr = a2 and d = d2 and addrs = "[]", OF assms(4,5)]
    by (simp del: collect_inputs.simps(2))
  have "mapped_id m' i \<notin> set (report_ids d1)" if "i \<in> set (report_ids d2)" for i
    using assign_other [OF m'] that by (auto simp: mapped_id_def split: option.splits if_splits)
  then show ?thesis using c assms(3)
    by (intro exI [of _ "mapped_id m'"]) (simp add: buildDescriptor_def del: collect_inputs.simps(2))
qed

text \<open>With a third input whose report has the same ID, two inputs share an ID.\<close>

lemma third_input_collides:
  assumes "get a1 = Ret (Encode d1)" "get a2 = Ret (Encode d2)" "get a3 = Ret (Encode d3)"
    and "wf_descriptor d1" "wf_descriptor d2" "wf_descriptor d3" "Collections d1 \<noteq> []"
    and "report_ids d1 = [i]" "report_ids d2 = [i]" "report_ids d3 = [i]"
  shows "\<exists>f. f i = i + 1 \<and> buildDescriptor get [a1, a2, a3] =
    Some (Ret \<lparr>Collections = Collections d1 @ map (renumber f) (Collections d2) @ map (renumber f) (Collections d3)\<rparr>)"
proof -
  let ?m = "\<lambda>k. if k = i then Some k else None" and ?m' = "\<lambda>k. if k = i then Some (i + 1) else None"
  have a: "assign_list [i] ?m = Some ?m'" "assign_list [i] ?m' = Some ?m'"
    by (simp_all add: numeral_eq_Suc fun_eq_iff)
  have "collect_inputs get [a1, a2, a3] Map.empty [] =
      Some (Ret (Collections d1 @ map (renumber (mapped_id ?m')) (Collections d2) @ map (renumber (mapped_id ?m')) (Collections d3)))"
    using first_input [where get = get and addr = a1 and d = d1 and addrs = "[a2, a3]", OF assms(1,4)]
      collect_wf [where get = get and addr = a2 and d = d2 and addrs = "[a3]" and m = ?m, OF assms(2,5)]
      collect_wf [where get = get and addr = a3 and d = d3 and addrs = "[]" and m = ?m', OF assms(3,6)]
    using assms(8-10) a by (simp del: assign_list_simps collect_inputs.simps(2))
  then show ?thesis using assms(7)
    by (intro exI [of _ "mapped_id ?m'"]) (simp add: buildDescriptor_def mapped_id_def del: collect_inputs.simps(2))
qed

subsection \<open>The life of an input device\<close>

lemma count_sent [simp]:
  "count_list (map (\<lambda>e. Sent (f e)) es) Opened = 0" "count_list (map (\<lambda>e. Sent (f e)) es) Closed = 0"
  "count_list (map (\<lambda>e. Sent (f e)) es) Acquired = 0" "count_list (map (\<lambda>e. Sent (f e)) es) Released = 0"
  by (induction es) simp_all

lemma handleDevice_balanced:
  assumes "handleDevice env now ops = Some (trace, r)"
  shows "let t = trace @ (if r = None then [] else handleDevice_end)
    in count_list t Opened = count_list t Closed \<and> count_list t Acquired = count_list t Released \<and> (t = [] \<or> last t = Closed)"
  using assms
  by (auto simp: handleDevice_def handleDevice_states_def handleDevice_end_def
      split: outcome.splits option.splits prod.splits)

subsection \<open>Reports that wait for an output device\<close>

text \<open>A batch that waits is not replaced by a newer one, so an output device first gets the older.\<close>

lemma waiting_batch_kept:
  assumes "or_reportsCh s = Some old" "output_event env e s = Some s'" "fe_Type e = HIDEventTypeInput"
  shows "or_reportsCh s' = Some old \<and> or_written (output_write s') = or_written s @ old \<and> or_reportsCh (output_write s') = None"
  using assms by (auto simp: output_event_def output_write_def Let_def split: option.splits prod.splits if_splits)

text \<open>A device that takes every batch before the next event gets all of them.\<close>

lemma written_in_step:
  assumes "or_reportsCh s = None" "fe_Type e = HIDEventTypeInput"
    "ApplyEvent env (inputState (or_states s)) (fe_HID e) = Some (reports, r)"
  shows "map_option output_write (output_event env e s) =
    Some (s\<lparr>or_states := (or_states s)\<lparr>inputState := r\<rparr>, or_written := or_written s @ reports\<rparr>)"
  using assms by (cases "reports = []") (simp_all add: output_event_def output_write_def)

end
