(* ===== verification/LinuxDevices.thy ===== *)
theory LinuxDevices
  imports HidService
begin

section \<open>The devices of the Linux backend (internal/hidsvc/linux/linux_backend.go)\<close>

text \<open>
  The backend polls the HID devices of the system and reads the configuration of the virtual devices,
  keeps both in maps and publishes what appeared and what went away. The system is a parameter: the
  list that an enumeration finds, and \<open>open_path\<close>, which opens a device file. \<open>order\<close> is the order in
  which a map is ranged over. Setting up udev and the goroutine of the poller are not modelled; a
  step of \<open>device_step\<close> is a poll or the handling of a published event by the service.
\<close>

subsection \<open>Addresses of HID devices\<close>

record HidAddress =
  VendorID :: u16
  ProductID :: u16
  Interface :: int

text \<open>The verb \<open>%04x\<close>.\<close>

definition format_hex4 :: "nat \<Rightarrow> string" where
  "format_hex4 n = replicate (4 - length (digits_of 16 n)) CHR ''0'' @ digits_of 16 n"

definition HidAddress_String :: "HidAddress \<Rightarrow> string" where
  "HidAddress_String a =
     format_hex4 (unat (VendorID a)) @ '':'' @ format_hex4 (unat (ProductID a)) @ '':'' @ format_int (Interface a)"

text \<open>
  \<open>fmt.Sscanf\<close>: a verb skips blanks, reads as many digits as its width allows and needs at least
  one; other characters of the format must match; what follows the last verb is left unread.
\<close>

definition scan_blank :: "char \<Rightarrow> bool" where
  "scan_blank c \<longleftrightarrow> (of_char c :: nat) \<in> {9, 11, 12, 13, 32}"

definition scan_digit :: "nat \<Rightarrow> char \<Rightarrow> bool" where
  "scan_digit b c \<longleftrightarrow> (case digit_value c of None \<Rightarrow> False | Some d \<Rightarrow> d < b)"

definition scan_hex4 :: "string \<Rightarrow> (u16 \<times> string) option" where
  "scan_hex4 s =
     (let s = dropWhile scan_blank s;
          tok = takeWhile (scan_digit 16) (take 4 s)
      in case ParseUint 16 64 tok of
           None \<Rightarrow> None
         | Some n \<Rightarrow> if n < 2 ^ 16 then Some (of_nat n, drop (length tok) s) else None)"

definition scan_char :: "char \<Rightarrow> string \<Rightarrow> string option" where
  "scan_char c s = (case s of [] \<Rightarrow> None | x # xs \<Rightarrow> if x = c then Some xs else None)"

definition scan_int :: "string \<Rightarrow> int option" where
  "scan_int s =
     (let s = dropWhile scan_blank s
      in case s of
           [] \<Rightarrow> None
         | c # cs \<Rightarrow>
             if c = CHR ''-'' \<or> c = CHR ''+'' then ParseInt 10 64 (c # takeWhile (scan_digit 10) cs)
             else ParseInt 10 64 (takeWhile (scan_digit 10) s))"

definition ParseHidAddress :: "string \<Rightarrow> (string, HidAddress) outcome" where
  "ParseHidAddress s =
     (case scan_hex4 s of
        None \<Rightarrow> Fail ''scan''
      | Some (v, s) \<Rightarrow>
          (case scan_char CHR '':'' s of
             None \<Rightarrow> Fail ''input does not match format''
           | Some s \<Rightarrow>
               (case scan_hex4 s of
                  None \<Rightarrow> Fail ''scan''
                | Some (p, s) \<Rightarrow>
                    (case scan_char CHR '':'' s of
                       None \<Rightarrow> Fail ''input does not match format''
                     | Some s \<Rightarrow>
                         (case scan_int s of
                            None \<Rightarrow> Fail ''scan''
                          | Some i \<Rightarrow> Ret \<lparr>VendorID = v, ProductID = p, Interface = i\<rparr>)))))"

subsection \<open>Polling\<close>

text \<open>What the code reads of a device that the HID library enumerates.\<close>

record DeviceInfo =
  di_Path :: string
  di_VendorID :: u16
  di_ProductID :: u16
  di_InterfaceNbr :: int
  di_MfrStr :: string
  di_ProductStr :: string

definition device_address :: "DeviceInfo \<Rightarrow> HidAddress" where
  "device_address d = \<lparr>VendorID = di_VendorID d, ProductID = di_ProductID d, Interface = di_InterfaceNbr d\<rparr>"

definition enumerateHidDevices :: "DeviceInfo list \<Rightarrow> HidAddress \<rightharpoonup> DeviceInfo" where
  "enumerateHidDevices found = fold (\<lambda>d m. m(device_address d \<mapsto> d)) found Map.empty"

definition generateName :: "DeviceInfo \<Rightarrow> string" where
  "generateName d =
     (let parts = (if di_MfrStr d \<noteq> [] then [di_MfrStr d] else []) @ (if di_ProductStr d \<noteq> [] then [di_ProductStr d] else [])
      in case parts of
           [] \<Rightarrow> format_hex4 (unat (di_VendorID d)) @ '':'' @ format_hex4 (unat (di_ProductID d))
         | p # ps \<Rightarrow> p @ concat (map (\<lambda>q. '' '' @ q) ps))"

text \<open>
  The loop that both refresh functions have: what is known and no longer there is removed and reported,
  what is known and there is taken out of the new devices. The devices that remain are added.
\<close>

definition forget_devices ::
  "'k list \<Rightarrow> ('k \<Rightarrow> string) \<Rightarrow> ('k \<rightharpoonup> 'd) \<Rightarrow> ('k \<rightharpoonup> 'd) \<Rightarrow> ('k \<rightharpoonup> 'd) \<times> ('k \<rightharpoonup> 'd) \<times> string list" where
  "forget_devices keys name known new =
     fold (\<lambda>k (known, new, disconnected).
       (case new k of
          None \<Rightarrow> (known(k := None), new, disconnected @ [name k])
        | Some d \<Rightarrow> (known, new(k := None), disconnected))) keys (known, new, [])"

definition add_devices :: "'k list \<Rightarrow> ('k \<Rightarrow> 'd \<Rightarrow> BackendDevice) \<Rightarrow> ('k \<rightharpoonup> 'd) \<Rightarrow> ('k \<rightharpoonup> 'd) \<Rightarrow> ('k \<rightharpoonup> 'd) \<times> BackendDevice list" where
  "add_devices keys device new known =
     fold (\<lambda>k (known, connected). (known(k \<mapsto> the (new k)), connected @ [device k (the (new k))])) keys (known, [])"

definition changed_event :: "BackendDevice list \<Rightarrow> string list \<Rightarrow> BackendEventChanged option" where
  "changed_event connected disconnected =
     (if connected \<noteq> [] \<or> disconnected \<noteq> [] then Some \<lparr>bc_Connected = connected, bc_Disconnected = disconnected\<rparr> else None)"

definition refreshHidDevices ::
  "((HidAddress \<rightharpoonup> DeviceInfo) \<Rightarrow> HidAddress list) \<Rightarrow> DeviceInfo list option \<Rightarrow> (HidAddress \<rightharpoonup> DeviceInfo)
     \<Rightarrow> (HidAddress \<rightharpoonup> DeviceInfo) \<times> BackendEvent option" where
  "refreshHidDevices order found hidDevices =
     (case found of
        None \<Rightarrow> (hidDevices, None)
      | Some ds \<Rightarrow>
          let (known, new, disconnected) = forget_devices (order hidDevices) HidAddress_String hidDevices (enumerateHidDevices ds);
              (known, connected) = add_devices (order new) (\<lambda>a d. \<lparr>bd_ID = HidAddress_String a, bd_Name = generateName d\<rparr>) new known
          in (known, map_option (\<lambda>c. \<lparr>be_InputsChanged = Some c, be_OutputsChanged = None\<rparr>) (changed_event connected disconnected)))"

record UhidDeviceConfig =
  uc_ID :: string
  uc_Name :: string
  uc_VendorID :: u32
  uc_ProductID :: u32

definition refreshUhidDevices ::
  "((string \<rightharpoonup> UhidDeviceConfig) \<Rightarrow> string list) \<Rightarrow> UhidDeviceConfig list \<Rightarrow> (string \<rightharpoonup> UhidDeviceConfig)
     \<Rightarrow> (string \<rightharpoonup> UhidDeviceConfig) \<times> BackendEvent option" where
  "refreshUhidDevices order uhid uhidDevices =
     (let newDevices = fold (\<lambda>d m. m(uc_ID d \<mapsto> d)) uhid Map.empty;
          (known, new, disconnected) = forget_devices (order uhidDevices) (\<lambda>i. ''uhid:'' @ i) uhidDevices newDevices;
          (known, connected) = add_devices (order new) (\<lambda>i d. \<lparr>bd_ID = ''uhid:'' @ i, bd_Name = uc_Name d\<rparr>) new known
      in (known, map_option (\<lambda>c. \<lparr>be_InputsChanged = None, be_OutputsChanged = Some c\<rparr>) (changed_event connected disconnected)))"

definition onUhidConfigChange ::
  "((string \<rightharpoonup> UhidDeviceConfig) \<Rightarrow> string list) \<Rightarrow> UhidDeviceConfig list option \<Rightarrow> (string \<rightharpoonup> UhidDeviceConfig)
     \<Rightarrow> (string \<rightharpoonup> UhidDeviceConfig) \<times> BackendEvent option" where
  "onUhidConfigChange order cfg uhidDevices =
     (case cfg of None \<Rightarrow> (uhidDevices, None) | Some uhid \<Rightarrow> refreshUhidDevices order uhid uhidDevices)"

subsection \<open>Opening a device\<close>

record 'd hidapiDevice =
  hd_info :: DeviceInfo
  hd_dev :: 'd

definition linux_OpenInputDevice ::
  "(string \<Rightarrow> (string, 'd) outcome) \<Rightarrow> (HidAddress \<rightharpoonup> DeviceInfo) \<Rightarrow> string \<Rightarrow> (string, 'd hidapiDevice) outcome" where
  "linux_OpenInputDevice open_path hidDevices i =
     (case ParseHidAddress i of
        Fail e \<Rightarrow> Fail e
      | Panic \<Rightarrow> Panic
      | Ret addr \<Rightarrow>
          (case hidDevices addr of
             None \<Rightarrow> Fail ''device not found''
           | Some info \<Rightarrow> obind (open_path (di_Path info)) (\<lambda>dev. Ret \<lparr>hd_info = info, hd_dev = dev\<rparr>)))"

text \<open>
  The reports of a device: a buffer whose first byte is the ID is given to the library, which fills it
  and says how many bytes count. Without IDs the first byte is cut off. The library is \<open>get\<close>.
\<close>

definition get_report :: "(u8 list \<Rightarrow> (string, nat \<times> u8 list) outcome) \<Rightarrow> u8 \<Rightarrow> (string, u8 list) outcome" where
  "get_report get reportID =
     (case get ((replicate 4096 0)[0 := reportID]) of
        Fail e \<Rightarrow> Fail e
      | Panic \<Rightarrow> Panic
      | Ret (n, buf) \<Rightarrow> of_panic (subslice buf (if reportID = 0 then 1 else 0) n))"

definition hidapiDevice_GetReportDescriptor :: "(u8 list \<Rightarrow> (string, nat \<times> u8 list) outcome) \<Rightarrow> (string, u8 list) outcome" where
  "hidapiDevice_GetReportDescriptor get =
     (case get (replicate 4096 0) of
        Fail e \<Rightarrow> Fail e
      | Panic \<Rightarrow> Panic
      | Ret (n, buf) \<Rightarrow> of_panic (subslice buf 0 n))"

text \<open>What the service asks a backend for: the descriptor of a device that it opens.\<close>

definition linux_backend ::
  "(string \<Rightarrow> (string, 'd) outcome) \<Rightarrow> ('d \<Rightarrow> u8 list \<Rightarrow> (string, nat \<times> u8 list) outcome) \<Rightarrow> (HidAddress \<rightharpoonup> DeviceInfo) \<Rightarrow> backends" where
  "linux_backend open_path get hidDevices =
     [''linux'' \<mapsto> (\<lambda>i. obind (linux_OpenInputDevice open_path hidDevices i) (\<lambda>h. hidapiDevice_GetReportDescriptor (get (hd_dev h))))]"

subsection \<open>The backend and the service\<close>

text \<open>
  The events that the poller has published and the service not yet handled are \<open>ds_pending\<close>.
  \<open>ds_failed\<close> holds the identifiers of the devices whose initialisation the service has logged as failed.
\<close>

record device_system =
  ds_hidDevices :: "HidAddress \<rightharpoonup> DeviceInfo"
  ds_pending :: "BackendEvent list"
  ds_service :: HidService
  ds_failed :: "string set"

definition linux_address :: "string \<Rightarrow> Address" where
  "linux_address i = \<lparr>ad_Backend = ''linux'', ad_ID = i\<rparr>"

definition connected_ids :: "BackendEvent \<Rightarrow> string set" where
  "connected_ids e = (case be_InputsChanged e of None \<Rightarrow> {} | Some c \<Rightarrow> bd_ID ` set (bc_Connected c))"

definition disconnected_ids :: "BackendEvent \<Rightarrow> string set" where
  "disconnected_ids e = (case be_InputsChanged e of None \<Rightarrow> {} | Some c \<Rightarrow> set (bc_Disconnected c))"

definition first_poll :: "db \<Rightarrow> device_system" where
  "first_poll m = \<lparr>ds_hidDevices = Map.empty, ds_pending = [], ds_service = NewHidService m, ds_failed = {}\<rparr>"

inductive device_step ::
  "json \<Rightarrow> ((HidAddress \<rightharpoonup> DeviceInfo) \<Rightarrow> HidAddress list) \<Rightarrow> (string \<Rightarrow> (string, 'd) outcome)
     \<Rightarrow> ('d \<Rightarrow> u8 list \<Rightarrow> (string, nat \<times> u8 list) outcome) \<Rightarrow> device_system \<Rightarrow> device_system \<Rightarrow> bool"
  for js order open_path get where
  poll: "refreshHidDevices order found (ds_hidDevices S) = (known, ev) \<Longrightarrow>
    device_step js order open_path get S
      (S\<lparr>ds_hidDevices := known, ds_pending := ds_pending S @ (case ev of None \<Rightarrow> [] | Some e \<Rightarrow> [e])\<rparr>)"
| handle: "ds_pending S = e # es \<Longrightarrow>
    handleBackendEvent js (linux_backend open_path get (ds_hidDevices S)) clock ''linux'' e (ds_service S) = Some s \<Longrightarrow>
    device_step js order open_path get S
      (S\<lparr>ds_pending := es, ds_service := s,
         ds_failed := ds_failed S \<union> {i \<in> connected_ids e. \<not> IsInputConnected s (linux_address i)}\<rparr>)"

inductive_cases device_stepE: "device_step js order open_path get S S'"

end
