(* ===== verification/UhidDevices.thy ===== *)
theory UhidDevices
  imports HidNodes LinuxDevices
begin

section \<open>The virtual devices of the Linux backend (internal/hidsvc/linux/linux_backend.go)\<close>

text \<open>
  A virtual device gets events from the kernel through the \<open>uhid\<close> library: output reports, which are
  queued for the output node, and requests to read or to set a report, which its handler answers. The
  structs of the requests are read with package \<open>encoding/binary\<close>. Creating the device is the
  library's; an error of writing a reply is only logged.
\<close>

datatype uhid_event_type = UhidOutput | UhidGetReport | UhidSetReport | UhidOther

record uhid_event =
  ue_Kind :: uhid_event_type
  ue_Data :: "u8 list"

definition UhidReportTypeFeature :: u8 where "UhidReportTypeFeature = 0"
definition UhidReportTypeOutput :: u8 where "UhidReportTypeOutput = 1"
definition UhidReportTypeInput :: u8 where "UhidReportTypeInput = 2"

definition uhidReportSize :: nat where "uhidReportSize = 4096"

record GetReportRequest =
  gr_RequestID :: u32
  gr_ReportID :: u8
  gr_ReportType :: u8

record SetReportRequest =
  sr_RequestID :: u32
  sr_ReportID :: u8
  sr_ReportType :: u8
  sr_Size :: u16
  sr_Data :: "u8 list"

record GetReportReply =
  gp_RequestID :: u32
  gp_Error :: u16
  gp_Size :: u16
  gp_Data :: "u8 list"

record SetReportReply =
  sp_RequestID :: u32
  sp_Error :: u16

datatype uhid_reply = GetReply GetReportReply | SetReply SetReportReply

text \<open>\<open>binary.Read\<close> fails when there are fewer bytes than the struct has and ignores more.\<close>

definition read_GetReportRequest :: "u8 list \<Rightarrow> GetReportRequest option" where
  "read_GetReportRequest data =
     (if length data < 6 then None
      else Some \<lparr>gr_RequestID = le_uint32 (data ! 0) (data ! 1) (data ! 2) (data ! 3), gr_ReportID = data ! 4, gr_ReportType = data ! 5\<rparr>)"

definition read_SetReportRequest :: "u8 list \<Rightarrow> SetReportRequest option" where
  "read_SetReportRequest data =
     (if length data < 8 + uhidReportSize then None
      else Some \<lparr>sr_RequestID = le_uint32 (data ! 0) (data ! 1) (data ! 2) (data ! 3), sr_ReportID = data ! 4, sr_ReportType = data ! 5,
        sr_Size = le_uint16 (data ! 6) (data ! 7), sr_Data = take uhidReportSize (drop 8 data)\<rparr>)"

text \<open>\<open>copy\<close> into an array that was zero.\<close>

definition copy_into :: "nat \<Rightarrow> u8 list \<Rightarrow> u8 list" where
  "copy_into n data = take n data @ replicate (n - length data) 0"

definition get_report_data :: "DeviceStates \<Rightarrow> GetReportRequest \<Rightarrow> (string, u8 list) outcome" where
  "get_report_data st req =
     (if gr_ReportType req = UhidReportTypeFeature then handler_GetFeatureReport st (gr_ReportID req)
      else if gr_ReportType req = UhidReportTypeInput then handler_GetInputReport st (gr_ReportID req)
      else if gr_ReportType req = UhidReportTypeOutput then handler_GetOutputReport st (gr_ReportID req)
      else Fail ''unsupported report type'')"

definition get_report_reply :: "GetReportRequest \<Rightarrow> (string, u8 list) outcome \<Rightarrow> uhid_reply option" where
  "get_report_reply req r =
     (case r of
        Panic \<Rightarrow> None
      | Fail e \<Rightarrow> Some (GetReply \<lparr>gp_RequestID = gr_RequestID req, gp_Error = 1, gp_Size = 0, gp_Data = replicate uhidReportSize 0\<rparr>)
      | Ret data \<Rightarrow> Some (GetReply \<lparr>gp_RequestID = gr_RequestID req, gp_Error = 0, gp_Size = of_nat (length data),
                                   gp_Data = copy_into uhidReportSize data\<rparr>))"

definition set_report_state :: "Env \<Rightarrow> SetReportRequest \<Rightarrow> u8 list \<Rightarrow> DeviceStates \<Rightarrow> (string, DeviceStates) outcome" where
  "set_report_state env req data st =
     (if sr_ReportType req = UhidReportTypeFeature then handler_SetFeatureReport env (sr_ReportID req) data st
      else if sr_ReportType req = UhidReportTypeOutput then handler_SetOutputReport env (sr_ReportID req) data st
      else Fail ''unsupported report type'')"

record uhid_run =
  ur_readCh :: "u8 list list"
  ur_states :: DeviceStates
  ur_replies :: "uhid_reply list"

text \<open>The channel of reports has eight places. The size of a request is used before it is compared.\<close>

definition uhid_handle :: "Env \<Rightarrow> uhid_event \<Rightarrow> uhid_run \<Rightarrow> uhid_run option" where
  "uhid_handle env ev s =
     (case ue_Kind ev of
        UhidOutput \<Rightarrow> Some (if length (ur_readCh s) < 8 then s\<lparr>ur_readCh := ur_readCh s @ [ue_Data ev]\<rparr> else s)
      | UhidGetReport \<Rightarrow>
          (case read_GetReportRequest (ue_Data ev) of
             None \<Rightarrow> Some s
           | Some req \<Rightarrow>
               map_option (\<lambda>reply. s\<lparr>ur_replies := ur_replies s @ [reply]\<rparr>)
                 (get_report_reply req (get_report_data (ur_states s) req)))
      | UhidSetReport \<Rightarrow>
          (case read_SetReportRequest (ue_Data ev) of
             None \<Rightarrow> Some s
           | Some req \<Rightarrow>
               (case subslice (sr_Data req) 0 (unat (sr_Size req)) of
                  None \<Rightarrow> None
                | Some data \<Rightarrow>
                    (case set_report_state env req data (ur_states s) of
                       Panic \<Rightarrow> None
                     | Fail e \<Rightarrow> Some (s\<lparr>ur_replies := ur_replies s @ [SetReply \<lparr>sp_RequestID = sr_RequestID req, sp_Error = 1\<rparr>]\<rparr>)
                     | Ret st \<Rightarrow> Some (s\<lparr>ur_states := st,
                         ur_replies := ur_replies s @ [SetReply \<lparr>sp_RequestID = sr_RequestID req, sp_Error = 0\<rparr>]\<rparr>))))
      | UhidOther \<Rightarrow> Some s)"

definition uhid_loop :: "Env \<Rightarrow> uhid_event list \<Rightarrow> uhid_run \<Rightarrow> uhid_run option" where
  "uhid_loop env = fold_opt (\<lambda>s ev. uhid_handle env ev s)"

text \<open>\<open>Read\<close> gives the oldest report, cut to the buffer, and waits when there is none.\<close>

definition uhid_Read :: "nat \<Rightarrow> uhid_run \<Rightarrow> (u8 list \<times> uhid_run) option" where
  "uhid_Read n s = (case ur_readCh s of [] \<Rightarrow> None | data # rest \<Rightarrow> Some (take n data, s\<lparr>ur_readCh := rest\<rparr>))"

text \<open>Only identifiers of configured virtual devices can be opened. \<open>create\<close> is the library's.\<close>

definition linux_OpenOutputDevice ::
  "(string \<Rightarrow> UhidDeviceConfig \<Rightarrow> u8 list \<Rightarrow> (string, 'd) outcome) \<Rightarrow> (string \<rightharpoonup> UhidDeviceConfig) \<Rightarrow> string \<Rightarrow> u8 list \<Rightarrow> (string, 'd) outcome" where
  "linux_OpenOutputDevice create uhidDevices i raw =
     (if \<not> has_prefix ''uhid:'' i then Fail ''invalid output device address''
      else let i = drop 5 i
           in case uhidDevices i of
                None \<Rightarrow> Fail ''device not found''
              | Some config \<Rightarrow> create i config raw)"

subsection \<open>Requests are answered\<close>

definition reply_id :: "uhid_reply \<Rightarrow> u32" where
  "reply_id r = (case r of GetReply g \<Rightarrow> gp_RequestID g | SetReply s \<Rightarrow> sp_RequestID s)"

definition request_ids :: "uhid_event \<Rightarrow> u32 list" where
  "request_ids ev =
     (case ue_Kind ev of
        UhidGetReport \<Rightarrow> (case read_GetReportRequest (ue_Data ev) of None \<Rightarrow> [] | Some req \<Rightarrow> [gr_RequestID req])
      | UhidSetReport \<Rightarrow> (case read_SetReportRequest (ue_Data ev) of None \<Rightarrow> [] | Some req \<Rightarrow> [sr_RequestID req])
      | _ \<Rightarrow> [])"

lemma uhid_handle_replies:
  "uhid_handle env ev s = Some s' \<Longrightarrow> map reply_id (ur_replies s') = map reply_id (ur_replies s) @ request_ids ev"
  by (auto simp: uhid_handle_def request_ids_def reply_id_def get_report_reply_def
      split: uhid_event_type.splits option.splits outcome.splits if_splits)

lemma uhid_loop_replies:
  "uhid_loop env evs s = Some s' \<Longrightarrow> map reply_id (ur_replies s') = map reply_id (ur_replies s) @ concat (map request_ids evs)"
  unfolding uhid_loop_def by (induction evs arbitrary: s) (auto simp: uhid_handle_replies split: option.splits)

text \<open>A request whose size is larger than its buffer, or zero for a report that is set, is a panic.\<close>

lemma oversized_request:
  assumes "ue_Kind ev = UhidSetReport" "read_SetReportRequest (ue_Data ev) = Some req" "uhidReportSize < unat (sr_Size req)"
  shows "uhid_handle env ev s = None"
proof -
  have "length (sr_Data req) = uhidReportSize" using assms(2) by (auto simp: read_SetReportRequest_def split: if_splits)
  then show ?thesis using assms by (simp add: uhid_handle_def subslice_def)
qed

lemma empty_request:
  assumes "ue_Kind ev = UhidSetReport" "read_SetReportRequest (ue_Data ev) = Some req" "sr_Size req = 0"
    "sr_ReportType req \<in> {UhidReportTypeFeature, UhidReportTypeOutput}"
  shows "uhid_handle env ev s = None"
  using assms by (auto simp: uhid_handle_def subslice_def set_report_state_def handler_SetFeatureReport_def handler_SetOutputReport_def)

lemma uhid_handle_capacity: "uhid_handle env ev s = Some s' \<Longrightarrow> length (ur_readCh s) \<le> 8 \<Longrightarrow> length (ur_readCh s') \<le> 8"
  by (auto simp: uhid_handle_def split: uhid_event_type.splits option.splits outcome.splits if_splits)

text \<open>Opening a published virtual device finds its configuration.\<close>

lemma published_output_opens: "uhidDevices i = Some config \<Longrightarrow>
    linux_OpenOutputDevice create uhidDevices (''uhid:'' @ i) raw = create i config raw"
  by (simp add: linux_OpenOutputDevice_def has_prefix_def)

end
