(* ===== verification/GraphRuns.thy ===== *)
theory GraphRuns
  imports Main
begin

section \<open>Running a graph (internal/flowsvc/graph.go, flow_service.go)\<close>

text \<open>
  \<open>Graph.Run\<close> starts the goroutine of every node and then waits for the \<open>running\<close> channel of each
  runner in turn; when it returns, the service cancels the whole flow. Replacing a node ends its
  goroutine, which closes the channel, and starts another with a new channel. A channel is the runner
  with the number of its goroutine.
\<close>

record graph_run =
  gr_running :: "string \<Rightarrow> nat"
  gr_closed :: "(string \<times> nat) set"
  gr_left :: "string list"
  gr_channel :: "(string \<times> nat) option"
  gr_cancelled :: bool

text \<open>\<open>ids\<close> are the runners in the order in which their map is ranged over.\<close>

definition Graph_Run :: "string list \<Rightarrow> graph_run" where
  "Graph_Run ids = \<lparr>gr_running = (\<lambda>i. 0), gr_closed = {}, gr_left = ids, gr_channel = None, gr_cancelled = False\<rparr>"

definition node_ended :: "string \<Rightarrow> graph_run \<Rightarrow> graph_run" where
  "node_ended i g = g\<lparr>gr_closed := insert (i, gr_running g i) (gr_closed g)\<rparr>"

definition replaceNode :: "string \<Rightarrow> graph_run \<Rightarrow> graph_run" where
  "replaceNode i g = g\<lparr>gr_closed := insert (i, gr_running g i) (gr_closed g), gr_running := (gr_running g)(i := gr_running g i + 1)\<rparr>"

inductive graph_step :: "graph_run \<Rightarrow> graph_run \<Rightarrow> bool" where
  waits: "gr_channel g = None \<Longrightarrow> gr_left g = i # ids \<Longrightarrow>
    graph_step g (g\<lparr>gr_channel := Some (i, gr_running g i), gr_left := ids\<rparr>)"
| woken: "gr_channel g = Some c \<Longrightarrow> c \<in> gr_closed g \<Longrightarrow> graph_step g (g\<lparr>gr_channel := None\<rparr>)"
| run_returns: "gr_channel g = None \<Longrightarrow> gr_left g = [] \<Longrightarrow> graph_step g (g\<lparr>gr_cancelled := True\<rparr>)"
| ends: "graph_step g (node_ended i g)"
| replaced: "graph_step g (replaceNode i g)"

definition node_live :: "graph_run \<Rightarrow> string \<Rightarrow> bool" where
  "node_live g i \<longleftrightarrow> (i, gr_running g i) \<notin> gr_closed g"

text \<open>Every runner that \<open>Run\<close> has passed has ended or was replaced.\<close>

definition passed_ok :: "string list \<Rightarrow> graph_run \<Rightarrow> bool" where
  "passed_ok ids g \<longleftrightarrow>
     (\<forall>c \<in> gr_closed g. snd c \<le> gr_running g (fst c))
     \<and> (\<forall>i \<in> set ids. i \<in> set (gr_left g) \<or> (\<exists>n. gr_channel g = Some (i, n)) \<or> (\<exists>n. (i, n) \<in> gr_closed g))
     \<and> (gr_cancelled g \<longrightarrow> gr_left g = [] \<and> gr_channel g = None)"

lemma passed_step: "graph_step g g' \<Longrightarrow> passed_ok ids g \<Longrightarrow> passed_ok ids g'"
proof (induction rule: graph_step.induct)
  case (waits g i "is")
  then show ?case by (auto simp: passed_ok_def)
next
  case (woken g c)
  then show ?case by (cases c) (auto simp: passed_ok_def)
next
  case (run_returns g)
  then show ?case by (auto simp: passed_ok_def)
next
  case (ends g i)
  then show ?case by (auto simp: passed_ok_def node_ended_def)
next
  case (replaced g i)
  then show ?case by (auto simp: passed_ok_def replaceNode_def intro: le_SucI)
qed

lemma passed_reachable: "graph_step\<^sup>*\<^sup>* (Graph_Run ids) g \<Longrightarrow> passed_ok ids g"
proof (induction rule: rtranclp_induct)
  case base
  show ?case by (simp add: passed_ok_def Graph_Run_def)
next
  case (step g g')
  then show ?case by (blast intro: passed_step)
qed

lemma cancelled_after_all:
  "graph_step\<^sup>*\<^sup>* (Graph_Run ids) g \<Longrightarrow> gr_cancelled g \<Longrightarrow> i \<in> set ids \<Longrightarrow> gr_running g i > 0 \<or> \<not> node_live g i"
proof -
  assume "graph_step\<^sup>*\<^sup>* (Graph_Run ids) g" "gr_cancelled g" "i \<in> set ids"
  then obtain n where n: "(i, n) \<in> gr_closed g" "n \<le> gr_running g i"
    using passed_reachable by (fastforce simp: passed_ok_def)
  then show ?thesis by (cases "gr_running g i = 0") (auto simp: node_live_def)
qed

text \<open>The flow is cancelled although every node is running, once each was replaced.\<close>

lemma all_replaced_cancelled:
  "\<exists>g. graph_step\<^sup>*\<^sup>* (Graph_Run [''a'', ''b'']) g \<and> gr_cancelled g \<and> node_live g ''a'' \<and> node_live g ''b''"
proof -
  let ?g0 = "Graph_Run [''a'', ''b'']"
  let ?g1 = "?g0\<lparr>gr_channel := Some (''a'', 0), gr_left := [''b'']\<rparr>"
  let ?g2 = "replaceNode ''a'' ?g1"
  let ?g3 = "?g2\<lparr>gr_channel := None\<rparr>"
  let ?g4 = "?g3\<lparr>gr_channel := Some (''b'', 0), gr_left := []\<rparr>"
  let ?g5 = "replaceNode ''b'' ?g4"
  let ?g6 = "?g5\<lparr>gr_channel := None\<rparr>"
  let ?g7 = "?g6\<lparr>gr_cancelled := True\<rparr>"
  note defs = Graph_Run_def replaceNode_def
  have s1: "graph_step ?g0 ?g1" using waits [of ?g0 "''a''" "[''b'']"] by (simp add: defs)
  have s2: "graph_step ?g1 ?g2" by (rule replaced)
  have s3: "graph_step ?g2 ?g3" by (rule woken) (auto simp: defs)
  have s4: "graph_step ?g3 ?g4" using waits [of ?g3 "''b''" "[]"] by (simp add: defs)
  have s5: "graph_step ?g4 ?g5" by (rule replaced)
  have s6: "graph_step ?g5 ?g6" by (rule woken) (auto simp: defs)
  have s7: "graph_step ?g6 ?g7" by (rule run_returns) (simp_all add: defs)
  have "graph_step\<^sup>*\<^sup>* ?g0 ?g7"
    by (rule converse_rtranclp_into_rtranclp, rule s1, rule converse_rtranclp_into_rtranclp, rule s2,
        rule converse_rtranclp_into_rtranclp, rule s3, rule converse_rtranclp_into_rtranclp, rule s4,
        rule converse_rtranclp_into_rtranclp, rule s5, rule converse_rtranclp_into_rtranclp, rule s6,
        rule converse_rtranclp_into_rtranclp, rule s7, rule rtranclp.rtrancl_refl)
  moreover have "gr_cancelled ?g7 \<and> node_live ?g7 ''a'' \<and> node_live ?g7 ''b''" by (simp add: node_live_def defs)
  ultimately show ?thesis by blast
qed

end
