(* ===== verification/HidServiceFacts.thy ===== *)
theory HidServiceFacts
  imports HidService HidUsageFacts
begin

section \<open>Devices and their addresses\<close>

text \<open>
  Which addresses are read back from their text, what a device keeps when it connects again, and the
  invariants of the service: the connected devices are those that the messages of its buses say, and
  each of them is stored with its descriptor.
\<close>

subsection \<open>Addresses\<close>

lemma ParseAddress_String:
  "ParseAddress (Address_String a) =
     (if CHR ''/'' \<in> set (ad_Backend a) \<union> set (ad_ID a) then Fail ''invalid address''
      else Ret (a\<lparr>ad_ID := ReplaceAll_char CHR ''.'' CHR '':'' (ad_ID a)\<rparr>))"
proof (cases "CHR ''/'' \<in> set (ad_Backend a) \<union> set (ad_ID a)")
  case True
  then have "filter ((=) CHR ''/'') (ad_Backend a) \<noteq> [] \<or> filter ((=) CHR ''/'') (ad_ID a) \<noteq> []"
    by (auto simp: filter_empty_conv)
  then have "length (split_at CHR ''/'' (Address_String a)) \<noteq> 2"
    by (auto simp: length_split_at Address_String_def)
  then show ?thesis using True by (simp add: ParseAddress_def)
next
  case False
  then have "split_at CHR ''/'' (Address_String a) = [ad_Backend a, ad_ID a]"
    by (simp add: Address_String_def split_at_append split_at_absent)
  then show ?thesis using False by (simp add: ParseAddress_def)
qed

lemma ReplaceAll_absent: "c \<notin> set s \<Longrightarrow> ReplaceAll_char c d s = s"
  by (induction s) (auto simp: ReplaceAll_char_def)

text \<open>An address that is read back from its text, also after JSON.\<close>

definition readable :: "Address \<Rightarrow> bool" where
  "readable a \<longleftrightarrow> CHR ''/'' \<notin> set (ad_Backend a) \<union> set (ad_ID a) \<and> CHR ''.'' \<notin> set (ad_ID a)
     \<and> (\<forall>c \<in> set (ad_Backend a) \<union> set (ad_ID a). of_char c < (128 :: nat))"

lemma ParseAddress_readable: "readable a \<Longrightarrow> ParseAddress (Address_String a) = Ret a"
  by (simp add: readable_def ParseAddress_String ReplaceAll_absent)

lemma address_text_inj:
  assumes "b @ CHR ''/'' # i = b' @ CHR ''/'' # i'" "CHR ''/'' \<notin> set b" "CHR ''/'' \<notin> set b'"
  shows "b = b' \<and> i = i'"
  using assms by (induction b arbitrary: b') (auto simp: Cons_eq_append_conv append_eq_Cons_conv)

lemma device_keys_distinct [simp]:
  "inputDeviceKey a \<noteq> reportDescriptorKey a'" "reportDescriptorKey a' \<noteq> inputDeviceKey a"
  "outputDeviceKey a \<noteq> reportDescriptorKey a'" "reportDescriptorKey a' \<noteq> outputDeviceKey a"
  "inputDeviceKey a \<noteq> outputDeviceKey a'" "outputDeviceKey a' \<noteq> inputDeviceKey a"
  by (simp_all add: inputDeviceKey_def reportDescriptorKey_def outputDeviceKey_def)

lemma device_keys_inj:
  assumes "CHR ''/'' \<notin> set (ad_Backend a)" "CHR ''/'' \<notin> set (ad_Backend a')"
  shows "inputDeviceKey a = inputDeviceKey a' \<longleftrightarrow> a = a'" "reportDescriptorKey a = reportDescriptorKey a' \<longleftrightarrow> a = a'"
  using address_text_inj [OF _ assms] by (auto simp: inputDeviceKey_def reportDescriptorKey_def intro: Address.equality)

subsection \<open>Devices\<close>

text \<open>
  What \<open>encoding/json\<close> documents: what it writes for a device it reads back, with the invalid bytes
  of the strings replaced; ASCII has none.
\<close>

definition json_codec :: "json \<Rightarrow> bool" where
  "json_codec js \<longleftrightarrow>
     (\<forall>s. (\<forall>c \<in> set s. of_char c < (128 :: nat)) \<longrightarrow> js_clean js s = s) \<and>
     (\<forall>a bdev name first last_seen b. js_marshal js (a, bdev, name, first, last_seen) = Some b \<longrightarrow>
        js_unmarshal js b = Some (AddressString (js_clean js a),
          \<lparr>bd_ID = js_clean js (bd_ID bdev), bd_Name = js_clean js (bd_Name bdev)\<rparr>, js_clean js name, first, last_seen))"

definition cleaned :: "json \<Rightarrow> HidDevice \<Rightarrow> HidDevice" where
  "cleaned js dev = dev\<lparr>hd_BackendDevice := \<lparr>bd_ID = js_clean js (bd_ID (hd_BackendDevice dev)),
     bd_Name = js_clean js (bd_Name (hd_BackendDevice dev))\<rparr>, hd_Name := js_clean js (hd_Name dev)\<rparr>"

lemma clean_address: "json_codec js \<Longrightarrow> (\<And>c. c \<in> set (ad_Backend a) \<union> set (ad_ID a) \<Longrightarrow> of_char c < (128 :: nat)) \<Longrightarrow>
    js_clean js (Address_String a) = Address_String a"
  by (auto simp: json_codec_def Address_String_def)

lemma unmarshal_marshal:
  assumes "json_codec js" "marshal_device js dev = Some b" "readable (hd_Address dev)"
  shows "unmarshal_device js b = Some (cleaned js dev)"
proof -
  have "js_clean js (Address_String (hd_Address dev)) = Address_String (hd_Address dev)"
    using assms(3) by (intro clean_address [OF assms(1)]) (auto simp: readable_def)
  then show ?thesis
    using assms ParseAddress_readable [OF assms(3)]
    by (simp add: json_codec_def marshal_device_def unmarshal_device_def Address_Unmarshal_def cleaned_def)
qed

lemma unmarshal_slash:
  assumes "json_codec js" "marshal_device js dev = Some b" "CHR ''/'' \<in> set (ad_ID (hd_Address dev))"
    and "\<And>c. c \<in> set (ad_Backend (hd_Address dev)) \<union> set (ad_ID (hd_Address dev)) \<Longrightarrow> of_char c < (128 :: nat)"
  shows "unmarshal_device js b = None"
proof -
  have "ParseAddress (js_clean js (Address_String (hd_Address dev))) = Fail ''invalid address''"
    using assms(3) clean_address [OF assms(1,4)] by (simp add: ParseAddress_String)
  then show ?thesis
    using assms(1,2) by (simp add: json_codec_def marshal_device_def unmarshal_device_def Address_Unmarshal_def)
qed

lemma seen_device_simps [simp]:
  "hd_Address (seen_device now addr bdev dev) = addr" "hd_BackendDevice (seen_device now addr bdev dev) = bdev"
  "hd_Name (seen_device now addr bdev dev) = hd_Name dev" "hd_LastSeenAt (seen_device now addr bdev dev) = now"
  "hd_FirstSeenAt (seen_device now addr bdev dev) = (if hd_FirstSeenAt dev = 0 then now else hd_FirstSeenAt dev)"
  by (simp_all add: seen_device_def Let_def)

lemma cleaned_simps [simp]:
  "hd_Address (cleaned js dev) = hd_Address dev" "hd_FirstSeenAt (cleaned js dev) = hd_FirstSeenAt dev"
  "hd_LastSeenAt (cleaned js dev) = hd_LastSeenAt dev" "hd_Name (cleaned js dev) = js_clean js (hd_Name dev)"
  by (simp_all add: cleaned_def)

lemma initializeInputDevice_Ret:
  assumes "initializeInputDevice js backends now backendID bdev m = (Ret dev, m')"
  obtains open_device desc old b where "backends backendID = Some open_device" "open_device (bd_ID bdev) = Ret desc"
    "load_device js m (inputDeviceKey \<lparr>ad_Backend = backendID, ad_ID = bd_ID bdev\<rparr>) bdev = Ret old"
    "dev = seen_device now \<lparr>ad_Backend = backendID, ad_ID = bd_ID bdev\<rparr> bdev old" "marshal_device js dev = Some b"
    "m' = m(inputDeviceKey \<lparr>ad_Backend = backendID, ad_ID = bd_ID bdev\<rparr> \<mapsto> b,
            reportDescriptorKey \<lparr>ad_Backend = backendID, ad_ID = bd_ID bdev\<rparr> \<mapsto> desc)"
  using assms by (auto simp: initializeInputDevice_def Let_def split: option.splits outcome.splits)

lemma initializeInputDevice_fails:
  "initializeInputDevice js backends now backendID bdev m = (r, m') \<Longrightarrow> (\<forall>dev. r \<noteq> Ret dev) \<Longrightarrow> m' = m"
  by (auto simp: initializeInputDevice_def Let_def split: option.splits outcome.splits)

lemma initializeOutputDevice_Ret:
  assumes "initializeOutputDevice js now backendID bdev m = (Ret dev, m')"
  obtains old b where "dev = seen_device now \<lparr>ad_Backend = backendID, ad_ID = bd_ID bdev\<rparr> bdev old" "marshal_device js dev = Some b"
    "m' = m(outputDeviceKey \<lparr>ad_Backend = backendID, ad_ID = bd_ID bdev\<rparr> \<mapsto> b)"
  using assms by (auto simp: initializeOutputDevice_def Let_def split: option.splits outcome.splits)

lemma initializeOutputDevice_fails:
  "initializeOutputDevice js now backendID bdev m = (r, m') \<Longrightarrow> (\<forall>dev. r \<noteq> Ret dev) \<Longrightarrow> m' = m"
  by (auto simp: initializeOutputDevice_def Let_def split: option.splits outcome.splits)

text \<open>A device that connects again keeps its name and the time it was first seen, unless its identifier has a slash.\<close>

lemma load_again:
  assumes "json_codec js" "initializeInputDevice js backends t backendID bdev m = (Ret dev, m1)"
    and ascii: "\<And>c. c \<in> set backendID \<union> set (bd_ID bdev) \<Longrightarrow> of_char c < (128 :: nat)"
    and plain: "CHR ''/'' \<notin> set backendID" "CHR ''.'' \<notin> set (bd_ID bdev)"
    and same: "m2 (inputDeviceKey (hd_Address dev)) = m1 (inputDeviceKey (hd_Address dev))"
  shows "load_device js m2 (inputDeviceKey \<lparr>ad_Backend = backendID, ad_ID = bd_ID bdev\<rparr>) bdev2 =
    (if CHR ''/'' \<in> set (bd_ID bdev) then Fail ''failed to unmarshal device'' else Ret (cleaned js dev))"
proof -
  let ?a = "\<lparr>ad_Backend = backendID, ad_ID = bd_ID bdev\<rparr>"
  obtain b where dev: "hd_Address dev = ?a" "marshal_device js dev = Some b" "m1 (inputDeviceKey ?a) = Some b"
    using assms(2) by (rule initializeInputDevice_Ret) simp
  have "unmarshal_device js b = (if CHR ''/'' \<in> set (bd_ID bdev) then None else Some (cleaned js dev))"
  proof (cases "CHR ''/'' \<in> set (bd_ID bdev)")
    case True
    then show ?thesis using unmarshal_slash [OF assms(1) dev(2)] dev(1) ascii by simp
  next
    case False
    then have "readable (hd_Address dev)" using plain ascii by (auto simp: readable_def dev(1))
    then show ?thesis using unmarshal_marshal [OF assms(1) dev(2)] False by simp
  qed
  then show ?thesis using same dev by (simp add: load_device_def)
qed

subsection \<open>Invariants of the service\<close>

text \<open>A property that every operation on a device keeps holds after any events of the backends.\<close>

locale device_property =
  fixes js :: json
    and good :: "string \<Rightarrow> bool"
    and P :: "HidService \<Rightarrow> bool"
  assumes start: "P (NewHidService m)"
    and input_gone: "good backendID \<Longrightarrow> P s \<Longrightarrow> P (onInputDisconnected backendID i s)"
    and input_new: "good backendID \<Longrightarrow> P s \<Longrightarrow> onInputConnected js backends clock backendID s bdev = Some s' \<Longrightarrow> P s'"
    and output_gone: "good backendID \<Longrightarrow> P s \<Longrightarrow> P (onOutputDisconnected backendID i s)"
    and output_new: "good backendID \<Longrightarrow> P s \<Longrightarrow> onOutputConnected js clock backendID s bdev = Some s' \<Longrightarrow> P s'"
begin

lemma handled:
  assumes "good backendID" "P s" "handleBackendEvent js backends clock backendID event s = Some s'"
  shows "P s'"
proof -
  have gone: "P (fold (onInputDisconnected backendID) xs s)" "P (fold (onOutputDisconnected backendID) xs s)" for xs
    using assms(2) by (induction xs arbitrary: s) (simp_all add: input_gone output_gone assms(1))
  show ?thesis
  proof (cases "be_InputsChanged event")
    case (Some ev)
    then have f: "fold_opt (onInputConnected js backends clock backendID) (bc_Connected ev)
        (fold (onInputDisconnected backendID) (bc_Disconnected ev) s) = Some s'"
      using assms(3) by (simp add: handleBackendEvent_def onBackendInputsChanged_def)
    show ?thesis by (rule fold_opt_invariant [where P = P, OF _ f gone(1)]) (rule input_new [OF assms(1)])
  next
    case no_inputs: None
    show ?thesis
    proof (cases "be_OutputsChanged event")
      case None
      then show ?thesis using assms no_inputs by (simp add: handleBackendEvent_def)
    next
      case (Some ev)
      then have f: "fold_opt (onOutputConnected js clock backendID) (bc_Connected ev)
          (fold (onOutputDisconnected backendID) (bc_Disconnected ev) s) = Some s'"
        using assms(3) no_inputs by (simp add: handleBackendEvent_def onBackendOutputsChanged_def)
      show ?thesis by (rule fold_opt_invariant [where P = P, OF _ f gone(2)]) (rule output_new [OF assms(1)])
    qed
  qed
qed

lemma consumed:
  assumes "consumeEvents js msgs (NewHidService m) = Some s" "\<And>b c i e. (b, c, i, e) \<in> set msgs \<Longrightarrow> good i"
  shows "P s"
  by (rule fold_opt_invariant [where P = P, OF _ assms(1) [unfolded consumeEvents_def] start])
    (auto dest: assms(2) handled)

end

text \<open>The set that a subscriber of all messages of a bus computes.\<close>

definition replay_inputs :: "InputBusKey list \<Rightarrow> Address set" where
  "replay_inputs ks = fold (\<lambda>k S. case ik_Type k of InputConnected \<Rightarrow> insert (ik_Addr k) S | InputDisconnected \<Rightarrow> S - {ik_Addr k}) ks {}"

definition replay_outputs :: "OutputBusKey list \<Rightarrow> Address set" where
  "replay_outputs ks = fold (\<lambda>k S. case ok_Type k of OutputConnected \<Rightarrow> insert (ok_Addr k) S | OutputDisconnected \<Rightarrow> S - {ok_Addr k}) ks {}"

lemma onInputConnected_cases:
  assumes "onInputConnected js backends clock backendID s bdev = Some s'"
  obtains "s' = s"
  | dev m where "initializeInputDevice js backends (clock bdev) backendID bdev (hs_db s) = (Ret dev, m)"
      "s' = s\<lparr>hs_db := m, hs_connectedInputs := insert (hd_Address dev) (hs_connectedInputs s),
        hs_inputBus := hs_inputBus s @ [\<lparr>ik_Type = InputConnected, ik_Addr = hd_Address dev\<rparr>]\<rparr>"
proof -
  obtain r m where i: "initializeInputDevice js backends (clock bdev) backendID bdev (hs_db s) = (r, m)" by fastforce
  show ?thesis
  proof (cases r)
    case (Ret dev)
    then show ?thesis using assms i that(2) by (simp add: onInputConnected_def)
  next
    case (Fail e)
    then show ?thesis using assms i that(1) initializeInputDevice_fails [OF i] by (simp add: onInputConnected_def)
  next
    case Panic
    then show ?thesis using assms i by (simp add: onInputConnected_def)
  qed
qed

lemma onOutputConnected_cases:
  assumes "onOutputConnected js clock backendID s bdev = Some s'"
  obtains "s' = s"
  | dev m where "initializeOutputDevice js (clock bdev) backendID bdev (hs_db s) = (Ret dev, m)"
      "s' = s\<lparr>hs_db := m, hs_connectedOutputs := insert (hd_Address dev) (hs_connectedOutputs s),
        hs_outputBus := hs_outputBus s @ [\<lparr>ok_Type = OutputConnected, ok_Addr = hd_Address dev\<rparr>]\<rparr>"
proof -
  obtain r m where i: "initializeOutputDevice js (clock bdev) backendID bdev (hs_db s) = (r, m)" by fastforce
  show ?thesis
  proof (cases r)
    case (Ret dev)
    then show ?thesis using assms i that(2) by (simp add: onOutputConnected_def)
  next
    case (Fail e)
    then show ?thesis using assms i that(1) initializeOutputDevice_fails [OF i] by (simp add: onOutputConnected_def)
  next
    case Panic
    then show ?thesis using assms i by (simp add: onOutputConnected_def)
  qed
qed

interpretation replayed: device_property js "\<lambda>_. True"
    "\<lambda>s. hs_connectedInputs s = replay_inputs (hs_inputBus s) \<and> hs_connectedOutputs s = replay_outputs (hs_outputBus s)" for js
  by unfold_locales
    (auto simp: NewHidService_def replay_inputs_def replay_outputs_def onInputDisconnected_def onOutputDisconnected_def Let_def
      elim!: onInputConnected_cases onOutputConnected_cases)

text \<open>A connected input whose address is readable is stored with its descriptor.\<close>

definition input_stored :: "json \<Rightarrow> db \<Rightarrow> Address \<Rightarrow> bool" where
  "input_stored js m addr \<longleftrightarrow>
     (\<exists>desc dev. GetReportDescriptor m addr = Ret desc \<and> GetInputDevice js m addr = Ret dev \<and> hd_Address dev = addr)"

definition inputs_stored :: "json \<Rightarrow> HidService \<Rightarrow> bool" where
  "inputs_stored js s \<longleftrightarrow> (\<forall>addr \<in> hs_connectedInputs s.
     CHR ''/'' \<notin> set (ad_Backend addr) \<and> (readable addr \<longrightarrow> input_stored js (hs_db s) addr))"

lemma input_stored_Connected:
  assumes js: "json_codec js" "CHR ''/'' \<notin> set backendID" "inputs_stored js s"
    and "onInputConnected js backends clock backendID s bdev = Some s'"
  shows "inputs_stored js s'"
  using assms(4)
proof (cases rule: onInputConnected_cases)
  case (2 dev m)
  let ?a = "\<lparr>ad_Backend = backendID, ad_ID = bd_ID bdev\<rparr>"
  obtain desc b where dev: "hd_Address dev = ?a" "marshal_device js dev = Some b"
    "m = (hs_db s)(inputDeviceKey ?a \<mapsto> b, reportDescriptorKey ?a \<mapsto> desc)"
    using 2(1) by (rule initializeInputDevice_Ret) simp
  have "CHR ''/'' \<notin> set (ad_Backend addr) \<and> (readable addr \<longrightarrow> input_stored js m addr)"
    if "addr \<in> insert ?a (hs_connectedInputs s)" for addr
  proof (cases "addr = ?a")
    case True
    then show ?thesis
      using js(2) unmarshal_marshal [OF js(1) dev(2)] by (simp add: dev input_stored_def GetReportDescriptor_def GetInputDevice_def)
  next
    case False
    then have a: "CHR ''/'' \<notin> set (ad_Backend addr)" "readable addr \<longrightarrow> input_stored js (hs_db s) addr"
      using js(3) that by (auto simp: inputs_stored_def)
    have keys: "inputDeviceKey addr \<noteq> inputDeviceKey ?a" "reportDescriptorKey addr \<noteq> reportDescriptorKey ?a"
      using device_keys_inj [of addr ?a] a(1) js(2) False by simp_all
    show ?thesis
      using a keys by (simp add: dev(3) input_stored_def GetReportDescriptor_def GetInputDevice_def)
  qed
  then show ?thesis by (simp add: 2(2) inputs_stored_def dev(1))
qed (simp add: js(3))

lemma input_stored_output:
  assumes "inputs_stored js s" "onOutputConnected js clock backendID s bdev = Some s'"
  shows "inputs_stored js s'"
  using assms(2)
proof (cases rule: onOutputConnected_cases)
  case (2 dev m)
  show ?thesis
    using 2(1) by (rule initializeOutputDevice_Ret)
      (use assms(1) in \<open>simp add: 2(2) inputs_stored_def input_stored_def GetReportDescriptor_def GetInputDevice_def\<close>)
qed (simp add: assms(1))

lemma inputs_stored_start: "inputs_stored js (NewHidService m)"
  by (simp add: inputs_stored_def NewHidService_def)

lemma inputs_stored_gone: "inputs_stored js s \<Longrightarrow> inputs_stored js (onInputDisconnected backendID i s)"
  "inputs_stored js s \<Longrightarrow> inputs_stored js (onOutputDisconnected backendID i s)"
  by (simp_all add: inputs_stored_def onInputDisconnected_def onOutputDisconnected_def Let_def)

lemma stored_property: "json_codec js \<Longrightarrow> device_property js (\<lambda>backendID. CHR ''/'' \<notin> set backendID) (inputs_stored js)"
  by (rule device_property.intro)
    (blast intro: inputs_stored_start inputs_stored_gone input_stored_Connected input_stored_output)+

end
