(* ===== verification/LinuxFacts.thy ===== *)
theory LinuxFacts
  imports LinuxDevices HidServiceFacts
begin

section \<open>Devices of the Linux backend and of the service\<close>

text \<open>
  The address of a device is read back from its text, so opening an identifier that the backend
  published opens the device it stands for. A poll turns the known devices into the enumerated ones
  and reports the difference; with the messages handled in order, the service's connected devices are
  the known devices, up to those whose initialisation failed.
\<close>

subsection \<open>Addresses as text\<close>

lemma length_digits_hex: "n < 65536 \<Longrightarrow> length (digits_of 16 n) \<le> 4"
  by (simp add: digits_of.simps [of 16 n] digits_of.simps [of 16 "n div 16"] digits_of.simps [of 16 "n div 256"]
      digits_of.simps [of 16 "n div 4096"] flip: div_mult2_eq)

lemma length_format_hex4: "n < 65536 \<Longrightarrow> length (format_hex4 n) = 4"
  using length_digits_hex [of n] by (simp add: format_hex4_def)

lemma parse_zeros: "parse_digits b (replicate k CHR ''0'' @ s) 0 = parse_digits b s 0" if "0 < b"
  using that by (induction k) (simp_all add: digit_value_def)

lemma parse_format_hex4: "parse_digits 16 (format_hex4 n) 0 = Some n"
  by (simp add: format_hex4_def parse_zeros parse_digits_of)

lemma scan_digits_of: "2 \<le> b \<Longrightarrow> b \<le> 16 \<Longrightarrow> c \<in> set (digits_of b n) \<Longrightarrow> scan_digit b c"
proof (induction b n rule: digits_of.induct)
  case (1 b n)
  have "n mod b < b" "n mod b < 16" using 1 by (auto intro: order_less_le_trans [of _ b])
  then show ?case using 1
    by (auto simp: digits_of.simps [of b n] scan_digit_def digit_value_hex split: if_splits)
qed

lemma scan_format_hex4: "c \<in> set (format_hex4 n) \<Longrightarrow> scan_digit 16 c"
  using scan_digits_of [of 16 c n] by (auto simp: format_hex4_def scan_digit_def digit_value_def)

lemma blank_no_digit: "scan_digit b c \<Longrightarrow> \<not> scan_blank c"
  by (auto simp: scan_digit_def scan_blank_def digit_value_def Let_def split: if_splits)

lemma drop_blanks: "s \<noteq> [] \<Longrightarrow> \<not> scan_blank (hd s) \<Longrightarrow> dropWhile scan_blank s = s"
  by (cases s) auto

lemma scan_hex4_format:
  assumes "n < 65536"
  shows "scan_hex4 (format_hex4 n @ t) = Some (of_nat n, t)"
proof -
  have ne: "format_hex4 n \<noteq> []" "length (format_hex4 n) = 4" using length_format_hex4 [OF assms] by auto
  have "dropWhile scan_blank (format_hex4 n @ t) = format_hex4 n @ t"
    using blank_no_digit [OF scan_format_hex4 [of "hd (format_hex4 n)" n]] ne by (intro drop_blanks) auto
  moreover have "takeWhile (scan_digit 16) (take 4 (format_hex4 n @ t)) = format_hex4 n"
    using scan_format_hex4 ne by (simp add: takeWhile_eq_all_conv)
  moreover have "ParseUint 16 64 (format_hex4 n) = Some n"
    using assms ne by (simp add: ParseUint_def parse_format_hex4)
  ultimately show ?thesis
    using assms ne by (simp only: scan_hex4_def Let_def) simp
qed

lemma takeWhile_digits: "takeWhile (scan_digit 10) (format_decimal n) = format_decimal n"
  using scan_digits_of [of 10 _ n] by (auto simp: format_decimal_def takeWhile_eq_all_conv)

lemma decimal_hd: "format_decimal n = c # cs \<Longrightarrow> scan_digit 10 c \<and> c \<noteq> CHR ''-'' \<and> c \<noteq> CHR ''+''"
  using scan_digits_of [of 10 c n] by (auto simp: format_decimal_def scan_digit_def digit_value_def)

lemma parse_decimal: "parse_digits 10 (format_decimal n) 0 = Some n" "format_decimal n \<noteq> []"
  by (simp_all add: format_decimal_def parse_digits_of)

lemma scan_format_int:
  assumes "- (2 ^ 63) \<le> i" "i < 2 ^ 63"
  shows "scan_int (format_int i) = Some i"
proof (cases "i < 0")
  case True
  then show ?thesis using assms
    by (simp add: format_int_def scan_int_def scan_blank_def takeWhile_digits ParseInt_def parse_decimal nat_le_iff)
next
  case False
  obtain c cs where f: "format_decimal (nat i) = c # cs" using parse_decimal(2) by (cases "format_decimal (nat i)") auto
  have "\<not> scan_blank c" using decimal_hd [OF f] blank_no_digit by blast
  then have "scan_int (format_int i) = ParseInt 10 64 (format_decimal (nat i))"
    using decimal_hd [OF f] False
    by (simp add: format_int_def scan_int_def f takeWhile_digits [of "nat i", unfolded f] del: takeWhile.simps)
  also have "\<dots> = Some i"
    using decimal_hd [OF f] parse_decimal(1) [of "nat i"] assms False by (simp add: ParseInt_def f nat_less_iff)
  finally show ?thesis .
qed

lemma unat_u16: "unat (v :: u16) < 65536"
  using unsigned_less [of v] by simp

lemma ParseHidAddress_String:
  assumes "- (2 ^ 63) \<le> Interface a" "Interface a < 2 ^ 63"
  shows "ParseHidAddress (HidAddress_String a) = Ret a"
  using scan_format_int [OF assms]
  by (simp add: ParseHidAddress_def HidAddress_String_def scan_hex4_format unat_u16 scan_char_def)

lemma format_int_inj: "format_int i = format_int j \<Longrightarrow> i = j"
proof -
  assume eq: "format_int i = format_int j"
  have minus: "format_decimal n \<noteq> CHR ''-'' # t" for n t using decimal_hd by blast
  have inj: "format_decimal n = format_decimal k \<Longrightarrow> n = k" for n k using parse_decimal(1) by (metis option.inject)
  show ?thesis
  proof (cases "i < 0"; cases "j < 0")
    assume "i < 0" "j < 0"
    then show ?thesis using eq inj [of "nat (- i)" "nat (- j)"] by (simp add: format_int_def)
  next
    assume "i < 0" "\<not> j < 0"
    then show ?thesis using eq minus [of "nat j"] by (metis format_int_def)
  next
    assume "\<not> i < 0" "j < 0"
    then show ?thesis using eq minus [of "nat i"] by (metis format_int_def)
  next
    assume "\<not> i < 0" "\<not> j < 0"
    then show ?thesis using eq inj [of "nat i" "nat j"] by (simp add: format_int_def)
  qed
qed

lemma HidAddress_String_inj: "HidAddress_String a = HidAddress_String b \<longleftrightarrow> a = b"
proof
  assume eq: "HidAddress_String a = HidAddress_String b"
  have v: "format_hex4 (unat (VendorID a)) = format_hex4 (unat (VendorID b))"
    and p: "format_hex4 (unat (ProductID a)) = format_hex4 (unat (ProductID b))"
    and i: "format_int (Interface a) = format_int (Interface b)"
    using eq length_format_hex4 [OF unat_u16] by (simp_all add: HidAddress_String_def append_eq_append_conv)
  have "format_hex4 n = format_hex4 k \<Longrightarrow> n = k" for n k using parse_format_hex4 by (metis option.inject)
  then have "VendorID a = VendorID b" "ProductID a = ProductID b" using v p by (metis word_unat_eq_iff)+
  then show "a = b" using format_int_inj [OF i] by simp
qed simp

subsection \<open>A poll\<close>

lemma forget_devices_fold:
  "distinct keys \<Longrightarrow>
   fold (\<lambda>k (known, new, disconnected).
       (case new k of
          None \<Rightarrow> (known(k := None), new, disconnected @ [name k])
        | Some d \<Rightarrow> (known, new(k := None), disconnected))) keys (known, new, acc)
   = ((\<lambda>k. if k \<in> set keys \<and> new k = None then None else known k), (\<lambda>k. if k \<in> set keys then None else new k),
      acc @ map name (filter (\<lambda>k. new k = None) keys))"
  by (induction keys arbitrary: known new acc) (auto simp: fun_eq_iff split: option.splits intro!: arg_cong [where f = "map name"] filter_cong)

lemma forget_devices:
  assumes "distinct keys" "set keys = dom known"
  shows "forget_devices keys name known new = (known |` dom new, new |` (- dom known), map name (filter (\<lambda>k. new k = None) keys))"
  using assms by (auto simp: forget_devices_def forget_devices_fold restrict_map_def fun_eq_iff domIff)

lemma add_devices_fold:
  "fold (\<lambda>k (known, connected). (known(k \<mapsto> the (new k)), connected @ [device k (the (new k))])) keys (known, acc)
   = ((\<lambda>k. if k \<in> set keys then Some (the (new k)) else known k), acc @ map (\<lambda>k. device k (the (new k))) keys)"
  by (induction keys arbitrary: known acc) (auto simp: fun_eq_iff)

lemma add_devices:
  assumes "set keys = dom new"
  shows "add_devices keys device new known = (known ++ new, map (\<lambda>k. device k (the (new k))) keys)"
  using assms by (auto simp: add_devices_def add_devices_fold map_add_def fun_eq_iff domIff split: option.splits)

lemma dom_enumerate: "dom (enumerateHidDevices ds) = device_address ` set ds"
proof -
  have "dom (fold (\<lambda>d m. m(device_address d \<mapsto> d)) ds m) = dom m \<union> device_address ` set ds" for m
    by (induction ds arbitrary: m) auto
  then show ?thesis by (simp add: enumerateHidDevices_def)
qed

lemma changed_event_ids:
  "map_option (\<lambda>c. \<lparr>be_InputsChanged = Some c, be_OutputsChanged = None\<rparr>) (changed_event c d) = Some e \<Longrightarrow>
    connected_ids e = bd_ID ` set c \<and> disconnected_ids e = set d"
  by (auto simp: changed_event_def connected_ids_def disconnected_ids_def split: if_splits)

lemma changed_event_None: "changed_event c d = None \<longleftrightarrow> c = [] \<and> d = []"
  by (simp add: changed_event_def)

lemma refreshHidDevices_known:
  assumes "range_order order" "finite (dom known)"
  shows "\<exists>ev. refreshHidDevices order (Some ds) known = (known |` (device_address ` set ds) ++ enumerateHidDevices ds |` (- dom known), ev)
    \<and> (\<forall>e. ev = Some e \<longrightarrow> connected_ids e = HidAddress_String ` (device_address ` set ds - dom known)
         \<and> disconnected_ids e = HidAddress_String ` (dom known - device_address ` set ds))
    \<and> (ev = None \<longleftrightarrow> dom known = device_address ` set ds)"
proof -
  let ?E = "enumerateHidDevices ds"
  let ?new = "?E |` (- dom known)"
  have o: "distinct (order known)" "set (order known) = dom known" and n: "set (order ?new) = dom ?new"
    using assms by (auto simp: range_order_def dom_enumerate)
  let ?c = "map (\<lambda>k. \<lparr>bd_ID = HidAddress_String k, bd_Name = generateName (the (?new k))\<rparr>) (order ?new)"
  let ?d = "map HidAddress_String (filter (\<lambda>k. ?E k = None) (order known))"
  have r: "refreshHidDevices order (Some ds) known =
      (known |` dom ?E ++ ?new, map_option (\<lambda>c. \<lparr>be_InputsChanged = Some c, be_OutputsChanged = None\<rparr>) (changed_event ?c ?d))"
    by (simp add: refreshHidDevices_def forget_devices [OF o] add_devices [OF n])
  have "bd_ID ` set ?c = HidAddress_String ` set (order ?new)" by (simp add: image_image)
  then have ids: "bd_ID ` set ?c = HidAddress_String ` (dom ?E - dom known)" by (simp only: n dom_restrict Diff_eq)
  have ids2: "set ?d = HidAddress_String ` (dom known - dom ?E)" using o by (auto simp: domIff)
  have "set ?c = {} \<longleftrightarrow> set (order ?new) = {}" by simp
  then have "set ?c = {} \<longleftrightarrow> dom ?E \<subseteq> dom known" unfolding n dom_restrict by blast
  moreover have "set ?d = {} \<longleftrightarrow> dom known \<subseteq> dom ?E" unfolding ids2 by blast
  ultimately have "?c = [] \<longleftrightarrow> dom ?E \<subseteq> dom known" "?d = [] \<longleftrightarrow> dom known \<subseteq> dom ?E"
    by (simp, metis set_empty)
  then have quiet: "changed_event ?c ?d = None \<longleftrightarrow> dom known = dom ?E" unfolding changed_event_None by blast
  show ?thesis unfolding r dom_enumerate [symmetric]
  proof (intro exI conjI allI impI refl)
    fix e assume "map_option (\<lambda>c. \<lparr>be_InputsChanged = Some c, be_OutputsChanged = None\<rparr>) (changed_event ?c ?d) = Some e"
    from changed_event_ids [OF this] show "connected_ids e = HidAddress_String ` (dom ?E - dom known)"
      "disconnected_ids e = HidAddress_String ` (dom known - dom ?E)" unfolding ids ids2 by simp_all
  qed (rule refl, subst option.map_disc_iff, rule quiet)
qed

subsection \<open>The backend and the service\<close>

definition service_ids :: "HidService \<Rightarrow> string set" where
  "service_ids s = {i. linux_address i \<in> hs_connectedInputs s}"

definition replay_pending :: "BackendEvent list \<Rightarrow> string set \<Rightarrow> string set" where
  "replay_pending es L = fold (\<lambda>e L. (L - disconnected_ids e) \<union> connected_ids e) es L"

lemma replay_pending_simps [simp]:
  "replay_pending [] L = L" "replay_pending (e # es) L = replay_pending es ((L - disconnected_ids e) \<union> connected_ids e)"
  "replay_pending (es @ [e]) L = (replay_pending es L - disconnected_ids e) \<union> connected_ids e"
  by (simp_all add: replay_pending_def)

lemma replay_pending_mono: "L \<subseteq> L' \<union> F \<Longrightarrow> replay_pending es L \<subseteq> replay_pending es L' \<union> F"
proof (induction es arbitrary: L L')
  case (Cons e es)
  show ?case unfolding replay_pending_simps by (rule Cons.IH) (use Cons.prems in blast)
qed simp

lemma service_ids_gone: "service_ids (fold (onInputDisconnected ''linux'') xs s) = service_ids s - set xs"
  by (induction xs arbitrary: s) (auto simp: service_ids_def onInputDisconnected_def linux_address_def Let_def)

lemma service_ids_outputs:
  assumes "fold_opt (onOutputConnected js clock ''linux'') xs (fold (onOutputDisconnected ''linux'') ys s) = Some s'"
  shows "service_ids s' = service_ids s"
proof -
  have "service_ids (fold (onOutputDisconnected ''linux'') ys s) = service_ids s"
    by (induction ys arbitrary: s) (simp_all add: service_ids_def onOutputDisconnected_def Let_def)
  then show ?thesis
    by (intro fold_opt_invariant [where P = "\<lambda>s'. service_ids s' = service_ids s", OF _ assms])
      (auto simp: service_ids_def elim!: onOutputConnected_cases)
qed

lemma service_ids_handled:
  assumes "handleBackendEvent js backends clock ''linux'' e s = Some s'"
  shows "service_ids s - disconnected_ids e \<subseteq> service_ids s' \<and> service_ids s' \<subseteq> (service_ids s - disconnected_ids e) \<union> connected_ids e"
proof (cases "be_InputsChanged e")
  case None
  then have "service_ids s' = service_ids s"
    using assms by (auto simp: handleBackendEvent_def onBackendOutputsChanged_def service_ids_outputs split: option.splits)
  then show ?thesis by (simp add: None connected_ids_def disconnected_ids_def)
next
  case (Some ev)
  let ?P = "\<lambda>s'. service_ids s - set (bc_Disconnected ev) \<subseteq> service_ids s'
    \<and> service_ids s' \<subseteq> (service_ids s - set (bc_Disconnected ev)) \<union> bd_ID ` set (bc_Connected ev)"
  have f: "fold_opt (onInputConnected js backends clock ''linux'') (bc_Connected ev) (fold (onInputDisconnected ''linux'') (bc_Disconnected ev) s) = Some s'"
    using assms Some by (simp add: handleBackendEvent_def onBackendInputsChanged_def)
  have "?P s'"
  proof (rule fold_opt_invariant [where P = ?P, OF _ f])
    fix bdev t t'
    assume bdev: "bdev \<in> set (bc_Connected ev)" "onInputConnected js backends clock ''linux'' t bdev = Some t'" "?P t"
    from bdev(2) show "?P t'"
    proof (cases rule: onInputConnected_cases)
      case (2 dev m)
      have "hd_Address dev = linux_address (bd_ID bdev)"
        using 2(1) by (rule initializeInputDevice_Ret) (simp add: linux_address_def)
      then have "service_ids t' = insert (bd_ID bdev) (service_ids t)"
        by (auto simp: 2(2) service_ids_def linux_address_def)
      then show ?thesis using bdev by auto
    qed (use bdev in simp)
  qed (simp add: service_ids_gone)
  then show ?thesis by (simp add: Some connected_ids_def disconnected_ids_def)
qed

definition system_ok :: "device_system \<Rightarrow> bool" where
  "system_ok S \<longleftrightarrow> finite (dom (ds_hidDevices S))
     \<and> replay_pending (ds_pending S) (service_ids (ds_service S)) \<subseteq> HidAddress_String ` dom (ds_hidDevices S)
     \<and> HidAddress_String ` dom (ds_hidDevices S) \<subseteq> replay_pending (ds_pending S) (service_ids (ds_service S)) \<union> ds_failed S"

lemma system_step:
  assumes "device_step js order open_path get S S'" "range_order order" "system_ok S"
  shows "system_ok S'"
  using assms(1)
proof (cases rule: device_step.cases)
  case (poll found known ev)
  show ?thesis
  proof (cases found)
    case None
    then show ?thesis using poll assms(3) by (auto simp: refreshHidDevices_def system_ok_def)
  next
    case (Some ds)
    let ?A = "device_address ` set ds" and ?K = "dom (ds_hidDevices S)"
    have fin: "finite ?K" using assms(3) by (simp add: system_ok_def)
    have known: "dom known = ?A" and event: "\<And>e. ev = Some e \<Longrightarrow> connected_ids e = HidAddress_String ` (?A - ?K) \<and> disconnected_ids e = HidAddress_String ` (?K - ?A)"
      and quiet: "ev = None \<longleftrightarrow> ?K = ?A"
      using refreshHidDevices_known [OF assms(2) fin, of ds] poll(2) Some by (auto simp: dom_enumerate)
    have inj: "HidAddress_String ` (X - Y) = HidAddress_String ` X - HidAddress_String ` Y" for X Y
      by (auto simp: HidAddress_String_inj)
    show ?thesis
    proof (cases ev)
      case None
      then show ?thesis using assms(3) known quiet by (simp add: poll system_ok_def)
    next
      case (Some e)
      then show ?thesis using assms(3) known event [OF Some] by (simp add: poll system_ok_def inj) blast
    qed
  qed
next
  case (handle e es clock s)
  let ?L = "service_ids (ds_service S)"
  let ?F = "{i \<in> connected_ids e. \<not> IsInputConnected s (linux_address i)}"
  have h: "?L - disconnected_ids e \<subseteq> service_ids s" "service_ids s \<subseteq> (?L - disconnected_ids e) \<union> connected_ids e"
    using service_ids_handled [OF handle(3)] by auto
  then have "(?L - disconnected_ids e) \<union> connected_ids e \<subseteq> service_ids s \<union> ?F"
    by (auto simp: IsInputConnected_def service_ids_def)
  then have "replay_pending es ((?L - disconnected_ids e) \<union> connected_ids e) \<subseteq> replay_pending es (service_ids s) \<union> ?F"
    by (rule replay_pending_mono)
  moreover have "replay_pending es (service_ids s) \<subseteq> replay_pending es ((?L - disconnected_ids e) \<union> connected_ids e)"
    using replay_pending_mono [of _ _ "{}"] h(2) by (metis Un_empty_right)
  moreover have "finite (dom (ds_hidDevices S))"
      "replay_pending es ((?L - disconnected_ids e) \<union> connected_ids e) \<subseteq> HidAddress_String ` dom (ds_hidDevices S)"
      "HidAddress_String ` dom (ds_hidDevices S) \<subseteq> replay_pending es ((?L - disconnected_ids e) \<union> connected_ids e) \<union> ds_failed S"
    using assms(3) by (simp_all add: system_ok_def handle(2))
  ultimately show ?thesis unfolding system_ok_def handle(1) by simp blast
qed

lemma system_start: "system_ok (first_poll m)"
  by (simp add: system_ok_def first_poll_def service_ids_def NewHidService_def)

lemma system_reachable: "(device_step js order open_path get)\<^sup>*\<^sup>* (first_poll m) S \<Longrightarrow> range_order order \<Longrightarrow> system_ok S"
  by (induction rule: rtranclp_induct) (auto intro: system_start system_step)

text \<open>Opening an identifier that the backend published opens the device with that address.\<close>

lemma published_opens:
  assumes "hidDevices a = Some info" "- (2 ^ 63) \<le> Interface a" "Interface a < 2 ^ 63"
  shows "linux_OpenInputDevice open_path hidDevices (HidAddress_String a) =
    obind (open_path (di_Path info)) (\<lambda>dev. Ret \<lparr>hd_info = info, hd_dev = dev\<rparr>)"
  using assms by (simp add: linux_OpenInputDevice_def ParseHidAddress_String)

text \<open>A device that is known keeps the path it had when it appeared, and is not published again.\<close>

lemma known_device_kept:
  assumes "range_order order" "finite (dom known)" "known a = Some info" "refreshHidDevices order (Some ds) known = (known', ev)" "a \<in> device_address ` set ds"
  shows "known' a = Some info \<and> (\<forall>e. ev = Some e \<longrightarrow> HidAddress_String a \<notin> connected_ids e)"
  using refreshHidDevices_known [OF assms(1,2), of ds] assms(3-5)
  by (auto simp: map_add_def restrict_map_def domIff HidAddress_String_inj split: option.splits)

end
