(* ===== verification/DeviceProperties.thy ===== *)
theory DeviceProperties
  imports SendString GeneratedTables GeneratedConstants Startup ValueJson DeviceAcquire EventBus EventText ActionCreators HidNodeRuns HidNodeFacts UhidDevices MessageBus GraphRuns LinuxFacts UsagePageFacts CodecProperties "HOL-Library.Product_Lexorder"
begin

section \<open>Properties of devices, asynchronous actions and the bus\<close>

text \<open>
  What the theories of the HID service, the Linux backend, the input and output nodes, the asynchronous
  actions, the message bus and the usage tables show, each with an instance.
\<close>

subsection \<open>Asynchronous actions\<close>

text \<open>
  C5. A bind whose actions run only simple actions in their goroutines never hangs: from every state
  that it can reach, also in the middle of an interruption, it can go on to take the next event.
\<close>

theorem interruptions_end:
  assumes "\<forall>(us, a) \<in> set items. tame a" "(bind_step interrupt)\<^sup>*\<^sup>* (new_bind items) s"
  shows "\<exists>s'. (bind_step interrupt)\<^sup>*\<^sup>* s s' \<and> sy_main s' = Idle"
  by (rule becomes_idle [OF calm_reachable [OF assms(2) calm_new_bind [OF assms(1)]]])

text \<open>A key that is a shift when it is held, interrupted by another key.\<close>

definition shift_binding :: "(Usage list \<times> act) list" where
  "shift_binding = [([4], TapHoldAct (Toggle [4]) (Toggle [225]) 250 1)]"

definition shift_interrupted :: bind_system where
  "shift_interrupted = after_event always_interrupt (key_event 5 True)
     (after_interrupted (after_event always_interrupt (key_event 4 True) (new_bind shift_binding)))"

lemma shift_interrupted_reachable: "(bind_step always_interrupt)\<^sup>*\<^sup>* (new_bind shift_binding) shift_interrupted"
proof -
  let ?a = "after_event always_interrupt (key_event 4 True) (new_bind shift_binding)"
  have idle: "sy_main (new_bind shift_binding) = Idle" "sy_main (after_interrupted ?a) = Idle" by code_simp+
  have "(bind_step always_interrupt)\<^sup>*\<^sup>* (new_bind shift_binding) ?a" using idle(1) by (rule after_event_step)
  also have "(bind_step always_interrupt)\<^sup>*\<^sup>* ?a (after_interrupted ?a)" by (rule after_interrupted_step)
  also have "(bind_step always_interrupt)\<^sup>*\<^sup>* (after_interrupted ?a) shift_interrupted"
    unfolding shift_interrupted_def using idle(2) by (rule after_event_step)
  finally show ?thesis .
qed

lemma interruptions_end_witness:
  "sy_main shift_interrupted \<noteq> Idle \<and> (\<exists>s'. (bind_step always_interrupt)\<^sup>*\<^sup>* shift_interrupted s' \<and> sy_main s' = Idle)"
proof
  show "sy_main shift_interrupted \<noteq> Idle" by code_simp
  show "\<exists>s'. (bind_step always_interrupt)\<^sup>*\<^sup>* shift_interrupted s' \<and> sy_main s' = Idle"
    by (rule interruptions_end [OF _ shift_interrupted_reachable]) (simp add: shift_binding_def plain_def)
qed



text \<open>
  C32. The statement \<open>tapHold(x, y)\<close> makes a handler that runs the actions of the statements \<open>x\<close> and \<open>y\<close>,
  with the delays that the signature of \<open>tapHold\<close> has as defaults.
\<close>

theorem statements_build:
  assumes "parser (xd_Signature tapHold_Descriptor) = Ret tapHold_declaration"
    and "RegisterAction_type parser reg (xd_Signature tapHold_Descriptor) tapHold_CreateHandler = Ret (gr_registry g)"
    and "action_handler pages aliases uh g onTap = Ret (Some t)" "action_handler pages aliases uh g onHold = Ret (Some h)"
    and "st_Usage onTap \<noteq> None \<or> st_Expr onTap \<noteq> None" "st_Usage onHold \<noteq> None \<or> st_Expr onHold \<noteq> None"
  shows "action_handler pages aliases uh g (call ''tapHold'' [statement_arg onTap, statement_arg onHold]) =
    Ret (Some (TapHoldAct t h 250000000 1000000))"
  using assms by (rule tapHold_statement)

text \<open>A registry with one action.\<close>

definition one_action :: "Declaration \<Rightarrow> (act, nat) ActionCreator \<Rightarrow> (act, nat, unit) GraphRegistry" where
  "one_action decl creator = \<lparr>gr_registry = \<lparr>rg_nodes = Map.empty,
       rg_actions = [d_Identifier decl \<mapsto> \<lparr>xr_action = creator, xr_declaration = decl\<rparr>]\<rparr>,
     gr_nodeTypes = Map.empty, gr_declarations = Map.empty, gr_actions = Map.empty, gr_signals = Map.empty\<rparr>"

lemma one_action_registered:
  "ParseDeclaration parser sig = Ret decl \<Longrightarrow>
     RegisterAction_type parser (emptyRegistry :: (act, nat, unit) Registry) sig creator = Ret (gr_registry (one_action decl creator))"
  by (simp add: RegisterAction_type_def emptyRegistry_def NewRegistry_def registry_Register_def one_action_def)

definition key_statement :: "string \<Rightarrow> Statement" where
  "key_statement name = \<lparr>st_Usage = Some \<lparr>us_Usage = '''', us_Value = 0, us_Usages = [name]\<rparr>, st_Expr = None\<rparr>"

definition keyboard_pages :: "u16 \<rightharpoonup> PageInfo" where
  "keyboard_pages = [7 \<mapsto> \<lparr>pg_Code = 7, pg_Name = ''Keyboard'', pg_Alias = ''kb'', pg_Usages = Some newUsageTable\<rparr>]"

lemma statements_build_witness:
  "action_handler keyboard_pages [''kb'' \<mapsto> 7] act_usage_handlers (one_action tapHold_declaration tapHold_CreateHandler)
     (call ''tapHold'' [statement_arg (key_statement ''A''), statement_arg (key_statement ''LeftShift'')]) =
   Ret (Some (TapHoldAct (Toggle [0x70004]) (Toggle [0x700e1]) 250000000 1000000))"
proof -
  let ?parser = "\<lambda>sig. if sig = xd_Signature tapHold_Descriptor then Ret tapHold_declaration else Fail ''syntax error''"
  let ?g = "one_action tapHold_declaration tapHold_CreateHandler"
  have p: "?parser (xd_Signature tapHold_Descriptor) = Ret tapHold_declaration" by simp
  have keys: "ParseUsages keyboard_pages [''kb'' \<mapsto> 7] [''A''] = Ret [0x70004]" "ParseUsages keyboard_pages [''kb'' \<mapsto> 7] [''LeftShift''] = Ret [0x700e1]"
    by code_simp+
  have key: "action_handler keyboard_pages [''kb'' \<mapsto> 7] act_usage_handlers ?g (key_statement n) = Ret (Some (Toggle us))"
    if "ParseUsages keyboard_pages [''kb'' \<mapsto> 7] [n] = Ret us" for n us
    using that by (subst action_handler.simps) (simp add: key_statement_def NewUsageActionHandler_def act_usage_handlers_def)
  show ?thesis
    by (rule statements_build [OF p one_action_registered [OF declarations_accepted(2) [where parser = ?parser, OF p]] key key])
      (use keys in \<open>simp_all add: key_statement_def\<close>)
qed

text \<open>
  C39. \<open>tap(null)\<close> is accepted as a statement, and every command of the goroutine that its handler starts
  panics: \<open>null\<close> is a nil handler, and nothing checks for it.
\<close>

theorem null_action_panics:
  assumes "parser (xd_Signature tap_Descriptor) = Ret tap_declaration"
    and "RegisterAction_type parser reg (xd_Signature tap_Descriptor) tap_CreateHandler = Ret (gr_registry g)"
  shows "\<exists>a. action_handler pages aliases uh g (call ''tap'' [null_arg]) = Ret (Some a)
    \<and> (\<exists>p' f pl. start_act a p e = Some (p', e, Some f) \<and> map_option as_place (po_async p' (po_next p)) = Some pl
        \<and> commands now intr finished pl \<noteq> [] \<and> (\<forall>c \<in> set (commands now intr finished pl). \<forall>q. run_command g' c q = None))"
proof (intro exI conjI)
  show "action_handler pages aliases uh g (call ''tap'' [null_arg]) = Ret (Some (TapAct NilAct 2000000))"
    using assms by (rule null_statement)
  let ?r = "runAsync (TapBegin NilAct 2000000) p"
  show "start_act (TapAct NilAct 2000000) p e = Some (fst ?r, e, Some (snd ?r))" by (simp split: prod.split)
  show "map_option as_place (po_async (fst ?r) (po_next p)) = Some (TapBegin NilAct 2000000)" by (simp add: runAsync_def Let_def)
qed (simp_all add: run_command_def)

lemma null_action_panics_witness:
  "\<exists>a p' f pl. action_handler Map.empty Map.empty act_usage_handlers (one_action tap_declaration tap_CreateHandler) (call ''tap'' [null_arg]) = Ret (Some a)
     \<and> start_act a NewActionContextPool (NewEvent 0) = Some (p', NewEvent 0, Some f)
     \<and> (\<forall>c \<in> set (commands 0 False False pl). run_command 0 c p' = None)"
proof -
  let ?parser = "\<lambda>sig. if sig = xd_Signature tap_Descriptor then Ret tap_declaration else Fail ''syntax error''"
  have p: "?parser (xd_Signature tap_Descriptor) = Ret tap_declaration" by simp
  show ?thesis
    using null_action_panics [OF p one_action_registered [OF declarations_accepted(1) [where parser = ?parser, OF p]],
        of Map.empty Map.empty act_usage_handlers NewActionContextPool "NewEvent 0" 0 False False 0] by blast
qed

subsection \<open>The input node\<close>



subsection \<open>The message bus\<close>

text \<open>
  C12. Between two moments at which the worker is idle, a subscriber that stays receives the messages
  that were published for it, in their order and each once.
\<close>

theorem bus_delivers:
  assumes "bus_step\<^sup>*\<^sup>* NewBus b" "bus_step\<^sup>*\<^sup>* b b'" "bu_phase b = BusIdle" "bu_phase b' = BusIdle" "c < bu_next b" "c \<notin> bu_closed b'"
  shows "bu_received b' c = bu_received b c @ wanted b c (drop (length (bu_published b)) (bu_published b'))"
  using assms by (rule bus_delivers_between)

lemma bus_delivers_witness:
  "\<exists>b :: (nat, nat) Bus. bus_step\<^sup>*\<^sup>* (bus_Subscribe [7] NewBus) b \<and> bu_phase b = BusIdle \<and> bu_published b = [(7, 1)]
     \<and> bu_received b 0 = wanted (bus_Subscribe [7] NewBus :: (nat, nat) Bus) 0 [(7, 1)]"
proof -
  let ?b1 = "bus_Subscribe [7] NewBus :: (nat, nat) Bus"
  let ?b2 = "bus_take 7 1 ?b1"
  let ?b3 = "bus_pass ?b2"
  let ?b4 = "?b3\<lparr>bu_target := Some 0, bu_visited := insert 0 (bu_visited ?b3)\<rparr>"
  let ?b5 = "bus_send 0 ?b4"
  let ?b6 = "bus_pass ?b5"
  note defs = NewBus_def bus_Subscribe_def bus_take_def bus_pass_def bus_send_def bus_candidates_def
  have s1: "bus_step NewBus ?b1" by (rule subscribe) (simp add: NewBus_def)
  have s2: "bus_step ?b1 ?b2" by (rule publish) (simp add: defs)
  have s3: "bus_step ?b2 ?b3" by (rule pass) (simp_all add: defs)
  have s4: "bus_step ?b3 ?b4" by (rule pick) (simp_all add: defs)
  have s5: "bus_step ?b4 ?b5" by (rule send) simp
  have s6: "bus_step ?b5 ?b6" by (rule pass) (simp_all add: defs)
  have start: "bus_step\<^sup>*\<^sup>* NewBus ?b1" using s1 by (rule r_into_rtranclp)
  have run: "bus_step\<^sup>*\<^sup>* ?b1 ?b6"
    by (rule converse_rtranclp_into_rtranclp, rule s2, rule converse_rtranclp_into_rtranclp, rule s3,
        rule converse_rtranclp_into_rtranclp, rule s4, rule converse_rtranclp_into_rtranclp, rule s5,
        rule converse_rtranclp_into_rtranclp, rule s6, rule rtranclp.rtrancl_refl)
  have "bu_received ?b6 0 = bu_received ?b1 0 @ wanted ?b1 0 (drop (length (bu_published ?b1)) (bu_published ?b6))"
    using start run by (rule bus_delivers) (simp_all add: defs)
  then show ?thesis using run by (intro exI [of _ ?b6]) (simp add: defs)
qed


subsection \<open>The output node\<close>

text \<open>
  C14. An output with one input has the input's report descriptor. With a second input, and while an ID
  is free, the reports of the second get IDs that no report of the first has, and the rest of its
  descriptor is unchanged.
\<close>

theorem output_combines_inputs:
  assumes "wf_descriptor d1" "Collections d1 \<noteq> []" "get a1 = Ret (Encode d1)"
  shows "buildDescriptor get [a1] = Some (Ret d1)
    \<and> (\<forall>a2 d2. wf_descriptor d2 \<longrightarrow> get a2 = Ret (Encode d2) \<longrightarrow> set (report_ids d1) \<union> set (report_ids d2) \<noteq> UNIV \<longrightarrow>
        (\<exists>f. buildDescriptor get [a1, a2] = Some (Ret \<lparr>Collections = Collections d1 @ map (renumber f) (Collections d2)\<rparr>)
          \<and> (\<forall>i \<in> set (report_ids d2). f i \<notin> set (report_ids d1))))"
proof (intro conjI allI impI)
  show "buildDescriptor get [a1] = Some (Ret d1)" using assms(3,1,2) by (rule single_input)
  fix a2 d2
  assume "wf_descriptor d2" "get a2 = Ret (Encode d2)" "set (report_ids d1) \<union> set (report_ids d2) \<noteq> UNIV"
  then show "\<exists>f. buildDescriptor get [a1, a2] = Some (Ret \<lparr>Collections = Collections d1 @ map (renumber f) (Collections d2)\<rparr>)
      \<and> (\<forall>i \<in> set (report_ids d2). f i \<notin> set (report_ids d1))"
    using assms by (intro two_inputs [where get = get and ?a1.0 = a1 and ?a2.0 = a2])
qed

lemma mouse_wf: "wf_descriptor mouse_descriptor"
  by (simp add: wf_descriptor_def mouse_descriptor_def mouse_buttons_def mouse_axes_def wf_data_item_def i32_survives_def)

text \<open>Two mice whose reports have the ID 1: the second gets another.\<close>

definition mice :: "Address \<Rightarrow> (string, u8 list) outcome" where
  "mice a = Ret (Encode mouse_descriptor)"

lemma output_combines_inputs_witness:
  "buildDescriptor mice [linux_address ''1''] = Some (Ret mouse_descriptor)
   \<and> (\<exists>f. f 1 \<noteq> 1 \<and> buildDescriptor mice [linux_address ''1'', linux_address ''2''] =
       Some (Ret \<lparr>Collections = Collections mouse_descriptor @ map (renumber f) (Collections mouse_descriptor)\<rparr>))"
proof -
  have ids: "report_ids mouse_descriptor = [1]" by code_simp
  have ne: "Collections mouse_descriptor \<noteq> []" by (simp add: mouse_descriptor_def)
  have free: "set (report_ids mouse_descriptor) \<union> set (report_ids mouse_descriptor) \<noteq> UNIV"
    using ids by (auto simp: set_eq_iff intro: exI [of _ 0])
  note c = output_combines_inputs [of mouse_descriptor mice "linux_address ''1''", OF mouse_wf ne mice_def]
  show ?thesis
    using conjunct1 [OF c] conjunct2 [OF c, rule_format, OF mouse_wf mice_def free, of "linux_address ''2''"] by (auto simp: ids)
qed

subsection \<open>Virtual devices\<close>





subsection \<open>Usage names\<close>




text \<open>
  The patterns by which a bind is interrupted when its configuration has none match exactly the
  keyboard, consumer and button pages and the wheel.
\<close>

lemma default_patterns_match:
  assumes "camel ''Wheel'' = ''Wheel''" "distinct (map (\<lambda>r. camel (fst (snd r))) usages_dsk)"
  shows "\<exists>m. NewMatcher (known_pages camel) pageAliasMap [''kb.*'', ''con.*'', ''btn.*'', ''dsk.Wheel''] = Ret m
    \<and> (\<forall>page i. m page i \<longleftrightarrow> page \<in> {0x07, 0x0c, 0x09} \<or> page = 0x01 \<and> i = 0x38)"
  using assms by (rule default_patterns)

lemma default_patterns_match_witness:
  "\<exists>m. NewMatcher (known_pages (\<lambda>s. s)) pageAliasMap [''kb.*'', ''con.*'', ''btn.*'', ''dsk.Wheel''] = Ret m
    \<and> m 0x07 4 \<and> m 0x01 0x38 \<and> \<not> m 0x01 0x30"
proof -
  have "distinct (map string_code (map (\<lambda>r. fst (snd r)) usages_dsk))"
    by (simp add: usages_dsk_def)
  then have "distinct (map (\<lambda>r. fst (snd r)) usages_dsk)" unfolding distinct_map by blast
  then obtain m where "NewMatcher (known_pages (\<lambda>s. s)) pageAliasMap [''kb.*'', ''con.*'', ''btn.*'', ''dsk.Wheel''] = Ret m"
    "\<forall>page i. m page i \<longleftrightarrow> page \<in> {0x07, 0x0c, 0x09} \<or> page = 0x01 \<and> i = 0x38"
    using default_patterns_match [of "\<lambda>s. s"] by blast
  then show ?thesis by (intro exI [of _ m]) simp
qed

subsection \<open>The HID service\<close>


text \<open>A codec for one device, seen at two times.\<close>

definition mouse_fields :: "int \<Rightarrow> string \<times> BackendDevice \<times> string \<times> int \<times> int" where
  "mouse_fields t = (''linux/046d:c547:0'', \<lparr>bd_ID = ''046d:c547:0'', bd_Name = ''Mouse''\<rparr>, ''Mouse'', 5, t)"

definition mouse_json :: json where
  "mouse_json = \<lparr>js_clean = (\<lambda>s. s),
     js_marshal = (\<lambda>r. if r = mouse_fields 5 then Some [5] else if r = mouse_fields 9 then Some [9] else None),
     js_unmarshal = (\<lambda>b. if b = [5] \<or> b = [9]
       then Some (AddressString ''linux/046d:c547:0'', \<lparr>bd_ID = ''046d:c547:0'', bd_Name = ''Mouse''\<rparr>, ''Mouse'', 5, uint (hd b)) else None)\<rparr>"

lemma mouse_json_codec: "json_codec mouse_json"
  by (auto simp: json_codec_def mouse_json_def mouse_fields_def split: if_splits)

definition mouse_backend :: backends where
  "mouse_backend = [''linux'' \<mapsto> (\<lambda>i. Ret [0x05, 0x01])]"




text \<open>
  C36. A device that connects again keeps its name and the time it was first seen and gets a new time it
  was last seen. A device whose identifier has a slash cannot connect again: its record cannot be read.
\<close>

theorem device_reconnects:
  assumes "json_codec js" "initializeInputDevice js B1 t1 backendID bdev m = (Ret dev1, m1)" "t1 \<noteq> 0"
    and "\<And>c. c \<in> set backendID \<union> set (bd_ID bdev) \<Longrightarrow> of_char c < (128 :: nat)" "CHR ''/'' \<notin> set backendID" "CHR ''.'' \<notin> set (bd_ID bdev)"
    and "m2 (inputDeviceKey (hd_Address dev1)) = m1 (inputDeviceKey (hd_Address dev1))"
    and "B2 backendID = Some open_device" "open_device (bd_ID bdev) = Ret desc" "bd_ID bdev2 = bd_ID bdev"
    and "marshal_device js (seen_device t2 (hd_Address dev1) bdev2 (cleaned js dev1)) \<noteq> None"
  shows "if CHR ''/'' \<in> set (bd_ID bdev)
    then initializeInputDevice js B2 t2 backendID bdev2 m2 = (Fail ''failed to unmarshal device'', m2)
    else \<exists>dev2 m3. initializeInputDevice js B2 t2 backendID bdev2 m2 = (Ret dev2, m3)
      \<and> hd_FirstSeenAt dev2 = hd_FirstSeenAt dev1 \<and> hd_LastSeenAt dev2 = t2 \<and> hd_Name dev2 = js_clean js (hd_Name dev1)
      \<and> hd_BackendDevice dev2 = bdev2"
proof -
  let ?a = "\<lparr>ad_Backend = backendID, ad_ID = bd_ID bdev\<rparr>"
  have dev: "hd_Address dev1 = ?a" "hd_FirstSeenAt dev1 \<noteq> 0"
    using assms(2) by (rule initializeInputDevice_Ret; use assms(3) in simp)+
  have load: "load_device js m2 (inputDeviceKey ?a) bdev2 =
      (if CHR ''/'' \<in> set (bd_ID bdev) then Fail ''failed to unmarshal device'' else Ret (cleaned js dev1))"
    using assms(1,2,4-7) by (rule load_again)
  obtain b where b: "marshal_device js (seen_device t2 ?a bdev2 (cleaned js dev1)) = Some b" using assms(11) dev(1) by auto
  show ?thesis
  proof (cases "CHR ''/'' \<in> set (bd_ID bdev)")
    case True
    then show ?thesis using load assms(8-10) by (simp add: initializeInputDevice_def)
  next
    case False
    then show ?thesis using load b assms(8-10) dev(2) by (simp add: initializeInputDevice_def Let_def)
  qed
qed

lemma device_reconnects_witness:
  "\<exists>dev1 m1 dev2 m3. initializeInputDevice mouse_json mouse_backend 5 ''linux'' \<lparr>bd_ID = ''046d:c547:0'', bd_Name = ''Mouse''\<rparr> Map.empty = (Ret dev1, m1)
     \<and> initializeInputDevice mouse_json mouse_backend 9 ''linux'' \<lparr>bd_ID = ''046d:c547:0'', bd_Name = ''Mouse''\<rparr> m1 = (Ret dev2, m3)
     \<and> hd_FirstSeenAt dev2 = 5 \<and> hd_LastSeenAt dev2 = 9"
proof -
  let ?bdev = "\<lparr>bd_ID = ''046d:c547:0'', bd_Name = ''Mouse''\<rparr>"
  let ?dev1 = "\<lparr>hd_Address = linux_address ''046d:c547:0'', hd_BackendDevice = ?bdev, hd_Name = ''Mouse'', hd_FirstSeenAt = 5, hd_LastSeenAt = 5\<rparr>"
  obtain m1 where first: "initializeInputDevice mouse_json mouse_backend 5 ''linux'' ?bdev Map.empty = (Ret ?dev1, m1)"
    by (simp add: initializeInputDevice_def mouse_backend_def load_device_def named_device_def seen_device_def marshal_device_def
        mouse_json_def mouse_fields_def linux_address_def Address_String_def Let_def)
  have ascii: "\<And>c. c \<in> set ''linux'' \<union> set (bd_ID ?bdev) \<Longrightarrow> of_char c < (128 :: nat)" by auto
  have "if CHR ''/'' \<in> set (bd_ID ?bdev)
    then initializeInputDevice mouse_json mouse_backend 9 ''linux'' ?bdev m1 = (Fail ''failed to unmarshal device'', m1)
    else \<exists>dev2 m3. initializeInputDevice mouse_json mouse_backend 9 ''linux'' ?bdev m1 = (Ret dev2, m3)
      \<and> hd_FirstSeenAt dev2 = hd_FirstSeenAt ?dev1 \<and> hd_LastSeenAt dev2 = 9 \<and> hd_Name dev2 = js_clean mouse_json (hd_Name ?dev1)
      \<and> hd_BackendDevice dev2 = ?bdev"
    by (rule device_reconnects [OF mouse_json_codec first _ ascii, where open_device = "\<lambda>i. Ret [0x05, 0x01]" and desc = "[0x05, 0x01]"])
      (simp_all add: mouse_backend_def marshal_device_def seen_device_def cleaned_def mouse_json_def mouse_fields_def
        linux_address_def Address_String_def)
  then show ?thesis using first by auto
qed





subsection \<open>Tap or hold\<close>

text \<open>
  C16. A goroutine of tapHold whose actions are keys decides once, whatever the other goroutines, the
  clock and the events do: it sends nothing, or presses the hold key, only after an interruption or the
  delay and with its release registered, or, only when the action has finished, presses the tap key and
  releases it no earlier than the duration of the tap later.
\<close>

theorem tap_hold_decides:
  assumes "(bind_step interrupt)\<^sup>*\<^sup>* (new_bind items) s" "po_async (sy_pool s) g = Some a"
    "as_place a = HoldSelect (Toggle tap) (Toggle hld) t td" "as_onFinish a = []"
    "(watched interrupt g)\<^sup>*\<^sup>* (s, []) (s', log)"
  shows "\<exists>a'. po_async (sy_pool s') g = Some a' \<and>
    (log = []
     \<or> (\<exists>n. log = [(n, pressed hld n)] \<and> (as_interrupt a' \<or> t \<le> n) \<and> as_onFinish a' = [Deactivate hld])
     \<or> as_finished a' \<and> as_onFinish a' = [] \<and>
       (\<exists>n. log = [(n, pressed tap n)] \<or> (\<exists>m. n + td \<le> m \<and> log = [(n, pressed tap n), (m, released tap m)])))"
  using tap_hold_logs [OF assms] by (simp only: tap_hold_log_def)

lemma tap_hold_decides_witness:
  "\<exists>a'. po_async (sy_pool (fst layer_held)) 0 = Some a' \<and> snd layer_held = [(1, pressed [225] 1)] \<and> as_onFinish a' = [Deactivate [225]]"
proof -
  have "(4 :: Usage) \<noteq> 225" by simp
  have tap: "pressed [4] 1 \<noteq> pressed [225] 1" by code_simp
  show ?thesis
    using tap_hold_decides [OF layer_pressed_reachable layer_waits _ _ layer_held_watched, of "[4]" "[225]" 1 1] layer_log tap
    by auto
qed

subsection \<open>Typed strings\<close>

text \<open>
  C17. A goroutine of sendString whose characters are keys types a prefix of them in order, whatever the
  other goroutines, the clock and the events do: each is pressed and then released, no earlier than the
  delay later unless the goroutine was interrupted, before the next is pressed. When it has returned, no
  key is down, and all have been typed or it was interrupted.
\<close>

theorem string_typed_in_order:
  assumes "(bind_step interrupt)\<^sup>*\<^sup>* (new_bind items) s" "po_async (sy_pool s) g = Some a"
    "as_place a = ChainNext (map Toggle keys) d" "as_onFinish a = []" "(watched interrupt g)\<^sup>*\<^sup>* (s, []) (s', log)"
  shows "\<exists>a' ks rest. po_async (sy_pool s') g = Some a' \<and> keys = ks @ rest \<and>
    (typed (as_interrupt a') d ks log \<and> (as_place a' = Returned \<longrightarrow> rest = [] \<or> as_interrupt a')
     \<or> as_place a' \<noteq> Returned \<and> (\<exists>us rest' n l. rest = us # rest' \<and> log = l @ [(n, pressed us n)] \<and> typed (as_interrupt a') d ks l))"
  by (rule string_logs [OF assms])

lemma string_typed_in_order_witness: "typed False 1 [[5], [6]] (snd word_typed)"
  using string_typed_in_order [OF word_pressed_reachable word_waits _ _ word_typed_watched, of "[[5], [6]]" 1] word_returned by auto

subsection \<open>The generated tables\<close>

text \<open>
  C18. Every table of usages that the program has is what its generator reads in a document with a row for
  each usage: the numbers, names and types come through the escapes, the columns and the separators. The
  document may have other lines before its table.
\<close>

theorem generator_reads_tables:
  assumes "(code, a, n, Some (Rows us)) \<in> set page_tables" "\<forall>l \<in> set (split_at newline header). \<not> has_prefix ''|'' l"
    "usageParsers fileName = (if code = KeyboardKeypad then Some (Some parseKeyboard) else None)"
    "meta (document header us) = front_matter code a n"
  shows "\<exists>page. parsePage meta fileName (document header us) = Some page \<and> gp_code page = code \<and> gp_alias page = a
    \<and> gp_name page = n \<and> gp_ordinalPrefix page = [] \<and> map usage_triple (gp_usages page) = us"
proof -
  obtain page where "parsePage meta fileName (document header us) = Some page"
    "gp_code page = code" "gp_alias page = a" "gp_name page = n" "gp_ordinalPrefix page = []" "map usage_triple (gp_usages page) = us"
    using assms by (rule page_read)
  then show ?thesis by blast
qed

lemma generator_reads_tables_witness:
  "\<exists>page. parsePage (\<lambda>fb. front_matter 0xf1d0 ''fid'' ''FIDO Alliance Page'') ''fido.md'' (document ''# Usage Table'' usages_fid) = Some page
     \<and> map usage_triple (gp_usages page) = usages_fid"
proof -
  have row: "(0xf1d0, ''fid'', ''FIDO Alliance Page'', Some (Rows usages_fid)) \<in> set page_tables" by (simp add: page_tables_def)
  have header: "\<forall>l \<in> set (split_at newline ''# Usage Table''). \<not> has_prefix ''|'' l" by code_simp
  show ?thesis
    using generator_reads_tables [OF row header, of "''fido.md''" "\<lambda>fb. front_matter 0xf1d0 ''fid'' ''FIDO Alliance Page''"]
    by (auto simp: usageParsers_def KeyboardKeypad_def)
qed

subsection \<open>Starting the agent\<close>



text \<open>
  C19. From every state of the agent in which no goroutine has panicked it can return, with its first
  error, when it is cancelled.
\<close>

theorem agent_can_return:
  assumes "(agent_step w ids)\<^sup>*\<^sup>* new_agent s" "\<not> ag_panicked s" "can_watch w ok"
  shows "\<exists>s' r. (agent_step w ids)\<^sup>*\<^sup>* s s' \<and> ag_result s' = Some r \<and> r = ag_error s' \<and> (ag_error s \<noteq> None \<longrightarrow> r = ag_error s)"
  using agent_returns [OF agent_reachable [OF assms(1) new_agent_ok] assms(2,3)] by blast

lemma agent_can_return_witness:
  "\<exists>s' r. (agent_step lucky [''linux''])\<^sup>*\<^sup>* new_agent s' \<and> ag_result s' = Some r \<and> r = ag_error s'"
proof -
  have "\<not> ag_panicked new_agent" "can_watch lucky True" by (simp_all add: new_agent_def lucky_def)
  from agent_can_return [OF rtranclp.rtrancl_refl this, of "[''linux'']"] show ?thesis by blast
qed

end
