(* ===== verification/Spec2Isabelle.thy ===== *)
theory Spec2Isabelle
  imports NodeProperties FlowProperties DeviceProperties
begin

text \<open>
  neio-agent remaps input devices. It reads HID reports of real devices, turns them into events, sends
  the events through a graph of nodes that a configuration describes, and turns them back into reports of
  virtual devices. This development translates the program's Go code into definitions and proves what
  makes it correct; what it gets wrong is proved too, and listed with the theorems.

  How the parts interact. The Linux backend polls the devices and publishes what changed; the HID service
  stores each device and its report descriptor and publishes connections on its buses; an input node
  opens its device, decodes the descriptor, and broadcasts an event per report to the nodes after it; bind,
  mux and split nodes change, hold back and route events; an output node applies events to the state of
  a virtual device and writes the reports. The flow service builds the graph from the configuration,
  validates it, creates and configures the nodes, and rebuilds it when its shape changes.

  Bits, descriptors and reports.
    PkgBits, BitsFacts, BitsStream: pkg/bits (Bits, Scanner, ConcatBits). HidDesc, DescDecoder,
    DescEncoder: hidapi/hiddesc and hidapi/usage.go; the decoder is a state machine that is fed pieces of
    bytes, a command per tag. DescCodec, DescSync, DescRoundTrip, Signed: decoding what was encoded.
    Reports, ReportFacts: data_items.go, report.go, codec.go. UsageSets, UsageSetLaws, UsageValueItems:
    the interfaces to the fields of a report; the locale of UsageSetLaws is what every usage set
    promises. CodecProperties holds the properties of these.

  Events and report states.
    HidEvent: event.go, an indexed list of usages; its locale says that it is a map. ReportStates:
    state.go; ReportStateFacts, ReportEvents, KeyState, KeyTotal: its invariants, the event of a report,
    the reports of an event. HidUsage, KeyNames, HidUsageFacts: the names of usages. UsagePages is
    pages_gen.go, table by table; UsagePageFacts shows that its names are read back. EventText is the text
    of an event. StateProperties holds the properties.

  Generated code.
    PageGenerator: usagepages/cmd/generate-pages, from the lines of a document to the source that is
    written. PageGeneratorFacts: a table that is written as a document is read back. GeneratedTables: every
    table of UsagePages is such a table. GeneratedConstants: the constants beside the tables.

  Nodes and actions.
    FlowApi: what a handler is, and what a receiver of events holds. Actions, Bind, Mux, Split: the
    nodes of components. AsyncActions: the goroutines of mod, tap, tapHold, repeat and sendString as places
    with commands, the pool that starts, finishes and interrupts them, and their interleaving with the
    bind; AsyncFacts: when an interruption ends and when it never does; TapHold and SendString: what a goroutine
    of tapHold and of sendString sends in any run. ActionCreators: how the arguments of a statement make a handler. NodeTypes:
    the node types with their registrations. Pipeline runs a device, a bind and an output device together.
    NodeProperties holds the properties.

  Flows.
    FlowDsl, ValueJson, FlowRegistry, FlowGraph, FlowService: declarations and arguments, values as JSON,
    registries, validation, building and configuring a graph, the service over time; FlowServiceFacts: what is invariant.
    ConfigService: config_service.go. FlowFiles: the entries of the configuration file, and the flow service
    together with the configuration service. GraphRuns: the goroutines of a graph. MessageBus: pkg/bus, with
    the steps of its worker, of subscribers and of ending subscriptions interleaved; EventBus: its events of
    subscriptions, and a subscription in its parts. FlowProperties holds the properties.

  Devices.
    HidService, HidServiceFacts: hid_service.go. LinuxDevices, LinuxFacts, UhidDevices: linux_backend.go,
    alone and together with the service; DeviceAcquire: how a device is taken from the system. Startup: the
    start and end of the agent, its three services and the backends, as a step relation. HidNodes,
    HidNodeFacts: node_input.go and node_output.go; HidNodeRuns: their main loops as a step relation. DeviceProperties holds the properties of devices,
    asynchronous actions, the bus and the usage tables.

  How code is translated. A struct is a record, an enumeration a datatype or its numbers, an integer a
  word of its width; lengths and indices are natural numbers. A panic is None, or Panic of the type
  outcome in theory Prelude, which also has errors. A variable that a closure changes and an object that
  methods change are passed along. Loops are recursive functions that end; a search that need not end
  has fuel: free_id goes through 256 keys, all that a byte has, so no result means that the code
  loops for ever. Goroutines are step relations in which every order of steps is possible; a property of
  reachable states is one of all orders.

  Parameters. The order in which Go ranges over a map (range_order: each key once), the order that
  slices.SortFunc gives equal elements, and the clock (record Env, for report states; tick for the rest);
  strcase.ToCamel (camel), of which is assumed that the names of one page differ; xxhash; the YAML and the
  expression parser, as functions from text to the data they return; encoding/json on device records
  (json_codec: what was written is read back, with strings cleaned); the HID and uhid libraries, as what
  they return for each call; the database, a map. The witnesses give each of them a value.

  Not modelled. The command line and logging. The gadget driver, which nothing uses. The system calls
  below the HID, udev and uhid libraries. What the formatter of Go and the parser of the front matter do for
  the generator, and the grammar of statements, which is a library's. A lock action inside an asynchronous
  action, and whom a signal of one reaches. The accessors of arguments that nothing calls. That a backend
  which is started again registers its file a second time. The text forms of
  descriptors.
\<close>

end
